(* ===== verification/Prelude.thy ===== *)
theory Prelude
  imports Main "HOL-Library.Word"
begin

text \<open>
  Shared vocabulary of the development: the outcome of running a piece of C code (a value,
  a crash, or blocking for ever), the state-passing programs built from it with their
  sequencing rules, the C conversions between integer widths, and generic facts on lists
  that several components use.
\<close>

section \<open>Outcomes and programs\<close>

text \<open>
  A crash is a step the C standard leaves undefined (or an assertion that fails) and that
  the code can reach: it is a value of the model, so that theorems can say that it is, or
  is not, reached.
\<close>

datatype fault =
    NullDeref       \<comment> \<open>a NULL pointer is read through\<close>
  | OutOfBounds     \<comment> \<open>an array is indexed outside its allocation\<close>
  | UninitPointer   \<comment> \<open>a pointer variable is used before it was assigned\<close>
  | AssertFail      \<comment> \<open>an assert does not hold\<close>
  | ShiftRange      \<comment> \<open>a shift count is negative or not below the width\<close>
  | UseAfterFree    \<comment> \<open>memory that has been freed is read\<close>
  | BadData         \<comment> \<open>request data of a shape the handler does not expect\<close>

datatype ('s, 'a) outcome = Done 'a 's | Crash fault | Hang

type_synonym ('s, 'a) prog = "'s \<Rightarrow> ('s, 'a) outcome"

definition ret :: "'a \<Rightarrow> ('s, 'a) prog" where
  "ret x = (\<lambda>s. Done x s)"

definition crash :: "fault \<Rightarrow> ('s, 'a) prog" where
  "crash e = (\<lambda>s. Crash e)"

definition hang :: "('s, 'a) prog" where
  "hang = (\<lambda>s. Hang)"

definition bnd :: "('s, 'a) prog \<Rightarrow> ('a \<Rightarrow> ('s, 'b) prog) \<Rightarrow> ('s, 'b) prog" where
  "bnd m f = (\<lambda>s. case m s of Done x t \<Rightarrow> f x t | Crash e \<Rightarrow> Crash e | Hang \<Rightarrow> Hang)"

definition andthen :: "('s, 'a) prog \<Rightarrow> ('s, 'b) prog \<Rightarrow> ('s, 'b) prog" where
  "andthen m k = bnd m (\<lambda>_. k)"

definition gets :: "('s \<Rightarrow> 'a) \<Rightarrow> ('s, 'a) prog" where
  "gets f = (\<lambda>s. Done (f s) s)"

definition modify :: "('s \<Rightarrow> 's) \<Rightarrow> ('s, unit) prog" where
  "modify f = (\<lambda>s. Done () (f s))"

definition whenever :: "bool \<Rightarrow> ('s, unit) prog \<Rightarrow> ('s, unit) prog" where
  "whenever b m = (if b then m else ret ())"

text \<open>A sequence of statements whose results are not used.\<close>

fun seqs :: "('s, unit) prog list \<Rightarrow> ('s, unit) prog" where
  "seqs [] = ret ()"
| "seqs (m # ms) = andthen m (seqs ms)"

text \<open>The rules that run a program, collected so that a component can evaluate its own.\<close>

named_theorems run_simps "equations that run a program on a state"

lemmas [run_simps] =
  ret_def crash_def hang_def bnd_def andthen_def gets_def modify_def whenever_def

lemma bnd_ret [simp]: "bnd (ret x) f = f x"
  by (simp add: run_simps)

lemma bnd_assoc: "bnd (bnd m f) g = bnd m (\<lambda>x. bnd (f x) g)"
  by (auto simp: run_simps fun_eq_iff split: outcome.splits)

lemma bnd_Done:
  "bnd m f s = Done y t \<longleftrightarrow> (\<exists>x u. m s = Done x u \<and> f x u = Done y t)"
  by (auto simp: bnd_def split: outcome.splits)

lemma andthen_Done:
  "andthen m k s = Done y t \<longleftrightarrow> (\<exists>x u. m s = Done x u \<and> k u = Done y t)"
  by (auto simp: andthen_def bnd_Done)

section \<open>What a program does to an observation of the state\<close>

text \<open>
  \<open>steps R m\<close>: whenever \<open>m\<close> returns, the state it started in and the state it
  ends in are related by \<open>R\<close>.
\<close>

definition steps :: "('s \<Rightarrow> 's \<Rightarrow> bool) \<Rightarrow> ('s, 'a) prog \<Rightarrow> bool" where
  "steps R m \<longleftrightarrow> (\<forall>s x t. m s = Done x t \<longrightarrow> R s t)"

lemma stepsI: "(\<And>s x t. m s = Done x t \<Longrightarrow> R s t) \<Longrightarrow> steps R m"
  by (simp add: steps_def)

lemma stepsD: "steps R m \<Longrightarrow> m s = Done x t \<Longrightarrow> R s t"
  by (simp add: steps_def)

text \<open>
  A frame is a reflexive and transitive relation; the programs that keep to it are closed
  under sequencing, branching and case distinction. The rules are collected in
  \<open>frame_rules\<close>.
\<close>

locale frame =
  fixes R :: "'s \<Rightarrow> 's \<Rightarrow> bool"
  assumes frame_refl: "R s s"
    and frame_trans: "R s t \<Longrightarrow> R t u \<Longrightarrow> R s u"
begin

lemma steps_ret: "steps R (ret x)"
  by (simp add: steps_def ret_def frame_refl)

lemma steps_crash: "steps R (crash e)"
  by (simp add: steps_def crash_def)

lemma steps_hang: "steps R hang"
  by (simp add: steps_def hang_def)

lemma steps_gets: "steps R (gets f)"
  by (simp add: steps_def gets_def frame_refl)

lemma steps_modify: "(\<And>s. R s (f s)) \<Longrightarrow> steps R (modify f)"
  by (simp add: steps_def modify_def)

lemma steps_bnd:
  assumes "steps R m" and "\<And>x. steps R (f x)"
  shows "steps R (bnd m f)"
proof (rule stepsI)
  fix s y t assume "bnd m f s = Done y t"
  then obtain x u where "m s = Done x u" and "f x u = Done y t"
    by (auto simp: bnd_Done)
  with assms show "R s t" by (blast intro: frame_trans dest: stepsD)
qed

lemma steps_andthen: "steps R m \<Longrightarrow> steps R k \<Longrightarrow> steps R (andthen m k)"
  by (simp add: andthen_def steps_bnd)

lemma steps_whenever: "steps R m \<Longrightarrow> steps R (whenever b m)"
  by (simp add: whenever_def steps_ret)

lemma steps_seqs: "(\<And>m. m \<in> set ms \<Longrightarrow> steps R m) \<Longrightarrow> steps R (seqs ms)"
  by (induction ms) (auto intro: steps_ret steps_andthen)

lemma steps_if: "(b \<Longrightarrow> steps R m) \<Longrightarrow> (\<not> b \<Longrightarrow> steps R k) \<Longrightarrow> steps R (if b then m else k)"
  by simp

lemma steps_option:
  "steps R a \<Longrightarrow> (\<And>x. steps R (b x)) \<Longrightarrow> steps R (case v of None \<Rightarrow> a | Some x \<Rightarrow> b x)"
  by (simp split: option.split)

lemma steps_list:
  "steps R a \<Longrightarrow> (\<And>x xs. steps R (b x xs)) \<Longrightarrow> steps R (case v of [] \<Rightarrow> a | x # xs \<Rightarrow> b x xs)"
  by (simp split: list.split)

lemma steps_prod: "(\<And>x y. steps R (b x y)) \<Longrightarrow> steps R (case v of (x, y) \<Rightarrow> b x y)"
  by (simp split: prod.split)

lemma steps_let: "(\<And>x. steps R (f x)) \<Longrightarrow> steps R (Let v f)"
  by (simp add: Let_def)

lemmas frame_rules =
  steps_ret steps_crash steps_hang steps_gets steps_bnd steps_andthen steps_whenever
  steps_if steps_option steps_list steps_prod steps_let

end

text \<open>Agreement of two states on an observation is a frame.\<close>

interpretation obs_frame: frame "\<lambda>s t. obs t = obs s" for obs :: "'s \<Rightarrow> 'o"
  by unfold_locales auto

section \<open>Programs that always return\<close>

definition returns :: "('s, 'a) prog \<Rightarrow> bool" where
  "returns m \<longleftrightarrow> (\<forall>s. \<exists>x t. m s = Done x t)"

named_theorems returns_rules "programs that return from every state"

lemma returns_basic [returns_rules]: "returns (ret x)" "returns (gets f)" "returns (modify g)"
  by (auto simp: returns_def run_simps)

lemma returns_bnd [returns_rules]: "returns m \<Longrightarrow> (\<And>x. returns (f x)) \<Longrightarrow> returns (bnd m f)"
  unfolding returns_def bnd_Done by blast

lemma returns_andthen [returns_rules]: "returns m \<Longrightarrow> returns k \<Longrightarrow> returns (andthen m k)"
  by (simp add: andthen_def returns_bnd)

lemma returns_cases [returns_rules]:
  "(b \<Longrightarrow> returns m) \<Longrightarrow> returns (whenever b m)"
  "(b \<Longrightarrow> returns m) \<Longrightarrow> (\<not> b \<Longrightarrow> returns k) \<Longrightarrow> returns (if b then m else k)"
  "(\<And>x y. v = (x, y) \<Longrightarrow> returns (g x y)) \<Longrightarrow> returns (case v of (x, y) \<Rightarrow> g x y)"
  "(\<And>x. x = u \<Longrightarrow> returns (h x)) \<Longrightarrow> returns (Let u h)"
  by (auto simp: whenever_def Let_def returns_basic split: prod.split)

lemma returns_seqs [returns_rules]: "(\<And>m. m \<in> set ms \<Longrightarrow> returns m) \<Longrightarrow> returns (seqs ms)"
  by (induction ms) (auto intro: returns_rules)

section \<open>C integers\<close>

text \<open>
  A C \<open>int\<close> is modelled by an \<open>int\<close> in the range of 32 bits; a conversion to \<open>int\<close>
  from a wider type keeps the low 32 bits and reads them as two's complement.
\<close>

definition INT_MAX :: int where "INT_MAX = 2147483647"
definition INT_MIN :: int where "INT_MIN = - 2147483648"

definition to_int32 :: "int \<Rightarrow> int" where
  "to_int32 x = (x + 2147483648) mod 4294967296 - 2147483648"

definition is_int32 :: "int \<Rightarrow> bool" where
  "is_int32 x \<longleftrightarrow> INT_MIN \<le> x \<and> x \<le> INT_MAX"

lemmas int32_defs = INT_MAX_def INT_MIN_def to_int32_def is_int32_def

lemma to_int32_range [simp]: "is_int32 (to_int32 x)"
proof -
  have "0 \<le> (x + 2147483648) mod 4294967296" and "(x + 2147483648) mod 4294967296 < 4294967296"
    by simp_all
  then show ?thesis by (simp add: int32_defs)
qed

lemma to_int32_id [simp]: "is_int32 x \<Longrightarrow> to_int32 x = x"
  by (simp add: int32_defs)

lemma to_int32_eq_sint: "to_int32 x = sint (word_of_int x :: 32 word)"
proof -
  have "sint (word_of_int x :: 32 word) = signed_take_bit 31 x"
    by (simp add: sint_sbintrunc')
  also have "\<dots> = (x + 2 ^ 31) mod 2 ^ 32 - 2 ^ 31"
    by (simp add: signed_take_bit_eq_take_bit_shift take_bit_eq_mod)
  finally show ?thesis by (simp add: to_int32_def)
qed

section \<open>Lists\<close>

lemma takeWhile_append_stop:
  "\<forall>c\<in>set xs. P c \<Longrightarrow> \<not> P d \<Longrightarrow> takeWhile P (xs @ d # ys) = xs"
  by (induction xs) auto

lemma dropWhile_append_stop:
  "\<forall>c\<in>set xs. P c \<Longrightarrow> \<not> P d \<Longrightarrow> dropWhile P (xs @ d # ys) = d # ys"
  by (induction xs) auto

lemma takeWhile_neq_append [simp]: "d \<notin> set xs \<Longrightarrow> takeWhile (\<lambda>x. x \<noteq> d) (xs @ d # ys) = xs"
  by (induction xs) auto

lemma dropWhile_neq_append [simp]: "d \<notin> set xs \<Longrightarrow> dropWhile (\<lambda>x. x \<noteq> d) (xs @ d # ys) = d # ys"
  by (induction xs) auto

lemma takeWhile_all: "\<forall>c\<in>set ds. P c \<Longrightarrow> takeWhile P ds = ds"
  by (induction ds) auto

lemma take_drop_window:
  "k + n \<le> e - u \<Longrightarrow> take n (drop k (drop u (take e b))) = take n (drop (u + k) b)"
  by (simp add: drop_take min_def add.commute)

lemma length_dropWhile_Cons: "dropWhile P s = x # r \<Longrightarrow> length r < length s"
  by (metis Suc_le_lessD length_Cons length_dropWhile_le)

end
