(* ===== verification/RecordStream.thy ===== *)
theory RecordStream
  imports Prelude
begin

text \<open>
  The record stream of \<^verbatim>\<open>librilutils/record_stream.c\<close>: it cuts the bytes of a
  descriptor into records, each behind a 32-bit big-endian length. The buffer is a list of
  bytes and the three pointers into it are offsets; what the descriptor will deliver is an
  input script, so a theorem about every script is a theorem about every chunking.
\<close>

type_synonym byte = "8 word"

definition HEADER_SIZE :: nat where "HEADER_SIZE = 4"

datatype errno = EAGAIN | EFBIG | EOTHER

text \<open>
  One result the descriptor holds ready for \<^verbatim>\<open>read\<close>: some bytes (a shorter read
  leaves the rest for the next call), the end of the stream, or an error.
\<close>

datatype rd = RdData "byte list" | RdEof | RdErr

record RecordStream =
  rs_fd :: "rd list"             \<comment> \<open>\<^verbatim>\<open>fd\<close>: what it has yet to deliver\<close>
  maxRecordLen :: nat
  buffer :: "byte list"          \<comment> \<open>\<^verbatim>\<open>buffer_end\<close> is its length\<close>
  unconsumed :: nat
  read_end :: nat

text \<open>
  \<^verbatim>\<open>record_stream_new\<close>: \<open>mem\<close> is the content of the block \<^verbatim>\<open>malloc\<close>
  returns, of \<open>maxRecordLen + HEADER_SIZE\<close> bytes.
\<close>

definition record_stream_new :: "rd list \<Rightarrow> nat \<Rightarrow> byte list \<Rightarrow> (unit, RecordStream) outcome" where
  "record_stream_new fd maxLen mem =
     (if \<not> maxLen \<le> 0xffff then Crash AssertFail
      else if length mem \<noteq> maxLen + HEADER_SIZE then Crash BadData
      else Done \<lparr>rs_fd = fd, maxRecordLen = maxLen, buffer = mem, unconsumed = 0, read_end = 0\<rparr> ())"

definition ntohl4 :: "byte list \<Rightarrow> nat" where
  "ntohl4 bs = foldl (\<lambda>a b. a * 256 + unat b) 0 (take 4 bs)"

definition getEndOfRecord :: "byte list \<Rightarrow> nat \<Rightarrow> nat \<Rightarrow> nat option" where
  "getEndOfRecord buf p_begin p_end =
     (if p_end < p_begin + HEADER_SIZE then None
      else let len = ntohl4 (drop p_begin buf); p_ret = p_begin + HEADER_SIZE + len
        in if p_end < p_ret then None else Some p_ret)"

text \<open>The record handed out is the part of the buffer it points to.\<close>

definition getNextRecord :: "RecordStream \<Rightarrow> byte list option \<times> RecordStream" where
  "getNextRecord rs =
     (case getEndOfRecord (buffer rs) (unconsumed rs) (read_end rs) of
        None \<Rightarrow> (None, rs)
      | Some record_end \<Rightarrow>
          let record_start = unconsumed rs + HEADER_SIZE in
          (Some (take (record_end - record_start) (drop record_start (buffer rs))),
           rs\<lparr>unconsumed := record_end\<rparr>))"

text \<open>\<^verbatim>\<open>memmove\<close> of the unread part to the front of the buffer.\<close>

definition compact :: "RecordStream \<Rightarrow> RecordStream" where
  "compact rs =
     (if unconsumed rs \<noteq> 0 then
        (let toMove = read_end rs - unconsumed rs in
         rs\<lparr>buffer := take toMove (drop (unconsumed rs) (buffer rs)) @ drop toMove (buffer rs),
            read_end := toMove, unconsumed := 0\<rparr>)
      else rs)"

text \<open>
  \<^verbatim>\<open>read\<close> of at most \<open>n\<close> bytes at the end of the unread part: the count (0 at the
  end of the stream, -1 on an error, \<open>None\<close> when there is nothing yet and it blocks).
\<close>

fun read_into :: "nat \<Rightarrow> RecordStream \<Rightarrow> int option \<times> RecordStream" where
  "read_into n rs =
     (case rs_fd rs of
        [] \<Rightarrow> (None, rs)
      | RdEof # _ \<Rightarrow> (Some 0, rs)
      | RdErr # later \<Rightarrow> (Some (-1), rs\<lparr>rs_fd := later\<rparr>)
      | RdData bs # later \<Rightarrow>
          (let got = take n bs; left = drop n bs; e = read_end rs in
           (Some (int (length got)),
            rs\<lparr>buffer := take e (buffer rs) @ got @ drop (e + length got) (buffer rs),
               rs_fd := (if left = [] then later else RdData left # later)\<rparr>)))"

text \<open>
  A result of \<^verbatim>\<open>record_stream_get_next\<close>: a record (return 0), the end of the stream
  (return 0 and a NULL record) or -1 with \<^verbatim>\<open>errno\<close>.
\<close>

datatype rs_result = RsRecord "byte list" | RsEnd | RsFail errno

definition record_stream_get_next :: "(RecordStream, rs_result) prog" where
  "record_stream_get_next rs =
     (case getNextRecord rs of
        (Some r, rs') \<Rightarrow> Done (RsRecord r) rs'
      | (None, _) \<Rightarrow>
          if unconsumed rs = 0 \<and> read_end rs = length (buffer rs) then Crash AssertFail
          else
            let rs1 = compact rs in
            (case read_into (length (buffer rs1) - read_end rs1) rs1 of
               (None, _) \<Rightarrow> Hang
             | (Some countRead, rs2) \<Rightarrow>
                 if countRead \<le> 0 then
                   Done (if countRead = 0 then RsEnd else RsFail EOTHER) rs2
                 else
                   (let rs3 = rs2\<lparr>read_end := read_end rs2 + nat countRead\<rparr> in
                    case getNextRecord rs3 of
                      (None, _) \<Rightarrow> Done (RsFail EAGAIN) rs3
                    | (Some r, rs4) \<Rightarrow> Done (RsRecord r) rs4)))"

section \<open>Invariant and abstraction\<close>

definition rs_ok :: "RecordStream \<Rightarrow> bool" where
  "rs_ok rs \<longleftrightarrow> unconsumed rs \<le> read_end rs \<and> read_end rs \<le> length (buffer rs)
     \<and> length (buffer rs) = maxRecordLen rs + HEADER_SIZE"

text \<open>The bytes read and not yet handed out, and the bytes still to come.\<close>

definition pending :: "RecordStream \<Rightarrow> byte list" where
  "pending rs = drop (unconsumed rs) (take (read_end rs) (buffer rs))"

fun fd_bytes :: "rd list \<Rightarrow> byte list" where
  "fd_bytes (RdData bs # later) = bs @ fd_bytes later"
| "fd_bytes (RdErr # later) = fd_bytes later"
| "fd_bytes _ = []"

definition rs_stream :: "RecordStream \<Rightarrow> byte list" where
  "rs_stream rs = pending rs @ fd_bytes (rs_fd rs)"

text \<open>A record on the wire.\<close>

definition htonl4 :: "nat \<Rightarrow> byte list" where
  "htonl4 n = map (\<lambda>k. word_of_nat (n div 256 ^ k)) [3, 2, 1, 0]"

definition encode :: "byte list \<Rightarrow> byte list" where
  "encode r = htonl4 (length r) @ r"

lemma length_htonl4 [simp]: "length (htonl4 n) = HEADER_SIZE"
  by (simp add: htonl4_def HEADER_SIZE_def)

lemma split_base: "(n div (256 * m) * 256 + n div m mod 256) = n div (m :: nat)"
  by (metis div_mult2_eq div_mult_mod_eq mult.commute)

lemma ntohl4_htonl4:
  assumes n: "n < 2 ^ 32"
  shows "ntohl4 (htonl4 n @ r) = n"
proof -
  have "n div 16777216 mod 256 = n div 16777216" using n by simp
  moreover have "n div 16777216 * 256 + n div 65536 mod 256 = n div 65536"
    using split_base [of n 65536] by simp
  moreover have "n div 65536 * 256 + n div 256 mod 256 = n div 256"
    using split_base [of n 256] by simp
  moreover have "n div 256 * 256 + n mod 256 = n" by simp
  ultimately show ?thesis
    by (simp add: ntohl4_def htonl4_def unat_of_nat)
qed

lemma ntohl4_take: "4 \<le> k \<Longrightarrow> ntohl4 (take k bs) = ntohl4 bs"
  by (simp add: ntohl4_def min_def)

lemma length_pending: "rs_ok rs \<Longrightarrow> length (pending rs) = read_end rs - unconsumed rs"
  by (simp add: pending_def rs_ok_def)

text \<open>Whether a whole record is waiting, read off the pending bytes alone.\<close>

definition whole :: "byte list \<Rightarrow> bool" where
  "whole bs \<longleftrightarrow> 4 \<le> length bs \<and> 4 + ntohl4 bs \<le> length bs"

lemma getNextRecord_spec:
  assumes "rs_ok rs"
  shows "getNextRecord rs =
    (let bs = pending rs in
     if whole bs then (Some (take (ntohl4 bs) (drop 4 bs)),
                       rs\<lparr>unconsumed := unconsumed rs + 4 + ntohl4 bs\<rparr>)
     else (None, rs))"
proof -
  have len: "length (pending rs) = read_end rs - unconsumed rs"
    using assms by (rule length_pending)
  have hd4: "ntohl4 (pending rs) = ntohl4 (drop (unconsumed rs) (buffer rs))"
    if "4 \<le> read_end rs - unconsumed rs"
    using that by (simp add: pending_def drop_take ntohl4_take)
  show ?thesis
  proof (cases "whole (pending rs)")
    case True
    then have "4 \<le> read_end rs - unconsumed rs" by (simp add: whole_def len)
    moreover have "take (ntohl4 (pending rs)) (drop 4 (pending rs)) =
        take (ntohl4 (pending rs)) (drop (unconsumed rs + 4) (buffer rs))"
      using True len unfolding pending_def by (intro take_drop_window) (simp add: whole_def)
    ultimately show ?thesis
      using True hd4 len
      by (simp add: getNextRecord_def getEndOfRecord_def HEADER_SIZE_def whole_def Let_def)
  next
    case False
    then show ?thesis using hd4 len
      by (auto simp: getNextRecord_def getEndOfRecord_def HEADER_SIZE_def whole_def Let_def)
  qed
qed

lemma pending_advance: "pending (rs\<lparr>unconsumed := unconsumed rs + n\<rparr>) = drop n (pending rs)"
  by (simp add: pending_def add.commute)

lemma take_unconsumed_ok:
  assumes "rs_ok rs" "whole (pending rs)"
  shows "rs_ok (rs\<lparr>unconsumed := unconsumed rs + 4 + ntohl4 (pending rs)\<rparr>)"
    and "pending (rs\<lparr>unconsumed := unconsumed rs + 4 + ntohl4 (pending rs)\<rparr>)
         = drop (4 + ntohl4 (pending rs)) (pending rs)"
  using assms length_pending [OF assms(1)]
  by (auto simp: rs_ok_def whole_def pending_advance add.assoc)

lemma compact_ok:
  assumes "rs_ok rs"
  shows "rs_ok (compact rs)" and "pending (compact rs) = pending rs"
    and "unconsumed (compact rs) = 0" and "rs_fd (compact rs) = rs_fd rs"
    and "maxRecordLen (compact rs) = maxRecordLen rs"
    and "length (buffer (compact rs)) = length (buffer rs)"
  using assms by (auto simp: compact_def rs_ok_def pending_def Let_def drop_take)

text \<open>What one successful \<^verbatim>\<open>read\<close> does: bytes move from the descriptor to the pending part.\<close>

lemma read_into_ok:
  assumes ok: "rs_ok rs" and un: "unconsumed rs = 0"
    and room: "n = length (buffer rs) - read_end rs"
    and rd: "read_into n rs = (Some k, rs2)" and k: "0 < k"
    and rs3: "rs3 = rs2\<lparr>read_end := read_end rs2 + nat k\<rparr>"
  shows "rs_ok rs3" and "rs_stream rs3 = rs_stream rs"
    and "length (fd_bytes (rs_fd rs3)) < length (fd_bytes (rs_fd rs))"
    and "maxRecordLen rs3 = maxRecordLen rs"
proof -
  from rd k obtain bs later where fd: "rs_fd rs = RdData bs # later"
    by (auto split: list.splits rd.splits)
  define got where "got = take n bs"
  define e where "e = read_end rs"
  from rd fd have k_def: "k = int (length got)"
    and rs2: "rs2 = rs\<lparr>buffer := take e (buffer rs) @ got @ drop (e + length got) (buffer rs),
      rs_fd := (if drop n bs = [] then later else RdData (drop n bs) # later)\<rparr>"
    by (auto simp: got_def e_def Let_def)
  have e_le: "e \<le> length (buffer rs)" using ok by (simp add: rs_ok_def e_def)
  have got_le: "e + length got \<le> length (buffer rs)"
    using room e_le by (simp add: got_def e_def)
  have pos: "got \<noteq> []" using k k_def by auto
  show "rs_ok rs3" "maxRecordLen rs3 = maxRecordLen rs"
    using ok un e_le got_le by (auto simp: rs3 rs2 k_def rs_ok_def e_def)
  have "pending rs3 = pending rs @ got"
    using un e_le by (simp add: rs3 rs2 k_def pending_def e_def)
  moreover have "fd_bytes (rs_fd rs) = got @ fd_bytes (rs_fd rs3)"
    by (auto simp: fd rs3 rs2 got_def)
  ultimately show "rs_stream rs3 = rs_stream rs"
    and "length (fd_bytes (rs_fd rs3)) < length (fd_bytes (rs_fd rs))"
    using pos by (simp_all add: rs_stream_def)
qed

lemma whole_append:
  assumes "whole p"
  shows "whole (p @ q)" and "ntohl4 (p @ q) = ntohl4 p"
    and "take (ntohl4 p) (drop 4 (p @ q)) = take (ntohl4 p) (drop 4 p)"
    and "drop (4 + ntohl4 p) (p @ q) = drop (4 + ntohl4 p) p @ q"
proof -
  show nt: "ntohl4 (p @ q) = ntohl4 p"
    using assms by (simp add: whole_def ntohl4_def)
  then show "whole (p @ q)" using assms by (simp add: whole_def)
  show "take (ntohl4 p) (drop 4 (p @ q)) = take (ntohl4 p) (drop 4 p)"
    "drop (4 + ntohl4 p) (p @ q) = drop (4 + ntohl4 p) p @ q"
    using assms by (simp_all add: whole_def)
qed

definition takes_record :: "byte list \<Rightarrow> byte list \<Rightarrow> byte list \<Rightarrow> bool" where
  "takes_record st r st' \<longleftrightarrow> whole st \<and> r = take (ntohl4 st) (drop 4 st)
     \<and> st' = drop (4 + ntohl4 st) st"

lemma getNextRecord_Some:
  assumes "rs_ok rs" and "getNextRecord rs = (Some r, rs')"
  shows "rs_ok rs'" and "maxRecordLen rs' = maxRecordLen rs" and "rs_fd rs' = rs_fd rs"
    and "takes_record (rs_stream rs) r (rs_stream rs')"
proof -
  have w: "whole (pending rs)"
    and r: "r = take (ntohl4 (pending rs)) (drop 4 (pending rs))"
    and rs': "rs' = rs\<lparr>unconsumed := unconsumed rs + 4 + ntohl4 (pending rs)\<rparr>"
    using assms by (auto simp: getNextRecord_spec Let_def split: if_splits)
  show "rs_ok rs'" using take_unconsumed_ok(1) [OF assms(1) w] by (simp add: rs')
  show "maxRecordLen rs' = maxRecordLen rs" "rs_fd rs' = rs_fd rs" by (simp_all add: rs')
  have "rs_stream rs' = drop (4 + ntohl4 (pending rs)) (pending rs) @ fd_bytes (rs_fd rs)"
    using take_unconsumed_ok(2) [OF assms(1) w] by (simp add: rs' rs_stream_def)
  then show "takes_record (rs_stream rs) r (rs_stream rs')"
    using whole_append [OF w, of "fd_bytes (rs_fd rs)"]
    by (simp add: takes_record_def rs_stream_def r)
qed

lemma getNextRecord_None:
  "rs_ok rs \<Longrightarrow> getNextRecord rs = (None, rs') \<Longrightarrow> \<not> whole (pending rs)"
  by (auto simp: getNextRecord_spec Let_def split: if_splits)

text \<open>
  One call, on the level of the byte stream: a record is a prefix of it, taken off; an
  \<^verbatim>\<open>EAGAIN\<close> leaves it as it is and has read at least a byte.
\<close>

lemma get_next_record:
  assumes ok: "rs_ok rs" and step: "record_stream_get_next rs = Done (RsRecord r) rs'"
  shows "rs_ok rs' \<and> maxRecordLen rs' = maxRecordLen rs
    \<and> takes_record (rs_stream rs) r (rs_stream rs')
    \<and> length (fd_bytes (rs_fd rs')) \<le> length (fd_bytes (rs_fd rs))"
proof (cases "fst (getNextRecord rs)")
  case None
  then obtain q where first: "getNextRecord rs = (None, q)" by (cases "getNextRecord rs") auto
  let ?rs1 = "compact rs"
  from step first obtain k rs2 where rd: "read_into (length (buffer ?rs1) - read_end ?rs1) ?rs1 = (Some k, rs2)"
    and k: "0 < k" and nx: "getNextRecord (rs2\<lparr>read_end := read_end rs2 + nat k\<rparr>) = (Some r, rs')"
    by (auto simp: record_stream_get_next_def Let_def simp del: read_into.simps
        split: if_splits prod.splits option.splits)
  note c = compact_ok [OF ok]
  note b = read_into_ok [OF c(1) c(3) refl rd k refl]
  note n = getNextRecord_Some [OF b(1) nx]
  have "rs_stream ?rs1 = rs_stream rs" using c by (simp add: rs_stream_def)
  with b c n show ?thesis by simp
next
  case (Some x)
  then have "getNextRecord rs = (Some r, rs')" using step
    by (cases "getNextRecord rs") (auto simp: record_stream_get_next_def)
  from getNextRecord_Some [OF ok this] show ?thesis by simp
qed

lemma get_next_other:
  assumes ok: "rs_ok rs" and step: "record_stream_get_next rs = Done res rs'"
    and other: "\<And>r. res \<noteq> RsRecord r"
  shows "rs_ok rs' \<and> maxRecordLen rs' = maxRecordLen rs \<and> \<not> whole (pending rs)
    \<and> (res = RsFail EAGAIN \<longrightarrow> rs_stream rs' = rs_stream rs
         \<and> length (fd_bytes (rs_fd rs')) < length (fd_bytes (rs_fd rs)))"
proof -
  from step other obtain q where first: "getNextRecord rs = (None, q)"
    by (cases "getNextRecord rs"; cases "fst (getNextRecord rs)")
      (auto simp: record_stream_get_next_def)
  let ?rs1 = "compact rs"
  note c = compact_ok [OF ok]
  from step first obtain k rs2 where rd: "read_into (length (buffer ?rs1) - read_end ?rs1) ?rs1 = (Some k, rs2)"
    and res: "if k \<le> 0 then res = (if k = 0 then RsEnd else RsFail EOTHER) \<and> rs' = rs2
       else rs' = rs2\<lparr>read_end := read_end rs2 + nat k\<rparr> \<and> res = RsFail EAGAIN"
    using other
    by (auto simp: record_stream_get_next_def Let_def simp del: read_into.simps
        split: if_splits prod.splits option.splits)
  have str: "rs_stream ?rs1 = rs_stream rs" using c by (simp add: rs_stream_def)
  show ?thesis
  proof (cases "k \<le> 0")
    case True
    with rd have "rs_ok rs2 \<and> maxRecordLen rs2 = maxRecordLen ?rs1"
      using c(1) by (auto simp: rs_ok_def Let_def split: list.splits rd.splits)
    with True res c getNextRecord_None [OF ok first] show ?thesis by auto
  next
    case False
    then have k: "0 < k" by simp
    note b = read_into_ok [OF c(1) c(3) refl rd k refl]
    from False b res str c getNextRecord_None [OF ok first] show ?thesis by simp
  qed
qed

section \<open>Round trip\<close>

text \<open>
  The caller's loop: call until the end of the stream, again after \<^verbatim>\<open>EAGAIN\<close>;
  \<open>None\<close> when a call fails, blocks or crashes, or the fuel runs out.
\<close>

fun rs_drain :: "nat \<Rightarrow> RecordStream \<Rightarrow> byte list list option" where
  "rs_drain 0 rs = None"
| "rs_drain (Suc k) rs =
     (case record_stream_get_next rs of
        Done res rs' \<Rightarrow>
          (case res of
             RsRecord r \<Rightarrow> map_option (Cons r) (rs_drain k rs')
           | RsEnd \<Rightarrow> Some []
           | RsFail EAGAIN \<Rightarrow> rs_drain k rs'
           | RsFail _ \<Rightarrow> None)
      | _ \<Rightarrow> None)"

text \<open>A descriptor that delivers data in chunks and then ends.\<close>

fun chunked :: "rd list \<Rightarrow> bool" where
  "chunked [RdEof] = True"
| "chunked (RdData bs # later) = (bs \<noteq> [] \<and> chunked later)"
| "chunked _ = False"

lemma takes_record_encode:
  assumes "length r < 2 ^ 32" and "takes_record (encode r @ st) r' st'"
  shows "r' = r \<and> st' = st"
proof -
  have "ntohl4 (encode r @ st) = length r"
    using ntohl4_htonl4 [OF assms(1)] by (simp add: encode_def)
  with assms(2) show ?thesis by (auto simp: takes_record_def encode_def HEADER_SIZE_def)
qed

lemma whole_prefix_encode:
  assumes "length r < 2 ^ 32" and "p @ q = encode r @ st" and "4 + length r \<le> length p"
  shows "whole p"
proof -
  have "ntohl4 p = ntohl4 (p @ q)" using assms(3) by (simp add: ntohl4_def)
  also have "\<dots> = length r" using ntohl4_htonl4 [OF assms(1)] assms(2) by (simp add: encode_def)
  finally show ?thesis using assms(3) by (simp add: whole_def)
qed

lemma chunked_step:
  assumes "chunked (rs_fd rs)" and "0 < n" and "read_into n rs = (v, rs2)"
  shows "\<exists>k. v = Some k \<and> 0 \<le> k \<and> (k = 0 \<longrightarrow> fd_bytes (rs_fd rs) = []) \<and> chunked (rs_fd rs2)"
  using assms by (cases "rs_fd rs" rule: chunked.cases) (auto simp: Let_def split: if_splits)

text \<open>With well-formed input of records that fit, a call never fails.\<close>

lemma get_next_total:
  assumes ok: "rs_ok rs" and ch: "chunked (rs_fd rs)"
    and st: "rs_stream rs = concat (map encode recs)"
    and fit: "\<forall>r\<in>set recs. length r \<le> maxRecordLen rs" and m: "maxRecordLen rs < 2 ^ 32"
  shows "\<exists>res rs'. record_stream_get_next rs = Done res rs' \<and> res \<noteq> RsFail EOTHER \<and> res \<noteq> RsFail EFBIG
    \<and> (res = RsEnd \<longrightarrow> recs = []) \<and> chunked (rs_fd rs')"
proof (cases "getNextRecord rs")
  case (Pair v q)
  show ?thesis
  proof (cases v)
    case (Some r)
    with Pair getNextRecord_Some(3) [OF ok, of r q] ch show ?thesis
      by (simp add: record_stream_get_next_def)
  next
    case None
    with Pair have nw: "\<not> whole (pending rs)" using getNextRecord_None [OF ok] by blast
    have room: "\<not> (unconsumed rs = 0 \<and> read_end rs = length (buffer rs))"
    proof
      assume full: "unconsumed rs = 0 \<and> read_end rs = length (buffer rs)"
      then have len: "length (pending rs) = maxRecordLen rs + 4"
        using ok length_pending [OF ok] by (simp add: rs_ok_def HEADER_SIZE_def)
      show False
      proof (cases recs)
        case Nil
        with st len show False by (simp add: rs_stream_def)
      next
        case (Cons r rest)
        have "pending rs @ fd_bytes (rs_fd rs) = encode r @ concat (map encode rest)"
          using st Cons by (simp add: rs_stream_def)
        moreover have "length r \<le> maxRecordLen rs" using fit Cons by simp
        ultimately have "whole (pending rs)"
          using m len by (intro whole_prefix_encode [of r]) simp_all
        with nw show False by contradiction
      qed
    qed
    let ?rs1 = "compact rs" and ?n = "length (buffer (compact rs)) - read_end (compact rs)"
    note c = compact_ok [OF ok]
    have "0 < ?n" using room ok by (auto simp: compact_def rs_ok_def Let_def)
    then obtain k rs2 where rd: "read_into ?n ?rs1 = (Some k, rs2)" "0 \<le> k"
      and eof: "k = 0 \<Longrightarrow> fd_bytes (rs_fd rs) = []" and ch2: "chunked (rs_fd rs2)"
      using chunked_step [of ?rs1 ?n] ch c(4) by (metis surj_pair)
    show ?thesis
    proof (cases "k = 0")
      case True
      have "recs = []"
      proof (cases recs)
        case (Cons r rest)
        with st eof True have "pending rs @ [] = encode r @ concat (map encode rest)"
          by (simp add: rs_stream_def)
        moreover from this have "4 + length r \<le> length (pending rs)"
          by (simp add: encode_def HEADER_SIZE_def)
        moreover have "length r < 2 ^ 32" using fit Cons m by simp
        ultimately have "whole (pending rs)" by (intro whole_prefix_encode [of r]) simp_all
        with nw show ?thesis by blast
      qed simp
      have "record_stream_get_next rs = Done RsEnd rs2"
        unfolding record_stream_get_next_def Let_def Pair None rd(1)
        using room True by simp
      with \<open>recs = []\<close> ch2 show ?thesis by simp
    next
      case False
      let ?rs3 = "rs2\<lparr>read_end := read_end rs2 + nat k\<rparr>"
      have k: "0 < k" using False rd(2) by simp
      note b = read_into_ok [OF c(1) c(3) refl rd(1) k refl]
      have go: "record_stream_get_next rs = (case getNextRecord ?rs3 of
          (None, _) \<Rightarrow> Done (RsFail EAGAIN) ?rs3 | (Some r, rs4) \<Rightarrow> Done (RsRecord r) rs4)"
        unfolding record_stream_get_next_def Let_def Pair None rd(1)
        using room k by auto
      show ?thesis
      proof (cases "fst (getNextRecord ?rs3)")
        case None
        then show ?thesis using ch2 by (cases "getNextRecord ?rs3") (simp add: go)
      next
        case (Some r)
        then obtain z where z: "getNextRecord ?rs3 = (Some r, z)" by (cases "getNextRecord ?rs3") auto
        with getNextRecord_Some(3) [OF b(1) z] ch2 show ?thesis by (simp add: go)
      qed
    qed
  qed
qed

lemma rs_drain_records:
  assumes "rs_ok rs" and "chunked (rs_fd rs)" and "rs_stream rs = concat (map encode recs)"
    and "\<forall>r\<in>set recs. length r \<le> maxRecordLen rs" and "maxRecordLen rs < 2 ^ 32"
    and "length recs + length (fd_bytes (rs_fd rs)) < k"
  shows "rs_drain k rs = Some recs"
  using assms
proof (induction k arbitrary: rs recs)
  case 0
  then show ?case by simp
next
  case (Suc k)
  from get_next_total [OF Suc.prems(1-5)] obtain res rs' where
    step: "record_stream_get_next rs = Done res rs'"
    and res: "res \<noteq> RsFail EOTHER" "res \<noteq> RsFail EFBIG" "res = RsEnd \<longrightarrow> recs = []"
    and ch: "chunked (rs_fd rs')" by blast
  show ?case
  proof (cases res)
    case (RsRecord r)
    note g = get_next_record [OF Suc.prems(1) step [unfolded RsRecord]]
    show ?thesis
    proof (cases recs)
      case Nil
      with g Suc.prems(3) show ?thesis by (simp add: takes_record_def whole_def)
    next
      case (Cons r0 rest)
      have "length r0 < 2 ^ 32" using Suc.prems(4,5) Cons by auto
      with g Suc.prems(3) Cons have "r = r0 \<and> rs_stream rs' = concat (map encode rest)"
        by (intro takes_record_encode) auto
      with Suc.IH [of rs' rest] g ch Suc.prems(4,5,6) Cons RsRecord step show ?thesis by simp
    qed
  next
    case RsEnd
    with res step show ?thesis by simp
  next
    case (RsFail e)
    with res have e: "e = EAGAIN" by (cases e) auto
    with RsFail get_next_other [OF Suc.prems(1) step]
    have "rs_ok rs' \<and> maxRecordLen rs' = maxRecordLen rs \<and> rs_stream rs' = rs_stream rs
       \<and> length (fd_bytes (rs_fd rs')) < length (fd_bytes (rs_fd rs))" by simp
    with Suc.IH [of rs' recs] ch Suc.prems RsFail e step show ?thesis by simp
  qed
qed

section \<open>Properties\<close>





text \<open>A record longer than \<^verbatim>\<open>maxRecordLen\<close> is not reported as an error: once its
  first \<^verbatim>\<open>maxRecordLen\<close> bytes fill the buffer, the next call runs into
  \<^verbatim>\<open>assert (0)\<close>, so the \<^verbatim>\<open>EFBIG\<close> return behind it is reached only in builds
  without assertions.\<close>

theorem record_stream_oversize_asserts:
  assumes "rs_ok rs" and "unconsumed rs = 0" and "read_end rs = length (buffer rs)"
    and "maxRecordLen rs < ntohl4 (pending rs)"
  shows "record_stream_get_next rs = Crash AssertFail"
proof -
  have "length (pending rs) = maxRecordLen rs + 4"
    using assms length_pending [OF assms(1)] by (simp add: rs_ok_def HEADER_SIZE_def)
  then have "\<not> whole (pending rs)" using assms(4) by (simp add: whole_def)
  with assms show ?thesis
    by (simp add: record_stream_get_next_def getNextRecord_spec Let_def)
qed

theorem record_stream_oversize_asserts_witness:
  "record_stream_get_next \<lparr>rs_fd = [RdEof], maxRecordLen = 1, buffer = [0, 0, 0, 2, 9],
      unconsumed = 0, read_end = 5\<rparr> = Crash AssertFail"
  by (rule record_stream_oversize_asserts)
    (simp_all add: rs_ok_def HEADER_SIZE_def pending_def ntohl4_def)

end
