(* ===== verification/CLib.thy ===== *)
theory CLib
  imports Prelude
begin

text \<open>
  The C library functions the sources call, and the prefix test of
  \<^verbatim>\<open>reference-ril/misc.c\<close>. A C string is a list of characters without the
  terminating NUL; a \<^verbatim>\<open>char *\<close> into a string is the rest of the string from there,
  and \<open>None\<close> is NULL.
\<close>

type_synonym cptr = "string option"

section \<open>Character classes\<close>

text \<open>The C locale's \<^verbatim>\<open>isspace\<close> and \<^verbatim>\<open>isdigit\<close>.\<close>

definition ch_isspace :: "char \<Rightarrow> bool" where
  "ch_isspace c \<longleftrightarrow> c = CHR '' '' \<or> c = CHR 0x09 \<or> c = CHR 0x0A \<or> c = CHR 0x0B
     \<or> c = CHR 0x0C \<or> c = CHR 0x0D"

definition ch_isdigit :: "char \<Rightarrow> bool" where
  "ch_isdigit c \<longleftrightarrow> 48 \<le> (of_char c :: nat) \<and> (of_char c :: nat) \<le> 57"

text \<open>The value of a character as a digit of a base up to 16, as \<^verbatim>\<open>strtol\<close> reads it.\<close>

definition digit_val :: "char \<Rightarrow> nat option" where
  "digit_val c = (let n = (of_char c :: nat) in
     if 48 \<le> n \<and> n \<le> 57 then Some (n - 48)
     else if 97 \<le> n \<and> n \<le> 102 then Some (n - 87)
     else if 65 \<le> n \<and> n \<le> 70 then Some (n - 55)
     else None)"

definition is_base_digit :: "nat \<Rightarrow> char \<Rightarrow> bool" where
  "is_base_digit b c = (case digit_val c of None \<Rightarrow> False | Some d \<Rightarrow> d < b)"

section \<open>strchr and strsep\<close>

definition c_strchr :: "string \<Rightarrow> char \<Rightarrow> cptr" where
  "c_strchr s c = (case dropWhile (\<lambda>x. x \<noteq> c) s of [] \<Rightarrow> None | r \<Rightarrow> Some r)"

text \<open>
  \<^verbatim>\<open>strsep\<close> with a one-character delimiter: the token and the new pointer; it puts a NUL over
  the delimiter, which ends the token.
\<close>

fun c_strsep :: "cptr \<Rightarrow> char \<Rightarrow> cptr \<times> cptr" where
  "c_strsep None d = (None, None)"
| "c_strsep (Some s) d =
     (Some (takeWhile (\<lambda>x. x \<noteq> d) s),
      (case dropWhile (\<lambda>x. x \<noteq> d) s of [] \<Rightarrow> None | _ # r \<Rightarrow> Some r))"

section \<open>strtol and strtoul\<close>

text \<open>
  Both skip white space, take an optional sign, for base 16 an optional \<^verbatim>\<open>0x\<close>, and the
  longest run of digits; with no digit they convert nothing and set the end pointer to the
  start (\<open>None\<close> here). \<^verbatim>\<open>long\<close> has 64 bits: \<^verbatim>\<open>strtol\<close> saturates
  at its ends and \<^verbatim>\<open>strtoul\<close> at \<^verbatim>\<open>ULONG_MAX\<close>; a minus sign negates
  \<^verbatim>\<open>strtoul\<close>'s result modulo \<open>2 ^ 64\<close>.
\<close>

definition LONG_MAX :: int where "LONG_MAX = 2 ^ 63 - 1"
definition LONG_MIN :: int where "LONG_MIN = - (2 ^ 63)"
definition ULONG_MAX :: int where "ULONG_MAX = 2 ^ 64 - 1"

definition digits_value :: "nat \<Rightarrow> string \<Rightarrow> nat" where
  "digits_value b ds = foldl (\<lambda>a c. a * b + the (digit_val c)) 0 ds"

fun skip_sign :: "string \<Rightarrow> bool \<times> string" where
  "skip_sign (c # r) = (if c = CHR ''-'' then (True, r)
                        else if c = CHR ''+'' then (False, r) else (False, c # r))"
| "skip_sign [] = (False, [])"

fun skip_0x :: "nat \<Rightarrow> string \<Rightarrow> string" where
  "skip_0x b (z # x # d # r) =
     (if b = 16 \<and> z = CHR ''0'' \<and> (x = CHR ''x'' \<or> x = CHR ''X'') \<and> is_base_digit b d
      then d # r else z # x # d # r)"
| "skip_0x b s = s"

text \<open>Sign and magnitude of the number at the start of a string, if there is one.\<close>

definition scan_number :: "nat \<Rightarrow> string \<Rightarrow> (bool \<times> nat) option" where
  "scan_number b s =
     (let (neg, r) = skip_sign (dropWhile ch_isspace s);
          ds = takeWhile (is_base_digit b) (skip_0x b r)
      in if ds = [] then None else Some (neg, digits_value b ds))"

definition c_strtol :: "nat \<Rightarrow> string \<Rightarrow> int option" where
  "c_strtol b s = map_option (\<lambda>(neg, n).
     if neg then max LONG_MIN (- int n) else min LONG_MAX (int n)) (scan_number b s)"

definition c_strtoul :: "nat \<Rightarrow> string \<Rightarrow> int option" where
  "c_strtoul b s = map_option (\<lambda>(neg, n).
     if int n > ULONG_MAX then ULONG_MAX
     else if neg then (- int n) mod 2 ^ 64 else int n) (scan_number b s)"

text \<open>\<^verbatim>\<open>atoi\<close>.\<close>

definition c_atoi :: "string \<Rightarrow> int" where
  "c_atoi s = (case c_strtol 10 s of None \<Rightarrow> 0 | Some v \<Rightarrow> to_int32 v)"

section \<open>Printing numbers\<close>

definition digit_char :: "nat \<Rightarrow> char" where
  "digit_char d = char_of (if d < 10 then 48 + d else 87 + d)"

fun nat_digits :: "nat \<Rightarrow> nat \<Rightarrow> string" where
  "nat_digits b n =
     (if b < 2 \<or> n < b then [digit_char n]
      else nat_digits b (n div b) @ [digit_char (n mod b)])"

declare nat_digits.simps [simp del]

text \<open>\<^verbatim>\<open>%d\<close>, \<^verbatim>\<open>%zu\<close> and \<^verbatim>\<open>%x\<close> (the bits of an \<open>int\<close> as unsigned), \<^verbatim>\<open>%02x\<close>.\<close>

definition fmt_d :: "int \<Rightarrow> string" where
  "fmt_d i = (if i < 0 then CHR ''-'' # nat_digits 10 (nat (- i)) else nat_digits 10 (nat i))"

definition fmt_zu :: "nat \<Rightarrow> string" where
  "fmt_zu n = nat_digits 10 n"

definition fmt_x :: "int \<Rightarrow> string" where
  "fmt_x i = nat_digits 16 (nat (i mod 2 ^ 32))"

definition fmt_02x :: "int \<Rightarrow> string" where
  "fmt_02x i = (let s = fmt_x i in if length s < 2 then CHR ''0'' # s else s)"

section \<open>misc.c\<close>

text \<open>Whether a line starts with a prefix, character by character as the loop goes.\<close>

fun strStartsWith :: "string \<Rightarrow> string \<Rightarrow> bool" where
  "strStartsWith (l # ls) (p # ps) = (if l \<noteq> p then False else strStartsWith ls ps)"
| "strStartsWith line [] = True"
| "strStartsWith [] (p # ps) = False"

text \<open>The loop implements the prefix order: the abstract meaning of the test.\<close>

lemma strStartsWith_iff: "strStartsWith line prefix \<longleftrightarrow> (\<exists>rest. line = prefix @ rest)"
  by (induction line prefix rule: strStartsWith.induct) auto

lemma strStartsWith_append [simp]: "strStartsWith (p @ r) p"
  by (auto simp: strStartsWith_iff)

section \<open>Facts on digits\<close>

lemma digit_val_digit_char [simp]: "d < 16 \<Longrightarrow> digit_val (digit_char d) = Some d"
  by (auto simp: digit_val_def digit_char_def Let_def of_char_of)

lemma is_base_digit_digit_char: "d < b \<Longrightarrow> b \<le> 16 \<Longrightarrow> is_base_digit b (digit_char d)"
  by (simp add: is_base_digit_def)

lemma nat_digits_not_Nil [simp]: "nat_digits b n \<noteq> []"
  by (subst nat_digits.simps) simp

lemma nat_digits_base:
  assumes "2 \<le> b" "b \<le> 16"
  shows "\<forall>c\<in>set (nat_digits b n). is_base_digit b c"
  using assms
proof (induction b n rule: nat_digits.induct)
  case (1 b n)
  show ?case
  proof (cases "n < b")
    case True
    with 1 show ?thesis by (subst nat_digits.simps) (auto intro: is_base_digit_digit_char)
  next
    case False
    with 1 have "\<forall>c\<in>set (nat_digits b (n div b)). is_base_digit b c" by auto
    moreover have "n mod b < b" using 1 by simp
    ultimately show ?thesis using False 1
      by (subst nat_digits.simps) (auto intro: is_base_digit_digit_char)
  qed
qed

lemma digits_value_snoc:
  "digits_value b (ds @ [c]) = digits_value b ds * b + the (digit_val c)"
  by (simp add: digits_value_def)

lemma digits_value_nat_digits:
  assumes "2 \<le> b" "b \<le> 16"
  shows "digits_value b (nat_digits b n) = n"
  using assms
proof (induction b n rule: nat_digits.induct)
  case (1 b n)
  show ?case
  proof (cases "n < b")
    case True
    with 1 show ?thesis
      by (subst nat_digits.simps) (simp add: digits_value_def)
  next
    case False
    moreover have "n mod b < 16"
      using 1 mod_less_divisor [of b n] by linarith
    ultimately show ?thesis using 1
      by (subst nat_digits.simps) (simp add: digits_value_snoc)
  qed
qed

lemma digit_val_special [simp]:
  "digit_val CHR ''-'' = None" "digit_val CHR ''+'' = None" "digit_val CHR '','' = None"
  "digit_val CHR '':'' = None" "digit_val CHR ''x'' = None" "digit_val CHR ''X'' = None"
  "digit_val CHR '' '' = None" "digit_val CHR 0x22 = None" "digit_val CHR 0x09 = None"
  "digit_val CHR 0x0A = None" "digit_val CHR 0x0B = None" "digit_val CHR 0x0C = None"
  "digit_val CHR 0x0D = None"
  by code_simp+

lemma isspace_special [simp]:
  "\<not> ch_isspace CHR ''-''" "\<not> ch_isspace CHR 0x22" "\<not> ch_isspace CHR '',''"
  by code_simp+

lemma base_digit_not_space: "is_base_digit b c \<Longrightarrow> \<not> ch_isspace c"
  by (auto simp: is_base_digit_def ch_isspace_def)

lemma base_digit_not_special:
  "is_base_digit b c \<Longrightarrow> c \<noteq> CHR ''-'' \<and> c \<noteq> CHR ''+'' \<and> c \<noteq> CHR '','' \<and> c \<noteq> CHR 0x22
     \<and> c \<noteq> CHR '':'' \<and> c \<noteq> CHR ''x'' \<and> c \<noteq> CHR ''X''"
  by (intro conjI notI) (simp_all add: is_base_digit_def)

lemma is_base_digit_special [simp]:
  "\<not> is_base_digit b CHR ''-''" "\<not> is_base_digit b CHR ''+''" "\<not> is_base_digit b CHR '',''"
  "\<not> is_base_digit b CHR ''x''" "\<not> is_base_digit b CHR ''X''" "\<not> is_base_digit b CHR 0x22"
  by (simp_all add: is_base_digit_def)

lemma skip_0x_digits: "\<forall>c\<in>set ds. is_base_digit b c \<Longrightarrow> skip_0x b ds = ds"
  by (cases "(b, ds)" rule: skip_0x.cases) auto

lemma skip_sign_digits: "\<forall>c\<in>set ds. is_base_digit b c \<Longrightarrow> skip_sign ds = (False, ds)"
  by (cases ds) auto

lemma dropWhile_space_digits:
  "\<forall>c\<in>set ds. is_base_digit b c \<Longrightarrow> dropWhile ch_isspace ds = ds"
  by (cases ds) (auto dest: base_digit_not_space)

text \<open>Reading back what was printed.\<close>

lemma scan_number_fmt_d: "scan_number 10 (fmt_d i) = Some (i < 0, nat \<bar>i\<bar>)"
proof -
  have ds: "\<forall>c\<in>set (nat_digits 10 n). is_base_digit 10 c" for n
    by (rule nat_digits_base) simp_all
  have val: "digits_value 10 (nat_digits 10 n) = n" for n
    by (rule digits_value_nat_digits) simp_all
  show ?thesis
    by (cases "i < 0")
      (simp_all add: scan_number_def fmt_d_def dropWhile_space_digits [OF ds]
        skip_sign_digits [OF ds] skip_0x_digits [OF ds] takeWhile_all [OF ds] val)
qed

lemma scan_number_hex: "scan_number 16 (nat_digits 16 n) = Some (False, n)"
proof -
  have ds: "\<forall>c\<in>set (nat_digits 16 n). is_base_digit 16 c"
    by (rule nat_digits_base) simp_all
  show ?thesis
    by (simp add: scan_number_def dropWhile_space_digits [OF ds] skip_sign_digits [OF ds]
        skip_0x_digits [OF ds] takeWhile_all [OF ds] digits_value_nat_digits)
qed

lemma c_strtol_fmt_d: "is_int32 i \<Longrightarrow> c_strtol 10 (fmt_d i) = Some i"
  by (auto simp: c_strtol_def scan_number_fmt_d LONG_MIN_def LONG_MAX_def int32_defs)

lemma c_strtoul_fmt_x: "is_int32 i \<Longrightarrow> c_strtoul 16 (fmt_x i) = Some (i mod 2 ^ 32)"
  by (auto simp: c_strtoul_def fmt_x_def scan_number_hex ULONG_MAX_def)

lemma fmt_d_chars:
  "c \<in> set (fmt_d i) \<Longrightarrow> is_base_digit 10 c \<or> c = CHR ''-''"
  using nat_digits_base [of 10] by (auto simp: fmt_d_def split: if_splits)

lemma fmt_x_chars: "c \<in> set (fmt_x i) \<Longrightarrow> is_base_digit 16 c"
  using nat_digits_base [of 16] by (auto simp: fmt_x_def)

end
