(* ===== verification/AtReadline.thy ===== *)
theory AtReadline
  imports CLib
begin

text \<open>
  The line reader of \<^verbatim>\<open>reference-ril/atchannel.c\<close>: \<^verbatim>\<open>findNextEOL\<close> and
  \<^verbatim>\<open>readline\<close> over the static buffer \<^verbatim>\<open>s_ATBuffer\<close>. The buffer is a memory
  of characters by offset, because the code reads it up to the first NUL and not up to what
  was read last; what the descriptor will deliver is an input script.
\<close>

section \<open>State\<close>

definition MAX_AT_RESPONSE :: nat where "MAX_AT_RESPONSE = 8192"

text \<open>Results the descriptor holds for \<^verbatim>\<open>read\<close>; \<^verbatim>\<open>EINTR\<close> is retried.\<close>

datatype rx_item = RxData string | RxEof | RxErr | RxEintr

type_synonym at_mem = "nat \<Rightarrow> char"

record at_rx =
  rx_fd :: "rx_item list"
  s_ATBuffer :: at_mem
  s_ATBufferCur :: nat

definition is_nl :: "char \<Rightarrow> bool" where
  "is_nl c \<longleftrightarrow> c = CHR 0x0D \<or> c = CHR 0x0A"

text \<open>
  The first offset from \<open>p\<close> on whose character satisfies \<open>P\<close>; \<open>None\<close> when the scan would
  leave the buffer.
\<close>

function scan :: "(char \<Rightarrow> bool) \<Rightarrow> at_mem \<Rightarrow> nat \<Rightarrow> nat option" where
  "scan P mem p =
     (if MAX_AT_RESPONSE < p then None
      else if P (mem p) then Some p else scan P mem (Suc p))"
  by pat_completeness auto
termination
  by (relation "measure (\<lambda>(P, mem, p). Suc MAX_AT_RESPONSE - p)") auto

declare scan.simps [simp del]

definition store :: "at_mem \<Rightarrow> nat \<Rightarrow> string \<Rightarrow> at_mem" where
  "store mem p bs = (\<lambda>i. if p \<le> i \<and> i < p + length bs then bs ! (i - p) else mem i)"

section \<open>The operations\<close>

text \<open>
  \<open>Some None\<close> is the C function's NULL, no complete line; \<open>None\<close> an access outside the
  buffer. The prompt test reads at most two characters on; both are inside the buffer
  whenever the string at \<open>cur\<close> is terminated there.
\<close>

definition findNextEOL :: "at_mem \<Rightarrow> nat \<Rightarrow> nat option option" where
  "findNextEOL mem cur =
     (if mem cur = CHR ''>'' \<and> mem (cur + 1) = CHR '' '' \<and> mem (cur + 2) = CHR 0x00
      then Some (Some (cur + 2))
      else case scan (\<lambda>c. c = CHR 0x00 \<or> is_nl c) mem cur of
        None \<Rightarrow> None
      | Some e \<Rightarrow> Some (if mem e = CHR 0x00 then None else Some e))"

definition skip_newlines :: "at_mem \<Rightarrow> nat \<Rightarrow> nat option" where
  "skip_newlines mem cur = scan (\<lambda>c. \<not> is_nl c) mem cur"

text \<open>The characters from \<open>a\<close> up to \<open>b\<close>.\<close>

definition region :: "at_mem \<Rightarrow> nat \<Rightarrow> nat \<Rightarrow> string" where
  "region mem a b = map mem [a..<b]"

text \<open>The end of \<^verbatim>\<open>readline\<close>: cut the line at \<open>p_eol\<close> and return it.\<close>

definition rl_return :: "rx_item list \<Rightarrow> at_mem \<Rightarrow> nat \<Rightarrow> nat \<Rightarrow> (at_rx, cptr) outcome" where
  "rl_return fd mem cur p_eol =
     Done (Some (region mem cur p_eol))
       \<lparr>rx_fd = fd, s_ATBuffer = mem(p_eol := CHR 0x00), s_ATBufferCur = p_eol + 1\<rparr>"

fun fd_size :: "rx_item list \<Rightarrow> nat" where
  "fd_size [] = 0"
| "fd_size (RxData bs # r) = Suc (length bs) + fd_size r"
| "fd_size (_ # r) = Suc (fd_size r)"

text \<open>
  The loop \<^verbatim>\<open>while (p_eol == NULL)\<close>, entered with no complete line in the buffer.
  A chunk longer than the room left is read in part.
\<close>

function rl_loop :: "rx_item list \<Rightarrow> at_mem \<Rightarrow> nat \<Rightarrow> nat \<Rightarrow> (at_rx, cptr) outcome" where
  "rl_loop fd mem0 cur0 p_read0 =
     (let full = MAX_AT_RESPONSE - p_read0 = 0;
          cur = (if full then 0 else cur0);
          mem = (if full then mem0(0 := CHR 0x00) else mem0);
          p_read = (if full then 0 else p_read0);
          room = MAX_AT_RESPONSE - p_read
      in case fd of
        [] \<Rightarrow> Hang
      | RxEintr # r \<Rightarrow> rl_loop r mem cur p_read
      | RxEof # r \<Rightarrow> Done None \<lparr>rx_fd = fd, s_ATBuffer = mem, s_ATBufferCur = cur\<rparr>
      | RxErr # r \<Rightarrow> Done None \<lparr>rx_fd = r, s_ATBuffer = mem, s_ATBufferCur = cur\<rparr>
      | RxData bs # r \<Rightarrow>
          if bs = [] then Done None \<lparr>rx_fd = r, s_ATBuffer = mem, s_ATBufferCur = cur\<rparr>
          else
            let got = take room bs; left = drop room bs;
                fd' = (if left = [] then r else RxData left # r);
                mem' = (store mem p_read got)(p_read + length got := CHR 0x00)
            in (case skip_newlines mem' cur of
                  None \<Rightarrow> Crash OutOfBounds
                | Some cur' \<Rightarrow>
                    (case findNextEOL mem' cur' of
                       None \<Rightarrow> Crash OutOfBounds
                     | Some None \<Rightarrow> rl_loop fd' mem' cur' (p_read + length got)
                     | Some (Some p_eol) \<Rightarrow> rl_return fd' mem' cur' p_eol)))"
  by pat_completeness auto
termination
  by (relation "measure (\<lambda>(fd, mem, cur, p_read). fd_size fd)")
    (auto simp: MAX_AT_RESPONSE_def split: if_splits)

declare rl_loop.simps [simp del]

definition readline :: "(at_rx, cptr) prog" where
  "readline rx =
     (let fd = rx_fd rx; mem = s_ATBuffer rx; cur = s_ATBufferCur rx in
      if mem cur = CHR 0x00 then rl_loop fd (mem(0 := CHR 0x00)) 0 0
      else
        case skip_newlines mem cur of
          None \<Rightarrow> Crash OutOfBounds
        | Some cur' \<Rightarrow>
            (case findNextEOL mem cur' of
               None \<Rightarrow> Crash OutOfBounds
             | Some (Some p_eol) \<Rightarrow> rl_return fd mem cur' p_eol
             | Some None \<Rightarrow>
                 (case scan (\<lambda>c. c = CHR 0x00) mem cur' of
                    None \<Rightarrow> Crash OutOfBounds
                  | Some e \<Rightarrow>
                      let len = e - cur' in
                      rl_loop fd (store mem 0 (region mem cur' (e + 1))) 0 len)))"

text \<open>The buffer a program starts with: zeroed, empty.\<close>

definition rx_init :: "rx_item list \<Rightarrow> at_rx" where
  "rx_init fd = \<lparr>rx_fd = fd, s_ATBuffer = (\<lambda>_. CHR 0x00), s_ATBufferCur = 0\<rparr>"

section \<open>The abstract reader: the lines of a character stream\<close>

text \<open>The first line of a stream and what follows it; leading newlines are dropped.\<close>

definition first_line :: "string \<Rightarrow> (string \<times> string) option" where
  "first_line s =
     (let s' = dropWhile is_nl s in
      case dropWhile (\<lambda>c. \<not> is_nl c) s' of
        [] \<Rightarrow> None
      | _ # r \<Rightarrow> Some (takeWhile (\<lambda>c. \<not> is_nl c) s', r))"

lemma first_line_shorter: "first_line s = Some (l, r) \<Longrightarrow> length r < length s"
proof -
  assume "first_line s = Some (l, r)"
  then obtain x where "dropWhile (\<lambda>c. \<not> is_nl c) (dropWhile is_nl s) = x # r"
    by (auto simp: first_line_def Let_def split: list.splits)
  then have "length r < length (dropWhile is_nl s)" by (rule length_dropWhile_Cons)
  also have "\<dots> \<le> length s" by (rule length_dropWhile_le)
  finally show ?thesis .
qed

function stream_lines :: "string \<Rightarrow> string list" where
  "stream_lines s = (case first_line s of None \<Rightarrow> [] | Some (l, r) \<Rightarrow> l # stream_lines r)"
  by pat_completeness auto
termination
  by (relation "measure length") (auto dest: first_line_shorter)

declare stream_lines.simps [simp del]

text \<open>The characters still to be read, and whether the script ends in an end of file.\<close>

fun rx_bytes :: "rx_item list \<Rightarrow> string" where
  "rx_bytes (RxData bs # r) = bs @ rx_bytes r"
| "rx_bytes (RxEintr # r) = rx_bytes r"
| "rx_bytes _ = []"

fun rx_script :: "rx_item list \<Rightarrow> bool" where
  "rx_script [RxEof] = True"
| "rx_script (RxData bs # r) = (bs \<noteq> [] \<and> rx_script r)"
| "rx_script (RxEintr # r) = rx_script r"
| "rx_script _ = False"

text \<open>
  A stream the buffer can hold: no NUL, no prompt character, and each run of newlines with
  the line after it is shorter than the buffer.
\<close>

definition rx_fits :: "string \<Rightarrow> bool" where
  "rx_fits s \<longleftrightarrow> CHR 0x00 \<notin> set s \<and> CHR ''>'' \<notin> set s
     \<and> (\<forall>a ns w b. s = a @ ns @ w @ b \<and> (\<forall>c\<in>set ns. is_nl c) \<and> (\<forall>c\<in>set w. \<not> is_nl c)
           \<longrightarrow> length ns + length w < MAX_AT_RESPONSE)"

section \<open>Memory\<close>

lemma region_Cons: "a < b \<Longrightarrow> region mem a b = mem a # region mem (Suc a) b"
  by (simp add: region_def upt_conv_Cons)

lemma region_Nil [simp]: "region mem a a = []"
  by (simp add: region_def)

lemma length_region [simp]: "length (region mem a b) = b - a"
  by (simp add: region_def)

lemma set_region: "set (region mem a b) = mem ` {a..<b}"
  by (simp add: region_def)

lemma region_cong: "(\<And>i. a \<le> i \<Longrightarrow> i < b \<Longrightarrow> mem i = mem' i) \<Longrightarrow> region mem a b = region mem' a b"
  by (simp add: region_def)

lemma region_split: "a \<le> b \<Longrightarrow> b \<le> c \<Longrightarrow> region mem a c = region mem a b @ region mem b c"
  using upt_add_eq_append [of a b "c - b"] by (simp add: region_def flip: map_append)

lemma region_store: "region (store mem p bs) p (p + length bs) = bs"
  by (rule nth_equalityI) (auto simp: region_def store_def)

lemma region_upd [simp]: "b \<le> p \<Longrightarrow> region (mem(p := c)) a b = region mem a b"
  by (rule region_cong) simp

lemma region_store_below: "b \<le> p \<Longrightarrow> region (store mem p bs) a b = region mem a b"
  by (rule region_cong) (simp add: store_def)

lemma scan_Some:
  assumes "p \<le> q" and "q \<le> MAX_AT_RESPONSE" and "P (mem q)" and "\<And>i. p \<le> i \<Longrightarrow> i < q \<Longrightarrow> \<not> P (mem i)"
  shows "scan P mem p = Some q"
  using assms
proof (induction "q - p" arbitrary: p)
  case 0
  then show ?case by (subst scan.simps) simp
next
  case (Suc k)
  then have "p < q" by simp
  with Suc have "scan P mem (Suc p) = Some q" by simp
  with Suc \<open>p < q\<close> show ?case by (subst scan.simps) simp
qed

text \<open>Scanning a region and dropping from the string it holds agree.\<close>

lemma scan_region:
  assumes "a \<le> b" and "b \<le> MAX_AT_RESPONSE" and "P (mem b)"
  shows "\<exists>q. scan P mem a = Some q \<and> a \<le> q \<and> q \<le> b
    \<and> region mem a q = takeWhile (\<lambda>c. \<not> P c) (region mem a b)
    \<and> region mem q b = dropWhile (\<lambda>c. \<not> P c) (region mem a b)"
  using assms
proof (induction "b - a" arbitrary: a)
  case 0
  then show ?case by (subst scan.simps) auto
next
  case (Suc k)
  then have ab: "a < b" by simp
  show ?case
  proof (cases "P (mem a)")
    case True
    with Suc.prems show ?thesis
      by (subst scan.simps) (auto simp: region_Cons [OF ab])
  next
    case False
    have "k = b - Suc a" using Suc.hyps(2) by simp
    from Suc.hyps(1) [OF this] Suc.prems ab
    obtain q where q: "scan P mem (Suc a) = Some q" "Suc a \<le> q" "q \<le> b"
      "region mem (Suc a) q = takeWhile (\<lambda>c. \<not> P c) (region mem (Suc a) b)"
      "region mem q b = dropWhile (\<lambda>c. \<not> P c) (region mem (Suc a) b)"
      by auto
    have "scan P mem a = Some q"
      using False Suc.prems ab q(1) by (subst scan.simps) simp
    moreover have "region mem a q = mem a # region mem (Suc a) q"
      using q(2) by (simp add: region_Cons)
    ultimately show ?thesis using False q ab by (simp add: region_Cons [OF ab])
  qed
qed

section \<open>The reader implements the lines of the stream\<close>

text \<open>The memory holds the NUL-terminated string \<open>S\<close> from \<open>a\<close> up to \<open>p\<close>.\<close>

definition holds :: "at_mem \<Rightarrow> nat \<Rightarrow> nat \<Rightarrow> string \<Rightarrow> bool" where
  "holds mem a p S \<longleftrightarrow> a \<le> p \<and> p \<le> MAX_AT_RESPONSE \<and> mem p = CHR 0x00
     \<and> region mem a p = S \<and> CHR 0x00 \<notin> set S \<and> CHR ''>'' \<notin> set S"

lemma is_nl_NUL [simp]: "\<not> is_nl CHR 0x00"
  by (simp add: is_nl_def)

lemma holds_nonzero: "holds mem a p S \<Longrightarrow> a \<le> i \<Longrightarrow> i < p \<Longrightarrow> mem i \<noteq> CHR 0x00"
  using set_region [of mem a p] by (auto simp: holds_def image_iff) (metis atLeastLessThan_iff)

lemma holds_skip:
  assumes "holds mem a p S"
  shows "\<exists>q. skip_newlines mem a = Some q \<and> holds mem q p (dropWhile is_nl S) \<and> a \<le> q
    \<and> q - a = length (takeWhile is_nl S)"
proof -
  from assms obtain q where q: "scan (\<lambda>c. \<not> is_nl c) mem a = Some q" "a \<le> q" "q \<le> p"
    and eq: "region mem a q = takeWhile (\<lambda>c. is_nl c) S" "region mem q p = dropWhile (\<lambda>c. is_nl c) S"
    using scan_region [of a p "\<lambda>c. \<not> is_nl c" mem] by (auto simp: holds_def)
  have "q - a = length (takeWhile is_nl S)"
    using eq(1) length_region [of mem a q] by (simp del: length_region)
  with q eq assms show ?thesis
    by (auto simp: skip_newlines_def holds_def dest: set_dropWhileD)
qed

lemma holds_find:
  assumes h: "holds mem a p S"
  shows "\<exists>q. a \<le> q \<and> q \<le> p \<and> region mem a q = takeWhile (\<lambda>c. \<not> is_nl c) S
    \<and> region mem q p = dropWhile (\<lambda>c. \<not> is_nl c) S
    \<and> findNextEOL mem a = Some (if q = p then None else Some q)"
proof -
  let ?P = "\<lambda>c. c = CHR 0x00 \<or> is_nl c"
  from h obtain q where q: "scan ?P mem a = Some q" "a \<le> q" "q \<le> p"
    and r1: "region mem a q = takeWhile (\<lambda>c. \<not> ?P c) S" and r2: "region mem q p = dropWhile (\<lambda>c. \<not> ?P c) S"
    using scan_region [of a p ?P mem] by (auto simp: holds_def)
  have eqs: "takeWhile (\<lambda>c. \<not> ?P c) S = takeWhile (\<lambda>c. \<not> is_nl c) S"
    "dropWhile (\<lambda>c. \<not> ?P c) S = dropWhile (\<lambda>c. \<not> is_nl c) S"
    using h by (auto simp: holds_def intro!: takeWhile_cong dropWhile_cong)
  have noprompt: "mem a \<noteq> CHR ''>''"
  proof (cases "a = p")
    case True
    with h show ?thesis by (simp add: holds_def)
  next
    case False
    with h have "S = mem a # region mem (Suc a) p" by (simp add: holds_def flip: region_Cons)
    with h show ?thesis by (auto simp: holds_def)
  qed
  have "mem q = CHR 0x00 \<longleftrightarrow> q = p"
  proof
    assume z: "mem q = CHR 0x00"
    show "q = p"
    proof (rule ccontr)
      assume "q \<noteq> p"
      with q(2,3) have "mem q \<in> set (region mem a p)" by (auto simp: set_region)
      with h z show False by (simp add: holds_def)
    qed
  next
    assume "q = p" with h show "mem q = CHR 0x00" by (simp add: holds_def)
  qed
  with q r1 r2 eqs noprompt show ?thesis
    by (intro exI [of _ q]) (simp add: findNextEOL_def)
qed

lemma holds_store:
  assumes "holds mem a p S" and "p + length bs \<le> MAX_AT_RESPONSE"
    and "CHR 0x00 \<notin> set bs" and "CHR ''>'' \<notin> set bs"
  shows "holds ((store mem p bs)(p + length bs := CHR 0x00)) a (p + length bs) (S @ bs)"
proof -
  have "region (store mem p bs) a (p + length bs) = S @ bs"
    using assms(1) region_split [of a p "p + length bs" "store mem p bs"]
    by (simp add: holds_def region_store region_store_below)
  with assms show ?thesis by (simp add: holds_def)
qed

lemma holds_move:
  assumes "holds mem a p S"
  shows "holds (store mem 0 (region mem a (p + 1))) 0 (p - a) S"
proof -
  have ap: "a \<le> p" using assms by (simp add: holds_def)
  have *: "store mem 0 (region mem a (p + 1)) i = mem (a + i)" if "i \<le> p - a" for i
  proof -
    have "[a..<p + 1] ! i = a + i" and "i < length [a..<p + 1]" and "i < Suc p - a"
      using that ap by (auto simp del: upt_Suc)
    then show ?thesis by (simp add: store_def region_def del: upt_Suc)
  qed
  have "region (store mem 0 (region mem a (p + 1))) 0 (p - a) = region mem a p"
    using * by (intro nth_equalityI) (auto simp: region_def)
  moreover have "store mem 0 (region mem a (p + 1)) (p - a) = mem p"
    using * [of "p - a"] ap by simp
  ultimately show ?thesis using assms by (auto simp: holds_def)
qed

text \<open>First lines of concatenations.\<close>

lemma dropWhile_dropWhile_append: "dropWhile P (dropWhile P xs @ ys) = dropWhile P (xs @ ys)"
  by (induction xs) auto

lemma first_line_drop: "first_line (dropWhile is_nl xs @ ys) = first_line (xs @ ys)"
  by (simp add: first_line_def dropWhile_dropWhile_append)

lemma first_line_complete:
  assumes "dropWhile (\<lambda>c. \<not> is_nl c) xs = x # r" and "xs = [] \<or> \<not> is_nl (hd xs)"
  shows "first_line (xs @ ys) = Some (takeWhile (\<lambda>c. \<not> is_nl c) xs, r @ ys)"
proof -
  have "xs \<noteq> []" using assms(1) by auto
  with assms(2) have "dropWhile is_nl (xs @ ys) = xs @ ys" by (cases xs) auto
  moreover have "\<exists>c\<in>set xs. is_nl c"
    using assms(1) by (metis dropWhile_eq_Nil_conv list.distinct(1))
  moreover from this have "takeWhile (\<lambda>c. \<not> is_nl c) (xs @ ys) = takeWhile (\<lambda>c. \<not> is_nl c) xs"
    and "dropWhile (\<lambda>c. \<not> is_nl c) (xs @ ys) = dropWhile (\<lambda>c. \<not> is_nl c) xs @ ys"
    by (auto simp: takeWhile_append1 dropWhile_append1)
  ultimately show ?thesis using assms(1) by (simp add: first_line_def)
qed

lemma first_line_partial:
  "\<forall>c\<in>set w. \<not> is_nl c \<Longrightarrow> first_line w = None"
  by (auto simp: first_line_def Let_def dropWhile_eq_Nil_conv dest: set_dropWhileD split: list.split)
    (metis dropWhile_eq_Nil_conv list.distinct(1) set_dropWhileD)

lemma hd_dropWhile_nl: "dropWhile is_nl xs = [] \<or> \<not> is_nl (hd (dropWhile is_nl xs))"
  using hd_dropWhile [of is_nl xs] by blast

text \<open>
  The state between two calls: the buffer holds the unread characters, the script the rest of
  the stream \<open>S\<close>.
\<close>

definition rx_rel :: "at_rx \<Rightarrow> string \<Rightarrow> bool" where
  "rx_rel rx S \<longleftrightarrow> rx_script (rx_fd rx) \<and> (\<exists>p pre. holds (s_ATBuffer rx) (s_ATBufferCur rx) p pre
     \<and> S = pre @ rx_bytes (rx_fd rx))"

text \<open>What a call does to the stream.\<close>

definition rx_step :: "string \<Rightarrow> (at_rx, cptr) outcome \<Rightarrow> bool" where
  "rx_step S out \<longleftrightarrow> (case first_line S of
       None \<Rightarrow> (\<exists>rx. out = Done None rx)
     | Some (l, r) \<Rightarrow> (\<exists>rx. out = Done (Some l) rx \<and> rx_rel rx r))"

lemma rl_return_step:
  assumes "holds mem a p S" and "rx_script fd" and "q < p"
    and "a \<le> q" and "region mem a q = takeWhile (\<lambda>c. \<not> is_nl c) S"
    and "region mem q p = dropWhile (\<lambda>c. \<not> is_nl c) S"
    and "S = [] \<or> \<not> is_nl (hd S)"
  shows "rx_step (S @ rx_bytes fd) (rl_return fd mem a q)"
proof -
  let ?r = "region mem (Suc q) p"
  have d: "dropWhile (\<lambda>c. \<not> is_nl c) S = mem q # ?r"
    using assms(3,6) by (simp add: region_Cons)
  have "set ?r \<subseteq> set S" using d by (metis set_dropWhileD set_subset_Cons subsetD subsetI)
  then have "holds (mem(q := CHR 0x00)) (Suc q) p ?r"
    using assms(1,3) by (auto simp: holds_def intro!: region_cong)
  with first_line_complete [OF d assms(7), of "rx_bytes fd"] assms(2,5) show ?thesis
    by (auto simp: rx_step_def rx_rel_def rl_return_def)
qed

lemma rx_fits_set: "rx_fits s \<Longrightarrow> CHR 0x00 \<notin> set s \<and> CHR ''>'' \<notin> set s"
  by (simp add: rx_fits_def)

lemma rx_fits_room:
  "rx_fits (ns @ w @ b) \<Longrightarrow> \<forall>c\<in>set ns. is_nl c \<Longrightarrow> \<forall>c\<in>set w. \<not> is_nl c \<Longrightarrow>
   length ns + length w < MAX_AT_RESPONSE"
  unfolding rx_fits_def by (metis append_Nil)

lemma rx_fits_suffix: "rx_fits (a @ b) \<Longrightarrow> rx_fits b"
  unfolding rx_fits_def by (metis append.assoc set_append UnCI)

lemma rl_loop_step:
  assumes "holds mem cur p w" and "\<forall>c\<in>set w. \<not> is_nl c" and "\<forall>c\<in>set ns. is_nl c"
    and "length ns = cur" and "rx_script fd" and "rx_fits (ns @ w @ rx_bytes fd)"
  shows "rx_step (w @ rx_bytes fd) (rl_loop fd mem cur p)"
  using assms
proof (induction "fd_size fd" arbitrary: fd mem cur p w ns rule: less_induct)
  case less
  have "length w = p - cur" and cp: "cur \<le> p"
    using less.prems(1) length_region [of mem cur p] by (auto simp: holds_def simp del: length_region)
  with rx_fits_room [OF less.prems(6,3,2)] less.prems(4) have p: "p < MAX_AT_RESPONSE" by simp
  then have nf: "\<not> MAX_AT_RESPONSE - p = 0" by simp
  show ?case
  proof (cases fd rule: rx_script.cases)
    case 1
    then show ?thesis using nf first_line_partial [OF less.prems(2)]
      by (subst rl_loop.simps) (simp add: rx_step_def)
  next
    case (2 bs r)
    let ?room = "MAX_AT_RESPONSE - p"
    let ?got = "take ?room bs"
    let ?fd' = "if drop ?room bs = [] then r else RxData (drop ?room bs) # r"
    let ?mem = "(store mem p ?got)(p + length ?got := CHR 0x00)"
    have bs: "bs \<noteq> []" and scr: "rx_script ?fd'" using less.prems(5) 2 by auto
    have bytes: "rx_bytes fd = ?got @ rx_bytes ?fd'" using 2 by simp
    have h: "holds ?mem cur (p + length ?got) (w @ ?got)"
      using less.prems(1) p rx_fits_set [OF less.prems(6)] bytes by (intro holds_store) auto
    from holds_skip [OF h] obtain cur' where
      sk: "skip_newlines ?mem cur = Some cur'" "cur \<le> cur'"
        "cur' - cur = length (takeWhile is_nl (w @ ?got))"
      and h': "holds ?mem cur' (p + length ?got) (dropWhile is_nl (w @ ?got))" by blast
    let ?w = "dropWhile is_nl (w @ ?got)"
    from holds_find [OF h'] obtain q where q: "cur' \<le> q" "q \<le> p + length ?got"
      "region ?mem cur' q = takeWhile (\<lambda>c. \<not> is_nl c) ?w"
      "region ?mem q (p + length ?got) = dropWhile (\<lambda>c. \<not> is_nl c) ?w"
      "findNextEOL ?mem cur' = Some (if q = p + length ?got then None else Some q)" by blast
    have fl: "first_line (?w @ rx_bytes ?fd') = first_line (w @ rx_bytes fd)"
      by (simp add: bytes first_line_drop)
    show ?thesis
    proof (cases "q = p + length ?got")
      case True
      have "rl_loop fd mem cur p = rl_loop ?fd' ?mem cur' (p + length ?got)"
        using 2 bs sk(1) q(5) True nf
        by (subst rl_loop.simps) (simp add: Let_def)
      moreover have "rx_step (?w @ rx_bytes ?fd') (rl_loop ?fd' ?mem cur' (p + length ?got))"
      proof (rule less.hyps [OF _ h' _ _ _ scr])
        show "fd_size ?fd' < fd_size fd" using 2 bs p by (auto simp: Suc_lessI)
        show "\<forall>c\<in>set ?w. \<not> is_nl c"
          using q(4) True by (metis dropWhile_eq_Nil_conv region_Nil)
        show "\<forall>c\<in>set (ns @ takeWhile is_nl (w @ ?got)). is_nl c"
          using less.prems(3) by (auto dest: set_takeWhileD)
        show "length (ns @ takeWhile is_nl (w @ ?got)) = cur'"
          using less.prems(4) sk(2,3) by simp
        have "takeWhile is_nl (w @ ?got) @ ?w = w @ ?got" by simp
        then show "rx_fits ((ns @ takeWhile is_nl (w @ ?got)) @ ?w @ rx_bytes ?fd')"
          using less.prems(6) bytes by (metis append.assoc)
      qed
      ultimately show ?thesis using fl by (simp add: rx_step_def)
    next
      case False
      have "rl_loop fd mem cur p = rl_return ?fd' ?mem cur' q"
        using 2 bs sk(1) q(5) False nf by (subst rl_loop.simps) (simp add: Let_def)
      moreover have "rx_step (?w @ rx_bytes ?fd') (rl_return ?fd' ?mem cur' q)"
        by (rule rl_return_step [OF h' scr _ q(1,3,4) hd_dropWhile_nl])
          (use q(2) False in linarith)
      ultimately show ?thesis using fl by (simp add: rx_step_def)
    qed
  next
    case (3 r)
    have "rl_loop fd mem cur p = rl_loop r mem cur p"
      using 3 nf by (subst rl_loop.simps) (simp add: Let_def)
    moreover have "rx_step (w @ rx_bytes r) (rl_loop r mem cur p)"
      using less.prems 3 by (intro less.hyps) auto
    ultimately show ?thesis using 3 by simp
  qed (use less.prems(5) in auto)
qed

lemma readline_step:
  assumes "rx_rel rx S" and "rx_fits S"
  shows "rx_step S (readline rx)"
proof -
  let ?m = "s_ATBuffer rx" and ?a = "s_ATBufferCur rx" and ?fd = "rx_fd rx"
  from assms(1) obtain p pre where scr: "rx_script ?fd" and h: "holds ?m ?a p pre"
    and S: "S = pre @ rx_bytes ?fd" by (auto simp: rx_rel_def)
  show ?thesis
  proof (cases "?m ?a = CHR 0x00")
    case True
    with h have "pre = []" by (cases "?a < p") (auto simp: holds_def region_Cons)
    moreover have "rx_step ([] @ rx_bytes ?fd) (rl_loop ?fd (?m(0 := CHR 0x00)) 0 0)"
      using scr assms(2) S \<open>pre = []\<close> by (intro rl_loop_step [where ns = "[]"]) (auto simp: holds_def)
    ultimately show ?thesis using S True by (simp add: readline_def)
  next
    case False
    let ?w = "dropWhile is_nl pre"
    from holds_skip [OF h] obtain cur' where sk: "skip_newlines ?m ?a = Some cur'"
      and h': "holds ?m cur' p ?w" by blast
    from holds_find [OF h'] obtain q where q: "cur' \<le> q" "q \<le> p"
      "region ?m cur' q = takeWhile (\<lambda>c. \<not> is_nl c) ?w"
      "region ?m q p = dropWhile (\<lambda>c. \<not> is_nl c) ?w"
      "findNextEOL ?m cur' = Some (if q = p then None else Some q)" by blast
    have fl: "first_line (?w @ rx_bytes ?fd) = first_line S" by (simp add: S first_line_drop)
    show ?thesis
    proof (cases "q = p")
      case True
      have wn: "\<forall>c\<in>set ?w. \<not> is_nl c"
        using q(4) True by (metis dropWhile_eq_Nil_conv region_Nil)
      have e: "scan (\<lambda>c. c = CHR 0x00) ?m cur' = Some p"
        using h' holds_nonzero [OF h'] by (intro scan_Some) (auto simp: holds_def)
      let ?mem = "store ?m 0 (region ?m cur' (p + 1))"
      have "readline rx = rl_loop ?fd ?mem 0 (p - cur')"
        using False sk q(5) True e by (simp add: readline_def Let_def)
      moreover have "holds ?mem 0 (p - cur') ?w"
        using holds_move [OF h'] .
      moreover have "rx_fits ([] @ ?w @ rx_bytes ?fd)"
        using assms(2) S rx_fits_suffix [of "takeWhile is_nl pre" "?w @ rx_bytes ?fd"]
        by (simp flip: append.assoc)
      ultimately have "rx_step (?w @ rx_bytes ?fd) (readline rx)"
        using wn scr by (simp add: rl_loop_step [where ns = "[]"])
      then show ?thesis using fl by (simp add: rx_step_def)
    next
      case False
      have "readline rx = rl_return ?fd ?m cur' q"
        using \<open>?m ?a \<noteq> CHR 0x00\<close> sk q(5) False by (simp add: readline_def)
      moreover have "rx_step (?w @ rx_bytes ?fd) (rl_return ?fd ?m cur' q)"
        by (rule rl_return_step [OF h' scr _ q(1,3,4) hd_dropWhile_nl]) (use q(2) False in linarith)
      ultimately show ?thesis using fl by (simp add: rx_step_def)
    qed
  qed
qed

text \<open>The reader thread calls \<^verbatim>\<open>readline\<close> until it returns NULL.\<close>

fun rx_lines :: "nat \<Rightarrow> at_rx \<Rightarrow> string list option" where
  "rx_lines 0 rx = None"
| "rx_lines (Suc k) rx =
     (case readline rx of
        Done None _ \<Rightarrow> Some []
      | Done (Some l) rx' \<Rightarrow> map_option ((#) l) (rx_lines k rx')
      | _ \<Rightarrow> None)"

lemma first_line_suffix: "first_line s = Some (l, r) \<Longrightarrow> \<exists>u. s = u @ r"
proof -
  assume "first_line s = Some (l, r)"
  then obtain x where d: "dropWhile (\<lambda>c. \<not> is_nl c) (dropWhile is_nl s) = x # r"
    by (auto simp: first_line_def Let_def split: list.splits)
  have "s = takeWhile is_nl s @ takeWhile (\<lambda>c. \<not> is_nl c) (dropWhile is_nl s) @ x # r"
    by (metis d takeWhile_dropWhile_id)
  then have "s = (takeWhile is_nl s @ takeWhile (\<lambda>c. \<not> is_nl c) (dropWhile is_nl s) @ [x]) @ r"
    by simp
  then show ?thesis by blast
qed

lemma rx_lines_stream:
  assumes "rx_rel rx S" and "rx_fits S" and "length S < k"
  shows "rx_lines k rx = Some (stream_lines S)"
  using assms
proof (induction k arbitrary: rx S)
  case 0
  then show ?case by simp
next
  case (Suc k)
  have st: "rx_step S (readline rx)" by (rule readline_step [OF Suc.prems(1,2)])
  show ?case
  proof (cases "first_line S")
    case None
    with st show ?thesis by (subst stream_lines.simps) (auto simp: rx_step_def)
  next
    case (Some lr)
    obtain l r where lr: "lr = (l, r)" by (cases lr)
    with st Some obtain rx' where rx': "readline rx = Done (Some l) rx'" "rx_rel rx' r"
      by (auto simp: rx_step_def)
    have "rx_fits r"
      using Some lr Suc.prems(2) first_line_suffix [of S l r] rx_fits_suffix by auto
    moreover have "length r < k"
      using first_line_shorter [of S l r] Some lr Suc.prems(3) by simp
    ultimately have "rx_lines k rx' = Some (stream_lines r)"
      using Suc.IH rx'(2) by blast
    with Some lr rx'(1) show ?thesis by (subst stream_lines.simps) simp
  qed
qed

lemma rx_rel_init:
  assumes "rx_script fd" shows "rx_rel (rx_init fd) (rx_bytes fd)"
  unfolding rx_rel_def
  by (intro conjI exI [of _ 0] exI [of _ "[]"]) (simp_all add: rx_init_def holds_def assms)

lemma rx_fits_short:
  "CHR 0x00 \<notin> set s \<Longrightarrow> CHR ''>'' \<notin> set s \<Longrightarrow> length s < MAX_AT_RESPONSE \<Longrightarrow> rx_fits s"
  by (auto simp: rx_fits_def)

section \<open>Properties\<close>

text \<open>
  C28: However the modem's bytes are cut into the chunks that \<^verbatim>\<open>read\<close> returns (a line in many
  reads, many lines in one read, retries on \<^verbatim>\<open>EINTR\<close> in between), \<^verbatim>\<open>readline\<close> called until it
  returns NULL yields exactly the lines of the byte stream, in order, and then the NULL of the
  end of file, provided no line overflows the buffer and the stream has no NUL and no prompt
  character. The number of calls is bounded by the number of bytes.
\<close>

theorem readline_lines:
  assumes "rx_script fd" and "rx_fits (rx_bytes fd)" and "length (rx_bytes fd) < k"
  shows "rx_lines k (rx_init fd) = Some (stream_lines (rx_bytes fd))"
  by (rule rx_lines_stream [OF rx_rel_init [OF assms(1)] assms(2,3)])

lemma readline_lines_witness:
  "rx_lines 30 (rx_init [RxData [CHR 0x0D, CHR 0x0A, CHR ''O''], RxEintr,
       RxData [CHR ''K'', CHR 0x0D], RxData [CHR 0x0A, CHR ''R'', CHR 0x0D, CHR ''x''], RxEof])
   = Some [''OK'', ''R'']"
proof -
  let ?fd = "[RxData [CHR 0x0D, CHR 0x0A, CHR ''O''], RxEintr,
       RxData [CHR ''K'', CHR 0x0D], RxData [CHR 0x0A, CHR ''R'', CHR 0x0D, CHR ''x''], RxEof]"
  have "rx_lines 30 (rx_init ?fd) = Some (stream_lines (rx_bytes ?fd))"
    by (rule readline_lines) (simp_all add: rx_fits_short MAX_AT_RESPONSE_def)
  moreover have "stream_lines (rx_bytes ?fd) = [''OK'', ''R'']"
    by (simp add: stream_lines.simps first_line_def is_nl_def)
  ultimately show ?thesis by simp
qed

text \<open>
  The SMS prompt: when the buffer is used up and the next bytes are newlines and the two
  characters of the prompt, \<^verbatim>\<open>readline\<close> returns the prompt as a line, but leaves
  \<^verbatim>\<open>s_ATBufferCur\<close> one past the terminator of what was read: the next call starts on the bytes
  an earlier read left there, which the comment \<^emph>\<open>this will always be <= p_read\<close> rules out.
\<close>

theorem readline_prompt_overruns:
  assumes "mem cur = CHR 0x00" and "\<forall>c\<in>set ns. is_nl c" and "length ns + 2 < MAX_AT_RESPONSE"
  shows "\<exists>mem'. readline \<lparr>rx_fd = RxData (ns @ ''> '') # r, s_ATBuffer = mem, s_ATBufferCur = cur\<rparr>
       = Done (Some ''> '') \<lparr>rx_fd = r, s_ATBuffer = mem', s_ATBufferCur = length ns + 3\<rparr>
     \<and> mem' (length ns + 2) = CHR 0x00 \<and> (\<forall>i>length ns + 2. mem' i = mem i)"
proof -
  let ?bs = "ns @ ''> ''"
  let ?m = "(store (mem(0 := CHR 0x00)) 0 ?bs)(length ?bs := CHR 0x00)"
  have at: "?m (length ns) = CHR ''>''" "?m (length ns + 1) = CHR '' ''" "?m (length ns + 2) = CHR 0x00"
    by (simp_all add: store_def nth_append)
  have sk: "skip_newlines ?m 0 = Some (length ns)"
    unfolding skip_newlines_def
    using assms(2,3) at(1) by (intro scan_Some) (auto simp: store_def nth_append is_nl_def)
  have fe: "findNextEOL ?m (length ns) = Some (Some (length ns + 2))"
    using at by (simp add: findNextEOL_def)
  have "readline \<lparr>rx_fd = RxData ?bs # r, s_ATBuffer = mem, s_ATBufferCur = cur\<rparr>
      = rl_return r ?m (length ns) (length ns + 2)"
    using assms(1,3) sk fe by (simp add: readline_def) (subst rl_loop.simps, simp add: Let_def)
  moreover have "region ?m (length ns) (length ns + 2) = ''> ''"
    using at by (simp add: region_Cons)
  ultimately show ?thesis
    by (intro exI [of _ "?m(length ns + 2 := CHR 0x00)"]) (auto simp: rl_return_def store_def)
qed

lemma readline_prompt_overruns_witness:
  "\<exists>mem mem'. readline \<lparr>rx_fd = [RxData ''> '', RxData [CHR 0x0A]], s_ATBuffer = mem, s_ATBufferCur = 0\<rparr>
     = Done (Some ''> '') \<lparr>rx_fd = [RxData [CHR 0x0A]], s_ATBuffer = mem', s_ATBufferCur = 3\<rparr>
     \<and> mem' 3 = CHR ''E'' \<and> mem' 4 = CHR 0x0A"
proof -
  let ?mem = "(\<lambda>_. CHR 0x00)(3 := CHR ''E'', 4 := CHR 0x0A)"
  from readline_prompt_overruns [of ?mem 0 "[]" "[RxData [CHR 0x0A]]"]
  obtain mem' where "readline \<lparr>rx_fd = [RxData ''> '', RxData [CHR 0x0A]], s_ATBuffer = ?mem, s_ATBufferCur = 0\<rparr>
     = Done (Some ''> '') \<lparr>rx_fd = [RxData [CHR 0x0A]], s_ATBuffer = mem', s_ATBufferCur = 3\<rparr>"
    and "\<forall>i>2. mem' i = ?mem i"
    by (auto simp: MAX_AT_RESPONSE_def numeral_2_eq_2 numeral_3_eq_3)
  then show ?thesis by (intro exI [of _ ?mem] exI [of _ mem']) simp
qed

end
