(* ===== verification/Rild.thy ===== *)
theory Rild
  imports CLib
begin

text \<open>
  The daemon's entry point, \<^verbatim>\<open>rild/rild.c\<close>: the command line, the argument vector it builds for the
  vendor library's \<^verbatim>\<open>RIL_Init\<close>, and the ways \<^verbatim>\<open>main\<close> goes on. The properties and the library that
  \<^verbatim>\<open>dlopen\<close> finds are arguments; arrays are lists of their slots, and a write outside is a fault.
\<close>

definition MAX_LIB_ARGS :: nat where "MAX_LIB_ARGS = 16"
definition MAX_RILDS :: int where "MAX_RILDS = 3"
definition MAX_SERVICE_NAME_LENGTH :: nat where "MAX_SERVICE_NAME_LENGTH = 6"

section \<open>Arguments from a property\<close>

text \<open>
  \<^verbatim>\<open>strtok\<close> with the blank as its delimiter: the next token and the string after it.
\<close>

definition strtok :: "string \<Rightarrow> (string \<times> string) option" where
  "strtok s =
     (let r = dropWhile (\<lambda>c. c = CHR '' '') s in
      if r = [] then None
      else Some (takeWhile (\<lambda>c. c \<noteq> CHR '' '') r, tl (dropWhile (\<lambda>c. c \<noteq> CHR '' '') r)))"

lemma strtok_shorter: "strtok s = Some (tok, rest) \<Longrightarrow> length rest < length s"
proof -
  assume "strtok s = Some (tok, rest)"
  then have r: "dropWhile (\<lambda>c. c = CHR '' '') s \<noteq> []"
    "rest = tl (dropWhile (\<lambda>c. c \<noteq> CHR '' '') (dropWhile (\<lambda>c. c = CHR '' '') s))"
    by (auto simp: strtok_def Let_def split: if_splits)
  have "length (dropWhile (\<lambda>c. c \<noteq> CHR '' '') (dropWhile (\<lambda>c. c = CHR '' '') s)) \<le> length s"
    by (meson le_trans length_dropWhile_le)
  with r show ?thesis by (cases s) (auto simp: less_Suc_eq_le)
qed

text \<open>The loop of \<^verbatim>\<open>make_argv\<close>; \<open>argv\<close> is the caller's array, whose length it does not know.\<close>

function make_argv_loop :: "string \<Rightarrow> nat \<Rightarrow> cptr list \<Rightarrow> fault + nat \<times> cptr list" where
  "make_argv_loop s count argv =
     (case strtok s of
        None \<Rightarrow> Inr (count, argv)
      | Some (tok, rest) \<Rightarrow>
          if count < length argv then make_argv_loop rest (count + 1) (argv[count := Some tok])
          else Inl OutOfBounds)"
  by pat_completeness auto
termination
  by (relation "measure (\<lambda>(s, count, argv). length s)") (auto dest: strtok_shorter)

declare make_argv_loop.simps [simp del]

definition make_argv :: "string \<Rightarrow> cptr list \<Rightarrow> fault + nat \<times> cptr list" where
  "make_argv args argv = make_argv_loop args 1 argv"

section \<open>The command line\<close>

text \<open>
  The loop over the arguments behind \<^verbatim>\<open>argv[0]\<close>: library path, client id, and what follows \<^verbatim>\<open>--\<close>
  (\<open>None\<close> without it). The result \<open>None\<close> is the usage message and the end of the process.
\<close>

fun parse_args :: "string list \<Rightarrow> cptr \<Rightarrow> cptr \<Rightarrow> (cptr \<times> cptr \<times> string list option) option" where
  "parse_args [] lib client = Some (lib, client, None)"
| "parse_args [a] lib client = (if a = ''--'' then Some (lib, client, Some []) else None)"
| "parse_args (a # b # rest) lib client =
     (if a = ''-l'' then parse_args rest (Some b) client
      else if a = ''--'' then Some (lib, client, Some (b # rest))
      else if a = ''-c'' then parse_args rest lib (Some b)
      else None)"

section \<open>The daemon\<close>

text \<open>
  What is outside: the properties, which libraries load and which symbols they have. The name of
  the service is passed and changed.
\<close>

record rild_world =
  libpath :: cptr                     \<comment> \<open>the property of the library path\<close>
  libargs :: string                   \<comment> \<open>the property of its arguments, empty if not set\<close>
  loads :: "string \<Rightarrow> bool"
  has_init :: "string \<Rightarrow> bool"
  has_sap :: "string \<Rightarrow> bool"

text \<open>
  How the daemon goes on: it ends, sleeps without a library, faults, or initialises the library
  with an argument vector (its first \<^verbatim>\<open>argc\<close> slots), registers it (and its SAP socket) and serves.
\<close>

datatype rild_run =
    ExitUsage | ExitSuccess | ExitFailure | SleepLoop | Faulted fault
  | Serving string "cptr list" string bool

text \<open>Writing the two arguments every library gets, and \<^verbatim>\<open>argv[0]\<close>.\<close>

definition add_client :: "string \<Rightarrow> string \<Rightarrow> nat \<times> cptr list \<Rightarrow> fault + cptr list" where
  "add_client argv0 clientId = (\<lambda>(argc, argv).
     if argc + 1 < length argv then
       Inr (take (argc + 2) (argv[argc := Some ''-c'', argc + 1 := Some clientId, 0 := Some argv0]))
     else Inl OutOfBounds)"

text \<open>
  The argument vector: with \<^verbatim>\<open>--\<close> the tail of the process's own, whose array ends with a NULL behind
  the last argument; otherwise the tokens of the property in an array of \<^verbatim>\<open>MAX_LIB_ARGS\<close> slots.
\<close>

definition ril_argv :: "rild_world \<Rightarrow> string \<Rightarrow> string \<Rightarrow> string list option \<Rightarrow> fault + cptr list" where
  "ril_argv w argv0 clientId rest =
     (case rest of
        Some as \<Rightarrow> add_client argv0 clientId (length as + 1, Some ''--'' # map Some as @ [None])
      | None \<Rightarrow>
          (case make_argv (libargs w) (replicate MAX_LIB_ARGS None) of
             Inl e \<Rightarrow> Inl e
           | Inr av \<Rightarrow> add_client argv0 clientId av))"

definition rild_main :: "rild_world \<Rightarrow> string \<Rightarrow> string \<Rightarrow> string \<Rightarrow> string list \<Rightarrow> rild_run" where
  "rild_main w ril_service_name_base ril_service_name argv0 args =
     (case parse_args args None None of
        None \<Rightarrow> ExitUsage
      | Some (rilLibPath, client, rest) \<Rightarrow>
          (let clientId = (case client of None \<Rightarrow> ''0'' | Some c \<Rightarrow> c) in
           if client \<noteq> None \<and> c_atoi clientId \<ge> MAX_RILDS then ExitSuccess
           else
             let service = (if take 2 clientId \<noteq> ''0''
                            then take (MAX_SERVICE_NAME_LENGTH - 1) (ril_service_name_base @ clientId)
                            else ril_service_name);
                 lib = (case rilLibPath of Some p \<Rightarrow> Some p
                        | None \<Rightarrow> (case libpath w of Some (c # p) \<Rightarrow> Some (c # p) | _ \<Rightarrow> None))
             in case lib of
                  None \<Rightarrow> SleepLoop
                | Some lib \<Rightarrow>
                    if \<not> loads w lib \<or> \<not> has_init w lib then ExitFailure
                    else (case ril_argv w argv0 clientId rest of
                            Inl e \<Rightarrow> Faulted e
                          | Inr argv \<Rightarrow> Serving lib argv service (has_sap w lib))))"

section \<open>What the library gets\<close>

fun join_blank :: "string list \<Rightarrow> string" where
  "join_blank [] = []"
| "join_blank [t] = t"
| "join_blank (t # u # ts) = t @ CHR '' '' # join_blank (u # ts)"

definition token_ok :: "string \<Rightarrow> bool" where
  "token_ok t \<longleftrightarrow> t \<noteq> [] \<and> CHR '' '' \<notin> set t"

lemma strtok_last: "token_ok t \<Longrightarrow> strtok t = Some (t, [])"
proof -
  assume t: "token_ok t"
  then have "dropWhile (\<lambda>c. c \<noteq> CHR '' '') t = []" "takeWhile (\<lambda>c. c \<noteq> CHR '' '') t = t"
    "dropWhile (\<lambda>c. c = CHR '' '') t = t"
    by (auto simp: token_ok_def takeWhile_eq_all_conv dropWhile_eq_self_iff dest: list.set_sel(1))
  with t show ?thesis by (simp add: strtok_def token_ok_def del: dropWhile_eq_Nil_conv)
qed

lemma strtok_more: "token_ok t \<Longrightarrow> strtok (t @ CHR '' '' # r) = Some (t, r)"
  by (cases t) (auto simp: token_ok_def strtok_def)

lemma make_argv_tokens:
  assumes "\<forall>t\<in>set ts. token_ok t" and "count \<le> length argv"
  shows "make_argv_loop (join_blank ts) count argv
    = (if count + length ts \<le> length argv
       then Inr (count + length ts, take count argv @ map Some ts @ drop (count + length ts) argv)
       else Inl OutOfBounds)"
  using assms
proof (induction ts arbitrary: count argv rule: join_blank.induct)
  case 1
  then show ?case by (subst make_argv_loop.simps) (simp add: strtok_def)
next
  case (2 t)
  then show ?case
    by (subst make_argv_loop.simps, simp add: strtok_last)
      (subst make_argv_loop.simps, auto simp: strtok_def list_update_append upd_conv_take_nth_drop)
next
  case (3 t u ts)
  have tk: "take (Suc count) (argv[count := Some t]) = take count argv @ [Some t]" if "count < length argv"
    using that by (simp add: take_Suc_conv_app_nth)
  from 3 tk show ?case
    by (subst make_argv_loop.simps) (auto simp: strtok_more)
qed

text \<open>
  C40: The arguments of the property reach the library: with at most thirteen of them \<^verbatim>\<open>RIL_Init\<close> gets the program's name,
  the blank-separated arguments in their order, and \<^verbatim>\<open>-c\<close> with the client id. The array has no
  room for more, and nothing limits the number of tokens: from fourteen on \<^verbatim>\<open>main\<close> or
  \<^verbatim>\<open>make_argv\<close> writes behind it. With arguments behind \<^verbatim>\<open>--\<close> instead, the client id is always written
  behind the end of the process's own argument vector.
\<close>

theorem rild_argument_vector:
  assumes "\<forall>t\<in>set ts. token_ok t" and "libargs w = join_blank ts"
  shows "ril_argv w argv0 clientId None
      = (if length ts \<le> 13 then Inr (map Some (argv0 # ts @ [''-c'', clientId])) else Inl OutOfBounds)
    \<and> ril_argv w argv0 clientId (Some as) = Inl OutOfBounds"
proof -
  let ?argv = "replicate 16 None :: cptr list"
  have run: "make_argv (libargs w) ?argv = (if length ts \<le> 15
      then Inr (1 + length ts, take 1 ?argv @ map Some ts @ drop (1 + length ts) ?argv) else Inl OutOfBounds)"
    using make_argv_tokens [OF assms(1), of 1 ?argv] assms(2) by (simp add: make_argv_def)
  have vec: "add_client argv0 clientId (1 + length ts, take 1 ?argv @ map Some ts @ drop (1 + length ts) ?argv)
      = Inr (map Some (argv0 # ts @ [''-c'', clientId]))" if l: "length ts \<le> 13"
  proof -
    have k: "15 - length ts = Suc (Suc (13 - length ts))"
      using l by simp
    show ?thesis using l k by (simp add: add_client_def list_update_append)
  qed
  show ?thesis
    using run vec by (auto simp: ril_argv_def MAX_LIB_ARGS_def add_client_def)
qed

lemma rild_argument_vector_witness:
  "ril_argv \<lparr>libpath = None, libargs = ''-d /dev/ttyS1'', loads = (\<lambda>_. True), has_init = (\<lambda>_. True),
       has_sap = (\<lambda>_. False)\<rparr> ''rild'' ''1'' None
    = Inr [Some ''rild'', Some ''-d'', Some ''/dev/ttyS1'', Some ''-c'', Some ''1'']"
  using rild_argument_vector [of "[''-d'', ''/dev/ttyS1'']" "\<lparr>libpath = None, libargs = ''-d /dev/ttyS1'',
      loads = (\<lambda>_. True), has_init = (\<lambda>_. True), has_sap = (\<lambda>_. False)\<rparr>" "''rild''" "''1''" "[]"]
  by (simp add: token_ok_def)

end
