(* ===== verification/CLoop.thy ===== *)
theory CLoop
  imports Prelude "HOL-Library.While_Combinator"
begin

text \<open>
  C loops as programs: \<open>while_prog b c x\<close> runs the body \<open>c\<close> on the loop variable and the state as
  long as \<open>b\<close> holds of them. A loop that never ends is \<open>Hang\<close>, so that its end is something to be
  proved; there is no fuel.
\<close>

definition loop_test :: "('x \<Rightarrow> 's \<Rightarrow> bool) \<Rightarrow> ('s, 'x) outcome \<Rightarrow> bool" where
  "loop_test b oc = (case oc of Done x s \<Rightarrow> b x s | _ \<Rightarrow> False)"

definition loop_body :: "('x \<Rightarrow> ('s, 'x) prog) \<Rightarrow> ('s, 'x) outcome \<Rightarrow> ('s, 'x) outcome" where
  "loop_body c oc = (case oc of Done x s \<Rightarrow> c x s | _ \<Rightarrow> oc)"

definition while_prog :: "('x \<Rightarrow> 's \<Rightarrow> bool) \<Rightarrow> ('x \<Rightarrow> ('s, 'x) prog) \<Rightarrow> 'x \<Rightarrow> ('s, 'x) prog" where
  "while_prog b c x s =
     (case while_option (loop_test b) (loop_body c) (Done x s) of None \<Rightarrow> Hang | Some oc \<Rightarrow> oc)"

lemma while_option_stops:
  "while_option (loop_test b) (loop_body c) (Crash e) = Some (Crash e)"
  "while_option (loop_test b) (loop_body c) Hang = Some Hang"
  by (subst while_option_unfold, simp add: loop_test_def)+

lemma while_prog_stop: "\<not> b x s \<Longrightarrow> while_prog b c x s = Done x s"
  by (simp add: while_prog_def loop_test_def while_option_unfold)

lemma while_prog_step: "b x s \<Longrightarrow> while_prog b c x s = bnd (c x) (while_prog b c) s"
  unfolding while_prog_def bnd_def
  by (subst while_option_unfold)
    (auto simp: loop_test_def loop_body_def [of c "Done x s"] while_option_stops split: outcome.split)

lemma while_prog_unfold:
  "while_prog b c x s = (if b x s then bnd (c x) (while_prog b c) s else Done x s)"
  by (simp add: while_prog_stop while_prog_step)

lemma while_prog_Done: "b x s \<Longrightarrow> c x s = Done y t \<Longrightarrow> while_prog b c x s = while_prog b c y t"
  by (simp add: while_prog_step bnd_def)

lemma bnd_run: "m s = Done x t \<Longrightarrow> bnd m f s = f x t"
  by (simp add: bnd_def)

lemma andthen_run: "m s = Done x t \<Longrightarrow> andthen m k s = k t"
  by (simp add: andthen_def bnd_def)

text \<open>A frame that every round keeps is kept by the loop.\<close>

lemma while_prog_invariant:
  assumes "while_prog b c x s = Done y t" and "P x s"
    and "\<And>x s y t. P x s \<Longrightarrow> b x s \<Longrightarrow> c x s = Done y t \<Longrightarrow> P y t"
  shows "P y t \<and> \<not> b y t"
proof -
  from assms(1) have w: "while_option (loop_test b) (loop_body c) (Done x s) = Some (Done y t)"
    by (simp add: while_prog_def split: option.splits)
  have "case Done y t of Done x s \<Rightarrow> P x s | _ \<Rightarrow> True"
    by (rule while_option_rule [OF _ w])
      (use assms in \<open>auto simp: loop_test_def loop_body_def split: outcome.splits\<close>)
  with while_option_stop [OF w] show ?thesis by (simp add: loop_test_def)
qed

context frame
begin

lemma steps_while:
  assumes "\<And>x. steps R (c x)"
  shows "steps R (while_prog b c x)"
proof (rule stepsI)
  fix s y t assume run: "while_prog b c x s = Done y t"
  have "R s t \<and> \<not> b y t"
    by (rule while_prog_invariant [OF run, where P = "\<lambda>_. R s"])
      (use assms in \<open>auto intro: frame_refl frame_trans dest: stepsD\<close>)
  then show "R s t" by simp
qed

end

end
