(* ===== verification/EventList.thy ===== *)
theory EventList
  imports CLoop
begin

text \<open>
  The events of \<^verbatim>\<open>libril/ril_event.h\<close> and the circular doubly linked lists of
  \<^verbatim>\<open>libril/ril_event.cpp\<close>: the store of events, the two list operations as pointer assignments, and
  what they do to the list that the pointers stand for.
\<close>

section \<open>The store\<close>

text \<open>
  A pointer to an event: one of the two static list heads or an event of the program. A pointer
  that may be NULL is an option.
\<close>

datatype eref = TimerList | PendingList | Ev nat

type_synonym timeval = "int \<times> int"  \<comment> \<open>\<^verbatim>\<open>tv_sec\<close>, \<^verbatim>\<open>tv_usec\<close>\<close>

text \<open>The functions the library registers for its events.\<close>

datatype ril_event_cb = CB_userTimer | CB_processWakeup

record ril_event =
  ev_next :: "eref option"
  ev_prev :: "eref option"
  ev_fd :: int
  ev_index :: int
  ev_persist :: bool
  ev_timeout :: timeval
  ev_func :: "ril_event_cb option"
  ev_param :: "nat option"

type_synonym emem = "eref \<Rightarrow> ril_event"

text \<open>
  The static variables, the clock as \<^verbatim>\<open>clock_gettime\<close> reads it (seconds and nanoseconds), and what
  the loop has called so far.
\<close>

record ev_loop =
  mem :: emem
  watch_table :: "eref option list"
  readFds :: "int set"
  nfds :: int
  monotonic :: "int \<times> int"
  fired :: "(ril_event_cb option \<times> int \<times> nat option) list"

definition rd :: "(ril_event \<Rightarrow> 'b) \<Rightarrow> eref \<Rightarrow> ('a ev_loop_scheme, 'b) prog" where
  "rd f e = gets (\<lambda>s. f (mem s e))"

definition wr :: "eref \<Rightarrow> (ril_event \<Rightarrow> ril_event) \<Rightarrow> ('a ev_loop_scheme, unit) prog" where
  "wr e f = modify (\<lambda>s. s\<lparr>mem := (mem s)(e := f (mem s e))\<rparr>)"

definition ptr :: "eref option \<Rightarrow> ('s, eref) prog" where
  "ptr p = (case p of None \<Rightarrow> crash NullDeref | Some e \<Rightarrow> ret e)"

definition zero_event :: ril_event where
  "zero_event = \<lparr>ev_next = None, ev_prev = None, ev_fd = 0, ev_index = 0, ev_persist = False,
     ev_timeout = (0, 0), ev_func = None, ev_param = None\<rparr>"

section \<open>List operations\<close>

definition init_list :: "eref \<Rightarrow> ('a ev_loop_scheme, unit) prog" where
  "init_list list = seqs
     [wr list (\<lambda>_. zero_event),
      wr list (\<lambda>e. e\<lparr>ev_next := Some list\<rparr>),
      wr list (\<lambda>e. e\<lparr>ev_prev := Some list\<rparr>),
      wr list (\<lambda>e. e\<lparr>ev_fd := -1\<rparr>)]"

definition addToList :: "eref \<Rightarrow> eref \<Rightarrow> ('a ev_loop_scheme, unit) prog" where
  "addToList ev list = seqs
     [wr ev (\<lambda>e. e\<lparr>ev_next := Some list\<rparr>),
      bnd (rd ev_prev list) (\<lambda>p. wr ev (\<lambda>e. e\<lparr>ev_prev := p\<rparr>)),
      bnd (bnd (rd ev_prev ev) ptr) (\<lambda>p. wr p (\<lambda>e. e\<lparr>ev_next := Some ev\<rparr>)),
      wr list (\<lambda>e. e\<lparr>ev_prev := Some ev\<rparr>)]"

definition removeFromList :: "eref \<Rightarrow> ('a ev_loop_scheme, unit) prog" where
  "removeFromList ev = seqs
     [bnd (rd ev_prev ev) (\<lambda>p. bnd (bnd (rd ev_next ev) ptr) (\<lambda>n. wr n (\<lambda>e. e\<lparr>ev_prev := p\<rparr>))),
      bnd (rd ev_next ev) (\<lambda>n. bnd (bnd (rd ev_prev ev) ptr) (\<lambda>p. wr p (\<lambda>e. e\<lparr>ev_next := n\<rparr>))),
      wr ev (\<lambda>e. e\<lparr>ev_next := None\<rparr>),
      wr ev (\<lambda>e. e\<lparr>ev_prev := None\<rparr>)]"

section \<open>Circular lists\<close>

text \<open>The nodes \<open>xs\<close> are linked in both directions from \<open>a\<close> to \<open>b\<close>.\<close>

fun links :: "emem \<Rightarrow> eref \<Rightarrow> eref list \<Rightarrow> eref \<Rightarrow> bool" where
  "links m a [] b \<longleftrightarrow> ev_next (m a) = Some b \<and> ev_prev (m b) = Some a"
| "links m a (x # xs) b \<longleftrightarrow> ev_next (m a) = Some x \<and> ev_prev (m x) = Some a \<and> links m x xs b"

lemma links_append: "links m a (us @ x # vs) b \<longleftrightarrow> links m a us x \<and> links m x vs b"
  by (induction us arbitrary: a) auto

lemma links_cong:
  assumes "\<And>x. x \<in> set (a # xs) \<Longrightarrow> ev_next (m' x) = ev_next (m x)"
    and "\<And>x. x \<in> set (b # xs) \<Longrightarrow> ev_prev (m' x) = ev_prev (m x)"
  shows "links m' a xs b = links m a xs b"
  using assms
proof (induction xs arbitrary: a)
  case (Cons x xs)
  have "links m' x xs b = links m x xs b"
    by (rule Cons.IH) (use Cons.prems in auto)
  with Cons.prems show ?case by simp
qed simp

lemma links_first: "links m a xs b \<Longrightarrow> ev_next (m a) = Some (hd (xs @ [b]))"
  by (cases xs) auto

lemma links_last: "links m a xs b \<Longrightarrow> ev_prev (m b) = Some (last (a # xs))"
  by (induction xs arbitrary: a) auto

definition is_list :: "emem \<Rightarrow> eref \<Rightarrow> eref list \<Rightarrow> bool" where
  "is_list m h xs \<longleftrightarrow> links m h xs h \<and> distinct (h # xs)"

lemma is_list_first: "is_list m h xs \<Longrightarrow> ev_next (m h) = Some (hd (xs @ [h]))"
  by (simp add: is_list_def links_first)

text \<open>What is in an event besides its links; the list operations keep it.\<close>

definition core :: "ril_event \<Rightarrow> ril_event" where
  "core e = e\<lparr>ev_next := None, ev_prev := None\<rparr>"

lemma core_fields:
  assumes "core e = core e'"
  shows "ev_fd e = ev_fd e'" "ev_index e = ev_index e'" "ev_persist e = ev_persist e'"
    "ev_timeout e = ev_timeout e'" "ev_func e = ev_func e'" "ev_param e = ev_param e'"
  using assms by (cases e; cases e'; simp add: core_def)+

lemma core_links [simp]:
  "core (e\<lparr>ev_next := n\<rparr>) = core e" "core (e\<lparr>ev_prev := p\<rparr>) = core e"
  by (cases e; simp add: core_def)+

text \<open>Only links differ, and only at the nodes \<open>A\<close>.\<close>

definition relinked :: "eref set \<Rightarrow> 'a ev_loop_scheme \<Rightarrow> 'a ev_loop_scheme \<Rightarrow> bool" where
  "relinked A s t \<longleftrightarrow> (\<forall>x. core (mem t x) = core (mem s x)) \<and> (\<forall>x. x \<notin> A \<longrightarrow> mem t x = mem s x)
     \<and> t = s\<lparr>mem := mem t\<rparr>"

lemma relinked_refl: "relinked A s s"
  by (simp add: relinked_def)

lemma relinked_trans: "relinked A s t \<Longrightarrow> relinked B t u \<Longrightarrow> relinked (A \<union> B) s u"
  unfolding relinked_def by (cases s; cases t; cases u) auto

lemma relinked_mono: "relinked A s t \<Longrightarrow> A \<subseteq> B \<Longrightarrow> relinked B s t"
  unfolding relinked_def by blast

lemma relinked_same:
  assumes "relinked A s t"
  shows "watch_table t = watch_table s" "readFds t = readFds s" "nfds t = nfds s"
    "monotonic t = monotonic s" "fired t = fired s" "ev_loop.more t = ev_loop.more s"
proof -
  from assms have "t = s\<lparr>mem := mem t\<rparr>" by (simp add: relinked_def)
  then show "watch_table t = watch_table s" "readFds t = readFds s" "nfds t = nfds s"
    "monotonic t = monotonic s" "fired t = fired s" "ev_loop.more t = ev_loop.more s"
    by (metis ev_loop.select_convs(2-7) ev_loop.surjective ev_loop.update_convs(1))+
qed

lemma relinked_core: "relinked A s t \<Longrightarrow> core (mem t x) = core (mem s x)"
  by (simp add: relinked_def)

lemma is_list_relinked:
  assumes "relinked A s t" and "is_list (mem s) h xs" and "A \<inter> set (h # xs) = {}"
  shows "is_list (mem t) h xs"
proof -
  have "mem t x = mem s x" if "x \<in> set (h # xs)" for x
    using assms that by (auto simp: relinked_def)
  then have "links (mem t) h xs h = links (mem s) h xs h"
    by (intro links_cong) auto
  with assms(2) show ?thesis by (simp add: is_list_def)
qed

section \<open>The operations on lists\<close>

lemmas store_defs = rd_def wr_def ptr_def

lemma init_list_empty:
  "\<exists>t. init_list h s = Done () t \<and> is_list (mem t) h [] \<and> t = s\<lparr>mem := mem t\<rparr>
     \<and> (\<forall>x. x \<noteq> h \<longrightarrow> mem t x = mem s x) \<and> ev_timeout (mem t h) = (0, 0)"
  by (simp add: init_list_def store_defs run_simps is_list_def zero_event_def)

text \<open>Before the node \<open>l\<close>, which may be the list's head, the event goes in.\<close>

lemma addToList_inserts:
  assumes l: "is_list (mem s) h (us @ vs)" and new: "ev \<notin> set (h # us @ vs)"
    and at: "at = hd (vs @ [h])"
  shows "\<exists>t. addToList ev at s = Done () t \<and> is_list (mem t) h (us @ ev # vs)
    \<and> relinked (set (ev # h # us @ vs)) s t"
proof -
  define p where "p = last (h # us)"
  have d: "distinct (h # us @ vs)" and lk: "links (mem s) h (us @ vs) h"
    using l by (auto simp: is_list_def)
  have p_in: "p \<in> set (h # us)" by (simp add: p_def)
  have at_in: "at \<in> set (h # vs)" by (cases vs) (simp_all add: at)
  have lk': "links (mem s) h us at \<and> (\<forall>v ws. vs = v # ws \<longrightarrow> links (mem s) v ws h)"
    using lk by (cases vs) (auto simp: links_append at)
  then have prev: "ev_prev (mem s at) = Some p"
    using links_last by (auto simp: p_def)
  define m where "m = (mem s)(ev := (mem s ev)\<lparr>ev_next := Some at, ev_prev := Some p\<rparr>)"
  define m1 where "m1 = m(p := (m p)\<lparr>ev_next := Some ev\<rparr>)"
  define m2 where "m2 = m1(at := (m1 at)\<lparr>ev_prev := Some ev\<rparr>)"
  have neq: "p \<noteq> ev" "at \<noteq> ev"
    using p_in at_in new by auto
  have run: "addToList ev at s = Done () (s\<lparr>mem := m2\<rparr>)"
    using neq prev
    by (simp add: addToList_def store_defs run_simps m_def m1_def m2_def)
  have m2_next: "ev_next (m2 x) = (if x = p then Some ev else if x = ev then Some at else ev_next (mem s x))" for x
    using neq by (simp add: m2_def m1_def m_def)
  have m2_prev: "ev_prev (m2 x) = (if x = at then Some ev else if x = ev then Some p else ev_prev (mem s x))" for x
    using neq by (simp add: m2_def m1_def m_def)
  have left: "links m2 h us ev"
  proof (cases us rule: rev_cases)
    case Nil
    then show ?thesis using neq by (simp add: m2_next m2_prev p_def)
  next
    case (snoc ws w)
    then have w: "w = p" by (simp add: p_def)
    have "links (mem s) h ws p" using lk' snoc w by (simp add: links_append)
    moreover have "links m2 h ws p = links (mem s) h ws p"
      using d new at_in snoc w neq by (intro links_cong) (auto simp: m2_next m2_prev)
    ultimately show ?thesis
      using snoc w neq by (simp add: links_append m2_next m2_prev)
  qed
  have right: "links m2 ev vs h"
  proof (cases vs)
    case Nil
    then show ?thesis using neq at by (simp add: m2_next m2_prev)
  next
    case (Cons v ws)
    then have v: "v = at" by (simp add: at)
    have "links (mem s) at ws h" using lk' Cons v by simp
    moreover have "links m2 at ws h = links (mem s) at ws h"
      using d new p_in Cons v neq by (intro links_cong) (auto simp: m2_next m2_prev)
    ultimately show ?thesis
      using Cons v neq by (simp add: m2_next m2_prev)
  qed
  have "is_list m2 h (us @ ev # vs)"
    using left right d new by (auto simp: is_list_def links_append)
  moreover have "relinked (set (ev # h # us @ vs)) s (s\<lparr>mem := m2\<rparr>)"
    using p_in at_in by (auto simp: relinked_def m2_def m1_def m_def)
  ultimately show ?thesis using run by auto
qed

lemma removeFromList_removes:
  assumes l: "is_list (mem s) h (us @ ev # vs)"
  shows "\<exists>t. removeFromList ev s = Done () t \<and> is_list (mem t) h (us @ vs)
    \<and> relinked (set (h # us @ ev # vs)) s t \<and> ev_next (mem t ev) = None"
proof -
  define p where "p = last (h # us)"
  define n where "n = hd (vs @ [h])"
  have d: "distinct (h # us @ ev # vs)" and lk: "links (mem s) h us ev" "links (mem s) ev vs h"
    using l by (auto simp: is_list_def links_append)
  have p_in: "p \<in> set (h # us)" and n_in: "n \<in> set (h # vs)"
    by (auto simp: p_def n_def) (cases vs; simp)
  have nx: "ev_next (mem s ev) = Some n" and pv: "ev_prev (mem s ev) = Some p"
    using links_first [OF lk(2)] links_last [OF lk(1)] by (simp_all add: n_def p_def)
  have neq: "p \<noteq> ev" "n \<noteq> ev" using p_in n_in d by auto
  define m1 where "m1 = (mem s)(n := (mem s n)\<lparr>ev_prev := Some p\<rparr>)"
  define m2 where "m2 = m1(p := (m1 p)\<lparr>ev_next := Some n\<rparr>)"
  define m3 where "m3 = m2(ev := (m2 ev)\<lparr>ev_next := None, ev_prev := None\<rparr>)"
  have run: "removeFromList ev s = Done () (s\<lparr>mem := m3\<rparr>)"
    using neq nx pv by (simp add: removeFromList_def store_defs run_simps m1_def m2_def m3_def)
  have m3_next: "ev_next (m3 x) = (if x = ev then None else if x = p then Some n else ev_next (mem s x))" for x
    using neq by (simp add: m3_def m2_def m1_def)
  have m3_prev: "ev_prev (m3 x) = (if x = ev then None else if x = n then Some p else ev_prev (mem s x))" for x
    using neq by (simp add: m3_def m2_def m1_def)
  have "links m3 h (us @ vs) h"
  proof (cases us rule: rev_cases)
    case Nil
    show ?thesis
    proof (cases vs)
      case Nil
      with \<open>us = []\<close> show ?thesis using neq by (simp add: m3_next m3_prev p_def n_def)
    next
      case (Cons v ws)
      then have v: "v = n" by (simp add: n_def)
      have "links m3 n ws h = links (mem s) n ws h"
        using d p_in v Cons by (intro links_cong) (auto simp: m3_next m3_prev p_def \<open>us = []\<close>)
      then show ?thesis
        using lk(2) Cons v neq \<open>us = []\<close> by (simp add: m3_next m3_prev p_def)
    qed
  next
    case (snoc ws w)
    then have w: "w = p" by (simp add: p_def)
    have left: "links m3 h ws p"
    proof -
      have "links m3 h ws p = links (mem s) h ws p"
        using d n_in snoc w by (intro links_cong) (auto simp: m3_next m3_prev)
      then show ?thesis using lk(1) snoc w by (simp add: links_append)
    qed
    have "links m3 p vs h"
    proof (cases vs)
      case Nil
      then show ?thesis using neq by (simp add: m3_next m3_prev n_def)
    next
      case (Cons v ws')
      then have v: "v = n" by (simp add: n_def)
      have "links m3 n ws' h = links (mem s) n ws' h"
        using d p_in v Cons snoc w by (intro links_cong) (auto simp: m3_next m3_prev)
      then show ?thesis using lk(2) Cons v neq by (simp add: m3_next m3_prev)
    qed
    with left show ?thesis using snoc w by (simp add: links_append)
  qed
  then have "is_list m3 h (us @ vs)"
    using d by (simp add: is_list_def)
  moreover have "relinked (set (h # us @ ev # vs)) s (s\<lparr>mem := m3\<rparr>)"
    using p_in n_in by (auto simp: relinked_def m3_def m2_def m1_def)
  ultimately show ?thesis using run by (auto simp: m3_next)
qed

end
