(* ===== verification/RilEvent.thy ===== *)
theory RilEvent
  imports EventList
begin

text \<open>
  The event loop of \<^verbatim>\<open>libril/ril_event.cpp\<close>: watched descriptors, the sorted list of timers, the
  list of pending events, and one round of the loop. \<^verbatim>\<open>select\<close> and the clock are the surroundings;
  the callbacks are the locale \<open>event_handlers\<close>, which the library interprets.
\<close>

section \<open>Time\<close>

definition timercmp_lt :: "timeval \<Rightarrow> timeval \<Rightarrow> bool" where
  "timercmp_lt a b = (if fst a = fst b then snd a < snd b else fst a < fst b)"

definition timeradd :: "timeval \<Rightarrow> timeval \<Rightarrow> timeval" where
  "timeradd t u =
     (let sec = fst t + fst u; usec = snd t + snd u in
      if usec \<ge> 1000000 then (sec + 1, usec - 1000000) else (sec, usec))"

definition timersub :: "timeval \<Rightarrow> timeval \<Rightarrow> timeval" where
  "timersub a b =
     (let sec = fst a - fst b; usec = snd a - snd b in
      if usec < 0 then (sec - 1, usec + 1000000) else (sec, usec))"

definition getNow :: "('a ev_loop_scheme, timeval) prog" where
  "getNow = gets (\<lambda>s. (fst (monotonic s), snd (monotonic s) div 1000))"

section \<open>Descriptors\<close>

definition MAX_FD_EVENTS :: nat where "MAX_FD_EVENTS = 8"
definition FD_SETSIZE :: int where "FD_SETSIZE = 1024"

text \<open>\<^verbatim>\<open>FD_SET\<close> and \<^verbatim>\<open>FD_CLR\<close> outside the set's range write out of bounds.\<close>

definition FD_SET :: "int \<Rightarrow> ('a ev_loop_scheme, unit) prog" where
  "FD_SET fd = (if 0 \<le> fd \<and> fd < FD_SETSIZE then modify (\<lambda>s. s\<lparr>readFds := insert fd (readFds s)\<rparr>)
     else crash OutOfBounds)"

definition FD_CLR :: "int \<Rightarrow> ('a ev_loop_scheme, unit) prog" where
  "FD_CLR fd = (if 0 \<le> fd \<and> fd < FD_SETSIZE then modify (\<lambda>s. s\<lparr>readFds := readFds s - {fd}\<rparr>)
     else crash OutOfBounds)"

text \<open>The loop of \<^verbatim>\<open>removeWatch\<close> over the table.\<close>

definition max_fd :: "(eref \<Rightarrow> int) \<Rightarrow> eref option list \<Rightarrow> int" where
  "max_fd fd_of table =
     foldl (\<lambda>n rev. case rev of None \<Rightarrow> n | Some e \<Rightarrow> if fd_of e > n then fd_of e else n) 0 table"

definition removeWatch :: "eref \<Rightarrow> nat \<Rightarrow> ('a ev_loop_scheme, unit) prog" where
  "removeWatch ev index = seqs
     [modify (\<lambda>s. s\<lparr>watch_table := (watch_table s)[index := None]\<rparr>),
      wr ev (\<lambda>e. e\<lparr>ev_index := -1\<rparr>),
      bnd (rd ev_fd ev) FD_CLR,
      bnd (rd ev_fd ev) (\<lambda>fd. bnd (gets nfds) (\<lambda>n. whenever (fd + 1 = n)
        (modify (\<lambda>s. s\<lparr>nfds := max_fd (\<lambda>e. ev_fd (mem s e)) (watch_table s) + 1\<rparr>))))]"

section \<open>The steps of a round\<close>

definition timeouts_test :: "timeval \<Rightarrow> eref option \<Rightarrow> 'a ev_loop_scheme \<Rightarrow> bool" where
  "timeouts_test now tev s \<longleftrightarrow> tev \<noteq> Some TimerList \<and>
     (case tev of None \<Rightarrow> True | Some e \<Rightarrow> timercmp_lt (ev_timeout (mem s e)) now)"

definition timeouts_body :: "eref option \<Rightarrow> ('a ev_loop_scheme, eref option) prog" where
  "timeouts_body tev =
     bnd (ptr tev) (\<lambda>e. bnd (rd ev_next e) (\<lambda>next.
       andthen (removeFromList e) (andthen (addToList e PendingList) (ret next))))"

definition processTimeouts :: "('a ev_loop_scheme, unit) prog" where
  "processTimeouts =
     bnd (rd ev_next TimerList) (\<lambda>tev. bnd getNow (\<lambda>now.
       bnd (while_prog (timeouts_test now) timeouts_body tev) (\<lambda>_. ret ())))"

text \<open>The loop over the table, on the indices that are left.\<close>

fun readies_loop :: "int set \<Rightarrow> nat list \<Rightarrow> int \<Rightarrow> ('a ev_loop_scheme, unit) prog" where
  "readies_loop rfds [] n = ret ()"
| "readies_loop rfds (i # is) n =
     (if n > 0 then
        bnd (gets (\<lambda>s. watch_table s ! i)) (\<lambda>rev.
          case rev of
            None \<Rightarrow> readies_loop rfds is n
          | Some e \<Rightarrow>
              bnd (rd ev_fd e) (\<lambda>fd.
                if fd \<in> rfds then
                  andthen (addToList e PendingList)
                    (bnd (rd ev_persist e) (\<lambda>persist.
                       andthen (whenever (\<not> persist) (removeWatch e i)) (readies_loop rfds is (n - 1))))
                else readies_loop rfds is n))
      else ret ())"

definition processReadReadies :: "int set \<Rightarrow> int \<Rightarrow> ('a ev_loop_scheme, unit) prog" where
  "processReadReadies rfds n = readies_loop rfds [0..<MAX_FD_EVENTS] n"

type_synonym 'a ev_runner = "ril_event_cb \<Rightarrow> int \<Rightarrow> nat option \<Rightarrow> ('a ev_loop_scheme, unit) prog"

text \<open>\<^verbatim>\<open>ev->func(ev->fd, 0, ev->param)\<close>; the call is recorded.\<close>

definition call_of :: "'a ev_loop_scheme \<Rightarrow> eref \<Rightarrow> ril_event_cb option \<times> int \<times> nat option" where
  "call_of s e = (ev_func (mem s e), ev_fd (mem s e), ev_param (mem s e))"

definition call_event :: "'a ev_runner \<Rightarrow> eref \<Rightarrow> ('a ev_loop_scheme, unit) prog" where
  "call_event run e =
     bnd (gets (\<lambda>s. call_of s e)) (\<lambda>(func, fd, param).
       case func of
         None \<Rightarrow> crash NullDeref
       | Some f \<Rightarrow> andthen (modify (\<lambda>s. s\<lparr>fired := fired s @ [(func, fd, param)]\<rparr>)) (run f fd param))"

definition fire_body :: "'a ev_runner \<Rightarrow> eref option \<Rightarrow> ('a ev_loop_scheme, eref option) prog" where
  "fire_body run ev =
     bnd (ptr ev) (\<lambda>e. bnd (rd ev_next e) (\<lambda>next.
       andthen (removeFromList e) (andthen (call_event run e) (ret next))))"

definition firePending :: "'a ev_runner \<Rightarrow> ('a ev_loop_scheme, unit) prog" where
  "firePending run =
     bnd (rd ev_next PendingList) (\<lambda>ev.
       bnd (while_prog (\<lambda>ev s. ev \<noteq> Some PendingList) (fire_body run) ev) (\<lambda>_. ret ()))"

text \<open>How long \<^verbatim>\<open>select\<close> waits; \<open>None\<close> is -1: for ever.\<close>

definition calcNextTimeout :: "('a ev_loop_scheme, timeval option) prog" where
  "calcNextTimeout =
     bnd (bnd (rd ev_next TimerList) ptr) (\<lambda>tev. bnd getNow (\<lambda>now.
       if tev = TimerList then ret None
       else bnd (rd ev_timeout tev) (\<lambda>t. ret (Some (if timercmp_lt now t then timersub t now else (0, 0))))))"

section \<open>What the program calls\<close>

definition ril_event_init :: "('a ev_loop_scheme, unit) prog" where
  "ril_event_init = seqs
     [modify (\<lambda>s. s\<lparr>readFds := {}\<rparr>), init_list TimerList, init_list PendingList,
      modify (\<lambda>s. s\<lparr>watch_table := replicate MAX_FD_EVENTS None\<rparr>)]"

definition ril_event_set ::
  "eref \<Rightarrow> int \<Rightarrow> bool \<Rightarrow> ril_event_cb \<Rightarrow> nat option \<Rightarrow> ('a ev_loop_scheme, unit) prog" where
  "ril_event_set ev fd persist func param = seqs
     [wr ev (\<lambda>_. zero_event),
      wr ev (\<lambda>e. e\<lparr>ev_fd := fd, ev_index := -1, ev_persist := persist, ev_func := Some func,
                  ev_param := param\<rparr>)]"

fun first_null :: "'b option list \<Rightarrow> nat option" where
  "first_null [] = None"
| "first_null (None # xs) = Some 0"
| "first_null (Some x # xs) = map_option Suc (first_null xs)"

definition ril_event_add :: "eref \<Rightarrow> ('a ev_loop_scheme, unit) prog" where
  "ril_event_add ev =
     bnd (gets (\<lambda>s. first_null (watch_table s))) (\<lambda>slot.
       case slot of
         None \<Rightarrow> ret ()
       | Some i \<Rightarrow> seqs
           [modify (\<lambda>s. s\<lparr>watch_table := (watch_table s)[i := Some ev]\<rparr>),
            wr ev (\<lambda>e. e\<lparr>ev_index := int i\<rparr>),
            bnd (rd ev_fd ev) FD_SET,
            bnd (rd ev_fd ev) (\<lambda>fd. bnd (gets nfds) (\<lambda>n. whenever (fd \<ge> n) (modify (\<lambda>s. s\<lparr>nfds := fd + 1\<rparr>))))])"

text \<open>The walk past the timers that are due earlier; at the list's head it ends.\<close>

definition walk_test :: "eref \<Rightarrow> eref option \<Rightarrow> 'a ev_loop_scheme \<Rightarrow> bool" where
  "walk_test ev list s = (case list of None \<Rightarrow> True
     | Some e \<Rightarrow> timercmp_lt (ev_timeout (mem s e)) (ev_timeout (mem s ev)) \<and> e \<noteq> TimerList)"

definition walk_body :: "eref option \<Rightarrow> ('a ev_loop_scheme, eref option) prog" where
  "walk_body list = bnd (ptr list) (rd ev_next)"

definition ril_timer_add :: "eref \<Rightarrow> timeval option \<Rightarrow> ('a ev_loop_scheme, unit) prog" where
  "ril_timer_add ev tv =
     (case tv of
        None \<Rightarrow> ret ()
      | Some tv \<Rightarrow>
          bnd (rd ev_next TimerList) (\<lambda>list.
          andthen (wr ev (\<lambda>e. e\<lparr>ev_fd := -1\<rparr>))
          (bnd getNow (\<lambda>now.
          andthen (wr ev (\<lambda>e. e\<lparr>ev_timeout := timeradd now tv\<rparr>))
          (bnd (while_prog (walk_test ev) walk_body list) (\<lambda>l. bnd (ptr l) (addToList ev)))))))"

definition ril_event_del :: "eref \<Rightarrow> ('a ev_loop_scheme, unit) prog" where
  "ril_event_del ev =
     bnd (rd ev_index ev) (\<lambda>i. if i < 0 \<or> i \<ge> int MAX_FD_EVENTS then ret () else removeWatch ev (nat i))"

text \<open>
  What \<^verbatim>\<open>select\<close> returns: the ready descriptors and their number, an interruption, or an error that
  ends the loop; with it the time at which it returns.
\<close>

datatype select_result = SelReady "int set" int | SelEintr | SelError

definition ril_event_round ::
  "'a ev_runner \<Rightarrow> select_result \<times> (int \<times> int) \<Rightarrow> ('a ev_loop_scheme, unit) prog" where
  "ril_event_round run = (\<lambda>(sel, clock).
     bnd calcNextTimeout (\<lambda>_.
       andthen (modify (\<lambda>s. s\<lparr>monotonic := clock\<rparr>))
         (case sel of
            SelReady rfds n \<Rightarrow> seqs [processTimeouts, processReadReadies rfds n, firePending run]
          | _ \<Rightarrow> ret ())))"

text \<open>The loop, with what \<^verbatim>\<open>select\<close> will return; after that it blocks.\<close>

fun ril_event_loop :: "'a ev_runner \<Rightarrow> (select_result \<times> (int \<times> int)) list \<Rightarrow> ('a ev_loop_scheme, unit) prog" where
  "ril_event_loop run [] = hang"
| "ril_event_loop run (x # later) =
     andthen (ril_event_round run x) (if fst x = SelError then ret () else ril_event_loop run later)"

section \<open>Time as a number of microseconds\<close>

definition usec_of :: "timeval \<Rightarrow> int" where
  "usec_of t = fst t * 1000000 + snd t"

definition tv_ok :: "timeval \<Rightarrow> bool" where
  "tv_ok t \<longleftrightarrow> 0 \<le> snd t \<and> snd t < 1000000"

lemma timercmp_usec: "tv_ok a \<Longrightarrow> tv_ok b \<Longrightarrow> timercmp_lt a b \<longleftrightarrow> usec_of a < usec_of b"
  by (cases a; cases b) (auto simp: timercmp_lt_def tv_ok_def usec_of_def)

lemma timeradd_usec: "tv_ok a \<Longrightarrow> tv_ok b \<Longrightarrow> tv_ok (timeradd a b) \<and> usec_of (timeradd a b) = usec_of a + usec_of b"
  by (cases a; cases b) (auto simp: timeradd_def tv_ok_def usec_of_def Let_def)

lemma timersub_usec: "tv_ok a \<Longrightarrow> tv_ok b \<Longrightarrow> tv_ok (timersub a b) \<and> usec_of (timersub a b) = usec_of a - usec_of b"
  by (cases a; cases b) (auto simp: timersub_def tv_ok_def usec_of_def Let_def)

lemma timercmp_irrefl [simp]: "\<not> timercmp_lt a a"
  by (simp add: timercmp_lt_def)

lemma timercmp_trans: "timercmp_lt a b \<Longrightarrow> timercmp_lt b c \<Longrightarrow> timercmp_lt a c"
  by (auto simp: timercmp_lt_def split: if_splits)

lemma timercmp_not_trans: "\<not> timercmp_lt b a \<Longrightarrow> \<not> timercmp_lt c b \<Longrightarrow> \<not> timercmp_lt c a"
  by (auto simp: timercmp_lt_def split: if_splits)

end
