(* ===== verification/EventLoop.thy ===== *)
theory EventLoop
  imports RilEvent
begin

text \<open>
  What the event loop guarantees: the invariant of its lists, table and descriptor set, the timers
  as a sorted list, and which events a round calls, in which order.
\<close>

section \<open>The invariant\<close>

text \<open>The timers \<open>ts\<close> and the pending events \<open>ps\<close>.\<close>

definition ev_lists :: "'a ev_loop_scheme \<Rightarrow> eref list \<Rightarrow> eref list \<Rightarrow> bool" where
  "ev_lists s ts ps \<longleftrightarrow> is_list (mem s) TimerList ts \<and> is_list (mem s) PendingList ps
     \<and> set (TimerList # ts) \<inter> set (PendingList # ps) = {}"

definition sorted_timers :: "'a ev_loop_scheme \<Rightarrow> eref list \<Rightarrow> bool" where
  "sorted_timers s ts \<longleftrightarrow>
     sorted_wrt (\<lambda>a b. \<not> timercmp_lt (ev_timeout (mem s b)) (ev_timeout (mem s a))) ts"

definition watched :: "'a ev_loop_scheme \<Rightarrow> eref set" where
  "watched s = {e. Some e \<in> set (watch_table s)}"

text \<open>
  Each watched event knows its slot, its descriptor is in the set and below \<^verbatim>\<open>nfds\<close>; the set has no
  other descriptor and no two events share one.
\<close>

definition slot_ok :: "'a ev_loop_scheme \<Rightarrow> nat \<Rightarrow> eref \<Rightarrow> bool" where
  "slot_ok s i e \<longleftrightarrow> ev_index (mem s e) = int i \<and> 0 \<le> ev_fd (mem s e) \<and> ev_fd (mem s e) < FD_SETSIZE
     \<and> ev_fd (mem s e) < nfds s \<and> e \<noteq> TimerList \<and> e \<noteq> PendingList"

definition table_ok :: "'a ev_loop_scheme \<Rightarrow> bool" where
  "table_ok s \<longleftrightarrow> length (watch_table s) = MAX_FD_EVENTS
     \<and> (\<forall>i<MAX_FD_EVENTS. \<forall>e. watch_table s ! i = Some e \<longrightarrow> slot_ok s i e)
     \<and> readFds s = (\<lambda>e. ev_fd (mem s e)) ` watched s
     \<and> inj_on (\<lambda>e. ev_fd (mem s e)) (watched s)"

definition loop_ok :: "'a ev_loop_scheme \<Rightarrow> eref list \<Rightarrow> eref list \<Rightarrow> bool" where
  "loop_ok s ts ps \<longleftrightarrow> ev_lists s ts ps \<and> sorted_timers s ts \<and> table_ok s \<and> watched s \<inter> set ts = {}"

text \<open>What stays of an event while the loop moves it: all but its links and its slot.\<close>

definition ev_data :: "ril_event \<Rightarrow> ril_event" where
  "ev_data e = e\<lparr>ev_next := None, ev_prev := None, ev_index := 0\<rparr>"

lemma ev_data_fields:
  assumes "ev_data e = ev_data e'"
  shows "ev_fd e = ev_fd e'" "ev_persist e = ev_persist e'" "ev_timeout e = ev_timeout e'"
    "ev_func e = ev_func e'" "ev_param e = ev_param e'"
  using assms by (cases e; cases e'; simp add: ev_data_def)+

lemma ev_data_core: "core e = core e' \<Longrightarrow> ev_data e = ev_data e'"
  by (cases e; cases e'; simp add: ev_data_def core_def)

lemma ev_data_index [simp]: "ev_data (e\<lparr>ev_index := i\<rparr>) = ev_data e"
  by (cases e; simp add: ev_data_def)

definition kept :: "'a ev_loop_scheme \<Rightarrow> 'a ev_loop_scheme \<Rightarrow> bool" where
  "kept s t \<longleftrightarrow> (\<forall>x. ev_data (mem t x) = ev_data (mem s x)) \<and> monotonic t = monotonic s \<and> fired t = fired s
     \<and> ev_loop.more t = ev_loop.more s"

interpretation kept: frame kept
  by unfold_locales (auto simp: kept_def)

lemma kept_relinked: "relinked A s t \<Longrightarrow> kept s t"
proof -
  assume r: "relinked A s t"
  show ?thesis using ev_data_core [OF relinked_core [OF r]] by (simp add: kept_def relinked_same [OF r])
qed

lemma kept_fields:
  assumes "kept s t"
  shows "ev_timeout (mem t e) = ev_timeout (mem s e)" "ev_fd (mem t e) = ev_fd (mem s e)"
    "ev_persist (mem t e) = ev_persist (mem s e)" "ev_func (mem t e) = ev_func (mem s e)"
    "ev_param (mem t e) = ev_param (mem s e)"
proof -
  have "ev_data (mem t e) = ev_data (mem s e)" using assms by (simp add: kept_def)
  from ev_data_fields [OF this] show "ev_timeout (mem t e) = ev_timeout (mem s e)"
    "ev_fd (mem t e) = ev_fd (mem s e)" "ev_persist (mem t e) = ev_persist (mem s e)"
    "ev_func (mem t e) = ev_func (mem s e)" "ev_param (mem t e) = ev_param (mem s e)" by simp_all
qed

lemma kept_call: "kept s t \<Longrightarrow> call_of t e = call_of s e"
  by (simp add: call_of_def kept_fields [of s t])

lemma sorted_kept: "kept s t \<Longrightarrow> sorted_timers t ts = sorted_timers s ts"
  by (simp add: sorted_timers_def kept_fields [of s t])

lemma table_ok_relinked: "relinked A s t \<Longrightarrow> table_ok s \<Longrightarrow> table_ok t"
proof -
  assume r: "relinked A s t" and ok: "table_ok s"
  have "ev_fd (mem t x) = ev_fd (mem s x)" "ev_index (mem t x) = ev_index (mem s x)" for x
    using core_fields(1,2) [OF relinked_core [OF r]] by auto
  with ok show ?thesis
    by (simp add: table_ok_def slot_ok_def watched_def relinked_same [OF r])
qed

lemma watched_relinked: "relinked A s t \<Longrightarrow> watched t = watched s"
  by (simp add: watched_def relinked_same)

lemma lists_heads:
  assumes "ev_lists s ts ps"
  shows "ev_next (mem s TimerList) = Some (hd (ts @ [TimerList]))"
    "ev_next (mem s PendingList) = Some (hd (ps @ [PendingList]))"
    "TimerList \<notin> set ts" "PendingList \<notin> set ps" "TimerList \<notin> set ps" "PendingList \<notin> set ts"
    "set ts \<inter> set ps = {}" "distinct ts" "distinct ps"
  using assms is_list_first [of "mem s" TimerList ts] is_list_first [of "mem s" PendingList ps]
  by (auto simp: ev_lists_def is_list_def)

section \<open>List operations on the two lists\<close>

lemma remove_timer:
  assumes "ev_lists s (us @ e # vs) ps"
  shows "\<exists>t A. removeFromList e s = Done () t \<and> ev_lists t (us @ vs) ps \<and> relinked A s t"
proof -
  from assms have l: "is_list (mem s) TimerList (us @ e # vs)" "is_list (mem s) PendingList ps"
    and d: "set (TimerList # us @ e # vs) \<inter> set (PendingList # ps) = {}"
    by (auto simp: ev_lists_def)
  from removeFromList_removes [OF l(1)] obtain t where
    t: "removeFromList e s = Done () t" "is_list (mem t) TimerList (us @ vs)"
       "relinked (set (TimerList # us @ e # vs)) s t" by auto
  with is_list_relinked [OF t(3) l(2) d] d show ?thesis by (auto simp: ev_lists_def)
qed

lemma remove_pending:
  assumes "ev_lists s ts (us @ e # vs)"
  shows "\<exists>t A. removeFromList e s = Done () t \<and> ev_lists t ts (us @ vs) \<and> relinked A s t"
proof -
  from assms have l: "is_list (mem s) TimerList ts" "is_list (mem s) PendingList (us @ e # vs)"
    and d: "set (PendingList # us @ e # vs) \<inter> set (TimerList # ts) = {}"
    by (auto simp: ev_lists_def)
  from removeFromList_removes [OF l(2)] obtain t where
    t: "removeFromList e s = Done () t" "is_list (mem t) PendingList (us @ vs)"
       "relinked (set (PendingList # us @ e # vs)) s t" by auto
  with is_list_relinked [OF t(3) l(1) d] d show ?thesis by (auto simp: ev_lists_def)
qed

lemma add_pending:
  assumes "ev_lists s ts ps" and "e \<notin> set ts" "e \<notin> set ps" "e \<noteq> TimerList" "e \<noteq> PendingList"
  shows "\<exists>t A. addToList e PendingList s = Done () t \<and> ev_lists t ts (ps @ [e]) \<and> relinked A s t"
proof -
  from assms have l: "is_list (mem s) TimerList ts" "is_list (mem s) PendingList (ps @ [])"
    and new: "e \<notin> set (PendingList # ps @ [])" and at: "PendingList = hd ([] @ [PendingList])"
    and d: "set (e # PendingList # ps @ []) \<inter> set (TimerList # ts) = {}"
    by (auto simp: ev_lists_def)
  from addToList_inserts [OF l(2) new at] obtain t where
    t: "addToList e PendingList s = Done () t" "is_list (mem t) PendingList (ps @ [e])"
       "relinked (set (e # PendingList # ps @ [])) s t" by auto
  with is_list_relinked [OF t(3) l(1) d] d show ?thesis by (auto simp: ev_lists_def)
qed

lemma add_timer:
  assumes "ev_lists s (us @ vs) ps" and "e \<notin> set (us @ vs)" "e \<notin> set ps" "e \<noteq> TimerList" "e \<noteq> PendingList"
  shows "\<exists>t A. addToList e (hd (vs @ [TimerList])) s = Done () t \<and> ev_lists t (us @ e # vs) ps \<and> relinked A s t"
proof -
  from assms have l: "is_list (mem s) TimerList (us @ vs)" "is_list (mem s) PendingList ps"
    and new: "e \<notin> set (TimerList # us @ vs)"
    and d: "set (e # TimerList # us @ vs) \<inter> set (PendingList # ps) = {}"
    by (auto simp: ev_lists_def)
  from addToList_inserts [OF l(1) new refl] obtain t where
    t: "addToList e (hd (vs @ [TimerList])) s = Done () t" "is_list (mem t) TimerList (us @ e # vs)"
       "relinked (set (e # TimerList # us @ vs)) s t" by auto
  with is_list_relinked [OF t(3) l(2) d] d show ?thesis by (auto simp: ev_lists_def)
qed

section \<open>Expired timers\<close>

definition time_now :: "'a ev_loop_scheme \<Rightarrow> timeval" where
  "time_now s = (fst (monotonic s), snd (monotonic s) div 1000)"

definition expired :: "'a ev_loop_scheme \<Rightarrow> eref \<Rightarrow> bool" where
  "expired s e \<longleftrightarrow> timercmp_lt (ev_timeout (mem s e)) (time_now s)"

lemma timeouts_loop:
  assumes "ev_lists s ts ps"
  shows "\<exists>x t A. while_prog (timeouts_test (time_now s)) timeouts_body (Some (hd (ts @ [TimerList]))) s = Done x t
    \<and> ev_lists t (dropWhile (expired s) ts) (ps @ takeWhile (expired s) ts) \<and> relinked A s t"
  using assms
proof (induction ts arbitrary: s ps)
  case Nil
  have "while_prog (timeouts_test (time_now s)) timeouts_body (Some TimerList) s = Done (Some TimerList) s"
    by (rule while_prog_stop) (simp add: timeouts_test_def)
  with Nil show ?case by (auto intro: relinked_refl)
next
  case (Cons e ts)
  note h = lists_heads [OF Cons.prems]
  have test: "timeouts_test (time_now s) (Some e) s = expired s e"
    using h(3) by (auto simp: expired_def timeouts_test_def)
  show ?case
  proof (cases "expired s e")
    case False
    then have "while_prog (timeouts_test (time_now s)) timeouts_body (Some e) s = Done (Some e) s"
      using test by (intro while_prog_stop) simp
    with False Cons.prems show ?thesis by (auto intro: relinked_refl)
  next
    case True
    from Cons.prems have l: "ev_lists s ([] @ e # ts) ps" by simp
    from remove_timer [OF l] obtain s1 A where
      s1: "removeFromList e s = Done () s1" "ev_lists s1 ts ps" "relinked A s s1" by auto
    have "e \<notin> set ts" "e \<notin> set ps" "e \<noteq> TimerList" "e \<noteq> PendingList" using h by auto
    from add_pending [OF s1(2) this] obtain s2 B where
      s2: "addToList e PendingList s1 = Done () s2" "ev_lists s2 ts (ps @ [e])" "relinked B s1 s2" by auto
    have r: "relinked (A \<union> B) s s2" using s1(3) s2(3) by (rule relinked_trans)
    have k: "kept s s2" using r by (rule kept_relinked)
    have n: "ev_next (mem s e) = Some (hd (ts @ [TimerList]))"
      using Cons.prems links_first [of "mem s" e ts TimerList] by (simp add: ev_lists_def is_list_def)
    have body: "timeouts_body (Some e) s = Done (Some (hd (ts @ [TimerList]))) s2"
      using n s1(1) s2(1) by (simp add: timeouts_body_def ptr_def rd_def run_simps)
    have tn: "time_now s2 = time_now s" using k by (simp add: time_now_def kept_def)
    have ex: "expired s2 = expired s" by (simp add: fun_eq_iff expired_def kept_fields [OF k] tn)
    from Cons.IH [OF s2(2)] obtain x t C where
      t: "while_prog (timeouts_test (time_now s)) timeouts_body (Some (hd (ts @ [TimerList]))) s2 = Done x t"
         "ev_lists t (dropWhile (expired s) ts) ((ps @ [e]) @ takeWhile (expired s) ts)" "relinked C s2 t"
      unfolding ex tn by blast
    have "while_prog (timeouts_test (time_now s)) timeouts_body (Some e) s = Done x t"
      using while_prog_Done [where b = "timeouts_test (time_now s)" and c = timeouts_body, OF _ body] test True t(1)
      by simp
    moreover have "relinked (A \<union> B \<union> C) s t" using r t(3) by (rule relinked_trans)
    ultimately show ?thesis using True t(2) by auto
  qed
qed

lemma processTimeouts_moves:
  assumes "ev_lists s ts ps"
  shows "\<exists>t A. processTimeouts s = Done () t \<and> relinked A s t
    \<and> ev_lists t (dropWhile (expired s) ts) (ps @ takeWhile (expired s) ts)"
proof -
  from timeouts_loop [OF assms] obtain x t A where
    t: "while_prog (timeouts_test (time_now s)) timeouts_body (Some (hd (ts @ [TimerList]))) s = Done x t"
      "ev_lists t (dropWhile (expired s) ts) (ps @ takeWhile (expired s) ts)" "relinked A s t"
    by blast
  have "processTimeouts s = bnd (while_prog (timeouts_test (time_now s)) timeouts_body
      (Some (hd (ts @ [TimerList])))) (\<lambda>_. ret ()) s"
    using lists_heads(1) [OF assms]
    by (simp add: processTimeouts_def rd_def gets_def bnd_def getNow_def time_now_def)
  then have "processTimeouts s = Done () t" by (simp add: bnd_def t(1) ret_def)
  with t show ?thesis by blast
qed

text \<open>In a sorted list the expired timers are in front.\<close>

lemma expired_prefix:
  assumes "sorted_timers s ts"
  shows "takeWhile (expired s) ts = filter (expired s) ts"
    "dropWhile (expired s) ts = filter (\<lambda>e. \<not> expired s e) ts"
proof -
  have "takeWhile (expired s) ts = filter (expired s) ts
    \<and> dropWhile (expired s) ts = filter (\<lambda>e. \<not> expired s e) ts"
    using assms
  proof (induction ts)
    case (Cons e ts)
    then have IH: "takeWhile (expired s) ts = filter (expired s) ts"
      "dropWhile (expired s) ts = filter (\<lambda>e. \<not> expired s e) ts"
      by (auto simp: sorted_timers_def)
    have "\<not> expired s e \<Longrightarrow> \<forall>x\<in>set ts. \<not> expired s x"
      using Cons.prems by (auto simp: sorted_timers_def expired_def dest: timercmp_not_trans)
    then show ?case using IH by (auto simp: filter_empty_conv filter_id_conv)
  qed simp
  then show "takeWhile (expired s) ts = filter (expired s) ts"
    "dropWhile (expired s) ts = filter (\<lambda>e. \<not> expired s e) ts" by simp_all
qed

lemma sorted_dropWhile: "sorted_timers s ts \<Longrightarrow> sorted_timers s (dropWhile P ts)"
  by (induction ts) (auto simp: sorted_timers_def)

section \<open>The table\<close>

lemma max_fd_bound:
  assumes "Some e \<in> set table"
  shows "fd_of e \<le> max_fd fd_of table"
proof -
  let ?f = "\<lambda>n rev. case rev of None \<Rightarrow> n | Some e \<Rightarrow> if fd_of e > n then fd_of e else n"
  have mono: "n \<le> foldl ?f n xs" for n :: int and xs
  proof (induction xs arbitrary: n)
    case (Cons x xs)
    have "n \<le> ?f n x" by (simp split: option.split)
    also have "\<dots> \<le> foldl ?f (?f n x) xs" by (rule Cons)
    finally show ?case by simp
  qed simp
  have "fd_of e \<le> foldl ?f n table" for n
    using assms
  proof (induction table arbitrary: n)
    case (Cons x xs)
    show ?case
    proof (cases "x = Some e")
      case True
      have "fd_of e \<le> ?f n x" using True by simp
      also have "\<dots> \<le> foldl ?f (?f n x) xs" by (rule mono)
      finally show ?thesis by simp
    next
      case False
      with Cons show ?thesis by simp
    qed
  qed simp
  then show ?thesis by (simp add: max_fd_def)
qed

lemma watched_nth: "table_ok s \<Longrightarrow> e \<in> watched s \<longleftrightarrow> (\<exists>i<MAX_FD_EVENTS. watch_table s ! i = Some e)"
  by (auto simp: watched_def table_ok_def in_set_conv_nth)

lemma slot_unique:
  assumes "table_ok s" and "i < MAX_FD_EVENTS" "j < MAX_FD_EVENTS"
    and "watch_table s ! i = Some e" "watch_table s ! j = Some e"
  shows "i = j"
proof -
  have "slot_ok s i e" "slot_ok s j e" using assms by (simp_all add: table_ok_def)
  then show ?thesis by (simp add: slot_ok_def)
qed

lemma watched_update:
  assumes "table_ok s" and "i < MAX_FD_EVENTS" and "watch_table s ! i = Some e"
    and "watch_table t = (watch_table s)[i := None]"
  shows "watched t = watched s - {e}"
proof -
  have len: "length (watch_table s) = MAX_FD_EVENTS" using assms(1) by (simp add: table_ok_def)
  have "Some x \<in> set (watch_table t) \<longleftrightarrow> Some x \<in> set (watch_table s) \<and> x \<noteq> e" for x
  proof
    assume "Some x \<in> set (watch_table t)"
    then obtain j where j: "j < MAX_FD_EVENTS" "watch_table t ! j = Some x"
      using assms(4) len by (metis in_set_conv_nth length_list_update)
    have "j \<noteq> i" using j assms(2,4) len by auto
    then have ji: "j \<noteq> i" "watch_table s ! j = Some x"
      using j assms(4) by simp_all
    then have "x \<noteq> e" using slot_unique [OF assms(1) j(1) assms(2) _ assms(3)] by blast
    moreover have "Some x \<in> set (watch_table s)" using ji j len by (metis nth_mem)
    ultimately show "Some x \<in> set (watch_table s) \<and> x \<noteq> e" by simp
  next
    assume x: "Some x \<in> set (watch_table s) \<and> x \<noteq> e"
    then obtain j where j: "j < MAX_FD_EVENTS" "watch_table s ! j = Some x"
      using len by (metis in_set_conv_nth)
    with x assms(3) have "j \<noteq> i" by auto
    with j assms(4) len have "watch_table t ! j = Some x" "j < length (watch_table t)" by simp_all
    then show "Some x \<in> set (watch_table t)" by (metis nth_mem)
  qed
  then show ?thesis by (auto simp: watched_def)
qed

lemma removeWatch_removes:
  assumes ok: "table_ok s" and i: "i < MAX_FD_EVENTS" and e: "watch_table s ! i = Some e"
  shows "\<exists>t. removeWatch e i s = Done () t \<and> table_ok t \<and> watch_table t = (watch_table s)[i := None]
    \<and> mem t = (mem s)(e := (mem s e)\<lparr>ev_index := -1\<rparr>) \<and> kept s t"
proof -
  have slot: "slot_ok s i e" and len: "length (watch_table s) = MAX_FD_EVENTS"
    and fds: "readFds s = (\<lambda>e. ev_fd (mem s e)) ` watched s"
    and inj: "inj_on (\<lambda>e. ev_fd (mem s e)) (watched s)"
    and slots: "\<And>j x. j < MAX_FD_EVENTS \<Longrightarrow> watch_table s ! j = Some x \<Longrightarrow> slot_ok s j x"
    using assms by (auto simp: table_ok_def)
  define m where "m = (mem s)(e := (mem s e)\<lparr>ev_index := -1\<rparr>)"
  define tb where "tb = (watch_table s)[i := None]"
  define n where "n = (if ev_fd (mem s e) + 1 = nfds s then max_fd (\<lambda>e. ev_fd (m e)) tb + 1 else nfds s)"
  define t where "t = s\<lparr>watch_table := tb, mem := m, readFds := readFds s - {ev_fd (mem s e)}, nfds := n\<rparr>"
  have run: "removeWatch e i s = Done () t"
    using slot by (simp add: removeWatch_def FD_CLR_def slot_ok_def rd_def wr_def run_simps t_def n_def m_def tb_def)
  have fd: "ev_fd (mem t x) = ev_fd (mem s x)" for x by (simp add: t_def m_def)
  have w: "watched t = watched s - {e}"
    by (rule watched_update [OF ok i e]) (simp add: t_def tb_def)
  have e_in: "e \<in> watched s" using watched_nth [OF ok] i e by blast
  have "slot_ok t j x" if j: "j < MAX_FD_EVENTS" "watch_table t ! j = Some x" for j x
  proof -
    have "j \<noteq> i" "watch_table s ! j = Some x"
      using j i len by (auto simp: t_def tb_def nth_list_update split: if_splits)
    moreover from this slot_unique [OF ok j(1) i _ e] have "x \<noteq> e" by blast
    ultimately have s: "slot_ok s j x" and tx: "mem t x = mem s x"
      using slots j by (auto simp: t_def m_def)
    have "ev_fd (mem s x) < n"
    proof (cases "ev_fd (mem s e) + 1 = nfds s")
      case True
      have "tb ! j = Some x" "j < length tb" using j len by (simp_all add: t_def tb_def)
      then have "Some x \<in> set tb" by (metis nth_mem)
      from max_fd_bound [OF this, of "\<lambda>e. ev_fd (m e)"] True show ?thesis
        using tx by (simp add: n_def t_def)
    qed (use s in \<open>simp add: n_def slot_ok_def\<close>)
    with s tx show ?thesis by (simp add: slot_ok_def t_def)
  qed
  moreover have "readFds t = (\<lambda>e. ev_fd (mem t e)) ` watched t"
  proof -
    have "readFds t = (\<lambda>e. ev_fd (mem s e)) ` watched s - {ev_fd (mem s e)}" by (simp add: t_def fds)
    also have "\<dots> = (\<lambda>e. ev_fd (mem s e)) ` (watched s - {e})"
      using inj e_in by (auto simp: inj_on_def)
    finally show ?thesis by (simp add: w fd)
  qed
  moreover have "inj_on (\<lambda>e. ev_fd (mem t e)) (watched t)"
    using inj by (simp add: w fd inj_on_def)
  ultimately have "table_ok t" using len by (simp add: table_ok_def t_def tb_def)
  moreover have "kept s t" by (simp add: kept_def t_def m_def)
  ultimately show ?thesis using run by (auto simp: t_def m_def tb_def)
qed

lemma lists_index:
  assumes "ev_lists s ts ps" and "mem t = (mem s)(e := (mem s e)\<lparr>ev_index := i\<rparr>)"
  shows "ev_lists t ts ps"
proof -
  have "ev_next (mem t x) = ev_next (mem s x)" "ev_prev (mem t x) = ev_prev (mem s x)" for x
    using assms(2) by simp_all
  then have "links (mem t) h xs h = links (mem s) h xs h" for h xs
    by (intro links_cong)
  with assms(1) show ?thesis by (simp add: ev_lists_def is_list_def)
qed

section \<open>Ready descriptors\<close>

text \<open>The events at the slots \<open>is\<close> whose descriptor is ready.\<close>

definition ready_events :: "'a ev_loop_scheme \<Rightarrow> int set \<Rightarrow> nat list \<Rightarrow> eref list" where
  "ready_events s rfds is =
     concat (map (\<lambda>i. case watch_table s ! i of None \<Rightarrow> []
       | Some e \<Rightarrow> if ev_fd (mem s e) \<in> rfds then [e] else []) is)"

lemma ready_events_mem:
  "x \<in> set (ready_events s rfds is) \<longleftrightarrow> (\<exists>j\<in>set is. watch_table s ! j = Some x \<and> ev_fd (mem s x) \<in> rfds)"
  unfolding ready_events_def by (induction "is") (auto split: option.splits)

lemma ready_events_cong:
  assumes "\<And>i. i \<in> set is \<Longrightarrow> watch_table t ! i = watch_table s ! i" and "kept s t"
  shows "ready_events t rfds is = ready_events s rfds is"
  unfolding ready_events_def using assms
  by (intro arg_cong [where f = concat] map_cong) (auto simp: kept_fields [OF assms(2)] split: option.split)

lemma readies_loop_moves:
  assumes "ev_lists s ts ps" and "table_ok s" and "watched s \<inter> set ts = {}"
    and "distinct is" and "set is \<subseteq> {..<MAX_FD_EVENTS}"
    and "\<And>i e. i \<in> set is \<Longrightarrow> watch_table s ! i = Some e \<Longrightarrow> e \<notin> set ps"
    and "int (length (ready_events s rfds is)) \<le> n"
  shows "\<exists>t. readies_loop rfds is n s = Done () t \<and> ev_lists t ts (ps @ ready_events s rfds is)
    \<and> table_ok t \<and> watched t \<subseteq> watched s \<and> kept s t
    \<and> (\<forall>e\<in>watched s. e \<in> watched t \<longleftrightarrow> \<not> (e \<in> set (ready_events s rfds is) \<and> \<not> ev_persist (mem s e)))"
  using assms
proof (induction "is" arbitrary: s ps n)
  case Nil
  then show ?case by (auto simp: ready_events_def run_simps kept_def)
next
  case (Cons i "is")
  let ?R = "ready_events s rfds is"
  have i: "i < MAX_FD_EVENTS" "i \<notin> set is" "set is \<subseteq> {..<MAX_FD_EVENTS}" "distinct is"
    using Cons.prems by auto
  have split: "ready_events s rfds (i # is) = ready_events s rfds [i] @ ?R"
    by (simp add: ready_events_def)
  show ?case
  proof (cases "n > 0")
    case False
    with Cons.prems(7) have "int (length (ready_events s rfds (i # is))) \<le> 0" by linarith
    then have "ready_events s rfds (i # is) = []" by simp
    with False Cons.prems show ?thesis by (auto simp: run_simps kept_def)
  next
    case n: True
    show ?thesis
    proof (cases "ready_events s rfds [i] = []")
      case True
      have step: "readies_loop rfds (i # is) n s = readies_loop rfds is n s"
        using n True by (auto simp: ready_events_def rd_def run_simps split: option.splits if_splits)
      have r: "ready_events s rfds (i # is) = ?R" using split True by simp
      have "int (length ?R) \<le> n" using Cons.prems(7) r by simp
      from Cons.IH [OF Cons.prems(1,2,3) i(4,3) _ this] Cons.prems(6)
      show ?thesis unfolding step r by auto
    next
      case False
      then obtain e where e: "watch_table s ! i = Some e" "ev_fd (mem s e) \<in> rfds" "ready_events s rfds [i] = [e]"
        by (auto simp: ready_events_def split: option.splits if_splits)
      have e_w: "e \<in> watched s" using watched_nth [OF Cons.prems(2)] i e by blast
      have e_new: "e \<notin> set ts" "e \<notin> set ps" "e \<noteq> TimerList" "e \<noteq> PendingList"
        using e_w e Cons.prems i(1) by (auto simp: table_ok_def slot_ok_def)
      from add_pending [OF Cons.prems(1) e_new] obtain s1 A where
        s1: "addToList e PendingList s = Done () s1" "ev_lists s1 ts (ps @ [e])" "relinked A s s1" by auto
      note same1 = relinked_same [OF s1(3)]
      have ok1: "table_ok s1" using s1(3) Cons.prems(2) by (rule table_ok_relinked)
      have k1: "kept s s1" using s1(3) by (rule kept_relinked)
      have per: "ev_persist (mem s1 e) = ev_persist (mem s e)" by (simp add: kept_fields [OF k1])
      obtain s2 where
        s2: "whenever (\<not> ev_persist (mem s e)) (removeWatch e i) s1 = Done () s2" "table_ok s2" "kept s s2"
          "ev_lists s2 ts (ps @ [e])" "\<And>j. j \<noteq> i \<Longrightarrow> watch_table s2 ! j = watch_table s ! j"
          "watched s2 = (if ev_persist (mem s e) then watched s else watched s - {e})"
      proof (cases "ev_persist (mem s e)")
        case True
        show ?thesis
          by (rule that [of s1]) (use True ok1 k1 s1 same1 in \<open>simp_all add: run_simps watched_def\<close>)
      next
        case False
        have e1: "watch_table s1 ! i = Some e" using e same1 by simp
        from removeWatch_removes [OF ok1 i(1) e1] obtain s2 where
          r: "removeWatch e i s1 = Done () s2" "table_ok s2" "watch_table s2 = (watch_table s1)[i := None]"
            "mem s2 = (mem s1)(e := (mem s1 e)\<lparr>ev_index := -1\<rparr>)" "kept s1 s2" by auto
        show ?thesis
        proof (rule that [of s2])
          show "kept s s2" using k1 r(5) by (rule kept.frame_trans)
          show "ev_lists s2 ts (ps @ [e])" using s1(2) r(4) by (rule lists_index)
          show "watched s2 = (if ev_persist (mem s e) then watched s else watched s - {e})"
            using watched_update [OF ok1 i(1) e1 r(3)] False same1 by (simp add: watched_def)
        qed (use False r same1 in \<open>simp_all add: run_simps nth_list_update\<close>)
      qed
      have step: "readies_loop rfds (i # is) n s = readies_loop rfds is (n - 1) s2"
        using n e s1(1) s2(1) per by (simp add: rd_def run_simps)
      have R2: "ready_events s2 rfds is = ?R"
        by (rule ready_events_cong) (use s2(3,5) i(2) in metis)+
      have r: "ready_events s rfds (i # is) = e # ?R" using split e by simp
      have w2: "watched s2 \<inter> set ts = {}" using s2(6) Cons.prems(3) by auto
      have new2: "x \<notin> set (ps @ [e])" if x: "j \<in> set is" "watch_table s2 ! j = Some x" for j x
      proof -
        have j: "j \<noteq> i" "j < MAX_FD_EVENTS" using x i by auto
        then have sx: "watch_table s ! j = Some x" using s2(5) x by simp
        then have "x \<noteq> e" using slot_unique [OF Cons.prems(2) j(2) i(1) _ e(1)] j by blast
        with Cons.prems(6) [of j x] sx x show ?thesis by auto
      qed
      have n2: "int (length (ready_events s2 rfds is)) \<le> n - 1"
        using Cons.prems(7) r R2 by simp
      have "\<exists>t. readies_loop rfds is (n - 1) s2 = Done () t \<and> ev_lists t ts ((ps @ [e]) @ ?R)
        \<and> table_ok t \<and> watched t \<subseteq> watched s2 \<and> kept s2 t
        \<and> (\<forall>x\<in>watched s2. x \<in> watched t \<longleftrightarrow> \<not> (x \<in> set ?R \<and> \<not> ev_persist (mem s2 x)))"
        by (rule Cons.IH [OF s2(4,2) w2 i(4,3) _ n2, unfolded R2]) (use new2 in blast)
      then obtain t where
        t: "readies_loop rfds is (n - 1) s2 = Done () t" "ev_lists t ts ((ps @ [e]) @ ?R)" "table_ok t"
          "watched t \<subseteq> watched s2" "kept s2 t"
          "\<And>x. x \<in> watched s2 \<Longrightarrow> x \<in> watched t \<longleftrightarrow> \<not> (x \<in> set ?R \<and> \<not> ev_persist (mem s2 x))"
        by blast
      have k: "kept s t" using s2(3) t(5) by (rule kept.frame_trans)
      have nR: "e \<notin> set ?R"
        using slot_unique [OF Cons.prems(2) _ i(1) _ e(1)] i
        by (auto simp: ready_events_def split: option.splits if_splits)
      have "x \<in> watched t \<longleftrightarrow> \<not> (x \<in> set (e # ?R) \<and> \<not> ev_persist (mem s x))" if "x \<in> watched s" for x
        using that t(4) t(6) [of x] s2(6) nR by (auto simp: kept_fields [OF s2(3)] split: if_splits)
      moreover have "watched t \<subseteq> watched s" using t(4) s2(6) by (auto split: if_splits)
      ultimately show ?thesis using t k step r by auto
    qed
  qed
qed

end
