(* ===== verification/EventRound.thy ===== *)
theory EventRound
  imports EventLoop
begin

text \<open>
  A round of the event loop calls the expired timers and the ready descriptors; the operations the
  program calls keep the loop's invariant. What a callback may do is the locale \<open>event_handlers\<close>.
\<close>

section \<open>Adding and deleting\<close>

text \<open>The abstract timer queue: an event goes behind the ones due earlier, before those due at its time.\<close>

definition timer_insert :: "(eref \<Rightarrow> timeval) \<Rightarrow> eref \<Rightarrow> eref list \<Rightarrow> eref list" where
  "timer_insert due e ts =
     takeWhile (\<lambda>x. timercmp_lt (due x) (due e)) ts @ e # dropWhile (\<lambda>x. timercmp_lt (due x) (due e)) ts"

lemma walk_stops:
  assumes "links (mem s) a ts TimerList" and "TimerList \<notin> set ts"
  shows "while_prog (walk_test ev) walk_body (Some (hd (ts @ [TimerList]))) s
    = Done (Some (hd (dropWhile (\<lambda>x. timercmp_lt (ev_timeout (mem s x)) (ev_timeout (mem s ev))) ts @ [TimerList]))) s"
  using assms
proof (induction ts arbitrary: a)
  case Nil
  show ?case by (simp add: while_prog_stop walk_test_def)
next
  case (Cons x ts)
  have n: "ev_next (mem s x) = Some (hd (ts @ [TimerList]))"
    using Cons.prems links_first [of "mem s" x ts TimerList] by simp
  have t: "walk_test ev (Some x) s \<longleftrightarrow> timercmp_lt (ev_timeout (mem s x)) (ev_timeout (mem s ev))"
    using Cons.prems by (auto simp: walk_test_def)
  show ?case
  proof (cases "walk_test ev (Some x) s")
    case True
    have "walk_body (Some x) s = Done (Some (hd (ts @ [TimerList]))) s"
      by (simp add: walk_body_def ptr_def rd_def run_simps n)
    from while_prog_Done [where b = "walk_test ev" and c = walk_body, OF True this] Cons.IH [of x] Cons.prems True
    show ?thesis by (simp add: t)
  next
    case False
    then show ?thesis using t by (simp add: while_prog_stop)
  qed
qed

lemma sorted_insert:
  assumes "sorted_timers s ts"
  shows "sorted_timers s (timer_insert (\<lambda>x. ev_timeout (mem s x)) e ts)"
  using assms
proof (induction ts)
  case Nil
  then show ?case by (simp add: timer_insert_def sorted_timers_def)
next
  case (Cons x ts)
  let ?lt = "\<lambda>a b. timercmp_lt (ev_timeout (mem s a)) (ev_timeout (mem s b))"
  from Cons.prems have s: "\<forall>y\<in>set ts. \<not> ?lt y x" "sorted_timers s ts" by (auto simp: sorted_timers_def)
  show ?case
  proof (cases "?lt x e")
    case True
    have "set (timer_insert (\<lambda>x. ev_timeout (mem s x)) e ts) = insert e (set ts)"
      by (metis (no_types) Un_insert_right list.simps(15) set_append takeWhile_dropWhile_id timer_insert_def)
    moreover have "\<not> ?lt e x" using True by (auto dest: timercmp_trans)
    ultimately show ?thesis
      using True s Cons.IH by (auto simp: sorted_timers_def timer_insert_def)
  next
    case False
    have "\<not> ?lt y e" if "y \<in> set ts" for y
      using False s(1) that timercmp_not_trans by blast
    with False Cons.prems show ?thesis
      by (auto simp: sorted_timers_def timer_insert_def)
  qed
qed

text \<open>Fields of an event that is in no list and no slot may change.\<close>

lemma ev_lists_fields:
  assumes "ev_lists s ts ps" and "e \<notin> set ts" "e \<notin> set ps" "e \<noteq> TimerList" "e \<noteq> PendingList"
    and "\<And>x. x \<noteq> e \<Longrightarrow> mem t x = mem s x"
  shows "ev_lists t ts ps"
proof -
  have "links (mem t) TimerList ts TimerList = links (mem s) TimerList ts TimerList"
    "links (mem t) PendingList ps PendingList = links (mem s) PendingList ps PendingList"
    using assms by (intro links_cong; force)+
  with assms(1) show ?thesis by (simp add: ev_lists_def is_list_def)
qed

lemma table_ok_fields:
  assumes "table_ok s" and "e \<notin> watched s" and "\<And>x. x \<noteq> e \<Longrightarrow> mem t x = mem s x"
    and "watch_table t = watch_table s" "readFds t = readFds s" "nfds t = nfds s"
  shows "table_ok t"
proof -
  have w: "watched t = watched s" using assms(4) by (simp add: watched_def)
  have m: "mem t x = mem s x" if "x \<in> watched s" for x using assms(2,3) that by metis
  have "slot_ok t i x" if "i < MAX_FD_EVENTS" "watch_table s ! i = Some x" for i x
  proof -
    have "slot_ok s i x" "x \<in> watched s"
      using assms(1) that watched_nth [OF assms(1)] by (auto simp: table_ok_def)
    then show ?thesis using m assms(6) by (simp add: slot_ok_def)
  qed
  moreover have "(\<lambda>e. ev_fd (mem t e)) ` watched s = (\<lambda>e. ev_fd (mem s e)) ` watched s"
    using m by (intro image_cong) auto
  moreover have "inj_on (\<lambda>e. ev_fd (mem t e)) (watched s) = inj_on (\<lambda>e. ev_fd (mem s e)) (watched s)"
    using m by (intro inj_on_cong) auto
  ultimately show ?thesis using assms(1,4,5) by (simp add: table_ok_def w)
qed

lemma sorted_fields:
  "sorted_timers s ts \<Longrightarrow> e \<notin> set ts \<Longrightarrow> (\<And>x. x \<noteq> e \<Longrightarrow> mem t x = mem s x) \<Longrightarrow> sorted_timers t ts"
proof -
  assume st: "sorted_timers s ts" and e: "e \<notin> set ts" and m: "\<And>x. x \<noteq> e \<Longrightarrow> mem t x = mem s x"
  have "mem t x = mem s x" if "x \<in> set ts" for x using e m that by metis
  then show ?thesis
    using st unfolding sorted_timers_def by (auto elim!: sorted_wrt_mono_rel [rotated])
qed

text \<open>What a new timer is: not in use, and with the deadline \<open>now + tv\<close>.\<close>

definition due_at :: "'a ev_loop_scheme \<Rightarrow> eref \<Rightarrow> timeval \<Rightarrow> 'a ev_loop_scheme" where
  "due_at s e tv = s\<lparr>mem := (mem s)(e := (mem s e)\<lparr>ev_fd := -1, ev_timeout := timeradd (time_now s) tv\<rparr>)\<rparr>"

lemma timer_add_inserts:
  assumes ok: "loop_ok s ts ps" and new: "e \<notin> set ts" "e \<notin> set ps" "e \<notin> watched s" "e \<noteq> TimerList" "e \<noteq> PendingList"
    and s': "s' = due_at s e tv"
  shows "\<exists>t. ril_timer_add e (Some tv) s = Done () t
    \<and> loop_ok t (timer_insert (\<lambda>x. ev_timeout (mem s' x)) e ts) ps \<and> kept s' t \<and> watched t = watched s"
proof -
  let ?lt = "\<lambda>x. timercmp_lt (ev_timeout (mem s' x)) (ev_timeout (mem s' e))"
  have l: "ev_lists s ts ps" and st: "sorted_timers s ts" and tb: "table_ok s" and dj: "watched s \<inter> set ts = {}"
    using ok by (auto simp: loop_ok_def)
  have m': "mem s' x = mem s x" if "x \<noteq> e" for x using that by (simp add: s' due_at_def)
  have l': "ev_lists s' ts ps" by (rule ev_lists_fields [OF l new(1,2,4,5) m'])
  have tb': "table_ok s'" by (rule table_ok_fields [OF tb new(3) m']) (simp_all add: s' due_at_def)
  have st': "sorted_timers s' ts" using st new(1) m' by (rule sorted_fields)
  have h: "ev_next (mem s TimerList) = Some (hd (ts @ [TimerList]))" by (rule lists_heads [OF l])
  have walk: "while_prog (walk_test e) walk_body (Some (hd (ts @ [TimerList]))) s'
      = Done (Some (hd (dropWhile ?lt ts @ [TimerList]))) s'"
    using l' by (intro walk_stops) (auto simp: ev_lists_def is_list_def)
  have prep: "ril_timer_add e (Some tv) s
      = bnd (while_prog (walk_test e) walk_body (Some (hd (ts @ [TimerList])))) (\<lambda>l. bnd (ptr l) (addToList e)) s'"
    using h new(4) by (simp add: ril_timer_add_def rd_def wr_def getNow_def time_now_def run_simps s' due_at_def)
  have "ev_lists s' (takeWhile ?lt ts @ dropWhile ?lt ts) ps" using l' by simp
  from add_timer [OF this, of e] new obtain t A where
    t: "addToList e (hd (dropWhile ?lt ts @ [TimerList])) s' = Done () t"
       "ev_lists t (takeWhile ?lt ts @ e # dropWhile ?lt ts) ps" "relinked A s' t" by auto
  have run: "ril_timer_add e (Some tv) s = Done () t"
    unfolding prep by (simp add: bnd_def walk ptr_def ret_def t(1))
  have k: "kept s' t" using t(3) by (rule kept_relinked)
  have w: "watched t = watched s"
    using relinked_same(1) [OF t(3)] by (simp add: watched_def s' due_at_def)
  have "sorted_timers t (timer_insert (\<lambda>x. ev_timeout (mem s' x)) e ts)"
    using sorted_insert [OF st'] by (simp add: sorted_kept [OF k])
  moreover have "set (timer_insert (\<lambda>x. ev_timeout (mem s' x)) e ts) = insert e (set ts)"
    by (metis (no_types) Un_insert_right list.simps(15) set_append takeWhile_dropWhile_id timer_insert_def)
  ultimately have "loop_ok t (timer_insert (\<lambda>x. ev_timeout (mem s' x)) e ts) ps"
    using t(2) table_ok_relinked [OF t(3) tb'] dj new(3) by (auto simp: loop_ok_def w timer_insert_def)
  with run k w show ?thesis by blast
qed

lemma first_null_spec:
  "first_null xs = None \<Longrightarrow> None \<notin> set xs"
  "first_null xs = Some i \<Longrightarrow> i < length xs \<and> xs ! i = None \<and> (\<forall>j<i. xs ! j \<noteq> None)"
  by (induction xs arbitrary: i rule: first_null.induct) (auto simp: less_Suc_eq_0_disj)

lemma event_add_full: "first_null (watch_table s) = None \<Longrightarrow> ril_event_add e s = Done () s"
  by (simp add: ril_event_add_def run_simps)

lemma event_add_watches:
  assumes ok: "loop_ok s ts ps" and new: "e \<notin> set ts" "e \<notin> watched s" "e \<noteq> TimerList" "e \<noteq> PendingList"
    and fd: "0 \<le> ev_fd (mem s e)" "ev_fd (mem s e) < FD_SETSIZE" "ev_fd (mem s e) \<notin> readFds s"
    and slot: "first_null (watch_table s) = Some i"
  shows "\<exists>t. ril_event_add e s = Done () t \<and> loop_ok t ts ps \<and> kept s t \<and> watched t = insert e (watched s)
    \<and> watch_table t = (watch_table s)[i := Some e] \<and> readFds t = insert (ev_fd (mem s e)) (readFds s)"
proof -
  have l: "ev_lists s ts ps" and st: "sorted_timers s ts" and tb: "table_ok s" and dj: "watched s \<inter> set ts = {}"
    using ok by (auto simp: loop_ok_def)
  have len: "length (watch_table s) = MAX_FD_EVENTS" using tb by (simp add: table_ok_def)
  have i: "i < MAX_FD_EVENTS" "watch_table s ! i = None" using first_null_spec(2) [OF slot] len by auto
  define t where "t = s\<lparr>watch_table := (watch_table s)[i := Some e],
      mem := (mem s)(e := (mem s e)\<lparr>ev_index := int i\<rparr>), readFds := insert (ev_fd (mem s e)) (readFds s),
      nfds := (if ev_fd (mem s e) \<ge> nfds s then ev_fd (mem s e) + 1 else nfds s)\<rparr>"
  have run: "ril_event_add e s = Done () t"
    using slot fd by (simp add: ril_event_add_def FD_SET_def rd_def wr_def run_simps t_def)
  have w: "watched t = insert e (watched s)"
  proof -
    have "x \<in> watched t \<longleftrightarrow> x = e \<or> x \<in> watched s" for x
    proof -
      have "Some x \<in> set ((watch_table s)[i := Some e]) \<longleftrightarrow> x = e \<or> Some x \<in> set (watch_table s)"
        using i len set_update_memI [of i "watch_table s" "Some e"]
        by (auto simp: in_set_conv_nth nth_list_update) (metis nth_list_update_neq option.distinct(1))+
      then show ?thesis by (simp add: watched_def t_def)
    qed
    then show ?thesis by blast
  qed
  have fdt: "ev_fd (mem t x) = ev_fd (mem s x)" for x by (simp add: t_def)
  have "slot_ok t j x" if j: "j < MAX_FD_EVENTS" "watch_table t ! j = Some x" for j x
  proof (cases "j = i")
    case True
    then have "x = e" using j i len by (simp add: t_def)
    then show ?thesis using True fd new by (simp add: slot_ok_def t_def)
  next
    case False
    then have "watch_table s ! j = Some x" using j by (simp add: t_def)
    then have "slot_ok s j x" "x \<noteq> e" using tb j new(2) watched_nth [OF tb] by (auto simp: table_ok_def)
    then show ?thesis by (simp add: slot_ok_def t_def)
  qed
  moreover have "readFds t = (\<lambda>e. ev_fd (mem t e)) ` watched t"
    using tb by (simp add: w fdt) (simp add: t_def table_ok_def)
  moreover have "inj_on (\<lambda>e. ev_fd (mem t e)) (watched t)"
    using tb fd(3) by (simp add: w fdt) (auto simp: table_ok_def inj_on_def)
  ultimately have "table_ok t" using len by (simp add: table_ok_def t_def)
  moreover have "kept s t" by (simp add: kept_def t_def)
  moreover have "ev_lists t ts ps" by (rule lists_index [OF l]) (simp add: t_def)
  ultimately have "loop_ok t ts ps"
    using st dj new(1) by (auto simp: loop_ok_def w sorted_kept)
  with run w \<open>kept s t\<close> show ?thesis by (auto simp: t_def)
qed

lemma event_del_watched:
  assumes ok: "loop_ok s ts ps" and e: "e \<in> watched s"
  shows "\<exists>t. ril_event_del e s = Done () t \<and> loop_ok t ts ps \<and> kept s t \<and> watched t = watched s - {e}"
proof -
  have tb: "table_ok s" using ok by (simp add: loop_ok_def)
  from watched_nth [OF tb] e obtain i where i: "i < MAX_FD_EVENTS" "watch_table s ! i = Some e" by blast
  then have ix: "ev_index (mem s e) = int i" using tb by (auto simp: table_ok_def slot_ok_def)
  from removeWatch_removes [OF tb i] obtain t where
    t: "removeWatch e i s = Done () t" "table_ok t" "watch_table t = (watch_table s)[i := None]"
      "mem t = (mem s)(e := (mem s e)\<lparr>ev_index := -1\<rparr>)" "kept s t" by auto
  have run: "ril_event_del e s = Done () t"
    using ix i t(1) by (simp add: ril_event_del_def rd_def run_simps)
  have w: "watched t = watched s - {e}" by (rule watched_update [OF tb i t(3)])
  have "ev_lists t ts ps" by (rule lists_index [OF _ t(4)]) (use ok in \<open>simp add: loop_ok_def\<close>)
  then have "loop_ok t ts ps"
    using ok t(2) by (auto simp: loop_ok_def w sorted_kept [OF t(5)])
  with run w t(5) show ?thesis by blast
qed

lemma event_del_nothing: "ev_index (mem s e) < 0 \<Longrightarrow> ril_event_del e s = Done () s"
  by (simp add: ril_event_del_def rd_def run_simps)

section \<open>How long the loop waits\<close>

lemma calcNextTimeout_waits:
  assumes "loop_ok s ts ps"
  shows "calcNextTimeout s = Done (case ts of [] \<Rightarrow> None
     | e # _ \<Rightarrow> Some (if timercmp_lt (time_now s) (ev_timeout (mem s e)) then timersub (ev_timeout (mem s e)) (time_now s)
          else (0, 0))) s"
proof -
  have l: "ev_lists s ts ps" using assms by (simp add: loop_ok_def)
  show ?thesis
    using lists_heads(1,3) [OF l]
    by (cases ts) (auto simp: calcNextTimeout_def rd_def ptr_def getNow_def time_now_def run_simps)
qed

text \<open>What \<^verbatim>\<open>select\<close> may report: its count covers the events of the ready descriptors.\<close>

definition select_ok :: "select_result \<Rightarrow> bool" where
  "select_ok sel = (case sel of SelReady rfds n \<Rightarrow> finite rfds \<and> int (card rfds) \<le> n | _ \<Rightarrow> True)"

lemma ready_length:
  assumes tb: "table_ok s" and fin: "finite rfds"
  shows "length (ready_events s rfds [0..<MAX_FD_EVENTS]) \<le> card rfds"
proof -
  let ?R = "ready_events s rfds [0..<MAX_FD_EVENTS]"
  have dist: "distinct (ready_events s rfds is)" if "distinct is" "set is \<subseteq> {..<MAX_FD_EVENTS}" for "is"
    using that
  proof (induction "is")
    case (Cons i "is")
    have "e \<notin> set (ready_events s rfds is)" if e: "watch_table s ! i = Some e" for e
    proof
      assume "e \<in> set (ready_events s rfds is)"
      then obtain j where j: "j \<in> set is" "watch_table s ! j = Some e" by (auto simp: ready_events_mem)
      with Cons.prems have "j < MAX_FD_EVENTS" "i < MAX_FD_EVENTS" "j \<noteq> i" by auto
      with slot_unique [OF tb] j e show False by blast
    qed
    with Cons show ?case by (auto simp: ready_events_def split: option.split)
  qed (simp add: ready_events_def)
  have d: "distinct ?R" by (rule dist) auto
  have sub: "set ?R \<subseteq> watched s"
    using watched_nth [OF tb] by (auto simp: ready_events_def split: option.splits if_splits)
  have "inj_on (\<lambda>e. ev_fd (mem s e)) (set ?R)"
    using tb sub by (auto simp: table_ok_def intro: inj_on_subset)
  then have "length ?R = card ((\<lambda>e. ev_fd (mem s e)) ` set ?R)"
    using d by (simp add: card_image distinct_card)
  also have "\<dots> \<le> card rfds"
    by (rule card_mono [OF fin]) (auto simp: ready_events_def split: option.splits if_splits)
  finally show ?thesis .
qed

section \<open>Callbacks\<close>

text \<open>
  The contract of the callbacks. \<open>good s E\<close> is what the program keeps, the events \<open>E\<close> being in the
  lists of timers and of pending events; it depends on what the loop does not change, and an event of
  the table may become pending. A call of the event \<open>e\<close>, which has left the lists, returns, keeps the
  loop's invariant and the events that are still to be called, and may add and delete others.
\<close>

locale event_handlers =
  fixes run :: "'a ev_runner"
    and good :: "'a ev_loop_scheme \<Rightarrow> eref set \<Rightarrow> bool"
  assumes good_moves: "good s E \<Longrightarrow> kept s t \<Longrightarrow> watched t \<subseteq> watched s \<Longrightarrow> R \<subseteq> watched s \<Longrightarrow> good t (E \<union> R)"
    and good_time: "good (s\<lparr>monotonic := c\<rparr>) E = good s E"
    and good_fired: "good (s\<lparr>fired := l\<rparr>) E = good s E"
    and good_func: "good s E \<Longrightarrow> e \<in> E \<Longrightarrow> ev_func (mem s e) \<noteq> None"
    and run_ok: "loop_ok s ts ps \<Longrightarrow> good s (insert e (set ts \<union> set ps)) \<Longrightarrow> e \<notin> set ts \<Longrightarrow> e \<notin> set ps \<Longrightarrow>
        call_of s e = (Some f, fd, param) \<Longrightarrow>
      \<exists>t ts'. run f fd param s = Done () t \<and> loop_ok t ts' ps \<and> good t (set ts' \<union> set ps)
        \<and> (\<forall>x\<in>set ps. call_of t x = call_of s x) \<and> fired t = fired s"
begin

lemma good_kept: "good s E \<Longrightarrow> kept s t \<Longrightarrow> watched t \<subseteq> watched s \<Longrightarrow> good t E"
  using good_moves [where R = "{}"] by simp

lemma loop_ok_fired: "loop_ok (s\<lparr>fired := l\<rparr>) ts ps = loop_ok s ts ps"
  by (simp add: loop_ok_def ev_lists_def sorted_timers_def table_ok_def slot_ok_def watched_def)

text \<open>One pending event: it leaves the list and is called.\<close>

lemma fire_one:
  assumes ok: "loop_ok s ts (e # ps)" and cb: "good s (insert e (set ts \<union> set ps))"
  shows "\<exists>t ts'. fire_body run (Some e) s = Done (Some (hd (ps @ [PendingList]))) t \<and> loop_ok t ts' ps
    \<and> good t (set ts' \<union> set ps) \<and> (\<forall>x\<in>set ps. call_of t x = call_of s x) \<and> fired t = fired s @ [call_of s e]"
proof -
  have l: "ev_lists s ts (e # ps)" and tb: "table_ok s" and st: "sorted_timers s ts" and dj: "watched s \<inter> set ts = {}"
    using ok by (auto simp: loop_ok_def)
  from l have l': "ev_lists s ts ([] @ e # ps)" by simp
  from remove_pending [OF l'] obtain s1 A where
    s1: "removeFromList e s = Done () s1" "ev_lists s1 ts ps" "relinked A s s1" by auto
  have k: "kept s s1" and w: "watched s1 = watched s" and tb1: "table_ok s1"
    using kept_relinked watched_relinked table_ok_relinked s1(3) tb by blast+
  have n: "ev_next (mem s e) = Some (hd (ps @ [PendingList]))"
    using l links_first [of "mem s" e ps PendingList] by (simp add: ev_lists_def is_list_def)
  have c: "call_of s1 e = call_of s e" using k by (rule kept_call)
  from good_func [OF cb, of e] obtain f where f: "ev_func (mem s e) = Some f" by auto
  define s2 where "s2 = s1\<lparr>fired := fired s1 @ [call_of s e]\<rparr>"
  have ok2: "loop_ok s2 ts ps"
    using s1(2) tb1 st dj by (simp add: s2_def loop_ok_fired) (simp add: loop_ok_def w sorted_kept [OF k])
  have cb2: "good s2 (insert e (set ts \<union> set ps))" using good_kept [OF cb k] by (simp add: w s2_def good_fired)
  have e: "e \<notin> set ts" "e \<notin> set ps" using lists_heads [OF l] by auto
  have c2: "call_of s2 x = call_of s x" for x
    using kept_call [OF k] by (simp add: s2_def call_of_def)
  have cs: "call_of s e = (Some f, ev_fd (mem s e), ev_param (mem s e))" by (simp add: call_of_def f)
  from run_ok [OF ok2 cb2 e c2 [of e, unfolded cs]] obtain t ts' where
    t: "run f (ev_fd (mem s e)) (ev_param (mem s e)) s2 = Done () t" "loop_ok t ts' ps" "good t (set ts' \<union> set ps)"
      "\<forall>x\<in>set ps. call_of t x = call_of s2 x" "fired t = fired s2" by blast
  have call: "call_event run e s1 = Done () t"
    using t(1) c cs by (simp add: call_event_def run_simps s2_def)
  have "fire_body run (Some e) s = Done (Some (hd (ps @ [PendingList]))) t"
    using n s1(1) call by (simp add: fire_body_def ptr_def rd_def run_simps)
  moreover have "fired t = fired s @ [call_of s e]"
    using t(5) k by (simp add: s2_def kept_def)
  ultimately show ?thesis using t c2 by auto
qed

lemma firePending_calls:
  assumes "loop_ok s ts ps" and "good s (set ts \<union> set ps)"
  shows "\<exists>t ts'. firePending run s = Done () t \<and> loop_ok t ts' [] \<and> good t (set ts')
    \<and> fired t = fired s @ map (call_of s) ps"
proof -
  have loop: "\<exists>x t ts'. while_prog (\<lambda>ev s. ev \<noteq> Some PendingList) (fire_body run) (Some (hd (ps @ [PendingList]))) s = Done x t
      \<and> loop_ok t ts' [] \<and> good t (set ts') \<and> fired t = fired s @ map (call_of s) ps"
    using assms
  proof (induction ps arbitrary: s ts)
    case Nil
    then show ?case by (auto simp: while_prog_stop)
  next
    case (Cons e ps)
    from Cons.prems have "good s (insert e (set ts \<union> set ps))" by simp
    from fire_one [OF Cons.prems(1) this] obtain u us where
      u: "fire_body run (Some e) s = Done (Some (hd (ps @ [PendingList]))) u" "loop_ok u us ps" "good u (set us \<union> set ps)"
        "\<forall>x\<in>set ps. call_of u x = call_of s x" "fired u = fired s @ [call_of s e]" by blast
    from Cons.IH [OF u(2,3)] obtain x t ts' where
      t: "while_prog (\<lambda>ev s. ev \<noteq> Some PendingList) (fire_body run) (Some (hd (ps @ [PendingList]))) u = Done x t"
        "loop_ok t ts' []" "good t (set ts')" "fired t = fired u @ map (call_of u) ps" by blast
    have ne: "Some e \<noteq> Some PendingList"
      using Cons.prems(1) lists_heads(4) [of s ts "e # ps"] by (auto simp: loop_ok_def)
    have "while_prog (\<lambda>ev s. ev \<noteq> Some PendingList) (fire_body run) (Some e) s = Done x t"
      using while_prog_Done [where b = "\<lambda>ev s. ev \<noteq> Some PendingList" and c = "fire_body run", OF ne u(1)] t(1) by simp
    moreover have "fired t = fired s @ map (call_of s) (e # ps)"
      using t(4) u(4,5) by simp
    ultimately show ?case using t(2,3) by auto
  qed
  have "ev_next (mem s PendingList) = Some (hd (ps @ [PendingList]))"
    using assms(1) lists_heads(2) by (auto simp: loop_ok_def)
  then have "firePending run s = bnd (while_prog (\<lambda>ev s. ev \<noteq> Some PendingList) (fire_body run)
      (Some (hd (ps @ [PendingList])))) (\<lambda>_. ret ()) s"
    by (simp add: firePending_def rd_def gets_def bnd_def)
  with loop show ?thesis by (fastforce simp: bnd_def ret_def)
qed

text \<open>
  A round after which \<^verbatim>\<open>select\<close> has reported the descriptors \<open>rfds\<close>: first the timers that are
  due, in the order of their deadlines, then the events of the ready descriptors by their slots.
\<close>

lemma round_calls:
  assumes ok: "loop_ok s ts []" and cb: "good s (set ts)"
    and s': "s' = s\<lparr>monotonic := clock\<rparr>"
    and n: "int (length (ready_events s rfds [0..<MAX_FD_EVENTS])) \<le> n"
  shows "\<exists>t ts'. ril_event_round run (SelReady rfds n, clock) s = Done () t \<and> loop_ok t ts' [] \<and> good t (set ts')
    \<and> fired t = fired s @ map (call_of s) (filter (expired s') ts @ ready_events s rfds [0..<MAX_FD_EVENTS])"
proof -
  have ok': "loop_ok s' ts []"
    using ok by (simp add: s' loop_ok_def ev_lists_def sorted_timers_def table_ok_def slot_ok_def watched_def)
  have cb': "good s' (set ts)" using cb by (simp add: s' good_time)
  have l: "ev_lists s' ts []" and tb: "table_ok s'" and st: "sorted_timers s' ts" and dj: "watched s' \<inter> set ts = {}"
    using ok' by (auto simp: loop_ok_def)
  have c': "call_of s' = call_of s" by (simp add: fun_eq_iff call_of_def s')
  have r': "ready_events s' rfds is = ready_events s rfds is" for "is"
    by (simp add: ready_events_def s' cong: option.case_cong)
  let ?ex = "filter (expired s') ts"
  let ?late = "filter (\<lambda>e. \<not> expired s' e) ts"
  let ?R = "ready_events s rfds [0..<MAX_FD_EVENTS]"
  from processTimeouts_moves [OF l] obtain s1 A where
    s1: "processTimeouts s' = Done () s1" "relinked A s' s1" "ev_lists s1 ?late ?ex"
    by (auto simp: expired_prefix [OF st])
  have k1: "kept s' s1" and w1: "watched s1 = watched s'" and tb1: "table_ok s1"
    using kept_relinked watched_relinked table_ok_relinked s1(2) tb by blast+
  have R1: "ready_events s1 rfds is = ready_events s rfds is" for "is"
    using ready_events_cong [OF _ k1] relinked_same(1) [OF s1(2)] r' by auto
  have late: "watched s1 \<inter> set ?late = {}" using dj w1 by auto
  have sub: "set [0..<MAX_FD_EVENTS] \<subseteq> {..<MAX_FD_EVENTS}" by auto
  have new: "e \<notin> set ?ex" if "i \<in> set [0..<MAX_FD_EVENTS]" "watch_table s1 ! i = Some e" for i e
    using that dj w1 watched_nth [OF tb1] by auto
  have n1: "int (length (ready_events s1 rfds [0..<MAX_FD_EVENTS])) \<le> n" using n by (simp add: R1)
  have "\<exists>t. readies_loop rfds [0..<MAX_FD_EVENTS] n s1 = Done () t \<and> ev_lists t ?late (?ex @ ?R) \<and> table_ok t
      \<and> watched t \<subseteq> watched s1 \<and> kept s1 t"
    using readies_loop_moves [OF s1(3) tb1 late distinct_upt sub _ n1] new unfolding R1 by blast
  then obtain s2 where
    s2: "readies_loop rfds [0..<MAX_FD_EVENTS] n s1 = Done () s2" "ev_lists s2 ?late (?ex @ ?R)" "table_ok s2"
      "watched s2 \<subseteq> watched s1" "kept s1 s2" by blast
  have k2: "kept s' s2" using k1 s2(5) by (rule kept.frame_trans)
  have "sorted_timers s' ?late" using sorted_dropWhile [OF st, of "expired s'"] by (simp add: expired_prefix [OF st])
  then have ok2: "loop_ok s2 ?late (?ex @ ?R)"
    using s2 late by (auto simp: loop_ok_def sorted_kept [OF k2])
  have "set ?R \<subseteq> watched s"
    using watched_nth [of s] ok by (auto simp: loop_ok_def ready_events_def split: option.splits if_splits)
  then have "set ?R \<subseteq> watched s'" by (simp add: watched_def s')
  then have "good s2 (set ts \<union> set ?R)" using s2(4) w1 by (intro good_moves [OF cb' k2]) auto
  moreover have "set ?late \<union> set (?ex @ ?R) = set ts \<union> set ?R" by auto
  ultimately have cb2: "good s2 (set ?late \<union> set (?ex @ ?R))" by simp
  from firePending_calls [OF ok2 cb2] obtain t ts' where
    t: "firePending run s2 = Done () t" "loop_ok t ts' []" "good t (set ts')"
      "fired t = fired s2 @ map (call_of s2) (?ex @ ?R)" by blast
  have calc: "\<exists>w. calcNextTimeout s = Done w s" using calcNextTimeout_waits [OF ok] by blast
  have "ril_event_round run (SelReady rfds n, clock) s = Done () t"
    using calc s1(1) s2(1) t(1) by (auto simp: ril_event_round_def processReadReadies_def run_simps s')
  moreover have "fired t = fired s @ map (call_of s) (?ex @ ?R)"
    using t(4) kept_call [OF k2] k2 c' by (simp add: kept_def s')
  ultimately show ?thesis using t by blast
qed

text \<open>The loop never faults, however long it runs.\<close>

lemma event_loop_safe:
  assumes "loop_ok s ts []" and "good s (set ts)" and "\<forall>x\<in>set sels. select_ok (fst x)"
  shows "ril_event_loop run sels s \<noteq> Crash e"
  using assms
proof (induction sels arbitrary: s ts)
  case Nil
  then show ?case by (simp add: run_simps)
next
  case (Cons x sels)
  obtain sel clock where x: "x = (sel, clock)" by (cases x)
  have calc: "\<exists>w. calcNextTimeout s = Done w s" using calcNextTimeout_waits [OF Cons.prems(1)] by blast
  have "\<exists>t ts'. ril_event_round run x s = Done () t \<and> loop_ok t ts' [] \<and> good t (set ts')"
  proof (cases sel)
    case (SelReady rfds n)
    have "int (length (ready_events s rfds [0..<MAX_FD_EVENTS])) \<le> n"
      using ready_length [of s rfds] Cons.prems SelReady by (fastforce simp: loop_ok_def select_ok_def x)
    from round_calls [OF Cons.prems(1,2) refl this] show ?thesis unfolding x SelReady by blast
  qed (use calc Cons.prems(1,2) in \<open>auto simp: x ril_event_round_def run_simps loop_ok_def ev_lists_def
      sorted_timers_def table_ok_def slot_ok_def watched_def good_time\<close>)
  then obtain t ts' where t: "ril_event_round run x s = Done () t" "loop_ok t ts' []" "good t (set ts')" by blast
  with Cons.IH [OF t(2,3)] Cons.prems(3) show ?case by (auto simp: run_simps)
qed

end

end
