(* ===== verification/RilTables.thy ===== *)
theory RilTables
  imports Main
begin

text \<open>
  The tables of \<^verbatim>\<open>libril/ril_commands.h\<close> and \<^verbatim>\<open>libril/ril_unsol_commands.h\<close>: for each request and each
  indication its number (as \<^verbatim>\<open>ril.h\<close> defines it), the function of the service that takes it to the
  client (\<open>None\<close> is NULL) and, for an indication, whether it keeps the phone awake.
\<close>

datatype WakeType = DONT_WAKE | WAKE_PARTIAL

record CommandInfo =
  requestNumber :: int
  responseFunction :: "string option"

record UnsolResponseInfo =
  unsolNumber :: int
  unsolFunction :: "string option"
  wakeType :: WakeType

definition RIL_UNSOL_RESPONSE_BASE :: int where "RIL_UNSOL_RESPONSE_BASE = 1000"

definition command_row :: "int \<times> string option \<Rightarrow> CommandInfo" where
  "command_row = (\<lambda>(n, f). \<lparr>requestNumber = n, responseFunction = f\<rparr>)"

definition unsol_row :: "int \<times> string option \<times> WakeType \<Rightarrow> UnsolResponseInfo" where
  "unsol_row = (\<lambda>(n, f, w). \<lparr>unsolNumber = n, unsolFunction = f, wakeType = w\<rparr>)"

definition command_rows :: "(int \<times> string option) list" where
  "command_rows =
   [(0, None), (1, Some ''getIccCardStatusResponse''), (2, Some ''supplyIccPinForAppResponse''),
    (3, Some ''supplyIccPukForAppResponse''), (4, Some ''supplyIccPin2ForAppResponse''),
    (5, Some ''supplyIccPuk2ForAppResponse''), (6, Some ''changeIccPinForAppResponse''),
    (7, Some ''changeIccPin2ForAppResponse''), (8, Some ''supplyNetworkDepersonalizationResponse''),
    (9, Some ''getCurrentCallsResponse''), (10, Some ''dialResponse''),
    (11, Some ''getIMSIForAppResponse''), (12, Some ''hangupConnectionResponse''),
    (13, Some ''hangupWaitingOrBackgroundResponse''),
    (14, Some ''hangupForegroundResumeBackgroundResponse''),
    (15, Some ''switchWaitingOrHoldingAndActiveResponse''), (16, Some ''conferenceResponse''),
    (17, Some ''rejectCallResponse''), (18, Some ''getLastCallFailCauseResponse''),
    (19, Some ''getSignalStrengthResponse''), (20, Some ''getVoiceRegistrationStateResponse''),
    (21, Some ''getDataRegistrationStateResponse''), (22, Some ''getOperatorResponse''),
    (23, Some ''setRadioPowerResponse''), (24, Some ''sendDtmfResponse''), (25, Some ''sendSmsResponse''),
    (26, Some ''sendSMSExpectMoreResponse''), (27, Some ''setupDataCallResponse''),
    (28, Some ''iccIOForAppResponse''), (29, Some ''sendUssdResponse''),
    (30, Some ''cancelPendingUssdResponse''), (31, Some ''getClirResponse''),
    (32, Some ''setClirResponse''), (33, Some ''getCallForwardStatusResponse''),
    (34, Some ''setCallForwardResponse''), (35, Some ''getCallWaitingResponse''),
    (36, Some ''setCallWaitingResponse''), (37, Some ''acknowledgeLastIncomingGsmSmsResponse''), (38, None),
    (39, None), (40, Some ''acceptCallResponse''), (41, Some ''deactivateDataCallResponse''),
    (42, Some ''getFacilityLockForAppResponse''), (43, Some ''setFacilityLockForAppResponse''),
    (44, Some ''setBarringPasswordResponse''), (45, Some ''getNetworkSelectionModeResponse''),
    (46, Some ''setNetworkSelectionModeAutomaticResponse''),
    (47, Some ''setNetworkSelectionModeManualResponse''), (48, Some ''getAvailableNetworksResponse''),
    (49, Some ''startDtmfResponse''), (50, Some ''stopDtmfResponse''),
    (51, Some ''getBasebandVersionResponse''), (52, Some ''separateConnectionResponse''),
    (53, Some ''setMuteResponse''), (54, Some ''getMuteResponse''), (55, Some ''getClipResponse''),
    (56, None), (57, Some ''getDataCallListResponse''), (58, None), (59, Some ''sendRequestRawResponse''),
    (60, Some ''sendRequestStringsResponse''), (61, Some ''sendDeviceStateResponse''),
    (62, Some ''setSuppServiceNotificationsResponse''), (63, Some ''writeSmsToSimResponse''),
    (64, Some ''deleteSmsOnSimResponse''), (65, Some ''setBandModeResponse''),
    (66, Some ''getAvailableBandModesResponse''), (67, None), (68, None),
    (69, Some ''sendEnvelopeResponse''), (70, Some ''sendTerminalResponseToSimResponse''),
    (71, Some ''handleStkCallSetupRequestFromSimResponse''), (72, Some ''explicitCallTransferResponse''),
    (73, Some ''setPreferredNetworkTypeResponse''), (74, Some ''getPreferredNetworkTypeResponse''),
    (75, Some ''getNeighboringCidsResponse''), (76, Some ''setLocationUpdatesResponse''),
    (77, Some ''setCdmaSubscriptionSourceResponse''), (78, Some ''setCdmaRoamingPreferenceResponse''),
    (79, Some ''getCdmaRoamingPreferenceResponse''), (80, Some ''setTTYModeResponse''),
    (81, Some ''getTTYModeResponse''), (82, Some ''setPreferredVoicePrivacyResponse''),
    (83, Some ''getPreferredVoicePrivacyResponse''), (84, Some ''sendCDMAFeatureCodeResponse''),
    (85, Some ''sendBurstDtmfResponse''), (86, None), (87, Some ''sendCdmaSmsResponse''),
    (88, Some ''acknowledgeLastIncomingCdmaSmsResponse''), (89, Some ''getGsmBroadcastConfigResponse''),
    (90, Some ''setGsmBroadcastConfigResponse''), (91, Some ''setGsmBroadcastActivationResponse''),
    (92, Some ''getCdmaBroadcastConfigResponse''), (93, Some ''setCdmaBroadcastConfigResponse''),
    (94, Some ''setCdmaBroadcastActivationResponse''), (95, Some ''getCDMASubscriptionResponse''),
    (96, Some ''writeSmsToRuimResponse''), (97, Some ''deleteSmsOnRuimResponse''),
    (98, Some ''getDeviceIdentityResponse''), (99, Some ''exitEmergencyCallbackModeResponse''),
    (100, Some ''getSmscAddressResponse''), (101, Some ''setSmscAddressResponse''),
    (102, Some ''reportSmsMemoryStatusResponse''), (103, Some ''reportStkServiceIsRunningResponse''),
    (104, Some ''getCdmaSubscriptionSourceResponse''), (105, Some ''requestIsimAuthenticationResponse''),
    (106, Some ''acknowledgeIncomingGsmSmsWithPduResponse''),
    (107, Some ''sendEnvelopeWithStatusResponse''), (108, Some ''getVoiceRadioTechnologyResponse''),
    (109, Some ''getCellInfoListResponse''), (110, Some ''setCellInfoListRateResponse''),
    (111, Some ''setInitialAttachApnResponse''), (112, Some ''getImsRegistrationStateResponse''),
    (113, Some ''sendImsSmsResponse''), (114, Some ''iccTransmitApduBasicChannelResponse''),
    (115, Some ''iccOpenLogicalChannelResponse''), (116, Some ''iccCloseLogicalChannelResponse''),
    (117, Some ''iccTransmitApduLogicalChannelResponse''), (118, Some ''nvReadItemResponse''),
    (119, Some ''nvWriteItemResponse''), (120, Some ''nvWriteCdmaPrlResponse''),
    (121, Some ''nvResetConfigResponse''), (122, Some ''setUiccSubscriptionResponse''),
    (123, Some ''setDataAllowedResponse''), (124, Some ''getHardwareConfigResponse''),
    (125, Some ''requestIccSimAuthenticationResponse''), (126, None), (127, None),
    (128, Some ''setDataProfileResponse''), (129, Some ''requestShutdownResponse''),
    (130, Some ''getRadioCapabilityResponse''), (131, Some ''setRadioCapabilityResponse''),
    (132, Some ''startLceServiceResponse''), (133, Some ''stopLceServiceResponse''),
    (134, Some ''pullLceDataResponse''), (135, Some ''getModemActivityInfoResponse''),
    (136, Some ''setAllowedCarriersResponse''), (137, Some ''getAllowedCarriersResponse''),
    (138, Some ''sendDeviceStateResponse''), (139, Some ''setIndicationFilterResponse''),
    (140, Some ''setSimCardPowerResponse''), (141, Some ''setCarrierInfoForImsiEncryptionResponse''),
    (142, Some ''startNetworkScanResponse''), (143, Some ''stopNetworkScanResponse''),
    (144, Some ''startKeepaliveResponse''), (145, Some ''stopKeepaliveResponse'')]"

definition unsol_rows :: "(int \<times> string option \<times> WakeType) list" where
  "unsol_rows =
   [(1000, Some ''radioStateChangedInd'', WAKE_PARTIAL), (1001, Some ''callStateChangedInd'', WAKE_PARTIAL),
    (1002, Some ''networkStateChangedInd'', WAKE_PARTIAL), (1003, Some ''newSmsInd'', WAKE_PARTIAL),
    (1004, Some ''newSmsStatusReportInd'', WAKE_PARTIAL), (1005, Some ''newSmsOnSimInd'', WAKE_PARTIAL),
    (1006, Some ''onUssdInd'', WAKE_PARTIAL), (1007, Some ''onUssdInd'', DONT_WAKE),
    (1008, Some ''nitzTimeReceivedInd'', WAKE_PARTIAL),
    (1009, Some ''currentSignalStrengthInd'', DONT_WAKE),
    (1010, Some ''dataCallListChangedInd'', WAKE_PARTIAL), (1011, Some ''suppSvcNotifyInd'', WAKE_PARTIAL),
    (1012, Some ''stkSessionEndInd'', WAKE_PARTIAL), (1013, Some ''stkProactiveCommandInd'', WAKE_PARTIAL),
    (1014, Some ''stkEventNotifyInd'', WAKE_PARTIAL), (1015, Some ''stkCallSetupInd'', WAKE_PARTIAL),
    (1016, Some ''simSmsStorageFullInd'', WAKE_PARTIAL), (1017, Some ''simRefreshInd'', WAKE_PARTIAL),
    (1018, Some ''callRingInd'', WAKE_PARTIAL), (1019, Some ''simStatusChangedInd'', WAKE_PARTIAL),
    (1020, Some ''cdmaNewSmsInd'', WAKE_PARTIAL), (1021, Some ''newBroadcastSmsInd'', WAKE_PARTIAL),
    (1022, Some ''cdmaRuimSmsStorageFullInd'', WAKE_PARTIAL),
    (1023, Some ''restrictedStateChangedInd'', WAKE_PARTIAL),
    (1024, Some ''enterEmergencyCallbackModeInd'', WAKE_PARTIAL),
    (1025, Some ''cdmaCallWaitingInd'', WAKE_PARTIAL),
    (1026, Some ''cdmaOtaProvisionStatusInd'', WAKE_PARTIAL), (1027, Some ''cdmaInfoRecInd'', WAKE_PARTIAL),
    (1028, Some ''oemHookRawInd'', WAKE_PARTIAL), (1029, Some ''indicateRingbackToneInd'', WAKE_PARTIAL),
    (1030, Some ''resendIncallMuteInd'', WAKE_PARTIAL),
    (1031, Some ''cdmaSubscriptionSourceChangedInd'', WAKE_PARTIAL),
    (1032, Some ''cdmaPrlChangedInd'', WAKE_PARTIAL),
    (1033, Some ''exitEmergencyCallbackModeInd'', WAKE_PARTIAL),
    (1034, Some ''rilConnectedInd'', WAKE_PARTIAL), (1035, Some ''voiceRadioTechChangedInd'', WAKE_PARTIAL),
    (1036, Some ''cellInfoListInd'', WAKE_PARTIAL),
    (1037, Some ''imsNetworkStateChangedInd'', WAKE_PARTIAL),
    (1038, Some ''subscriptionStatusChangedInd'', WAKE_PARTIAL),
    (1039, Some ''srvccStateNotifyInd'', WAKE_PARTIAL),
    (1040, Some ''hardwareConfigChangedInd'', WAKE_PARTIAL), (1041, None, WAKE_PARTIAL),
    (1042, Some ''radioCapabilityIndicationInd'', WAKE_PARTIAL),
    (1043, Some ''onSupplementaryServiceIndicationInd'', WAKE_PARTIAL),
    (1044, Some ''stkCallControlAlphaNotifyInd'', WAKE_PARTIAL), (1045, Some ''lceDataInd'', WAKE_PARTIAL),
    (1046, Some ''pcoDataInd'', WAKE_PARTIAL), (1047, Some ''modemResetInd'', WAKE_PARTIAL),
    (1048, Some ''carrierInfoForImsiEncryption'', WAKE_PARTIAL),
    (1049, Some ''networkScanResultInd'', WAKE_PARTIAL), (1050, Some ''keepaliveStatusInd'', WAKE_PARTIAL)]"

definition s_commands :: "CommandInfo list" where
  "s_commands = map command_row command_rows"

definition s_unsolResponses :: "UnsolResponseInfo list" where
  "s_unsolResponses = map unsol_row unsol_rows"

text \<open>The self-check of \<^verbatim>\<open>RIL_register\<close>: each row is at the index of its number.\<close>

definition tables_checked :: bool where
  "tables_checked \<longleftrightarrow>
     (\<forall>i<length s_commands. requestNumber (s_commands ! i) = int i)
   \<and> (\<forall>i<length s_unsolResponses. unsolNumber (s_unsolResponses ! i) = int i + RIL_UNSOL_RESPONSE_BASE)"

lemma command_numbers: "map requestNumber s_commands = map int [0..<146]"
  by (simp add: s_commands_def command_rows_def command_row_def upt_rec)

lemma unsol_numbers: "map unsolNumber s_unsolResponses = map (\<lambda>i. int i + 1000) [0..<51]"
  by (simp add: s_unsolResponses_def unsol_rows_def unsol_row_def upt_rec)

lemma length_s_commands [simp]: "length s_commands = 146"
  using arg_cong [OF command_numbers, of length] by simp

lemma length_s_unsolResponses [simp]: "length s_unsolResponses = 51"
  using arg_cong [OF unsol_numbers, of length] by simp

lemma tables_check: tables_checked
proof -
  have "requestNumber (s_commands ! i) = int i" if "i < 146" for i
    using arg_cong [OF command_numbers, of "\<lambda>xs. xs ! i"] that by simp
  moreover have "unsolNumber (s_unsolResponses ! i) = int i + 1000" if "i < 51" for i
    using arg_cong [OF unsol_numbers, of "\<lambda>xs. xs ! i"] that by simp
  ultimately show ?thesis by (simp add: tables_checked_def RIL_UNSOL_RESPONSE_BASE_def)
qed

end
