(* ===== verification/AtTok.thy ===== *)
theory AtTok
  imports CLib
begin

text \<open>
  The tokenizer of AT response lines, \<^verbatim>\<open>reference-ril/at_tok.c\<close>. The cursor
  \<^verbatim>\<open>char **p_cur\<close> is passed and returned; an \<^verbatim>\<open>int\<close> output parameter is passed
  in with its old value and returned with its new one, because a failing call may or may not
  have assigned it. Results are triples: return code, cursor, output.
\<close>

section \<open>The operations\<close>

fun at_tok_start :: "cptr \<Rightarrow> int \<times> cptr" where
  "at_tok_start None = (-1, None)"
| "at_tok_start (Some s) =
     (case c_strchr s CHR '':'' of
        None \<Rightarrow> (-1, None)
      | Some r \<Rightarrow> (0, Some (tl r)))"

fun skipWhiteSpace :: "cptr \<Rightarrow> cptr" where
  "skipWhiteSpace None = None"
| "skipWhiteSpace (Some s) = Some (dropWhile ch_isspace s)"

fun skipNextComma :: "cptr \<Rightarrow> cptr" where
  "skipNextComma None = None"
| "skipNextComma (Some s) =
     (case dropWhile (\<lambda>c. c \<noteq> CHR '','') s of [] \<Rightarrow> Some [] | _ # r \<Rightarrow> Some r)"

text \<open>The token and the new cursor.\<close>

definition nextTok :: "cptr \<Rightarrow> cptr \<times> cptr" where
  "nextTok cur =
     (case skipWhiteSpace cur of
        None \<Rightarrow> (None, None)
      | Some s \<Rightarrow>
          if s \<noteq> [] \<and> hd s = CHR 0x22 then
            (let (tok, cur') = c_strsep (Some (tl s)) CHR 0x22 in (tok, skipNextComma cur'))
          else c_strsep (Some s) CHR '','')"

text \<open>
  The output is assigned before the test of \<^verbatim>\<open>end == ret\<close>: a token without a number
  gives -1 and the output 0.
\<close>

definition at_tok_nextint_base :: "cptr \<Rightarrow> int \<Rightarrow> nat \<Rightarrow> bool \<Rightarrow> int \<times> cptr \<times> int" where
  "at_tok_nextint_base cur out base uns =
     (if cur = None then (-1, cur, out)
      else let (tok, cur') = nextTok cur in
        case tok of
          None \<Rightarrow> (-1, cur', out)
        | Some t \<Rightarrow>
            (case (if uns then c_strtoul base t else c_strtol base t) of
               None \<Rightarrow> (-1, cur', 0)
             | Some l \<Rightarrow> (0, cur', to_int32 l)))"

definition at_tok_nextint :: "cptr \<Rightarrow> int \<Rightarrow> int \<times> cptr \<times> int" where
  "at_tok_nextint cur out = at_tok_nextint_base cur out 10 False"

definition at_tok_nexthexint :: "cptr \<Rightarrow> int \<Rightarrow> int \<times> cptr \<times> int" where
  "at_tok_nexthexint cur out = at_tok_nextint_base cur out 16 True"

text \<open>Every caller passes an output address, so the NULL test on it is not modelled.\<close>

definition at_tok_nextbool :: "cptr \<Rightarrow> int \<Rightarrow> int \<times> cptr \<times> int" where
  "at_tok_nextbool cur out =
     (let (rc, cur', result) = at_tok_nextint cur 0 in
      if rc < 0 then (-1, cur', out)
      else if \<not> (result = 0 \<or> result = 1) then (-1, cur', out)
      else (rc, cur', result))"

definition at_tok_nextstr :: "cptr \<Rightarrow> cptr \<Rightarrow> int \<times> cptr \<times> cptr" where
  "at_tok_nextstr cur out =
     (if cur = None then (-1, cur, out)
      else let (tok, cur') = nextTok cur in (0, cur', tok))"

definition at_tok_hasmore :: "cptr \<Rightarrow> bool" where
  "at_tok_hasmore cur \<longleftrightarrow> \<not> (cur = None \<or> cur = Some [])"

section \<open>What the tokenizer reads\<close>

text \<open>
  The abstract line behind the prefix: comma-separated fields, each plain or quoted.
\<close>

datatype field = Plain string | Quoted string

fun field_text :: "field \<Rightarrow> string" where
  "field_text (Plain s) = s"
| "field_text (Quoted s) = s"

fun render_field :: "field \<Rightarrow> string" where
  "render_field (Plain s) = s"
| "render_field (Quoted s) = CHR 0x22 # s @ [CHR 0x22]"

fun field_ok :: "field \<Rightarrow> bool" where
  "field_ok (Plain s) \<longleftrightarrow> CHR '','' \<notin> set s
     \<and> (s = [] \<or> \<not> ch_isspace (hd s) \<and> hd s \<noteq> CHR 0x22)"
| "field_ok (Quoted s) \<longleftrightarrow> CHR 0x22 \<notin> set s"

fun render_fields :: "field list \<Rightarrow> string" where
  "render_fields [] = []"
| "render_fields [f] = render_field f"
| "render_fields (f # g # fs) = render_field f @ CHR '','' # render_fields (g # fs)"

text \<open>Reading \<open>n\<close> tokens in a row with \<^verbatim>\<open>at_tok_nextstr\<close>.\<close>

fun read_strs :: "nat \<Rightarrow> cptr \<Rightarrow> cptr list \<times> cptr" where
  "read_strs 0 cur = ([], cur)"
| "read_strs (Suc n) cur =
     (let (_, cur', tok) = at_tok_nextstr cur None; (toks, cur'') = read_strs n cur'
      in (tok # toks, cur''))"

lemma dropWhile_space_plain:
  "s = [] \<or> \<not> ch_isspace (hd s) \<Longrightarrow> dropWhile ch_isspace (s @ r) = s @ r \<or> s = []"
  by (cases s) auto

lemma nextTok_plain_more:
  "field_ok (Plain s) \<Longrightarrow> nextTok (Some (s @ CHR '','' # r)) = (Some s, Some r)"
  by (cases s) (auto simp: nextTok_def)

lemma nextTok_plain_last:
  assumes "field_ok (Plain s)"
  shows "nextTok (Some s) = (Some s, None)"
proof -
  from assms have "takeWhile (\<lambda>x. x \<noteq> CHR '','') s = s" and "dropWhile (\<lambda>x. x \<noteq> CHR '','') s = []"
    by (auto intro: takeWhile_all)
  with assms show ?thesis by (cases s) (auto simp: nextTok_def)
qed

lemma nextTok_quoted:
  assumes "CHR 0x22 \<notin> set s"
  shows "nextTok (Some (CHR 0x22 # s @ CHR 0x22 # r)) = (Some s, skipNextComma (Some r))"
  using assms
  by (simp add: nextTok_def)

lemma nextTok_more:
  "field_ok f \<Longrightarrow> nextTok (Some (render_field f @ CHR '','' # r)) = (Some (field_text f), Some r)"
  by (cases f) (simp_all add: nextTok_plain_more nextTok_quoted del: field_ok.simps(1))

lemma nextTok_last:
  "field_ok f \<Longrightarrow> \<exists>c. nextTok (Some (render_field f)) = (Some (field_text f), c) \<and> \<not> at_tok_hasmore c"
  using nextTok_quoted [of _ "[]"]
  by (cases f) (simp_all add: nextTok_plain_last at_tok_hasmore_def del: field_ok.simps(1))

text \<open>The loops of callers stop because each token shortens what is left.\<close>

fun tok_len :: "cptr \<Rightarrow> nat" where
  "tok_len None = 0"
| "tok_len (Some s) = Suc (length s)"

lemma tok_len_skipNextComma: "tok_len (skipNextComma c) \<le> tok_len c"
  by (cases c) (auto split: list.splits dest: length_dropWhile_Cons)

lemma tok_len_strsep: "tok_len (snd (c_strsep (Some s) d)) < tok_len (Some s)"
  by (auto split: list.splits dest: length_dropWhile_Cons)

lemma tok_len_nextTok:
  assumes "nextTok (Some s) = (tok, c)"
  shows "tok_len c < tok_len (Some s)"
proof -
  let ?s = "dropWhile ch_isspace s"
  have le: "length ?s \<le> length s" by (rule length_dropWhile_le)
  show ?thesis
  proof (cases "?s \<noteq> [] \<and> hd ?s = CHR 0x22")
    case True
    then have "c = skipNextComma (snd (c_strsep (Some (tl ?s)) CHR 0x22))"
      using assms by (auto simp: nextTok_def split: prod.splits)
    then have "tok_len c \<le> tok_len (snd (c_strsep (Some (tl ?s)) CHR 0x22))"
      by (simp add: tok_len_skipNextComma del: c_strsep.simps)
    also have "\<dots> < tok_len (Some (tl ?s))" by (rule tok_len_strsep)
    finally show ?thesis using le by simp
  next
    case False
    then have "c = snd (c_strsep (Some ?s) CHR '','')"
      using assms by (auto simp: nextTok_def split: prod.splits)
    with tok_len_strsep [of ?s "CHR '',''"] le show ?thesis by (simp del: c_strsep.simps)
  qed
qed

lemma nextTok_Some: "\<exists>t c. nextTok (Some s) = (Some t, c)"
  by (auto simp: nextTok_def split: prod.splits)

lemma at_tok_nextint_progress:
  "at_tok_nextint cur out = (0, cur', v) \<Longrightarrow> tok_len cur' < tok_len cur"
  by (cases cur)
    (auto simp: at_tok_nextint_def at_tok_nextint_base_def dest: tok_len_nextTok
      split: prod.splits option.splits)

section \<open>Return codes and ranges\<close>

lemma at_tok_nextint_base_ret:
  "at_tok_nextint_base cur out b u = (rc, cur', v) \<Longrightarrow> rc = 0 \<or> rc = -1"
  by (auto simp: at_tok_nextint_base_def split: if_splits prod.splits option.splits)

lemma zero_int32: "is_int32 0"
  by (simp add: int32_defs)

lemma at_tok_nextint_range:
  "at_tok_nextint cur out = (rc, cur', v) \<Longrightarrow> is_int32 out \<Longrightarrow> is_int32 v"
  by (auto simp: at_tok_nextint_def at_tok_nextint_base_def zero_int32
      split: if_splits prod.splits option.splits)

section \<open>Numbers in fields\<close>

lemma plain_fmt_d: "field_ok (Plain (fmt_d i))"
proof -
  have *: "c \<noteq> CHR '','' \<and> \<not> ch_isspace c \<and> c \<noteq> CHR 0x22" if "c \<in> set (fmt_d i)" for c
    using fmt_d_chars [OF that] base_digit_not_special base_digit_not_space by auto
  then have "CHR '','' \<notin> set (fmt_d i)" by blast
  moreover have "fmt_d i \<noteq> [] \<Longrightarrow> \<not> ch_isspace (hd (fmt_d i)) \<and> hd (fmt_d i) \<noteq> CHR 0x22"
    using * hd_in_set by blast
  ultimately show ?thesis by auto
qed

lemma plain_fmt_x: "field_ok (Plain (fmt_x i))"
proof -
  have *: "c \<noteq> CHR '','' \<and> \<not> ch_isspace c \<and> c \<noteq> CHR 0x22" if "c \<in> set (fmt_x i)" for c
    using fmt_x_chars [OF that] base_digit_not_special base_digit_not_space by blast
  then have "CHR '','' \<notin> set (fmt_x i)" by blast
  moreover have "fmt_x i \<noteq> [] \<Longrightarrow> \<not> ch_isspace (hd (fmt_x i)) \<and> hd (fmt_x i) \<noteq> CHR 0x22"
    using * hd_in_set by blast
  ultimately show ?thesis by auto
qed

lemma nextint_more:
  assumes "is_int32 i"
  shows "at_tok_nextint (Some (fmt_d i @ CHR '','' # r)) out = (0, Some r, i)"
proof -
  have "nextTok (Some (fmt_d i @ CHR '','' # r)) = (Some (fmt_d i), Some r)"
    by (rule nextTok_plain_more [OF plain_fmt_d])
  with assms show ?thesis
    by (simp add: at_tok_nextint_def at_tok_nextint_base_def c_strtol_fmt_d)
qed

lemma nextint_last:
  assumes "is_int32 i"
  shows "at_tok_nextint (Some (fmt_d i)) out = (0, None, i)"
  using assms nextTok_plain_last [OF plain_fmt_d, of i]
  by (simp add: at_tok_nextint_def at_tok_nextint_base_def c_strtol_fmt_d)

lemma to_int32_mod: "is_int32 i \<Longrightarrow> to_int32 (i mod 4294967296) = i"
proof -
  have "(i mod 4294967296 + 2147483648) mod 4294967296 = (i + 2147483648) mod 4294967296"
    by (simp add: mod_add_left_eq)
  then have "to_int32 (i mod 4294967296) = to_int32 i" by (simp add: to_int32_def)
  then show "is_int32 i \<Longrightarrow> ?thesis" by simp
qed

lemma nexthexint_more:
  assumes "is_int32 i"
  shows "at_tok_nexthexint (Some (fmt_x i @ CHR '','' # r)) out = (0, Some r, i)"
proof -
  have "nextTok (Some (fmt_x i @ CHR '','' # r)) = (Some (fmt_x i), Some r)"
    by (rule nextTok_plain_more [OF plain_fmt_x])
  with assms show ?thesis
    by (simp add: at_tok_nexthexint_def at_tok_nextint_base_def c_strtoul_fmt_x
        to_int32_mod)
qed

lemma nexthexint_last:
  assumes "is_int32 i"
  shows "at_tok_nexthexint (Some (fmt_x i)) out = (0, None, i)"
  using assms nextTok_plain_last [OF plain_fmt_x, of i]
  by (simp add: at_tok_nexthexint_def at_tok_nextint_base_def c_strtoul_fmt_x
      to_int32_mod)


section \<open>Whole lines\<close>

lemma nextTok_space: "\<forall>c\<in>set sp. ch_isspace c \<Longrightarrow> nextTok (Some (sp @ s)) = nextTok (Some s)"
proof -
  assume "\<forall>c\<in>set sp. ch_isspace c"
  then have "dropWhile ch_isspace (sp @ s) = dropWhile ch_isspace s" by simp
  then show ?thesis by (simp add: nextTok_def)
qed

lemma at_tok_space [simp]:
  "nextTok (Some (CHR '' '' # s)) = nextTok (Some s)"
  "at_tok_nextint (Some (CHR '' '' # s)) out = at_tok_nextint (Some s) out"
  "at_tok_nexthexint (Some (CHR '' '' # s)) out = at_tok_nexthexint (Some s) out"
  "at_tok_nextbool (Some (CHR '' '' # s)) out = at_tok_nextbool (Some s) out"
  "at_tok_nextstr (Some (CHR '' '' # s)) cout = at_tok_nextstr (Some s) cout"
proof -
  show t: "nextTok (Some (CHR '' '' # s)) = nextTok (Some s)" for s
    using nextTok_space [of "'' ''" s] by (simp add: ch_isspace_def)
  show i: "at_tok_nextint (Some (CHR '' '' # s)) out = at_tok_nextint (Some s) out" for s out
    by (simp add: at_tok_nextint_def at_tok_nextint_base_def t)
  show "at_tok_nexthexint (Some (CHR '' '' # s)) out = at_tok_nexthexint (Some s) out"
    by (simp add: at_tok_nexthexint_def at_tok_nextint_base_def t)
  show "at_tok_nextbool (Some (CHR '' '' # s)) out = at_tok_nextbool (Some s) out"
    by (simp add: at_tok_nextbool_def i)
  show "at_tok_nextstr (Some (CHR '' '' # s)) cout = at_tok_nextstr (Some s) cout"
    by (simp add: at_tok_nextstr_def t)
qed

lemma nextstr_more:
  "field_ok f \<Longrightarrow> at_tok_nextstr (Some (render_field f @ CHR '','' # r)) out = (0, Some r, Some (field_text f))"
  by (simp add: at_tok_nextstr_def nextTok_more)

lemma nextstr_last:
  "field_ok f \<Longrightarrow> \<exists>c. at_tok_nextstr (Some (render_field f)) out = (0, c, Some (field_text f)) \<and> \<not> at_tok_hasmore c"
  using nextTok_last [of f] by (auto simp: at_tok_nextstr_def)

lemma nextbool_more:
  "b = 0 \<or> b = 1 \<Longrightarrow> at_tok_nextbool (Some (fmt_d b @ CHR '','' # r)) out = (0, Some r, b)"
  by (auto simp: at_tok_nextbool_def nextint_more int32_defs)

lemma nextbool_last:
  "b = 0 \<or> b = 1 \<Longrightarrow> at_tok_nextbool (Some (fmt_d b)) out = (0, None, b)"
  by (auto simp: at_tok_nextbool_def nextint_last int32_defs)

lemma read_strs_fields:
  assumes "fs \<noteq> []" and "\<forall>f\<in>set fs. field_ok f"
  shows "\<exists>c. read_strs (length fs) (Some (render_fields fs)) = (map (Some \<circ> field_text) fs, c)
    \<and> \<not> at_tok_hasmore c"
  using assms
proof (induction fs rule: render_fields.induct)
  case (2 f)
  then obtain c where "nextTok (Some (render_field f)) = (Some (field_text f), c)" "\<not> at_tok_hasmore c"
    using nextTok_last [of f] by auto
  then show ?case by (simp add: at_tok_nextstr_def)
next
  case (3 f g fs)
  then have "nextTok (Some (render_field f @ CHR '','' # render_fields (g # fs)))
      = (Some (field_text f), Some (render_fields (g # fs)))" by (intro nextTok_more) simp
  with 3 show ?case by (auto simp: at_tok_nextstr_def)
qed simp

lemma read_strs_space:
  "\<forall>c\<in>set sp. ch_isspace c \<Longrightarrow> read_strs (Suc n) (Some (sp @ s)) = read_strs (Suc n) (Some s)"
  by (simp add: at_tok_nextstr_def nextTok_space)

text \<open>Reading \<open>n\<close> integers in a row; stops at the first failure, as the callers do.\<close>

fun read_ints :: "nat \<Rightarrow> cptr \<Rightarrow> int list option \<times> cptr" where
  "read_ints 0 cur = (Some [], cur)"
| "read_ints (Suc n) cur =
     (let (rc, cur', v) = at_tok_nextint cur 0 in
      if rc < 0 then (None, cur')
      else let (vs, cur'') = read_ints n cur' in (map_option ((#) v) vs, cur''))"

lemma read_ints_fields:
  assumes "vs \<noteq> []" and "\<forall>i\<in>set vs. is_int32 i"
  shows "read_ints (length vs) (Some (render_fields (map (Plain \<circ> fmt_d) vs))) = (Some vs, None)"
  using assms
proof (induction vs rule: induct_list012)
  case (2 i)
  then show ?case by (simp add: nextint_last)
next
  case (3 i j vs)
  then show ?case by (simp add: nextint_more)
qed simp

section \<open>Properties\<close>

text \<open>
  C31: A response line \<^verbatim>\<open>prefix: field,field,...\<close>, each field plain or quoted (a quoted one may
  hold commas and spaces), is read back by the tokenizer: \<^verbatim>\<open>at_tok_start\<close> succeeds, as many calls
  of \<^verbatim>\<open>at_tok_nextstr\<close> as there are fields return the texts of the fields in order, and
  then \<^verbatim>\<open>at_tok_hasmore\<close> is false.
\<close>

theorem tokenizer_reads_fields:
  assumes "CHR '':'' \<notin> set pfx" and "\<forall>c\<in>set sp. ch_isspace c"
    and "fs \<noteq> []" and "\<forall>f\<in>set fs. field_ok f"
  shows "\<exists>cur cur'. at_tok_start (Some (pfx @ CHR '':'' # sp @ render_fields fs)) = (0, cur)
    \<and> read_strs (length fs) cur = (map (Some \<circ> field_text) fs, cur') \<and> \<not> at_tok_hasmore cur'"
proof -
  from assms(3) obtain n where "length fs = Suc n" by (cases fs) auto
  with read_strs_fields [OF assms(3,4)] read_strs_space [OF assms(2)] assms(1)
  show ?thesis by (auto simp: c_strchr_def)
qed

lemma tokenizer_reads_fields_witness:
  "\<exists>cur cur'. at_tok_start (Some ''+COPS: 0,\"A, B\",310'') = (0, cur)
     \<and> read_strs 3 cur = ([Some ''0'', Some ''A, B'', Some ''310''], cur') \<and> \<not> at_tok_hasmore cur'"
  using tokenizer_reads_fields [of "''+COPS''" "'' ''" "[Plain ''0'', Quoted ''A, B'', Plain ''310'']"]
  by (simp add: ch_isspace_def numeral_3_eq_3)

text \<open>
  Integers survive the line format: any list of 32-bit integers printed with \<^verbatim>\<open>%d\<close> and
  separated by commas is read back by \<^verbatim>\<open>at_tok_nextint\<close>, value by value, and the line is used up.
\<close>

theorem tokenizer_int_roundtrip:
  assumes "CHR '':'' \<notin> set pfx" and "vs \<noteq> []" and "\<forall>i\<in>set vs. is_int32 i"
  shows "\<exists>cur. at_tok_start (Some (pfx @ CHR '':'' # render_fields (map (Plain \<circ> fmt_d) vs))) = (0, cur)
    \<and> read_ints (length vs) cur = (Some vs, None)"
  using read_ints_fields [OF assms(2,3)] assms(1) by (simp add: c_strchr_def)

lemma tokenizer_int_roundtrip_witness:
  "\<exists>cur. at_tok_start (Some (''+CLCC'' @ CHR '':'' # render_fields (map (Plain \<circ> fmt_d) [1, -7, 2147483647])))
       = (0, cur) \<and> read_ints 3 cur = (Some [1, -7, 2147483647], None)"
  using tokenizer_int_roundtrip [of "''+CLCC''" "[1, -7, 2147483647]"]
  by (simp add: int32_defs numeral_3_eq_3)

text \<open>
  C32: Whatever the modem sent, \<^verbatim>\<open>at_tok_nextint\<close> returns 0 or -1, leaves an \<^verbatim>\<open>int\<close> in the output
  (a number too long for an \<^verbatim>\<open>int\<close> is cut to 32 bits), and on success has consumed at least one
  character of the line, so a caller's loop over the tokens of a line ends.
\<close>

theorem tokenizer_nextint_contract:
  assumes "at_tok_nextint cur out = (rc, cur', v)" and "is_int32 out"
  shows "(rc = 0 \<or> rc = -1) \<and> is_int32 v \<and> (rc = 0 \<longrightarrow> tok_len cur' < tok_len cur)"
  using at_tok_nextint_range [OF assms] at_tok_nextint_progress [of cur out cur' v] assms(1)
    at_tok_nextint_base_ret [of cur out 10 False rc cur' v]
  by (auto simp: at_tok_nextint_def)

lemma tokenizer_nextint_contract_witness:
  "is_int32 (-727379969)
   \<and> at_tok_nextint (Some ''999999999999,1'') 0 = (0, Some ''1'', -727379969)"
proof -
  have ev: "at_tok_nextint (Some ''999999999999,1'') 0 = (0, Some ''1'', -727379969)"
    by (simp add: at_tok_nextint_def at_tok_nextint_base_def nextTok_def c_strtol_def scan_number_def
        ch_isspace_def is_base_digit_def digit_val_def digits_value_def LONG_MAX_def to_int32_def)
  from tokenizer_nextint_contract [OF this] ev show ?thesis by (simp add: zero_int32)
qed

end
