(* ===== verification/AtChannel.thy ===== *)
theory AtChannel
  imports AtTok
begin

text \<open>
  The AT channel, \<^verbatim>\<open>reference-ril/atchannel.c\<close>: the classification of lines, the reader
  thread's handling of each line, the writers, and sending a command and waiting for its
  response. The static variables are a record that the RIL's state extends; the registered
  function pointers are a flag in the state and their code is the argument \<open>cb\<close>.

  Two threads run: the command thread runs the functions below, and the reader thread runs
  whenever the command thread waits for \<^verbatim>\<open>s_commandmutex\<close> or \<^verbatim>\<open>s_commandcond\<close>. The state's \<open>sched\<close>
  says what the reader does at each such point: the results its calls of \<^verbatim>\<open>readline\<close> return
  there, and whether a timed wait then times out. A wait with no entry left lasts for ever.
\<close>

section \<open>State\<close>

definition AT_ERROR_GENERIC :: int where "AT_ERROR_GENERIC = -1"
definition AT_ERROR_COMMAND_PENDING :: int where "AT_ERROR_COMMAND_PENDING = -2"
definition AT_ERROR_CHANNEL_CLOSED :: int where "AT_ERROR_CHANNEL_CLOSED = -3"
definition AT_ERROR_TIMEOUT :: int where "AT_ERROR_TIMEOUT = -4"
definition AT_ERROR_INVALID_THREAD :: int where "AT_ERROR_INVALID_THREAD = -5"
definition AT_ERROR_INVALID_RESPONSE :: int where "AT_ERROR_INVALID_RESPONSE = -6"

lemmas at_error_defs = AT_ERROR_GENERIC_def AT_ERROR_COMMAND_PENDING_def AT_ERROR_CHANNEL_CLOSED_def
  AT_ERROR_TIMEOUT_def AT_ERROR_INVALID_THREAD_def AT_ERROR_INVALID_RESPONSE_def

datatype ATCommandType = NO_RESULT | NUMERIC | SINGLELINE | MULTILINE

text \<open>The list of intermediate lines, head first.\<close>

record ATResponse =
  success :: int
  finalResponse :: cptr
  p_intermediates :: "string list"

text \<open>A variable of type \<^verbatim>\<open>ATResponse *\<close>; C does not initialise it.\<close>

datatype resp = Uninit | Null | Resp ATResponse

text \<open>What a call of \<^verbatim>\<open>write\<close> does; with no entry left it accepts everything.\<close>

datatype write_result = WrOk nat | WrEintr | WrErr

type_synonym segment = "cptr list \<times> bool"

record at_chan =
  s_fd :: int
  s_unsolHandler :: bool
  s_onReaderClosed :: bool
  s_onTimeout :: bool
  s_type :: ATCommandType
  s_responsePrefix :: cptr
  s_smsPDU :: cptr
  sp_response :: "ATResponse option"
  s_readerClosed :: bool
  r_alive :: bool          \<comment> \<open>the reader thread is in its loop\<close>
  r_line1 :: cptr          \<comment> \<open>its copy of the first line of a two-line SMS response\<close>
  on_reader :: bool        \<comment> \<open>the code running is on the reader thread\<close>
  sched :: "segment list"
  wres :: "write_result list"
  wrote :: string          \<comment> \<open>the bytes written to the channel\<close>
  handed :: "(string \<times> cptr) list"  \<comment> \<open>what \<^verbatim>\<open>s_unsolHandler\<close> was called with\<close>

record 's handlers =
  h_unsol :: "string \<Rightarrow> cptr \<Rightarrow> ('s, unit) prog"
  h_closed :: "('s, unit) prog"
  h_timeout :: "('s, unit) prog"

section \<open>Classifying lines\<close>

definition s_finalResponsesError :: "string list" where
  "s_finalResponsesError =
     [''ERROR'', ''+CMS ERROR:'', ''+CME ERROR:'', ''NO CARRIER'', ''NO ANSWER'', ''NO DIALTONE'']"

definition isFinalResponseError :: "string \<Rightarrow> bool" where
  "isFinalResponseError line = list_ex (strStartsWith line) s_finalResponsesError"

definition s_finalResponsesSuccess :: "string list" where
  "s_finalResponsesSuccess = [''OK'', ''CONNECT'']"

definition isFinalResponseSuccess :: "string \<Rightarrow> bool" where
  "isFinalResponseSuccess line = list_ex (strStartsWith line) s_finalResponsesSuccess"

definition isFinalResponse :: "string \<Rightarrow> bool" where
  "isFinalResponse line \<longleftrightarrow> isFinalResponseSuccess line \<or> isFinalResponseError line"

definition s_smsUnsoliciteds :: "string list" where
  "s_smsUnsoliciteds = [''+CMT:'', ''+CDS:'', ''+CBM:'']"

definition isSMSUnsolicited :: "string \<Rightarrow> bool" where
  "isSMSUnsolicited line = list_ex (strStartsWith line) s_smsUnsoliciteds"

section \<open>Writing\<close>

text \<open>
  The loop over the string: each \<^verbatim>\<open>write\<close> accepts some of what is left. The result says
  whether it got through, with the rest of the script and the bytes written.
\<close>

fun write_all :: "write_result list \<Rightarrow> string \<Rightarrow> bool \<times> write_result list \<times> string" where
  "write_all w [] = (True, w, [])"
| "write_all [] s = (True, [], s)"
| "write_all (WrEintr # w) s = write_all w s"
| "write_all (WrErr # w) s = (False, w, [])"
| "write_all (WrOk n # w) s =
     (let (ok, w', out) = write_all w (drop n s) in (ok, w', take n s @ out))"

text \<open>The loop that writes the closing character.\<close>

fun write_end :: "write_result list \<Rightarrow> char \<Rightarrow> bool \<times> write_result list \<times> string" where
  "write_end [] c = (True, [], [c])"
| "write_end (WrEintr # w) c = write_end w c"
| "write_end (WrErr # w) c = (False, w, [])"
| "write_end (WrOk n # w) c = (if n = 0 then write_end w c else (True, w, [c]))"

definition write_with :: "char \<Rightarrow> string \<Rightarrow> ('a at_chan_scheme, int) prog" where
  "write_with c str s =
     (if s_fd s < 0 \<or> s_readerClosed s then Done AT_ERROR_CHANNEL_CLOSED s
      else let (ok, w, out) = write_all (wres s) str in
        if \<not> ok then Done AT_ERROR_GENERIC (s\<lparr>wres := w, wrote := wrote s @ out\<rparr>)
        else let (ok', w', out') = write_end w c;
                 s' = s\<lparr>wres := w', wrote := wrote s @ out @ out'\<rparr>
             in if \<not> ok' then Done AT_ERROR_GENERIC s' else Done 0 s')"

definition writeline :: "string \<Rightarrow> ('a at_chan_scheme, int) prog" where
  "writeline = write_with (CHR 0x0D)"

definition writeCtrlZ :: "string \<Rightarrow> ('a at_chan_scheme, int) prog" where
  "writeCtrlZ = write_with (CHR 0x1A)"

section \<open>The reader's side\<close>

text \<open>Called with a response pending.\<close>

definition addIntermediate :: "string \<Rightarrow> ('a at_chan_scheme, unit) prog" where
  "addIntermediate line s =
     (case sp_response s of
        None \<Rightarrow> Crash NullDeref
      | Some r \<Rightarrow> Done () (s\<lparr>sp_response := Some (r\<lparr>p_intermediates := line # p_intermediates r\<rparr>)\<rparr>))"

definition handleFinalResponse :: "string \<Rightarrow> ('a at_chan_scheme, unit) prog" where
  "handleFinalResponse line s =
     (case sp_response s of
        None \<Rightarrow> Crash NullDeref
      | Some r \<Rightarrow> Done () (s\<lparr>sp_response := Some (r\<lparr>finalResponse := Some line\<rparr>)\<rparr>))"

definition call_unsol ::
  "('a at_chan_scheme) handlers \<Rightarrow> string \<Rightarrow> cptr \<Rightarrow> ('a at_chan_scheme, unit) prog" where
  "call_unsol cb line pdu s =
     (if s_unsolHandler s then h_unsol cb line pdu (s\<lparr>handed := handed s @ [(line, pdu)]\<rparr>)
      else Done () s)"

definition handleUnsolicited ::
  "('a at_chan_scheme) handlers \<Rightarrow> string \<Rightarrow> ('a at_chan_scheme, unit) prog" where
  "handleUnsolicited cb line = call_unsol cb line None"

text \<open>\<^verbatim>\<open>isdigit(line[0])\<close>; the first character of an empty line is the NUL.\<close>

definition starts_with_digit :: "string \<Rightarrow> bool" where
  "starts_with_digit line \<longleftrightarrow> line \<noteq> [] \<and> ch_isdigit (hd line)"

text \<open>\<^verbatim>\<open>strStartsWith (line, s_responsePrefix)\<close>: a NULL prefix is read through.\<close>

definition has_prefix :: "string \<Rightarrow> ('a at_chan_scheme, bool) prog" where
  "has_prefix line s =
     (case s_responsePrefix s of None \<Rightarrow> Crash NullDeref | Some p \<Rightarrow> Done (strStartsWith line p) s)"

definition processLine ::
  "('a at_chan_scheme) handlers \<Rightarrow> string \<Rightarrow> ('a at_chan_scheme, unit) prog" where
  "processLine cb line s =
     (case sp_response s of
        None \<Rightarrow> handleUnsolicited cb line s
      | Some r \<Rightarrow>
          if isFinalResponseSuccess line then
            handleFinalResponse line (s\<lparr>sp_response := Some (r\<lparr>success := 1\<rparr>)\<rparr>)
          else if isFinalResponseError line then
            handleFinalResponse line (s\<lparr>sp_response := Some (r\<lparr>success := 0\<rparr>)\<rparr>)
          else if s_smsPDU s \<noteq> None \<and> line = ''> '' then
            andthen (bnd (writeCtrlZ (the (s_smsPDU s))) (\<lambda>_. ret ()))
              (modify (\<lambda>s. s\<lparr>s_smsPDU := None\<rparr>)) s
          else
            (case s_type s of
               NO_RESULT \<Rightarrow> handleUnsolicited cb line s
             | NUMERIC \<Rightarrow>
                 if p_intermediates r = [] \<and> starts_with_digit line then addIntermediate line s
                 else handleUnsolicited cb line s
             | SINGLELINE \<Rightarrow>
                 if p_intermediates r = [] then
                   bnd (has_prefix line) (\<lambda>b.
                     if b then addIntermediate line else handleUnsolicited cb line) s
                 else handleUnsolicited cb line s
             | MULTILINE \<Rightarrow>
                 bnd (has_prefix line) (\<lambda>b.
                   if b then addIntermediate line else handleUnsolicited cb line) s))"

definition onReaderClosed ::
  "('a at_chan_scheme) handlers \<Rightarrow> ('a at_chan_scheme, unit) prog" where
  "onReaderClosed cb s =
     (if s_onReaderClosed s \<and> \<not> s_readerClosed s
      then h_closed cb (s\<lparr>s_readerClosed := True\<rparr>)
      else Done () s)"

text \<open>
  One step of \<^verbatim>\<open>readerLoop\<close>: a call of \<^verbatim>\<open>readline\<close> has returned \<open>x\<close>. The loop waits either for
  a line or, holding the first line of an SMS response, for its second.
\<close>

definition readerLoop_step ::
  "('a at_chan_scheme) handlers \<Rightarrow> cptr \<Rightarrow> ('a at_chan_scheme, unit) prog" where
  "readerLoop_step cb x s =
     (case r_line1 s of
        Some line1 \<Rightarrow>
          (case x of
             None \<Rightarrow> onReaderClosed cb (s\<lparr>r_line1 := None, r_alive := False\<rparr>)
           | Some line2 \<Rightarrow> call_unsol cb line1 (Some line2) (s\<lparr>r_line1 := None\<rparr>))
      | None \<Rightarrow>
          (case x of
             None \<Rightarrow> onReaderClosed cb (s\<lparr>r_alive := False\<rparr>)
           | Some line \<Rightarrow>
               if isSMSUnsolicited line then Done () (s\<lparr>r_line1 := Some line\<rparr>)
               else processLine cb line s))"

text \<open>The reader thread's turn; after its loop has ended it does nothing.\<close>

definition reader_turn ::
  "('a at_chan_scheme) handlers \<Rightarrow> cptr \<Rightarrow> ('a at_chan_scheme, unit) prog" where
  "reader_turn cb x s =
     (if \<not> r_alive s then Done () s
      else bnd (readerLoop_step cb x) (\<lambda>_. modify (\<lambda>s. s\<lparr>on_reader := False\<rparr>))
             (s\<lparr>on_reader := True\<rparr>))"

fun run_reader ::
  "('a at_chan_scheme) handlers \<Rightarrow> cptr list \<Rightarrow> ('a at_chan_scheme, unit) prog" where
  "run_reader cb [] = ret ()"
| "run_reader cb (x # xs) = andthen (reader_turn cb x) (run_reader cb xs)"

section \<open>Sending a command\<close>

text \<open>Taking \<^verbatim>\<open>s_commandmutex\<close> on the command thread: the reader may run first.\<close>

definition lock_commandmutex ::
  "('a at_chan_scheme) handlers \<Rightarrow> ('a at_chan_scheme, unit) prog" where
  "lock_commandmutex cb s =
     (case sched s of
        [] \<Rightarrow> Done () s
      | (xs, _) # later \<Rightarrow> run_reader cb xs (s\<lparr>sched := later\<rparr>))"

definition clearPendingCommand :: "('a at_chan_scheme, unit) prog" where
  "clearPendingCommand =
     modify (\<lambda>s. s\<lparr>sp_response := None, s_responsePrefix := None, s_smsPDU := None\<rparr>)"

definition at_open :: "int \<Rightarrow> ('a at_chan_scheme, int) prog" where
  "at_open fd s =
     Done 0 (s\<lparr>s_fd := fd, s_unsolHandler := True, s_readerClosed := False,
       s_responsePrefix := None, s_smsPDU := None, sp_response := None,
       r_alive := True, r_line1 := None\<rparr>)"

definition at_close :: "('a at_chan_scheme, unit) prog" where
  "at_close = modify (\<lambda>s. s\<lparr>s_fd := -1, s_readerClosed := True\<rparr>)"

definition at_response_new :: ATResponse where
  "at_response_new = \<lparr>success = 0, finalResponse = None, p_intermediates = []\<rparr>"

text \<open>Freeing is an observation only where the variable was never assigned.\<close>

definition at_response_free :: "resp \<Rightarrow> ('s, unit) prog" where
  "at_response_free p = (if p = Uninit then crash UninitPointer else ret ())"

text \<open>The loop that moves each cell to the front of the new list.\<close>

fun reverse_loop :: "string list \<Rightarrow> string list \<Rightarrow> string list" where
  "reverse_loop acc [] = acc"
| "reverse_loop acc (l # ls) = reverse_loop (l # acc) ls"

definition reverseIntermediates :: "ATResponse \<Rightarrow> ATResponse" where
  "reverseIntermediates r = r\<lparr>p_intermediates := reverse_loop [] (p_intermediates r)\<rparr>"

text \<open>
  The loop on \<^verbatim>\<open>s_commandcond\<close>: it goes on while the pending response has no final line and
  the channel is open; after a wait the pending response is read anew.
\<close>

fun await ::
  "('a at_chan_scheme) handlers \<Rightarrow> bool \<Rightarrow> segment list \<Rightarrow> ('a at_chan_scheme, int) prog" where
  "await cb timed segs s =
     (case sp_response s of
        None \<Rightarrow> Crash NullDeref
      | Some r \<Rightarrow>
          if finalResponse r = None \<and> \<not> s_readerClosed s then
            (case segs of
               [] \<Rightarrow> Hang
             | (xs, timeout) # later \<Rightarrow>
                 bnd (run_reader cb xs)
                   (\<lambda>_. if timed \<and> timeout then ret AT_ERROR_TIMEOUT else await cb timed later)
                   (s\<lparr>sched := later\<rparr>))
          else Done 0 s)"

declare await.simps [simp del]

text \<open>The first half, up to the wait.\<close>

definition at_send_start ::
  "string \<Rightarrow> ATCommandType \<Rightarrow> cptr \<Rightarrow> cptr \<Rightarrow> ('a at_chan_scheme, int) prog" where
  "at_send_start command type prefix smspdu s =
     (if sp_response s \<noteq> None then Done AT_ERROR_COMMAND_PENDING s
      else bnd (writeline command) (\<lambda>err.
        if err < 0 then ret err
        else (\<lambda>s. Done 0 (s\<lparr>s_type := type, s_responsePrefix := prefix, s_smsPDU := smspdu,
                       sp_response := Some at_response_new\<rparr>))) s)"

text \<open>The caller's variable, when nothing is assigned to it.\<close>

definition old_resp :: "resp option \<Rightarrow> resp" where
  "old_resp pp = (case pp of None \<Rightarrow> Null | Some old \<Rightarrow> old)"

text \<open>
  The second half. \<open>pp\<close> is \<^verbatim>\<open>pp_outResponse\<close>: \<open>None\<close> for NULL, otherwise the caller's variable
  with its old value; the new value is returned.
\<close>

definition at_send_finish ::
  "('a at_chan_scheme) handlers \<Rightarrow> bool \<Rightarrow> resp option \<Rightarrow> ('a at_chan_scheme, int \<times> resp) prog" where
  "at_send_finish cb timed pp s =
     bnd (await cb timed (sched s)) (\<lambda>err s.
       if err < 0 then andthen clearPendingCommand (ret (err, old_resp pp)) s
       else
         (case sp_response s of
            None \<Rightarrow> Crash NullDeref
          | Some r \<Rightarrow>
              andthen clearPendingCommand
                (ret (if s_readerClosed s then AT_ERROR_CHANNEL_CLOSED else 0,
                      case pp of None \<Rightarrow> Null | Some _ \<Rightarrow> Resp (reverseIntermediates r)))
                (s\<lparr>sp_response := None\<rparr>))) s"

definition at_send_command_full_nolock ::
  "('a at_chan_scheme) handlers \<Rightarrow> string \<Rightarrow> ATCommandType \<Rightarrow> cptr \<Rightarrow> cptr \<Rightarrow> int \<Rightarrow> resp option \<Rightarrow>
   ('a at_chan_scheme, int \<times> resp) prog" where
  "at_send_command_full_nolock cb command type prefix smspdu timeoutMsec pp =
     bnd (at_send_start command type prefix smspdu) (\<lambda>err.
       if err < 0 then andthen clearPendingCommand (ret (err, old_resp pp))
       else at_send_finish cb (timeoutMsec \<noteq> 0) pp)"

definition at_send_command_full ::
  "('a at_chan_scheme) handlers \<Rightarrow> string \<Rightarrow> ATCommandType \<Rightarrow> cptr \<Rightarrow> cptr \<Rightarrow> int \<Rightarrow> resp option \<Rightarrow>
   ('a at_chan_scheme, int \<times> resp) prog" where
  "at_send_command_full cb command type prefix smspdu timeoutMsec pp s =
     (if on_reader s then Done (AT_ERROR_INVALID_THREAD, old_resp pp) s
      else andthen (lock_commandmutex cb)
        (bnd (at_send_command_full_nolock cb command type prefix smspdu timeoutMsec pp)
          (\<lambda>(err, r) s. if err = AT_ERROR_TIMEOUT \<and> s_onTimeout s
             then andthen (h_timeout cb) (ret (err, r)) s else Done (err, r) s)) s)"

definition at_send_command ::
  "('a at_chan_scheme) handlers \<Rightarrow> string \<Rightarrow> resp option \<Rightarrow> ('a at_chan_scheme, int \<times> resp) prog" where
  "at_send_command cb command pp = at_send_command_full cb command NO_RESULT None None 0 pp"

text \<open>The test the next three functions share: a successful command must have an answer.\<close>

definition need_intermediate :: "resp option \<Rightarrow> int \<times> resp \<Rightarrow> ('s, int \<times> resp) prog" where
  "need_intermediate pp = (\<lambda>(err, r).
     if err = 0 \<and> pp \<noteq> None then
       (case r of
          Uninit \<Rightarrow> crash UninitPointer
        | Null \<Rightarrow> crash NullDeref
        | Resp p \<Rightarrow>
            if success p > 0 \<and> p_intermediates p = []
            then andthen (at_response_free r) (ret (AT_ERROR_INVALID_RESPONSE, Null))
            else ret (err, r))
     else ret (err, r))"

definition at_send_command_singleline ::
  "('a at_chan_scheme) handlers \<Rightarrow> string \<Rightarrow> string \<Rightarrow> resp option \<Rightarrow> ('a at_chan_scheme, int \<times> resp) prog" where
  "at_send_command_singleline cb command responsePrefix pp =
     bnd (at_send_command_full cb command SINGLELINE (Some responsePrefix) None 0 pp)
       (need_intermediate pp)"

definition at_send_command_numeric ::
  "('a at_chan_scheme) handlers \<Rightarrow> string \<Rightarrow> resp option \<Rightarrow> ('a at_chan_scheme, int \<times> resp) prog" where
  "at_send_command_numeric cb command pp =
     bnd (at_send_command_full cb command NUMERIC None None 0 pp) (need_intermediate pp)"

definition at_send_command_sms ::
  "('a at_chan_scheme) handlers \<Rightarrow> string \<Rightarrow> string \<Rightarrow> string \<Rightarrow> resp option \<Rightarrow> ('a at_chan_scheme, int \<times> resp) prog" where
  "at_send_command_sms cb command pdu responsePrefix pp =
     bnd (at_send_command_full cb command SINGLELINE (Some responsePrefix) (Some pdu) 0 pp)
       (need_intermediate pp)"

definition at_send_command_multiline ::
  "('a at_chan_scheme) handlers \<Rightarrow> string \<Rightarrow> string \<Rightarrow> resp option \<Rightarrow> ('a at_chan_scheme, int \<times> resp) prog" where
  "at_send_command_multiline cb command responsePrefix pp =
     at_send_command_full cb command MULTILINE (Some responsePrefix) None 0 pp"

definition at_set_on_timeout :: "('a at_chan_scheme, unit) prog" where
  "at_set_on_timeout = modify (\<lambda>s. s\<lparr>s_onTimeout := True\<rparr>)"

definition at_set_on_reader_closed :: "('a at_chan_scheme, unit) prog" where
  "at_set_on_reader_closed = modify (\<lambda>s. s\<lparr>s_onReaderClosed := True\<rparr>)"

section \<open>The handshake\<close>

definition HANDSHAKE_RETRY_COUNT :: nat where "HANDSHAKE_RETRY_COUNT = 8"
definition HANDSHAKE_TIMEOUT_MSEC :: int where "HANDSHAKE_TIMEOUT_MSEC = 250"

fun handshake_loop ::
  "('a at_chan_scheme) handlers \<Rightarrow> nat \<Rightarrow> int \<Rightarrow> ('a at_chan_scheme, int) prog" where
  "handshake_loop cb 0 err = ret err"
| "handshake_loop cb (Suc n) _ =
     bnd (at_send_command_full_nolock cb ''ATE0Q0V1'' NO_RESULT None None HANDSHAKE_TIMEOUT_MSEC None)
       (\<lambda>(err, _). if err = 0 then ret err else handshake_loop cb n err)"

text \<open>The pause after a good handshake has no effect on the state.\<close>

definition at_handshake :: "('a at_chan_scheme) handlers \<Rightarrow> ('a at_chan_scheme, int) prog" where
  "at_handshake cb s =
     (if on_reader s then Done AT_ERROR_INVALID_THREAD s
      else andthen (lock_commandmutex cb) (handshake_loop cb HANDSHAKE_RETRY_COUNT 0) s)"

section \<open>Errors of a response\<close>

definition CME_ERROR_NON_CME :: int where "CME_ERROR_NON_CME = -1"
definition CME_SUCCESS :: int where "CME_SUCCESS = 0"
definition CME_SIM_NOT_INSERTED :: int where "CME_SIM_NOT_INSERTED = 10"

definition at_get_cme_error :: "ATResponse \<Rightarrow> int" where
  "at_get_cme_error r =
     (if success r > 0 then CME_SUCCESS
      else case finalResponse r of
        None \<Rightarrow> CME_ERROR_NON_CME
      | Some f \<Rightarrow>
          if \<not> strStartsWith f ''+CME ERROR:'' then CME_ERROR_NON_CME
          else let (err, cur) = at_tok_start (Some f) in
            if err < 0 then CME_ERROR_NON_CME
            else let (err, _, v) = at_tok_nextint cur 0 in
              if err < 0 then CME_ERROR_NON_CME else v)"

section \<open>Time\<close>

text \<open>
  \<^verbatim>\<open>setTimespecRelative\<close> on the time of day in seconds and microseconds: the seconds and
  nanoseconds of the deadline. \<^verbatim>\<open>tv_nsec\<close> is a 64-bit \<^verbatim>\<open>long\<close>, which these values fit.
\<close>

definition NS_PER_S :: int where "NS_PER_S = 1000000000"

definition setTimespecRelative :: "int \<times> int \<Rightarrow> int \<Rightarrow> int \<times> int" where
  "setTimespecRelative tv msec =
     (let (tv_sec, tv_usec) = tv;
          sec = tv_sec + msec div 1000;
          nsec = (tv_usec + (msec mod 1000) * 1000) * 1000
      in if nsec \<ge> NS_PER_S then (sec + 1, nsec - NS_PER_S) else (sec, nsec))"


section \<open>The invariant of a pending response\<close>

text \<open>Whether a line is one that a command of a type and prefix asks for.\<close>

definition wants :: "ATCommandType \<Rightarrow> cptr \<Rightarrow> string \<Rightarrow> bool" where
  "wants ty pfx l =
     (case ty of
        NO_RESULT \<Rightarrow> False
      | NUMERIC \<Rightarrow> starts_with_digit l
      | _ \<Rightarrow> (case pfx of None \<Rightarrow> False | Some p \<Rightarrow> strStartsWith l p))"

definition needs_prefix :: "ATCommandType \<Rightarrow> bool" where
  "needs_prefix ty \<longleftrightarrow> ty = SINGLELINE \<or> ty = MULTILINE"

fun final_ok :: "int \<Rightarrow> cptr \<Rightarrow> bool" where
  "final_ok succ None \<longleftrightarrow> succ = 0"
| "final_ok succ (Some f) \<longleftrightarrow> isFinalResponse f \<and> succ = (if isFinalResponseSuccess f then 1 else 0)"

definition resp_ok :: "ATCommandType \<Rightarrow> cptr \<Rightarrow> ATResponse \<Rightarrow> bool" where
  "resp_ok ty pfx r \<longleftrightarrow> final_ok (success r) (finalResponse r)
     \<and> (\<forall>l\<in>set (p_intermediates r). wants ty pfx l)
     \<and> (ty \<noteq> MULTILINE \<longrightarrow> length (p_intermediates r) \<le> 1)"

text \<open>
  No command leaves anything behind, and a pending one has a well-formed response.
\<close>

fun pending_ok :: "ATCommandType \<Rightarrow> cptr \<Rightarrow> cptr \<Rightarrow> ATResponse option \<Rightarrow> bool" where
  "pending_ok ty pfx pdu None \<longleftrightarrow> pfx = None \<and> pdu = None"
| "pending_ok ty pfx pdu (Some r) \<longleftrightarrow> resp_ok ty pfx r \<and> (needs_prefix ty \<longrightarrow> pfx \<noteq> None)"

definition chan_ok :: "'a at_chan_scheme \<Rightarrow> bool" where
  "chan_ok s = pending_ok (s_type s) (s_responsePrefix s) (s_smsPDU s) (sp_response s)"

text \<open>What the reader may change while a command waits.\<close>

definition reader_frame :: "'a at_chan_scheme \<Rightarrow> 'a at_chan_scheme \<Rightarrow> bool" where
  "reader_frame s t \<longleftrightarrow>
     sched t = sched s \<and> s_type t = s_type s \<and> s_responsePrefix t = s_responsePrefix s
     \<and> (sp_response t = None \<longleftrightarrow> sp_response s = None)
     \<and> (chan_ok s \<longrightarrow> chan_ok t)
     \<and> (s_readerClosed s \<longrightarrow> s_readerClosed t)
     \<and> s_onTimeout t = s_onTimeout s"

interpretation reader: frame reader_frame
  by unfold_locales (auto simp: reader_frame_def)

lemma truncate_eq_iff:
  "at_chan.truncate t = at_chan.truncate s \<longleftrightarrow>
     s_fd t = s_fd s \<and> s_unsolHandler t = s_unsolHandler s \<and> s_onReaderClosed t = s_onReaderClosed s
     \<and> s_onTimeout t = s_onTimeout s \<and> s_type t = s_type s \<and> s_responsePrefix t = s_responsePrefix s
     \<and> s_smsPDU t = s_smsPDU s \<and> sp_response t = sp_response s \<and> s_readerClosed t = s_readerClosed s
     \<and> r_alive t = r_alive s \<and> r_line1 t = r_line1 s \<and> on_reader t = on_reader s
     \<and> sched t = sched s \<and> wres t = wres s \<and> wrote t = wrote s \<and> handed t = handed s"
  by (auto simp: at_chan.defs)

lemma reader_frame_truncate:
  "at_chan.truncate t = at_chan.truncate s \<Longrightarrow> reader_frame s t"
  by (simp add: reader_frame_def chan_ok_def truncate_eq_iff)

lemma write_with_ret:
  "\<exists>w x. write_with c str s = Done AT_ERROR_CHANNEL_CLOSED s
     \<or> write_with c str s = Done AT_ERROR_GENERIC (s\<lparr>wres := w, wrote := x\<rparr>)
     \<or> write_with c str s = Done 0 (s\<lparr>wres := w, wrote := x\<rparr>)"
  unfolding write_with_def by (auto simp: Let_def split: prod.splits)

lemma writeCtrlZ_frame: "steps reader_frame (writeCtrlZ d)"
proof (rule stepsI)
  fix s t :: "'a at_chan_scheme" and x
  assume "writeCtrlZ d s = Done x t"
  with write_with_ret [of "CHR 0x1A" d s] show "reader_frame s t"
    by (auto simp: writeCtrlZ_def reader_frame_def chan_ok_def)
qed

text \<open>No command is pending and none left anything behind.\<close>

definition idle :: "'a at_chan_scheme \<Rightarrow> bool" where
  "idle s \<longleftrightarrow> sp_response s = None \<and> s_responsePrefix s = None \<and> s_smsPDU s = None"

lemma idle_iff: "idle s \<longleftrightarrow> chan_ok s \<and> sp_response s = None"
  by (auto simp: idle_def chan_ok_def)

text \<open>What a caller gets: a return code and the new value of its variable.\<close>

definition answer_ok :: "ATCommandType \<Rightarrow> cptr \<Rightarrow> ATResponse \<Rightarrow> bool" where
  "answer_ok ty pfx p \<longleftrightarrow> resp_ok ty pfx p \<and> finalResponse p \<noteq> None"

definition send_result ::
  "ATCommandType \<Rightarrow> cptr \<Rightarrow> bool \<Rightarrow> resp option \<Rightarrow> int \<Rightarrow> resp \<Rightarrow> bool" where
  "send_result ty pfx timed pp err r \<longleftrightarrow>
     err = 0 \<and> (case pp of None \<Rightarrow> r = Null | Some _ \<Rightarrow> \<exists>p. r = Resp p \<and> answer_ok ty pfx p)
   \<or> err = AT_ERROR_CHANNEL_CLOSED \<and> (r = old_resp pp \<or> (pp \<noteq> None \<and> (\<exists>p. r = Resp p)))
   \<or> err = AT_ERROR_GENERIC \<and> r = old_resp pp
   \<or> err = AT_ERROR_TIMEOUT \<and> timed \<and> r = old_resp pp"

lemma reverse_loop_rev: "reverse_loop acc xs = rev xs @ acc"
  by (induction xs arbitrary: acc) auto

lemma reverse_resp_ok [simp]: "resp_ok ty pfx (reverseIntermediates r) = resp_ok ty pfx r"
  by (simp add: resp_ok_def reverseIntermediates_def reverse_loop_rev)

lemma write_with_ok:
  assumes "write_with c str s = Done err t"
  shows "err \<in> {0, AT_ERROR_GENERIC, AT_ERROR_CHANNEL_CLOSED} \<and> (\<exists>w x. t = s\<lparr>wres := w, wrote := x\<rparr>)"
proof -
  have "\<exists>w x. s = s\<lparr>wres := w, wrote := x\<rparr>"
    by (rule exI [of _ "wres s"], rule exI [of _ "wrote s"]) simp
  then show ?thesis using write_with_ret [of c str s] assms by auto
qed

lemma run_reader_append: "run_reader cb (xs @ ys) = andthen (run_reader cb xs) (run_reader cb ys)"
  by (induction xs) (auto simp: andthen_def bnd_assoc)

text \<open>
  The interface between the channel and the code it calls back: what the handlers
  must leave alone. The unsolicited handler touches no field of the channel; the two others
  may only close it.
\<close>

locale channel_client =
  fixes cb :: "('a at_chan_scheme) handlers"
  assumes unsol_law: "h_unsol cb l p s = Done () t \<Longrightarrow> at_chan.truncate t = at_chan.truncate s"
    and closed_law: "h_closed cb s = Done () t \<Longrightarrow>
      at_chan.truncate t = (at_chan.truncate s)\<lparr>s_fd := s_fd t, s_readerClosed := True\<rparr>"
    and timeout_law: "h_timeout cb s = Done () t \<Longrightarrow>
      at_chan.truncate t = (at_chan.truncate s)\<lparr>s_fd := s_fd t, s_readerClosed := True\<rparr>"
begin

lemma call_unsol_law:
  "call_unsol cb l p s = Done () t \<Longrightarrow>
   at_chan.truncate t = at_chan.truncate (if s_unsolHandler s then s\<lparr>handed := handed s @ [(l, p)]\<rparr> else s)"
  by (auto simp: call_unsol_def dest: unsol_law split: if_splits)

lemma call_unsol_frame: "steps reader_frame (call_unsol cb l p)"
proof (rule stepsI)
  fix s t and x :: unit
  assume "call_unsol cb l p s = Done x t"
  then have "at_chan.truncate t
      = at_chan.truncate (if s_unsolHandler s then s\<lparr>handed := handed s @ [(l, p)]\<rparr> else s)"
    by (intro call_unsol_law) simp
  then show "reader_frame s t"
    by (auto simp: truncate_eq_iff reader_frame_def chan_ok_def split: if_splits)
qed

lemma processLine_frame: "steps reader_frame (processLine cb line)"
proof (rule stepsI)
  fix s t and x :: unit
  assume run: "processLine cb line s = Done x t"
  note unsol = stepsD [OF call_unsol_frame, of line None s "()" t]
  show "reader_frame s t"
  proof (cases "sp_response s")
    case None
    with run unsol show ?thesis by (auto simp: processLine_def handleUnsolicited_def)
  next
    case (Some r)
    consider (fin) "isFinalResponseSuccess line \<or> isFinalResponseError line"
      | (prompt) d where "\<not> isFinalResponseSuccess line" "\<not> isFinalResponseError line" "s_smsPDU s = Some d"
          "line = ''> ''"
      | (other) "\<not> isFinalResponseSuccess line" "\<not> isFinalResponseError line"
          "\<not> (s_smsPDU s \<noteq> None \<and> line = ''> '')" by blast
    then show ?thesis
    proof cases
      case fin
      with run Some show ?thesis
        by (auto simp: processLine_def handleFinalResponse_def reader_frame_def chan_ok_def resp_ok_def
            isFinalResponse_def split: if_splits)
    next
      case prompt
      with run Some obtain y u where u: "writeCtrlZ d s = Done y u" "t = u\<lparr>s_smsPDU := None\<rparr>"
        by (auto simp: processLine_def andthen_Done bnd_Done modify_def ret_def)
      from stepsD [OF writeCtrlZ_frame u(1)] have fr: "reader_frame s u" .
      with Some obtain r' where "sp_response u = Some r'" by (auto simp: reader_frame_def)
      with fr u(2) Some show ?thesis by (auto simp: reader_frame_def chan_ok_def)
    next
      case other
      with run Some unsol show ?thesis
        by (cases "s_type s")
          (auto simp: processLine_def handleUnsolicited_def bnd_Done has_prefix_def addIntermediate_def
            reader_frame_def chan_ok_def resp_ok_def wants_def needs_prefix_def
            split: if_splits option.splits)
    qed
  qed
qed

lemma onReaderClosed_frame: "steps reader_frame (onReaderClosed cb)"
  by (rule stepsI)
    (auto simp: onReaderClosed_def reader_frame_def chan_ok_def at_chan.defs
      dest!: closed_law split: if_splits)

lemma readerLoop_step_frame: "steps reader_frame (readerLoop_step cb x)"
proof (rule stepsI)
  fix s t and y :: unit
  assume run: "readerLoop_step cb x s = Done y t"
  have upd: "reader_frame (f s) t \<Longrightarrow> reader_frame s t"
    if "f = (\<lambda>s. s\<lparr>r_line1 := None\<rparr>) \<or> f = (\<lambda>s. s\<lparr>r_line1 := None, r_alive := False\<rparr>)
      \<or> f = (\<lambda>s. s\<lparr>r_alive := False\<rparr>)" for f
    using that by (auto simp: reader_frame_def chan_ok_def)
  show "reader_frame s t"
  proof (cases "r_line1 s")
    case None
    show ?thesis
    proof (cases x)
      case None
      with run \<open>r_line1 s = None\<close> have "onReaderClosed cb (s\<lparr>r_alive := False\<rparr>) = Done () t"
        by (simp add: readerLoop_step_def)
      from stepsD [OF onReaderClosed_frame this] show ?thesis by (rule upd [rotated]) simp
    next
      case (Some l)
      with run None stepsD [OF processLine_frame, of l s "()" t] show ?thesis
        by (auto simp: readerLoop_step_def reader_frame_def chan_ok_def split: if_splits)
    qed
  next
    case (Some l1)
    show ?thesis
    proof (cases x)
      case None
      with run Some have "onReaderClosed cb (s\<lparr>r_line1 := None, r_alive := False\<rparr>) = Done () t"
        by (simp add: readerLoop_step_def)
      from stepsD [OF onReaderClosed_frame this] show ?thesis by (rule upd [rotated]) simp
    next
      case (Some l2)
      with run \<open>r_line1 s = Some l1\<close>
      have "call_unsol cb l1 (Some l2) (s\<lparr>r_line1 := None\<rparr>) = Done () t"
        by (simp add: readerLoop_step_def)
      from stepsD [OF call_unsol_frame this] show ?thesis by (rule upd [rotated]) simp
    qed
  qed
qed

lemma reader_turn_frame: "steps reader_frame (reader_turn cb x)"
proof (rule stepsI)
  fix s t and y :: unit
  assume run: "reader_turn cb x s = Done y t"
  show "reader_frame s t"
  proof (cases "r_alive s")
    case True
    with run obtain u where u: "readerLoop_step cb x (s\<lparr>on_reader := True\<rparr>) = Done () u"
      "t = u\<lparr>on_reader := False\<rparr>" by (auto simp: reader_turn_def bnd_Done modify_def)
    from stepsD [OF readerLoop_step_frame u(1)] u(2) show ?thesis
      by (auto simp: reader_frame_def chan_ok_def)
  qed (use run in \<open>simp add: reader_turn_def reader.frame_refl\<close>)
qed

lemma run_reader_frame: "steps reader_frame (run_reader cb xs)"
  by (induction xs) (simp_all add: reader.steps_ret reader.steps_andthen reader_turn_frame)

lemma reader_turn_on_reader: "\<not> on_reader s \<Longrightarrow> reader_turn cb x s = Done () t \<Longrightarrow> \<not> on_reader t"
  by (auto simp: reader_turn_def bnd_Done modify_def split: if_splits)

lemma run_reader_on_reader: "\<not> on_reader s \<Longrightarrow> run_reader cb xs s = Done () t \<Longrightarrow> \<not> on_reader t"
  by (induction xs arbitrary: s) (auto simp: ret_def andthen_Done dest: reader_turn_on_reader)

text \<open>What is true when the wait is over.\<close>

lemma await_result:
  assumes "await cb timed segs s = Done err t" and "chan_ok s" and "sp_response s \<noteq> None"
    and "\<not> on_reader s"
  shows "(err = AT_ERROR_TIMEOUT \<and> timed \<or> err = 0 \<and> (s_readerClosed t \<or> finalResponse (the (sp_response t)) \<noteq> None))
    \<and> chan_ok t \<and> sp_response t \<noteq> None \<and> \<not> on_reader t \<and> s_type t = s_type s
    \<and> s_responsePrefix t = s_responsePrefix s \<and> s_onTimeout t = s_onTimeout s"
  using assms
proof (induction segs arbitrary: s)
  case Nil
  then show ?case by (auto simp: await.simps split: option.splits if_splits)
next
  case (Cons seg segs)
  obtain xs b where seg: "seg = (xs, b)" by (cases seg)
  obtain r where r: "sp_response s = Some r" using Cons.prems(3) by auto
  show ?case
  proof (cases "finalResponse r = None \<and> \<not> s_readerClosed s")
    case True
    let ?s = "s\<lparr>sched := segs\<rparr>"
    from True r Cons.prems(1) seg obtain u where u: "run_reader cb xs ?s = Done () u"
      "(if timed \<and> b then ret AT_ERROR_TIMEOUT else await cb timed segs) u = Done err t"
      by (subst (asm) await.simps) (auto simp: bnd_Done)
    have fr: "reader_frame ?s u" by (rule stepsD [OF run_reader_frame u(1)])
    have "chan_ok ?s" using Cons.prems(2) by (simp add: chan_ok_def)
    with fr r have u': "chan_ok u" "sp_response u \<noteq> None" "s_type u = s_type s"
      "s_responsePrefix u = s_responsePrefix s" "s_onTimeout u = s_onTimeout s"
      by (auto simp: reader_frame_def)
    have "\<not> on_reader u" using run_reader_on_reader [OF _ u(1)] Cons.prems(4) by simp
    with u(2) u' Cons.IH [of u] show ?thesis by (auto simp: ret_def split: if_splits)
  next
    case False
    with Cons.prems r show ?thesis by (subst (asm) await.simps) auto
  qed
qed

lemma finish_result:
  assumes "at_send_finish cb timed pp s = Done (err, r) t" and "chan_ok s" and "sp_response s \<noteq> None"
    and "\<not> on_reader s"
  shows "idle t \<and> \<not> on_reader t \<and> send_result (s_type s) (s_responsePrefix s) timed pp err r
    \<and> s_onTimeout t = s_onTimeout s"
proof -
  from assms(1) obtain e u where u: "await cb timed (sched s) s = Done e u"
    and fin: "(if e < 0 then andthen clearPendingCommand (ret (e, old_resp pp)) u
      else case sp_response u of None \<Rightarrow> Crash NullDeref | Some r \<Rightarrow>
        andthen clearPendingCommand
          (ret (if s_readerClosed u then AT_ERROR_CHANNEL_CLOSED else 0,
                case pp of None \<Rightarrow> Null | Some _ \<Rightarrow> Resp (reverseIntermediates r))) (u\<lparr>sp_response := None\<rparr>))
      = Done (err, r) t"
    by (auto simp: at_send_finish_def bnd_Done Let_def old_resp_def)
  note res = await_result [OF u assms(2-4)]
  show ?thesis
  proof (cases "e < 0")
    case True
    with res fin show ?thesis
      by (auto simp: clearPendingCommand_def andthen_Done modify_def ret_def idle_def send_result_def
          at_error_defs)
  next
    case False
    with res obtain p where p: "sp_response u = Some p" "e = 0" "s_readerClosed u \<or> finalResponse p \<noteq> None"
      by (auto simp: at_error_defs)
    with res have "resp_ok (s_type s) (s_responsePrefix s) p" by (auto simp: chan_ok_def)
    then have ok: "resp_ok (s_type s) (s_responsePrefix s) (reverseIntermediates p)" by simp
    have fin_p: "finalResponse (reverseIntermediates p) = finalResponse p"
      by (simp add: reverseIntermediates_def)
    from fin p(1,2) have t: "t = u\<lparr>sp_response := None, s_responsePrefix := None, s_smsPDU := None\<rparr>"
      and err: "err = (if s_readerClosed u then AT_ERROR_CHANNEL_CLOSED else 0)"
      and r: "r = (case pp of None \<Rightarrow> Null | Some _ \<Rightarrow> Resp (reverseIntermediates p))"
      by (simp_all add: clearPendingCommand_def andthen_Done modify_def ret_def)
    have "send_result (s_type s) (s_responsePrefix s) timed pp err r"
    proof (cases "s_readerClosed u")
      case True
      then show ?thesis by (simp add: err r send_result_def old_resp_def split: option.split)
    next
      case False
      with p(3) ok fin_p show ?thesis
        by (simp add: err r send_result_def answer_ok_def split: option.split)
    qed
    with res t show ?thesis by (simp add: idle_def)
  qed
qed

lemma start_result:
  assumes "at_send_start command ty pfx pdu s = Done err t" and "idle s"
  shows "(err = AT_ERROR_GENERIC \<or> err = AT_ERROR_CHANNEL_CLOSED) \<and> idle t \<and> on_reader t = on_reader s
      \<and> s_onTimeout t = s_onTimeout s
    \<or> err = 0 \<and> sp_response t = Some at_response_new \<and> s_type t = ty \<and> s_responsePrefix t = pfx
      \<and> on_reader t = on_reader s \<and> s_onTimeout t = s_onTimeout s"
proof -
  from assms obtain e u where w: "writeline command s = Done e u"
    and k: "(if e < 0 then ret e else (\<lambda>s. Done 0 (s\<lparr>s_type := ty, s_responsePrefix := pfx, s_smsPDU := pdu,
      sp_response := Some at_response_new\<rparr>))) u = Done err t"
    by (auto simp: at_send_start_def idle_def bnd_Done)
  from write_with_ok [OF w [unfolded writeline_def]] obtain x y
    where "e \<in> {0, AT_ERROR_GENERIC, AT_ERROR_CHANNEL_CLOSED}" and "u = s\<lparr>wres := x, wrote := y\<rparr>" by blast
  with k assms(2) show ?thesis
    by (auto simp: ret_def idle_def at_error_defs)
qed

lemma nolock_result:
  assumes "at_send_command_full_nolock cb command ty pfx pdu tmo pp s = Done (err, r) t"
    and "idle s" and "\<not> on_reader s" and "needs_prefix ty \<Longrightarrow> pfx \<noteq> None"
  shows "idle t \<and> \<not> on_reader t \<and> send_result ty pfx (tmo \<noteq> 0) pp err r \<and> s_onTimeout t = s_onTimeout s"
proof -
  from assms(1) obtain e u where u: "at_send_start command ty pfx pdu s = Done e u"
    and k: "(if e < 0 then andthen clearPendingCommand (ret (e, old_resp pp))
       else at_send_finish cb (tmo \<noteq> 0) pp) u = Done (err, r) t"
    by (auto simp: at_send_command_full_nolock_def bnd_Done old_resp_def)
  note st = start_result [OF u assms(2)]
  show ?thesis
  proof (cases "e < 0")
    case True
    with st k assms(3) show ?thesis
      by (auto simp: clearPendingCommand_def andthen_Done modify_def ret_def idle_def send_result_def)
  next
    case False
    with st have u0: "sp_response u = Some at_response_new" "s_type u = ty" "s_responsePrefix u = pfx"
      "\<not> on_reader u" "s_onTimeout u = s_onTimeout s"
      using assms(3) by (auto simp: at_error_defs)
    with assms(4) have "chan_ok u" by (simp add: chan_ok_def resp_ok_def at_response_new_def)
    with finish_result [of "tmo \<noteq> 0" pp u err r t] k False u0 show ?thesis by auto
  qed
qed

lemma lock_result:
  assumes "lock_commandmutex cb s = Done x t" and "idle s" and "\<not> on_reader s"
  shows "idle t \<and> \<not> on_reader t \<and> s_onTimeout t = s_onTimeout s"
proof (cases "sched s")
  case (Cons seg later)
  obtain xs b where "seg = (xs, b)" by (cases seg)
  with Cons assms(1) have run: "run_reader cb xs (s\<lparr>sched := later\<rparr>) = Done () t"
    by (simp add: lock_commandmutex_def)
  from stepsD [OF run_reader_frame run] run_reader_on_reader [OF _ run] assms(2,3)
  show ?thesis by (auto simp: reader_frame_def idle_iff chan_ok_def)
qed (use assms in \<open>simp add: lock_commandmutex_def\<close>)

text \<open>The contract of a send without a timeout, whatever the reader does meanwhile.\<close>

lemma send_full_result:
  assumes "at_send_command_full cb command ty pfx pdu 0 pp s = Done (err, r) t"
    and "idle s" and "\<not> on_reader s" and "needs_prefix ty \<Longrightarrow> pfx \<noteq> None"
  shows "idle t \<and> \<not> on_reader t \<and> send_result ty pfx False pp err r"
proof -
  from assms(1,3) obtain u e r' v where lock: "lock_commandmutex cb s = Done () u"
    and nl: "at_send_command_full_nolock cb command ty pfx pdu 0 pp u = Done (e, r') v"
    and k: "(if e = AT_ERROR_TIMEOUT \<and> s_onTimeout v then andthen (h_timeout cb) (ret (e, r')) v
       else Done (e, r') v) = Done (err, r) t"
    by (auto simp: at_send_command_full_def andthen_Done bnd_Done)
  from nolock_result [OF nl] lock_result [OF lock assms(2,3)] assms(4)
  have v: "idle v" "\<not> on_reader v" "send_result ty pfx False pp e r'" by auto
  from v(3) have "e \<noteq> AT_ERROR_TIMEOUT" by (auto simp: send_result_def at_error_defs)
  with k v show ?thesis by simp
qed

end

section \<open>What a send does to the client's own state\<close>

text \<open>
  A relation on the client's fields that the handlers keep to is kept by every operation of
  the channel: the channel itself touches none of them.
\<close>

locale client_frame = frame R for R :: "'a at_chan_scheme \<Rightarrow> 'a at_chan_scheme \<Rightarrow> bool" +
  fixes cb :: "('a at_chan_scheme) handlers"
  assumes same_more: "at_chan.more t = at_chan.more s \<Longrightarrow> R s t"
    and unsol_R: "steps R (h_unsol cb l p)"
    and closed_R: "steps R (h_closed cb)"
    and timeout_R: "steps R (h_timeout cb)"
begin

lemma write_R: "steps R (write_with c str)"
proof (rule stepsI)
  fix s t :: "'a at_chan_scheme" and x :: int
  assume "write_with c str s = Done x t"
  with write_with_ok [of c str s x t] show "R s t" by (auto intro: same_more)
qed

lemma upd_R: "at_chan.more s' = at_chan.more s \<Longrightarrow> R s' t \<Longrightarrow> R s t"
  using same_more [of s' s] by (auto intro: frame_trans)

lemma call_unsol_R: "steps R (call_unsol cb l p)"
proof (rule stepsI)
  fix s t and x :: unit
  assume "call_unsol cb l p s = Done x t"
  then show "R s t"
    using stepsD [OF unsol_R, of l p "s\<lparr>handed := handed s @ [(l, p)]\<rparr>" x t]
      upd_R [of "s\<lparr>handed := handed s @ [(l, p)]\<rparr>" s t]
    by (auto simp: call_unsol_def intro: same_more split: if_splits)
qed

lemma processLine_R: "steps R (processLine cb line)"
proof (rule stepsI)
  fix s t and x :: unit
  assume run: "processLine cb line s = Done x t"
  note hu = stepsD [OF call_unsol_R, of line None s x t, folded handleUnsolicited_def]
  have ctrlz: "R s t" if "andthen (bnd (writeCtrlZ d) (\<lambda>_. ret ()))
      (modify (\<lambda>s. s\<lparr>s_smsPDU := None\<rparr>)) s = Done x t" for d
  proof -
    from that obtain y u where u: "writeCtrlZ d s = Done y u" "t = u\<lparr>s_smsPDU := None\<rparr>"
      by (auto simp: andthen_Done bnd_Done modify_def ret_def)
    from stepsD [OF write_R u(1) [unfolded writeCtrlZ_def]] have "R s u" .
    moreover have "R u t" using u(2) by (intro same_more) simp
    ultimately show ?thesis by (rule frame_trans)
  qed
  show "R s t"
    using run hu ctrlz
    by (cases "s_type s")
      (auto simp: processLine_def handleFinalResponse_def addIntermediate_def bnd_Done has_prefix_def
        intro: same_more split: option.splits if_splits)
qed

lemma onReaderClosed_R: "steps R (onReaderClosed cb)"
proof (rule stepsI)
  fix s t and x :: unit
  assume "onReaderClosed cb s = Done x t"
  then show "R s t"
    using stepsD [OF closed_R, of "s\<lparr>s_readerClosed := True\<rparr>" x t] upd_R [of "s\<lparr>s_readerClosed := True\<rparr>" s t]
    by (auto simp: onReaderClosed_def intro: same_more split: if_splits)
qed

lemma readerLoop_step_R: "steps R (readerLoop_step cb x)"
proof (rule stepsI)
  fix s t and y :: unit
  assume run: "readerLoop_step cb x s = Done y t"
  have c: "R s t" if "onReaderClosed cb s' = Done y t" "at_chan.more s' = at_chan.more s" for s'
    using stepsD [OF onReaderClosed_R that(1)] that(2) by (rule upd_R [rotated])
  have u: "R s t" if "call_unsol cb l1 (Some l2) s' = Done y t" "at_chan.more s' = at_chan.more s" for s' l1 l2
    using stepsD [OF call_unsol_R that(1)] that(2) by (rule upd_R [rotated])
  have p: "R s t" if "processLine cb l s = Done y t" for l
    using stepsD [OF processLine_R that] .
  show "R s t"
    using run c [of "s\<lparr>r_line1 := None, r_alive := False\<rparr>"] c [of "s\<lparr>r_alive := False\<rparr>"]
      u [of _ _ "s\<lparr>r_line1 := None\<rparr>"] p
    by (auto simp: readerLoop_step_def intro: same_more split: option.splits if_splits)
qed

lemma reader_turn_R: "steps R (reader_turn cb x)"
proof (rule stepsI)
  fix s t and y :: unit
  assume run: "reader_turn cb x s = Done y t"
  show "R s t"
  proof (cases "r_alive s")
    case True
    with run obtain u where u: "readerLoop_step cb x (s\<lparr>on_reader := True\<rparr>) = Done () u"
      "t = u\<lparr>on_reader := False\<rparr>" by (auto simp: reader_turn_def bnd_Done modify_def)
    from stepsD [OF readerLoop_step_R u(1)] have "R s u" by (rule upd_R [rotated]) simp
    moreover have "R u t" using u(2) by (intro same_more) simp
    ultimately show ?thesis by (rule frame_trans)
  qed (use run in \<open>simp add: reader_turn_def frame_refl\<close>)
qed

lemma run_reader_R: "steps R (run_reader cb xs)"
  by (induction xs) (simp_all add: steps_ret steps_andthen reader_turn_R)

lemma lock_R: "steps R (lock_commandmutex cb)"
proof (rule stepsI)
  fix s t and x :: unit
  assume "lock_commandmutex cb s = Done x t"
  then show "R s t"
    using stepsD [OF run_reader_R, of _ "s\<lparr>sched := tl (sched s)\<rparr>" x t] upd_R [of "s\<lparr>sched := tl (sched s)\<rparr>" s t]
    by (cases "sched s") (auto simp: lock_commandmutex_def intro: frame_refl split: prod.splits)
qed

lemma await_R: "await cb timed segs s = Done err t \<Longrightarrow> R s t"
proof (induction segs arbitrary: s)
  case Nil
  then show ?case by (auto simp: await.simps intro: frame_refl split: option.splits if_splits)
next
  case (Cons seg segs)
  obtain xs b where seg: "seg = (xs, b)" by (cases seg)
  obtain r where r: "sp_response s = Some r" using Cons.prems by (auto simp: await.simps split: option.splits)
  show ?case
  proof (cases "finalResponse r = None \<and> \<not> s_readerClosed s")
    case True
    from True r Cons.prems seg obtain u where u: "run_reader cb xs (s\<lparr>sched := segs\<rparr>) = Done () u"
      "(if timed \<and> b then ret AT_ERROR_TIMEOUT else await cb timed segs) u = Done err t"
      by (subst (asm) await.simps) (auto simp: bnd_Done)
    from stepsD [OF run_reader_R u(1)] have "R s u" by (rule upd_R [rotated]) simp
    moreover have "R u t" using u(2) Cons.IH frame_refl by (auto simp: ret_def split: if_splits)
    ultimately show ?thesis by (rule frame_trans)
  next
    case False
    with Cons.prems r show ?thesis by (subst (asm) await.simps) (auto intro: frame_refl)
  qed
qed

lemma clear_R: "steps R clearPendingCommand"
  by (auto simp: clearPendingCommand_def intro!: steps_modify same_more)

lemma start_R: "steps R (at_send_start command ty pfx pdu)"
proof (rule stepsI)
  fix s t :: "'a at_chan_scheme" and x :: int
  assume run: "at_send_start command ty pfx pdu s = Done x t"
  show "R s t"
  proof (cases "sp_response s")
    case None
    with run obtain e u where u: "writeline command s = Done e u" "at_chan.more t = at_chan.more u"
      by (auto simp: at_send_start_def bnd_Done ret_def split: if_splits)
    from stepsD [OF write_R u(1) [unfolded writeline_def]] same_more [OF u(2)] show ?thesis
      by (rule frame_trans)
  qed (use run in \<open>simp add: at_send_start_def frame_refl\<close>)
qed

lemma finish_R: "steps R (at_send_finish cb timed pp)"
proof (rule stepsI)
  fix s t and x
  assume "at_send_finish cb timed pp s = Done x t"
  then obtain e u where aw: "await cb timed (sched s) s = Done e u" and "at_chan.more t = at_chan.more u"
    by (auto simp: at_send_finish_def bnd_Done clearPendingCommand_def andthen_Done modify_def ret_def
        split: if_splits option.splits)
  then show "R s t" using await_R [OF aw] by (auto intro: frame_trans same_more)
qed

lemma nolock_R: "steps R (at_send_command_full_nolock cb command ty pfx pdu tmo pp)"
  unfolding at_send_command_full_nolock_def
  by (intro start_R finish_R clear_R frame_rules)

lemma send_full_R: "steps R (at_send_command_full cb command ty pfx pdu tmo pp)"
proof (rule stepsI)
  fix s t and x
  assume run: "at_send_command_full cb command ty pfx pdu tmo pp s = Done x t"
  show "R s t"
  proof (cases "on_reader s")
    case False
    have fin: "steps R (\<lambda>s. if err = AT_ERROR_TIMEOUT \<and> s_onTimeout s
        then andthen (h_timeout cb) (ret (err, r)) s else Done (err, r) s)" for err r
      using stepsD [OF steps_andthen [OF timeout_R steps_ret], of "(err, r)"]
      by (intro stepsI) (auto intro: frame_refl split: if_splits)
    have "steps R (andthen (lock_commandmutex cb)
        (bnd (at_send_command_full_nolock cb command ty pfx pdu tmo pp)
          (\<lambda>(err, r) s. if err = AT_ERROR_TIMEOUT \<and> s_onTimeout s
             then andthen (h_timeout cb) (ret (err, r)) s else Done (err, r) s)))"
      by (intro steps_andthen lock_R steps_bnd nolock_R) (auto intro: fin split: prod.split)
    with run False show ?thesis by (auto simp: at_send_command_full_def dest: stepsD)
  qed (use run in \<open>simp add: at_send_command_full_def frame_refl\<close>)
qed

lemma need_R: "steps R (need_intermediate pp er)"
  unfolding need_intermediate_def at_response_free_def
  by (auto intro!: frame_rules split: prod.split resp.split)

lemma send_R:
  "steps R (at_send_command cb c pp)" "steps R (at_send_command_singleline cb c pfx pp)"
  "steps R (at_send_command_numeric cb c pp)" "steps R (at_send_command_sms cb c pdu pfx pp)"
  "steps R (at_send_command_multiline cb c pfx pp)"
  unfolding at_send_command_def at_send_command_singleline_def at_send_command_numeric_def
    at_send_command_sms_def at_send_command_multiline_def
  by (intro send_full_R steps_bnd need_R)+

lemma handshake_loop_R: "steps R (handshake_loop cb n e)"
  by (induction n arbitrary: e)
    (auto intro!: steps_ret steps_bnd nolock_R steps_if split: prod.split)

lemma handshake_R: "steps R (at_handshake cb)"
proof (rule stepsI)
  fix s t and x :: int
  assume "at_handshake cb s = Done x t"
  then show "R s t"
    using stepsD [OF steps_andthen [OF lock_R handshake_loop_R], of HANDSHAKE_RETRY_COUNT 0 s x t]
    by (auto simp: at_handshake_def intro: frame_refl split: if_splits)
qed

end

section \<open>A whole exchange\<close>

text \<open>
  The abstract channel: which of the lines before the final response answer the command, in the
  order they came, and which go to the unsolicited handler. The prompt of an SMS command
  goes to neither.
\<close>

definition unprompt :: "cptr \<Rightarrow> string list \<Rightarrow> string list" where
  "unprompt pdu ls = (if pdu = None then ls else remove1 ''> '' ls)"

definition taken :: "ATCommandType \<Rightarrow> cptr \<Rightarrow> string list \<Rightarrow> string list" where
  "taken ty pfx ls =
     (if ty = MULTILINE then filter (wants ty pfx) ls else take 1 (filter (wants ty pfx) ls))"

definition untaken :: "ATCommandType \<Rightarrow> cptr \<Rightarrow> string list \<Rightarrow> string list" where
  "untaken ty pfx ls =
     (if ty = MULTILINE then filter (\<lambda>l. \<not> wants ty pfx l) ls
      else takeWhile (\<lambda>l. \<not> wants ty pfx l) ls @ tl (dropWhile (\<lambda>l. \<not> wants ty pfx l) ls))"

definition prompted :: "cptr \<Rightarrow> string list \<Rightarrow> bool" where
  "prompted pdu ls \<longleftrightarrow> pdu \<noteq> None \<and> ''> '' \<in> set ls"

text \<open>Lines that are neither final nor the first of a two-line SMS response.\<close>

definition ordinary :: "string \<Rightarrow> bool" where
  "ordinary l \<longleftrightarrow> \<not> isFinalResponse l \<and> \<not> isSMSUnsolicited l"

lemma unprompt_snoc:
  "unprompt pdu (ls @ [l]) =
     (if pdu \<noteq> None \<and> \<not> prompted pdu ls \<and> l = ''> '' then unprompt pdu ls else unprompt pdu ls @ [l])"
  by (auto simp: unprompt_def prompted_def remove1_append remove1_idem)

lemma prompted_snoc:
  "prompted pdu (ls @ [l]) \<longleftrightarrow> prompted pdu ls \<or> (pdu \<noteq> None \<and> l = ''> '')"
  by (auto simp: prompted_def)

definition accepts :: "ATCommandType \<Rightarrow> cptr \<Rightarrow> string list \<Rightarrow> string \<Rightarrow> bool" where
  "accepts ty pfx got l \<longleftrightarrow> wants ty pfx l \<and> (ty = MULTILINE \<or> got = [])"

lemma taken_snoc:
  "taken ty pfx (ls @ [l]) =
     (if accepts ty pfx (taken ty pfx ls) l then taken ty pfx ls @ [l] else taken ty pfx ls)"
  by (cases "filter (wants ty pfx) ls") (auto simp: taken_def accepts_def)

lemma dropWhile_wants:
  "filter (wants ty pfx) ls = [] \<Longrightarrow> takeWhile (\<lambda>l. \<not> wants ty pfx l) ls = ls
     \<and> dropWhile (\<lambda>l. \<not> wants ty pfx l) ls = []"
  by (auto simp: filter_empty_conv takeWhile_eq_all_conv)

lemma dropWhile_wants_Cons:
  "filter (wants ty pfx) ls \<noteq> [] \<Longrightarrow> dropWhile (\<lambda>l. \<not> wants ty pfx l) ls \<noteq> []"
  by (auto simp: filter_empty_conv)

lemma untaken_snoc:
  "untaken ty pfx (ls @ [l]) =
     (if accepts ty pfx (taken ty pfx ls) l then untaken ty pfx ls else untaken ty pfx ls @ [l])"
proof (cases "filter (wants ty pfx) ls = []")
  case True
  have tw: "takeWhile (\<lambda>l. \<not> wants ty pfx l) ls = ls" "dropWhile (\<lambda>l. \<not> wants ty pfx l) ls = []"
    using dropWhile_wants [OF True] by auto
  have "\<And>x. x \<in> set ls \<Longrightarrow> \<not> wants ty pfx x" using True by (auto simp: filter_empty_conv)
  then show ?thesis
    by (auto simp: untaken_def taken_def accepts_def tw True)
next
  case False
  then have ne: "dropWhile (\<lambda>l. \<not> wants ty pfx l) ls \<noteq> []" by (rule dropWhile_wants_Cons)
  from False obtain x where "x \<in> set ls" "wants ty pfx x" by (auto simp: filter_empty_conv)
  with ne False show ?thesis
    by (auto simp: untaken_def taken_def accepts_def takeWhile_append1 dropWhile_append1 take_Suc)
qed

text \<open>The channel is ready for a command: open, idle, its reader running, writes not cut short.\<close>

definition ready :: "'a at_chan_scheme \<Rightarrow> bool" where
  "ready s \<longleftrightarrow> idle s \<and> s_fd s \<ge> 0 \<and> \<not> s_readerClosed s \<and> s_unsolHandler s \<and> r_alive s
     \<and> r_line1 s = None \<and> \<not> on_reader s \<and> wres s = []"

text \<open>
  The channel fields while a command waits, after the lines \<open>ls\<close>, started from the fields \<open>s0\<close>
  with the schedule \<open>sc\<close> left.
\<close>

definition waiting ::
  "at_chan \<Rightarrow> ATCommandType \<Rightarrow> cptr \<Rightarrow> cptr \<Rightarrow> string list \<Rightarrow> segment list \<Rightarrow> at_chan" where
  "waiting s0 ty pfx pdu ls sc = s0\<lparr>
     s_type := ty, s_responsePrefix := pfx,
     s_smsPDU := (if prompted pdu ls then None else pdu),
     sp_response := Some \<lparr>success = 0, finalResponse = None,
       p_intermediates = rev (taken ty pfx (unprompt pdu ls))\<rparr>,
     wrote := wrote s0 @ (if prompted pdu ls then the pdu @ [CHR 0x1A] else []),
     handed := handed s0 @ map (\<lambda>l. (l, None)) (untaken ty pfx (unprompt pdu ls)),
     sched := sc\<rparr>"

lemma write_with_full:
  assumes "s_fd s \<ge> 0" and "\<not> s_readerClosed s" and "wres s = []"
  shows "write_with c str s = Done 0 (s\<lparr>wrote := wrote s @ str @ [c]\<rparr>)"
proof -
  have "write_all [] str = (True, [], str)" by (cases str) auto
  with assms show ?thesis by (simp add: write_with_def)
qed

lemma truncate_upd:
  "at_chan.truncate (s\<lparr>wrote := w\<rparr>) = (at_chan.truncate s)\<lparr>wrote := w\<rparr>"
  "at_chan.truncate (s\<lparr>handed := h\<rparr>) = (at_chan.truncate s)\<lparr>handed := h\<rparr>"
  "at_chan.truncate (s\<lparr>sp_response := r\<rparr>) = (at_chan.truncate s)\<lparr>sp_response := r\<rparr>"
  "at_chan.truncate (s\<lparr>on_reader := b\<rparr>) = (at_chan.truncate s)\<lparr>on_reader := b\<rparr>"
  "at_chan.truncate (s\<lparr>s_smsPDU := p\<rparr>) = (at_chan.truncate s)\<lparr>s_smsPDU := p\<rparr>"
  "at_chan.truncate (s\<lparr>sched := sc\<rparr>) = (at_chan.truncate s)\<lparr>sched := sc\<rparr>"
  "at_chan.truncate (s\<lparr>s_type := ty\<rparr>) = (at_chan.truncate s)\<lparr>s_type := ty\<rparr>"
  "at_chan.truncate (s\<lparr>s_responsePrefix := pfx\<rparr>) = (at_chan.truncate s)\<lparr>s_responsePrefix := pfx\<rparr>"
  by (simp_all add: at_chan.defs)

lemma truncate_sel:
  "s_fd (at_chan.truncate s) = s_fd s" "s_unsolHandler (at_chan.truncate s) = s_unsolHandler s"
  "s_type (at_chan.truncate s) = s_type s" "s_responsePrefix (at_chan.truncate s) = s_responsePrefix s"
  "s_smsPDU (at_chan.truncate s) = s_smsPDU s" "sp_response (at_chan.truncate s) = sp_response s"
  "s_readerClosed (at_chan.truncate s) = s_readerClosed s" "r_alive (at_chan.truncate s) = r_alive s"
  "r_line1 (at_chan.truncate s) = r_line1 s" "on_reader (at_chan.truncate s) = on_reader s"
  "sched (at_chan.truncate s) = sched s" "wres (at_chan.truncate s) = wres s"
  "wrote (at_chan.truncate s) = wrote s" "handed (at_chan.truncate s) = handed s"
  "s_onReaderClosed (at_chan.truncate s) = s_onReaderClosed s" "s_onTimeout (at_chan.truncate s) = s_onTimeout s"
  by (simp_all add: at_chan.defs)

lemma untaken_mono: "set (untaken ty pfx (unprompt pdu ls)) \<subseteq> set (untaken ty pfx (unprompt pdu (ls @ ms)))"
proof (induction ms rule: rev_induct)
  case (snoc m ms)
  then show ?case
    using unprompt_snoc [of pdu "ls @ ms" m] untaken_snoc [of ty pfx "unprompt pdu (ls @ ms)" m]
    by (auto split: if_splits)
qed simp

text \<open>A turn of the reader that is delivered these lines.\<close>

fun delivery :: "string list \<times> bool \<Rightarrow> segment" where
  "delivery (c, b) = (map Some c, b)"

definition final_resp :: "string \<Rightarrow> string list \<Rightarrow> ATResponse" where
  "final_resp f ls = \<lparr>success = (if isFinalResponseSuccess f then 1 else 0), finalResponse = Some f,
     p_intermediates = ls\<rparr>"

text \<open>A handler returns on a line whatever the state.\<close>

definition returns_on :: "('s) handlers \<Rightarrow> string \<Rightarrow> bool" where
  "returns_on cb l \<longleftrightarrow> (\<forall>s. \<exists>t. h_unsol cb l None s = Done () t)"

context channel_client
begin

lemma handle_returns:
  assumes "returns_on cb l" and "s_unsolHandler s"
  shows "\<exists>t. handleUnsolicited cb l s = Done () t
    \<and> at_chan.truncate t = (at_chan.truncate s)\<lparr>handed := handed s @ [(l, None)]\<rparr>"
proof -
  let ?s = "s\<lparr>handed := handed s @ [(l, None)]\<rparr>"
  from assms(1) obtain t where t: "h_unsol cb l None ?s = Done () t" unfolding returns_on_def by blast
  with assms(2) unsol_law [OF t] show ?thesis
    by (simp add: handleUnsolicited_def call_unsol_def truncate_upd)
qed

text \<open>An ordinary line that is not the prompt: into the response, or to the handler.\<close>

lemma processLine_ordinary:
  assumes r: "sp_response s = Some r" and l: "ordinary l" and np: "\<not> (s_smsPDU s \<noteq> None \<and> l = ''> '')"
    and pfx: "needs_prefix (s_type s) \<Longrightarrow> s_responsePrefix s \<noteq> None"
  shows "processLine cb l s =
    (if accepts (s_type s) (s_responsePrefix s) (p_intermediates r) l
     then Done () (s\<lparr>sp_response := Some (r\<lparr>p_intermediates := l # p_intermediates r\<rparr>)\<rparr>)
     else handleUnsolicited cb l s)"
proof -
  have nf: "\<not> isFinalResponseSuccess l" "\<not> isFinalResponseError l"
    using l by (auto simp: ordinary_def isFinalResponse_def)
  show ?thesis
  proof (cases "needs_prefix (s_type s)")
    case True
    with pfx obtain p where "s_responsePrefix s = Some p" by blast
    with r nf np True show ?thesis
      by (auto simp: processLine_def accepts_def wants_def needs_prefix_def has_prefix_def
          bnd_def addIntermediate_def)
  next
    case False
    with r nf np show ?thesis
      by (cases "s_type s")
        (auto simp: processLine_def accepts_def wants_def needs_prefix_def addIntermediate_def)
  qed
qed

lemma turn_ordinary:
  assumes s: "at_chan.truncate s = waiting s0 ty pfx pdu ls sc" and s0: "ready s0"
    and l: "ordinary l" and pfx: "needs_prefix ty \<Longrightarrow> pfx \<noteq> None"
    and ret: "\<forall>u\<in>set (untaken ty pfx (unprompt pdu (ls @ [l]))). returns_on cb u"
  shows "\<exists>t. reader_turn cb (Some l) s = Done () t \<and> at_chan.truncate t = waiting s0 ty pfx pdu (ls @ [l]) sc"
proof -
  let ?s = "s\<lparr>on_reader := True\<rparr>"
  let ?got = "taken ty pfx (unprompt pdu ls)"
  have f: "sp_response s = Some \<lparr>success = 0, finalResponse = None, p_intermediates = rev ?got\<rparr>"
    "s_type s = ty" "s_responsePrefix s = pfx" "s_smsPDU s = (if prompted pdu ls then None else pdu)"
    "r_alive s" "r_line1 s = None" "\<not> on_reader s" "s_fd s \<ge> 0" "\<not> s_readerClosed s" "s_unsolHandler s"
    "wres s = []" "handed s = handed s0 @ map (\<lambda>l. (l, None)) (untaken ty pfx (unprompt pdu ls))"
    "wrote s = wrote s0 @ (if prompted pdu ls then the pdu @ [CHR 0x1A] else [])"
    using s0 arg_cong [OF s, of sp_response] arg_cong [OF s, of s_type] arg_cong [OF s, of s_responsePrefix]
      arg_cong [OF s, of s_smsPDU] arg_cong [OF s, of r_alive] arg_cong [OF s, of r_line1]
      arg_cong [OF s, of on_reader] arg_cong [OF s, of s_fd] arg_cong [OF s, of s_readerClosed]
      arg_cong [OF s, of s_unsolHandler] arg_cong [OF s, of wres] arg_cong [OF s, of handed]
      arg_cong [OF s, of wrote]
    by (auto simp: truncate_sel waiting_def ready_def)
  have turn: "reader_turn cb (Some l) s
      = bnd (processLine cb l) (\<lambda>_. modify (\<lambda>s. s\<lparr>on_reader := False\<rparr>)) ?s"
    using f l by (simp add: reader_turn_def readerLoop_step_def bnd_def ordinary_def)
  show ?thesis
  proof (cases "pdu \<noteq> None \<and> \<not> prompted pdu ls \<and> l = ''> ''")
    case True
    then obtain d where d: "pdu = Some d" by blast
    with True f have wr: "writeCtrlZ d ?s = Done 0 (?s\<lparr>wrote := wrote s @ d @ [CHR 0x1A]\<rparr>)"
      by (simp add: writeCtrlZ_def write_with_full)
    have nf: "\<not> isFinalResponseSuccess l" "\<not> isFinalResponseError l"
      using l by (auto simp: ordinary_def isFinalResponse_def)
    have "processLine cb l ?s = Done () (?s\<lparr>wrote := wrote s @ d @ [CHR 0x1A], s_smsPDU := None\<rparr>)"
      using True d f nf wr by (simp add: processLine_def andthen_def bnd_def ret_def modify_def)
    moreover have "waiting s0 ty pfx pdu (ls @ [l]) sc
        = (waiting s0 ty pfx pdu ls sc)\<lparr>s_smsPDU := None, wrote := wrote s0 @ d @ [CHR 0x1A]\<rparr>"
      using True d by (simp add: waiting_def unprompt_snoc prompted_snoc)
    ultimately show ?thesis
      using turn s True f(13)
      by (simp add: bnd_def modify_def truncate_upd)
        (use s0 in \<open>auto simp: waiting_def ready_def intro!: at_chan.equality\<close>)
  next
    case False
    have un: "unprompt pdu (ls @ [l]) = unprompt pdu ls @ [l]" and pr: "prompted pdu (ls @ [l]) = prompted pdu ls"
      using False by (auto simp: unprompt_snoc prompted_snoc)
    have pl: "processLine cb l ?s =
      (if accepts ty pfx (rev ?got) l
       then Done () (?s\<lparr>sp_response := Some \<lparr>success = 0, finalResponse = None, p_intermediates = l # rev ?got\<rparr>\<rparr>)
       else handleUnsolicited cb l ?s)"
      using False f l pfx by (subst processLine_ordinary) auto
    have acc: "accepts ty pfx (rev ?got) l = accepts ty pfx ?got l" by (simp add: accepts_def)
    show ?thesis
    proof (cases "accepts ty pfx ?got l")
      case True
      with pl acc turn s f(7) show ?thesis
        by (simp add: bnd_def modify_def truncate_upd waiting_def un pr taken_snoc untaken_snoc)
          (use s0 in \<open>auto simp: ready_def intro!: at_chan.equality\<close>)
    next
      case False
      then have "returns_on cb l" using ret by (simp add: un untaken_snoc)
      from handle_returns [OF this, of ?s] f obtain t where
        t: "handleUnsolicited cb l ?s = Done () t"
        "at_chan.truncate t = at_chan.truncate ?s\<lparr>handed := handed s @ [(l, None)]\<rparr>" by auto
      then have "at_chan.truncate (t\<lparr>on_reader := False\<rparr>) = at_chan.truncate s\<lparr>handed := handed s @ [(l, None)]\<rparr>"
        using f(7) by (simp add: at_chan.defs)
      with t(1) pl acc turn s f(12) False show ?thesis
        by (simp add: bnd_def modify_def waiting_def un pr taken_snoc untaken_snoc)
    qed
  qed
qed

lemma run_ordinary:
  assumes "at_chan.truncate s = waiting s0 ty pfx pdu ls sc" and "ready s0"
    and "\<forall>l\<in>set ms. ordinary l" and "needs_prefix ty \<Longrightarrow> pfx \<noteq> None"
    and "\<forall>u\<in>set (untaken ty pfx (unprompt pdu (ls @ ms))). returns_on cb u"
  shows "\<exists>t. run_reader cb (map Some ms) s = Done () t
    \<and> at_chan.truncate t = waiting s0 ty pfx pdu (ls @ ms) sc"
  using assms
proof (induction ms arbitrary: s ls)
  case Nil
  then show ?case by (simp add: ret_def)
next
  case (Cons m ms)
  have "\<forall>u\<in>set (untaken ty pfx (unprompt pdu (ls @ [m]))). returns_on cb u"
    using Cons.prems(5) untaken_mono [of ty pfx pdu "ls @ [m]" ms] by auto
  from turn_ordinary [OF Cons.prems(1,2) _ Cons.prems(4) this] Cons.prems(3)
  obtain u where u: "reader_turn cb (Some m) s = Done () u"
    "at_chan.truncate u = waiting s0 ty pfx pdu (ls @ [m]) sc" by auto
  from Cons.IH [OF u(2) Cons.prems(2) _ Cons.prems(4)] Cons.prems(3,5) u(1) show ?case
    by (simp add: andthen_def bnd_def)
qed

text \<open>The final line ends the response; the fields of the channel are otherwise as before.\<close>

lemma turn_final:
  assumes s: "at_chan.truncate s = waiting s0 ty pfx pdu ls sc" and s0: "ready s0"
    and f: "isFinalResponse l" and nosms: "\<not> isSMSUnsolicited l"
  shows "\<exists>t. reader_turn cb (Some l) s = Done () t \<and> at_chan.truncate t = (waiting s0 ty pfx pdu ls sc)
    \<lparr>sp_response := Some (final_resp l (rev (taken ty pfx (unprompt pdu ls))))\<rparr>"
proof -
  have st: "sp_response s = Some \<lparr>success = 0, finalResponse = None,
      p_intermediates = rev (taken ty pfx (unprompt pdu ls))\<rparr>" "r_alive s" "r_line1 s = None"
    using s0 arg_cong [OF s, of sp_response] arg_cong [OF s, of r_alive] arg_cong [OF s, of r_line1]
    by (auto simp: truncate_sel waiting_def ready_def)
  let ?r = "(final_resp l (rev (taken ty pfx (unprompt pdu ls))))"
  have "reader_turn cb (Some l) s = Done () (s\<lparr>sp_response := Some ?r, on_reader := False\<rparr>)"
    using st f nosms
    by (auto simp: reader_turn_def readerLoop_step_def bnd_def processLine_def handleFinalResponse_def
        isFinalResponse_def modify_def final_resp_def)
  moreover have "at_chan.truncate (s\<lparr>sp_response := Some ?r, on_reader := False\<rparr>)
      = (waiting s0 ty pfx pdu ls sc)\<lparr>sp_response := Some ?r\<rparr>"
    by (simp only: truncate_upd s) (use s0 in \<open>auto simp: waiting_def ready_def intro!: at_chan.equality\<close>)
  ultimately show ?thesis by blast
qed

text \<open>Waiting through any division of the lines into wake-ups.\<close>

lemma await_exchange:
  assumes "at_chan.truncate s = waiting s0 ty pfx pdu ls sc" and "ready s0"
    and "\<forall>c\<in>set cs. \<forall>l\<in>set (fst c). ordinary l" and "\<forall>l\<in>set c. ordinary l"
    and "isFinalResponse f" and "\<not> isSMSUnsolicited f" and "needs_prefix ty \<Longrightarrow> pfx \<noteq> None"
    and "\<forall>u\<in>set (untaken ty pfx (unprompt pdu (ls @ concat (map fst cs) @ c))). returns_on cb u"
  shows "\<exists>t. await cb False (map delivery cs @ delivery (c @ [f], b) # later) s = Done 0 t
    \<and> at_chan.truncate t = (waiting s0 ty pfx pdu (ls @ concat (map fst cs) @ c) later)
    \<lparr>sp_response := Some (final_resp f (rev (taken ty pfx (unprompt pdu (ls @ concat (map fst cs) @ c)))))\<rparr>"
  using assms
proof (induction cs arbitrary: s ls sc)
  case Nil
  have st: "sp_response s = Some \<lparr>success = 0, finalResponse = None,
      p_intermediates = rev (taken ty pfx (unprompt pdu ls))\<rparr>" "\<not> s_readerClosed s"
    using Nil.prems(2) arg_cong [OF Nil.prems(1), of sp_response] arg_cong [OF Nil.prems(1), of s_readerClosed]
    by (auto simp: truncate_sel waiting_def ready_def)
  let ?s = "s\<lparr>sched := later\<rparr>"
  have "at_chan.truncate ?s = waiting s0 ty pfx pdu ls later"
    by (simp only: truncate_upd Nil.prems(1)) (simp add: waiting_def)
  from run_ordinary [OF this Nil.prems(2,4,7)] Nil.prems(8) obtain u where
    u: "run_reader cb (map Some c) ?s = Done () u" "at_chan.truncate u = waiting s0 ty pfx pdu (ls @ c) later"
    by auto
  from turn_final [OF u(2) Nil.prems(2,5,6)] obtain t where
    t: "reader_turn cb (Some f) u = Done () t" "at_chan.truncate t = (waiting s0 ty pfx pdu (ls @ c) later)
    \<lparr>sp_response := Some (final_resp f (rev (taken ty pfx (unprompt pdu (ls @ c)))))\<rparr>" by blast
  have "run_reader cb (map Some (c @ [f])) ?s = Done () t"
    using u(1) t(1) by (simp add: run_reader_append andthen_def bnd_def ret_def)
  moreover obtain r where "sp_response t = Some r" "finalResponse r = Some f"
    using arg_cong [OF t(2), of sp_response] by (simp add: truncate_sel final_resp_def)
  ultimately show ?case using st t(2)
    by (subst await.simps) (simp add: bnd_def await.simps)
next
  case (Cons seg cs)
  obtain d b' where seg: "seg = (d, b')" by (cases seg)
  let ?later = "map delivery cs @ delivery (c @ [f], b) # later"
  have st: "sp_response s = Some \<lparr>success = 0, finalResponse = None,
      p_intermediates = rev (taken ty pfx (unprompt pdu ls))\<rparr>" "\<not> s_readerClosed s"
    using Cons.prems(2) arg_cong [OF Cons.prems(1), of sp_response] arg_cong [OF Cons.prems(1), of s_readerClosed]
    by (auto simp: truncate_sel waiting_def ready_def)
  let ?s = "s\<lparr>sched := ?later\<rparr>"
  have w: "at_chan.truncate ?s = waiting s0 ty pfx pdu ls ?later"
    by (simp only: truncate_upd Cons.prems(1)) (simp add: waiting_def)
  have "\<forall>u\<in>set (untaken ty pfx (unprompt pdu (ls @ d))). returns_on cb u"
    using Cons.prems(8) seg untaken_mono [of ty pfx pdu "ls @ d" "concat (map fst cs) @ c"] by auto
  from run_ordinary [OF w Cons.prems(2) _ Cons.prems(7) this] Cons.prems(3) seg obtain u where
    u: "run_reader cb (map Some d) ?s = Done () u" "at_chan.truncate u = waiting s0 ty pfx pdu (ls @ d) ?later"
    by auto
  have "await cb False (map delivery (seg # cs) @ delivery (c @ [f], b) # later) s
      = await cb False ?later u"
    using st u(1) seg by (subst await.simps) (simp add: bnd_def)
  moreover have "\<exists>t. await cb False ?later u = Done 0 t
    \<and> at_chan.truncate t = (waiting s0 ty pfx pdu ((ls @ d) @ concat (map fst cs) @ c) later)
    \<lparr>sp_response := Some (final_resp f (rev (taken ty pfx (unprompt pdu ((ls @ d) @ concat (map fst cs) @ c)))))\<rparr>"
    by (rule Cons.IH [OF u(2) Cons.prems(2) _ Cons.prems(4-7)]) (use Cons.prems(3,8) seg in auto)
  ultimately show ?case using seg by simp
qed

lemma truncate_start:
  assumes "ready s" and "at_send_start command ty pfx pdu s = Done err u"
  shows "err = 0 \<and> at_chan.truncate u
    = waiting ((at_chan.truncate s)\<lparr>wrote := wrote s @ command @ [CHR 0x0D]\<rparr>) ty pfx pdu [] (sched s)
    \<and> sched u = sched s"
proof -
  have "writeline command s = Done 0 (s\<lparr>wrote := wrote s @ command @ [CHR 0x0D]\<rparr>)"
    using assms(1) by (simp add: writeline_def write_with_full ready_def)
  with assms show ?thesis
    by (auto simp: at_send_start_def ready_def idle_def bnd_def waiting_def prompted_def taken_def untaken_def
        unprompt_def truncate_upd truncate_sel at_response_new_def intro!: at_chan.equality)
qed

theorem send_exchange:
  assumes rdy: "ready s"
    and sc: "sched s = ([], b0) # map delivery cs @ delivery (c @ [f], b) # later"
    and ord: "\<forall>c\<in>set cs. \<forall>l\<in>set (fst c). ordinary l" "\<forall>l\<in>set c. ordinary l"
    and fin: "isFinalResponse f" "\<not> isSMSUnsolicited f" and pfx: "needs_prefix ty \<Longrightarrow> pfx \<noteq> None"
    and ls: "ls = unprompt pdu (concat (map fst cs) @ c)"
    and ret: "\<forall>u\<in>set (untaken ty pfx ls). returns_on cb u"
  shows "\<exists>t. at_send_command_full cb command ty pfx pdu 0 (Some old) s
        = Done (0, Resp (final_resp f (taken ty pfx ls))) t
    \<and> ready t \<and> sched t = later
    \<and> handed t = handed s @ map (\<lambda>l. (l, None)) (untaken ty pfx ls)
    \<and> wrote t = wrote s @ command @ [CHR 0x0D]
        @ (if prompted pdu (concat (map fst cs) @ c) then the pdu @ [CHR 0x1A] else [])"
proof -
  define s1 where "s1 = s\<lparr>sched := map delivery cs @ delivery (c @ [f], b) # later\<rparr>"
  let ?s0 = "(at_chan.truncate s1)\<lparr>wrote := wrote s @ command @ [CHR 0x0D]\<rparr>"
  have sc1: "sched s1 = map delivery cs @ delivery (c @ [f], b) # later" "wrote s1 = wrote s" "handed s1 = handed s"
    by (simp_all add: s1_def)
  have lock: "lock_commandmutex cb s = Done () s1"
    by (simp add: lock_commandmutex_def sc ret_def s1_def)
  have rs: "ready s1" using rdy by (simp add: ready_def idle_def s1_def)
  then have rs0: "ready ?s0" by (simp add: ready_def idle_def truncate_sel)
  obtain e u where "at_send_start command ty pfx pdu s1 = Done e u"
    using rs by (auto simp: at_send_start_def ready_def idle_def bnd_def writeline_def write_with_full)
  with truncate_start [OF rs] have u: "at_send_start command ty pfx pdu s1 = Done 0 u"
    "at_chan.truncate u = waiting ?s0 ty pfx pdu [] (sched s1)" "sched u = sched s1" by (auto simp: sc1(2))
  from await_exchange [OF u(2) rs0 ord fin pfx, of b later] ret ls
  obtain v where v: "await cb False (sched s1) u = Done 0 v"
    "at_chan.truncate v = (waiting ?s0 ty pfx pdu (concat (map fst cs) @ c) later)
      \<lparr>sp_response := Some (final_resp f (rev (taken ty pfx ls)))\<rparr>" by (auto simp: sc1(1))
  have vf: "sp_response v = Some (final_resp f (rev (taken ty pfx ls)))" "\<not> s_readerClosed v"
    using arg_cong [OF v(2), of sp_response] arg_cong [OF v(2), of s_readerClosed] rs0
    by (auto simp: truncate_sel waiting_def ready_def)
  let ?t = "v\<lparr>sp_response := None, s_responsePrefix := None, s_smsPDU := None\<rparr>"
  have "at_send_command_full cb command ty pfx pdu 0 (Some old) s
      = Done (0, Resp (final_resp f (taken ty pfx ls))) ?t"
    using rdy lock u v(1) vf
    by (simp add: at_send_command_full_def andthen_def bnd_def at_send_command_full_nolock_def
        at_send_finish_def clearPendingCommand_def modify_def ret_def reverseIntermediates_def
        final_resp_def reverse_loop_rev at_error_defs ready_def)
  moreover have "ready ?t \<and> sched ?t = later
    \<and> handed ?t = handed s @ map (\<lambda>l. (l, None)) (untaken ty pfx ls)
    \<and> wrote ?t = wrote s @ command @ [CHR 0x0D]
        @ (if prompted pdu (concat (map fst cs) @ c) then the pdu @ [CHR 0x1A] else [])"
    using rs0 ls sc1 arg_cong [OF v(2), of s_fd] arg_cong [OF v(2), of s_readerClosed]
      arg_cong [OF v(2), of s_unsolHandler] arg_cong [OF v(2), of r_alive] arg_cong [OF v(2), of r_line1]
      arg_cong [OF v(2), of on_reader] arg_cong [OF v(2), of wres] arg_cong [OF v(2), of sched]
      arg_cong [OF v(2), of handed] arg_cong [OF v(2), of wrote]
    by (auto simp: ready_def idle_def waiting_def truncate_sel)
  ultimately show ?thesis by blast
qed

end

section \<open>Exchanges with nothing unsolicited\<close>

text \<open>
  When every line answers the command, no handler runs and the state after the exchange can be
  given outright: what clients of the channel compute with.
\<close>

definition asked :: "string \<Rightarrow> ATCommandType \<Rightarrow> segment list \<Rightarrow> 'a at_chan_scheme \<Rightarrow> 'a at_chan_scheme" where
  "asked command ty later s = s\<lparr>wrote := wrote s @ command @ [CHR 0x0D], s_type := ty, sched := later\<rparr>"

lemma asked_sel [simp]:
  "sched (asked command ty later s) = later" "wrote (asked command ty later s) = wrote s @ command @ [CHR 0x0D]"
  "handed (asked command ty later s) = handed s" "s_onTimeout (asked command ty later s) = s_onTimeout s"
  "at_chan.more (asked command ty later s) = at_chan.more s"
  by (simp_all add: asked_def)

lemma ready_asked [simp]: "ready (asked command ty later s) = ready s"
  by (simp add: asked_def ready_def idle_def)

lemma upd_same:
  "s_responsePrefix s = None \<Longrightarrow> s_smsPDU s = None \<Longrightarrow> sp_response s = None \<Longrightarrow>
   s\<lparr>s_responsePrefix := None, s_smsPDU := None, sp_response := None\<rparr> = s"
  by (cases s) simp

lemma run_wanted:
  assumes "sp_response s = Some r" and "s_type s = ty" and "s_responsePrefix s = pfx" and "s_smsPDU s = None"
    and "r_alive s" and "r_line1 s = None" and "\<not> on_reader s" and "needs_prefix ty \<Longrightarrow> pfx \<noteq> None"
    and "\<forall>l\<in>set ls. ordinary l \<and> wants ty pfx l"
    and "ty = MULTILINE \<or> length (p_intermediates r) + length ls \<le> 1"
  shows "run_reader cb (map Some ls) s
    = Done () (s\<lparr>sp_response := Some (r\<lparr>p_intermediates := rev ls @ p_intermediates r\<rparr>)\<rparr>)"
  using assms
proof (induction ls arbitrary: s r)
  case Nil
  then show ?case by (simp add: ret_def)
next
  case (Cons l ls)
  let ?r = "r\<lparr>p_intermediates := l # p_intermediates r\<rparr>"
  have l: "\<not> isSMSUnsolicited l" "\<not> isFinalResponseSuccess l" "\<not> isFinalResponseError l" "wants ty pfx l"
    using Cons.prems(9) by (auto simp: ordinary_def isFinalResponse_def)
  have "reader_turn cb (Some l) s = Done () (s\<lparr>sp_response := Some ?r\<rparr>)"
    using Cons.prems l
    by (cases ty)
      (auto simp: reader_turn_def readerLoop_step_def processLine_def bnd_def modify_def wants_def
        addIntermediate_def has_prefix_def needs_prefix_def split: option.splits intro: at_chan.equality)
  moreover have "run_reader cb (map Some ls) (s\<lparr>sp_response := Some ?r\<rparr>)
      = Done () (s\<lparr>sp_response := Some (?r\<lparr>p_intermediates := rev ls @ p_intermediates ?r\<rparr>)\<rparr>)"
    using Cons.IH [of "s\<lparr>sp_response := Some ?r\<rparr>" ?r] Cons.prems by auto
  ultimately show ?case by (simp add: andthen_def bnd_def)
qed

lemma send_quiet:
  assumes rdy: "ready s" and sc: "sched s = ([], b0) # (map Some (ls @ [f]), b) # later"
    and ls: "\<forall>l\<in>set ls. ordinary l \<and> wants ty pfx l" and len: "ty = MULTILINE \<or> length ls \<le> 1"
    and f: "isFinalResponse f" "\<not> isSMSUnsolicited f" and pfx: "needs_prefix ty \<Longrightarrow> pfx \<noteq> None"
  shows "at_send_command_full cb command ty pfx None 0 pp s
    = Done (0, case pp of None \<Rightarrow> Null | Some _ \<Rightarrow> Resp (final_resp f ls)) (asked command ty later s)"
proof -
  let ?s1 = "s\<lparr>sched := (map Some (ls @ [f]), b) # later\<rparr>"
  let ?s2 = "?s1\<lparr>wrote := wrote s @ command @ [CHR 0x0D], s_type := ty, s_responsePrefix := pfx, s_smsPDU := None,
     sp_response := Some at_response_new, sched := later\<rparr>"
  let ?s3 = "?s2\<lparr>sp_response := Some (at_response_new\<lparr>p_intermediates := rev ls @ p_intermediates at_response_new\<rparr>)\<rparr>"
  let ?s4 = "?s2\<lparr>sp_response := Some (final_resp f (rev ls))\<rparr>"
  have lock: "lock_commandmutex cb s = Done () ?s1" by (simp add: lock_commandmutex_def sc ret_def)
  have start: "at_send_start command ty pfx None ?s1 = Done 0 (?s2\<lparr>sched := (map Some (ls @ [f]), b) # later\<rparr>)"
    using rdy by (simp add: at_send_start_def ready_def idle_def bnd_def writeline_def write_with_full)
  have "run_reader cb (map Some ls) ?s2 = Done () ?s3"
    using rdy ls len pfx by (intro run_wanted) (auto simp: ready_def at_response_new_def)
  moreover have "reader_turn cb (Some f) ?s3 = Done () ?s4"
    using rdy f
    by (cases "isFinalResponseSuccess f")
      (auto simp: reader_turn_def readerLoop_step_def processLine_def bnd_def modify_def handleFinalResponse_def
        isFinalResponse_def final_resp_def at_response_new_def ready_def intro: at_chan.equality)
  ultimately have run: "run_reader cb (map Some (ls @ [f])) ?s2 = Done () ?s4"
    by (simp add: run_reader_append andthen_def bnd_def ret_def)
  have aw: "await cb False ((map Some (ls @ [f]), b) # later) (?s2\<lparr>sched := (map Some (ls @ [f]), b) # later\<rparr>) = Done 0 ?s4"
    using rdy run
    by (subst await.simps) (simp add: ready_def at_response_new_def bnd_def await.simps final_resp_def)
  have "?s4\<lparr>sp_response := None, s_responsePrefix := None, s_smsPDU := None\<rparr> = asked command ty later s"
    using rdy upd_same [of s] by (auto simp: ready_def idle_def asked_def intro!: at_chan.equality)
  then show ?thesis
    using rdy lock start aw
    by (simp add: at_send_command_full_def andthen_def bnd_def at_send_command_full_nolock_def
        at_send_finish_def clearPendingCommand_def modify_def ret_def reverseIntermediates_def
        final_resp_def reverse_loop_rev at_error_defs ready_def split: option.split)
qed

lemmas line_class = ordinary_def isFinalResponse_def isFinalResponseSuccess_def isFinalResponseError_def
  s_finalResponsesError_def s_finalResponsesSuccess_def isSMSUnsolicited_def s_smsUnsoliciteds_def

text \<open>A ready channel whose modem answers the next command with these lines and this final one.\<close>

definition gets_reply :: "string list \<Rightarrow> string \<Rightarrow> segment list \<Rightarrow> 'a at_chan_scheme \<Rightarrow> bool" where
  "gets_reply ls f later s \<longleftrightarrow> ready s \<and> sched s = ([], False) # (map Some (ls @ [f]), False) # later"

lemma gets_reply_asked [simp]:
  "gets_reply ls f later (asked c ty sc s)
     \<longleftrightarrow> ready s \<and> sc = ([], False) # (map Some (ls @ [f]), False) # later"
  by (simp add: gets_reply_def)

lemma final_not_sms: "isFinalResponse f \<Longrightarrow> \<not> isSMSUnsolicited f"
  by (auto simp: isFinalResponse_def isFinalResponseSuccess_def isFinalResponseError_def
      s_finalResponsesSuccess_def s_finalResponsesError_def isSMSUnsolicited_def s_smsUnsoliciteds_def
      strStartsWith_iff)

lemma success_final [simp]: "isFinalResponseSuccess f \<Longrightarrow> isFinalResponse f"
  by (simp add: isFinalResponse_def)

lemma OK_success [simp]: "isFinalResponseSuccess ''OK''"
  by (simp add: isFinalResponseSuccess_def s_finalResponsesSuccess_def)

lemma final_resp_sel [simp]:
  "success (final_resp f ls) = (if isFinalResponseSuccess f then 1 else 0)"
  "finalResponse (final_resp f ls) = Some f" "p_intermediates (final_resp f ls) = ls"
  by (simp_all add: final_resp_def)

lemma reply_full:
  assumes "gets_reply ls f later s" and "isFinalResponse f"
    and "\<forall>l\<in>set ls. ordinary l \<and> wants ty pfx l" and "ty = MULTILINE \<or> length ls \<le> 1"
    and "needs_prefix ty \<Longrightarrow> pfx \<noteq> None"
  shows "at_send_command_full cb command ty pfx None 0 pp s
    = Done (0, case pp of None \<Rightarrow> Null | Some _ \<Rightarrow> Resp (final_resp f ls)) (asked command ty later s)"
  using assms by (intro send_quiet [where b0 = False and b = False]) (auto simp: gets_reply_def final_not_sms)

lemma reply_command:
  "gets_reply [] f later s \<Longrightarrow> isFinalResponse f \<Longrightarrow>
   at_send_command cb command pp s
     = Done (0, case pp of None \<Rightarrow> Null | Some _ \<Rightarrow> Resp (final_resp f [])) (asked command NO_RESULT later s)"
  unfolding at_send_command_def by (rule reply_full) (auto simp: needs_prefix_def)

lemma reply_singleline:
  "gets_reply [l] f later s \<Longrightarrow> isFinalResponse f \<Longrightarrow> ordinary l \<Longrightarrow> strStartsWith l pfx \<Longrightarrow>
   at_send_command_singleline cb command pfx (Some old) s
     = Done (0, Resp (final_resp f [l])) (asked command SINGLELINE later s)"
  using reply_full [of "[l]" f later s SINGLELINE "Some pfx" cb command "Some old"]
  by (auto simp: at_send_command_singleline_def bnd_def need_intermediate_def wants_def ret_def)

lemma reply_singleline_error:
  "gets_reply [] f later s \<Longrightarrow> isFinalResponse f \<Longrightarrow> \<not> isFinalResponseSuccess f \<Longrightarrow>
   at_send_command_singleline cb command pfx (Some old) s
     = Done (0, Resp (final_resp f [])) (asked command SINGLELINE later s)"
  using reply_full [of "[]" f later s SINGLELINE "Some pfx" cb command "Some old"]
  by (auto simp: at_send_command_singleline_def bnd_def need_intermediate_def ret_def)

lemma reply_singleline_empty:
  "gets_reply [] f later s \<Longrightarrow> isFinalResponseSuccess f \<Longrightarrow>
   at_send_command_singleline cb command pfx (Some old) s
     = Done (AT_ERROR_INVALID_RESPONSE, Null) (asked command SINGLELINE later s)"
  using reply_full [of "[]" f later s SINGLELINE "Some pfx" cb command "Some old"]
  by (auto simp: at_send_command_singleline_def bnd_def need_intermediate_def ret_def andthen_def
      at_response_free_def)

lemma reply_numeric:
  "gets_reply [l] f later s \<Longrightarrow> isFinalResponse f \<Longrightarrow> ordinary l \<Longrightarrow> starts_with_digit l \<Longrightarrow>
   at_send_command_numeric cb command (Some old) s
     = Done (0, Resp (final_resp f [l])) (asked command NUMERIC later s)"
  using reply_full [of "[l]" f later s NUMERIC None cb command "Some old"]
  by (auto simp: at_send_command_numeric_def bnd_def need_intermediate_def wants_def ret_def needs_prefix_def)

lemma reply_multiline:
  "gets_reply ls f later s \<Longrightarrow> isFinalResponse f \<Longrightarrow> \<forall>l\<in>set ls. ordinary l \<and> strStartsWith l pfx \<Longrightarrow>
   at_send_command_multiline cb command pfx (Some old) s
     = Done (0, Resp (final_resp f ls)) (asked command MULTILINE later s)"
  using reply_full [of ls f later s MULTILINE "Some pfx" cb command "Some old"]
  by (auto simp: at_send_command_multiline_def wants_def)

text \<open>On a closed channel every command fails at once and nothing is written.\<close>

definition chan_down :: "'a at_chan_scheme \<Rightarrow> bool" where
  "chan_down s \<longleftrightarrow> idle s \<and> \<not> on_reader s \<and> (s_fd s < 0 \<or> s_readerClosed s) \<and> sched s = []"

lemma down_full:
  assumes "chan_down s"
  shows "at_send_command_full cb command ty pfx pdu tmo pp s = Done (AT_ERROR_CHANNEL_CLOSED, old_resp pp) s"
proof -
  have "s\<lparr>sp_response := None, s_responsePrefix := None, s_smsPDU := None\<rparr> = s"
    using assms upd_same [of s] by (cases s) (simp add: chan_down_def idle_def)
  then show ?thesis
    using assms
    by (simp add: at_send_command_full_def chan_down_def lock_commandmutex_def andthen_def bnd_def
        at_send_command_full_nolock_def at_send_start_def idle_def writeline_def write_with_def ret_def
        clearPendingCommand_def modify_def at_error_defs)
qed

section \<open>Properties of the channel alone\<close>

text \<open>A ready channel with a schedule and a write script, for the examples.\<close>

definition sample_chan :: "segment list \<Rightarrow> write_result list \<Rightarrow> at_chan" where
  "sample_chan sc ws = \<lparr>s_fd = 3, s_unsolHandler = True, s_onReaderClosed = True, s_onTimeout = True,
    s_type = NO_RESULT, s_responsePrefix = None, s_smsPDU = None, sp_response = None, s_readerClosed = False,
    r_alive = True, r_line1 = None, on_reader = False, sched = sc, wres = ws, wrote = [], handed = []\<rparr>"

definition quiet_handlers :: "at_chan handlers" where
  "quiet_handlers = \<lparr>h_unsol = (\<lambda>_ _. ret ()), h_closed = ret (), h_timeout = ret ()\<rparr>"

lemma ready_sample: "ready (sample_chan sc [])"
  by (simp add: sample_chan_def ready_def idle_def)

lemma sample_sel [simp]:
  "sched (sample_chan sc ws) = sc" "wrote (sample_chan sc ws) = []" "handed (sample_chan sc ws) = []"
  "s_fd (sample_chan sc ws) = 3" "\<not> s_readerClosed (sample_chan sc ws)" "wres (sample_chan sc ws) = ws"
  by (simp_all add: sample_chan_def)

lemma write_all_spec:
  "write_all w str = (ok, w', out) \<Longrightarrow>
   (ok \<longrightarrow> out = str) \<and> (\<not> ok \<longrightarrow> WrErr \<in> set w \<and> (\<exists>k<length str. out = take k str)) \<and> set w' \<subseteq> set w"
proof (induction w str arbitrary: ok w' out rule: write_all.induct)
  case (5 n w c cs)
  let ?s = "c # cs"
  obtain o1 w1 out1 where r: "write_all w (drop n ?s) = (o1, w1, out1)" by (cases "write_all w (drop n ?s)")
  with 5 have eq: "ok = o1" "w' = w1" "out = take n ?s @ out1" by auto
  from "5.IH" [OF r] have ih: "(o1 \<longrightarrow> out1 = drop n ?s)"
    "(\<not> o1 \<longrightarrow> WrErr \<in> set w \<and> (\<exists>k<length (drop n ?s). out1 = take k (drop n ?s)))" "set w1 \<subseteq> set w"
    by auto
  have "\<exists>k<length ?s. out = take k ?s" if "\<not> o1"
  proof -
    from that ih(2) obtain k where "k < length (drop n ?s)" "out1 = take k (drop n ?s)" by auto
    then have "out = take (n + k) ?s" "n + k < length ?s" using eq(3) by (auto simp: take_add simp del: take_Cons)
    then show ?thesis by blast
  qed
  with ih eq show ?case by auto
qed auto

lemma write_end_spec:
  "write_end w c = (ok, w', out) \<Longrightarrow> (ok \<longrightarrow> out = [c]) \<and> (\<not> ok \<longrightarrow> WrErr \<in> set w \<and> out = [])"
  by (induction w c rule: write_end.induct) (auto split: if_splits)

text \<open>
  \<^verbatim>\<open>writeline\<close> on an open channel writes the command and one carriage return, whole, however
  \<^verbatim>\<open>write\<close> cuts it up or is interrupted, and returns 0; only when a \<^verbatim>\<open>write\<close> fails does it return
  \<^verbatim>\<open>AT_ERROR_GENERIC\<close>, and then what was written is a prefix of that. No other field of the
  channel changes, and the retry loops end.
\<close>

theorem writeline_writes_line:
  assumes "s_fd s \<ge> 0" and "\<not> s_readerClosed s"
  shows "\<exists>err w out. writeline command s = Done err (s\<lparr>wres := w, wrote := wrote s @ out\<rparr>)
    \<and> (err = 0 \<and> out = command @ [CHR 0x0D]
       \<or> err = AT_ERROR_GENERIC \<and> WrErr \<in> set (wres s) \<and> (\<exists>k\<le>length command. out = take k command))"
proof -
  obtain ok w out where w: "write_all (wres s) command = (ok, w, out)" by (cases "write_all (wres s) command")
  obtain ok' w' out' where e: "write_end w (CHR 0x0D) = (ok', w', out')" by (cases "write_end w (CHR 0x0D)")
  note a = write_all_spec [OF w] and b = write_end_spec [OF e]
  show ?thesis
  proof (cases "ok \<and> ok'")
    case True
    with a b w e assms show ?thesis by (simp add: writeline_def write_with_def) blast
  next
    case False
    then consider "\<not> ok" | "ok" "\<not> ok'" by blast
    then show ?thesis
    proof cases
      case 1
      then obtain k where "k < length command" "out = take k command" "WrErr \<in> set (wres s)" using a by blast
      with 1 w assms show ?thesis
        by (simp add: writeline_def write_with_def) (metis less_imp_le_nat)
    next
      case 2
      with a b have "WrErr \<in> set (wres s)" "out' = []" "out = command" by auto
      with 2 w e assms show ?thesis
        by (simp add: writeline_def write_with_def) (metis order_refl take_all_iff)
    qed
  qed
qed

lemma writeline_writes_line_witness:
  "\<exists>err w out. writeline ''AT'' (sample_chan [] [WrEintr, WrOk 1, WrOk 0, WrErr])
      = Done err ((sample_chan [] [WrEintr, WrOk 1, WrOk 0, WrErr])\<lparr>wres := w, wrote := out\<rparr>)
    \<and> (err = 0 \<and> out = ''AT'' @ [CHR 0x0D]
       \<or> err = AT_ERROR_GENERIC \<and> (\<exists>k\<le>length ''AT''. out = take k ''AT''))"
proof -
  let ?s = "sample_chan [] [WrEintr, WrOk 1, WrOk 0, WrErr]"
  have "s_fd ?s \<ge> 0" and "\<not> s_readerClosed ?s" by simp_all
  from writeline_writes_line [OF this, of "''AT''"] show ?thesis by (simp only: sample_sel append_Nil) blast
qed

text \<open>
  While a command waits for its response, a second command on the same channel fails with
  \<^verbatim>\<open>AT_ERROR_COMMAND_PENDING\<close>, and its error path \<^verbatim>\<open>clearPendingCommand\<close> frees the response the first
  one waits for: when the first wakes up it reads through the NULL \<^verbatim>\<open>sp_response\<close>. The comment on
  \<^verbatim>\<open>s_writeMutex\<close> says that mutex excludes the case, but no code takes it.
\<close>

theorem second_writer_drops_pending:
  assumes "sp_response s = Some r"
  shows "\<exists>t. at_send_command_full_nolock cb command ty pfx pdu tmo pp s
        = Done (AT_ERROR_COMMAND_PENDING, old_resp pp) t
    \<and> idle t \<and> await cb timed segs t = Crash NullDeref"
  using assms
  by (auto simp: at_send_command_full_nolock_def at_send_start_def bnd_def clearPendingCommand_def
      andthen_def modify_def ret_def at_error_defs idle_def await.simps)

lemma second_writer_drops_pending_witness:
  "\<exists>t. at_send_command_full_nolock quiet_handlers ''AT+CSQ'' SINGLELINE (Some ''+CSQ:'') None 0 (Some Uninit)
       ((sample_chan [] [])\<lparr>sp_response := Some at_response_new\<rparr>) = Done (AT_ERROR_COMMAND_PENDING, Uninit) t
    \<and> idle t \<and> await quiet_handlers False [([Some ''OK''], False)] t = Crash NullDeref"
  using second_writer_drops_pending [of "(sample_chan [] [])\<lparr>sp_response := Some at_response_new\<rparr>"
    at_response_new quiet_handlers "''AT+CSQ''" SINGLELINE "Some ''+CSQ:''" None 0 "Some Uninit"
    False "[([Some ''OK''], False)]"]
  by (simp add: old_resp_def)

text \<open>
  Between the final response and the moment the waiting command wakes, \<^verbatim>\<open>sp_response\<close> is still
  set: a line with the command's prefix that arrives then, such as an unsolicited one, is put
  into the response of the command that has already ended and never reaches the handler.
\<close>

theorem late_line_joins_response:
  assumes "ready s" and "sched s = ([], b0) # ([Some f, Some l], b) # later"
    and "isFinalResponseSuccess f" and "\<not> isSMSUnsolicited f"
    and "ordinary l" and "strStartsWith l prefix" and "prefix \<noteq> []"
  shows "\<exists>t. at_send_command_multiline cb command prefix (Some old) s = Done (0, Resp (final_resp f [l])) t
    \<and> handed t = handed s"
  using assms
  by (auto simp: at_send_command_multiline_def at_send_command_full_def at_send_command_full_nolock_def
      at_send_start_def at_send_finish_def ready_def idle_def lock_commandmutex_def ret_def andthen_def
      bnd_def writeline_def write_with_full await.simps reader_turn_def readerLoop_step_def processLine_def
      handleFinalResponse_def modify_def ordinary_def isFinalResponse_def has_prefix_def addIntermediate_def
      clearPendingCommand_def at_response_new_def reverseIntermediates_def final_resp_def at_error_defs)

lemma late_line_joins_response_witness:
  "\<exists>t. at_send_command_multiline quiet_handlers ''AT+CREG?'' ''+CREG:'' (Some Null)
         (sample_chan [([], False), ([Some ''OK'', Some ''+CREG: 5''], False)] [])
       = Done (0, Resp (final_resp ''OK'' [''+CREG: 5''])) t \<and> handed t = []"
  using late_line_joins_response [OF ready_sample, of "[([], False), ([Some ''OK'', Some ''+CREG: 5''], False)]"
    False "''OK''" "''+CREG: 5''" False "[]" "''+CREG:''" quiet_handlers "''AT+CREG?''" Null]
  by (simp add: isFinalResponseSuccess_def s_finalResponsesSuccess_def isSMSUnsolicited_def
      s_smsUnsoliciteds_def ordinary_def isFinalResponse_def isFinalResponseError_def
      s_finalResponsesError_def)

lemma handshake_timeout:
  assumes "ready s" and "sched s = ([], True) # later"
  shows "\<exists>t. at_send_command_full_nolock cb ''ATE0Q0V1'' NO_RESULT None None HANDSHAKE_TIMEOUT_MSEC None s
      = Done (AT_ERROR_TIMEOUT, Null) t
    \<and> ready t \<and> sched t = later \<and> wrote t = wrote s @ ''ATE0Q0V1'' @ [CHR 0x0D]"
  using assms
  by (simp add: at_send_command_full_nolock_def at_send_start_def at_send_finish_def ready_def idle_def
      ret_def andthen_def bnd_def writeline_def write_with_full await.simps modify_def
      clearPendingCommand_def at_response_new_def at_error_defs HANDSHAKE_TIMEOUT_MSEC_def old_resp_def)

lemma handshake_answer:
  assumes "ready s" and "sched s = ([Some ''OK''], b) # later" and "\<not> b"
  shows "\<exists>t. at_send_command_full_nolock cb ''ATE0Q0V1'' NO_RESULT None None HANDSHAKE_TIMEOUT_MSEC None s
      = Done (0, Null) t
    \<and> ready t \<and> sched t = later \<and> wrote t = wrote s @ ''ATE0Q0V1'' @ [CHR 0x0D]"
  using assms
  by (simp add: at_send_command_full_nolock_def at_send_start_def at_send_finish_def ready_def idle_def
      ret_def andthen_def bnd_def writeline_def write_with_full await.simps modify_def
      clearPendingCommand_def at_response_new_def at_error_defs HANDSHAKE_TIMEOUT_MSEC_def
      reader_turn_def readerLoop_step_def processLine_def handleFinalResponse_def
      isSMSUnsolicited_def s_smsUnsoliciteds_def isFinalResponseSuccess_def s_finalResponsesSuccess_def)

definition handshake_bytes :: "nat \<Rightarrow> string" where
  "handshake_bytes n = concat (replicate n (''ATE0Q0V1'' @ [CHR 0x0D]))"

lemma handshake_loop_timeouts:
  "ready s \<Longrightarrow> sched s = replicate n ([], True) @ later \<Longrightarrow>
   \<exists>t. handshake_loop cb (n + m) e s = handshake_loop cb m (if n = 0 then e else AT_ERROR_TIMEOUT) t
     \<and> ready t \<and> sched t = later \<and> wrote t = wrote s @ handshake_bytes n"
proof (induction n arbitrary: s e)
  case (Suc n)
  then obtain u where u: "at_send_command_full_nolock cb ''ATE0Q0V1'' NO_RESULT None None HANDSHAKE_TIMEOUT_MSEC None s
      = Done (AT_ERROR_TIMEOUT, Null) u"
    "ready u" "sched u = replicate n ([], True) @ later" "wrote u = wrote s @ ''ATE0Q0V1'' @ [CHR 0x0D]"
    using handshake_timeout [of s "replicate n ([], True) @ later" cb] by auto
  from Suc.IH [OF u(2,3), of AT_ERROR_TIMEOUT] u(1,4) show ?case
    by (auto simp: bnd_def at_error_defs handshake_bytes_def)
qed (auto simp: handshake_bytes_def)

text \<open>
  The handshake sends \<^verbatim>\<open>ATE0Q0V1\<close> until it is answered: after \<open>n\<close> timeouts, \<open>n < 8\<close>, an OK makes
  it return 0 having sent the command \<open>n + 1\<close> times; with eight timeouts it gives up after
  eight commands and returns \<^verbatim>\<open>AT_ERROR_TIMEOUT\<close>. Either way the channel is left ready for commands.
\<close>

theorem handshake_retries:
  assumes "ready s" and "n \<le> 8"
    and "sched s = ([], b) # replicate n ([], True) @ (if n < 8 then ([Some ''OK''], False) # later else later)"
  shows "\<exists>t. at_handshake cb s = Done (if n < 8 then 0 else AT_ERROR_TIMEOUT) t
    \<and> wrote t = wrote s @ handshake_bytes (if n < 8 then n + 1 else 8) \<and> ready t \<and> sched t = later"
proof -
  let ?rest = "if n < 8 then ([Some ''OK''], False) # later else later"
  define s1 where "s1 = s\<lparr>sched := replicate n ([], True) @ ?rest\<rparr>"
  have s1: "ready s1" "sched s1 = replicate n ([], True) @ ?rest" "wrote s1 = wrote s"
    using assms(1) by (auto simp: s1_def ready_def idle_def)
  have run: "at_handshake cb s = handshake_loop cb (n + (8 - n)) 0 s1"
    using assms by (simp add: at_handshake_def ready_def lock_commandmutex_def s1_def andthen_def bnd_def ret_def
        HANDSHAKE_RETRY_COUNT_def)
  from handshake_loop_timeouts [OF s1(1,2), of cb "8 - n" 0] obtain u where
    u: "handshake_loop cb (n + (8 - n)) 0 s1
        = handshake_loop cb (8 - n) (if n = 0 then 0 else AT_ERROR_TIMEOUT) u"
      "ready u" "sched u = ?rest" "wrote u = wrote s @ handshake_bytes n"
    by (auto simp: s1(3))
  show ?thesis
  proof (cases "n < 8")
    case True
    then obtain m where m: "8 - n = Suc m" by (metis Suc_diff_Suc)
    from handshake_answer [OF u(2), of False later cb] u(3) True obtain t where
      "at_send_command_full_nolock cb ''ATE0Q0V1'' NO_RESULT None None HANDSHAKE_TIMEOUT_MSEC None u = Done (0, Null) t"
      "ready t" "sched t = later" "wrote t = wrote u @ ''ATE0Q0V1'' @ [CHR 0x0D]" by auto
    with run u(1,4) m True show ?thesis
      by (simp add: bnd_def ret_def handshake_bytes_def flip: replicate_append_same)
  next
    case False
    with assms(2) have "n = 8" by simp
    with run u show ?thesis by (simp add: ret_def)
  qed
qed

lemma handshake_retries_witness:
  "\<exists>t. at_handshake quiet_handlers
         (sample_chan [([], False), ([], True), ([], True), ([Some ''OK''], False)] []) = Done 0 t
    \<and> wrote t = handshake_bytes 3 \<and> ready t \<and> sched t = []"
proof -
  have sc: "sched (sample_chan [([], False), ([], True), ([], True), ([Some ''OK''], False)] [])
    = ([], False) # replicate 2 ([], True) @ (if (2::nat) < 8 then ([Some ''OK''], False) # [] else [])"
    by (simp add: numeral_2_eq_2)
  have "(2::nat) \<le> 8" by simp
  from handshake_retries [OF ready_sample this sc, of quiet_handlers] show ?thesis by simp
qed

lemma cme_of_error:
  assumes "is_int32 n" and "\<not> success r > 0" and "finalResponse r = Some (''+CME ERROR: '' @ fmt_d n)"
  shows "at_get_cme_error r = n"
  using assms nextint_last [OF assms(1), of 0] by (simp add: at_get_cme_error_def c_strchr_def)

text \<open>
  \<^verbatim>\<open>at_get_cme_error\<close> reads back the number the modem reports: for a failed response whose
  final line is \<^verbatim>\<open>+CME ERROR: n\<close> it returns \<open>n\<close>, for any other failed response -1, and for
  a successful one 0.
\<close>

theorem cme_error_decodes:
  assumes "is_int32 n"
  shows "at_get_cme_error \<lparr>success = 0, finalResponse = Some (''+CME ERROR: '' @ fmt_d n), p_intermediates = ls\<rparr> = n
    \<and> (\<forall>r. success r > 0 \<longrightarrow> at_get_cme_error r = 0)
    \<and> (\<forall>r f. \<not> success r > 0 \<and> finalResponse r = Some f \<and> \<not> strStartsWith f ''+CME ERROR:''
         \<longrightarrow> at_get_cme_error r = -1)
    \<and> (\<forall>r. \<not> success r > 0 \<and> finalResponse r = None \<longrightarrow> at_get_cme_error r = -1)"
proof (intro conjI)
  show "at_get_cme_error \<lparr>success = 0, finalResponse = Some (''+CME ERROR: '' @ fmt_d n), p_intermediates = ls\<rparr> = n"
    by (rule cme_of_error [OF assms]) simp_all
qed (auto simp: at_get_cme_error_def CME_SUCCESS_def CME_ERROR_NON_CME_def)

lemma cme_error_decodes_witness:
  "at_get_cme_error \<lparr>success = 0, finalResponse = Some (''+CME ERROR: '' @ fmt_d CME_SIM_NOT_INSERTED), p_intermediates = []\<rparr> = 10"
  using cme_error_decodes [of "CME_SIM_NOT_INSERTED" "[]"] by (simp add: CME_SIM_NOT_INSERTED_def int32_defs)

end
