(* ===== verification/RilTypes.thy ===== *)
theory RilTypes
  imports AtChannel
begin

text \<open>
  The data of \<^verbatim>\<open>reference-ril/reference-ril.c\<close> and of the parts of \<^verbatim>\<open>telephony/ril.h\<close> it uses: the
  enumerations, the structures it reports, the static variables as a record that extends the
  channel's, and what it does to the RIL library, as a log of actions.
\<close>

unbundle bit_operations_syntax

section \<open>Enumerations\<close>

datatype RIL_RadioState = RADIO_STATE_OFF | RADIO_STATE_UNAVAILABLE | RADIO_STATE_ON

datatype RIL_Errno =
    RIL_E_SUCCESS | RIL_E_RADIO_NOT_AVAILABLE | RIL_E_GENERIC_FAILURE | RIL_E_PASSWORD_INCORRECT
  | RIL_E_REQUEST_NOT_SUPPORTED | RIL_E_SMS_SEND_FAIL_RETRY | RIL_E_SIM_ABSENT
  | RIL_E_MODE_NOT_SUPPORTED | RIL_E_LCE_NOT_SUPPORTED | RIL_E_MODEM_ERR
  | RIL_E_NO_MEMORY | RIL_E_INTERNAL_ERR | RIL_E_INVALID_ARGUMENTS | RIL_E_INVALID_RESPONSE
  | RIL_E_other int                  \<comment> \<open>the codes the modelled code does not name\<close>

datatype RIL_Unsol =
    RIL_UNSOL_RESPONSE_RADIO_STATE_CHANGED | RIL_UNSOL_RESPONSE_CALL_STATE_CHANGED
  | RIL_UNSOL_RESPONSE_VOICE_NETWORK_STATE_CHANGED | RIL_UNSOL_RESPONSE_NEW_SMS
  | RIL_UNSOL_RESPONSE_NEW_SMS_STATUS_REPORT | RIL_UNSOL_NITZ_TIME_RECEIVED
  | RIL_UNSOL_DATA_CALL_LIST_CHANGED | RIL_UNSOL_RESPONSE_SIM_STATUS_CHANGED
  | RIL_UNSOL_ENTER_EMERGENCY_CALLBACK_MODE | RIL_UNSOL_EXIT_EMERGENCY_CALLBACK_MODE
  | RIL_UNSOL_CDMA_SUBSCRIPTION_SOURCE_CHANGED | RIL_UNSOL_CDMA_PRL_CHANGED
  | RIL_UNSOL_VOICE_RADIO_TECH_CHANGED | RIL_UNSOL_RESPONSE_IMS_NETWORK_STATE_CHANGED
  | RIL_UNSOL_HARDWARE_CONFIG_CHANGED

datatype RIL_CallState =
    RIL_CALL_ACTIVE | RIL_CALL_HOLDING | RIL_CALL_DIALING | RIL_CALL_ALERTING
  | RIL_CALL_INCOMING | RIL_CALL_WAITING

datatype SIM_Status =
    SIM_ABSENT | SIM_NOT_READY | SIM_READY | SIM_PIN | SIM_PUK | SIM_NETWORK_PERSONALIZATION

text \<open>
  The twelve values of the C type after these name rows of the table of \<^verbatim>\<open>getCardStatus\<close> and are
  reached by adding \<^verbatim>\<open>RUIM_ABSENT\<close> or \<^verbatim>\<open>ISIM_ABSENT\<close> to one of these six.
\<close>

fun sim_code :: "SIM_Status \<Rightarrow> nat" where
  "sim_code SIM_ABSENT = 0"
| "sim_code SIM_NOT_READY = 1"
| "sim_code SIM_READY = 2"
| "sim_code SIM_PIN = 3"
| "sim_code SIM_PUK = 4"
| "sim_code SIM_NETWORK_PERSONALIZATION = 5"

definition RUIM_ABSENT :: nat where "RUIM_ABSENT = 6"
definition ISIM_ABSENT :: nat where "ISIM_ABSENT = 12"

text \<open>Radio technologies of \<^verbatim>\<open>ril.h\<close>, and the modem's technology bits.\<close>

definition RADIO_TECH_GPRS :: int where "RADIO_TECH_GPRS = 1"
definition RADIO_TECH_IS95A :: int where "RADIO_TECH_IS95A = 4"
definition RADIO_TECH_IS95B :: int where "RADIO_TECH_IS95B = 5"
definition RADIO_TECH_1xRTT :: int where "RADIO_TECH_1xRTT = 6"
definition RADIO_TECH_EVDO_0 :: int where "RADIO_TECH_EVDO_0 = 7"
definition RADIO_TECH_EVDO_A :: int where "RADIO_TECH_EVDO_A = 8"
definition RADIO_TECH_HSPA :: int where "RADIO_TECH_HSPA = 11"
definition RADIO_TECH_EVDO_B :: int where "RADIO_TECH_EVDO_B = 12"
definition RADIO_TECH_EHRPD :: int where "RADIO_TECH_EHRPD = 13"
definition RADIO_TECH_LTE :: int where "RADIO_TECH_LTE = 14"
definition RADIO_TECH_3GPP :: int where "RADIO_TECH_3GPP = 1"
definition RADIO_TECH_3GPP2 :: int where "RADIO_TECH_3GPP2 = 2"

lemmas radio_tech_defs = RADIO_TECH_GPRS_def RADIO_TECH_IS95A_def RADIO_TECH_IS95B_def
  RADIO_TECH_1xRTT_def RADIO_TECH_EVDO_0_def RADIO_TECH_EVDO_A_def RADIO_TECH_HSPA_def
  RADIO_TECH_EVDO_B_def RADIO_TECH_EHRPD_def RADIO_TECH_LTE_def RADIO_TECH_3GPP_def
  RADIO_TECH_3GPP2_def

definition MDM_GSM :: int where "MDM_GSM = 0x01"
definition MDM_WCDMA :: int where "MDM_WCDMA = 0x02"
definition MDM_CDMA :: int where "MDM_CDMA = 0x04"
definition MDM_EVDO :: int where "MDM_EVDO = 0x08"
definition MDM_LTE :: int where "MDM_LTE = 0x10"

lemmas mdm_defs = MDM_GSM_def MDM_WCDMA_def MDM_CDMA_def MDM_EVDO_def MDM_LTE_def

text \<open>Request codes.\<close>

abbreviation (input) RIL_REQUEST_GET_SIM_STATUS :: int where "RIL_REQUEST_GET_SIM_STATUS \<equiv> 1"
abbreviation (input) RIL_REQUEST_ENTER_SIM_PIN :: int where "RIL_REQUEST_ENTER_SIM_PIN \<equiv> 2"
abbreviation (input) RIL_REQUEST_ENTER_SIM_PUK :: int where "RIL_REQUEST_ENTER_SIM_PUK \<equiv> 3"
abbreviation (input) RIL_REQUEST_ENTER_SIM_PIN2 :: int where "RIL_REQUEST_ENTER_SIM_PIN2 \<equiv> 4"
abbreviation (input) RIL_REQUEST_ENTER_SIM_PUK2 :: int where "RIL_REQUEST_ENTER_SIM_PUK2 \<equiv> 5"
abbreviation (input) RIL_REQUEST_CHANGE_SIM_PIN :: int where "RIL_REQUEST_CHANGE_SIM_PIN \<equiv> 6"
abbreviation (input) RIL_REQUEST_CHANGE_SIM_PIN2 :: int where "RIL_REQUEST_CHANGE_SIM_PIN2 \<equiv> 7"
abbreviation (input) RIL_REQUEST_ENTER_NETWORK_DEPERSONALIZATION :: int where "RIL_REQUEST_ENTER_NETWORK_DEPERSONALIZATION \<equiv> 8"
abbreviation (input) RIL_REQUEST_GET_CURRENT_CALLS :: int where "RIL_REQUEST_GET_CURRENT_CALLS \<equiv> 9"
abbreviation (input) RIL_REQUEST_DIAL :: int where "RIL_REQUEST_DIAL \<equiv> 10"
abbreviation (input) RIL_REQUEST_GET_IMSI :: int where "RIL_REQUEST_GET_IMSI \<equiv> 11"
abbreviation (input) RIL_REQUEST_HANGUP :: int where "RIL_REQUEST_HANGUP \<equiv> 12"
abbreviation (input) RIL_REQUEST_HANGUP_WAITING_OR_BACKGROUND :: int where "RIL_REQUEST_HANGUP_WAITING_OR_BACKGROUND \<equiv> 13"
abbreviation (input) RIL_REQUEST_HANGUP_FOREGROUND_RESUME_BACKGROUND :: int where "RIL_REQUEST_HANGUP_FOREGROUND_RESUME_BACKGROUND \<equiv> 14"
abbreviation (input) RIL_REQUEST_SWITCH_WAITING_OR_HOLDING_AND_ACTIVE :: int where "RIL_REQUEST_SWITCH_WAITING_OR_HOLDING_AND_ACTIVE \<equiv> 15"
abbreviation (input) RIL_REQUEST_CONFERENCE :: int where "RIL_REQUEST_CONFERENCE \<equiv> 16"
abbreviation (input) RIL_REQUEST_UDUB :: int where "RIL_REQUEST_UDUB \<equiv> 17"
abbreviation (input) RIL_REQUEST_SIGNAL_STRENGTH :: int where "RIL_REQUEST_SIGNAL_STRENGTH \<equiv> 19"
abbreviation (input) RIL_REQUEST_VOICE_REGISTRATION_STATE :: int where "RIL_REQUEST_VOICE_REGISTRATION_STATE \<equiv> 20"
abbreviation (input) RIL_REQUEST_DATA_REGISTRATION_STATE :: int where "RIL_REQUEST_DATA_REGISTRATION_STATE \<equiv> 21"
abbreviation (input) RIL_REQUEST_OPERATOR :: int where "RIL_REQUEST_OPERATOR \<equiv> 22"
abbreviation (input) RIL_REQUEST_RADIO_POWER :: int where "RIL_REQUEST_RADIO_POWER \<equiv> 23"
abbreviation (input) RIL_REQUEST_DTMF :: int where "RIL_REQUEST_DTMF \<equiv> 24"
abbreviation (input) RIL_REQUEST_SEND_SMS :: int where "RIL_REQUEST_SEND_SMS \<equiv> 25"
abbreviation (input) RIL_REQUEST_SEND_SMS_EXPECT_MORE :: int where "RIL_REQUEST_SEND_SMS_EXPECT_MORE \<equiv> 26"
abbreviation (input) RIL_REQUEST_SETUP_DATA_CALL :: int where "RIL_REQUEST_SETUP_DATA_CALL \<equiv> 27"
abbreviation (input) RIL_REQUEST_SIM_IO :: int where "RIL_REQUEST_SIM_IO \<equiv> 28"
abbreviation (input) RIL_REQUEST_SEND_USSD :: int where "RIL_REQUEST_SEND_USSD \<equiv> 29"
abbreviation (input) RIL_REQUEST_CANCEL_USSD :: int where "RIL_REQUEST_CANCEL_USSD \<equiv> 30"
abbreviation (input) RIL_REQUEST_SET_CLIR :: int where "RIL_REQUEST_SET_CLIR \<equiv> 32"
abbreviation (input) RIL_REQUEST_SMS_ACKNOWLEDGE :: int where "RIL_REQUEST_SMS_ACKNOWLEDGE \<equiv> 37"
abbreviation (input) RIL_REQUEST_GET_IMEI :: int where "RIL_REQUEST_GET_IMEI \<equiv> 38"
abbreviation (input) RIL_REQUEST_ANSWER :: int where "RIL_REQUEST_ANSWER \<equiv> 40"
abbreviation (input) RIL_REQUEST_DEACTIVATE_DATA_CALL :: int where "RIL_REQUEST_DEACTIVATE_DATA_CALL \<equiv> 41"
abbreviation (input) RIL_REQUEST_QUERY_NETWORK_SELECTION_MODE :: int where "RIL_REQUEST_QUERY_NETWORK_SELECTION_MODE \<equiv> 45"
abbreviation (input) RIL_REQUEST_SET_NETWORK_SELECTION_AUTOMATIC :: int where "RIL_REQUEST_SET_NETWORK_SELECTION_AUTOMATIC \<equiv> 46"
abbreviation (input) RIL_REQUEST_BASEBAND_VERSION :: int where "RIL_REQUEST_BASEBAND_VERSION \<equiv> 51"
abbreviation (input) RIL_REQUEST_SEPARATE_CONNECTION :: int where "RIL_REQUEST_SEPARATE_CONNECTION \<equiv> 52"
abbreviation (input) RIL_REQUEST_GET_MUTE :: int where "RIL_REQUEST_GET_MUTE \<equiv> 54"
abbreviation (input) RIL_REQUEST_DATA_CALL_LIST :: int where "RIL_REQUEST_DATA_CALL_LIST \<equiv> 57"
abbreviation (input) RIL_REQUEST_OEM_HOOK_RAW :: int where "RIL_REQUEST_OEM_HOOK_RAW \<equiv> 59"
abbreviation (input) RIL_REQUEST_OEM_HOOK_STRINGS :: int where "RIL_REQUEST_OEM_HOOK_STRINGS \<equiv> 60"
abbreviation (input) RIL_REQUEST_SET_SUPP_SVC_NOTIFICATION :: int where "RIL_REQUEST_SET_SUPP_SVC_NOTIFICATION \<equiv> 62"
abbreviation (input) RIL_REQUEST_WRITE_SMS_TO_SIM :: int where "RIL_REQUEST_WRITE_SMS_TO_SIM \<equiv> 63"
abbreviation (input) RIL_REQUEST_DELETE_SMS_ON_SIM :: int where "RIL_REQUEST_DELETE_SMS_ON_SIM \<equiv> 64"
abbreviation (input) RIL_REQUEST_SET_BAND_MODE :: int where "RIL_REQUEST_SET_BAND_MODE \<equiv> 65"
abbreviation (input) RIL_REQUEST_QUERY_AVAILABLE_BAND_MODE :: int where "RIL_REQUEST_QUERY_AVAILABLE_BAND_MODE \<equiv> 66"
abbreviation (input) RIL_REQUEST_SET_PREFERRED_NETWORK_TYPE :: int where "RIL_REQUEST_SET_PREFERRED_NETWORK_TYPE \<equiv> 73"
abbreviation (input) RIL_REQUEST_GET_PREFERRED_NETWORK_TYPE :: int where "RIL_REQUEST_GET_PREFERRED_NETWORK_TYPE \<equiv> 74"
abbreviation (input) RIL_REQUEST_GET_NEIGHBORING_CELL_IDS :: int where "RIL_REQUEST_GET_NEIGHBORING_CELL_IDS \<equiv> 75"
abbreviation (input) RIL_REQUEST_SET_LOCATION_UPDATES :: int where "RIL_REQUEST_SET_LOCATION_UPDATES \<equiv> 76"
abbreviation (input) RIL_REQUEST_CDMA_SET_SUBSCRIPTION_SOURCE :: int where "RIL_REQUEST_CDMA_SET_SUBSCRIPTION_SOURCE \<equiv> 77"
abbreviation (input) RIL_REQUEST_CDMA_SET_ROAMING_PREFERENCE :: int where "RIL_REQUEST_CDMA_SET_ROAMING_PREFERENCE \<equiv> 78"
abbreviation (input) RIL_REQUEST_CDMA_QUERY_ROAMING_PREFERENCE :: int where "RIL_REQUEST_CDMA_QUERY_ROAMING_PREFERENCE \<equiv> 79"
abbreviation (input) RIL_REQUEST_SET_TTY_MODE :: int where "RIL_REQUEST_SET_TTY_MODE \<equiv> 80"
abbreviation (input) RIL_REQUEST_QUERY_TTY_MODE :: int where "RIL_REQUEST_QUERY_TTY_MODE \<equiv> 81"
abbreviation (input) RIL_REQUEST_CDMA_SET_PREFERRED_VOICE_PRIVACY_MODE :: int where "RIL_REQUEST_CDMA_SET_PREFERRED_VOICE_PRIVACY_MODE \<equiv> 82"
abbreviation (input) RIL_REQUEST_CDMA_QUERY_PREFERRED_VOICE_PRIVACY_MODE :: int where "RIL_REQUEST_CDMA_QUERY_PREFERRED_VOICE_PRIVACY_MODE \<equiv> 83"
abbreviation (input) RIL_REQUEST_CDMA_SEND_SMS :: int where "RIL_REQUEST_CDMA_SEND_SMS \<equiv> 87"
abbreviation (input) RIL_REQUEST_CDMA_SUBSCRIPTION :: int where "RIL_REQUEST_CDMA_SUBSCRIPTION \<equiv> 95"
abbreviation (input) RIL_REQUEST_DEVICE_IDENTITY :: int where "RIL_REQUEST_DEVICE_IDENTITY \<equiv> 98"
abbreviation (input) RIL_REQUEST_EXIT_EMERGENCY_CALLBACK_MODE :: int where "RIL_REQUEST_EXIT_EMERGENCY_CALLBACK_MODE \<equiv> 99"
abbreviation (input) RIL_REQUEST_CDMA_GET_SUBSCRIPTION_SOURCE :: int where "RIL_REQUEST_CDMA_GET_SUBSCRIPTION_SOURCE \<equiv> 104"
abbreviation (input) RIL_REQUEST_VOICE_RADIO_TECH :: int where "RIL_REQUEST_VOICE_RADIO_TECH \<equiv> 108"
abbreviation (input) RIL_REQUEST_GET_CELL_INFO_LIST :: int where "RIL_REQUEST_GET_CELL_INFO_LIST \<equiv> 109"
abbreviation (input) RIL_REQUEST_SET_UNSOL_CELL_INFO_LIST_RATE :: int where "RIL_REQUEST_SET_UNSOL_CELL_INFO_LIST_RATE \<equiv> 110"
abbreviation (input) RIL_REQUEST_SET_INITIAL_ATTACH_APN :: int where "RIL_REQUEST_SET_INITIAL_ATTACH_APN \<equiv> 111"
abbreviation (input) RIL_REQUEST_IMS_REGISTRATION_STATE :: int where "RIL_REQUEST_IMS_REGISTRATION_STATE \<equiv> 112"
abbreviation (input) RIL_REQUEST_IMS_SEND_SMS :: int where "RIL_REQUEST_IMS_SEND_SMS \<equiv> 113"
abbreviation (input) RIL_REQUEST_SIM_OPEN_CHANNEL :: int where "RIL_REQUEST_SIM_OPEN_CHANNEL \<equiv> 115"
abbreviation (input) RIL_REQUEST_SIM_CLOSE_CHANNEL :: int where "RIL_REQUEST_SIM_CLOSE_CHANNEL \<equiv> 116"
abbreviation (input) RIL_REQUEST_SIM_TRANSMIT_APDU_CHANNEL :: int where "RIL_REQUEST_SIM_TRANSMIT_APDU_CHANNEL \<equiv> 117"
abbreviation (input) RIL_REQUEST_NV_RESET_CONFIG :: int where "RIL_REQUEST_NV_RESET_CONFIG \<equiv> 121"
abbreviation (input) RIL_REQUEST_ALLOW_DATA :: int where "RIL_REQUEST_ALLOW_DATA \<equiv> 123"
abbreviation (input) RIL_REQUEST_GET_HARDWARE_CONFIG :: int where "RIL_REQUEST_GET_HARDWARE_CONFIG \<equiv> 124"
abbreviation (input) RIL_REQUEST_SHUTDOWN :: int where "RIL_REQUEST_SHUTDOWN \<equiv> 129"
abbreviation (input) RIL_REQUEST_GET_RADIO_CAPABILITY :: int where "RIL_REQUEST_GET_RADIO_CAPABILITY \<equiv> 130"
abbreviation (input) RIL_REQUEST_START_LCE :: int where "RIL_REQUEST_START_LCE \<equiv> 132"
abbreviation (input) RIL_REQUEST_STOP_LCE :: int where "RIL_REQUEST_STOP_LCE \<equiv> 133"
abbreviation (input) RIL_REQUEST_PULL_LCEDATA :: int where "RIL_REQUEST_PULL_LCEDATA \<equiv> 134"
abbreviation (input) RIL_REQUEST_GET_ACTIVITY_INFO :: int where "RIL_REQUEST_GET_ACTIVITY_INFO \<equiv> 135"
abbreviation (input) RIL_REQUEST_SET_CARRIER_RESTRICTIONS :: int where "RIL_REQUEST_SET_CARRIER_RESTRICTIONS \<equiv> 136"
abbreviation (input) RIL_REQUEST_GET_CARRIER_RESTRICTIONS :: int where "RIL_REQUEST_GET_CARRIER_RESTRICTIONS \<equiv> 137"

section \<open>Structures\<close>

record ModemInfo =
  supportedTechs :: int
  currentTech :: int
  isMultimode :: int
  preferredNetworkMode :: int
  subscription_source :: int

text \<open>The fields of \<^verbatim>\<open>RIL_Call\<close> that the code assigns; the others stay zero.\<close>

record RIL_Call =
  call_state :: RIL_CallState
  call_index :: int
  toa :: int
  isMpty :: int
  isMT :: int
  isVoice :: bool
  number :: cptr

text \<open>
  \<^verbatim>\<open>RIL_SIM_IO_Response\<close>; the pointer may never have been assigned (\<open>None\<close>) or be NULL
  (\<open>Some None\<close>).
\<close>

record RIL_SIM_IO_Response =
  sw1 :: int
  sw2 :: int
  simResponse :: "cptr option"

record RIL_Data_Call_Response_v11 =
  status :: int
  suggestedRetryTime :: int
  cid :: int
  active :: int
  call_type :: string
  ifname :: string
  addresses :: string
  dnses :: string
  gateways :: string
  pcscf :: string
  mtu :: int

record RIL_AppStatus =
  app_type :: int
  app_state :: int
  perso_substate :: int
  aid_ptr :: cptr
  app_label_ptr :: cptr
  pin1_replaced :: int
  pin1 :: int
  pin2 :: int

record RIL_CardStatus_v6 =
  card_state :: int
  universal_pin_state :: int
  gsm_umts_subscription_app_index :: int
  cdma_subscription_app_index :: int
  ims_subscription_app_index :: int
  num_applications :: int
  applications :: "RIL_AppStatus list"

record RIL_CellInfoGsm =
  ci_type :: int
  ci_registered :: int
  ci_timeStampType :: int
  ci_arfcn :: int
  ci_bsic :: int
  ci_signalStrength :: int
  ci_bitErrorRate :: int
  ci_timingAdvance :: int
  ci_mcc :: int
  ci_mnc :: int
  ci_lac :: int
  ci_cid :: int
  ci_timeStamp :: "64 word"

record RIL_RadioCapability =
  rc_version :: int
  rc_session :: int
  rc_phase :: int
  rc_rat :: int
  rc_uuid :: string
  rc_status :: int

record RIL_SIM_IO_v6 =
  io_command :: int
  io_fileid :: int
  io_p1 :: int
  io_p2 :: int
  io_p3 :: int
  io_data :: cptr

record RIL_SIM_APDU =
  sessionid :: int
  cla :: int
  instruction :: int
  ap_p1 :: int
  ap_p2 :: int
  ap_p3 :: int
  ap_data :: cptr

section \<open>What goes in and out\<close>

text \<open>
  The \<^verbatim>\<open>data\<close> argument of \<^verbatim>\<open>onRequest\<close> by the types the requests document; \<open>DNone\<close> is NULL.
  \<^verbatim>\<open>datalen\<close> follows from it and the size of a pointer.
\<close>

datatype req_data =
    DNone
  | DInts "int list"
  | DStr string
  | DStrs "cptr list"
  | DDial string int                      \<comment> \<open>address, clir\<close>
  | DSmsWrite int string                  \<comment> \<open>status, pdu\<close>
  | DSimIO RIL_SIM_IO_v6
  | DApdu RIL_SIM_APDU
  | DCdmaSms
  | DImsSms int int req_data              \<comment> \<open>tech, retry, message\<close>

datatype payload =
    PNone
  | PInts "int list"
  | PStr cptr
  | PStrs "cptr list"
  | PCalls "RIL_Call list"
  | PSimIO RIL_SIM_IO_Response
  | PDataCalls "RIL_Data_Call_Response_v11 list"
  | PCard RIL_CardStatus_v6
  | PSms int
  | PCells "RIL_CellInfoGsm list"
  | PHwConfig int
  | PRadioCapability RIL_RadioCapability
  | PRaw req_data

type_synonym RIL_Token = nat

datatype timed_callback =
    CB_initializeCallback | CB_pollSIMState | CB_sendCallStateChanged | CB_onDataCallListChanged

text \<open>
  Calls into the RIL library: \<^verbatim>\<open>RIL_onRequestComplete\<close>, \<^verbatim>\<open>RIL_onUnsolicitedResponse\<close> and
  \<^verbatim>\<open>RIL_requestTimedCallback\<close> with its delay in microseconds.
\<close>

datatype act =
    Complete RIL_Token RIL_Errno payload
  | Unsol RIL_Unsol payload
  | Timed timed_callback int

text \<open>
  What the surroundings give: build options, system properties, the time, the network
  interfaces (each name with its up flag; whether the socket and the change of the flags
  succeed) and the \<^verbatim>\<open>/dev/qmi\<close> device.
\<close>

record qmi_device =
  qmi_writes :: "write_result list"
  qmi_reads :: "cptr list"                 \<comment> \<open>each status read; \<open>None\<close> is a read error\<close>
  qmi_system :: int                        \<comment> \<open>what \<^verbatim>\<open>system\<close> returns\<close>

record surroundings =
  USE_TI_COMMANDS :: bool
  POLL_CALL_STATE :: bool
  sizeof_ptr :: nat
  properties :: "string \<Rightarrow> cptr"
  clock_monotonic :: "int \<times> int"     \<comment> \<open>seconds and nanoseconds\<close>
  if_socket_ok :: bool
  if_set_ok :: bool
  qmi :: "qmi_device option"

text \<open>\<^verbatim>\<open>librilutils.c\<close>: the time as an unsigned 64-bit number of nanoseconds.\<close>

definition ril_nano_time :: "int \<times> int \<Rightarrow> 64 word" where
  "ril_nano_time now = word_of_int (fst now * 1000000000 + snd now)"

section \<open>The static variables\<close>

record ril = at_chan +
  sState :: RIL_RadioState
  s_closed :: bool
  sMdmInfo :: ModemInfo
  s_mcc :: int
  s_mnc :: int
  s_lac :: int
  s_cid :: int
  s_cell_info_rate_ms :: int
  s_ims_registered :: int
  s_ims_services :: int
  s_ims_format :: int
  s_ims_cause_retry :: int
  s_ims_cause_perm_failure :: int
  s_ims_gsm_retry :: int
  s_ims_gsm_fail :: int
  s_incomingOrWaitingLine :: int
  s_repollCallsCount :: int
  s_expectAnswer :: int
  ifaces :: "string \<Rightarrow> bool option"
  env :: surroundings
  acts :: "act list"

type_synonym 'a rprog = "(ril, 'a) prog"

section \<open>Calls into the library\<close>

definition do_act :: "act \<Rightarrow> unit rprog" where
  "do_act a = modify (\<lambda>s. s\<lparr>acts := acts s @ [a]\<rparr>)"

definition RIL_onRequestComplete :: "RIL_Token \<Rightarrow> RIL_Errno \<Rightarrow> payload \<Rightarrow> unit rprog" where
  "RIL_onRequestComplete t e p = do_act (Complete t e p)"

definition RIL_onUnsolicitedResponse :: "RIL_Unsol \<Rightarrow> payload \<Rightarrow> unit rprog" where
  "RIL_onUnsolicitedResponse u p = do_act (Unsol u p)"

definition RIL_requestTimedCallback :: "timed_callback \<Rightarrow> int \<Rightarrow> unit rprog" where
  "RIL_requestTimedCallback c d = do_act (Timed c d)"

lemmas act_defs = do_act_def RIL_onRequestComplete_def RIL_onUnsolicitedResponse_def
  RIL_requestTimedCallback_def

text \<open>\<^verbatim>\<open>1 << n\<close> on \<^verbatim>\<open>int\<close>: undefined unless the result fits.\<close>

definition shl1 :: "int \<Rightarrow> ('s, int) prog" where
  "shl1 n = (if 0 \<le> n \<and> n < 31 then ret (2 ^ nat n) else crash ShiftRange)"

text \<open>\<^verbatim>\<open>datalen\<close>; the handlers of the other types do not look at it.\<close>

definition sizeof_apdu :: "nat \<Rightarrow> nat" where
  "sizeof_apdu p = 24 + p"

fun datalen :: "nat \<Rightarrow> req_data \<Rightarrow> nat" where
  "datalen p DNone = 0"
| "datalen p (DInts vs) = 4 * length vs"
| "datalen p (DStr s) = length s + 1"
| "datalen p (DStrs ss) = p * length ss"
| "datalen p (DApdu a) = sizeof_apdu p"
| "datalen p _ = 0"

text \<open>Reading the data as the type a handler casts it to.\<close>

fun data_int :: "req_data \<Rightarrow> nat \<Rightarrow> int rprog" where
  "data_int (DInts vs) i = (if i < length vs then ret (vs ! i) else crash OutOfBounds)"
| "data_int DNone i = crash NullDeref"
| "data_int _ i = crash BadData"

fun data_str :: "req_data \<Rightarrow> nat \<Rightarrow> cptr rprog" where
  "data_str (DStrs ss) i = (if i < length ss then ret (ss ! i) else crash OutOfBounds)"
| "data_str DNone i = crash NullDeref"
| "data_str _ i = crash BadData"

text \<open>A string argument that is read through.\<close>

definition deref :: "cptr \<Rightarrow> string rprog" where
  "deref p = (case p of None \<Rightarrow> crash NullDeref | Some s \<Rightarrow> ret s)"

text \<open>\<^verbatim>\<open>%s\<close> of a pointer; the C library prints NULL as \<^verbatim>\<open>(null)\<close>.\<close>

definition fmt_s :: "cptr \<Rightarrow> string" where
  "fmt_s p = (case p of None \<Rightarrow> ''(null)'' | Some s \<Rightarrow> s)"

end
