(* ===== verification/LibState.thy ===== *)
theory LibState
  imports EventRound RilTables RilTypes
begin

text \<open>
  The state of the library, \<^verbatim>\<open>libril/ril.cpp\<close>: the event loop's, the requests and the timed callbacks
  in the heap, the lists of pending requests, the wake lock, and what has been sent to the client.
\<close>

section \<open>Data\<close>

record RequestInfo =
  ri_token :: int                    \<comment> \<open>the client's serial number\<close>
  ri_pCI :: nat                      \<comment> \<open>the row of \<^verbatim>\<open>s_commands\<close>\<close>
  ri_next :: "nat option"
  ri_cancelled :: int
  ri_local :: int
  ri_socket :: nat                   \<comment> \<open>\<^verbatim>\<open>RIL_SOCKET_1\<close> is 0\<close>
  ri_wasAckSent :: int

text \<open>What a timed callback runs: the wake lock's time-out or a function of the vendor library.\<close>

datatype timed_function = WakeTimeout | VendorCallback nat

text \<open>The event is embedded in the structure: that of the structure at \<open>a\<close> is \<open>Ev a\<close>.\<close>

record UserCallbackInfo =
  p_callback :: timed_function
  userParam :: nat                   \<comment> \<open>0 is NULL\<close>

definition RESPONSE_SOLICITED :: int where "RESPONSE_SOLICITED = 0"
definition RESPONSE_UNSOLICITED :: int where "RESPONSE_UNSOLICITED = 1"
definition RESPONSE_SOLICITED_ACK_EXP :: int where "RESPONSE_SOLICITED_ACK_EXP = 3"
definition RESPONSE_UNSOLICITED_ACK_EXP :: int where "RESPONSE_UNSOLICITED_ACK_EXP = 4"
definition RIL_VERSION_MIN :: int where "RIL_VERSION_MIN = 6"

text \<open>What goes to the client: by the socket (slot), with the type, the serial or the indication.\<close>

datatype lib_msg =
    MResponse nat int int RIL_Errno payload
  | MAck nat int
  | MIndication nat int int payload

text \<open>
  \<open>allocs\<close> are the addresses the allocator will return; \<open>None\<close>, and the end of the list, is out of
  memory. \<open>connected\<close> tells whether the service of a slot has a client, \<open>in_dispatch\<close> whether the code
  runs on the event loop's thread.
\<close>

record lib = ev_loop +
  SIM_COUNT :: nat
  callbacks_version :: int
  s_registerCalled :: int
  requests :: "nat \<Rightarrow> RequestInfo option"
  s_pendingRequests :: "nat \<Rightarrow> nat option"
  infos :: "nat \<Rightarrow> UserCallbackInfo option"
  s_wakelock_count :: int
  s_last_wake_timeout_info :: "nat option"
  wake_held :: bool
  s_lastNITZTimeData :: "payload option"
  allocs :: "nat option list"
  connected :: "nat \<Rightarrow> bool"
  in_dispatch :: bool
  wakeup_bytes :: nat
  sent :: "lib_msg list"

type_synonym 'a lprog = "(lib, 'a) prog"

section \<open>The heap\<close>

text \<open>
  \<^verbatim>\<open>calloc\<close>: an address that is not in use, or NULL. The allocator never returns a block twice, so an
  address that \<open>used\<close> rules out counts as NULL.
\<close>

definition calloc :: "(lib \<Rightarrow> nat \<Rightarrow> bool) \<Rightarrow> nat option lprog" where
  "calloc used s =
     (case allocs s of
        [] \<Rightarrow> Done None s
      | None # later \<Rightarrow> Done None (s\<lparr>allocs := later\<rparr>)
      | Some a # later \<Rightarrow> Done (if used s a then None else Some a) (s\<lparr>allocs := later\<rparr>))"

definition request_at :: "nat \<Rightarrow> RequestInfo lprog" where
  "request_at a = bnd (gets (\<lambda>s. requests s a)) (\<lambda>r.
     case r of None \<Rightarrow> crash UseAfterFree | Some r \<Rightarrow> ret r)"

definition set_request :: "nat \<Rightarrow> (RequestInfo \<Rightarrow> RequestInfo) \<Rightarrow> unit lprog" where
  "set_request a f = bnd (request_at a) (\<lambda>r. modify (\<lambda>s. s\<lparr>requests := (requests s)(a \<mapsto> f r)\<rparr>))"

definition free_request :: "nat \<Rightarrow> unit lprog" where
  "free_request a = bnd (request_at a) (\<lambda>_. modify (\<lambda>s. s\<lparr>requests := (requests s)(a := None)\<rparr>))"

definition info_at :: "nat \<Rightarrow> UserCallbackInfo lprog" where
  "info_at a = bnd (gets (\<lambda>s. infos s a)) (\<lambda>r. case r of None \<Rightarrow> crash UseAfterFree | Some r \<Rightarrow> ret r)"

definition set_info :: "nat \<Rightarrow> (UserCallbackInfo \<Rightarrow> UserCallbackInfo) \<Rightarrow> unit lprog" where
  "set_info a f = bnd (info_at a) (\<lambda>r. modify (\<lambda>s. s\<lparr>infos := (infos s)(a \<mapsto> f r)\<rparr>))"

definition send_msg :: "lib_msg \<Rightarrow> unit lprog" where
  "send_msg m = modify (\<lambda>s. s\<lparr>sent := sent s @ [m]\<rparr>)"

end
