(* ===== verification/LibRequests.thy ===== *)
theory LibRequests
  imports LibState
begin

text \<open>
  The requests of \<^verbatim>\<open>libril/ril.cpp\<close>: \<^verbatim>\<open>addRequestToList\<close>, the search through a list of pending requests
  with a pointer to the pointer, and the lists as the chains stand for them.
\<close>

section \<open>The lists of pending requests\<close>

text \<open>
  The list of a socket: with fewer SIM cards than sockets the first list serves the rest.
\<close>

definition pendingRequestsHook :: "nat \<Rightarrow> nat \<Rightarrow> nat" where
  "pendingRequestsHook sims socket_id =
     (if sims \<ge> 2 \<and> socket_id = 1 then 1
      else if sims \<ge> 3 \<and> socket_id = 2 then 2
      else if sims \<ge> 4 \<and> socket_id = 3 then 3 else 0)"

definition addRequestToList :: "int \<Rightarrow> nat \<Rightarrow> nat \<Rightarrow> nat option lprog" where
  "addRequestToList serial slotId request =
     bnd (calloc (\<lambda>s a. requests s a \<noteq> None)) (\<lambda>pRI.
       case pRI of
         None \<Rightarrow> ret None
       | Some a \<Rightarrow>
           if request \<ge> length s_commands then crash OutOfBounds
           else
             bnd (gets (\<lambda>s. pendingRequestsHook (SIM_COUNT s) slotId)) (\<lambda>k.
             andthen (modify (\<lambda>s. s\<lparr>requests := (requests s)(a \<mapsto> \<lparr>ri_token = serial, ri_pCI = request,
                 ri_next = s_pendingRequests s k, ri_cancelled = 0, ri_local = 0, ri_socket = slotId,
                 ri_wasAckSent = 0\<rparr>)\<rparr>))
             (andthen (modify (\<lambda>s. s\<lparr>s_pendingRequests := (s_pendingRequests s)(k := Some a)\<rparr>))
               (ret (Some a)))))"

text \<open>\<^verbatim>\<open>RequestInfo **ppCur\<close>: the head of a list or the \<^verbatim>\<open>p_next\<close> of a request.\<close>

datatype ppRequest = HeadOf nat | NextOf nat

definition pp_read :: "ppRequest \<Rightarrow> nat option lprog" where
  "pp_read pp = (case pp of
     HeadOf k \<Rightarrow> gets (\<lambda>s. s_pendingRequests s k)
   | NextOf a \<Rightarrow> bnd (request_at a) (\<lambda>r. ret (ri_next r)))"

definition pp_write :: "ppRequest \<Rightarrow> nat option \<Rightarrow> unit lprog" where
  "pp_write pp p = (case pp of
     HeadOf k \<Rightarrow> modify (\<lambda>s. s\<lparr>s_pendingRequests := (s_pendingRequests s)(k := p)\<rparr>)
   | NextOf a \<Rightarrow> set_request a (\<lambda>r. r\<lparr>ri_next := p\<rparr>))"

text \<open>
  The loop: it goes on with \<open>Inl ppCur\<close> and ends with \<open>Inr\<close> of whether the request was found.
\<close>

definition search_body :: "nat \<Rightarrow> bool \<Rightarrow> ppRequest + bool \<Rightarrow> (ppRequest + bool) lprog" where
  "search_body pRI isAck x = (case x of
     Inr b \<Rightarrow> ret (Inr b)
   | Inl ppCur \<Rightarrow>
       bnd (pp_read ppCur) (\<lambda>cur. case cur of
         None \<Rightarrow> ret (Inr False)
       | Some c \<Rightarrow>
           if pRI = c then
             andthen
               (if isAck then
                  bnd (request_at pRI) (\<lambda>r. whenever (ri_wasAckSent r \<noteq> 1) (set_request pRI (\<lambda>r. r\<lparr>ri_wasAckSent := 1\<rparr>)))
                else bnd (request_at c) (\<lambda>r. pp_write ppCur (ri_next r)))
               (ret (Inr True))
           else ret (Inl (NextOf c))))"

definition search_list :: "nat \<Rightarrow> bool \<Rightarrow> nat \<Rightarrow> bool lprog" where
  "search_list pRI isAck k =
     bnd (while_prog (\<lambda>x s. case x of Inl _ \<Rightarrow> True | Inr _ \<Rightarrow> False) (search_body pRI isAck) (Inl (HeadOf k)))
       (\<lambda>x. ret (x = Inr True))"

text \<open>With more than one SIM card the request is read before it is looked for.\<close>

definition checkAndDequeueRequestInfoIfAck :: "nat option \<Rightarrow> bool \<Rightarrow> bool lprog" where
  "checkAndDequeueRequestInfoIfAck pRI isAck =
     (case pRI of
        None \<Rightarrow> ret False
      | Some a \<Rightarrow>
          bnd (gets SIM_COUNT) (\<lambda>sims.
          bnd (if sims \<ge> 2 then bnd (request_at a) (\<lambda>r. ret (pendingRequestsHook sims (ri_socket r))) else ret 0)
            (search_list a isAck)))"

section \<open>What the chains stand for\<close>

fun chain :: "(nat \<Rightarrow> RequestInfo option) \<Rightarrow> nat option \<Rightarrow> nat list \<Rightarrow> bool" where
  "chain h p [] \<longleftrightarrow> p = None"
| "chain h p (a # as) \<longleftrightarrow> p = Some a \<and> (\<exists>r. h a = Some r \<and> chain h (ri_next r) as)"

text \<open>
  The pending requests \<open>L k\<close> of each of the four lists: linked, in no list twice, and each in the
  list of its socket.
\<close>

definition pending_ok :: "lib \<Rightarrow> (nat \<Rightarrow> nat list) \<Rightarrow> bool" where
  "pending_ok s L \<longleftrightarrow>
     (\<forall>k. chain (requests s) (s_pendingRequests s k) (L k) \<and> distinct (L k)
        \<and> (\<forall>j. j \<noteq> k \<longrightarrow> set (L j) \<inter> set (L k) = {})
        \<and> (\<forall>a\<in>set (L k). \<exists>r. requests s a = Some r \<and> ri_pCI r < length s_commands
             \<and> pendingRequestsHook (SIM_COUNT s) (ri_socket r) = k))"

lemma chain_alive: "chain h p as \<Longrightarrow> a \<in> set as \<Longrightarrow> h a \<noteq> None"
  by (induction as arbitrary: p) auto

lemma chain_update: "a \<notin> set as \<Longrightarrow> chain (h(a := x)) p as = chain h p as"
  by (induction as arbitrary: p) auto

lemma chain_same_next:
  "h a = Some r \<Longrightarrow> ri_next r' = ri_next r \<Longrightarrow> chain (h(a \<mapsto> r')) p as = chain h p as"
  by (induction as arbitrary: p) auto

lemma pending_alive: "pending_ok s L \<Longrightarrow> a \<in> set (L k) \<Longrightarrow> requests s a \<noteq> None"
  unfolding pending_ok_def by blast

lemma pending_disjoint: "pending_ok s L \<Longrightarrow> i \<noteq> j \<Longrightarrow> set (L i) \<inter> set (L j) = {}"
  unfolding pending_ok_def by blast

lemma pending_distinct: "pending_ok s L \<Longrightarrow> distinct (L k)"
  by (simp add: pending_ok_def)

lemma pending_unique: "pending_ok s L \<Longrightarrow> a \<in> set (L k) \<Longrightarrow> a \<in> set (L j) \<Longrightarrow> k = j"
  unfolding pending_ok_def by blast

text \<open>A new request goes to the front of its socket's list.\<close>

lemma addRequestToList_adds:
  assumes ok: "pending_ok s L" and al: "allocs s = Some a # later" and new: "requests s a = None"
    and req: "request < length s_commands" and k_def: "k = pendingRequestsHook (SIM_COUNT s) slotId"
  shows "\<exists>t. addRequestToList serial slotId request s = Done (Some a) t \<and> pending_ok t (L(k := a # L k))
    \<and> (\<exists>n. requests t = (requests s)(a \<mapsto> \<lparr>ri_token = serial, ri_pCI = request, ri_next = n, ri_cancelled = 0,
         ri_local = 0, ri_socket = slotId, ri_wasAckSent = 0\<rparr>))
    \<and> t = s\<lparr>allocs := later, requests := requests t, s_pendingRequests := s_pendingRequests t\<rparr>"
proof -
  let ?r = "\<lparr>ri_token = serial, ri_pCI = request, ri_next = s_pendingRequests s k, ri_cancelled = 0,
    ri_local = 0, ri_socket = slotId, ri_wasAckSent = 0\<rparr>"
  define t where "t = s\<lparr>allocs := later, requests := (requests s)(a \<mapsto> ?r),
    s_pendingRequests := (s_pendingRequests s)(k := Some a)\<rparr>"
  have run: "addRequestToList serial slotId request s = Done (Some a) t"
    using al new req by (simp add: addRequestToList_def calloc_def run_simps t_def k_def)
  have out: "a \<notin> set (L j)" for j using pending_alive [OF ok] new by blast
  have c: "chain (requests s) (s_pendingRequests s j) (L j)" for j using ok by (simp add: pending_ok_def)
  have "pending_ok t (L(k := a # L k))"
    unfolding pending_ok_def
  proof (intro allI conjI)
    fix j
    show "chain (requests t) (s_pendingRequests t j) ((L(k := a # L k)) j)"
      using c out by (simp add: t_def chain_update)
    show "distinct ((L(k := a # L k)) j)" using ok out by (simp add: pending_ok_def)
    show "i \<noteq> j \<longrightarrow> set ((L(k := a # L k)) i) \<inter> set ((L(k := a # L k)) j) = {}" for i
      using ok out by (auto simp: pending_ok_def)
    show "\<forall>b\<in>set ((L(k := a # L k)) j). \<exists>r. requests t b = Some r \<and> ri_pCI r < length s_commands
        \<and> pendingRequestsHook (SIM_COUNT t) (ri_socket r) = j"
      using ok out req by (auto simp: pending_ok_def t_def k_def)
  qed
  with run show ?thesis by (auto simp: t_def)
qed

text \<open>The search, from the request before the list's rest.\<close>

definition at_pp :: "lib \<Rightarrow> ppRequest \<Rightarrow> nat option \<Rightarrow> bool" where
  "at_pp s pp p \<longleftrightarrow> pp_read pp s = Done p s"

lemma at_pp_next: "requests s a = Some r \<Longrightarrow> at_pp s (NextOf a) (ri_next r)"
  by (simp add: at_pp_def pp_read_def request_at_def run_simps)

lemma search_misses:
  assumes "at_pp s pp p" and "chain (requests s) p as" and "a \<notin> set as"
  shows "while_prog (\<lambda>x s. case x of Inl _ \<Rightarrow> True | Inr _ \<Rightarrow> False) (search_body a isAck) (Inl pp) s = Done (Inr False) s"
  using assms
proof (induction as arbitrary: pp p)
  case Nil
  then have "search_body a isAck (Inl pp) s = Done (Inr False) s"
    by (simp add: search_body_def at_pp_def run_simps)
  then show ?case by (subst while_prog_step) (simp_all add: bnd_def while_prog_stop)
next
  case (Cons c as)
  then obtain r where r: "p = Some c" "requests s c = Some r" "chain (requests s) (ri_next r) as" by auto
  have "search_body a isAck (Inl pp) s = Done (Inl (NextOf c)) s"
    using Cons.prems r(1) by (simp add: search_body_def at_pp_def run_simps)
  moreover have "while_prog (\<lambda>x s. case x of Inl _ \<Rightarrow> True | Inr _ \<Rightarrow> False) (search_body a isAck) (Inl (NextOf c)) s
      = Done (Inr False) s"
    using Cons.IH [OF at_pp_next [OF r(2)] r(3)] Cons.prems(3) by simp
  ultimately show ?case by (subst while_prog_step) (simp_all add: bnd_def)
qed

lemma search_finds:
  assumes "at_pp s pp p" and "chain (requests s) p (us @ a # vs)" and "a \<notin> set us"
    and "requests s a = Some r"
  shows "while_prog (\<lambda>x s. case x of Inl _ \<Rightarrow> True | Inr _ \<Rightarrow> False) (search_body a isAck) (Inl pp) s
    = bnd (if isAck then whenever (ri_wasAckSent r \<noteq> 1) (set_request a (\<lambda>r. r\<lparr>ri_wasAckSent := 1\<rparr>))
           else pp_write (if us = [] then pp else NextOf (last us)) (ri_next r)) (\<lambda>_. ret (Inr True)) s"
  using assms
proof (induction us arbitrary: pp p)
  case Nil
  then show ?case
    by (subst while_prog_step)
      (auto simp: search_body_def at_pp_def request_at_def run_simps while_prog_stop split: outcome.split)
next
  case (Cons c us)
  then obtain q where q: "p = Some c" "requests s c = Some q" "chain (requests s) (ri_next q) (us @ a # vs)" by auto
  have "search_body a isAck (Inl pp) s = Done (Inl (NextOf c)) s"
    using Cons.prems q(1) by (simp add: search_body_def at_pp_def run_simps)
  then have "while_prog (\<lambda>x s. case x of Inl _ \<Rightarrow> True | Inr _ \<Rightarrow> False) (search_body a isAck) (Inl pp) s
      = while_prog (\<lambda>x s. case x of Inl _ \<Rightarrow> True | Inr _ \<Rightarrow> False) (search_body a isAck) (Inl (NextOf c)) s"
    by (subst while_prog_step) (simp_all add: bnd_def)
  also have "\<dots> = bnd (if isAck then whenever (ri_wasAckSent r \<noteq> 1) (set_request a (\<lambda>r. r\<lparr>ri_wasAckSent := 1\<rparr>))
           else pp_write (if us = [] then NextOf c else NextOf (last us)) (ri_next r)) (\<lambda>_. ret (Inr True)) s"
    using Cons.IH [OF at_pp_next [OF q(2)] q(3)] Cons.prems(3,4) by simp
  finally show ?case by simp
qed

text \<open>Unlinking a request from a chain.\<close>

lemma chain_unlink:
  assumes "chain h p (us @ a # vs)" and "distinct (us @ a # vs)" and "h a = Some r"
  shows "us = [] \<Longrightarrow> chain h (ri_next r) vs"
    and "us \<noteq> [] \<Longrightarrow> h (last us) = Some q \<Longrightarrow> chain (h(last us \<mapsto> q\<lparr>ri_next := ri_next r\<rparr>)) p (us @ vs)"
proof -
  show "us = [] \<Longrightarrow> chain h (ri_next r) vs" using assms by auto
  show "us \<noteq> [] \<Longrightarrow> h (last us) = Some q \<Longrightarrow> chain (h(last us \<mapsto> q\<lparr>ri_next := ri_next r\<rparr>)) p (us @ vs)"
    using assms(1,2)
  proof (induction us arbitrary: p)
    case (Cons c us)
    show ?case
    proof (cases us)
      case Nil
      with Cons.prems assms(3) have "chain h (ri_next r) vs" "c \<notin> set vs" "p = Some c" "h c = Some q" by auto
      moreover from this have "chain (h(c \<mapsto> q\<lparr>ri_next := ri_next r\<rparr>)) (ri_next r) vs"
        by (intro chain_update [THEN iffD2])
      moreover have "last (c # us) = c" using Nil by simp
      ultimately show ?thesis using Nil by (simp del: last.simps fun_upd_apply add: fun_upd_same)
    next
      case (Cons d ds)
      then obtain b where b: "p = Some c" "h c = Some b" "chain h (ri_next b) (us @ a # vs)"
        using Cons.prems by auto
      have "c \<noteq> last us" using Cons.prems \<open>us = d # ds\<close> by auto
      then show ?thesis using Cons.IH [of "ri_next b"] Cons.prems b \<open>us = d # ds\<close> by auto
    qed
  qed simp
qed

section \<open>Looking a token up\<close>

text \<open>The requests as they were, but for the links of the lists.\<close>

definition same_requests :: "lib \<Rightarrow> lib \<Rightarrow> bool" where
  "same_requests s t \<longleftrightarrow> (\<forall>b. (requests t b = None \<longleftrightarrow> requests s b = None)
     \<and> (\<forall>r. requests s b = Some r \<longrightarrow> (\<exists>n. requests t b = Some (r\<lparr>ri_next := n\<rparr>))))"

lemma search_start: "at_pp s (HeadOf k) (s_pendingRequests s k)"
  by (simp add: at_pp_def pp_read_def run_simps)

lemma check_runs:
  assumes "requests s a = Some r"
  shows "checkAndDequeueRequestInfoIfAck (Some a) isAck s
    = search_list a isAck (if SIM_COUNT s \<ge> 2 then pendingRequestsHook (SIM_COUNT s) (ri_socket r) else 0) s"
  using assms by (simp add: checkAndDequeueRequestInfoIfAck_def request_at_def run_simps)

lemma hook_single: "sims < 2 \<Longrightarrow> pendingRequestsHook sims k = 0"
  by (simp add: pendingRequestsHook_def)

lemma pending_request:
  assumes "pending_ok s L" and "a \<in> set (L k)"
  obtains r where "requests s a = Some r" "ri_pCI r < length s_commands"
    "checkAndDequeueRequestInfoIfAck (Some a) isAck s = search_list a isAck k s"
proof -
  from assms obtain r where r: "requests s a = Some r" "ri_pCI r < length s_commands"
    "pendingRequestsHook (SIM_COUNT s) (ri_socket r) = k" unfolding pending_ok_def by blast
  from that [OF r(1,2)] check_runs [OF r(1), of isAck] r(3) hook_single [of "SIM_COUNT s"] show thesis
    by (cases "SIM_COUNT s \<ge> 2") auto
qed

text \<open>An acknowledgement marks the request.\<close>

lemma check_ack:
  assumes ok: "pending_ok s L" and a: "a \<in> set (L k)"
  shows "\<exists>r t. requests s a = Some r \<and> checkAndDequeueRequestInfoIfAck (Some a) True s = Done True t
    \<and> t = s\<lparr>requests := (requests s)(a \<mapsto> r\<lparr>ri_wasAckSent := 1\<rparr>)\<rparr> \<and> pending_ok t L"
proof -
  from pending_request [OF assms, where isAck = True] obtain r where
    r: "requests s a = Some r" "checkAndDequeueRequestInfoIfAck (Some a) True s = search_list a True k s" by blast
  from a obtain us vs where L: "L k = us @ a # vs" "a \<notin> set us" by (metis split_list_first)
  have c: "chain (requests s) (s_pendingRequests s k) (us @ a # vs)" using ok L by (metis pending_ok_def)
  define t where "t = s\<lparr>requests := (requests s)(a \<mapsto> r\<lparr>ri_wasAckSent := 1\<rparr>)\<rparr>"
  have "search_list a True k s = Done True t"
    using search_finds [OF search_start c L(2) r(1), of True]
    by (cases r) (auto simp: search_list_def bnd_def set_request_def request_at_def whenever_def ret_def r(1) modify_def
        gets_def t_def fun_upd_idem)
  moreover have "pending_ok t L"
    unfolding pending_ok_def
  proof (intro allI conjI)
    fix j
    show "chain (requests t) (s_pendingRequests t j) (L j)"
      using ok r(1) by (simp add: t_def chain_same_next pending_ok_def)
    show "\<forall>b\<in>set (L j). \<exists>r. requests t b = Some r \<and> ri_pCI r < length s_commands
        \<and> pendingRequestsHook (SIM_COUNT t) (ri_socket r) = j"
    proof
      fix b assume "b \<in> set (L j)"
      then obtain x where "requests s b = Some x" "ri_pCI x < length s_commands"
        "pendingRequestsHook (SIM_COUNT s) (ri_socket x) = j" using ok unfolding pending_ok_def by blast
      then show "\<exists>r. requests t b = Some r \<and> ri_pCI r < length s_commands
          \<and> pendingRequestsHook (SIM_COUNT t) (ri_socket r) = j"
        using r(1) by (auto simp: t_def)
    qed
  qed (use ok in \<open>simp_all add: pending_ok_def\<close>)
  ultimately show ?thesis using r t_def by auto
qed

text \<open>A completion takes the request off its list and leaves it allocated.\<close>

lemma check_complete:
  assumes ok: "pending_ok s L" and a: "a \<in> set (L k)"
  shows "\<exists>r t. requests s a = Some r \<and> ri_pCI r < length s_commands
    \<and> checkAndDequeueRequestInfoIfAck (Some a) False s = Done True t
    \<and> t = s\<lparr>requests := requests t, s_pendingRequests := s_pendingRequests t\<rparr> \<and> same_requests s t
    \<and> requests t a = Some r \<and> pending_ok t (L(k := remove1 a (L k)))"
proof -
  from pending_request [OF assms, where isAck = False] obtain r where
    r: "requests s a = Some r" "ri_pCI r < length s_commands"
      "checkAndDequeueRequestInfoIfAck (Some a) False s = search_list a False k s" by blast
  from a obtain us vs where L: "L k = us @ a # vs" "a \<notin> set us" by (metis split_list_first)
  have c: "chain (requests s) (s_pendingRequests s k) (us @ a # vs)" using ok L by (metis pending_ok_def)
  have d: "distinct (us @ a # vs)" using ok L by (metis pending_ok_def)
  have rm: "remove1 a (L k) = us @ vs" using L by (simp add: remove1_append)
  have search: "search_list a False k s
      = bnd (bnd (pp_write (if us = [] then HeadOf k else NextOf (last us)) (ri_next r)) (\<lambda>_. ret (Inr True :: ppRequest + bool)))
          (\<lambda>x. ret (x = Inr True)) s"
    using search_finds [OF search_start c L(2) r(1), of False] by (simp add: search_list_def bnd_def)
  have others: "chain (requests s) (s_pendingRequests s j) (L j)" for j using ok by (simp add: pending_ok_def)
  have sub: "set ((L(k := us @ vs)) j) \<subseteq> set (L j)" for j using L by auto
  have basics: "distinct ((L(k := us @ vs)) j)"
    "i \<noteq> j \<Longrightarrow> set ((L(k := us @ vs)) i) \<inter> set ((L(k := us @ vs)) j) = {}" for i j
    using d pending_distinct [OF ok, of j] pending_disjoint [OF ok, of i j] sub [of i] sub [of j] by auto
  show ?thesis
  proof (cases "us = []")
    case True
    define t where "t = s\<lparr>s_pendingRequests := (s_pendingRequests s)(k := ri_next r)\<rparr>"
    have "search_list a False k s = Done True t"
      unfolding search using True by (simp add: pp_write_def run_simps t_def)
    moreover have "pending_ok t (L(k := us @ vs))"
      unfolding pending_ok_def
    proof (intro allI conjI)
      fix j
      show "chain (requests t) (s_pendingRequests t j) ((L(k := us @ vs)) j)"
        using others chain_unlink(1) [OF c d r(1) True] True by (simp add: t_def)
      show "\<forall>b\<in>set ((L(k := us @ vs)) j). \<exists>r. requests t b = Some r \<and> ri_pCI r < length s_commands
          \<and> pendingRequestsHook (SIM_COUNT t) (ri_socket r) = j"
        using ok sub [of j] by (auto simp: pending_ok_def t_def)
    qed (use basics in auto)
    moreover have "same_requests s t"
      unfolding same_requests_def t_def by (simp, metis RequestInfo.surjective RequestInfo.update_convs(3))
    ultimately show ?thesis using r rm by (intro exI [of _ r] exI [of _ t]) (simp add: t_def)
  next
    case False
    define p where "p = last us"
    have p: "p \<in> set us" using False by (simp add: p_def)
    with c have "requests s p \<noteq> None" using chain_alive [OF c] by auto
    then obtain q where q: "requests s p = Some q" by blast
    have pa: "p \<noteq> a" using p L(2) by blast
    define h where "h = (requests s)(p \<mapsto> q\<lparr>ri_next := ri_next r\<rparr>)"
    define t where "t = s\<lparr>requests := h\<rparr>"
    have "search_list a False k s = Done True t"
      unfolding search using False q
      by (simp add: pp_write_def set_request_def request_at_def run_simps t_def h_def p_def [symmetric])
    moreover have "pending_ok t (L(k := us @ vs))"
      unfolding pending_ok_def
    proof (intro allI conjI)
      fix j
      show "chain (requests t) (s_pendingRequests t j) ((L(k := us @ vs)) j)"
      proof (cases "j = k")
        case True
        then show ?thesis
          using chain_unlink(2) [OF c d r(1) False q [unfolded p_def]] by (simp add: t_def h_def p_def)
      next
        case False
        then have "set (L j) \<inter> set (L k) = {}" using ok unfolding pending_ok_def by blast
        then have "p \<notin> set (L j)" using p L(1) by auto
        then show ?thesis using others [of j] False by (simp add: t_def h_def chain_update)
      qed
      show "\<forall>b\<in>set ((L(k := us @ vs)) j). \<exists>r. requests t b = Some r \<and> ri_pCI r < length s_commands
          \<and> pendingRequestsHook (SIM_COUNT t) (ri_socket r) = j"
      proof
        fix b assume "b \<in> set ((L(k := us @ vs)) j)"
        then have "b \<in> set (L j)" using sub by blast
        then obtain x where "requests s b = Some x" "ri_pCI x < length s_commands"
          "pendingRequestsHook (SIM_COUNT s) (ri_socket x) = j" using ok unfolding pending_ok_def by blast
        then show "\<exists>r. requests t b = Some r \<and> ri_pCI r < length s_commands
            \<and> pendingRequestsHook (SIM_COUNT t) (ri_socket r) = j"
          using q by (auto simp: t_def h_def)
      qed
    qed (use basics in auto)
    moreover have "same_requests s t"
      unfolding same_requests_def
    proof (intro allI conjI impI)
      show "(requests t b = None) = (requests s b = None)" for b using q by (simp add: t_def h_def)
      show "\<exists>n. requests t b = Some (x\<lparr>ri_next := n\<rparr>)" if "requests s b = Some x" for b x
        using that q by (cases "b = p") (auto simp: t_def h_def intro: exI [of _ "ri_next x"])
    qed
    moreover have "requests t a = Some r" using r(1) pa by (simp add: t_def h_def)
    ultimately show ?thesis using r rm by (intro exI [of _ r] exI [of _ t]) (simp add: t_def)
  qed
qed

text \<open>A token that is not pending: with one SIM card it is not found; with more it is read first.\<close>

lemma check_unknown:
  assumes ok: "pending_ok s L" and "SIM_COUNT s < 2" and "a \<notin> set (L 0)"
  shows "checkAndDequeueRequestInfoIfAck (Some a) isAck s = Done False s"
proof -
  have c: "chain (requests s) (s_pendingRequests s 0) (L 0)" using ok by (simp add: pending_ok_def)
  from search_misses [OF search_start c assms(3), of isAck] assms(2) show ?thesis
    by (simp add: checkAndDequeueRequestInfoIfAck_def search_list_def run_simps)
qed

lemma check_freed:
  "SIM_COUNT s \<ge> 2 \<Longrightarrow> requests s a = None \<Longrightarrow> checkAndDequeueRequestInfoIfAck (Some a) isAck s = Crash UseAfterFree"
  by (simp add: checkAndDequeueRequestInfoIfAck_def request_at_def run_simps)

end
