(* ===== verification/LibWake.thy ===== *)
theory LibWake
  imports LibState
begin

text \<open>
  Timed callbacks and the wake lock of \<^verbatim>\<open>libril/ril.cpp\<close>. A callback's event is embedded in its
  \<^verbatim>\<open>UserCallbackInfo\<close>, so that the address of the one stands for the other.
\<close>

section \<open>Timed callbacks\<close>

text \<open>A byte in the pipe wakes \<^verbatim>\<open>select\<close>; on the loop's own thread there is no need to.\<close>

definition triggerEvLoop :: "unit lprog" where
  "triggerEvLoop = bnd (gets in_dispatch) (\<lambda>d. whenever (\<not> d) (modify (\<lambda>s. s\<lparr>wakeup_bytes := wakeup_bytes s + 1\<rparr>)))"

text \<open>\<^verbatim>\<open>calloc\<close> clears the event too. The address 0 is NULL.\<close>

definition internalRequestTimedCallback :: "timed_function \<Rightarrow> nat \<Rightarrow> timeval option \<Rightarrow> nat option lprog" where
  "internalRequestTimedCallback callback param relativeTime =
     bnd (calloc (\<lambda>s a. a = 0 \<or> infos s a \<noteq> None)) (\<lambda>p_info.
       case p_info of
         None \<Rightarrow> ret None
       | Some a \<Rightarrow>
           andthen (seqs
             [wr (Ev a) (\<lambda>_. zero_event),
              modify (\<lambda>s. s\<lparr>infos := (infos s)(a \<mapsto> \<lparr>p_callback = callback, userParam = param\<rparr>)\<rparr>),
              ril_event_set (Ev a) (-1) False CB_userTimer (Some a),
              ril_timer_add (Ev a) (Some (case relativeTime of None \<Rightarrow> (0, 0) | Some tv \<Rightarrow> tv)),
              triggerEvLoop])
             (ret (Some a)))"

definition RIL_requestTimedCallback_impl :: "timed_function \<Rightarrow> nat \<Rightarrow> timeval option \<Rightarrow> unit lprog" where
  "RIL_requestTimedCallback_impl callback param relativeTime =
     bnd (internalRequestTimedCallback callback param relativeTime) (\<lambda>_. ret ())"

section \<open>The wake lock\<close>

definition TIMEVAL_WAKE_TIMEOUT :: timeval where "TIMEVAL_WAKE_TIMEOUT = (0, 200000)"

definition acquire_wake_lock :: "unit lprog" where "acquire_wake_lock = modify (\<lambda>s. s\<lparr>wake_held := True\<rparr>)"
definition release_wake_lock :: "unit lprog" where "release_wake_lock = modify (\<lambda>s. s\<lparr>wake_held := False\<rparr>)"

text \<open>\<^verbatim>\<open>s_last_wake_timeout_info->userParam = (void *)1\<close>: the time-out is cancelled.\<close>

definition cancel_last :: "unit lprog" where
  "cancel_last = bnd (gets s_last_wake_timeout_info) (\<lambda>last.
     case last of None \<Rightarrow> ret () | Some l \<Rightarrow> set_info l (\<lambda>i. i\<lparr>userParam := 1\<rparr>))"

definition set_last :: "nat \<Rightarrow> unit lprog" where
  "set_last a = andthen cancel_last (modify (\<lambda>s. s\<lparr>s_last_wake_timeout_info := Some a\<rparr>))"

definition grabPartialWakeLock :: "unit lprog" where
  "grabPartialWakeLock =
     bnd (gets callbacks_version) (\<lambda>version.
       if version \<ge> 13 then
         andthen acquire_wake_lock
           (bnd (internalRequestTimedCallback WakeTimeout 0 (Some TIMEVAL_WAKE_TIMEOUT)) (\<lambda>p_info.
             case p_info of
               None \<Rightarrow> release_wake_lock
             | Some a \<Rightarrow> andthen (modify (\<lambda>s. s\<lparr>s_wakelock_count := s_wakelock_count s + 1\<rparr>)) (set_last a)))
       else acquire_wake_lock)"

definition releaseWakeLock :: "unit lprog" where
  "releaseWakeLock =
     bnd (gets callbacks_version) (\<lambda>version.
       if version \<ge> 13 then
         bnd (gets s_wakelock_count) (\<lambda>n.
           if n > 1 then modify (\<lambda>s. s\<lparr>s_wakelock_count := n - 1\<rparr>)
           else seqs [modify (\<lambda>s. s\<lparr>s_wakelock_count := 0\<rparr>), release_wake_lock, cancel_last])
       else release_wake_lock)"

definition wakeTimeoutCallback :: "nat \<Rightarrow> unit lprog" where
  "wakeTimeoutCallback param =
     bnd (gets callbacks_version) (\<lambda>version.
       if version \<ge> 13 then
         whenever (param = 0) (andthen (modify (\<lambda>s. s\<lparr>s_wakelock_count := 0\<rparr>)) release_wake_lock)
       else whenever (param = 0) releaseWakeLock)"

section \<open>The invariant\<close>

text \<open>The event of the pipe is \<open>Ev 0\<close>; every other event is in a \<^verbatim>\<open>UserCallbackInfo\<close>.\<close>

definition callable :: "lib \<Rightarrow> eref \<Rightarrow> bool" where
  "callable s e \<longleftrightarrow> (case e of
     Ev a \<Rightarrow> if a = 0 then fst (call_of s e) = Some CB_processWakeup
             else fst (call_of s e) = Some CB_userTimer \<and> snd (snd (call_of s e)) = Some a \<and> infos s a \<noteq> None
   | _ \<Rightarrow> False)"

text \<open>
  The events \<open>E\<close> are those of the timed callbacks in the heap, each with its own structure as its
  parameter (none is lost, none is freed while it waits), and maybe that of the pipe.
\<close>

definition callbacks_ok :: "lib \<Rightarrow> eref set \<Rightarrow> bool" where
  "callbacks_ok s E \<longleftrightarrow> (\<forall>e\<in>E \<union> watched s. callable s e) \<and> watched s \<subseteq> {Ev 0} \<and> infos s 0 = None
     \<and> (\<forall>a. infos s a \<noteq> None \<longrightarrow> Ev a \<in> E)
     \<and> (\<forall>l. s_last_wake_timeout_info s = Some l \<longrightarrow> (\<exists>u. infos s l = Some \<lparr>p_callback = WakeTimeout, userParam = u\<rparr>))
     \<and> s_wakelock_count s \<ge> 0"

text \<open>A held wake lock has a timer that will let it go and that has not been cancelled.\<close>

definition wake_ok :: "lib \<Rightarrow> bool" where
  "wake_ok s \<longleftrightarrow> (wake_held s \<longrightarrow>
     (\<exists>l. s_last_wake_timeout_info s = Some l \<and> infos s l = Some \<lparr>p_callback = WakeTimeout, userParam = 0\<rparr>)
     \<and> (callbacks_version s \<ge> 13 \<longrightarrow> s_wakelock_count s \<ge> 1))"

lemma callable_fields [simp]:
  "callable (s\<lparr>wake_held := b\<rparr>) e = callable s e" "callable (s\<lparr>sent := m\<rparr>) e = callable s e"
  "callable (s\<lparr>s_lastNITZTimeData := d\<rparr>) e = callable s e" "callable (s\<lparr>allocs := as\<rparr>) e = callable s e"
  "callable (s\<lparr>requests := h\<rparr>) e = callable s e" "callable (s\<lparr>s_pendingRequests := l\<rparr>) e = callable s e"
  "callable (s\<lparr>s_wakelock_count := n\<rparr>) e = callable s e" "callable (s\<lparr>wakeup_bytes := n'\<rparr>) e = callable s e"
  by (cases e; simp add: callable_def call_of_def)+

lemma callbacks_ok_fields [simp]:
  "callbacks_ok (s\<lparr>wake_held := b\<rparr>) E = callbacks_ok s E" "callbacks_ok (s\<lparr>sent := m\<rparr>) E = callbacks_ok s E"
  "callbacks_ok (s\<lparr>s_lastNITZTimeData := d\<rparr>) E = callbacks_ok s E" "callbacks_ok (s\<lparr>allocs := as\<rparr>) E = callbacks_ok s E"
  "callbacks_ok (s\<lparr>requests := h\<rparr>) E = callbacks_ok s E"
  "callbacks_ok (s\<lparr>s_pendingRequests := l\<rparr>) E = callbacks_ok s E"
  "callbacks_ok (s\<lparr>wakeup_bytes := n'\<rparr>) E = callbacks_ok s E"
  by (simp_all add: callbacks_ok_def watched_def)

lemma callbacks_ok_count: "callbacks_ok s E \<Longrightarrow> n \<ge> 0 \<Longrightarrow> callbacks_ok (s\<lparr>s_wakelock_count := n\<rparr>) E"
  by (simp add: callbacks_ok_def watched_def)

lemma wake_ok_fields [simp]:
  "wake_ok (s\<lparr>sent := m\<rparr>) = wake_ok s" "wake_ok (s\<lparr>s_lastNITZTimeData := d\<rparr>) = wake_ok s"
  "wake_ok (s\<lparr>allocs := as\<rparr>) = wake_ok s" "wake_ok (s\<lparr>requests := h\<rparr>) = wake_ok s"
  "wake_ok (s\<lparr>s_pendingRequests := l\<rparr>) = wake_ok s" "wake_ok (s\<lparr>wakeup_bytes := n'\<rparr>) = wake_ok s"
  by (simp_all add: wake_ok_def)

lemma callbacks_alive:
  assumes "callbacks_ok s E" and "Ev a \<in> E \<union> watched s" and "a \<noteq> 0"
  shows "infos s a \<noteq> None"
proof -
  have "callable s (Ev a)" using assms(1,2) unfolding callbacks_ok_def by blast
  with assms(3) show ?thesis by (simp add: callable_def)
qed

lemma more_fields:
  assumes "ev_loop.more t = ev_loop.more (s :: lib)"
  shows "infos t = infos s" "allocs t = allocs s" "in_dispatch t = in_dispatch s" "wakeup_bytes t = wakeup_bytes s"
    "s_last_wake_timeout_info t = s_last_wake_timeout_info s" "s_wakelock_count t = s_wakelock_count s"
    "wake_held t = wake_held s" "callbacks_version t = callbacks_version s" "SIM_COUNT t = SIM_COUNT s"
    "requests t = requests s" "s_pendingRequests t = s_pendingRequests s" "sent t = sent s"
    "s_lastNITZTimeData t = s_lastNITZTimeData s" "connected t = connected s" "s_registerCalled t = s_registerCalled s"
  using assms by (cases t; cases s; simp)+

lemma loop_ok_cong:
  "mem t = mem s \<Longrightarrow> watch_table t = watch_table s \<Longrightarrow> readFds t = readFds s \<Longrightarrow> nfds t = nfds s
    \<Longrightarrow> loop_ok t ts ps = loop_ok s ts ps"
  by (simp add: loop_ok_def ev_lists_def sorted_timers_def table_ok_def slot_ok_def watched_def)

lemma loop_ok_fields:
  assumes "loop_ok s ts ps" and "e \<notin> set ts" "e \<notin> set ps" "e \<notin> watched s" "e \<noteq> TimerList" "e \<noteq> PendingList"
    and "\<And>x. x \<noteq> e \<Longrightarrow> mem t x = mem s x"
    and "watch_table t = watch_table s" "readFds t = readFds s" "nfds t = nfds s"
  shows "loop_ok t ts ps"
proof -
  have "watched t = watched s" using assms(8) by (simp add: watched_def)
  with assms show ?thesis
    unfolding loop_ok_def
    using ev_lists_fields [of s ts ps e t] table_ok_fields [of s e t] sorted_fields [of s ts e t] by metis
qed

text \<open>The library's own state beside the loop's, the heap of callbacks and the pipe.\<close>

definition same_lib :: "lib \<Rightarrow> lib \<Rightarrow> bool" where
  "same_lib s t \<longleftrightarrow> s_last_wake_timeout_info t = s_last_wake_timeout_info s \<and> s_wakelock_count t = s_wakelock_count s
    \<and> wake_held t = wake_held s \<and> callbacks_version t = callbacks_version s \<and> SIM_COUNT t = SIM_COUNT s
    \<and> requests t = requests s \<and> s_pendingRequests t = s_pendingRequests s \<and> sent t = sent s
    \<and> s_lastNITZTimeData t = s_lastNITZTimeData s \<and> connected t = connected s \<and> s_registerCalled t = s_registerCalled s
    \<and> in_dispatch t = in_dispatch s \<and> fired t = fired s \<and> monotonic t = monotonic s \<and> watched t = watched s"

lemma calloc_spec: "\<exists>r later. calloc used s = Done r (s\<lparr>allocs := later\<rparr>) \<and> (\<forall>a. r = Some a \<longrightarrow> \<not> used s a)"
proof (cases "allocs s")
  case Nil
  then have "s = s\<lparr>allocs := []\<rparr>" by simp
  with Nil show ?thesis by (intro exI [of _ None] exI [of _ "[]"]) (simp add: calloc_def)
next
  case (Cons x later)
  then show ?thesis by (cases x) (auto simp: calloc_def)
qed

lemma triggerEvLoop_runs:
  "\<exists>t. triggerEvLoop s = Done () t \<and> t = s\<lparr>wakeup_bytes := wakeup_bytes t\<rparr>"
  by (simp add: triggerEvLoop_def run_simps)

lemma same_lib_simps:
  assumes "same_lib s t"
  shows "s_last_wake_timeout_info t = s_last_wake_timeout_info s" "s_wakelock_count t = s_wakelock_count s"
    "wake_held t = wake_held s" "callbacks_version t = callbacks_version s" "SIM_COUNT t = SIM_COUNT s"
    "requests t = requests s" "s_pendingRequests t = s_pendingRequests s" "sent t = sent s"
    "s_lastNITZTimeData t = s_lastNITZTimeData s" "connected t = connected s" "s_registerCalled t = s_registerCalled s"
    "in_dispatch t = in_dispatch s" "fired t = fired s" "monotonic t = monotonic s" "watched t = watched s"
  using assms by (simp_all add: same_lib_def)

text \<open>A new timed callback: a structure of its own, whose event is among the timers.\<close>

lemma timed_callback_adds:
  assumes ok: "loop_ok s ts ps" and cb: "callbacks_ok s (E \<union> set ts \<union> set ps)"
  shows "\<exists>r t ts'. internalRequestTimedCallback callback param rel s = Done r t \<and> loop_ok t ts' ps \<and> same_lib s t
    \<and> (case r of
        None \<Rightarrow> ts' = ts \<and> infos t = infos s \<and> mem t = mem s
      | Some a \<Rightarrow> a \<noteq> 0 \<and> infos s a = None \<and> set ts' = insert (Ev a) (set ts)
          \<and> infos t = (infos s)(a \<mapsto> \<lparr>p_callback = callback, userParam = param\<rparr>)
          \<and> (\<forall>e. call_of t e = (if e = Ev a then (Some CB_userTimer, -1, Some a) else call_of s e))
          \<and> ev_timeout (mem t (Ev a)) = timeradd (time_now s) (case rel of None \<Rightarrow> (0, 0) | Some tv \<Rightarrow> tv)
          \<and> (allocs s = Some b # later \<longrightarrow> a = b))"
proof -
  from calloc_spec [of "\<lambda>s a. a = 0 \<or> infos s a \<noteq> None" s] obtain r rest where
    c: "calloc (\<lambda>s a. a = 0 \<or> infos s a \<noteq> None) s = Done r (s\<lparr>allocs := rest\<rparr>)"
    and r: "\<And>a. r = Some a \<Longrightarrow> a \<noteq> 0 \<and> infos s a = None" by auto
  let ?u = "s\<lparr>allocs := rest\<rparr>"
  have oku: "loop_ok ?u ts ps" using ok by (subst loop_ok_cong) simp_all
  show ?thesis
  proof (cases r)
    case None
    have "internalRequestTimedCallback callback param rel s = Done None ?u"
      using c None by (simp add: internalRequestTimedCallback_def bnd_def ret_def)
    with oku show ?thesis
      by (intro exI [of _ None] exI [of _ ?u] exI [of _ ts]) (simp add: same_lib_def watched_def)
  next
    case (Some a)
    from r [OF Some] have a: "a \<noteq> 0" "infos s a = None" by auto
    define tv where "tv = (case rel of None \<Rightarrow> (0, 0) | Some tv \<Rightarrow> tv)"
    define e0 where "e0 = zero_event\<lparr>ev_fd := -1, ev_index := -1, ev_persist := False,
        ev_func := Some CB_userTimer, ev_param := Some a\<rparr>"
    define v where "v = ?u\<lparr>infos := (infos s)(a \<mapsto> \<lparr>p_callback = callback, userParam = param\<rparr>),
        mem := (mem s)(Ev a := e0)\<rparr>"
    have new: "Ev a \<notin> set ts" "Ev a \<notin> set ps" "Ev a \<notin> watched s"
      using callbacks_alive [OF cb, of a] a by auto
    have okv: "loop_ok v ts ps"
      by (rule loop_ok_fields [OF ok new]) (simp_all add: v_def)
    have wv: "watched v = watched s" by (simp add: v_def watched_def)
    from timer_add_inserts [OF okv new(1,2) _ _ _ refl, of tv] new(3) wv obtain t1 where
      t1: "ril_timer_add (Ev a) (Some tv) v = Done () t1"
        "loop_ok t1 (timer_insert (\<lambda>x. ev_timeout (mem (due_at v (Ev a) tv) x)) (Ev a) ts) ps"
        "kept (due_at v (Ev a) tv) t1" "watched t1 = watched s" by auto
    from triggerEvLoop_runs [of t1] obtain t where
      t: "triggerEvLoop t1 = Done () t" "t = t1\<lparr>wakeup_bytes := wakeup_bytes t\<rparr>" by blast
    have t_of: "mem t = mem t1" "watch_table t = watch_table t1" "readFds t = readFds t1" "nfds t = nfds t1"
      "fired t = fired t1" "monotonic t = monotonic t1" "infos t = infos t1"
      by (subst t(2), simp)+
    have run: "internalRequestTimedCallback callback param rel s = Done (Some a) t"
      using c Some t1(1) t(1) by (simp add: internalRequestTimedCallback_def ril_event_set_def wr_def run_simps
          tv_def [symmetric] v_def e0_def zero_event_def)
    have more: "ev_loop.more t1 = ev_loop.more v" using t1(3) by (simp add: kept_def due_at_def)
    have time: "monotonic t1 = monotonic v" "fired t1 = fired v" using t1(3) by (simp_all add: kept_def due_at_def)
    have "watched t = watched t1" by (simp add: watched_def t_of)
    then have same: "same_lib s t"
      unfolding same_lib_def by (subst t(2), simp add: more_fields [OF more] t1(4) t_of time v_def)+
    have "mem (due_at v (Ev a) tv) e = mem s e" if "e \<noteq> Ev a" for e using that by (simp add: due_at_def v_def)
    then have call: "call_of t e = (if e = Ev a then (Some CB_userTimer, -1, Some a) else call_of s e)" for e
      using kept_call [OF t1(3), of e] by (simp add: call_of_def t_of due_at_def v_def e0_def split: if_splits)
    have "infos t = (infos s)(a \<mapsto> \<lparr>p_callback = callback, userParam = param\<rparr>)"
      by (simp add: t_of more_fields [OF more] v_def)
    moreover have "ev_timeout (mem t (Ev a)) = timeradd (time_now s) (case rel of None \<Rightarrow> (0, 0) | Some tv \<Rightarrow> tv)"
      using kept_fields(1) [OF t1(3), of "Ev a"] by (simp add: t_of due_at_def v_def time_now_def tv_def)
    moreover have "a = b" if "allocs s = Some b # later"
      using c Some that by (auto simp: calloc_def split: if_splits)
    moreover have "set (timer_insert d (Ev a) ts) = insert (Ev a) (set ts)" for d
      by (metis (no_types) Un_insert_right list.simps(15) set_append takeWhile_dropWhile_id timer_insert_def)
    moreover have "loop_ok t (timer_insert (\<lambda>x. ev_timeout (mem (due_at v (Ev a) tv) x)) (Ev a) ts) ps"
      using t1(2) by (subst loop_ok_cong [OF t_of(1-4)])
    ultimately show ?thesis using run same call a by (intro exI conjI) auto
  qed
qed

lemma callbacks_grow:
  assumes cb: "callbacks_ok s E" and new: "infos s a = None" "a \<noteq> 0" and w: "watched t = watched s"
    and i: "infos t = (infos s)(a \<mapsto> x)"
    and c: "\<forall>e. call_of t e = (if e = Ev a then (Some CB_userTimer, -1, Some a) else call_of s e)"
    and l: "s_last_wake_timeout_info t = s_last_wake_timeout_info s" "s_wakelock_count t = s_wakelock_count s"
  shows "callbacks_ok t (insert (Ev a) E)"
proof -
  have "callable t e" if e: "e \<in> insert (Ev a) E \<union> watched s" for e
  proof (cases "e = Ev a")
    case True
    then show ?thesis using c i new by (simp add: callable_def)
  next
    case False
    then have "callable s e" using cb e unfolding callbacks_ok_def by blast
    then show ?thesis using False c i by (auto simp: callable_def split: eref.splits if_splits)
  qed
  then show ?thesis
    using cb new unfolding callbacks_ok_def w i l by (auto split: if_splits)
qed

section \<open>Operations that keep the invariant\<close>

text \<open>
  What an operation may change while events wait: it may add timers. \<open>E\<close> are events that are in no
  list, such as the one being called. \<open>p\<close> and \<open>q\<close> tell whether the wake lock's part of the
  invariant holds before and after.
\<close>

definition infos_kept :: "lib \<Rightarrow> lib \<Rightarrow> bool" where
  "infos_kept s t \<longleftrightarrow> (\<forall>b i. infos s b = Some i \<longrightarrow> (\<exists>j. infos t b = Some j \<and> p_callback j = p_callback i))"

lemma infos_kept_refl [simp]: "infos t = infos s \<Longrightarrow> infos_kept s t"
  by (simp add: infos_kept_def)

lemma infos_kept_trans: "infos_kept s t \<Longrightarrow> infos_kept t u \<Longrightarrow> infos_kept s u"
  by (fastforce simp: infos_kept_def)

definition api :: "int \<Rightarrow> bool \<Rightarrow> ('a \<Rightarrow> bool) \<Rightarrow> 'a lprog \<Rightarrow> bool" where
  "api v p q m \<longleftrightarrow> (\<forall>s ts ps E. loop_ok s ts ps \<longrightarrow> callbacks_ok s (E \<union> set ts \<union> set ps) \<longrightarrow> E \<inter> (set ts \<union> set ps) = {}
     \<longrightarrow> callbacks_version s = v \<longrightarrow> (p \<longrightarrow> wake_ok s)
     \<longrightarrow> (\<exists>x t ts'. m s = Done x t \<and> loop_ok t ts' ps \<and> callbacks_ok t (E \<union> set ts' \<union> set ps) \<and> E \<inter> (set ts' \<union> set ps) = {}
        \<and> callbacks_version t = v \<and> (q x \<longrightarrow> wake_ok t) \<and> set ts \<subseteq> set ts' \<and> (\<forall>e\<in>E \<union> set ps. call_of t e = call_of s e)
        \<and> fired t = fired s \<and> requests t = requests s \<and> s_pendingRequests t = s_pendingRequests s
        \<and> SIM_COUNT t = SIM_COUNT s \<and> infos_kept s t))"

lemma api_bnd:
  assumes "api v p q m" and "\<And>x. api v (q x) r (f x)"
  shows "api v p r (bnd m f)"
  unfolding api_def
proof (intro allI impI)
  fix s ts ps E
  assume "loop_ok s ts ps" "callbacks_ok s (E \<union> set ts \<union> set ps)" "E \<inter> (set ts \<union> set ps) = {}"
    "callbacks_version s = v" "p \<longrightarrow> wake_ok s"
  with assms(1) obtain x t ts' where t: "m s = Done x t" "loop_ok t ts' ps" "callbacks_ok t (E \<union> set ts' \<union> set ps)"
    "E \<inter> (set ts' \<union> set ps) = {}" "callbacks_version t = v" "q x \<longrightarrow> wake_ok t" "set ts \<subseteq> set ts'"
    "\<forall>e\<in>E \<union> set ps. call_of t e = call_of s e" "fired t = fired s" "requests t = requests s"
    "s_pendingRequests t = s_pendingRequests s" "SIM_COUNT t = SIM_COUNT s" "infos_kept s t"
    unfolding api_def by metis
  from assms(2) [of x] t(2-6) obtain y u us where u: "f x t = Done y u" "loop_ok u us ps" "callbacks_ok u (E \<union> set us \<union> set ps)"
    "E \<inter> (set us \<union> set ps) = {}" "callbacks_version u = v" "r y \<longrightarrow> wake_ok u" "set ts' \<subseteq> set us"
    "\<forall>e\<in>E \<union> set ps. call_of u e = call_of t e" "fired u = fired t" "requests u = requests t"
    "s_pendingRequests u = s_pendingRequests t" "SIM_COUNT u = SIM_COUNT t" "infos_kept t u"
    unfolding api_def by metis
  have "bnd m f s = Done y u" using t(1) u(1) by (simp add: bnd_def)
  moreover have "\<forall>e\<in>E \<union> set ps. call_of u e = call_of s e" using t(8) u(8) by simp
  ultimately show "\<exists>x t ts'. bnd m f s = Done x t \<and> loop_ok t ts' ps \<and> callbacks_ok t (E \<union> set ts' \<union> set ps)
      \<and> E \<inter> (set ts' \<union> set ps) = {} \<and> callbacks_version t = v \<and> (r x \<longrightarrow> wake_ok t) \<and> set ts \<subseteq> set ts'
      \<and> (\<forall>e\<in>E \<union> set ps. call_of t e = call_of s e) \<and> fired t = fired s \<and> requests t = requests s
      \<and> s_pendingRequests t = s_pendingRequests s \<and> SIM_COUNT t = SIM_COUNT s \<and> infos_kept s t"
    using t u by (intro exI [of _ y] exI [of _ u] exI [of _ us]) (auto intro: infos_kept_trans)
qed

lemma api_andthen: "api v p q m \<Longrightarrow> (\<And>x. api v (q x) r k) \<Longrightarrow> api v p r (andthen m k)"
  unfolding andthen_def by (rule api_bnd)

text \<open>An operation on the library's own state, which leaves the loop alone.\<close>

definition same_loop :: "lib \<Rightarrow> lib \<Rightarrow> bool" where
  "same_loop s t \<longleftrightarrow> mem t = mem s \<and> watch_table t = watch_table s \<and> readFds t = readFds s \<and> nfds t = nfds s
     \<and> fired t = fired s \<and> requests t = requests s \<and> s_pendingRequests t = s_pendingRequests s
     \<and> SIM_COUNT t = SIM_COUNT s \<and> callbacks_version t = callbacks_version s \<and> infos_kept s t"

lemma api_state:
  assumes "\<And>s E. callbacks_ok s E \<Longrightarrow> callbacks_version s = v \<Longrightarrow> (p \<longrightarrow> wake_ok s) \<Longrightarrow>
     \<exists>x t. m s = Done x t \<and> same_loop s t \<and> callbacks_ok t E \<and> (q x \<longrightarrow> wake_ok t)"
  shows "api v p q m"
  unfolding api_def
proof (intro allI impI)
  fix s ts ps E
  assume l: "loop_ok s ts ps" and cb: "callbacks_ok s (E \<union> set ts \<union> set ps)" and d: "E \<inter> (set ts \<union> set ps) = {}"
    and v: "callbacks_version s = v" "p \<longrightarrow> wake_ok s"
  from assms [OF cb v(1)] v(2) obtain x t where
    t: "m s = Done x t" "same_loop s t" "callbacks_ok t (E \<union> set ts \<union> set ps)" "q x \<longrightarrow> wake_ok t" by blast
  have "loop_ok t ts ps" using l t(2) loop_ok_cong [of t s] by (simp add: same_loop_def)
  then show "\<exists>x t ts'. m s = Done x t \<and> loop_ok t ts' ps \<and> callbacks_ok t (E \<union> set ts' \<union> set ps)
      \<and> E \<inter> (set ts' \<union> set ps) = {} \<and> callbacks_version t = v \<and> (q x \<longrightarrow> wake_ok t) \<and> set ts \<subseteq> set ts'
      \<and> (\<forall>e\<in>E \<union> set ps. call_of t e = call_of s e) \<and> fired t = fired s \<and> requests t = requests s
      \<and> s_pendingRequests t = s_pendingRequests s \<and> SIM_COUNT t = SIM_COUNT s \<and> infos_kept s t"
    using t d v(1) by (intro exI [of _ x] exI [of _ t] exI [of _ ts]) (simp add: same_loop_def call_of_def)
qed

lemma callbacks_ok_lib:
  assumes "callbacks_ok s E" and "mem t = mem s" "watch_table t = watch_table s"
    and "\<And>a. infos t a = None \<longleftrightarrow> infos s a = None"
    and "\<And>l. s_last_wake_timeout_info t = Some l \<Longrightarrow> \<exists>u. infos t l = Some \<lparr>p_callback = WakeTimeout, userParam = u\<rparr>"
    and "s_wakelock_count t \<ge> 0"
  shows "callbacks_ok t E"
proof -
  have "callable t e = callable s e" for e
    using assms(2,4) by (auto simp: callable_def call_of_def simp del: not_None_eq split: eref.split)
  moreover have "watched t = watched s" using assms(3) by (simp add: watched_def)
  ultimately show ?thesis using assms(1,4,5,6) unfolding callbacks_ok_def by metis
qed

lemma last_info:
  "callbacks_ok s E \<Longrightarrow> s_last_wake_timeout_info s = Some l \<Longrightarrow>
    \<exists>u. infos s l = Some \<lparr>p_callback = WakeTimeout, userParam = u\<rparr>"
  by (simp add: callbacks_ok_def)

text \<open>Cancelling the last time-out.\<close>

lemma cancel_last_runs:
  assumes "callbacks_ok s E"
  shows "\<exists>t. cancel_last s = Done () t \<and> callbacks_ok t E
    \<and> t = s\<lparr>infos := infos t\<rparr> \<and> infos_kept s t
    \<and> (\<forall>a. s_last_wake_timeout_info s \<noteq> Some a \<longrightarrow> infos t a = infos s a)"
proof (cases "s_last_wake_timeout_info s")
  case None
  then show ?thesis using assms by (simp add: cancel_last_def run_simps infos_kept_refl)
next
  case (Some l)
  from last_info [OF assms Some] obtain u where u: "infos s l = Some \<lparr>p_callback = WakeTimeout, userParam = u\<rparr>" ..
  define t where "t = s\<lparr>infos := (infos s)(l \<mapsto> \<lparr>p_callback = WakeTimeout, userParam = 1\<rparr>)\<rparr>"
  have "cancel_last s = Done () t"
    by (simp add: cancel_last_def Some set_info_def info_at_def u run_simps t_def)
  moreover have "callbacks_ok t E"
    by (rule callbacks_ok_lib [OF assms]) (use u Some assms in \<open>auto simp: t_def callbacks_ok_def\<close>)
  moreover have "infos_kept s t" using u by (auto simp: infos_kept_def t_def)
  ultimately show ?thesis by (intro exI [of _ t]) (simp add: t_def Some)
qed

text \<open>Setting the new one, which is not the last.\<close>

lemma set_last_runs:
  assumes cb: "callbacks_ok s E" and a: "infos s a = Some \<lparr>p_callback = WakeTimeout, userParam = 0\<rparr>"
    and new: "s_last_wake_timeout_info s \<noteq> Some a" and n: "callbacks_version s \<ge> 13 \<longrightarrow> s_wakelock_count s \<ge> 1"
  shows "\<exists>t. set_last a s = Done () t \<and> callbacks_ok t E \<and> wake_ok t \<and> same_loop s t"
proof -
  from cancel_last_runs [OF cb] obtain u where
    u: "cancel_last s = Done () u" "callbacks_ok u E" "u = s\<lparr>infos := infos u\<rparr>" "infos u a = infos s a" "infos_kept s u"
    using new by blast
  define t where "t = u\<lparr>s_last_wake_timeout_info := Some a\<rparr>"
  have "set_last a s = Done () t" using u(1) by (simp add: set_last_def run_simps t_def)
  moreover have "callbacks_ok t E"
    by (rule callbacks_ok_lib [OF u(2)]) (use u(2,4) a in \<open>auto simp: t_def callbacks_ok_def\<close>)
  moreover have "same_loop s u" unfolding same_loop_def using u(5) by (subst u(3), simp)+
  then have "same_loop s t" by (simp add: t_def same_loop_def infos_kept_def)
  moreover have "s_wakelock_count u = s_wakelock_count s" "callbacks_version u = callbacks_version s"
    by (subst u(3), simp)+
  then have "wake_ok t" using a u(4) n by (simp add: wake_ok_def t_def)
  ultimately show ?thesis by blast
qed

lemma api_timed:
  assumes some: "\<And>s E a. callbacks_ok s E \<Longrightarrow> callbacks_version s = v \<Longrightarrow> (p \<longrightarrow> wake_ok s) \<Longrightarrow>
      infos s a = Some \<lparr>p_callback = callback, userParam = param\<rparr> \<Longrightarrow> s_last_wake_timeout_info s \<noteq> Some a \<Longrightarrow>
      \<exists>x t. f (Some a) s = Done x t \<and> same_loop s t \<and> callbacks_ok t E \<and> (q x \<longrightarrow> wake_ok t)"
    and none: "\<And>s E. callbacks_ok s E \<Longrightarrow> callbacks_version s = v \<Longrightarrow> (p \<longrightarrow> wake_ok s) \<Longrightarrow>
      \<exists>x t. f None s = Done x t \<and> same_loop s t \<and> callbacks_ok t E \<and> (q x \<longrightarrow> wake_ok t)"
  shows "api v p q (bnd (internalRequestTimedCallback callback param rel) f)"
  unfolding api_def
proof (intro allI impI)
  fix s ts ps E
  assume l: "loop_ok s ts ps" and cb: "callbacks_ok s (E \<union> set ts \<union> set ps)" and d: "E \<inter> (set ts \<union> set ps) = {}"
    and v: "callbacks_version s = v" "p \<longrightarrow> wake_ok s"
  from timed_callback_adds [OF l cb, of callback param rel] obtain r u ts' where
    u: "internalRequestTimedCallback callback param rel s = Done r u" "loop_ok u ts' ps" "same_lib s u"
    and ru: "case r of None \<Rightarrow> ts' = ts \<and> infos u = infos s \<and> mem u = mem s
      | Some a \<Rightarrow> a \<noteq> 0 \<and> infos s a = None \<and> set ts' = insert (Ev a) (set ts)
          \<and> infos u = (infos s)(a \<mapsto> \<lparr>p_callback = callback, userParam = param\<rparr>)
          \<and> (\<forall>e. call_of u e = (if e = Ev a then (Some CB_userTimer, -1, Some a) else call_of s e))"
    by (force split: option.splits)
  note same = same_lib_simps [OF u(3)]
  have "\<exists>x t. f r u = Done x t \<and> same_loop u t \<and> callbacks_ok t (E \<union> set ts' \<union> set ps) \<and> (q x \<longrightarrow> wake_ok t)
    \<and> E \<inter> (set ts' \<union> set ps) = {} \<and> set ts \<subseteq> set ts' \<and> (\<forall>e\<in>E \<union> set ps. call_of u e = call_of s e)
    \<and> infos_kept s t"
  proof (cases r)
    case None
    then have i: "ts' = ts" "infos u = infos s" "mem u = mem s" using ru by simp_all
    have c: "call_of u e = call_of s e" for e by (simp add: call_of_def i)
    have "callable u e = callable s e" for e by (cases e) (simp_all add: callable_def c i)
    then have "callbacks_ok u (E \<union> set ts \<union> set ps)" using cb by (simp add: callbacks_ok_def same i)
    moreover have "p \<longrightarrow> wake_ok u" using v(2) by (simp add: wake_ok_def same i)
    ultimately obtain x t where "f None u = Done x t" "same_loop u t" "callbacks_ok t (E \<union> set ts \<union> set ps)" "q x \<longrightarrow> wake_ok t"
      using none [of u "E \<union> set ts \<union> set ps"] v(1) by (auto simp: same)
    moreover from this have "infos_kept s t" using i(2) by (simp add: same_loop_def infos_kept_def)
    ultimately show ?thesis using d None c i(1) by blast
  next
    case (Some a)
    then have a: "a \<noteq> 0" "infos s a = None" and ts': "set ts' = insert (Ev a) (set ts)"
      and i: "infos u = (infos s)(a \<mapsto> \<lparr>p_callback = callback, userParam = param\<rparr>)"
      and c: "\<forall>e. call_of u e = (if e = Ev a then (Some CB_userTimer, -1, Some a) else call_of s e)"
      using ru by simp_all
    have out: "Ev a \<notin> E \<union> set ts \<union> set ps" using callbacks_alive [OF cb, of a] a by blast
    have "callbacks_ok u (insert (Ev a) (E \<union> set ts \<union> set ps))"
      by (rule callbacks_grow [OF cb a(2,1) _ i c]) (simp_all add: same)
    then have cbu: "callbacks_ok u (E \<union> set ts' \<union> set ps)" by (simp add: ts')
    have la: "s_last_wake_timeout_info s \<noteq> Some a" using last_info [OF cb, of a] a(2) by auto
    have "p \<longrightarrow> wake_ok u" using v(2) la by (auto simp: wake_ok_def same i)
    moreover have "infos u a = Some \<lparr>p_callback = callback, userParam = param\<rparr>" by (simp add: i)
    moreover have "infos_kept s u" using a(2) by (simp add: infos_kept_def i)
    ultimately have "infos_kept s u" "\<exists>x t. f (Some a) u = Done x t \<and> same_loop u t \<and> callbacks_ok t (E \<union> set ts' \<union> set ps) \<and> (q x \<longrightarrow> wake_ok t)"
      using some [OF cbu] v(1) la by (simp_all add: same)
    moreover have "E \<inter> (set ts' \<union> set ps) = {}" "set ts \<subseteq> set ts'" using d out ts' by auto
    moreover have "\<forall>e\<in>E \<union> set ps. call_of u e = call_of s e" using c out by auto
    ultimately show ?thesis using Some infos_kept_trans [of s u] by (auto simp: same_loop_def)
  qed
  then obtain x t where t: "f r u = Done x t" "same_loop u t" "callbacks_ok t (E \<union> set ts' \<union> set ps)" "q x \<longrightarrow> wake_ok t"
    "E \<inter> (set ts' \<union> set ps) = {}" "set ts \<subseteq> set ts'" "\<forall>e\<in>E \<union> set ps. call_of u e = call_of s e" "infos_kept s t" by blast
  have "loop_ok t ts' ps" using u(2) t(2) loop_ok_cong [of t u] by (simp add: same_loop_def)
  moreover have "bnd (internalRequestTimedCallback callback param rel) f s = Done x t" using u(1) t(1) by (simp add: bnd_def)
  ultimately show "\<exists>x t ts'. bnd (internalRequestTimedCallback callback param rel) f s = Done x t \<and> loop_ok t ts' ps
      \<and> callbacks_ok t (E \<union> set ts' \<union> set ps) \<and> E \<inter> (set ts' \<union> set ps) = {} \<and> callbacks_version t = v
      \<and> (q x \<longrightarrow> wake_ok t) \<and> set ts \<subseteq> set ts' \<and> (\<forall>e\<in>E \<union> set ps. call_of t e = call_of s e) \<and> fired t = fired s
      \<and> requests t = requests s \<and> s_pendingRequests t = s_pendingRequests s \<and> SIM_COUNT t = SIM_COUNT s \<and> infos_kept s t"
    using t v(1) by (intro exI [of _ x] exI [of _ t] exI [of _ ts']) (simp add: same_loop_def call_of_def same)
qed

lemma same_loop_refl: "same_loop s s"
  by (simp add: same_loop_def)

lemma requestTimedCallback_api: "api v True (\<lambda>_. True) (RIL_requestTimedCallback_impl callback param rel)"
  unfolding RIL_requestTimedCallback_impl_def
  by (rule api_timed) (simp_all add: ret_def same_loop_refl)

lemma acquire_api: "api v p (\<lambda>_. False) acquire_wake_lock"
  by (rule api_state) (simp add: acquire_wake_lock_def modify_def same_loop_def)

lemma release_state:
  "callbacks_ok s E \<Longrightarrow> \<exists>t. release_wake_lock s = Done () t \<and> same_loop s t \<and> callbacks_ok t E \<and> wake_ok t"
  by (simp add: release_wake_lock_def modify_def same_loop_def wake_ok_def)

text \<open>The wake lock is taken and its time-out armed.\<close>

lemma grab_new_api: "v \<ge> 13 \<Longrightarrow> api v p (\<lambda>_. True) grabPartialWakeLock"
proof -
  assume v: "v \<ge> 13"
  let ?arm = "\<lambda>p_info. case p_info of None \<Rightarrow> release_wake_lock
     | Some a \<Rightarrow> andthen (modify (\<lambda>s. s\<lparr>s_wakelock_count := s_wakelock_count s + 1\<rparr>)) (set_last a)"
  have "api v False (\<lambda>_. True) (bnd (internalRequestTimedCallback WakeTimeout 0 (Some TIMEVAL_WAKE_TIMEOUT)) ?arm)"
  proof (rule api_timed)
    fix s :: lib and E a
    assume cb: "callbacks_ok s E" and a: "infos s a = Some \<lparr>p_callback = WakeTimeout, userParam = 0\<rparr>"
      and new: "s_last_wake_timeout_info s \<noteq> Some a"
    let ?u = "s\<lparr>s_wakelock_count := s_wakelock_count s + 1\<rparr>"
    have n: "s_wakelock_count s \<ge> 0" using cb by (simp add: callbacks_ok_def)
    with cb have cbu: "callbacks_ok ?u E" by (simp add: callbacks_ok_count)
    from set_last_runs [OF cbu, of a] a new n obtain t where
      t: "set_last a ?u = Done () t" "callbacks_ok t E" "wake_ok t" "same_loop ?u t" by auto
    from t(4) have "same_loop s t" by (simp add: same_loop_def infos_kept_def)
    with t show "\<exists>x t. ?arm (Some a) s = Done x t \<and> same_loop s t \<and> callbacks_ok t E \<and> (True \<longrightarrow> wake_ok t)"
      by (simp add: andthen_def bnd_def modify_def)
  qed (use release_state in auto)
  then have "api v p (\<lambda>_. True) (andthen acquire_wake_lock
      (bnd (internalRequestTimedCallback WakeTimeout 0 (Some TIMEVAL_WAKE_TIMEOUT)) ?arm))"
    by (rule api_andthen [OF acquire_api])
  then show ?thesis
    using v by (simp add: api_def grabPartialWakeLock_def gets_def bnd_def)
qed

lemma grab_old_api: "v < 13 \<Longrightarrow> api v p (\<lambda>_. False) grabPartialWakeLock"
  using acquire_api [of v p] by (simp add: api_def grabPartialWakeLock_def gets_def bnd_def)

lemma release_api: "v < 13 \<or> p \<Longrightarrow> api v p (\<lambda>_. True) releaseWakeLock"
proof (rule api_state)
  fix s :: lib and E
  assume p: "v < 13 \<or> p" and cb: "callbacks_ok s E" and v: "callbacks_version s = v" and w: "p \<longrightarrow> wake_ok s"
  show "\<exists>x t. releaseWakeLock s = Done x t \<and> same_loop s t \<and> callbacks_ok t E \<and> (True \<longrightarrow> wake_ok t)"
  proof (cases "v \<ge> 13")
    case False
    with release_state [OF cb] v show ?thesis by (simp add: releaseWakeLock_def gets_def bnd_def)
  next
    case new: True
    show ?thesis
    proof (cases "s_wakelock_count s > 1")
      case True
      then show ?thesis
        using new p v w cb by (auto simp: releaseWakeLock_def run_simps same_loop_def callbacks_ok_count wake_ok_def)
    next
      case False
      let ?u = "s\<lparr>s_wakelock_count := 0, wake_held := False\<rparr>"
      have "callbacks_ok ?u E" using cb by (simp add: callbacks_ok_count)
      from cancel_last_runs [OF this] obtain t where
        t: "cancel_last ?u = Done () t" "callbacks_ok t E" "t = ?u\<lparr>infos := infos t\<rparr>" "infos_kept ?u t" by blast
      have "releaseWakeLock s = Done () t"
        using new v False t(1) by (simp add: releaseWakeLock_def release_wake_lock_def run_simps)
      moreover have "same_loop s t" unfolding same_loop_def using t(4) by (subst t(3), simp add: infos_kept_def)+
      moreover have "\<not> wake_held t" by (subst t(3)) simp
      ultimately show ?thesis using t(2) by (auto simp: wake_ok_def)
    qed
  qed
qed

lemma wakeTimeout_api: "api v True (\<lambda>_. True) (wakeTimeoutCallback param)"
proof (rule api_state)
  fix s :: lib and E
  assume "callbacks_ok s E" and "callbacks_version s = v" and "True \<longrightarrow> wake_ok s"
  then show "\<exists>x t. wakeTimeoutCallback param s = Done x t \<and> same_loop s t \<and> callbacks_ok t E \<and> (True \<longrightarrow> wake_ok t)"
    by (auto simp: wakeTimeoutCallback_def releaseWakeLock_def release_wake_lock_def run_simps same_loop_def
        callbacks_ok_count wake_ok_def)
qed

end
