(* ===== verification/LibApi.thy ===== *)
theory LibApi
  imports LibRequests LibWake
begin

text \<open>
  What \<^verbatim>\<open>libril/ril.cpp\<close> offers to the vendor library and to the service: registration,
  acknowledgement and completion of requests, indications, and what a client gets when it connects.
\<close>

section \<open>The service\<close>

text \<open>
  A call of a response function of \<^verbatim>\<open>ril_service.cpp\<close> is recorded. Its result matters for
  \<^verbatim>\<open>nitzTimeReceivedInd\<close> alone, which fails when the slot has no client.
\<close>

definition call_indication :: "string \<Rightarrow> nat \<Rightarrow> int \<Rightarrow> int \<Rightarrow> payload \<Rightarrow> int lprog" where
  "call_indication f slotId indicationType unsolResponse ev =
     (if f = ''nitzTimeReceivedInd'' then
        bnd (gets (\<lambda>s. connected s slotId)) (\<lambda>up.
          if up then andthen (send_msg (MIndication slotId indicationType unsolResponse ev)) (ret 0) else ret (-1))
      else andthen (send_msg (MIndication slotId indicationType unsolResponse ev)) (ret 0))"

definition call_response :: "RequestInfo \<Rightarrow> int \<Rightarrow> RIL_Errno \<Rightarrow> payload \<Rightarrow> unit lprog" where
  "call_response r responseType e response =
     (case responseFunction (s_commands ! ri_pCI r) of
        None \<Rightarrow> crash NullDeref
      | Some f \<Rightarrow> send_msg (MResponse (ri_socket r) (ri_token r) responseType e response))"

section \<open>Registration\<close>

text \<open>\<open>callbacks\<close> is the version in the table of functions, \<open>None\<close> for NULL.\<close>

definition RIL_register :: "int option \<Rightarrow> unit lprog" where
  "RIL_register callbacks =
     (case callbacks of
        None \<Rightarrow> ret ()
      | Some version \<Rightarrow>
          if version < RIL_VERSION_MIN then ret ()
          else bnd (gets s_registerCalled) (\<lambda>called.
            if called > 0 then ret ()
            else andthen (modify (\<lambda>s. s\<lparr>callbacks_version := version, s_registerCalled := 1\<rparr>))
              (if tables_checked then ret () else crash AssertFail)))"

section \<open>Requests\<close>

definition RIL_onRequestAck_impl :: "nat option \<Rightarrow> unit lprog" where
  "RIL_onRequestAck_impl t =
     bnd (checkAndDequeueRequestInfoIfAck t True) (\<lambda>found. case t of
       None \<Rightarrow> ret ()
     | Some a \<Rightarrow>
         if \<not> found then ret ()
         else bnd (request_at a) (\<lambda>r.
           whenever (ri_cancelled r = 0) (send_msg (MAck (ri_socket r) (ri_token r)))))"

text \<open>The answer; one to a request that was acknowledged before keeps the phone awake until the client acknowledges it.\<close>

definition answer_request :: "RequestInfo \<Rightarrow> RIL_Errno \<Rightarrow> payload \<Rightarrow> unit lprog" where
  "answer_request r e response =
     bnd (gets callbacks_version) (\<lambda>version.
     bnd (if version \<ge> 13 \<and> ri_wasAckSent r = 1 then andthen grabPartialWakeLock (ret RESPONSE_SOLICITED_ACK_EXP)
          else ret RESPONSE_SOLICITED) (\<lambda>responseType.
     call_response r responseType e response))"

definition RIL_onRequestComplete_impl :: "nat option \<Rightarrow> RIL_Errno \<Rightarrow> payload \<Rightarrow> unit lprog" where
  "RIL_onRequestComplete_impl t e response =
     bnd (checkAndDequeueRequestInfoIfAck t False) (\<lambda>found. case t of
       None \<Rightarrow> ret ()
     | Some a \<Rightarrow>
         if \<not> found then ret ()
         else bnd (request_at a) (\<lambda>r.
           if ri_local r > 0 then free_request a
           else andthen (whenever (ri_cancelled r = 0) (answer_request r e response)) (free_request a)))"

section \<open>Indications\<close>

definition RIL_UNSOL_NITZ_TIME_RECEIVED_code :: int where "RIL_UNSOL_NITZ_TIME_RECEIVED_code = 1008"
definition RIL_UNSOL_RIL_CONNECTED_code :: int where "RIL_UNSOL_RIL_CONNECTED_code = 1034"
definition RADIO_STATE_CHANGED_code :: int where "RADIO_STATE_CHANGED_code = 1000"

text \<open>Before version 13 the time-out of the wake lock is armed here; the result is whether it could be.\<close>

definition schedule_timeout :: "bool \<Rightarrow> bool lprog" where
  "schedule_timeout shouldScheduleTimeout =
     bnd (gets callbacks_version) (\<lambda>version.
       if version < 13 \<and> shouldScheduleTimeout then
         bnd (internalRequestTimedCallback WakeTimeout 0 (Some TIMEVAL_WAKE_TIMEOUT)) (\<lambda>p_info.
           case p_info of None \<Rightarrow> ret False | Some a \<Rightarrow> andthen (set_last a) (ret True))
       else ret True)"

definition keep_nitz :: "bool \<Rightarrow> payload \<Rightarrow> bool lprog" where
  "keep_nitz undelivered ev =
     (if undelivered then
        andthen (modify (\<lambda>s. s\<lparr>s_lastNITZTimeData := None\<rparr>))
          (bnd (calloc (\<lambda>s a. False)) (\<lambda>p. case p of
             None \<Rightarrow> ret False
           | Some _ \<Rightarrow> andthen (modify (\<lambda>s. s\<lparr>s_lastNITZTimeData := Some ev\<rparr>)) (ret True)))
      else ret True)"

definition RIL_onUnsolicitedResponse_impl :: "int \<Rightarrow> payload \<Rightarrow> nat \<Rightarrow> unit lprog" where
  "RIL_onUnsolicitedResponse_impl unsolResponse ev soc_id =
     bnd (gets s_registerCalled) (\<lambda>called.
       if called = 0 then ret ()
       else
         let unsolResponseIndex = unsolResponse - RIL_UNSOL_RESPONSE_BASE in
         if unsolResponseIndex < 0 \<or> unsolResponseIndex \<ge> int (length s_unsolResponses) then ret ()
         else
           let row = s_unsolResponses ! nat unsolResponseIndex;
               shouldScheduleTimeout = (wakeType row = WAKE_PARTIAL);
               error_exit = whenever shouldScheduleTimeout releaseWakeLock
           in
           andthen (whenever shouldScheduleTimeout grabPartialWakeLock)
           (bnd (gets callbacks_version) (\<lambda>version.
            let responseType = (if version \<ge> 13 \<and> shouldScheduleTimeout then RESPONSE_UNSOLICITED_ACK_EXP
                                else RESPONSE_UNSOLICITED) in
            bnd (case unsolFunction row of None \<Rightarrow> ret 0
                 | Some f \<Rightarrow> call_indication f soc_id responseType unsolResponse ev) (\<lambda>res.
            bnd (schedule_timeout shouldScheduleTimeout) (\<lambda>scheduled.
            if \<not> scheduled then error_exit
            else bnd (keep_nitz (res \<noteq> 0 \<and> unsolResponse = RIL_UNSOL_NITZ_TIME_RECEIVED_code) ev) (\<lambda>kept_it.
              if \<not> kept_it then error_exit else ret ()))))))"

section \<open>A client connects\<close>

definition resendLastNITZTimeData :: "nat \<Rightarrow> unit lprog" where
  "resendLastNITZTimeData socket_id =
     bnd (gets s_lastNITZTimeData) (\<lambda>d. case d of
       None \<Rightarrow> ret ()
     | Some ev \<Rightarrow>
         bnd (gets callbacks_version) (\<lambda>version.
         bnd (call_indication ''nitzTimeReceivedInd'' socket_id
                (if version \<ge> 13 then RESPONSE_UNSOLICITED_ACK_EXP else RESPONSE_UNSOLICITED)
                RIL_UNSOL_NITZ_TIME_RECEIVED_code ev) (\<lambda>res.
         whenever (res = 0) (modify (\<lambda>s. s\<lparr>s_lastNITZTimeData := None\<rparr>)))))"

definition onNewCommandConnect :: "nat \<Rightarrow> unit lprog" where
  "onNewCommandConnect socket_id =
     bnd (gets callbacks_version) (\<lambda>rilVer. seqs
       [RIL_onUnsolicitedResponse_impl RIL_UNSOL_RIL_CONNECTED_code (PInts [rilVer]) socket_id,
        RIL_onUnsolicitedResponse_impl RADIO_STATE_CHANGED_code PNone socket_id,
        bnd (gets s_lastNITZTimeData) (\<lambda>d. whenever (d \<noteq> None) (resendLastNITZTimeData socket_id))])"

section \<open>The invariant is kept\<close>

lemma send_msg_api: "api v p (\<lambda>_. p) (send_msg m)"
  by (rule api_state) (simp add: send_msg_def modify_def same_loop_def)

lemma api_ret: "(p \<Longrightarrow> q x) \<Longrightarrow> (q x \<Longrightarrow> p) \<Longrightarrow> api v p q (ret x)"
  by (rule api_state) (simp add: ret_def same_loop_def)

lemma api_weaken:
  assumes "api v p q m" and "p \<Longrightarrow> p'" and "\<And>x. q' x \<Longrightarrow> q x"
  shows "api v p' q' m"
  unfolding api_def
proof (intro allI impI)
  fix s ts ps E
  assume "loop_ok s ts ps" "callbacks_ok s (E \<union> set ts \<union> set ps)" "E \<inter> (set ts \<union> set ps) = {}"
    "callbacks_version s = v" "p' \<longrightarrow> wake_ok s"
  moreover from this assms(2) have "p \<longrightarrow> wake_ok s" by blast
  ultimately show "\<exists>x t ts'. m s = Done x t \<and> loop_ok t ts' ps \<and> callbacks_ok t (E \<union> set ts' \<union> set ps)
      \<and> E \<inter> (set ts' \<union> set ps) = {} \<and> callbacks_version t = v \<and> (q' x \<longrightarrow> wake_ok t) \<and> set ts \<subseteq> set ts'
      \<and> (\<forall>e\<in>E \<union> set ps. call_of t e = call_of s e) \<and> fired t = fired s \<and> requests t = requests s
      \<and> s_pendingRequests t = s_pendingRequests s \<and> SIM_COUNT t = SIM_COUNT s \<and> infos_kept s t"
    using assms(1) [unfolded api_def, rule_format, of s ts ps E] assms(3) by blast
qed

lemma api_gets: "(\<And>x. api v p q (f x)) \<Longrightarrow> api v p q (bnd (gets g) f)"
  unfolding api_def gets_def bnd_def by simp

lemma api_version: "api v p q (f v) \<Longrightarrow> api v p q (bnd (gets callbacks_version) f)"
  unfolding api_def gets_def bnd_def by simp

lemma indication_api: "api v p (\<lambda>_. p) (call_indication f k ty n ev)"
  unfolding call_indication_def
  by (auto intro!: api_gets api_andthen [OF send_msg_api] api_ret)

lemma schedule_api: "api v (v \<ge> 13 \<or> \<not> b) (\<lambda>ok. ok \<or> v \<ge> 13 \<or> \<not> b) (schedule_timeout b)"
proof -
  let ?arm = "\<lambda>p_info. case p_info of None \<Rightarrow> ret False | Some a \<Rightarrow> andthen (set_last a) (ret True)"
  have "api v False (\<lambda>ok. ok) (bnd (internalRequestTimedCallback WakeTimeout 0 (Some TIMEVAL_WAKE_TIMEOUT)) ?arm)"
    if "v < 13"
  proof (rule api_timed)
    fix s :: lib and E a
    assume cb: "callbacks_ok s E" and v: "callbacks_version s = v"
      and a: "infos s a = Some \<lparr>p_callback = WakeTimeout, userParam = 0\<rparr>" "s_last_wake_timeout_info s \<noteq> Some a"
    from set_last_runs [OF cb a] v that obtain t where
      "set_last a s = Done () t" "callbacks_ok t E" "wake_ok t" "same_loop s t" by auto
    then show "\<exists>x t. ?arm (Some a) s = Done x t \<and> same_loop s t \<and> callbacks_ok t E \<and> (x \<longrightarrow> wake_ok t)"
      by (auto simp add: andthen_def bnd_def ret_def)
  qed (auto simp: ret_def same_loop_refl intro: exI [of _ False])
  moreover have "api v True (\<lambda>ok. True) (ret True)" by (rule api_ret) simp_all
  ultimately show ?thesis
    unfolding schedule_timeout_def by (intro api_version) auto
qed

lemma keep_nitz_api: "api v True (\<lambda>_. True) (keep_nitz b ev)"
proof (rule api_state)
  fix s :: lib and E assume "callbacks_ok s E" "True \<longrightarrow> wake_ok s"
  then show "\<exists>x t. keep_nitz b ev s = Done x t \<and> same_loop s t \<and> callbacks_ok t E \<and> (True \<longrightarrow> wake_ok t)"
    using calloc_spec [of "\<lambda>_ _. False" "s\<lparr>s_lastNITZTimeData := None\<rparr>"]
    by (auto simp: keep_nitz_def run_simps same_loop_def split: option.split)
qed

text \<open>An indication leaves a held wake lock with its timer, on every path.\<close>

lemma unsolicited_api: "api v True (\<lambda>_. True) (RIL_onUnsolicitedResponse_impl n ev k)"
proof -
  have plain: "api v True (\<lambda>_. True) (ret ())" by (rule api_ret) simp_all
  have grab: "api v True (\<lambda>_. v \<ge> 13 \<or> \<not> b) (whenever b grabPartialWakeLock)" for b
    using grab_new_api [of v True] grab_old_api [of v True] plain
    by (cases "v \<ge> 13"; cases b) (auto simp: whenever_def elim: api_weaken)
  have exit: "api v (v \<ge> 13 \<or> \<not> b) (\<lambda>_. True) (whenever b releaseWakeLock)" for b
    using release_api [of v "v \<ge> 13"] plain by (cases b; cases "v \<ge> 13") (auto simp: whenever_def)
  have fin: "api v (c \<or> v \<ge> 13 \<or> \<not> b) (\<lambda>_. True)
      (if \<not> c then whenever b releaseWakeLock
       else bnd (keep_nitz d ev) (\<lambda>k. if \<not> k then whenever b releaseWakeLock else ret ()))" for b c d
    using exit [of b] plain by (cases c) (auto intro!: api_bnd [OF keep_nitz_api] elim: api_weaken)
  have ind: "api v q (\<lambda>_. q) (case f of None \<Rightarrow> ret 0 | Some f \<Rightarrow> call_indication f k ty n ev)" for q f ty
    using indication_api api_ret by (cases f) auto
  have main: "api v True (\<lambda>_. True) (andthen (whenever b grabPartialWakeLock) (bnd (gets callbacks_version) (\<lambda>version.
      bnd (case f of None \<Rightarrow> ret 0 | Some f \<Rightarrow> call_indication f k (ty version) n ev) (\<lambda>res.
      bnd (schedule_timeout b) (\<lambda>scheduled.
      if \<not> scheduled then whenever b releaseWakeLock
      else bnd (keep_nitz (g res) ev) (\<lambda>kept_it. if \<not> kept_it then whenever b releaseWakeLock else ret ()))))))"
    for b f ty g
    by (rule api_andthen [OF grab], rule api_version, rule api_bnd [OF ind], rule api_bnd [OF schedule_api], rule fin)
  show ?thesis
    unfolding RIL_onUnsolicitedResponse_impl_def Let_def by (rule api_gets) (auto intro: plain main)
qed

end
