(* ===== verification/LibComplete.thy ===== *)
theory LibComplete
  imports LibApi
begin

text \<open>
  What becomes of a request: acknowledged, completed once, completed a second time; and the network
  time that is kept for a client that is not there yet.
\<close>

section \<open>What the client sees\<close>

text \<open>Arming a timer and taking the wake lock do not touch what concerns the client.\<close>

definition client :: "lib \<Rightarrow> lib_msg list \<times> (nat \<Rightarrow> bool) \<times> payload option \<times> int \<times> int" where
  "client s = (sent s, connected s, s_lastNITZTimeData s, s_registerCalled s, callbacks_version s)"

definition undisturbed :: "lib \<Rightarrow> lib_msg list \<times> (nat \<Rightarrow> bool) \<times> payload option \<times> int \<times> int \<times> nat option list" where
  "undisturbed s = (sent s, connected s, s_lastNITZTimeData s, s_registerCalled s, callbacks_version s, allocs s)"

lemma wr_client: "steps (\<lambda>s t. undisturbed t = undisturbed s) (wr e f)"
  by (simp add: steps_def wr_def modify_def undisturbed_def)

lemma set_info_client: "steps (\<lambda>s t. undisturbed t = undisturbed s) (set_info a f)"
  by (auto simp: steps_def set_info_def info_at_def run_simps undisturbed_def split: option.splits)

lemma timer_add_client: "steps (\<lambda>s t. undisturbed t = undisturbed s) (ril_timer_add e tv)"
  unfolding ril_timer_add_def addToList_def walk_body_def rd_def ptr_def getNow_def
  by (intro obs_frame.frame_rules obs_frame.steps_seqs obs_frame.steps_while wr_client)
    (auto intro!: obs_frame.frame_rules wr_client)

lemma cancel_last_client: "steps (\<lambda>s t. undisturbed t = undisturbed s) cancel_last"
  unfolding cancel_last_def by (intro obs_frame.frame_rules set_info_client)

lemma set_last_client: "steps (\<lambda>s t. undisturbed t = undisturbed s) (set_last a)"
  unfolding set_last_def
  by (intro obs_frame.frame_rules cancel_last_client obs_frame.steps_modify) (simp add: undisturbed_def)

lemma modify_client:
  "steps (\<lambda>s t. undisturbed t = undisturbed s) (modify (\<lambda>s. s\<lparr>infos := g s\<rparr>))"
  "steps (\<lambda>s t. undisturbed t = undisturbed s) triggerEvLoop"
  by (auto simp: steps_def triggerEvLoop_def run_simps undisturbed_def)

lemma event_set_client: "steps (\<lambda>s t. undisturbed t = undisturbed s) (ril_event_set e fd b f p)"
  unfolding ril_event_set_def by (rule obs_frame.steps_seqs) (auto intro: wr_client)

lemma timed_client:
  assumes "internalRequestTimedCallback f u tv s = Done r t"
  shows "undisturbed t = undisturbed (s\<lparr>allocs := tl (allocs s)\<rparr>)"
    and "allocs s = Some a # later \<Longrightarrow> a \<noteq> 0 \<Longrightarrow> infos s a = None \<Longrightarrow> r = Some a"
proof -
  have rest: "steps (\<lambda>s t. undisturbed t = undisturbed s) (andthen (seqs
      [wr (Ev a) (\<lambda>_. zero_event),
       modify (\<lambda>s. s\<lparr>infos := (infos s)(a \<mapsto> \<lparr>p_callback = f, userParam = u\<rparr>)\<rparr>),
       ril_event_set (Ev a) (-1) False CB_userTimer (Some a),
       ril_timer_add (Ev a) (Some (case tv of None \<Rightarrow> (0, 0) | Some tv \<Rightarrow> tv)), triggerEvLoop]) (ret (Some a)))" for a
    by (intro obs_frame.frame_rules obs_frame.steps_seqs)
      (auto intro: wr_client timer_add_client modify_client event_set_client)
  from assms obtain p v where v: "calloc (\<lambda>s a. a = 0 \<or> infos s a \<noteq> None) s = Done p v"
    "(case p of None \<Rightarrow> ret None | Some a \<Rightarrow> andthen (seqs
      [wr (Ev a) (\<lambda>_. zero_event),
       modify (\<lambda>s. s\<lparr>infos := (infos s)(a \<mapsto> \<lparr>p_callback = f, userParam = u\<rparr>)\<rparr>),
       ril_event_set (Ev a) (-1) False CB_userTimer (Some a),
       ril_timer_add (Ev a) (Some (case tv of None \<Rightarrow> (0, 0) | Some tv \<Rightarrow> tv)), triggerEvLoop]) (ret (Some a))) v = Done r t"
    unfolding internalRequestTimedCallback_def bnd_Done by blast
  have "undisturbed v = undisturbed (s\<lparr>allocs := tl (allocs s)\<rparr>)"
    using v(1) by (auto simp: calloc_def undisturbed_def split: list.splits option.splits)
  moreover have "undisturbed t = undisturbed v"
    using v(2) stepsD [OF rest] by (auto simp: ret_def split: option.splits)
  ultimately show "undisturbed t = undisturbed (s\<lparr>allocs := tl (allocs s)\<rparr>)" by simp
  show "r = Some a" if "allocs s = Some a # later" "a \<noteq> 0" "infos s a = None"
    using v that by (auto simp: calloc_def andthen_Done ret_def)
qed

lemma timed_sent: "steps (\<lambda>s t. client t = client s) (internalRequestTimedCallback f u tv)"
  using timed_client(1) by (fastforce simp: steps_def client_def undisturbed_def)

lemma client_undisturbed: "steps (\<lambda>s t. undisturbed t = undisturbed s) m \<Longrightarrow> steps (\<lambda>s t. client t = client s) m"
  by (auto simp: steps_def client_def undisturbed_def)

lemma grab_client: "steps (\<lambda>s t. client t = client s) grabPartialWakeLock"
  unfolding grabPartialWakeLock_def acquire_wake_lock_def release_wake_lock_def
  by (intro obs_frame.frame_rules timed_sent obs_frame.steps_modify client_undisturbed [OF set_last_client])
    (simp_all add: client_def)

section \<open>The library's invariant\<close>

text \<open>The timers are \<open>ts\<close>, the pending events \<open>ps\<close>, the pending requests of the list \<open>k\<close> are \<open>L k\<close>.\<close>

definition lib_ok :: "lib \<Rightarrow> eref list \<Rightarrow> eref list \<Rightarrow> (nat \<Rightarrow> nat list) \<Rightarrow> bool" where
  "lib_ok s ts ps L \<longleftrightarrow> loop_ok s ts ps \<and> callbacks_ok s (set ts \<union> set ps) \<and> wake_ok s \<and> pending_ok s L"

lemma pending_ok_cong:
  "requests t = requests s \<Longrightarrow> s_pendingRequests t = s_pendingRequests s \<Longrightarrow> SIM_COUNT t = SIM_COUNT s
    \<Longrightarrow> pending_ok t L = pending_ok s L"
  by (simp add: pending_ok_def)

lemma api_lib_ok:
  assumes "lib_ok s ts ps L" and "api (callbacks_version s) True (\<lambda>_. True) m"
  shows "\<exists>x t ts'. m s = Done x t \<and> lib_ok t ts' ps L \<and> set ts \<subseteq> set ts' \<and> requests t = requests s
    \<and> SIM_COUNT t = SIM_COUNT s"
proof -
  from assms(1) have "loop_ok s ts ps" "callbacks_ok s ({} \<union> set ts \<union> set ps)" "wake_ok s" "pending_ok s L"
    by (simp_all add: lib_ok_def)
  with assms(2) [unfolded api_def, rule_format, of s ts ps "{}"] obtain x t ts' where
    t: "m s = Done x t" "loop_ok t ts' ps" "callbacks_ok t ({} \<union> set ts' \<union> set ps)" "wake_ok t" "set ts \<subseteq> set ts'"
      "requests t = requests s" "s_pendingRequests t = s_pendingRequests s" "SIM_COUNT t = SIM_COUNT s" by auto
  moreover have "pending_ok t L" using \<open>pending_ok s L\<close> t(6-8) pending_ok_cong by blast
  ultimately show ?thesis by (auto simp: lib_ok_def)
qed

lemma pending_free:
  assumes "pending_ok s L" and "\<And>k. a \<notin> set (L k)"
  shows "pending_ok (s\<lparr>requests := (requests s)(a := None)\<rparr>) L"
  unfolding pending_ok_def
proof (intro allI conjI ballI)
  fix j b
  show "chain (requests (s\<lparr>requests := (requests s)(a := None)\<rparr>)) (s_pendingRequests (s\<lparr>requests := (requests s)(a := None)\<rparr>) j) (L j)"
    using assms by (simp add: chain_update pending_ok_def)
  assume "b \<in> set (L j)"
  moreover from this have "b \<noteq> a" using assms(2) by blast
  ultimately show "\<exists>r. requests (s\<lparr>requests := (requests s)(a := None)\<rparr>) b = Some r \<and> ri_pCI r < length s_commands
      \<and> pendingRequestsHook (SIM_COUNT (s\<lparr>requests := (requests s)(a := None)\<rparr>)) (ri_socket r) = j"
    using assms(1) unfolding pending_ok_def by simp
qed (use assms(1) in \<open>auto simp: pending_ok_def\<close>)

text \<open>A request that the service sends to the vendor library: not cancelled, not local, with a response.\<close>

definition answerable :: "RequestInfo \<Rightarrow> bool" where
  "answerable r \<longleftrightarrow> ri_cancelled r = 0 \<and> ri_local r = 0 \<and> responseFunction (s_commands ! ri_pCI r) \<noteq> None"

definition response_type :: "lib \<Rightarrow> RequestInfo \<Rightarrow> int" where
  "response_type s r = (if callbacks_version s \<ge> 13 \<and> ri_wasAckSent r = 1 then RESPONSE_SOLICITED_ACK_EXP else RESPONSE_SOLICITED)"

lemma complete_answers:
  assumes ok: "lib_ok s ts ps L" and a: "a \<in> set (L k)" and r: "requests s a = Some r" "answerable r"
  shows "\<exists>t ts'. RIL_onRequestComplete_impl (Some a) e response s = Done () t
    \<and> sent t = sent s @ [MResponse (ri_socket r) (ri_token r) (response_type s r) e response]
    \<and> requests t a = None \<and> lib_ok t ts' ps (L(k := remove1 a (L k))) \<and> SIM_COUNT t = SIM_COUNT s"
proof -
  from ok have p: "pending_ok s L" by (simp add: lib_ok_def)
  from check_complete [OF p a] r(1) obtain u where
    u: "checkAndDequeueRequestInfoIfAck (Some a) False s = Done True u"
      "u = s\<lparr>requests := requests u, s_pendingRequests := s_pendingRequests u\<rparr>"
      "requests u a = Some r" "pending_ok u (L(k := remove1 a (L k)))" by auto
  have su: "callbacks_version u = callbacks_version s" "sent u = sent s" "SIM_COUNT u = SIM_COUNT s" by (subst u(2), simp)+
  have oku: "lib_ok u ts ps (L(k := remove1 a (L k)))"
  proof -
    have "loop_ok u ts ps = loop_ok s ts ps" by (rule loop_ok_cong) (subst u(2), simp)+
    moreover have "callbacks_ok u E = callbacks_ok s E" for E by (subst u(2), simp)
    moreover have "wake_ok u = wake_ok s" by (subst u(2), simp)
    ultimately show ?thesis using ok u(4) by (simp add: lib_ok_def)
  qed
  let ?grab = "if callbacks_version s \<ge> 13 \<and> ri_wasAckSent r = 1
      then andthen grabPartialWakeLock (ret RESPONSE_SOLICITED_ACK_EXP) else ret RESPONSE_SOLICITED"
  have "\<exists>v ts'. ?grab u = Done (response_type s r) v \<and> lib_ok v ts' ps (L(k := remove1 a (L k)))
       \<and> requests v = requests u \<and> sent v = sent u \<and> SIM_COUNT v = SIM_COUNT u"
  proof (cases "callbacks_version s \<ge> 13 \<and> ri_wasAckSent r = 1")
    case True
    from True su have "api (callbacks_version u) True (\<lambda>_. True) grabPartialWakeLock" by (simp add: grab_new_api)
    from api_lib_ok [OF oku this] obtain x v ts' where
      v: "grabPartialWakeLock u = Done x v" "lib_ok v ts' ps (L(k := remove1 a (L k)))" "requests v = requests u"
        "SIM_COUNT v = SIM_COUNT u" by blast
    with stepsD [OF grab_client v(1)] True show ?thesis by (auto simp: client_def andthen_def bnd_def ret_def response_type_def)
  next
    case False
    with oku show ?thesis by (auto simp: ret_def response_type_def)
  qed
  then obtain v ts' where v: "?grab u = Done (response_type s r) v" "lib_ok v ts' ps (L(k := remove1 a (L k)))"
    "requests v = requests u" "sent v = sent u" "SIM_COUNT v = SIM_COUNT u" by blast
  define w where "w = v\<lparr>sent := sent v @ [MResponse (ri_socket r) (ri_token r) (response_type s r) e response]\<rparr>"
  define t where "t = w\<lparr>requests := (requests w)(a := None)\<rparr>"
  from r(2) obtain f where f: "responseFunction (s_commands ! ri_pCI r) = Some f" "ri_cancelled r = 0" "ri_local r = 0"
    by (auto simp: answerable_def)
  have ra: "requests w a = Some r" using u(3) v(3) by (simp add: w_def)
  have answer: "answer_request r e response u = Done () w"
    using v(1) f su(1) by (simp add: answer_request_def gets_def bnd_def call_response_def send_msg_def modify_def w_def)
  have "RIL_onRequestComplete_impl (Some a) e response s = free_request a w"
    by (simp add: RIL_onRequestComplete_impl_def bnd_def u(1,3) request_at_def gets_def ret_def f whenever_def andthen_def answer)
  also have "\<dots> = Done () t"
    by (simp add: free_request_def request_at_def ra run_simps t_def)
  finally have run: "RIL_onRequestComplete_impl (Some a) e response s = Done () t" .
  have out: "a \<notin> set ((L(k := remove1 a (L k))) j)" for j
    using pending_distinct [OF p, of k] pending_unique [OF p a, of j] by auto
  have "pending_ok w (L(k := remove1 a (L k)))" using v(2) pending_ok_cong [of w v] by (simp add: lib_ok_def w_def)
  from pending_free [OF this out] have "pending_ok t (L(k := remove1 a (L k)))" unfolding t_def .
  moreover have "loop_ok t ts' ps = loop_ok v ts' ps" by (rule loop_ok_cong) (simp_all add: t_def w_def)
  ultimately have "lib_ok t ts' ps (L(k := remove1 a (L k)))"
    using v(2) by (simp add: lib_ok_def t_def w_def)
  with run v(4,5) su show ?thesis by (intro exI [of _ t] exI [of _ ts']) (simp add: t_def w_def)
qed

text \<open>A token that has been completed.\<close>

lemma complete_again:
  assumes ok: "lib_ok s ts ps L" and freed: "requests s a = None"
  shows "SIM_COUNT s < 2 \<Longrightarrow> RIL_onRequestComplete_impl (Some a) e response s = Done () s"
    and "SIM_COUNT s \<ge> 2 \<Longrightarrow> RIL_onRequestComplete_impl (Some a) e response s = Crash UseAfterFree"
proof -
  have p: "pending_ok s L" using ok by (simp add: lib_ok_def)
  have "a \<notin> set (L 0)" using pending_alive [OF p, of a 0] freed by blast
  with check_unknown [OF p _ this]
  show "SIM_COUNT s < 2 \<Longrightarrow> RIL_onRequestComplete_impl (Some a) e response s = Done () s"
    by (simp add: RIL_onRequestComplete_impl_def run_simps)
  show "SIM_COUNT s \<ge> 2 \<Longrightarrow> RIL_onRequestComplete_impl (Some a) e response s = Crash UseAfterFree"
    using check_freed [of s a False] freed by (simp add: RIL_onRequestComplete_impl_def run_simps)
qed

lemma add_request_ok:
  assumes ok: "lib_ok s ts ps L" and al: "allocs s = Some a # later" and new: "requests s a = None"
    and req: "request < length s_commands" and k: "k = pendingRequestsHook (SIM_COUNT s) slotId"
  shows "\<exists>t r. addRequestToList serial slotId request s = Done (Some a) t \<and> lib_ok t ts ps (L(k := a # L k))
    \<and> requests t a = Some r \<and> ri_token r = serial \<and> ri_pCI r = request \<and> ri_socket r = slotId \<and> ri_cancelled r = 0
    \<and> ri_local r = 0 \<and> ri_wasAckSent r = 0 \<and> sent t = sent s \<and> SIM_COUNT t = SIM_COUNT s \<and> connected t = connected s"
proof -
  from ok have p: "pending_ok s L" by (simp add: lib_ok_def)
  from addRequestToList_adds [OF p al new req k, of serial] obtain t n where
    t: "addRequestToList serial slotId request s = Done (Some a) t" "pending_ok t (L(k := a # L k))"
      "requests t = (requests s)(a \<mapsto> \<lparr>ri_token = serial, ri_pCI = request, ri_next = n, ri_cancelled = 0,
         ri_local = 0, ri_socket = slotId, ri_wasAckSent = 0\<rparr>)"
      "t = s\<lparr>allocs := later, requests := requests t, s_pendingRequests := s_pendingRequests t\<rparr>" by blast
  have "loop_ok t ts ps = loop_ok s ts ps" by (rule loop_ok_cong) (subst t(4), simp)+
  moreover have "callbacks_ok t E = callbacks_ok s E" for E by (subst t(4), simp)
  moreover have "wake_ok t = wake_ok s" by (subst t(4), simp)
  ultimately have "lib_ok t ts ps (L(k := a # L k))" using ok t(2) by (simp add: lib_ok_def)
  moreover have "sent t = sent s" "SIM_COUNT t = SIM_COUNT s" "connected t = connected s" by (subst t(4), simp)+
  ultimately show ?thesis using t(1,3) by auto
qed

section \<open>A request is answered once\<close>

text \<open>The state the library starts with, with the addresses the allocator will give.\<close>

definition lib_init :: "nat \<Rightarrow> int \<Rightarrow> nat option list \<Rightarrow> lib" where
  "lib_init sims version blocks =
     \<lparr>mem = (\<lambda>e. zero_event\<lparr>ev_next := Some e, ev_prev := Some e, ev_fd := -1\<rparr>),
      watch_table = replicate MAX_FD_EVENTS None, readFds = {}, nfds = 0, monotonic = (0, 0), fired = [],
      SIM_COUNT = sims, callbacks_version = version, s_registerCalled = 1, requests = (\<lambda>_. None),
      s_pendingRequests = (\<lambda>_. None), infos = (\<lambda>_. None), s_wakelock_count = 0, s_last_wake_timeout_info = None,
      wake_held = False, s_lastNITZTimeData = None, allocs = blocks, connected = (\<lambda>_. True), in_dispatch = False,
      wakeup_bytes = 0, sent = []\<rparr>"

lemma lib_init_ok: "lib_ok (lib_init sims version blocks) [] [] (\<lambda>_. [])"
  by (simp add: lib_ok_def lib_init_def loop_ok_def ev_lists_def is_list_def sorted_timers_def table_ok_def watched_def
      callbacks_ok_def wake_ok_def pending_ok_def MAX_FD_EVENTS_def)

lemma add_and_complete:
  assumes "lib_ok s ts ps L" and "allocs s = Some a # later" and "requests s a = None"
    and "request < length s_commands" and "responseFunction (s_commands ! request) \<noteq> None"
  shows "\<exists>t u ts'. addRequestToList serial slotId request s = Done (Some a) t
    \<and> RIL_onRequestComplete_impl (Some a) e response t = Done () u
    \<and> sent u = sent s @ [MResponse slotId serial RESPONSE_SOLICITED e response]
    \<and> requests u a = None \<and> lib_ok u ts' ps L \<and> SIM_COUNT u = SIM_COUNT s"
proof -
  define k where "k = pendingRequestsHook (SIM_COUNT s) slotId"
  from add_request_ok [OF assms(1,2,3,4) k_def, of serial] obtain t r where
    t: "addRequestToList serial slotId request s = Done (Some a) t" "lib_ok t ts ps (L(k := a # L k))"
      "requests t a = Some r" "ri_token r = serial" "ri_pCI r = request" "ri_socket r = slotId" "ri_cancelled r = 0"
      "ri_local r = 0" "ri_wasAckSent r = 0" "sent t = sent s" "SIM_COUNT t = SIM_COUNT s" by blast
  have "answerable r" using t assms(5) by (simp add: answerable_def)
  moreover have "a \<in> set ((L(k := a # L k)) k)" by simp
  moreover have "response_type t r = RESPONSE_SOLICITED" using t(9) by (simp add: response_type_def)
  ultimately obtain u ts' where
    u: "RIL_onRequestComplete_impl (Some a) e response t = Done () u"
      "sent u = sent t @ [MResponse (ri_socket r) (ri_token r) RESPONSE_SOLICITED e response]" "requests u a = None"
      "lib_ok u ts' ps ((L(k := a # L k))(k := remove1 a ((L(k := a # L k)) k)))" "SIM_COUNT u = SIM_COUNT t"
    using complete_answers [OF t(2) _ t(3), of k e response] by metis
  have "(L(k := a # L k))(k := remove1 a ((L(k := a # L k)) k)) = L" by simp
  with u(4) have "lib_ok u ts' ps L" by simp
  with t u show ?thesis by auto
qed

text \<open>
  C14: a request that the service has added is answered by its first completion with the client's serial
  and slot, whatever other requests and timers there are; a second completion of the same token does
  nothing, when there is one SIM card, and the lists are as before the request.
\<close>

theorem request_answered_once:
  assumes "lib_ok s ts ps L" and "SIM_COUNT s < 2" and "allocs s = Some a # later" and "requests s a = None"
    and "request < length s_commands" and "responseFunction (s_commands ! request) \<noteq> None"
  shows "\<exists>t u ts'. addRequestToList serial slotId request s = Done (Some a) t
    \<and> RIL_onRequestComplete_impl (Some a) e response t = Done () u
    \<and> sent u = sent s @ [MResponse slotId serial RESPONSE_SOLICITED e response]
    \<and> RIL_onRequestComplete_impl (Some a) e' response' u = Done () u
    \<and> requests u a = None \<and> lib_ok u ts' ps L"
proof -
  from add_and_complete [OF assms(1,3-6)] obtain t u ts' where
    u: "addRequestToList serial slotId request s = Done (Some a) t"
      "RIL_onRequestComplete_impl (Some a) e response t = Done () u"
      "sent u = sent s @ [MResponse slotId serial RESPONSE_SOLICITED e response]"
      "requests u a = None" "lib_ok u ts' ps L" "SIM_COUNT u = SIM_COUNT s" by blast
  with complete_again(1) [OF u(5,4)] assms(2) show ?thesis by auto
qed

lemma row_9: "responseFunction (s_commands ! 9) = Some ''getCurrentCallsResponse''"
  by (simp add: s_commands_def command_rows_def command_row_def)

lemma lib_init_fields [simp]:
  "SIM_COUNT (lib_init n v b) = n" "allocs (lib_init n v b) = b" "requests (lib_init n v b) = (\<lambda>_. None)"
  "sent (lib_init n v b) = []" "callbacks_version (lib_init n v b) = v" "s_registerCalled (lib_init n v b) = 1"
  "connected (lib_init n v b) = (\<lambda>_. True)" "s_lastNITZTimeData (lib_init n v b) = None"
  "wake_held (lib_init n v b) = False"
  by (simp_all add: lib_init_def)

theorem request_answered_once_witness:
  "\<exists>t u. addRequestToList 77 0 9 (lib_init 1 12 [Some 500]) = Done (Some 500) t
     \<and> RIL_onRequestComplete_impl (Some 500) RIL_E_SUCCESS PNone t = Done () u
     \<and> sent u = [MResponse 0 77 RESPONSE_SOLICITED RIL_E_SUCCESS PNone]"
  using request_answered_once [OF lib_init_ok, of 1 12 "[Some 500]" 500 "[]" 9 77 0 RIL_E_SUCCESS PNone RIL_E_SUCCESS PNone]
  by (auto simp: row_9)

text \<open>
  C36: with two SIM cards or more a second completion of a token reads the freed request before it looks
  for it in the list.
\<close>

theorem second_completion_reads_freed_request:
  assumes "lib_ok s ts ps L" and "SIM_COUNT s \<ge> 2" and "allocs s = Some a # later" and "requests s a = None"
    and "request < length s_commands" and "responseFunction (s_commands ! request) \<noteq> None"
  shows "\<exists>t u. addRequestToList serial slotId request s = Done (Some a) t
    \<and> RIL_onRequestComplete_impl (Some a) e response t = Done () u
    \<and> RIL_onRequestComplete_impl (Some a) e' response' u = Crash UseAfterFree"
proof -
  from add_and_complete [OF assms(1,3-6)] obtain t u ts' where
    u: "addRequestToList serial slotId request s = Done (Some a) t"
      "RIL_onRequestComplete_impl (Some a) e response t = Done () u"
      "requests u a = None" "lib_ok u ts' ps L" "SIM_COUNT u = SIM_COUNT s" by blast
  with complete_again(2) [OF u(4,3)] assms(2) show ?thesis by auto
qed

theorem second_completion_reads_freed_request_witness:
  "\<exists>t u. addRequestToList 77 1 9 (lib_init 2 12 [Some 500]) = Done (Some 500) t
     \<and> RIL_onRequestComplete_impl (Some 500) RIL_E_SUCCESS PNone t = Done () u
     \<and> RIL_onRequestComplete_impl (Some 500) RIL_E_SUCCESS PNone u = Crash UseAfterFree"
  using second_completion_reads_freed_request [OF lib_init_ok, of 2 12 "[Some 500]" 500 "[]" 9 77 1]
  by (auto simp: row_9)

text \<open>
  A token is an address. When the allocator gives the address of an answered request to a new one,
  of whatever slot, a late second completion of the old token answers the new request.
\<close>

theorem late_completion_answers_another_request:
  assumes "lib_ok s ts ps L" and "requests s a = None" and "allocs s = [Some a]"
    and "request < length s_commands" and "responseFunction (s_commands ! request) \<noteq> None"
    and "request' < length s_commands" and "responseFunction (s_commands ! request') \<noteq> None"
  shows "\<exists>t u v w. addRequestToList serial slotId request s = Done (Some a) t
    \<and> RIL_onRequestComplete_impl (Some a) e response t = Done () u
    \<and> addRequestToList serial' slotId' request' (u\<lparr>allocs := [Some a]\<rparr>) = Done (Some a) v
    \<and> RIL_onRequestComplete_impl (Some a) e response v = Done () w
    \<and> sent w = sent s @ [MResponse slotId serial RESPONSE_SOLICITED e response,
                          MResponse slotId' serial' RESPONSE_SOLICITED e response]"
proof -
  from add_and_complete [OF assms(1,3,2,4,5)] obtain t u ts' where
    u: "addRequestToList serial slotId request s = Done (Some a) t"
      "RIL_onRequestComplete_impl (Some a) e response t = Done () u"
      "sent u = sent s @ [MResponse slotId serial RESPONSE_SOLICITED e response]"
      "requests u a = None" "lib_ok u ts' ps L" by blast
  have "loop_ok (u\<lparr>allocs := [Some a]\<rparr>) ts' ps = loop_ok u ts' ps" by (rule loop_ok_cong) simp_all
  with u(5) have "lib_ok (u\<lparr>allocs := [Some a]\<rparr>) ts' ps L" by (simp add: lib_ok_def pending_ok_def)
  from add_and_complete [OF this _ _ assms(6,7), of a "[]" serial' slotId' e response] u(4) obtain v w where
    "addRequestToList serial' slotId' request' (u\<lparr>allocs := [Some a]\<rparr>) = Done (Some a) v"
    "RIL_onRequestComplete_impl (Some a) e response v = Done () w"
    "sent w = sent u @ [MResponse slotId' serial' RESPONSE_SOLICITED e response]" by auto
  with u show ?thesis by auto
qed

theorem late_completion_answers_another_request_witness:
  "\<exists>t u v w. addRequestToList 77 0 9 (lib_init 1 12 [Some 500]) = Done (Some 500) t
     \<and> RIL_onRequestComplete_impl (Some 500) RIL_E_SUCCESS PNone t = Done () u
     \<and> addRequestToList 78 0 9 (u\<lparr>allocs := [Some 500]\<rparr>) = Done (Some 500) v
     \<and> RIL_onRequestComplete_impl (Some 500) RIL_E_SUCCESS PNone v = Done () w
     \<and> sent w = [MResponse 0 77 RESPONSE_SOLICITED RIL_E_SUCCESS PNone, MResponse 0 78 RESPONSE_SOLICITED RIL_E_SUCCESS PNone]"
  using late_completion_answers_another_request [OF lib_init_ok, of 1 12 "[Some 500]" 500 9 9 77 0 RIL_E_SUCCESS PNone 78 0]
  by (auto simp: row_9)

section \<open>The network time\<close>

lemma acquire_runs: "acquire_wake_lock s = Done () (s\<lparr>wake_held := True\<rparr>)"
  by (simp add: acquire_wake_lock_def modify_def)

lemma grab_allocs:
  assumes "grabPartialWakeLock s = Done x t"
  shows "callbacks_version s \<ge> 13 \<Longrightarrow> allocs t = tl (allocs s)"
    and "callbacks_version s < 13 \<Longrightarrow> t = s\<lparr>wake_held := True\<rparr>"
proof -
  show "callbacks_version s < 13 \<Longrightarrow> t = s\<lparr>wake_held := True\<rparr>"
    using assms by (simp add: grabPartialWakeLock_def acquire_wake_lock_def run_simps)
  assume v: "callbacks_version s \<ge> 13"
  with assms obtain p u where u: "internalRequestTimedCallback WakeTimeout 0 (Some TIMEVAL_WAKE_TIMEOUT) (s\<lparr>wake_held := True\<rparr>) = Done p u"
    "(case p of None \<Rightarrow> release_wake_lock
      | Some a \<Rightarrow> andthen (modify (\<lambda>s. s\<lparr>s_wakelock_count := s_wakelock_count s + 1\<rparr>)) (set_last a)) u = Done x t"
    unfolding grabPartialWakeLock_def by (auto simp: bnd_Done andthen_Done gets_def acquire_runs)
  have "allocs u = tl (allocs s)" using timed_client(1) [OF u(1)] by (simp add: undisturbed_def)
  moreover have "allocs t = allocs u"
    using u(2) stepsD [OF set_last_client]
    by (fastforce simp: release_wake_lock_def modify_def andthen_Done undisturbed_def split: option.splits)
  ultimately show "allocs t = tl (allocs s)" by simp
qed

lemma row_nitz:
  "unsolFunction (s_unsolResponses ! 8) = Some ''nitzTimeReceivedInd''" "wakeType (s_unsolResponses ! 8) = WAKE_PARTIAL"
  by (simp_all add: s_unsolResponses_def unsol_rows_def unsol_row_def)

lemma schedule_runs:
  assumes "schedule_timeout True s = Done ok t"
  shows "client t = client s"
    and "callbacks_version s \<ge> 13 \<Longrightarrow> ok \<and> t = s"
    and "callbacks_version s < 13 \<Longrightarrow> allocs t = tl (allocs s)
      \<and> (allocs s = Some a # later \<longrightarrow> a \<noteq> 0 \<longrightarrow> infos s a = None \<longrightarrow> ok)"
proof -
  have new: "ok \<and> t = s" if "callbacks_version s \<ge> 13"
    using assms that by (simp add: schedule_timeout_def run_simps)
  then show "callbacks_version s \<ge> 13 \<Longrightarrow> ok \<and> t = s" .
  have old: "client t = client s \<and> allocs t = tl (allocs s) \<and> (allocs s = Some a # later \<longrightarrow> a \<noteq> 0 \<longrightarrow> infos s a = None \<longrightarrow> ok)"
    if "callbacks_version s < 13"
  proof -
    from assms that obtain p u where u: "internalRequestTimedCallback WakeTimeout 0 (Some TIMEVAL_WAKE_TIMEOUT) s = Done p u"
      "(case p of None \<Rightarrow> ret False | Some a \<Rightarrow> andthen (set_last a) (ret True)) u = Done ok t"
      unfolding schedule_timeout_def by (auto simp: bnd_Done gets_def)
    have "undisturbed t = undisturbed u"
      using u(2) stepsD [OF set_last_client] by (fastforce simp: andthen_Done ret_def split: option.splits)
    with timed_client [OF u(1)] u(2) show ?thesis
      by (auto simp: undisturbed_def client_def andthen_Done ret_def split: option.splits)
  qed
  show "client t = client s" using new old by (cases "callbacks_version s \<ge> 13") auto
  show "callbacks_version s < 13 \<Longrightarrow> allocs t = tl (allocs s)
      \<and> (allocs s = Some a # later \<longrightarrow> a \<noteq> 0 \<longrightarrow> infos s a = None \<longrightarrow> ok)" using old by blast
qed

definition finish_nitz :: "payload \<Rightarrow> int \<Rightarrow> unit lprog" where
  "finish_nitz ev res = bnd (schedule_timeout True) (\<lambda>ok.
     if \<not> ok then releaseWakeLock
     else bnd (keep_nitz (res \<noteq> 0) ev) (\<lambda>kept_it. if \<not> kept_it then releaseWakeLock else ret ()))"

lemma nitz_program:
  "s_registerCalled s \<noteq> 0 \<Longrightarrow> RIL_onUnsolicitedResponse_impl RIL_UNSOL_NITZ_TIME_RECEIVED_code ev k s
    = andthen grabPartialWakeLock (bnd (gets callbacks_version) (\<lambda>version. bnd (call_indication ''nitzTimeReceivedInd'' k
        (if version \<ge> 13 then RESPONSE_UNSOLICITED_ACK_EXP else RESPONSE_UNSOLICITED) RIL_UNSOL_NITZ_TIME_RECEIVED_code ev)
        (finish_nitz ev))) s"
  by (simp add: RIL_onUnsolicitedResponse_impl_def RIL_UNSOL_NITZ_TIME_RECEIVED_code_def RIL_UNSOL_RESPONSE_BASE_def
      row_nitz gets_def whenever_def bnd_def [of "\<lambda>s. Done (s_registerCalled s) s"] finish_nitz_def [abs_def] Let_def cong: if_cong)

lemma nitz_kept:
  assumes ok: "lib_ok s ts ps L" and reg: "s_registerCalled s \<noteq> 0" and down: "\<not> connected s k"
    and al: "allocs s = Some a # Some b # later" and a: "a \<noteq> 0" "infos s a = None"
  shows "\<exists>t ts'. RIL_onUnsolicitedResponse_impl RIL_UNSOL_NITZ_TIME_RECEIVED_code ev k s = Done () t \<and> lib_ok t ts' ps L
    \<and> s_lastNITZTimeData t = Some ev \<and> sent t = sent s \<and> connected t = connected s
    \<and> callbacks_version t = callbacks_version s"
proof -
  from api_lib_ok [OF ok unsolicited_api] obtain t ts' where
    t: "RIL_onUnsolicitedResponse_impl RIL_UNSOL_NITZ_TIME_RECEIVED_code ev k s = Done () t" "lib_ok t ts' ps L" by (metis (full_types) old.unit.exhaust)
  have gc: "client u = client s" if "grabPartialWakeLock s = Done () u" for u using stepsD [OF grab_client that] .
  have nitz: "call_indication ''nitzTimeReceivedInd'' k ty n ev u = Done (-1) u" if "client u = client s" for u ty n
    using that down by (simp add: call_indication_def run_simps client_def)
  from t(1) nitz_program [OF reg, of ev k] obtain u where u: "grabPartialWakeLock s = Done () u"
    and u2: "bnd (gets callbacks_version) (\<lambda>version. bnd (call_indication ''nitzTimeReceivedInd'' k
        (if version \<ge> 13 then RESPONSE_UNSOLICITED_ACK_EXP else RESPONSE_UNSOLICITED) RIL_UNSOL_NITZ_TIME_RECEIVED_code ev)
        (finish_nitz ev)) u = Done () t"
    by (auto simp: andthen_Done)
  from u2 have "finish_nitz ev (-1) u = Done () t" by (simp add: bnd_def gets_def nitz [OF gc [OF u]])
  then obtain ok v where v: "schedule_timeout True u = Done ok v"
    and w: "(if \<not> ok then releaseWakeLock else bnd (keep_nitz True ev) (\<lambda>kept_it. if \<not> kept_it then releaseWakeLock else ret ())) v = Done () t"
    by (auto simp: finish_nitz_def bnd_Done cong: if_cong)
  have cv: "client v = client s" using schedule_runs(1) [OF v] gc [OF u] by simp
  have ver: "callbacks_version u = callbacks_version s" using gc [OF u] by (simp add: client_def)
  have "ok \<and> allocs v = Some b # later"
  proof (cases "callbacks_version s \<ge> 13")
    case True
    then show ?thesis using schedule_runs(2) [OF v] grab_allocs(1) [OF u] al ver by simp
  next
    case False
    then have "u = s\<lparr>wake_held := True\<rparr>" using grab_allocs(2) [OF u] by simp
    with schedule_runs(3) [OF v] False al a show ?thesis by simp
  qed
  then have "t = v\<lparr>allocs := later, s_lastNITZTimeData := Some ev\<rparr>"
    using w by (auto simp add: keep_nitz_def run_simps calloc_def)
  with t cv show ?thesis by (auto simp: client_def)
qed

lemma resend_nitz:
  assumes "s_lastNITZTimeData s = Some ev"
  shows "connected s k \<Longrightarrow> resendLastNITZTimeData k s = Done () (s\<lparr>sent := sent s @ [MIndication k
      (if callbacks_version s \<ge> 13 then RESPONSE_UNSOLICITED_ACK_EXP else RESPONSE_UNSOLICITED)
      RIL_UNSOL_NITZ_TIME_RECEIVED_code ev], s_lastNITZTimeData := None\<rparr>)"
    and "\<not> connected s k \<Longrightarrow> resendLastNITZTimeData k s = Done () s"
  using assms by (simp_all add: resendLastNITZTimeData_def call_indication_def send_msg_def run_simps)


lemma lib_ok_connected: "lib_ok (s\<lparr>connected := c\<rparr>) ts ps L = lib_ok s ts ps L"
proof -
  have "loop_ok (s\<lparr>connected := c\<rparr>) ts ps = loop_ok s ts ps" by (rule loop_ok_cong) simp_all
  moreover have "callable (s\<lparr>connected := c\<rparr>) e = callable s e" for e by (cases e) (simp_all add: callable_def call_of_def)
  ultimately show ?thesis by (simp add: lib_ok_def callbacks_ok_def wake_ok_def pending_ok_def watched_def)
qed


text \<open>
  From version 13 on the client acknowledges every indication of this type and each acknowledgement
  takes one off the wake lock's count. The network time that is sent again asks for one although it took
  no lock: its acknowledgement releases the lock of an indication that is still to be acknowledged.
\<close>

theorem resent_time_releases_another_lock:
  assumes "callbacks_ok s E" and "callbacks_version s \<ge> 13" and "connected s k" and "s_lastNITZTimeData s = Some ev"
    and "wake_held s" and "s_wakelock_count s = 1"
  shows "\<exists>t u. resendLastNITZTimeData k s = Done () t
    \<and> sent t = sent s @ [MIndication k RESPONSE_UNSOLICITED_ACK_EXP RIL_UNSOL_NITZ_TIME_RECEIVED_code ev]
    \<and> s_wakelock_count t = 1 \<and> wake_held t
    \<and> releaseWakeLock t = Done () u \<and> \<not> wake_held u"
proof -
  define t where "t = s\<lparr>sent := sent s @ [MIndication k RESPONSE_UNSOLICITED_ACK_EXP RIL_UNSOL_NITZ_TIME_RECEIVED_code ev],
      s_lastNITZTimeData := None\<rparr>"
  have run: "resendLastNITZTimeData k s = Done () t" using resend_nitz(1) [OF assms(4,3)] assms(2) by (simp add: t_def)
  have "callbacks_ok (t\<lparr>s_wakelock_count := 0, wake_held := False\<rparr>) E"
    using assms(1) callbacks_ok_count [of t E 0] by (simp add: t_def)
  from cancel_last_runs [OF this] obtain u where
    u: "cancel_last (t\<lparr>s_wakelock_count := 0, wake_held := False\<rparr>) = Done () u"
      "u = t\<lparr>s_wakelock_count := 0, wake_held := False, infos := infos u\<rparr>" by auto
  have "releaseWakeLock t = Done () u"
    using u(1) assms by (simp add: releaseWakeLock_def release_wake_lock_def run_simps t_def)
  moreover have "\<not> wake_held u" by (subst u(2)) simp
  ultimately show ?thesis using run assms by (auto simp: t_def)
qed

theorem resent_time_releases_another_lock_witness:
  "\<exists>t u. resendLastNITZTimeData 0 ((lib_init 1 13 [])\<lparr>wake_held := True, s_wakelock_count := 1,
        s_lastNITZTimeData := Some PNone\<rparr>) = Done () t
     \<and> wake_held t \<and> releaseWakeLock t = Done () u \<and> \<not> wake_held u"
  using resent_time_releases_another_lock [of "(lib_init 1 13 [])\<lparr>wake_held := True, s_wakelock_count := 1,
      s_lastNITZTimeData := Some PNone\<rparr>" "{}" 0 PNone]
    callbacks_ok_count [of "(lib_init 1 13 [])\<lparr>wake_held := True\<rparr>" "{}" 1] lib_init_ok [of 1 13 "[]"]
  by (auto simp: lib_ok_def)

end
