(* ===== verification/LibLoop.thy ===== *)
theory LibLoop
  imports LibComplete
begin

text \<open>
  The library on its event loop: what the loop's events run, and the loop's contract discharged for it.
\<close>

section \<open>The events\<close>

text \<open>
  A timed callback in three steps, since other threads may run between them: the function and its
  parameter are read, the function runs, the structure is freed.
\<close>

definition fetch_callback :: "nat \<Rightarrow> (timed_function \<times> nat) lprog" where
  "fetch_callback a = bnd (info_at a) (\<lambda>i. ret (p_callback i, userParam i))"

definition finish_callback :: "nat \<Rightarrow> unit lprog" where
  "finish_callback a =
     andthen (bnd (gets s_last_wake_timeout_info) (\<lambda>last.
         whenever (last = Some a) (modify (\<lambda>s. s\<lparr>s_last_wake_timeout_info := None\<rparr>))))
       (bnd (info_at a) (\<lambda>_. modify (\<lambda>s. s\<lparr>infos := (infos s)(a := None)\<rparr>)))"

text \<open>What a function of the vendor library calls when its time has come.\<close>

datatype vendor_call =
    VTimed nat nat "timeval option"       \<comment> \<open>function, parameter, delay\<close>
  | VUnsol int payload nat

definition vendor_step :: "vendor_call \<Rightarrow> unit lprog" where
  "vendor_step c = (case c of
     VTimed f param rel \<Rightarrow> RIL_requestTimedCallback_impl (VendorCallback f) param rel
   | VUnsol n ev k \<Rightarrow> RIL_onUnsolicitedResponse_impl n ev k)"

definition run_callback :: "(nat \<Rightarrow> nat \<Rightarrow> vendor_call list) \<Rightarrow> timed_function \<Rightarrow> nat \<Rightarrow> unit lprog" where
  "run_callback vendor f param = (case f of
     WakeTimeout \<Rightarrow> wakeTimeoutCallback param
   | VendorCallback c \<Rightarrow> seqs (map vendor_step (vendor c param)))"

definition userTimerCallback :: "(nat \<Rightarrow> nat \<Rightarrow> vendor_call list) \<Rightarrow> nat option \<Rightarrow> unit lprog" where
  "userTimerCallback vendor param = (case param of
     None \<Rightarrow> crash NullDeref
   | Some a \<Rightarrow> bnd (fetch_callback a) (\<lambda>(f, u). andthen (run_callback vendor f u) (finish_callback a)))"

text \<open>The pipe is emptied, sixteen bytes at a time.\<close>

definition read_wakeup :: "nat lprog" where
  "read_wakeup = bnd (gets wakeup_bytes) (\<lambda>n.
     andthen (modify (\<lambda>s. s\<lparr>wakeup_bytes := n - 16\<rparr>)) (ret (min n 16)))"

definition processWakeupCallback :: "unit lprog" where
  "processWakeupCallback =
     bnd read_wakeup (\<lambda>res. bnd (while_prog (\<lambda>res s. res > 0) (\<lambda>_. read_wakeup) res) (\<lambda>_. ret ()))"

definition lib_run :: "(nat \<Rightarrow> nat \<Rightarrow> vendor_call list) \<Rightarrow> ril_event_cb \<Rightarrow> int \<Rightarrow> nat option \<Rightarrow> unit lprog" where
  "lib_run vendor cb fd param = (case cb of
     CB_userTimer \<Rightarrow> userTimerCallback vendor param
   | CB_processWakeup \<Rightarrow> processWakeupCallback)"

section \<open>The callbacks keep the invariant\<close>

lemma seqs_api:
  assumes "\<And>m. m \<in> set ms \<Longrightarrow> api v True (\<lambda>_. True) m"
  shows "api v True (\<lambda>_. True) (seqs ms)"
  using assms by (induction ms) (auto intro: api_ret api_andthen)

lemma run_callback_api: "api v True (\<lambda>_. True) (run_callback vendor f u)"
proof (cases f)
  case WakeTimeout
  then show ?thesis by (simp add: run_callback_def wakeTimeout_api)
next
  case (VendorCallback c)
  have "api v True (\<lambda>_. True) (vendor_step x)" for x
    by (cases x) (simp_all add: vendor_step_def requestTimedCallback_api unsolicited_api)
  with VendorCallback show ?thesis by (auto simp: run_callback_def intro!: seqs_api)
qed

lemma wakeup_empties: "\<exists>t. processWakeupCallback s = Done () t \<and> t = s\<lparr>wakeup_bytes := 0\<rparr>"
proof -
  have "\<exists>r. while_prog (\<lambda>res s. res > 0) (\<lambda>_. read_wakeup) res (s\<lparr>wakeup_bytes := n\<rparr>) = Done r (s\<lparr>wakeup_bytes := 0\<rparr>)"
    if "n > 0 \<longrightarrow> res > 0" for res :: nat and n
    using that
  proof (induction n arbitrary: res rule: less_induct)
    case (less n)
    show ?case
    proof (cases "res > 0")
      case False
      with less.prems show ?thesis by (simp add: while_prog_stop)
    next
      case True
      have body: "read_wakeup (s\<lparr>wakeup_bytes := n\<rparr>) = Done (min n 16) (s\<lparr>wakeup_bytes := n - 16\<rparr>)"
        by (simp add: read_wakeup_def run_simps)
      have "\<exists>r. while_prog (\<lambda>res s. res > 0) (\<lambda>_. read_wakeup) (min n 16) (s\<lparr>wakeup_bytes := n - 16\<rparr>)
          = Done r (s\<lparr>wakeup_bytes := 0\<rparr>)"
        using less.IH [of "n - 16" "min n 16"] by (cases n) (auto simp: while_prog_stop)
      then show ?thesis
        using while_prog_Done [where b = "\<lambda>res s. res > 0" and c = "\<lambda>_. read_wakeup", OF True body] by simp
    qed
  qed
  from this [of "wakeup_bytes s - 16" "min (wakeup_bytes s) 16"] show ?thesis
    by (auto simp: processWakeupCallback_def read_wakeup_def run_simps)
qed

lemma wakeTimeout_releases: "wakeTimeoutCallback 0 s = Done () t \<Longrightarrow> \<not> wake_held t"
  by (auto simp: wakeTimeoutCallback_def releaseWakeLock_def release_wake_lock_def run_simps split: if_splits)

lemma wakeTimeout_cancelled: "u \<noteq> 0 \<Longrightarrow> wakeTimeoutCallback u s = Done () s"
  by (simp add: wakeTimeoutCallback_def run_simps)

text \<open>What the loop's callbacks rely on and keep.\<close>

definition lib_good :: "lib \<Rightarrow> eref set \<Rightarrow> bool" where
  "lib_good s E \<longleftrightarrow> callbacks_ok s E \<and> wake_ok s \<and> (\<exists>L. pending_ok s L)"

text \<open>A timed callback runs, may arm others, and its structure is freed; a lock that is held keeps its timer.\<close>

lemma userTimerCallback_runs:
  assumes l: "loop_ok s ts ps" and cb: "callbacks_ok s (insert (Ev a) (set ts \<union> set ps))" and w: "wake_ok s"
    and new: "Ev a \<notin> set ts" "Ev a \<notin> set ps" and a: "a \<noteq> 0"
  shows "\<exists>t ts'. userTimerCallback vendor (Some a) s = Done () t \<and> loop_ok t ts' ps \<and> callbacks_ok t (set ts' \<union> set ps)
    \<and> wake_ok t \<and> (\<forall>x\<in>set ps. call_of t x = call_of s x) \<and> fired t = fired s \<and> requests t = requests s
    \<and> s_pendingRequests t = s_pendingRequests s \<and> SIM_COUNT t = SIM_COUNT s"
proof -
  from callbacks_alive [OF cb, of a] a obtain i where i: "infos s a = Some i" by auto
  have pre: "callbacks_ok s ({Ev a} \<union> set ts \<union> set ps)" "{Ev a} \<inter> (set ts \<union> set ps) = {}" using cb new by simp_all
  from run_callback_api [of "callbacks_version s" vendor "p_callback i" "userParam i", unfolded api_def, rule_format, OF l pre refl w]
  obtain x t ts' where t: "run_callback vendor (p_callback i) (userParam i) s = Done x t" "loop_ok t ts' ps"
    "callbacks_ok t ({Ev a} \<union> set ts' \<union> set ps)" "{Ev a} \<inter> (set ts' \<union> set ps) = {}" "wake_ok t"
    "\<forall>e\<in>{Ev a} \<union> set ps. call_of t e = call_of s e" "fired t = fired s" "requests t = requests s"
    "s_pendingRequests t = s_pendingRequests s" "SIM_COUNT t = SIM_COUNT s" "infos_kept s t" by auto
  from t(11) i obtain j where j: "infos t a = Some j" "p_callback j = p_callback i" by (auto simp: infos_kept_def)
  have held: "s_last_wake_timeout_info t \<noteq> Some a" if "wake_held t"
  proof
    assume la: "s_last_wake_timeout_info t = Some a"
    then have "p_callback i = WakeTimeout" using last_info [OF t(3) la] j by auto
    then have run: "wakeTimeoutCallback (userParam i) s = Done () t" using t(1) by (simp add: run_callback_def)
    show False
    proof (cases "userParam i = 0")
      case True
      then show False using wakeTimeout_releases run that by metis
    next
      case False
      with wakeTimeout_cancelled run have "t = s" by simp
      with w that la i False show False by (auto simp: wake_ok_def)
    qed
  qed
  define u where "u = t\<lparr>s_last_wake_timeout_info := (if s_last_wake_timeout_info t = Some a then None
      else s_last_wake_timeout_info t), infos := (infos t)(a := None)\<rparr>"
  have "finish_callback a t = Done () u"
    by (auto simp: finish_callback_def info_at_def j run_simps u_def)
  then have "userTimerCallback vendor (Some a) s = Done () u"
    using t(1) by (simp add: userTimerCallback_def fetch_callback_def info_at_def i run_simps)
  moreover have "loop_ok u ts' ps" using t(2) by (subst loop_ok_cong) (simp_all add: u_def)
  moreover have "callbacks_ok u (set ts' \<union> set ps)"
  proof -
    have "callable u e" if "e \<in> set ts' \<union> set ps \<union> watched t" for e
    proof -
      have "callable t e" using t(3) that unfolding callbacks_ok_def by blast
      moreover have "e \<noteq> Ev a" using that t(3,4) a unfolding callbacks_ok_def by auto
      ultimately show ?thesis by (cases e) (auto simp: callable_def call_of_def u_def)
    qed
    moreover have "watched u = watched t" by (simp add: watched_def u_def)
    ultimately show ?thesis using t(3) unfolding callbacks_ok_def by (auto simp: u_def)
  qed
  moreover have "wake_ok u" using t(5) held by (auto simp: wake_ok_def u_def)
  moreover have "call_of u e = call_of t e" for e by (simp add: call_of_def u_def)
  ultimately show ?thesis
    using t(6-10) by (intro exI [of _ u] exI [of _ ts']) (simp add: u_def)
qed

interpretation lib_events: event_handlers "lib_run vendor" lib_good
proof
  fix s t :: lib and E R
  assume g: "lib_good s E" and k: "kept s t" and w: "watched t \<subseteq> watched s" and R: "R \<subseteq> watched s"
  have more: "ev_loop.more t = ev_loop.more s" using k by (simp add: kept_def)
  have "callable t e = callable s e" for e
    by (cases e) (simp_all add: callable_def kept_call [OF k] more_fields [OF more])
  then show "lib_good t (E \<union> R)"
    using g w R unfolding lib_good_def callbacks_ok_def wake_ok_def pending_ok_def more_fields [OF more] by blast
next
  fix s :: lib and c l E e
  show "lib_good (s\<lparr>monotonic := c\<rparr>) E = lib_good s E" "lib_good (s\<lparr>fired := l\<rparr>) E = lib_good s E"
    by (simp_all add: lib_good_def callbacks_ok_def wake_ok_def pending_ok_def watched_def callable_def call_of_def
        cong: eref.case_cong)
  show "ev_func (mem s e) \<noteq> None" if "lib_good s E" "e \<in> E"
  proof -
    have "callable s e" using that by (simp add: lib_good_def callbacks_ok_def)
    then show ?thesis by (auto simp: callable_def call_of_def split: eref.splits if_splits)
  qed
next
  fix s :: lib and ts ps e f fd param
  assume l: "loop_ok s ts ps" and g: "lib_good s (insert e (set ts \<union> set ps))" and new: "e \<notin> set ts" "e \<notin> set ps"
    and c: "call_of s e = (Some f, fd, param)"
  from g have cb: "callbacks_ok s (insert e (set ts \<union> set ps))" and w: "wake_ok s" and p: "\<exists>L. pending_ok s L"
    by (simp_all add: lib_good_def)
  have "callable s e" using cb by (simp add: callbacks_ok_def)
  then obtain a where e: "e = Ev a" and fa: "a = 0 \<Longrightarrow> f = CB_processWakeup" "a \<noteq> 0 \<Longrightarrow> f = CB_userTimer \<and> param = Some a"
    using c by (auto simp: callable_def split: eref.splits if_splits)
  show "\<exists>t ts'. lib_run vendor f fd param s = Done () t \<and> loop_ok t ts' ps \<and> lib_good t (set ts' \<union> set ps)
      \<and> (\<forall>x\<in>set ps. call_of t x = call_of s x) \<and> fired t = fired s"
  proof (cases "a = 0")
    case True
    from wakeup_empties [of s] obtain t where t: "processWakeupCallback s = Done () t" "t = s\<lparr>wakeup_bytes := 0\<rparr>" by blast
    have "callbacks_ok s (set ts \<union> set ps)" using cb e True unfolding callbacks_ok_def by fastforce
    then have "lib_good t (set ts \<union> set ps)" using w p by (simp add: lib_good_def t(2) pending_ok_def)
    moreover have "loop_ok t ts ps" using l by (subst loop_ok_cong) (simp_all add: t(2))
    ultimately show ?thesis
      using t fa(1) [OF True] by (intro exI [of _ t] exI [of _ ts]) (simp add: lib_run_def call_of_def)
  next
    case False
    with userTimerCallback_runs [OF l cb [unfolded e] w new [unfolded e] False, of vendor] obtain t ts' where
      t: "userTimerCallback vendor (Some a) s = Done () t" "loop_ok t ts' ps" "callbacks_ok t (set ts' \<union> set ps)" "wake_ok t"
        "\<forall>x\<in>set ps. call_of t x = call_of s x" "fired t = fired s" "requests t = requests s"
        "s_pendingRequests t = s_pendingRequests s" "SIM_COUNT t = SIM_COUNT s" by blast
    have "\<exists>L. pending_ok t L" using p pending_ok_cong [OF t(7-9)] by simp
    with t fa(2) [OF False] show ?thesis by (auto simp: lib_run_def lib_good_def)
  qed
qed

section \<open>The loop\<close>

text \<open>A state with one timed callback of the vendor library, due after one second.\<close>

definition one_timer :: lib where
  "one_timer = (lib_init 1 12 [])\<lparr>
     mem := (\<lambda>e. zero_event\<lparr>ev_next := Some e, ev_prev := Some e, ev_fd := -1\<rparr>)
       (TimerList := zero_event\<lparr>ev_next := Some (Ev 500), ev_prev := Some (Ev 500), ev_fd := -1\<rparr>,
        Ev 500 := \<lparr>ev_next = Some TimerList, ev_prev = Some TimerList, ev_fd = -1, ev_index = -1, ev_persist = False,
          ev_timeout = (1, 0), ev_func = Some CB_userTimer, ev_param = Some 500\<rparr>),
     infos := [500 \<mapsto> \<lparr>p_callback = VendorCallback 3, userParam = 7\<rparr>]\<rparr>"

lemma one_timer_ok: "loop_ok one_timer [Ev 500] []" "lib_good one_timer (set [Ev 500])"
proof -
  show "loop_ok one_timer [Ev 500] []"
    by (simp add: one_timer_def lib_init_def loop_ok_def ev_lists_def is_list_def sorted_timers_def table_ok_def watched_def
        MAX_FD_EVENTS_def)
  have "pending_ok one_timer (\<lambda>_. [])" by (simp add: pending_ok_def one_timer_def lib_init_def)
  then show "lib_good one_timer (set [Ev 500])"
    by (auto simp: lib_good_def callbacks_ok_def callable_def call_of_def wake_ok_def watched_def one_timer_def lib_init_def
        MAX_FD_EVENTS_def split: if_splits)
qed

lemma event_round_runs:
  assumes "loop_ok s ts []" and "lib_good s (set ts)" and "select_ok (SelReady rfds n)"
  shows "\<exists>t ts'. ril_event_round (lib_run vendor) (SelReady rfds n, clock) s = Done () t
    \<and> loop_ok t ts' [] \<and> lib_good t (set ts')
    \<and> fired t = fired s @ map (call_of s)
        (filter (expired (s\<lparr>monotonic := clock\<rparr>)) ts @ ready_events s rfds [0..<MAX_FD_EVENTS])"
proof -
  have "int (length (ready_events s rfds [0..<MAX_FD_EVENTS])) \<le> n"
    using ready_length [of s rfds] assms(1,3) by (fastforce simp: loop_ok_def select_ok_def)
  then show ?thesis using lib_events.round_calls [OF assms(1,2) refl] by blast
qed





end
