(* ===== verification/LibSystem.thy ===== *)
theory LibSystem
  imports LibLoop
begin

text \<open>
  The library as a whole: the states it can reach by the calls of the vendor library and the service
  and the rounds of its event loop; the wake lock over all of them, and where the locking is not enough.
\<close>

section \<open>The start\<close>

text \<open>The static memory is zero. \<open>fd\<close> is the reading end of the pipe.\<close>

definition lib_zero :: "nat \<Rightarrow> nat option list \<Rightarrow> lib" where
  "lib_zero sims blocks =
     (lib_init sims 0 blocks)\<lparr>s_registerCalled := 0, connected := (\<lambda>_. False), mem := (\<lambda>_. zero_event)\<rparr>"

definition rilEventAddWakeup :: "eref \<Rightarrow> unit lprog" where
  "rilEventAddWakeup ev = andthen (ril_event_add ev) triggerEvLoop"

definition eventLoop_setup :: "int \<Rightarrow> unit lprog" where
  "eventLoop_setup fd = seqs
     [ril_event_init, ril_event_set (Ev 0) fd True CB_processWakeup None, rilEventAddWakeup (Ev 0)]"

definition lib_start :: "int \<Rightarrow> int \<Rightarrow> unit lprog" where
  "lib_start fd version = andthen (eventLoop_setup fd) (RIL_register (Some version))"

lemma start_runs:
  assumes fd: "0 \<le> fd" "fd < FD_SETSIZE" and v: "version \<ge> RIL_VERSION_MIN"
  shows "\<exists>t. lib_start fd version (lib_zero sims blocks) = Done () t \<and> lib_ok t [] [] (\<lambda>_. [])
    \<and> sent t = [] \<and> SIM_COUNT t = sims \<and> callbacks_version t = version \<and> allocs t = blocks \<and> s_registerCalled t = 1"
proof -
  define e0 where "e0 = zero_event\<lparr>ev_fd := fd, ev_index := -1, ev_persist := True, ev_func := Some CB_processWakeup,
      ev_param := None\<rparr>"
  define s where "s = (lib_zero sims blocks)\<lparr>mem := (\<lambda>e. case e of Ev n \<Rightarrow> (if n = 0 then e0 else zero_event)
      | _ \<Rightarrow> zero_event\<lparr>ev_next := Some e, ev_prev := Some e, ev_fd := -1\<rparr>)\<rparr>"
  have prep: "andthen ril_event_init (ril_event_set (Ev 0) fd True CB_processWakeup None) (lib_zero sims blocks) = Done () s"
    by (simp add: ril_event_init_def ril_event_set_def init_list_def wr_def run_simps s_def lib_zero_def lib_init_def e0_def
        fun_eq_iff split: eref.split)
  have ok: "loop_ok s [] []"
    by (simp add: s_def lib_zero_def lib_init_def loop_ok_def ev_lists_def is_list_def sorted_timers_def table_ok_def
        watched_def MAX_FD_EVENTS_def)
  have w: "watched s = {}" "first_null (watch_table s) = Some 0" "readFds s = {}" "ev_fd (mem s (Ev 0)) = fd"
    by (simp_all add: s_def watched_def lib_zero_def lib_init_def MAX_FD_EVENTS_def numeral_nat e0_def)
  from event_add_watches [OF ok, of "Ev 0" 0] w fd obtain u where
    u: "ril_event_add (Ev 0) s = Done () u" "loop_ok u [] []" "kept s u" "watched u = {Ev 0}" by auto
  from triggerEvLoop_runs [of u] obtain x where
    x: "triggerEvLoop u = Done () x" "x = u\<lparr>wakeup_bytes := wakeup_bytes x\<rparr>" by blast
  define t where "t = x\<lparr>callbacks_version := version, s_registerCalled := 1\<rparr>"
  have more: "ev_loop.more u = ev_loop.more s" using u(3) by (simp add: kept_def)
  have xf: "mem x = mem u" "watch_table x = watch_table u" "readFds x = readFds u" "nfds x = nfds u"
    "infos x = infos u" "s_last_wake_timeout_info x = s_last_wake_timeout_info u" "wake_held x = wake_held u"
    "s_wakelock_count x = s_wakelock_count u" "requests x = requests u" "s_pendingRequests x = s_pendingRequests u"
    "sent x = sent u" "SIM_COUNT x = SIM_COUNT u" "allocs x = allocs u" "s_registerCalled x = s_registerCalled u"
    by (subst x(2), simp)+
  have run: "lib_start fd version (lib_zero sims blocks) = Done () t"
  proof -
    have "eventLoop_setup fd (lib_zero sims blocks) = Done () x"
      using prep u(1) x(1) by (auto simp: eventLoop_setup_def rilEventAddWakeup_def run_simps split: outcome.splits)
    then show ?thesis
      using v xf more_fields [OF more]
      by (simp add: lib_start_def RIL_register_def run_simps tables_check t_def s_def lib_zero_def)
  qed
  have "loop_ok t [] []" using u(2) by (subst loop_ok_cong [of t u]) (simp_all add: t_def xf)
  moreover have "callable t (Ev 0)"
    using kept_call [OF u(3), of "Ev 0"] by (simp add: callable_def call_of_def t_def xf s_def e0_def)
  ultimately have "lib_ok t [] [] (\<lambda>_. [])"
    using u(4) more_fields [OF more]
    by (simp add: lib_ok_def callbacks_ok_def wake_ok_def pending_ok_def t_def xf watched_def s_def lib_zero_def lib_init_def)
  with run more_fields [OF more] show ?thesis by (simp add: t_def xf s_def lib_zero_def)
qed

section \<open>Reachable states\<close>

definition is_pending :: "lib \<Rightarrow> nat \<Rightarrow> bool" where
  "is_pending s a \<longleftrightarrow> (\<exists>L k. pending_ok s L \<and> a \<in> set (L k))"

text \<open>
  Steps do not overlap: each is what one thread does under the mutexes, and a round of the loop. A
  completion is of a pending request that can be answered. The allocator and the clients may change at
  any time.
\<close>

inductive lib_step :: "(nat \<Rightarrow> nat \<Rightarrow> vendor_call list) \<Rightarrow> lib \<Rightarrow> lib \<Rightarrow> bool" for vendor where
  unsolicited: "RIL_onUnsolicitedResponse_impl n ev k s = Done () t \<Longrightarrow> lib_step vendor s t"
| timed: "RIL_requestTimedCallback_impl (VendorCallback f) u rel s = Done () t \<Longrightarrow> lib_step vendor s t"
| added: "request < length s_commands \<Longrightarrow> addRequestToList serial slotId request s = Done r t \<Longrightarrow> lib_step vendor s t"
| acknowledged: "is_pending s a \<Longrightarrow> RIL_onRequestAck_impl (Some a) s = Done () t \<Longrightarrow> lib_step vendor s t"
| completed: "is_pending s a \<Longrightarrow> requests s a = Some r \<Longrightarrow> answerable r \<Longrightarrow>
    RIL_onRequestComplete_impl (Some a) e response s = Done () t \<Longrightarrow> lib_step vendor s t"
| client_acknowledges: "releaseWakeLock s = Done () t \<Longrightarrow> lib_step vendor s t"
| clients: "lib_step vendor s (s\<lparr>connected := c\<rparr>)"
| connects: "onNewCommandConnect k s = Done () t \<Longrightarrow> lib_step vendor s t"
| allocator: "lib_step vendor s (s\<lparr>allocs := blocks\<rparr>)"
| round: "select_ok (SelReady rfds n) \<Longrightarrow>
    ril_event_round (lib_run vendor) (SelReady rfds n, clock) (s\<lparr>in_dispatch := True\<rparr>) = Done () t \<Longrightarrow>
    lib_step vendor s (t\<lparr>in_dispatch := False\<rparr>)"

definition lib_reachable :: "(nat \<Rightarrow> nat \<Rightarrow> vendor_call list) \<Rightarrow> lib \<Rightarrow> lib \<Rightarrow> bool" where
  "lib_reachable vendor = (lib_step vendor)\<^sup>*\<^sup>*"

definition lib_invariant :: "lib \<Rightarrow> bool" where
  "lib_invariant s \<longleftrightarrow> (\<exists>ts L. lib_ok s ts [] L)"

lemma lib_ok_good: "lib_ok s ts [] L \<Longrightarrow> loop_ok s ts [] \<and> lib_good s (set ts)"
  by (auto simp: lib_ok_def lib_good_def)

lemma good_invariant: "loop_ok s ts [] \<Longrightarrow> lib_good s (set ts) \<Longrightarrow> lib_invariant s"
  by (auto simp: lib_invariant_def lib_ok_def lib_good_def)

lemma lib_ok_environment:
  "lib_ok (s\<lparr>allocs := b\<rparr>) ts ps L = lib_ok s ts ps L" "lib_ok (s\<lparr>in_dispatch := d\<rparr>) ts ps L = lib_ok s ts ps L"
proof -
  have "loop_ok (s\<lparr>allocs := b\<rparr>) ts ps = loop_ok s ts ps" "loop_ok (s\<lparr>in_dispatch := d\<rparr>) ts ps = loop_ok s ts ps"
    by (rule loop_ok_cong; simp)+
  moreover have "callable (s\<lparr>in_dispatch := d\<rparr>) e = callable s e" for e by (cases e) (simp_all add: callable_def call_of_def)
  ultimately show "lib_ok (s\<lparr>allocs := b\<rparr>) ts ps L = lib_ok s ts ps L"
    "lib_ok (s\<lparr>in_dispatch := d\<rparr>) ts ps L = lib_ok s ts ps L"
    by (simp_all add: lib_ok_def callbacks_ok_def wake_ok_def pending_ok_def watched_def)
qed

lemma plain_api: "api v True (\<lambda>_. True) (ret x)"
  by (rule api_ret) simp_all

lemma nitz_clear_api: "api v True (\<lambda>_. True) (modify (\<lambda>s. s\<lparr>s_lastNITZTimeData := None\<rparr>))"
  by (rule api_state) (simp add: modify_def same_loop_def)

lemma resend_api: "api v True (\<lambda>_. True) (resendLastNITZTimeData k)"
proof -
  have "api v True (\<lambda>_. True) (whenever b (modify (\<lambda>s. s\<lparr>s_lastNITZTimeData := None\<rparr>)))" for b
    using nitz_clear_api plain_api by (auto simp: whenever_def)
  then show ?thesis
    unfolding resendLastNITZTimeData_def
    by (auto intro!: api_gets plain_api api_bnd [OF indication_api] split: option.split)
qed

lemma connect_api: "api v True (\<lambda>_. True) (onNewCommandConnect k)"
proof -
  have "api v True (\<lambda>_. True) (whenever b (resendLastNITZTimeData k))" for b
    using resend_api plain_api by (auto simp: whenever_def)
  then have last: "api v True (\<lambda>_. True) (bnd (gets s_lastNITZTimeData) (\<lambda>d. whenever (d \<noteq> None) (resendLastNITZTimeData k)))"
    by (intro api_gets)
  show ?thesis
    unfolding onNewCommandConnect_def
    by (intro api_gets seqs_api) (use last unsolicited_api in \<open>auto simp del: not_None_eq\<close>)
qed

lemma api_invariant:
  assumes "lib_invariant s" and "m s = Done x t" and "api (callbacks_version s) True (\<lambda>_. True) m"
  shows "lib_invariant t"
  using assms api_lib_ok unfolding lib_invariant_def by fastforce

lemma calloc_none:
  assumes "\<forall>a later. allocs s = Some a # later \<longrightarrow> used s a"
  shows "\<exists>b. calloc used s = Done None (s\<lparr>allocs := b\<rparr>)"
proof (cases "allocs s")
  case Nil
  then have "s = s\<lparr>allocs := []\<rparr>" by simp
  with Nil show ?thesis by (intro exI [of _ "[]"]) (simp add: calloc_def)
next
  case (Cons x later)
  with assms show ?thesis by (intro exI [of _ later]) (cases x; simp add: calloc_def)
qed

lemma added_invariant:
  assumes "lib_invariant s" and "request < length s_commands" and "addRequestToList serial slotId request s = Done r t"
  shows "lib_invariant t"
proof -
  from assms(1) obtain ts L where ok: "lib_ok s ts [] L" by (auto simp: lib_invariant_def)
  show ?thesis
  proof (cases "\<exists>a later. allocs s = Some a # later \<and> requests s a = None")
    case True
    then obtain a later where "allocs s = Some a # later" "requests s a = None" by blast
    from add_request_ok [OF ok this assms(2) refl, of serial slotId] assms(3) show ?thesis
      by (auto simp: lib_invariant_def)
  next
    case False
    then have "\<forall>a later. allocs s = Some a # later \<longrightarrow> requests s a \<noteq> None" by metis
    from calloc_none [where used = "\<lambda>s a. requests s a \<noteq> None", OF this] obtain b where
      c: "calloc (\<lambda>s a. requests s a \<noteq> None) s = Done None (s\<lparr>allocs := b\<rparr>)" by blast
    have "addRequestToList serial slotId request s = Done None (s\<lparr>allocs := b\<rparr>)"
      unfolding addRequestToList_def bnd_def c by (simp add: ret_def)
    with assms(3) have "t = s\<lparr>allocs := b\<rparr>" by simp
    with ok lib_ok_environment show ?thesis by (auto simp: lib_invariant_def)
  qed
qed

lemma acknowledged_invariant:
  assumes "lib_invariant s" and "is_pending s a" and "RIL_onRequestAck_impl (Some a) s = Done () t"
  shows "lib_invariant t"
proof -
  from assms(1) obtain ts M where ok: "lib_ok s ts [] M" by (auto simp: lib_invariant_def)
  from assms(2) obtain L k where p: "pending_ok s L" and a: "a \<in> set (L k)" by (auto simp: is_pending_def)
  from check_ack [OF p a] obtain r u where
    u: "checkAndDequeueRequestInfoIfAck (Some a) True s = Done True u" "pending_ok u L"
      "u = s\<lparr>requests := (requests s)(a \<mapsto> r\<lparr>ri_wasAckSent := 1\<rparr>)\<rparr>" by blast
  have "\<exists>m. t = u\<lparr>sent := m\<rparr>"
  proof (cases "ri_cancelled r = 0")
    case True
    with assms(3) u(1,3) show ?thesis
      by (simp add: RIL_onRequestAck_impl_def bnd_def request_at_def gets_def ret_def whenever_def send_msg_def modify_def) blast
  next
    case False
    with assms(3) u(1,3) have "t = u"
      by (simp add: RIL_onRequestAck_impl_def bnd_def request_at_def gets_def ret_def whenever_def)
    then show ?thesis by (intro exI [of _ "sent u"]) simp
  qed
  then obtain m where m: "t = u\<lparr>sent := m\<rparr>" ..
  have "loop_ok (u\<lparr>sent := m\<rparr>) ts [] = loop_ok s ts []" by (rule loop_ok_cong; simp add: u(3))
  moreover have "pending_ok (u\<lparr>sent := m\<rparr>) L = pending_ok u L" by (simp add: pending_ok_def)
  ultimately have "lib_ok (u\<lparr>sent := m\<rparr>) ts [] L" using ok u(2) by (simp add: lib_ok_def) (simp add: u(3))
  then show ?thesis by (auto simp: lib_invariant_def m)
qed

lemma completed_invariant:
  assumes "lib_invariant s" and "is_pending s a" and "requests s a = Some r" and "answerable r"
    and "RIL_onRequestComplete_impl (Some a) e response s = Done () t"
  shows "lib_invariant t"
proof -
  from assms(1) obtain ts M where ok: "lib_ok s ts [] M" by (auto simp: lib_invariant_def)
  from assms(2) obtain L k where "pending_ok s L" "a \<in> set (L k)" by (auto simp: is_pending_def)
  with ok have "lib_ok s ts [] L" by (simp add: lib_ok_def)
  from complete_answers [OF this \<open>a \<in> set (L k)\<close> assms(3,4), of e response] assms(5) show ?thesis
    by (auto simp: lib_invariant_def)
qed

lemma round_invariant:
  assumes "lib_invariant s" and "select_ok (SelReady rfds n)"
    and "ril_event_round (lib_run vendor) (SelReady rfds n, clock) (s\<lparr>in_dispatch := True\<rparr>) = Done () t"
  shows "lib_invariant (t\<lparr>in_dispatch := False\<rparr>)"
proof -
  from assms(1) obtain ts L where "lib_ok s ts [] L" by (auto simp: lib_invariant_def)
  then have "lib_ok (s\<lparr>in_dispatch := True\<rparr>) ts [] L" by (simp add: lib_ok_environment)
  then have good: "loop_ok (s\<lparr>in_dispatch := True\<rparr>) ts []" "lib_good (s\<lparr>in_dispatch := True\<rparr>) (set ts)"
    using lib_ok_good by blast+
  from event_round_runs [OF good assms(2), of vendor clock] assms(3) obtain ts' where
    "loop_ok t ts' []" "lib_good t (set ts')" by auto
  then obtain M where "lib_ok t ts' [] M" by (auto simp: lib_ok_def lib_good_def)
  then show ?thesis unfolding lib_invariant_def using lib_ok_environment(2) by blast
qed

lemma step_invariant: "lib_step vendor s t \<Longrightarrow> lib_invariant s \<Longrightarrow> lib_invariant t"
proof (induction rule: lib_step.induct)
  case (clients s c)
  then show ?case by (simp add: lib_invariant_def lib_ok_connected)
next
  case (allocator s blocks)
  then show ?case by (simp add: lib_invariant_def lib_ok_environment)
next
  case (client_acknowledges s t)
  have "api (callbacks_version s) True (\<lambda>_. True) releaseWakeLock" by (rule release_api) simp
  from api_invariant [OF client_acknowledges(2,1) this] show ?case .
next
  case (unsolicited n ev k s t)
  from api_invariant [OF unsolicited(2,1) unsolicited_api] show ?case .
next
  case (timed f u rel s t)
  from api_invariant [OF timed(2,1) requestTimedCallback_api] show ?case .
next
  case (connects k s t)
  from api_invariant [OF connects(2,1) connect_api] show ?case .
qed (blast intro: added_invariant acknowledged_invariant completed_invariant round_invariant)+

text \<open>
  C13: in every state the library can reach from its start, by calls of the vendor library, of the
  service and of clients and by rounds of the event loop in any order: the timers are linked and sorted
  by their deadlines, the table, the descriptor set and \<^verbatim>\<open>nfds\<close> agree; each timed callback that has
  not run is a timer, once, and its structure is allocated; the lists of pending requests are linked,
  disjoint and hold allocated requests, each in the list of its socket; and a wake lock that is held has
  an armed time-out which nobody has cancelled.
\<close>

theorem reachable_library_states:
  assumes "0 \<le> fd" and "fd < FD_SETSIZE" and "version \<ge> RIL_VERSION_MIN"
    and "lib_start fd version (lib_zero sims blocks) = Done () s" and "lib_reachable vendor s t"
  shows "\<exists>ts L. loop_ok t ts [] \<and> callbacks_ok t (set ts) \<and> pending_ok t L
    \<and> (wake_held t \<longrightarrow> (\<exists>l. s_last_wake_timeout_info t = Some l \<and> Ev l \<in> set ts
        \<and> infos t l = Some \<lparr>p_callback = WakeTimeout, userParam = 0\<rparr>))"
proof -
  have start: "lib_invariant s"
    using start_runs [OF assms(1-3), of sims blocks] assms(4) by (auto simp: lib_invariant_def)
  have "lib_invariant t"
    using assms(5) unfolding lib_reachable_def
    by (induction rule: rtranclp_induct) (auto intro: start step_invariant)
  then obtain ts L where ok: "lib_ok t ts [] L" by (auto simp: lib_invariant_def)
  then have "callbacks_ok t (set ts)" "wake_ok t" by (simp_all add: lib_ok_def)
  then have "wake_held t \<longrightarrow> (\<exists>l. s_last_wake_timeout_info t = Some l \<and> Ev l \<in> set ts
        \<and> infos t l = Some \<lparr>p_callback = WakeTimeout, userParam = 0\<rparr>)"
    unfolding wake_ok_def callbacks_ok_def by blast
  with ok show ?thesis by (auto simp: lib_ok_def)
qed

theorem reachable_library_states_witness:
  "\<exists>s t ts L. lib_start 5 12 (lib_zero 1 [Some 500]) = Done () s \<and> lib_reachable (\<lambda>_ _. []) s t \<and> s \<noteq> t
     \<and> loop_ok t ts [] \<and> callbacks_ok t (set ts) \<and> pending_ok t L"
proof -
  from start_runs [of 5 12 1 "[Some 500]"] obtain s where s: "lib_start 5 12 (lib_zero 1 [Some 500]) = Done () s"
    "allocs s = [Some 500]" by (auto simp: FD_SETSIZE_def RIL_VERSION_MIN_def)
  have r: "lib_reachable (\<lambda>_ _. []) s (s\<lparr>allocs := []\<rparr>)"
    unfolding lib_reachable_def by (rule r_into_rtranclp) (rule lib_step.allocator)
  have "s \<noteq> s\<lparr>allocs := []\<rparr>"
  proof
    assume "s = s\<lparr>allocs := []\<rparr>"
    then have "allocs s = allocs (s\<lparr>allocs := []\<rparr>)" by simp
    with s(2) show False by simp
  qed
  have "(0::int) \<le> 5" "(5::int) < FD_SETSIZE" "12 \<ge> RIL_VERSION_MIN"
    by (simp_all add: FD_SETSIZE_def RIL_VERSION_MIN_def)
  from reachable_library_states [OF this s(1) r] obtain ts L where
    "loop_ok (s\<lparr>allocs := []\<rparr>) ts []" "callbacks_ok (s\<lparr>allocs := []\<rparr>) (set ts)" "pending_ok (s\<lparr>allocs := []\<rparr>) L" by blast
  with s(1) r \<open>s \<noteq> s\<lparr>allocs := []\<rparr>\<close> show ?thesis by blast
qed

end
