(* ===== verification/LibLock.thy ===== *)
theory LibLock
  imports LibSystem
begin

text \<open>
  Timers and the wake lock: when a timed callback is due, how a held lock is let go, and where the
  mutexes do not protect it.
\<close>

text \<open>
  A callback that is requested with a delay becomes a timer whose deadline is the present plus the
  delay, in microseconds, the present when the delay is NULL; its address is the allocator's, and
  no other timer is lost or changed. The list stays sorted.
\<close>

theorem timed_callback_armed:
  assumes "lib_ok s ts ps L" and "allocs s = Some a # later" and "a \<noteq> 0" and "infos s a = None"
    and "tv_ok (time_now s)" and "tv_ok tv"
  shows "\<exists>t ts'. RIL_requestTimedCallback_impl f u (Some tv) s = Done () t \<and> loop_ok t ts' ps
    \<and> set ts' = insert (Ev a) (set ts) \<and> Ev a \<notin> set ts
    \<and> infos t = (infos s)(a \<mapsto> \<lparr>p_callback = f, userParam = u\<rparr>)
    \<and> usec_of (ev_timeout (mem t (Ev a))) = usec_of (time_now s) + usec_of tv
    \<and> (\<forall>e. e \<noteq> Ev a \<longrightarrow> call_of t e = call_of s e)"
proof -
  from assms(1) have l: "loop_ok s ts ps" and cb: "callbacks_ok s ({} \<union> set ts \<union> set ps)" by (simp_all add: lib_ok_def)
  from timed_callback_adds [OF l cb, where callback = f and param = u and rel = "Some tv" and b = a and later = later] obtain r t ts' where
    t: "internalRequestTimedCallback f u (Some tv) s = Done r t" "loop_ok t ts' ps"
    and rt: "case r of None \<Rightarrow> ts' = ts \<and> infos t = infos s \<and> mem t = mem s
      | Some b \<Rightarrow> b \<noteq> 0 \<and> infos s b = None \<and> set ts' = insert (Ev b) (set ts)
          \<and> infos t = (infos s)(b \<mapsto> \<lparr>p_callback = f, userParam = u\<rparr>)
          \<and> (\<forall>e. call_of t e = (if e = Ev b then (Some CB_userTimer, -1, Some b) else call_of s e))
          \<and> ev_timeout (mem t (Ev b)) = timeradd (time_now s) (case Some tv of None \<Rightarrow> (0, 0) | Some tv \<Rightarrow> tv)
          \<and> (allocs s = Some a # later \<longrightarrow> b = a)" by blast
  from timed_client(2) [OF t(1) assms(2-4)] have r: "r = Some a" .
  have "Ev a \<notin> set ts" using callbacks_alive [OF cb, of a] assms(3,4) by auto
  moreover have "RIL_requestTimedCallback_impl f u (Some tv) s = Done () t"
    using t(1) by (simp add: RIL_requestTimedCallback_impl_def bnd_def ret_def)
  ultimately show ?thesis
    using t(2) rt timeradd_usec [OF assms(5,6)] by (intro exI [of _ t] exI [of _ ts']) (simp add: r)
qed

theorem timed_callback_armed_witness:
  "\<exists>t. RIL_requestTimedCallback_impl (VendorCallback 3) 7 (Some (0, 500000)) ((lib_init 1 12 [Some 500])\<lparr>monotonic := (9, 600000000)\<rparr>) = Done () t
     \<and> usec_of (ev_timeout (mem t (Ev 500))) = 10100000"
proof -
  let ?s = "(lib_init 1 12 [Some 500])\<lparr>monotonic := (9, 600000000)\<rparr>"
  have "loop_ok ?s [] [] = loop_ok (lib_init 1 12 [Some 500]) [] []" by (rule loop_ok_cong) simp_all
  then have "lib_ok ?s [] [] (\<lambda>_. [])"
    using lib_init_ok [of 1 12 "[Some 500]"]
    by (simp add: lib_ok_def callbacks_ok_def wake_ok_def pending_ok_def watched_def lib_init_def MAX_FD_EVENTS_def)
  from timed_callback_armed [OF this, of 500 "[]" "(0, 500000)" "VendorCallback 3" 7] show ?thesis
    by (auto simp: lib_init_def time_now_def tv_ok_def usec_of_def)
qed

text \<open>
  C17: a wake lock that is held is let go by its time-out: the round in which \<^verbatim>\<open>select\<close> returns after the
  deadline of the last time-out calls it, and when it is called uncancelled the lock is released and its
  structure freed.
\<close>

theorem held_lock_times_out:
  assumes "lib_ok s ts [] L" and "wake_held s" and "select_ok (SelReady rfds n)"
  shows "\<exists>l. s_last_wake_timeout_info s = Some l \<and> Ev l \<in> set ts
    \<and> (expired (s\<lparr>monotonic := clock\<rparr>) (Ev l) \<longrightarrow>
        (\<exists>t new. ril_event_round (lib_run vendor) (SelReady rfds n, clock) s = Done () t
          \<and> fired t = fired s @ new \<and> call_of s (Ev l) \<in> set new \<and> fst (call_of s (Ev l)) = Some CB_userTimer))
    \<and> (\<exists>u. userTimerCallback vendor (Some l) s = Done () u \<and> \<not> wake_held u \<and> s_last_wake_timeout_info u = None
        \<and> infos u l = None)"
proof -
  from assms(1,2) have cb: "callbacks_ok s (set ts)" and good: "loop_ok s ts [] \<and> lib_good s (set ts)"
    and l: "\<exists>l. s_last_wake_timeout_info s = Some l \<and> infos s l = Some \<lparr>p_callback = WakeTimeout, userParam = 0\<rparr>"
    using lib_ok_good by (auto simp: lib_ok_def wake_ok_def)
  then obtain l where l: "s_last_wake_timeout_info s = Some l" "infos s l = Some \<lparr>p_callback = WakeTimeout, userParam = 0\<rparr>" by blast
  have mem: "Ev l \<in> set ts" "l \<noteq> 0" using cb l(2) unfolding callbacks_ok_def by (metis option.distinct(1))+
  have "callable s (Ev l)" using cb mem(1) unfolding callbacks_ok_def by blast
  then have fc: "fst (call_of s (Ev l)) = Some CB_userTimer" using mem(2) by (simp add: callable_def)
  from event_round_runs [of s ts rfds n vendor clock] good assms(3) obtain t where
    t: "ril_event_round (lib_run vendor) (SelReady rfds n, clock) s = Done () t"
      "fired t = fired s @ map (call_of s)
        (filter (expired (s\<lparr>monotonic := clock\<rparr>)) ts @ ready_events s rfds [0..<MAX_FD_EVENTS])" by blast
  from api_lib_ok [OF assms(1) wakeTimeout_api, of 0] obtain x v ts' where
    v: "wakeTimeoutCallback 0 s = Done x v" "lib_ok v ts' [] L" by blast
  have nh: "\<not> wake_held v" using wakeTimeout_releases v(1) by simp
  have keep: "infos v = infos s" "s_last_wake_timeout_info v = s_last_wake_timeout_info s"
    using v(1) by (auto simp: wakeTimeoutCallback_def releaseWakeLock_def release_wake_lock_def run_simps split: if_splits)
  define u where "u = v\<lparr>s_last_wake_timeout_info := None, infos := (infos v)(l := None)\<rparr>"
  have "finish_callback l v = Done () u"
    by (simp add: finish_callback_def info_at_def run_simps keep l u_def)
  then have "userTimerCallback vendor (Some l) s = Done () u"
    using v(1) by (simp add: userTimerCallback_def fetch_callback_def info_at_def l run_callback_def run_simps)
  moreover have "\<not> wake_held u" "s_last_wake_timeout_info u = None" "infos u l = None" using nh by (simp_all add: u_def)
  moreover have "call_of s (Ev l) \<in> set (map (call_of s)
        (filter (expired (s\<lparr>monotonic := clock\<rparr>)) ts @ ready_events s rfds [0..<MAX_FD_EVENTS]))"
    if "expired (s\<lparr>monotonic := clock\<rparr>) (Ev l)" using that mem(1) by auto
  ultimately show ?thesis using t l(1) mem(1) fc by blast
qed

text \<open>A state with a held lock whose time-out is due.\<close>

definition held_state :: lib where
  "held_state = one_timer\<lparr>infos := [500 \<mapsto> \<lparr>p_callback = WakeTimeout, userParam = 0\<rparr>], wake_held := True,
     s_last_wake_timeout_info := Some 500, callbacks_version := 13, s_wakelock_count := 1\<rparr>"

lemma held_state_ok: "lib_ok held_state [Ev 500] [] (\<lambda>_. [])"
proof -
  have "loop_ok held_state [Ev 500] [] = loop_ok one_timer [Ev 500] []" by (rule loop_ok_cong) (simp_all add: held_state_def)
  moreover have "callbacks_ok held_state (set [Ev 500])"
    by (auto simp: held_state_def callbacks_ok_def callable_def call_of_def watched_def one_timer_def lib_init_def
        MAX_FD_EVENTS_def split: if_splits)
  moreover have "wake_ok held_state" "pending_ok held_state (\<lambda>_. [])"
    by (simp_all add: held_state_def wake_ok_def pending_ok_def one_timer_def lib_init_def)
  ultimately show ?thesis using one_timer_ok by (simp add: lib_ok_def)
qed

theorem held_lock_times_out_witness:
  "\<exists>t u. ril_event_round (lib_run (\<lambda>_ _. [])) (SelReady {} 0, (2, 0)) held_state = Done () t
     \<and> userTimerCallback (\<lambda>_ _. []) (Some 500) held_state = Done () u \<and> \<not> wake_held u"
proof -
  have "expired (held_state\<lparr>monotonic := (2, 0)\<rparr>) (Ev 500)"
    by (simp add: expired_def time_now_def held_state_def one_timer_def timercmp_lt_def)
  moreover have "wake_held held_state" "s_last_wake_timeout_info held_state = Some 500" by (simp_all add: held_state_def)
  ultimately show ?thesis
    using held_lock_times_out [OF held_state_ok, of "{}" 0 "(2, 0)" "\<lambda>_ _. []"] by (auto simp: select_ok_def)
qed

section \<open>Where the locking is not enough\<close>

lemma set_last_held: "steps (\<lambda>s t. wake_held t = wake_held s) (set_last a)"
  unfolding set_last_def cancel_last_def
  by (intro obs_frame.frame_rules obs_frame.steps_modify)
    (auto simp: steps_def set_info_def info_at_def run_simps split: option.splits)

text \<open>
  C37: the loop reads the parameter of a time-out before the time-out takes the mutex. When another
  thread takes the wake lock in between, its cancellation comes too late: the old time-out, started
  uncancelled, releases the lock that has just been taken and clears its count.
\<close>

theorem old_timeout_releases_new_lock:
  assumes "lib_ok s ts [] L" and "callbacks_version s \<ge> 13" and "wake_held s"
    and "allocs s = Some a # later" and "a \<noteq> 0" and "infos s a = None"
  shows "\<exists>l i u v. s_last_wake_timeout_info s = Some l \<and> fetch_callback l s = Done i s
    \<and> grabPartialWakeLock s = Done () u \<and> wake_held u \<and> s_last_wake_timeout_info u = Some a
    \<and> run_callback vendor (fst i) (snd i) u = Done () v \<and> \<not> wake_held v \<and> s_wakelock_count v = 0
    \<and> s_last_wake_timeout_info v = Some a"
proof -
  from assms(1,3) obtain l where l: "s_last_wake_timeout_info s = Some l" "infos s l = Some \<lparr>p_callback = WakeTimeout, userParam = 0\<rparr>"
    by (auto simp: lib_ok_def wake_ok_def)
  have f: "fetch_callback l s = Done (WakeTimeout, 0) s" by (simp add: fetch_callback_def info_at_def l run_simps)
  from assms(1) have lo: "loop_ok s ts []" and cb: "callbacks_ok s ({} \<union> set ts \<union> set [])" by (simp_all add: lib_ok_def)
  have h: "s\<lparr>wake_held := True\<rparr> = s" using assms(3) by simp
  from timed_callback_adds [OF lo cb, where callback = WakeTimeout and param = 0 and rel = "Some TIMEVAL_WAKE_TIMEOUT"]
  obtain r w where w: "internalRequestTimedCallback WakeTimeout 0 (Some TIMEVAL_WAKE_TIMEOUT) s = Done r w" "same_lib s w" by blast
  from timed_client(2) [OF w(1) assms(4-6)] have r: "r = Some a" .
  from api_lib_ok [OF assms(1) grab_new_api [OF assms(2)]] obtain x u where u: "grabPartialWakeLock s = Done x u" by blast
  then have su: "set_last a (w\<lparr>s_wakelock_count := s_wakelock_count w + 1\<rparr>) = Done () u"
    using assms(2) h w(1) r by (simp add: grabPartialWakeLock_def andthen_def bnd_def gets_def acquire_runs modify_def)
  then have last: "s_last_wake_timeout_info u = Some a"
    by (auto simp: set_last_def andthen_Done modify_def)
  have held: "wake_held u"
    using stepsD [OF set_last_held su] assms(3) same_lib_simps(3) [OF w(2)] by simp
  have ver: "callbacks_version u \<ge> 13" using stepsD [OF grab_client u] assms(2) by (simp add: client_def)
  define v where "v = u\<lparr>s_wakelock_count := 0, wake_held := False\<rparr>"
  have "run_callback vendor WakeTimeout 0 u = Done () v"
    using ver by (simp add: run_callback_def wakeTimeoutCallback_def release_wake_lock_def run_simps v_def)
  moreover have "\<not> wake_held v" "s_wakelock_count v = 0" "s_last_wake_timeout_info v = Some a"
    using last by (simp_all add: v_def)
  ultimately show ?thesis using l(1) f u held last by (metis fst_conv snd_conv old.unit.exhaust)
qed

theorem old_timeout_releases_new_lock_witness:
  "\<exists>i u v. fetch_callback 500 (held_state\<lparr>allocs := [Some 600]\<rparr>) = Done i (held_state\<lparr>allocs := [Some 600]\<rparr>)
     \<and> grabPartialWakeLock (held_state\<lparr>allocs := [Some 600]\<rparr>) = Done () u \<and> wake_held u
     \<and> run_callback (\<lambda>_ _. []) (fst i) (snd i) u = Done () v \<and> \<not> wake_held v"
proof -
  have ok: "lib_ok (held_state\<lparr>allocs := [Some 600]\<rparr>) [Ev 500] [] (\<lambda>_. [])"
    unfolding lib_ok_environment by (rule held_state_ok)
  have f: "callbacks_version (held_state\<lparr>allocs := [Some 600]\<rparr>) \<ge> 13" "wake_held (held_state\<lparr>allocs := [Some 600]\<rparr>)"
    "allocs (held_state\<lparr>allocs := [Some 600]\<rparr>) = Some 600 # []" "(600::nat) \<noteq> 0"
    "infos (held_state\<lparr>allocs := [Some 600]\<rparr>) 600 = None"
    by (simp_all add: held_state_def)
  have "s_last_wake_timeout_info (held_state\<lparr>allocs := [Some 600]\<rparr>) = Some 500" by (simp add: held_state_def)
  with old_timeout_releases_new_lock [OF ok f, of "\<lambda>_ _. []"] show ?thesis by (metis option.inject)
qed

text \<open>
  When there is no memory for the time-out, grabPartialWakeLock releases the lock it has just taken
  and with it that of every indication before, whose count stays.
\<close>

theorem failed_grab_releases_all:
  assumes "callbacks_version s \<ge> 13" and "allocs s = []" and "wake_held s" and "s_wakelock_count s \<ge> 1"
  shows "grabPartialWakeLock s = Done () (s\<lparr>wake_held := False\<rparr>)"
  using assms by (simp add: grabPartialWakeLock_def acquire_wake_lock_def release_wake_lock_def
      internalRequestTimedCallback_def calloc_def run_simps)

theorem failed_grab_releases_all_witness:
  "grabPartialWakeLock held_state = Done () (held_state\<lparr>wake_held := False\<rparr>)"
  by (rule failed_grab_releases_all) (simp_all add: held_state_def one_timer_def lib_init_def)

text \<open>
  Deleting an event takes it out of the table of watched descriptors only. A timer that is deleted
  before it is due, as the comment of ril_event_del promises to allow, is called all the same.
\<close>

theorem deleted_timer_still_called:
  assumes "lib_ok s ts [] L" and "e \<in> set ts" and "ev_index (mem s e) = -1" and "expired (s\<lparr>monotonic := clock\<rparr>) e"
    and "select_ok (SelReady rfds n)"
  shows "\<exists>t new. andthen (ril_event_del e) (ril_event_round (lib_run vendor) (SelReady rfds n, clock)) s = Done () t
    \<and> fired t = fired s @ new \<and> call_of s e \<in> set new"
proof -
  from lib_ok_good [OF assms(1)] event_round_runs [OF _ _ assms(5)] obtain t where
    "ril_event_round (lib_run vendor) (SelReady rfds n, clock) s = Done () t"
    "fired t = fired s @ map (call_of s)
        (filter (expired (s\<lparr>monotonic := clock\<rparr>)) ts @ ready_events s rfds [0..<MAX_FD_EVENTS])" by blast
  moreover have "ril_event_del e s = Done () s" using event_del_nothing [of s e] assms(3) by simp
  ultimately show ?thesis using assms(2,4) by (auto simp: andthen_def bnd_def)
qed

theorem deleted_timer_still_called_witness:
  "\<exists>t new. andthen (ril_event_del (Ev 500)) (ril_event_round (lib_run (\<lambda>_ _. [])) (SelReady {} 0, (2, 0))) held_state = Done () t
     \<and> fired t = fired held_state @ new \<and> call_of held_state (Ev 500) \<in> set new"
  by (rule deleted_timer_still_called [OF held_state_ok])
    (simp_all add: held_state_def one_timer_def expired_def time_now_def timercmp_lt_def select_ok_def)

end
