(* ===== verification/LibNames.thy ===== *)
theory LibNames
  imports RilTables RilTypes
begin

text \<open>
  The names that \<^verbatim>\<open>libril/ril.cpp\<close> gives to errors, states, requests, indications and slots in its log.
  A switch is the list of its cases, in their order, with the numbers that \<^verbatim>\<open>ril.h\<close> defines.
\<close>

definition named :: "string \<Rightarrow> (int \<times> string) list \<Rightarrow> int \<Rightarrow> string" where
  "named unknown cases n = (case map_of cases n of None \<Rightarrow> unknown | Some s \<Rightarrow> s)"

section \<open>Errors\<close>

definition error_names :: "(int \<times> string) list" where
  "error_names =
   [(0, ''E_SUCCESS''), (1, ''E_RADIO_NOT_AVAILABLE''), (2, ''E_GENERIC_FAILURE''),
    (3, ''E_PASSWORD_INCORRECT''), (4, ''E_SIM_PIN2''), (5, ''E_SIM_PUK2''),
    (6, ''E_REQUEST_NOT_SUPPORTED''), (7, ''E_CANCELLED''), (8, ''E_OP_NOT_ALLOWED_DURING_VOICE_CALL''),
    (9, ''E_OP_NOT_ALLOWED_BEFORE_REG_TO_NW''), (10, ''E_SMS_SEND_FAIL_RETRY''), (11, ''E_SIM_ABSENT''),
    (15, ''E_ILLEGAL_SIM_OR_ME''), (14, ''E_FDN_CHECK_FAILURE''), (16, ''E_MISSING_RESOURCE''),
    (17, ''E_NO_SUCH_ELEMENT''), (18, ''E_DIAL_MODIFIED_TO_USSD''), (19, ''E_DIAL_MODIFIED_TO_SS''),
    (20, ''E_DIAL_MODIFIED_TO_DIAL''), (21, ''E_USSD_MODIFIED_TO_DIAL''), (22, ''E_USSD_MODIFIED_TO_SS''),
    (23, ''E_USSD_MODIFIED_TO_USSD''), (24, ''E_SS_MODIFIED_TO_DIAL''), (25, ''E_SS_MODIFIED_TO_USSD''),
    (26, ''E_SUBSCRIPTION_NOT_SUPPORTED''), (27, ''E_SS_MODIFIED_TO_SS''), (36, ''E_LCE_NOT_SUPPORTED''),
    (37, ''E_NO_MEMORY''), (38, ''E_INTERNAL_ERR''), (39, ''E_SYSTEM_ERR''), (40, ''E_MODEM_ERR''),
    (41, ''E_INVALID_STATE''), (42, ''E_NO_RESOURCES''), (43, ''E_SIM_ERR''), (44, ''E_INVALID_ARGUMENTS''),
    (45, ''E_INVALID_SIM_STATE''), (46, ''E_INVALID_MODEM_STATE''), (47, ''E_INVALID_CALL_ID''),
    (48, ''E_NO_SMS_TO_ACK''), (49, ''E_NETWORK_ERR''), (50, ''E_REQUEST_RATE_LIMITED''),
    (51, ''E_SIM_BUSY''), (52, ''E_SIM_FULL''), (53, ''E_NETWORK_REJECT''),
    (54, ''E_OPERATION_NOT_ALLOWED''), (55, ''E_EMPTY_RECORD''), (56, ''E_INVALID_SMS_FORMAT''),
    (57, ''E_ENCODING_ERR''), (58, ''E_INVALID_SMSC_ADDRESS''), (59, ''E_NO_SUCH_ENTRY''),
    (60, ''E_NETWORK_NOT_READY''), (61, ''E_NOT_PROVISIONED''), (62, ''E_NO_SUBSCRIPTION''),
    (63, ''E_NO_NETWORK_FOUND''), (64, ''E_DEVICE_IN_USE''), (65, ''E_ABORTED''),
    (66, ''INVALID_RESPONSE''), (501, ''E_OEM_ERROR_1''), (502, ''E_OEM_ERROR_2''),
    (503, ''E_OEM_ERROR_3''), (504, ''E_OEM_ERROR_4''), (505, ''E_OEM_ERROR_5''), (506, ''E_OEM_ERROR_6''),
    (507, ''E_OEM_ERROR_7''), (508, ''E_OEM_ERROR_8''), (509, ''E_OEM_ERROR_9''), (510, ''E_OEM_ERROR_10''),
    (511, ''E_OEM_ERROR_11''), (512, ''E_OEM_ERROR_12''), (513, ''E_OEM_ERROR_13''),
    (514, ''E_OEM_ERROR_14''), (515, ''E_OEM_ERROR_15''), (516, ''E_OEM_ERROR_16''),
    (517, ''E_OEM_ERROR_17''), (518, ''E_OEM_ERROR_18''), (519, ''E_OEM_ERROR_19''),
    (520, ''E_OEM_ERROR_20''), (521, ''E_OEM_ERROR_21''), (522, ''E_OEM_ERROR_22''),
    (523, ''E_OEM_ERROR_23''), (524, ''E_OEM_ERROR_24''), (525, ''E_OEM_ERROR_25'')]"

text \<open>Two more cases when the library is built with \<^verbatim>\<open>FEATURE_MULTIMODE_ANDROID\<close>.\<close>

definition multimode_error_names :: "(int \<times> string) list" where
  "multimode_error_names =
   [(12, ''E_SUBSCRIPTION_NOT_AVAILABLE''), (13, ''E_MODE_NOT_SUPPORTED'')]"

definition failCauseToString :: "bool \<Rightarrow> int \<Rightarrow> string" where
  "failCauseToString multimode =
     named ''<unknown error>'' (if multimode then error_names @ multimode_error_names else error_names)"

section \<open>States\<close>

fun radioStateToString :: "RIL_RadioState \<Rightarrow> string" where
  "radioStateToString RADIO_STATE_OFF = ''RADIO_OFF''"
| "radioStateToString RADIO_STATE_UNAVAILABLE = ''RADIO_UNAVAILABLE''"
| "radioStateToString RADIO_STATE_ON = ''RADIO_ON''"

fun callStateToString :: "RIL_CallState \<Rightarrow> string" where
  "callStateToString RIL_CALL_ACTIVE = ''ACTIVE''"
| "callStateToString RIL_CALL_HOLDING = ''HOLDING''"
| "callStateToString RIL_CALL_DIALING = ''DIALING''"
| "callStateToString RIL_CALL_ALERTING = ''ALERTING''"
| "callStateToString RIL_CALL_INCOMING = ''INCOMING''"
| "callStateToString RIL_CALL_WAITING = ''WAITING''"

text \<open>The slots that the library is built for, at most four.\<close>

definition rilSocketIdToString :: "nat \<Rightarrow> nat \<Rightarrow> string" where
  "rilSocketIdToString sims socket_id =
     (if socket_id = 0 then ''RIL_SOCKET_1''
      else if sims \<ge> 2 \<and> socket_id = 1 then ''RIL_SOCKET_2''
      else if sims \<ge> 3 \<and> socket_id = 2 then ''RIL_SOCKET_3''
      else if sims \<ge> 4 \<and> socket_id = 3 then ''RIL_SOCKET_4''
      else ''not a valid RIL'')"

section \<open>Requests and indications\<close>

definition request_names :: "(int \<times> string) list" where
  "request_names =
   [(1, ''GET_SIM_STATUS''), (2, ''ENTER_SIM_PIN''), (3, ''ENTER_SIM_PUK''), (4, ''ENTER_SIM_PIN2''),
    (5, ''ENTER_SIM_PUK2''), (6, ''CHANGE_SIM_PIN''), (7, ''CHANGE_SIM_PIN2''),
    (8, ''ENTER_NETWORK_DEPERSONALIZATION''), (9, ''GET_CURRENT_CALLS''), (10, ''DIAL''),
    (11, ''GET_IMSI''), (12, ''HANGUP''), (13, ''HANGUP_WAITING_OR_BACKGROUND''),
    (14, ''HANGUP_FOREGROUND_RESUME_BACKGROUND''), (15, ''SWITCH_WAITING_OR_HOLDING_AND_ACTIVE''),
    (16, ''CONFERENCE''), (17, ''UDUB''), (18, ''LAST_CALL_FAIL_CAUSE''), (19, ''SIGNAL_STRENGTH''),
    (20, ''VOICE_REGISTRATION_STATE''), (21, ''DATA_REGISTRATION_STATE''), (22, ''OPERATOR''),
    (23, ''RADIO_POWER''), (24, ''DTMF''), (25, ''SEND_SMS''), (26, ''SEND_SMS_EXPECT_MORE''),
    (27, ''SETUP_DATA_CALL''), (28, ''SIM_IO''), (29, ''SEND_USSD''), (30, ''CANCEL_USSD''),
    (31, ''GET_CLIR''), (32, ''SET_CLIR''), (33, ''QUERY_CALL_FORWARD_STATUS''), (34, ''SET_CALL_FORWARD''),
    (35, ''QUERY_CALL_WAITING''), (36, ''SET_CALL_WAITING''), (37, ''SMS_ACKNOWLEDGE''), (38, ''GET_IMEI''),
    (39, ''GET_IMEISV''), (40, ''ANSWER''), (41, ''DEACTIVATE_DATA_CALL''), (42, ''QUERY_FACILITY_LOCK''),
    (43, ''SET_FACILITY_LOCK''), (44, ''CHANGE_BARRING_PASSWORD''), (45, ''QUERY_NETWORK_SELECTION_MODE''),
    (46, ''SET_NETWORK_SELECTION_AUTOMATIC''), (47, ''SET_NETWORK_SELECTION_MANUAL''),
    (48, ''QUERY_AVAILABLE_NETWORKS''), (49, ''DTMF_START''), (50, ''DTMF_STOP''),
    (51, ''BASEBAND_VERSION''), (52, ''SEPARATE_CONNECTION''), (53, ''SET_MUTE''), (54, ''GET_MUTE''),
    (55, ''QUERY_CLIP''), (56, ''LAST_DATA_CALL_FAIL_CAUSE''), (57, ''DATA_CALL_LIST''),
    (58, ''RESET_RADIO''), (59, ''OEM_HOOK_RAW''), (60, ''OEM_HOOK_STRINGS''), (61, ''SCREEN_STATE''),
    (62, ''SET_SUPP_SVC_NOTIFICATION''), (63, ''WRITE_SMS_TO_SIM''), (64, ''DELETE_SMS_ON_SIM''),
    (65, ''SET_BAND_MODE''), (66, ''QUERY_AVAILABLE_BAND_MODE''), (67, ''STK_GET_PROFILE''),
    (68, ''STK_SET_PROFILE''), (69, ''STK_SEND_ENVELOPE_COMMAND''), (70, ''STK_SEND_TERMINAL_RESPONSE''),
    (71, ''STK_HANDLE_CALL_SETUP_REQUESTED_FROM_SIM''), (72, ''EXPLICIT_CALL_TRANSFER''),
    (73, ''SET_PREFERRED_NETWORK_TYPE''), (74, ''GET_PREFERRED_NETWORK_TYPE''),
    (75, ''GET_NEIGHBORING_CELL_IDS''), (76, ''SET_LOCATION_UPDATES''),
    (77, ''CDMA_SET_SUBSCRIPTION_SOURCE''), (78, ''CDMA_SET_ROAMING_PREFERENCE''),
    (79, ''CDMA_QUERY_ROAMING_PREFERENCE''), (80, ''SET_TTY_MODE''), (81, ''QUERY_TTY_MODE''),
    (82, ''CDMA_SET_PREFERRED_VOICE_PRIVACY_MODE''), (83, ''CDMA_QUERY_PREFERRED_VOICE_PRIVACY_MODE''),
    (84, ''CDMA_FLASH''), (85, ''CDMA_BURST_DTMF''), (86, ''CDMA_VALIDATE_AND_WRITE_AKEY''),
    (87, ''CDMA_SEND_SMS''), (88, ''CDMA_SMS_ACKNOWLEDGE''), (89, ''GSM_GET_BROADCAST_SMS_CONFIG''),
    (90, ''GSM_SET_BROADCAST_SMS_CONFIG''), (91, ''GSM_SMS_BROADCAST_ACTIVATION''),
    (92, ''CDMA_GET_BROADCAST_SMS_CONFIG''), (93, ''CDMA_SET_BROADCAST_SMS_CONFIG''),
    (94, ''CDMA_SMS_BROADCAST_ACTIVATION''), (95, ''CDMA_SUBSCRIPTION''), (96, ''CDMA_WRITE_SMS_TO_RUIM''),
    (97, ''CDMA_DELETE_SMS_ON_RUIM''), (98, ''DEVICE_IDENTITY''), (99, ''EXIT_EMERGENCY_CALLBACK_MODE''),
    (100, ''GET_SMSC_ADDRESS''), (101, ''SET_SMSC_ADDRESS''), (102, ''REPORT_SMS_MEMORY_STATUS''),
    (103, ''REPORT_STK_SERVICE_IS_RUNNING''), (104, ''CDMA_GET_SUBSCRIPTION_SOURCE''),
    (105, ''ISIM_AUTHENTICATION''), (106, ''ACKNOWLEDGE_INCOMING_GSM_SMS_WITH_PDU''),
    (107, ''STK_SEND_ENVELOPE_WITH_STATUS''), (108, ''VOICE_RADIO_TECH''), (109, ''GET_CELL_INFO_LIST''),
    (110, ''SET_UNSOL_CELL_INFO_LIST_RATE''), (111, ''SET_INITIAL_ATTACH_APN''),
    (112, ''IMS_REGISTRATION_STATE''), (113, ''IMS_SEND_SMS''), (114, ''SIM_TRANSMIT_APDU_BASIC''),
    (115, ''SIM_OPEN_CHANNEL''), (116, ''SIM_CLOSE_CHANNEL''), (117, ''SIM_TRANSMIT_APDU_CHANNEL''),
    (118, ''NV_READ_ITEM''), (119, ''NV_WRITE_ITEM''), (120, ''NV_WRITE_CDMA_PRL''),
    (121, ''NV_RESET_CONFIG''), (122, ''SET_UICC_SUBSCRIPTION''), (123, ''ALLOW_DATA''),
    (124, ''GET_HARDWARE_CONFIG''), (125, ''SIM_AUTHENTICATION''), (126, ''GET_DC_RT_INFO''),
    (127, ''SET_DC_RT_INFO_RATE''), (128, ''SET_DATA_PROFILE''), (129, ''SHUTDOWN''),
    (130, ''GET_RADIO_CAPABILITY''), (131, ''SET_RADIO_CAPABILITY''), (132, ''START_LCE''),
    (133, ''STOP_LCE''), (134, ''PULL_LCEDATA''), (135, ''GET_ACTIVITY_INFO''),
    (136, ''SET_CARRIER_RESTRICTIONS''), (137, ''GET_CARRIER_RESTRICTIONS''),
    (141, ''SET_CARRIER_INFO_IMSI_ENCRYPTION''), (800, ''RESPONSE_ACKNOWLEDGEMENT''),
    (1000, ''UNSOL_RESPONSE_RADIO_STATE_CHANGED''), (1001, ''UNSOL_RESPONSE_CALL_STATE_CHANGED''),
    (1002, ''UNSOL_RESPONSE_VOICE_NETWORK_STATE_CHANGED''), (1003, ''UNSOL_RESPONSE_NEW_SMS''),
    (1004, ''UNSOL_RESPONSE_NEW_SMS_STATUS_REPORT''), (1005, ''UNSOL_RESPONSE_NEW_SMS_ON_SIM''),
    (1006, ''UNSOL_ON_USSD''), (1007, ''UNSOL_ON_USSD_REQUEST''), (1008, ''UNSOL_NITZ_TIME_RECEIVED''),
    (1009, ''UNSOL_SIGNAL_STRENGTH''), (1010, ''UNSOL_DATA_CALL_LIST_CHANGED''),
    (1011, ''UNSOL_SUPP_SVC_NOTIFICATION''), (1012, ''UNSOL_STK_SESSION_END''),
    (1013, ''UNSOL_STK_PROACTIVE_COMMAND''), (1014, ''UNSOL_STK_EVENT_NOTIFY''),
    (1015, ''UNSOL_STK_CALL_SETUP''), (1016, ''UNSOL_SIM_SMS_STORAGE_FULL''), (1017, ''UNSOL_SIM_REFRESH''),
    (1018, ''UNSOL_CALL_RING''), (1019, ''UNSOL_RESPONSE_SIM_STATUS_CHANGED''),
    (1020, ''UNSOL_RESPONSE_CDMA_NEW_SMS''), (1021, ''UNSOL_RESPONSE_NEW_BROADCAST_SMS''),
    (1022, ''UNSOL_CDMA_RUIM_SMS_STORAGE_FULL''), (1023, ''UNSOL_RESTRICTED_STATE_CHANGED''),
    (1024, ''UNSOL_ENTER_EMERGENCY_CALLBACK_MODE''), (1025, ''UNSOL_CDMA_CALL_WAITING''),
    (1026, ''UNSOL_CDMA_OTA_PROVISION_STATUS''), (1027, ''UNSOL_CDMA_INFO_REC''),
    (1028, ''UNSOL_OEM_HOOK_RAW''), (1029, ''UNSOL_RINGBACK_TONE''), (1030, ''UNSOL_RESEND_INCALL_MUTE''),
    (1031, ''UNSOL_CDMA_SUBSCRIPTION_SOURCE_CHANGED''), (1032, ''UNSOL_CDMA_PRL_CHANGED''),
    (1033, ''UNSOL_EXIT_EMERGENCY_CALLBACK_MODE''), (1034, ''UNSOL_RIL_CONNECTED''),
    (1035, ''UNSOL_VOICE_RADIO_TECH_CHANGED''), (1036, ''UNSOL_CELL_INFO_LIST''),
    (1037, ''UNSOL_RESPONSE_IMS_NETWORK_STATE_CHANGED''),
    (1038, ''UNSOL_UICC_SUBSCRIPTION_STATUS_CHANGED''), (1039, ''UNSOL_SRVCC_STATE_NOTIFY''),
    (1040, ''UNSOL_HARDWARE_CONFIG_CHANGED''), (1041, ''UNSOL_DC_RT_INFO_CHANGED''),
    (1042, ''UNSOL_RADIO_CAPABILITY''), (1047, ''UNSOL_MODEM_RESTART''),
    (1048, ''UNSOL_CARRIER_INFO_IMSI_ENCRYPTION''), (1043, ''UNSOL_ON_SS''),
    (1044, ''UNSOL_STK_CC_ALPHA_NOTIFY''), (1045, ''UNSOL_LCEDATA_RECV''), (1046, ''UNSOL_PCO_DATA'')]"

definition requestToString :: "int \<Rightarrow> string" where
  "requestToString = named ''<unknown request>'' request_names"

section \<open>What the names tell\<close>

lemma named_unknown: "unknown \<notin> set (map snd cases) \<Longrightarrow> named unknown cases n = unknown \<longleftrightarrow> n \<notin> set (map fst cases)"
  by (force simp: named_def map_of_eq_None_iff dest: map_of_SomeD split: option.splits)

lemma request_name_numbers:
  "map fst request_names = [1..137] @ [141, 800] @ [1000..1042] @ [1047..1048] @ [1043..1046]"
  by (simp add: request_names_def; code_simp)

lemma request_name_known: "''<unknown request>'' \<notin> set (map snd request_names)"
  by (simp add: request_names_def)

text \<open>
  Of the rows of the table of requests, which the switch was once made from, the newest and the unused
  row 0 have no name.
\<close>

theorem unnamed_requests:
  assumes "row \<in> set s_commands"
  shows "requestToString (requestNumber row) = ''<unknown request>''
    \<longleftrightarrow> requestNumber row \<in> {0, 138, 139, 140, 142, 143, 144, 145}"
proof -
  have "requestNumber row \<in> set (map requestNumber s_commands)" using assms by simp
  then have row: "0 \<le> requestNumber row" "requestNumber row \<le> 145" unfolding command_numbers by auto
  have "requestToString (requestNumber row) = ''<unknown request>''
      \<longleftrightarrow> requestNumber row \<notin> set ([1..137] @ [141, 800] @ [1000..1042] @ [1047..1048] @ [1043..1046])"
    unfolding requestToString_def named_unknown [OF request_name_known] request_name_numbers ..
  also have "\<dots> \<longleftrightarrow> \<not> (1 \<le> requestNumber row \<and> requestNumber row \<le> 137) \<and> requestNumber row \<noteq> 141"
    using row by (simp only: set_append set_upto list.set Un_iff atLeastAtMost_iff insert_iff empty_iff) arith
  also have "\<dots> \<longleftrightarrow> requestNumber row \<in> {0, 138, 139, 140, 142, 143, 144, 145}"
    using row by (simp only: insert_iff empty_iff) arith
  finally show ?thesis .
qed

text \<open>Built with both kinds of cases, the library has no name for the errors outside the two tables alone.\<close>

theorem errors_named:
  "failCauseToString True n = ''<unknown error>'' \<longleftrightarrow> n \<notin> set (map fst (error_names @ multimode_error_names))"
  unfolding failCauseToString_def
  by (simp only: if_True, rule named_unknown) (simp add: error_names_def multimode_error_names_def)

end
