(* ===== verification/SapState.thy ===== *)
theory SapState
  imports CLoop RilTypes
begin

text \<open>
  The state of the SIM access profile: the sockets and requests of \<^verbatim>\<open>libril/RilSapSocket.cpp\<close>, the
  services of \<^verbatim>\<open>libril/sap_service.cpp\<close>, the messages of \<^verbatim>\<open>librilutils/proto/sap-api.proto\<close>. Requests
  and headers are in the heap; memory is a list of what the allocator gives next.
\<close>

section \<open>Messages\<close>

abbreviation MsgId_RIL_SIM_SAP_CONNECT :: int where "MsgId_RIL_SIM_SAP_CONNECT \<equiv> 1"
abbreviation MsgId_RIL_SIM_SAP_DISCONNECT :: int where "MsgId_RIL_SIM_SAP_DISCONNECT \<equiv> 2"
abbreviation MsgId_RIL_SIM_SAP_APDU :: int where "MsgId_RIL_SIM_SAP_APDU \<equiv> 3"
abbreviation MsgId_RIL_SIM_SAP_TRANSFER_ATR :: int where "MsgId_RIL_SIM_SAP_TRANSFER_ATR \<equiv> 4"
abbreviation MsgId_RIL_SIM_SAP_POWER :: int where "MsgId_RIL_SIM_SAP_POWER \<equiv> 5"
abbreviation MsgId_RIL_SIM_SAP_RESET_SIM :: int where "MsgId_RIL_SIM_SAP_RESET_SIM \<equiv> 6"
abbreviation MsgId_RIL_SIM_SAP_STATUS :: int where "MsgId_RIL_SIM_SAP_STATUS \<equiv> 7"
abbreviation MsgId_RIL_SIM_SAP_TRANSFER_CARD_READER_STATUS :: int where
  "MsgId_RIL_SIM_SAP_TRANSFER_CARD_READER_STATUS \<equiv> 8"
abbreviation MsgId_RIL_SIM_SAP_ERROR_RESP :: int where "MsgId_RIL_SIM_SAP_ERROR_RESP \<equiv> 9"
abbreviation MsgId_RIL_SIM_SAP_SET_TRANSFER_PROTOCOL :: int where
  "MsgId_RIL_SIM_SAP_SET_TRANSFER_PROTOCOL \<equiv> 10"

datatype MsgType = MsgType_REQUEST | MsgType_RESPONSE | MsgType_UNSOL_RESPONSE

text \<open>The requests, with the fields the service fills in.\<close>

datatype sap_req =
    CONNECT_REQ int
  | DISCONNECT_REQ
  | APDU_REQ int "int list option"
  | TRANSFER_ATR_REQ
  | POWER_REQ bool
  | RESET_SIM_REQ
  | TRANSFER_CARD_READER_STATUS_REQ
  | SET_TRANSFER_PROTOCOL_REQ int

text \<open>The responses and indications, with the fields the service reads; enumerations are integers.\<close>

datatype sap_rsp =
    CONNECT_RSP int int
  | DISCONNECT_RSP
  | DISCONNECT_IND int
  | APDU_RSP int "int list option"
  | TRANSFER_ATR_RSP int "int list option"
  | POWER_RSP int
  | RESET_SIM_RSP int
  | STATUS_IND int
  | TRANSFER_CARD_READER_STATUS_RSP int int
  | ERROR_RSP
  | SET_TRANSFER_PROTOCOL_RSP int

text \<open>
  The encoder and decoder are generated from the \<^verbatim>\<open>proto\<close> file and run in \<^verbatim>\<open>nanopb\<close>, which is not part
  of the repository: parameters. \<open>None\<close> is a message they refuse.
\<close>

record codec =
  pb_size :: "sap_req \<Rightarrow> nat option"
  pb_encode :: "sap_req \<Rightarrow> int list option"
  pb_connect :: "int list \<Rightarrow> (int \<times> int) option"
  pb_disconnect :: "int list \<Rightarrow> unit option"
  pb_disconnect_ind :: "int list \<Rightarrow> int option"
  pb_apdu :: "int list \<Rightarrow> (int \<times> int list option) option"
  pb_transfer_atr :: "int list \<Rightarrow> (int \<times> int list option) option"
  pb_power :: "int list \<Rightarrow> int option"
  pb_reset_sim :: "int list \<Rightarrow> int option"
  pb_status :: "int list \<Rightarrow> int option"
  pb_card_reader_status :: "int list \<Rightarrow> (int \<times> int) option"
  pb_error :: "int list \<Rightarrow> unit option"
  pb_set_transfer_protocol :: "int list \<Rightarrow> int option"

section \<open>Callbacks of the client\<close>

datatype SapResultCode =
    SUCCESS | GENERIC_FAILURE | CARD_NOT_ACCESSSIBLE | CARD_ALREADY_POWERED_OFF | CARD_REMOVED
  | CARD_ALREADY_POWERED_ON | DATA_NOT_AVAILABLE | NOT_SUPPORTED

datatype SapConnectRsp = CONNECT_FAILURE | ConnectRspOf int

text \<open>A token is \<open>None\<close> when the code passes a field that nothing has written.\<close>

datatype sap_call =
    connectResponse "int option" SapConnectRsp int
  | disconnectResponse "int option"
  | disconnectIndication "int option" int
  | apduResponse "int option" SapResultCode "int list"
  | transferAtrResponse "int option" SapResultCode "int list"
  | powerResponse "int option" SapResultCode
  | resetSimResponse "int option" SapResultCode
  | statusIndication "int option" int
  | transferCardReaderStatusResponse "int option" SapResultCode int
  | errorResponse "int option"
  | transferProtocolResponse "int option" SapResultCode

section \<open>The state\<close>

text \<open>\<open>mh_payload\<close> is the block of the payload, \<open>None\<close> when there is none (any more).\<close>

record MsgHeader =
  mh_token :: int
  mh_id :: int
  mh_payload :: "int list option"

record SapSocketRequest =
  sr_token :: int
  sr_curr :: "nat option"
  sr_next :: "nat option"
  sr_socketId :: nat

text \<open>\<open>uimFuncs\<close> tells whether the constructor has set the member; without functions it does not.\<close>

record RilSapSocket =
  so_name :: string
  so_id :: nat
  uimFuncs :: bool
  front :: "nat option"              \<comment> \<open>of \<^verbatim>\<open>pendingResponseQueue\<close>\<close>

text \<open>\<open>sapCallback\<close> tells whether the client has set one.\<close>

record SapImpl =
  rilSocketId :: nat
  sapCallback :: bool

datatype sap_msg =
    SapRequest int "int list" nat       \<comment> \<open>to the UIM library: message, payload, token\<close>
  | SapCall nat sap_call                \<comment> \<open>to the client of a slot\<close>

text \<open>
  \<open>call_results\<close>: whether the next callbacks reach the client; after them all do.
\<close>

record sap =
  sockets :: "RilSapSocket list"      \<comment> \<open>the list from \<^verbatim>\<open>head\<close> on\<close>
  sap_requests :: "nat \<Rightarrow> SapSocketRequest option"
  headers :: "nat \<Rightarrow> MsgHeader option"
  sapService :: "SapImpl option list"
  sap_memory :: "nat option list"
  call_results :: "bool list"
  sap_log :: "sap_msg list"

type_synonym 'a sprog = "(sap, 'a) prog"

section \<open>Memory\<close>

definition sap_malloc :: "(sap \<Rightarrow> nat \<Rightarrow> bool) \<Rightarrow> nat option sprog" where
  "sap_malloc used s =
     (case sap_memory s of
        [] \<Rightarrow> Done None s
      | None # later \<Rightarrow> Done None (s\<lparr>sap_memory := later\<rparr>)
      | Some a # later \<Rightarrow> Done (if used s a then None else Some a) (s\<lparr>sap_memory := later\<rparr>))"

definition sreq :: "nat \<Rightarrow> SapSocketRequest sprog" where
  "sreq a = bnd (gets (\<lambda>s. sap_requests s a)) (\<lambda>r. case r of None \<Rightarrow> crash UseAfterFree | Some r \<Rightarrow> ret r)"

definition header :: "nat option \<Rightarrow> MsgHeader sprog" where
  "header p = (case p of None \<Rightarrow> crash NullDeref
     | Some h \<Rightarrow> bnd (gets (\<lambda>s. headers s h)) (\<lambda>r. case r of None \<Rightarrow> crash UseAfterFree | Some r \<Rightarrow> ret r))"

definition free_sreq :: "nat \<Rightarrow> unit sprog" where
  "free_sreq a = bnd (sreq a) (\<lambda>_. modify (\<lambda>s. s\<lparr>sap_requests := (sap_requests s)(a := None)\<rparr>))"

definition free_header :: "nat \<Rightarrow> unit sprog" where
  "free_header h = bnd (header (Some h)) (\<lambda>_. modify (\<lambda>s. s\<lparr>headers := (headers s)(h := None)\<rparr>))"

definition sap_say :: "sap_msg \<Rightarrow> unit sprog" where
  "sap_say m = modify (\<lambda>s. s\<lparr>sap_log := sap_log s @ [m]\<rparr>)"

definition sap_block :: "bool sprog" where
  "sap_block = bnd (sap_malloc (\<lambda>s a. False)) (\<lambda>p. ret (p \<noteq> None))"

lemma sap_block_run:
  "sap_block s = Done (case sap_memory s of Some a # _ \<Rightarrow> True | _ \<Rightarrow> False) (s\<lparr>sap_memory := tl (sap_memory s)\<rparr>)"
proof -
  have "sap_memory s = [] \<Longrightarrow> s = s\<lparr>sap_memory := []\<rparr>" by (cases s) simp
  then show ?thesis
    by (auto simp: sap_block_def sap_malloc_def run_simps split: list.split option.split)
qed

end
