(* ===== verification/SapReply.thy ===== *)
theory SapReply
  imports SapState
begin

text \<open>
  The answers of \<^verbatim>\<open>libril/sap_service.cpp\<close>: the decoding of what the UIM library returns, the conversion
  of its codes, and the callback of the client that each message is given to.
\<close>

section \<open>Codes\<close>

definition convertApduResponseProtoToHal :: "int \<Rightarrow> SapResultCode" where
  "convertApduResponseProtoToHal responseProto =
     (if responseProto = 0 then SUCCESS
      else if responseProto = 1 then GENERIC_FAILURE
      else if responseProto = 2 then CARD_NOT_ACCESSSIBLE
      else if responseProto = 3 then CARD_ALREADY_POWERED_OFF
      else if responseProto = 4 then CARD_REMOVED
      else GENERIC_FAILURE)"

definition convertTransferAtrResponseProtoToHal :: "int \<Rightarrow> SapResultCode" where
  "convertTransferAtrResponseProtoToHal responseProto =
     (if responseProto = 0 then SUCCESS
      else if responseProto = 1 then GENERIC_FAILURE
      else if responseProto = 3 then CARD_ALREADY_POWERED_OFF
      else if responseProto = 4 then CARD_REMOVED
      else if responseProto = 6 then DATA_NOT_AVAILABLE
      else GENERIC_FAILURE)"

definition convertPowerResponseProtoToHal :: "int \<Rightarrow> SapResultCode" where
  "convertPowerResponseProtoToHal responseProto =
     (if responseProto = 0 then SUCCESS
      else if responseProto = 2 then GENERIC_FAILURE
      else if responseProto = 11 then CARD_REMOVED
      else if responseProto = 17 then CARD_ALREADY_POWERED_OFF
      else if responseProto = 18 then CARD_ALREADY_POWERED_ON
      else GENERIC_FAILURE)"

definition convertResetSimResponseProtoToHal :: "int \<Rightarrow> SapResultCode" where
  "convertResetSimResponseProtoToHal responseProto =
     (if responseProto = 0 then SUCCESS
      else if responseProto = 2 then GENERIC_FAILURE
      else if responseProto = 11 then CARD_REMOVED
      else if responseProto = 16 then CARD_NOT_ACCESSSIBLE
      else if responseProto = 17 then CARD_ALREADY_POWERED_OFF
      else GENERIC_FAILURE)"

definition convertTransferCardReaderStatusResponseProtoToHal :: "int \<Rightarrow> SapResultCode" where
  "convertTransferCardReaderStatusResponseProtoToHal responseProto =
     (if responseProto = 0 then SUCCESS
      else if responseProto = 2 then GENERIC_FAILURE
      else if responseProto = 6 then DATA_NOT_AVAILABLE
      else GENERIC_FAILURE)"

section \<open>Decoding\<close>

text \<open>Each message is decoded into a block of its own; \<open>None\<close> when the decoder refuses it.\<close>

definition decode_into :: "'m option \<Rightarrow> ('m \<Rightarrow> sap_rsp) \<Rightarrow> sap_rsp option sprog" where
  "decode_into decoded rsp = bnd sap_block (\<lambda>responsePtr. ret (if responsePtr then map_option rsp decoded else None))"

definition sapDecodeMessage :: "codec \<Rightarrow> int \<Rightarrow> MsgType \<Rightarrow> int list \<Rightarrow> sap_rsp option sprog" where
  "sapDecodeMessage pb msgId msgType payload =
     (if msgId = MsgId_RIL_SIM_SAP_CONNECT then
        decode_into (pb_connect pb payload) (\<lambda>(response, max_size). CONNECT_RSP response max_size)
      else if msgId = MsgId_RIL_SIM_SAP_DISCONNECT then
        if msgType = MsgType_RESPONSE then decode_into (pb_disconnect pb payload) (\<lambda>_. DISCONNECT_RSP)
        else decode_into (pb_disconnect_ind pb payload) DISCONNECT_IND
      else if msgId = MsgId_RIL_SIM_SAP_APDU then
        decode_into (pb_apdu pb payload) (\<lambda>(response, bytes). APDU_RSP response bytes)
      else if msgId = MsgId_RIL_SIM_SAP_TRANSFER_ATR then
        decode_into (pb_transfer_atr pb payload) (\<lambda>(response, atr). TRANSFER_ATR_RSP response atr)
      else if msgId = MsgId_RIL_SIM_SAP_POWER then decode_into (pb_power pb payload) POWER_RSP
      else if msgId = MsgId_RIL_SIM_SAP_RESET_SIM then decode_into (pb_reset_sim pb payload) RESET_SIM_RSP
      else if msgId = MsgId_RIL_SIM_SAP_STATUS then decode_into (pb_status pb payload) STATUS_IND
      else if msgId = MsgId_RIL_SIM_SAP_TRANSFER_CARD_READER_STATUS then
        decode_into (pb_card_reader_status pb payload)
          (\<lambda>(response, reader). TRANSFER_CARD_READER_STATUS_RSP response reader)
      else if msgId = MsgId_RIL_SIM_SAP_ERROR_RESP then decode_into (pb_error pb payload) (\<lambda>_. ERROR_RSP)
      else if msgId = MsgId_RIL_SIM_SAP_SET_TRANSFER_PROTOCOL then
        decode_into (pb_set_transfer_protocol pb payload) SET_TRANSFER_PROTOCOL_RSP
      else ret None)"

section \<open>Callbacks\<close>

text \<open>
  A callback the client has not set is \<^verbatim>\<open>NULL\<close>. One that does not reach the client is forgotten
  (\<^verbatim>\<open>checkReturnStatus\<close>).
\<close>

definition checkReturnStatus :: "nat \<Rightarrow> bool \<Rightarrow> unit sprog" where
  "checkReturnStatus slot ok = whenever (\<not> ok) (modify (\<lambda>s. s\<lparr>sapService :=
     (sapService s)[slot := map_option (\<lambda>i. i\<lparr>sapCallback := False\<rparr>) (sapService s ! slot)]\<rparr>))"

definition call_client :: "nat \<Rightarrow> sap_call \<Rightarrow> unit sprog" where
  "call_client slot c =
     bnd (gets (\<lambda>s. sapService s ! slot)) (\<lambda>impl. case impl of
       None \<Rightarrow> crash NullDeref
     | Some i \<Rightarrow>
         if \<not> sapCallback i then crash NullDeref
         else bnd (gets call_results) (\<lambda>results.
           andthen (modify (\<lambda>s. s\<lparr>call_results := drop 1 results, sap_log := sap_log s @ [SapCall slot c]\<rparr>))
             (checkReturnStatus slot (case results of [] \<Rightarrow> True | ok # _ \<Rightarrow> ok))))"

text \<open>The response a failed request is given, by its message.\<close>

definition failed_call :: "int \<Rightarrow> int option \<Rightarrow> sap_call option" where
  "failed_call msgId token =
     (if msgId = MsgId_RIL_SIM_SAP_CONNECT then Some (connectResponse token CONNECT_FAILURE 0)
      else if msgId = MsgId_RIL_SIM_SAP_DISCONNECT then Some (disconnectResponse token)
      else if msgId = MsgId_RIL_SIM_SAP_APDU then Some (apduResponse token GENERIC_FAILURE [])
      else if msgId = MsgId_RIL_SIM_SAP_TRANSFER_ATR then Some (transferAtrResponse token GENERIC_FAILURE [])
      else if msgId = MsgId_RIL_SIM_SAP_POWER then Some (powerResponse token GENERIC_FAILURE)
      else if msgId = MsgId_RIL_SIM_SAP_RESET_SIM then Some (resetSimResponse token GENERIC_FAILURE)
      else if msgId = MsgId_RIL_SIM_SAP_TRANSFER_CARD_READER_STATUS then
        Some (transferCardReaderStatusResponse token GENERIC_FAILURE 0)
      else if msgId = MsgId_RIL_SIM_SAP_SET_TRANSFER_PROTOCOL then Some (transferProtocolResponse token NOT_SUPPORTED)
      else None)"

text \<open>\<open>msg\<close>: the header among the blocks that are freed first.\<close>

definition sendFailedResponse :: "nat \<Rightarrow> int \<Rightarrow> int option \<Rightarrow> nat option \<Rightarrow> unit sprog" where
  "sendFailedResponse slot msgId token msg =
     andthen (case msg of None \<Rightarrow> ret () | Some m \<Rightarrow> free_header m)
       (case failed_call msgId token of None \<Rightarrow> ret () | Some c \<Rightarrow> call_client slot c)"

text \<open>The socket of a slot outside the services has none.\<close>

definition getSapImpl :: "nat \<Rightarrow> nat option sprog" where
  "getSapImpl k = bnd (gets (\<lambda>s. so_id (sockets s ! k))) (\<lambda>socket.
     gets (\<lambda>s. if socket < length (sapService s) \<and> sapService s ! socket \<noteq> None then Some socket else None))"

definition answer_call :: "int option \<Rightarrow> sap_rsp \<Rightarrow> sap_call" where
  "answer_call token rsp = (case rsp of
     CONNECT_RSP response max_size \<Rightarrow> connectResponse token (ConnectRspOf response) max_size
   | DISCONNECT_RSP \<Rightarrow> disconnectResponse token
   | DISCONNECT_IND type \<Rightarrow> disconnectIndication token type
   | APDU_RSP response bytes \<Rightarrow>
       apduResponse token (convertApduResponseProtoToHal response) (case bytes of None \<Rightarrow> [] | Some b \<Rightarrow> b)
   | TRANSFER_ATR_RSP response atr \<Rightarrow>
       transferAtrResponse token (convertTransferAtrResponseProtoToHal response) (case atr of None \<Rightarrow> [] | Some b \<Rightarrow> b)
   | POWER_RSP response \<Rightarrow> powerResponse token (convertPowerResponseProtoToHal response)
   | RESET_SIM_RSP response \<Rightarrow> resetSimResponse token (convertResetSimResponseProtoToHal response)
   | STATUS_IND change \<Rightarrow> statusIndication token change
   | TRANSFER_CARD_READER_STATUS_RSP response reader \<Rightarrow>
       transferCardReaderStatusResponse token (convertTransferCardReaderStatusResponseProtoToHal response) reader
   | ERROR_RSP \<Rightarrow> errorResponse token
   | SET_TRANSFER_PROTOCOL_RSP response \<Rightarrow>
       transferProtocolResponse token (if response = 0 then SUCCESS else NOT_SUPPORTED))"

definition processResponse :: "codec \<Rightarrow> int \<Rightarrow> int option \<Rightarrow> int list \<Rightarrow> nat \<Rightarrow> MsgType \<Rightarrow> unit sprog" where
  "processResponse pb msgId token payload k msgType =
     bnd (sapDecodeMessage pb msgId msgType payload) (\<lambda>messagePtr.
     bnd (getSapImpl k) (\<lambda>sapImpl. case sapImpl of
       None \<Rightarrow> crash NullDeref
     | Some slot \<Rightarrow>
         bnd (gets (\<lambda>s. map_option sapCallback (sapService s ! slot) = Some True)) (\<lambda>callback.
           if \<not> callback then ret ()
           else case messagePtr of
             None \<Rightarrow> sendFailedResponse slot msgId token None
           | Some m \<Rightarrow> call_client slot (answer_call token m))))"

section \<open>What a client can rely on\<close>

text \<open>The token of a callback, and whether it is the response to a message.\<close>

fun call_token :: "sap_call \<Rightarrow> int option" where
  "call_token (connectResponse token _ _) = token"
| "call_token (disconnectResponse token) = token"
| "call_token (disconnectIndication token _) = token"
| "call_token (apduResponse token _ _) = token"
| "call_token (transferAtrResponse token _ _) = token"
| "call_token (powerResponse token _) = token"
| "call_token (resetSimResponse token _) = token"
| "call_token (statusIndication token _) = token"
| "call_token (transferCardReaderStatusResponse token _ _) = token"
| "call_token (errorResponse token) = token"
| "call_token (transferProtocolResponse token _) = token"

fun answers :: "int \<Rightarrow> sap_call \<Rightarrow> bool" where
  "answers msgId (connectResponse _ _ _) \<longleftrightarrow> msgId = MsgId_RIL_SIM_SAP_CONNECT"
| "answers msgId (disconnectResponse _) \<longleftrightarrow> msgId = MsgId_RIL_SIM_SAP_DISCONNECT"
| "answers msgId (apduResponse _ _ _) \<longleftrightarrow> msgId = MsgId_RIL_SIM_SAP_APDU"
| "answers msgId (transferAtrResponse _ _ _) \<longleftrightarrow> msgId = MsgId_RIL_SIM_SAP_TRANSFER_ATR"
| "answers msgId (powerResponse _ _) \<longleftrightarrow> msgId = MsgId_RIL_SIM_SAP_POWER"
| "answers msgId (resetSimResponse _ _) \<longleftrightarrow> msgId = MsgId_RIL_SIM_SAP_RESET_SIM"
| "answers msgId (transferCardReaderStatusResponse _ _ _) \<longleftrightarrow> msgId = MsgId_RIL_SIM_SAP_TRANSFER_CARD_READER_STATUS"
| "answers msgId (transferProtocolResponse _ _) \<longleftrightarrow> msgId = MsgId_RIL_SIM_SAP_SET_TRANSFER_PROTOCOL"
| "answers msgId _ \<longleftrightarrow> False"

text \<open>The messages that are requests.\<close>

definition sap_request_ids :: "int set" where "sap_request_ids = {1, 2, 3, 4, 5, 6, 8, 10}"

lemma failed_call_answers:
  "msgId \<in> sap_request_ids \<Longrightarrow> \<exists>c. failed_call msgId token = Some c \<and> answers msgId c \<and> call_token c = token"
  by (auto simp: sap_request_ids_def failed_call_def)

text \<open>Decoding changes nothing but what the allocator gives next; a message is of the kind asked for.\<close>

lemma decode_into_run:
  "decode_into d f s = Done (case sap_memory s of Some a # _ \<Rightarrow> map_option f d | _ \<Rightarrow> None)
     (s\<lparr>sap_memory := tl (sap_memory s)\<rparr>)"
  by (simp add: decode_into_def bnd_def sap_block_run ret_def split: list.split option.split)

definition decoded :: "codec \<Rightarrow> int \<Rightarrow> MsgType \<Rightarrow> int list \<Rightarrow> sap \<Rightarrow> sap_rsp option" where
  "decoded pb msgId msgType payload s =
     (case sapDecodeMessage pb msgId msgType payload s of Done r _ \<Rightarrow> r | _ \<Rightarrow> None)"

lemma decoded_run:
  assumes "msgId \<in> sap_request_ids"
  shows "sapDecodeMessage pb msgId msgType payload s
    = Done (decoded pb msgId msgType payload s) (s\<lparr>sap_memory := tl (sap_memory s)\<rparr>)"
  using assms by (auto simp: decoded_def sapDecodeMessage_def sap_request_ids_def decode_into_run)

lemma decode_into_kind:
  assumes "decode_into d f s = Done (Some m) t" and "\<And>x. P (f x)"
  shows "P m"
  using assms by (auto simp: decode_into_run split: list.splits option.splits)

lemma decoded_answers:
  assumes "msgId \<in> sap_request_ids" and "decoded pb msgId MsgType_RESPONSE payload s = Some m"
  shows "answers msgId (answer_call token m) \<and> call_token (answer_call token m) = token"
proof -
  have "sapDecodeMessage pb msgId MsgType_RESPONSE payload s = Done (Some m) (s\<lparr>sap_memory := tl (sap_memory s)\<rparr>)"
    using decoded_run [OF assms(1)] assms(2) by simp
  then show ?thesis
    using assms(1) unfolding sap_request_ids_def sapDecodeMessage_def
    by (elim insertE emptyE; simp; elim decode_into_kind) (auto simp: answer_call_def)
qed

text \<open>The service of the socket's slot runs and has a callback.\<close>

definition served :: "sap \<Rightarrow> nat \<Rightarrow> bool" where
  "served s k \<longleftrightarrow> so_id (sockets s ! k) < length (sapService s)
     \<and> map_option sapCallback (sapService s ! so_id (sockets s ! k)) = Some True"

lemma call_client_run:
  assumes "map_option sapCallback (sapService s ! slot) = Some True"
  shows "\<exists>services results. call_client slot c s
    = Done () (s\<lparr>sapService := services, call_results := results, sap_log := sap_log s @ [SapCall slot c]\<rparr>)"
proof -
  obtain i where i: "sapService s ! slot = Some i" "sapCallback i" using assms by auto
  have keep: "s = s\<lparr>sapService := sapService s\<rparr>" by (cases s) simp
  show ?thesis
  proof (cases "case call_results s of [] \<Rightarrow> True | ok # _ \<Rightarrow> ok")
    case True
    then have "call_client slot c s
        = Done () (s\<lparr>sapService := sapService s, call_results := drop 1 (call_results s), sap_log := sap_log s @ [SapCall slot c]\<rparr>)"
      using i keep by (simp add: call_client_def checkReturnStatus_def run_simps)
    then show ?thesis by blast
  next
    case False
    then have "call_client slot c s
        = Done () (s\<lparr>sapService := (sapService s)[slot := Some (i\<lparr>sapCallback := False\<rparr>)],
            call_results := drop 1 (call_results s), sap_log := sap_log s @ [SapCall slot c]\<rparr>)"
      using i by (simp add: call_client_def checkReturnStatus_def run_simps)
    then show ?thesis by blast
  qed
qed

lemma response_sent:
  assumes id: "msgId \<in> sap_request_ids" and serv: "served s k"
  shows "\<exists>c services blocks results. processResponse pb msgId (Some token) payload k MsgType_RESPONSE s
      = Done () (s\<lparr>sapService := services, sap_memory := blocks, call_results := results,
          sap_log := sap_log s @ [SapCall (so_id (sockets s ! k)) c]\<rparr>)
    \<and> answers msgId c \<and> call_token c = Some token"
proof -
  define u where "u = s\<lparr>sap_memory := tl (sap_memory s)\<rparr>"
  let ?j = "so_id (sockets s ! k)"
  from serv obtain i where u: "?j < length (sapService s)" "sapService s ! ?j = Some i" "sapCallback i"
    by (auto simp: served_def)
  have cb: "map_option sapCallback (sapService u ! ?j) = Some True" using u by (simp add: u_def)
  have "\<exists>c. processResponse pb msgId (Some token) payload k MsgType_RESPONSE s = call_client ?j c u
      \<and> answers msgId c \<and> call_token c = Some token"
  proof (cases "decoded pb msgId MsgType_RESPONSE payload s")
    case None
    obtain c where c: "failed_call msgId (Some token) = Some c" "answers msgId c" "call_token c = Some token"
      using failed_call_answers [OF id] by blast
    then have "processResponse pb msgId (Some token) payload k MsgType_RESPONSE s = call_client ?j c u"
      using None u unfolding processResponse_def bnd_def decoded_run [OF id]
      by (simp add: getSapImpl_def u_def run_simps sendFailedResponse_def)
    with c show ?thesis by blast
  next
    case (Some m)
    then have "processResponse pb msgId (Some token) payload k MsgType_RESPONSE s
        = call_client ?j (answer_call (Some token) m) u"
      using u unfolding processResponse_def bnd_def decoded_run [OF id]
      by (simp add: getSapImpl_def u_def run_simps)
    with decoded_answers [OF id Some] show ?thesis by blast
  qed
  then obtain c where c: "processResponse pb msgId (Some token) payload k MsgType_RESPONSE s = call_client ?j c u"
    "answers msgId c" "call_token c = Some token" by blast
  from call_client_run [OF cb, of c] obtain services results where
    "call_client ?j c u = Done () (u\<lparr>sapService := services, call_results := results, sap_log := sap_log u @ [SapCall ?j c]\<rparr>)"
    by blast
  with c have "processResponse pb msgId (Some token) payload k MsgType_RESPONSE s
      = Done () (s\<lparr>sapService := services, sap_memory := tl (sap_memory s), call_results := results,
          sap_log := sap_log s @ [SapCall ?j c]\<rparr>)" by (simp add: u_def)
  with c(2,3) show ?thesis by blast
qed

end
