(* ===== verification/SapSocket.thy ===== *)
theory SapSocket
  imports SapReply
begin

text \<open>
  The sockets of the SIM access profile: \<^verbatim>\<open>libril/RilSapSocket.cpp\<close> and its queue
  \<^verbatim>\<open>libril/rilSocketQueue.h\<close>. A request goes to the UIM library, which may complete it while it is
  handed over or later.
\<close>

section \<open>The queue\<close>

definition set_front :: "nat \<Rightarrow> nat option \<Rightarrow> unit sprog" where
  "set_front k p = modify (\<lambda>s. s\<lparr>sockets := (sockets s)[k := (sockets s ! k)\<lparr>front := p\<rparr>]\<rparr>)"

definition set_next :: "nat \<Rightarrow> nat option \<Rightarrow> unit sprog" where
  "set_next a p = bnd (sreq a) (\<lambda>r. modify (\<lambda>s. s\<lparr>sap_requests := (sap_requests s)(a \<mapsto> r\<lparr>sr_next := p\<rparr>)\<rparr>))"

definition enqueue :: "nat \<Rightarrow> nat \<Rightarrow> unit sprog" where
  "enqueue k request = bnd (gets (\<lambda>s. front (sockets s ! k))) (\<lambda>f. case f of
     None \<Rightarrow> andthen (set_front k (Some request)) (set_next request None)
   | Some _ \<Rightarrow> andthen (set_next request f) (set_front k (Some request)))"

text \<open>An empty queue waits for ever, when nobody else runs.\<close>

definition dequeue :: "nat \<Rightarrow> nat sprog" where
  "dequeue k = bnd (gets (\<lambda>s. front (sockets s ! k))) (\<lambda>f. case f of
     None \<Rightarrow> hang
   | Some a \<Rightarrow> bnd (sreq a) (\<lambda>r. andthen (set_front k (sr_next r)) (ret a)))"

text \<open>\<^verbatim>\<open>T **ppCur\<close>: the front of a queue or the \<^verbatim>\<open>p_next\<close> of a request.\<close>

datatype sap_pp = FrontOf nat | NextOfReq nat

definition spp_read :: "sap_pp \<Rightarrow> nat option sprog" where
  "spp_read pp = (case pp of
     FrontOf k \<Rightarrow> gets (\<lambda>s. front (sockets s ! k))
   | NextOfReq a \<Rightarrow> bnd (sreq a) (\<lambda>r. ret (sr_next r)))"

definition spp_write :: "sap_pp \<Rightarrow> nat option \<Rightarrow> unit sprog" where
  "spp_write pp p = (case pp of FrontOf k \<Rightarrow> set_front k p | NextOfReq a \<Rightarrow> set_next a p)"

definition going :: "sap_pp + bool \<Rightarrow> sap \<Rightarrow> bool" where
  "going x s = (case x of Inl _ \<Rightarrow> True | Inr _ \<Rightarrow> False)"

definition dequeue_body :: "int \<Rightarrow> int \<Rightarrow> sap_pp + bool \<Rightarrow> (sap_pp + bool) sprog" where
  "dequeue_body msgId token x = (case x of
     Inr b \<Rightarrow> ret (Inr b)
   | Inl ppCur \<Rightarrow>
       bnd (spp_read ppCur) (\<lambda>cur. case cur of
         None \<Rightarrow> ret (Inr False)
       | Some c \<Rightarrow>
           bnd (sreq c) (\<lambda>r.
           bnd (if token = sr_token r then bnd (header (sr_curr r)) (\<lambda>h. ret (msgId = mh_id h)) else ret False) (\<lambda>match.
             if match then
               andthen (spp_write ppCur (sr_next r)) (andthen (free_sreq c) (ret (Inr True)))
             else ret (Inl (NextOfReq c))))))"

definition checkAndDequeue :: "nat \<Rightarrow> int \<Rightarrow> int \<Rightarrow> bool sprog" where
  "checkAndDequeue k msgId token =
     bnd (while_prog going (dequeue_body msgId token) (Inl (FrontOf k))) (\<lambda>x. ret (x = Inr True))"

section \<open>Sockets\<close>

definition SocketExists :: "string \<Rightarrow> bool sprog" where
  "SocketExists name = gets (\<lambda>s. \<exists>o'\<in>set (sockets s). so_name o' = name)"

fun find_socket :: "nat \<Rightarrow> RilSapSocket list \<Rightarrow> nat option" where
  "find_socket k [] = None"
| "find_socket k (o' # os) = (if so_id o' = k then Some 0 else map_option Suc (find_socket k os))"

definition getSocketById :: "nat \<Rightarrow> nat option sprog" where
  "getSocketById socketId = gets (\<lambda>s. find_socket socketId (sockets s))"

definition addSocketToList :: "string \<Rightarrow> nat \<Rightarrow> bool \<Rightarrow> unit sprog" where
  "addSocketToList socketName socketid funcs =
     bnd (SocketExists socketName) (\<lambda>there. whenever (\<not> there)
       (bnd sap_block (\<lambda>listItem. whenever listItem
          (modify (\<lambda>s. s\<lparr>sockets := sockets s @ [\<lparr>so_name = socketName, so_id = socketid,
              uimFuncs = funcs, front = None\<rparr>]\<rparr>)))))"

text \<open>\<open>names\<close> are \<^verbatim>\<open>RIL1_SERVICE_NAME\<close> to \<^verbatim>\<open>RIL4_SERVICE_NAME\<close>, of which the build knows the first \<open>sims\<close>.\<close>

definition init_if :: "nat \<Rightarrow> string \<Rightarrow> bool \<Rightarrow> string \<Rightarrow> unit sprog" where
  "init_if i name funcs socketName = whenever (socketName = name)
     (bnd (SocketExists socketName) (\<lambda>there. whenever (\<not> there) (addSocketToList socketName i funcs)))"

definition initSapSocket :: "string list \<Rightarrow> string \<Rightarrow> bool \<Rightarrow> unit sprog" where
  "initSapSocket names socketName funcs =
     seqs (map (\<lambda>i. init_if i (names ! i) funcs socketName) [0..<length names])"

section \<open>Requests\<close>

definition sap_onRequestComplete :: "codec \<Rightarrow> nat \<Rightarrow> nat \<Rightarrow> RIL_Errno \<Rightarrow> int list \<Rightarrow> unit sprog" where
  "sap_onRequestComplete pb k t e response =
     bnd (sreq t) (\<lambda>request. case sr_curr request of
       None \<Rightarrow> ret ()
     | Some hdr \<Rightarrow>
         bnd (header (Some hdr)) (\<lambda>h.
         andthen
           (bnd sap_block (\<lambda>payload. whenever payload
              (processResponse pb (mh_id h) (Some (mh_token h)) response k MsgType_RESPONSE)))
           (andthen (bnd (checkAndDequeue k (mh_id h) (mh_token h)) (\<lambda>_. ret ()))
             (free_header hdr))))"

definition sOnRequestComplete :: "codec \<Rightarrow> nat \<Rightarrow> RIL_Errno \<Rightarrow> int list \<Rightarrow> unit sprog" where
  "sOnRequestComplete pb t e response =
     bnd (sreq t) (\<lambda>request.
     bnd (getSocketById (sr_socketId request)) (\<lambda>sap_socket. case sap_socket of
       Some k \<Rightarrow> sap_onRequestComplete pb k t e response
     | None \<Rightarrow> andthen (case sr_curr request of None \<Rightarrow> ret () | Some h \<Rightarrow> free_header h) (free_sreq t)))"

text \<open>
  \<open>vendor\<close>: what the UIM library does in \<^verbatim>\<open>onRequest\<close>, \<open>None\<close> when it completes the request later.
\<close>

type_synonym uim = "int \<Rightarrow> int list \<Rightarrow> (RIL_Errno \<times> int list) option"

definition dispatchRequest :: "codec \<Rightarrow> uim \<Rightarrow> nat \<Rightarrow> nat \<Rightarrow> unit sprog" where
  "dispatchRequest pb vendor k req =
     bnd (sap_malloc (\<lambda>s a. sap_requests s a \<noteq> None)) (\<lambda>currRequest. case currRequest of
       None \<Rightarrow> free_header req
     | Some a \<Rightarrow>
         bnd (header (Some req)) (\<lambda>h.
         bnd (gets (\<lambda>s. sockets s ! k)) (\<lambda>this.
         andthen (modify (\<lambda>s. s\<lparr>sap_requests := (sap_requests s)(a \<mapsto> \<lparr>sr_token = mh_token h, sr_curr = Some req,
             sr_next = None, sr_socketId = so_id this\<rparr>)\<rparr>))
         (andthen (enqueue k a)
           (if uimFuncs this then
              case mh_payload h of
                None \<Rightarrow> crash NullDeref
              | Some bytes \<Rightarrow>
                  andthen (sap_say (SapRequest (mh_id h) bytes a))
                    (case vendor (mh_id h) bytes of
                       None \<Rightarrow> ret ()
                     | Some (e, response) \<Rightarrow> sOnRequestComplete pb a e response)
            else crash UninitPointer)))))"

text \<open>An indication has no token: the header it is handed on in has the field unset.\<close>

definition sap_onUnsolicitedResponse :: "codec \<Rightarrow> nat \<Rightarrow> int \<Rightarrow> int list \<Rightarrow> unit sprog" where
  "sap_onUnsolicitedResponse pb k unsolResponse bytes =
     whenever (bytes \<noteq> []) (bnd sap_block (\<lambda>payload. whenever payload
       (processResponse pb unsolResponse None bytes k MsgType_UNSOL_RESPONSE)))"

definition sOnUnsolicitedResponse :: "codec \<Rightarrow> nat \<Rightarrow> int \<Rightarrow> int list \<Rightarrow> unit sprog" where
  "sOnUnsolicitedResponse pb socketId unsolResponse bytes =
     bnd (getSocketById socketId) (\<lambda>k. case k of None \<Rightarrow> ret () | Some k \<Rightarrow> sap_onUnsolicitedResponse pb k unsolResponse bytes)"

end
