(* ===== verification/SapService.thy ===== *)
theory SapService
  imports SapSocket
begin

text \<open>
  The requests of the client to \<^verbatim>\<open>libril/sap_service.cpp\<close>: each is encoded into a payload and handed to
  the socket of its slot.
\<close>

definition registerService :: "nat \<Rightarrow> unit sprog" where
  "registerService simCount = modify (\<lambda>s. s\<lparr>sapService :=
     map (\<lambda>i. Some \<lparr>rilSocketId = i, sapCallback = False\<rparr>) [0..<simCount]\<rparr>)"

definition setCallback :: "nat \<Rightarrow> bool \<Rightarrow> unit sprog" where
  "setCallback slot callback = modify (\<lambda>s. s\<lparr>sapService :=
     (sapService s)[slot := map_option (\<lambda>i. i\<lparr>sapCallback := callback\<rparr>) (sapService s ! slot)]\<rparr>)"

definition createMsgHeader :: "int \<Rightarrow> int \<Rightarrow> nat option sprog" where
  "createMsgHeader msgId token =
     bnd (sap_malloc (\<lambda>s a. headers s a \<noteq> None)) (\<lambda>msg. case msg of
       None \<Rightarrow> ret None
     | Some m \<Rightarrow> andthen (modify (\<lambda>s. s\<lparr>headers := (headers s)(m \<mapsto> \<lparr>mh_token = token, mh_id = msgId, mh_payload = None\<rparr>)\<rparr>))
         (ret (Some m)))"

text \<open>
  The length goes through a \<^verbatim>\<open>uint16_t\<close>. After the hand-over the payload is freed through the header.
\<close>

definition addPayloadAndDispatchRequest :: "codec \<Rightarrow> uim \<Rightarrow> nat \<Rightarrow> nat \<Rightarrow> int list \<Rightarrow> unit sprog" where
  "addPayloadAndDispatchRequest pb vendor slot msg bytes =
     bnd sap_block (\<lambda>payload.
     bnd (header (Some msg)) (\<lambda>h.
       if \<not> payload then sendFailedResponse slot (mh_id h) (Some (mh_token h)) (Some msg)
       else
         andthen (modify (\<lambda>s. s\<lparr>headers := (headers s)(msg \<mapsto> h\<lparr>mh_payload := Some (take (length bytes mod 65536) bytes)\<rparr>)\<rparr>))
         (bnd (gets (\<lambda>s. map_option rilSocketId (sapService s ! slot))) (\<lambda>socket. case socket of
            None \<Rightarrow> crash NullDeref
          | Some socketId \<Rightarrow> bnd (getSocketById socketId) (\<lambda>sapSocket. case sapSocket of
            None \<Rightarrow> sendFailedResponse slot (mh_id h) (Some (mh_token h)) (Some msg)
          | Some k \<Rightarrow>
              andthen (dispatchRequest pb vendor k msg)
                (bnd (header (Some msg)) (\<lambda>h. modify (\<lambda>s. s\<lparr>headers := (headers s)(msg \<mapsto> h\<lparr>mh_payload := None\<rparr>)\<rparr>))))))))"

text \<open>The part the eight requests share: size, buffer, encoding.\<close>

definition encode_and_dispatch :: "codec \<Rightarrow> uim \<Rightarrow> nat \<Rightarrow> int \<Rightarrow> int \<Rightarrow> nat \<Rightarrow> sap_req \<Rightarrow> unit sprog" where
  "encode_and_dispatch pb vendor slot msgId token msg req =
     (case pb_size pb req of
        None \<Rightarrow> sendFailedResponse slot msgId (Some token) (Some msg)
      | Some encodedSize \<Rightarrow> bnd sap_block (\<lambda>buffer.
          if \<not> buffer then sendFailedResponse slot msgId (Some token) (Some msg)
          else case pb_encode pb req of
            None \<Rightarrow> sendFailedResponse slot msgId (Some token) (Some msg)
          | Some bytes \<Rightarrow> addPayloadAndDispatchRequest pb vendor slot msg bytes))"

definition with_header :: "nat \<Rightarrow> int \<Rightarrow> int \<Rightarrow> (nat \<Rightarrow> unit sprog) \<Rightarrow> unit sprog" where
  "with_header slot msgId token go =
     bnd (createMsgHeader msgId token) (\<lambda>msg. case msg of
       None \<Rightarrow> sendFailedResponse slot msgId (Some token) None
     | Some m \<Rightarrow> go m)"

definition plain_request :: "codec \<Rightarrow> uim \<Rightarrow> nat \<Rightarrow> int \<Rightarrow> int \<Rightarrow> sap_req \<Rightarrow> unit sprog" where
  "plain_request pb vendor slot msgId token req =
     with_header slot msgId token (\<lambda>m. encode_and_dispatch pb vendor slot msgId token m req)"

definition connectReq :: "codec \<Rightarrow> uim \<Rightarrow> nat \<Rightarrow> int \<Rightarrow> int \<Rightarrow> unit sprog" where
  "connectReq pb vendor slot token maxMsgSize =
     plain_request pb vendor slot MsgId_RIL_SIM_SAP_CONNECT token (CONNECT_REQ maxMsgSize)"

definition disconnectReq :: "codec \<Rightarrow> uim \<Rightarrow> nat \<Rightarrow> int \<Rightarrow> unit sprog" where
  "disconnectReq pb vendor slot token =
     plain_request pb vendor slot MsgId_RIL_SIM_SAP_DISCONNECT token DISCONNECT_REQ"

text \<open>The command of an APDU is copied into a block of its own first.\<close>

definition apduReq :: "codec \<Rightarrow> uim \<Rightarrow> nat \<Rightarrow> int \<Rightarrow> int \<Rightarrow> int list \<Rightarrow> unit sprog" where
  "apduReq pb vendor slot token type bytes =
     with_header slot MsgId_RIL_SIM_SAP_APDU token (\<lambda>m.
       if bytes \<noteq> [] then
         bnd sap_block (\<lambda>block.
           if \<not> block then sendFailedResponse slot MsgId_RIL_SIM_SAP_APDU (Some token) (Some m)
           else encode_and_dispatch pb vendor slot MsgId_RIL_SIM_SAP_APDU token m (APDU_REQ type (Some bytes)))
       else encode_and_dispatch pb vendor slot MsgId_RIL_SIM_SAP_APDU token m (APDU_REQ type None))"

definition transferAtrReq :: "codec \<Rightarrow> uim \<Rightarrow> nat \<Rightarrow> int \<Rightarrow> unit sprog" where
  "transferAtrReq pb vendor slot token =
     plain_request pb vendor slot MsgId_RIL_SIM_SAP_TRANSFER_ATR token TRANSFER_ATR_REQ"

definition powerReq :: "codec \<Rightarrow> uim \<Rightarrow> nat \<Rightarrow> int \<Rightarrow> bool \<Rightarrow> unit sprog" where
  "powerReq pb vendor slot token on =
     plain_request pb vendor slot MsgId_RIL_SIM_SAP_POWER token (POWER_REQ on)"

definition resetSimReq :: "codec \<Rightarrow> uim \<Rightarrow> nat \<Rightarrow> int \<Rightarrow> unit sprog" where
  "resetSimReq pb vendor slot token =
     plain_request pb vendor slot MsgId_RIL_SIM_SAP_RESET_SIM token RESET_SIM_REQ"

definition transferCardReaderStatusReq :: "codec \<Rightarrow> uim \<Rightarrow> nat \<Rightarrow> int \<Rightarrow> unit sprog" where
  "transferCardReaderStatusReq pb vendor slot token =
     plain_request pb vendor slot MsgId_RIL_SIM_SAP_TRANSFER_CARD_READER_STATUS token
       TRANSFER_CARD_READER_STATUS_REQ"

definition setTransferProtocolReq :: "codec \<Rightarrow> uim \<Rightarrow> nat \<Rightarrow> int \<Rightarrow> int \<Rightarrow> unit sprog" where
  "setTransferProtocolReq pb vendor slot token transferProtocol =
     plain_request pb vendor slot MsgId_RIL_SIM_SAP_SET_TRANSFER_PROTOCOL token
       (SET_TRANSFER_PROTOCOL_REQ transferProtocol)"

end
