(* ===== verification/SapQueue.thy ===== *)
theory SapQueue
  imports SapService
begin

text \<open>
  What the SAP queue guarantees: a request in it is answered once and freed; what goes wrong when two
  requests share a token and a message, and when a request is completed while it is handed over.
\<close>

section \<open>The queue as a list\<close>

fun queued :: "(nat \<Rightarrow> SapSocketRequest option) \<Rightarrow> nat option \<Rightarrow> nat list \<Rightarrow> bool" where
  "queued h p [] \<longleftrightarrow> p = None"
| "queued h p (a # as) \<longleftrightarrow> p = Some a \<and> (\<exists>r. h a = Some r \<and> queued h (sr_next r) as)"

lemma queued_update: "a \<notin> set as \<Longrightarrow> queued (h(a := x)) p as = queued h p as"
  by (induction as arbitrary: p) auto

lemma queued_append: "queued h p (us @ a # vs) \<Longrightarrow> \<exists>r. h a = Some r \<and> queued h (sr_next r) vs"
  by (induction us arbitrary: p) auto

lemma queued_unlink:
  assumes "queued h p (us @ a # vs)" and "distinct (us @ a # vs)" and "h a = Some r"
  shows "us = [] \<Longrightarrow> queued h (sr_next r) vs"
    and "us \<noteq> [] \<Longrightarrow> h (last us) = Some q \<Longrightarrow> queued (h(last us \<mapsto> q\<lparr>sr_next := sr_next r\<rparr>)) p (us @ vs)"
proof -
  show "us = [] \<Longrightarrow> queued h (sr_next r) vs" using assms by auto
  show "us \<noteq> [] \<Longrightarrow> h (last us) = Some q \<Longrightarrow> queued (h(last us \<mapsto> q\<lparr>sr_next := sr_next r\<rparr>)) p (us @ vs)"
    using assms(1,2)
  proof (induction us arbitrary: p)
    case (Cons c us)
    show ?case
    proof (cases us)
      case Nil
      with Cons.prems assms(3) have "queued h (sr_next r) vs" "c \<notin> set vs" "p = Some c" "h c = Some q" by auto
      moreover from this have "queued (h(c \<mapsto> q\<lparr>sr_next := sr_next r\<rparr>)) (sr_next r) vs"
        by (intro queued_update [THEN iffD2])
      moreover have "last (c # us) = c" using Nil by simp
      ultimately show ?thesis using Nil by (simp del: last.simps fun_upd_apply add: fun_upd_same)
    next
      case (Cons d ds)
      then obtain b where b: "p = Some c" "h c = Some b" "queued h (sr_next b) (us @ a # vs)"
        using Cons.prems by auto
      have "c \<noteq> last us" using Cons.prems \<open>us = d # ds\<close> by auto
      then show ?thesis using Cons.IH [of "sr_next b"] Cons.prems b \<open>us = d # ds\<close> by auto
    qed
  qed simp
qed

text \<open>
  A request in the queue of the socket \<open>k\<close> holds its header, which holds the token; no two share one.
\<close>

definition entry :: "sap \<Rightarrow> nat \<Rightarrow> nat \<Rightarrow> nat \<Rightarrow> MsgHeader \<Rightarrow> bool" where
  "entry s k a h m \<longleftrightarrow> (\<exists>r. sap_requests s a = Some r \<and> sr_curr r = Some h \<and> headers s h = Some m
     \<and> sr_token r = mh_token m \<and> sr_socketId r = so_id (sockets s ! k))"

definition sap_ok :: "sap \<Rightarrow> nat \<Rightarrow> nat list \<Rightarrow> bool" where
  "sap_ok s k q \<longleftrightarrow> k < length (sockets s) \<and> queued (sap_requests s) (front (sockets s ! k)) q \<and> distinct q
     \<and> find_socket (so_id (sockets s ! k)) (sockets s) = Some k
     \<and> (\<forall>a\<in>set q. \<exists>h m. entry s k a h m)
     \<and> (\<forall>a\<in>set q. \<forall>b\<in>set q. \<forall>h m n. entry s k a h m \<longrightarrow> entry s k b h n \<longrightarrow> a = b)"

lemma entry_unique: "entry s k a h m \<Longrightarrow> entry s k a h' m' \<Longrightarrow> h' = h \<and> m' = m"
  by (auto simp: entry_def)

lemma going_simps [simp]: "going (Inl x) s" "\<not> going (Inr b) s"
  by (simp_all add: going_def)

text \<open>The search passes the requests with another token or message.\<close>

lemma dequeue_passes:
  assumes "spp_read pp s = Done (Some c) s" and "entry s k c h m" and "(mh_id m, mh_token m) \<noteq> (msgId, token)"
  shows "dequeue_body msgId token (Inl pp) s = Done (Inl (NextOfReq c)) s"
  using assms by (auto simp: dequeue_body_def entry_def sreq_def header_def run_simps)

lemma search_finds_entry:
  assumes "spp_read pp s = Done p s" and "queued (sap_requests s) p (us @ a # vs)"
    and "\<forall>u\<in>set us. \<exists>h m. entry s k u h m \<and> (mh_id m, mh_token m) \<noteq> (msgId, token)"
    and "entry s k a h m" and "(mh_id m, mh_token m) = (msgId, token)" and "sap_requests s a = Some r"
  shows "while_prog going (dequeue_body msgId token) (Inl pp) s
    = bnd (andthen (spp_write (if us = [] then pp else NextOfReq (last us)) (sr_next r)) (free_sreq a)) (\<lambda>_. ret (Inr True)) s"
  using assms
proof (induction us arbitrary: pp p)
  case Nil
  then show ?case
    by (subst while_prog_step)
      (auto simp: dequeue_body_def entry_def sreq_def header_def run_simps while_prog_stop split: outcome.split)
next
  case (Cons c us)
  from Cons.prems obtain q where q: "p = Some c" "sap_requests s c = Some q" "queued (sap_requests s) (sr_next q) (us @ a # vs)"
    by auto
  from Cons.prems(3) obtain h' m' where e: "entry s k c h' m'" "(mh_id m', mh_token m') \<noteq> (msgId, token)" by auto
  have "dequeue_body msgId token (Inl pp) s = Done (Inl (NextOfReq c)) s"
    using dequeue_passes [OF _ e] Cons.prems(1) q(1) by simp
  moreover have "spp_read (NextOfReq c) s = Done (sr_next q) s"
    by (simp add: spp_read_def sreq_def run_simps q(2))
  ultimately have "while_prog going (dequeue_body msgId token) (Inl pp) s
      = while_prog going (dequeue_body msgId token) (Inl (NextOfReq c)) s"
    "while_prog going (dequeue_body msgId token) (Inl (NextOfReq c)) s
      = bnd (andthen (spp_write (if us = [] then NextOfReq c else NextOfReq (last us)) (sr_next r)) (free_sreq a)) (\<lambda>_. ret (Inr True)) s"
    using Cons.IH [OF _ q(3)] Cons.prems by (simp add: while_prog_step bnd_def, simp)
  then show ?case by simp
qed

lemma find_socket_front [simp]: "find_socket j (os[k := (os ! k)\<lparr>front := p\<rparr>]) = find_socket j os"
proof (induction os arbitrary: k)
  case (Cons o' os)
  then show ?case by (cases k) auto
qed simp

lemma sap_ok_sub:
  assumes ok: "sap_ok s k q" and sub: "set q' \<subseteq> set q" "distinct q'"
    and len: "length (sockets t) = length (sockets s)" and so: "so_id (sockets t ! k) = so_id (sockets s ! k)"
    and find: "\<And>j. find_socket j (sockets t) = find_socket j (sockets s)"
    and chain: "queued (sap_requests t) (front (sockets t ! k)) q'"
    and same: "\<And>b h m. b \<in> set q' \<Longrightarrow> entry t k b h m = entry s k b h m"
  shows "sap_ok t k q'"
proof -
  have "\<exists>h m. entry t k b h m" if "b \<in> set q'" for b
    using ok sub(1) same [OF that] that unfolding sap_ok_def by blast
  moreover have "b = c" if "b \<in> set q'" "c \<in> set q'" "entry t k b h m" "entry t k c h n" for b c h m n
    using ok sub(1) that same [OF that(1)] same [OF that(2)] unfolding sap_ok_def by blast
  ultimately show ?thesis using ok sub(2) len so find chain unfolding sap_ok_def by metis
qed

text \<open>Taking a request out of the queue frees it; the others stay, in their order.\<close>

lemma checkAndDequeue_removes:
  assumes ok: "sap_ok s k (us @ a # vs)" and a: "entry s k a h m"
    and other: "\<forall>u\<in>set us. \<forall>h' m'. entry s k u h' m' \<longrightarrow> (mh_id m', mh_token m') \<noteq> (mh_id m, mh_token m)"
  shows "\<exists>t. checkAndDequeue k (mh_id m) (mh_token m) s = Done True t \<and> sap_requests t a = None \<and> headers t = headers s
    \<and> sap_ok t k (us @ vs) \<and> (\<forall>b\<in>set (us @ vs). \<forall>h m. entry t k b h m = entry s k b h m)
    \<and> sap_log t = sap_log s \<and> sap_memory t = sap_memory s \<and> so_id (sockets t ! k) = so_id (sockets s ! k)"
proof -
  from ok have chain: "queued (sap_requests s) (front (sockets s ! k)) (us @ a # vs)" and d: "distinct (us @ a # vs)"
    and k: "k < length (sockets s)" by (simp_all add: sap_ok_def)
  from queued_append [OF chain] obtain r where r: "sap_requests s a = Some r" "queued (sap_requests s) (sr_next r) vs" by blast
  have all: "\<forall>u\<in>set us. \<exists>h' m'. entry s k u h' m' \<and> (mh_id m', mh_token m') \<noteq> (mh_id m, mh_token m)"
    using ok other unfolding sap_ok_def by (metis Un_iff set_append)
  have "spp_read (FrontOf k) s = Done (front (sockets s ! k)) s" by (simp add: spp_read_def gets_def)
  from search_finds_entry [OF this chain all a refl r(1)]
  have run: "checkAndDequeue k (mh_id m) (mh_token m) s
    = bnd (andthen (spp_write (if us = [] then FrontOf k else NextOfReq (last us)) (sr_next r)) (free_sreq a)) (\<lambda>_. ret True) s"
    by (simp add: checkAndDequeue_def bnd_def ret_def split: outcome.split)
  define t where "t = (if us = [] then s\<lparr>sockets := (sockets s)[k := (sockets s ! k)\<lparr>front := sr_next r\<rparr>],
        sap_requests := (sap_requests s)(a := None)\<rparr>
      else s\<lparr>sap_requests := (sap_requests s)(last us \<mapsto> (the (sap_requests s (last us)))\<lparr>sr_next := sr_next r\<rparr>, a := None)\<rparr>)"
  have t_same: "headers t = headers s" "sap_log t = sap_log s" "sap_memory t = sap_memory s"
    "so_id (sockets t ! k) = so_id (sockets s ! k)" "length (sockets t) = length (sockets s)"
    "find_socket j (sockets t) = find_socket j (sockets s)" "sap_requests t a = None" for j
    using k by (simp_all add: t_def)
  have out: "a \<notin> set us" "a \<notin> set vs" using d by auto
  have go: "checkAndDequeue k (mh_id m) (mh_token m) s = Done True t \<and> queued (sap_requests t) (front (sockets t ! k)) (us @ vs)
    \<and> (\<forall>b\<in>set (us @ vs). \<forall>h m. entry t k b h m = entry s k b h m)"
  proof (cases "us = []")
    case True
    have "checkAndDequeue k (mh_id m) (mh_token m) s = Done True t"
      unfolding run using True r(1) by (simp add: spp_write_def set_front_def free_sreq_def sreq_def run_simps t_def)
    moreover have "queued (sap_requests t) (front (sockets t ! k)) vs"
      using True k r(2) out by (simp add: t_def queued_update)
    moreover have "entry t k b h m = entry s k b h m" if "b \<in> set vs" for b h m
      using that out True k by (auto simp: entry_def t_def)
    ultimately show ?thesis using True by simp
  next
    case False
    have "last us \<in> set us" using False by simp
    with all obtain q where q: "sap_requests s (last us) = Some q" by (fastforce simp: entry_def)
    have la: "last us \<noteq> a" using False out(1) by auto
    have "checkAndDequeue k (mh_id m) (mh_token m) s = Done True t"
      unfolding run using False q la r(1)
      by (simp add: spp_write_def set_next_def free_sreq_def sreq_def run_simps t_def)
    moreover have "queued (sap_requests t) (front (sockets t ! k)) (us @ vs)"
      using queued_unlink(2) [OF chain d r(1) False q] False q out
      by (simp add: t_def queued_update)
    moreover have "entry t k b h m = entry s k b h m" if "b \<in> set (us @ vs)" for b h m
      using that out False q by (auto simp: entry_def t_def)
    ultimately show ?thesis by blast
  qed
  moreover have "sap_ok t k (us @ vs)"
    by (rule sap_ok_sub [OF ok]) (use go t_same d in auto)
  ultimately show ?thesis using t_same by blast
qed

lemma sap_ok_fields:
  "sap_ok (s\<lparr>sap_memory := x\<rparr>) k q = sap_ok s k q" "sap_ok (s\<lparr>sap_log := l\<rparr>) k q = sap_ok s k q"
  "sap_ok (s\<lparr>sapService := v\<rparr>) k q = sap_ok s k q" "sap_ok (s\<lparr>call_results := c\<rparr>) k q = sap_ok s k q"
  "entry (s\<lparr>sap_memory := x\<rparr>) k a h m = entry s k a h m" "entry (s\<lparr>sap_log := l\<rparr>) k a h m = entry s k a h m"
  "entry (s\<lparr>sapService := v\<rparr>) k a h m = entry s k a h m" "entry (s\<lparr>call_results := c\<rparr>) k a h m = entry s k a h m"
  by (simp_all add: sap_ok_def entry_def)

text \<open>The first half of a completion: the client is called back, the queue is as before.\<close>

lemma completion_calls_client:
  assumes ok: "sap_ok s k q" and a: "entry s k a h m" and mem: "sap_memory s = Some b # later"
    and id: "mh_id m \<in> sap_request_ids" and serv: "served s k"
  shows "\<exists>c u. sOnRequestComplete pb a e response s
      = andthen (bnd (checkAndDequeue k (mh_id m) (mh_token m)) (\<lambda>_. ret ())) (free_header h) u
    \<and> answers (mh_id m) c \<and> call_token c = Some (mh_token m)
    \<and> sap_log u = sap_log s @ [SapCall (so_id (sockets s ! k)) c] \<and> headers u = headers s \<and> sap_ok u k q
    \<and> (\<forall>b h n. entry u k b h n = entry s k b h n)"
proof -
  define v where "v = s\<lparr>sap_memory := later\<rparr>"
  from a obtain r where r: "sap_requests s a = Some r" "sr_curr r = Some h" "headers s h = Some m"
    "sr_socketId r = so_id (sockets s ! k)" by (auto simp: entry_def)
  have find: "find_socket (so_id (sockets s ! k)) (sockets s) = Some k" using ok by (simp add: sap_ok_def)
  have "served v k" using serv by (simp add: served_def v_def)
  from response_sent [OF id this, of pb "mh_token m" response] obtain c services blocks results where
    p: "processResponse pb (mh_id m) (Some (mh_token m)) response k MsgType_RESPONSE v
      = Done () (v\<lparr>sapService := services, sap_memory := blocks, call_results := results,
          sap_log := sap_log v @ [SapCall (so_id (sockets v ! k)) c]\<rparr>)"
      "answers (mh_id m) c" "call_token c = Some (mh_token m)" by blast
  let ?u = "v\<lparr>sapService := services, sap_memory := blocks, call_results := results,
          sap_log := sap_log v @ [SapCall (so_id (sockets v ! k)) c]\<rparr>"
  have "sap_block s = Done True v" using mem by (simp add: sap_block_run v_def)
  then have "sOnRequestComplete pb a e response s
      = andthen (bnd (checkAndDequeue k (mh_id m) (mh_token m)) (\<lambda>_. ret ())) (free_header h) ?u"
    by (simp add: sOnRequestComplete_def sap_onRequestComplete_def sreq_def getSocketById_def header_def
        gets_def bnd_def andthen_def ret_def whenever_def r find p(1))
  moreover have "sap_ok ?u k q" "\<forall>b h n. entry ?u k b h n = entry s k b h n"
    using ok by (simp_all add: v_def sap_ok_fields)
  moreover have "sap_log ?u = sap_log s @ [SapCall (so_id (sockets s ! k)) c]" "headers ?u = headers s"
    by (simp_all add: v_def)
  ultimately show ?thesis using p(2,3) by blast
qed

lemma sap_request_answered_aux:
  assumes ok: "sap_ok s k (us @ a # vs)" and a: "entry s k a h m" and mem: "sap_memory s = Some b # later"
    and id: "mh_id m \<in> sap_request_ids" and serv: "served s k"
    and other: "\<forall>u\<in>set us. \<forall>h' m'. entry s k u h' m' \<longrightarrow> (mh_id m', mh_token m') \<noteq> (mh_id m, mh_token m)"
  shows "\<exists>t c. sOnRequestComplete pb a e response s = Done () t
    \<and> sap_log t = sap_log s @ [SapCall (so_id (sockets s ! k)) c]
    \<and> answers (mh_id m) c \<and> call_token c = Some (mh_token m)
    \<and> sap_requests t a = None \<and> headers t h = None \<and> sap_ok t k (us @ vs)"
proof -
  from completion_calls_client [OF ok a mem id serv, of pb e response] obtain c u where
    run: "sOnRequestComplete pb a e response s
      = andthen (bnd (checkAndDequeue k (mh_id m) (mh_token m)) (\<lambda>_. ret ())) (free_header h) u"
    and c: "answers (mh_id m) c" "call_token c = Some (mh_token m)"
    and u: "sap_log u = sap_log s @ [SapCall (so_id (sockets s ! k)) c]" "headers u = headers s"
      "\<forall>b h n. entry u k b h n = entry s k b h n" and oku: "sap_ok u k (us @ a # vs)" by blast
  have au: "entry u k a h m" using a u(3) by simp
  have "\<forall>c\<in>set us. \<forall>h' m'. entry u k c h' m' \<longrightarrow> (mh_id m', mh_token m') \<noteq> (mh_id m, mh_token m)"
    using other u(3) by simp
  from checkAndDequeue_removes [OF oku au this] obtain v where
    v: "checkAndDequeue k (mh_id m) (mh_token m) u = Done True v" "sap_requests v a = None" "headers v = headers u"
      "sap_ok v k (us @ vs)" "\<forall>b\<in>set (us @ vs). \<forall>h m. entry v k b h m = entry u k b h m" "sap_log v = sap_log u" by blast
  define t where "t = v\<lparr>headers := (headers v)(h := None)\<rparr>"
  have hv: "headers v h = Some m" using v(3) au by (auto simp: entry_def)
  have "sOnRequestComplete pb a e response s = Done () t"
    unfolding run by (simp add: free_header_def header_def run_simps v(1) hv t_def)
  moreover have uniq: "h' \<noteq> h" if b: "b \<in> set (us @ vs)" and e: "entry v k b h' n" for b h' n
  proof
    assume "h' = h"
    then have eu: "entry u k b h n" using v(5) b e by blast
    have "b \<in> set (us @ a # vs)" "a \<in> set (us @ a # vs)" using b by auto
    with eu have "b = a" using oku au unfolding sap_ok_def by blast
    with b oku show False by (simp add: sap_ok_def)
  qed
  have "entry t k b h' n = entry v k b h' n" if b: "b \<in> set (us @ vs)" for b h' n
    using uniq [OF b, of h' n] by (auto simp: entry_def t_def)
  then have "sap_ok t k (us @ vs)"
    by (intro sap_ok_sub [OF v(4)]) (use v(4) in \<open>simp_all add: t_def sap_ok_def\<close>)
  moreover have "sap_log t = sap_log s @ [SapCall (so_id (sockets s ! k)) c]" "sap_requests t a = None" "headers t h = None"
    using u(1) v(2,6) by (simp_all add: t_def)
  ultimately show ?thesis using c by blast
qed

text \<open>
  C38: when the UIM library completes a SAP request that is in the queue of its socket, the client gets
  exactly one callback, the response to the message it asked with, and its token, also when the UIM
  library's bytes cannot be decoded; the request and its header are freed and the rest of the queue is
  as it was. It takes a slot that is registered, a client that has set its callback, memory for the
  payload, and no other request in front with the same message and token.
\<close>

theorem sap_request_answered:
  assumes ok: "sap_ok s k (us @ a # vs)" and a: "entry s k a h m" and mem: "sap_memory s = Some b # later"
    and id: "mh_id m \<in> sap_request_ids" and serv: "served s k"
    and other: "\<forall>u\<in>set us. \<forall>h' m'. entry s k u h' m' \<longrightarrow> (mh_id m', mh_token m') \<noteq> (mh_id m, mh_token m)"
  shows "\<exists>t c. sOnRequestComplete pb a e response s = Done () t
    \<and> sap_log t = sap_log s @ [SapCall (so_id (sockets s ! k)) c]
    \<and> answers (mh_id m) c \<and> call_token c = Some (mh_token m)
    \<and> sap_requests t a = None \<and> headers t h = None \<and> sap_ok t k (us @ vs)"
  by (rule sap_request_answered_aux [OF assms])

section \<open>Handing a request over\<close>

lemma enqueue_front:
  assumes "sap_requests s a = Some r" and "k < length (sockets s)"
  shows "enqueue k a s = Done () (s\<lparr>sockets := (sockets s)[k := (sockets s ! k)\<lparr>front := Some a\<rparr>],
      sap_requests := (sap_requests s)(a \<mapsto> r\<lparr>sr_next := front (sockets s ! k)\<rparr>)\<rparr>)"
  using assms
  by (cases "front (sockets s ! k)") (simp_all add: enqueue_def set_front_def set_next_def sreq_def run_simps)

text \<open>The state in which the UIM library's \<^verbatim>\<open>onRequest\<close> is called.\<close>

definition handed :: "nat \<Rightarrow> int \<Rightarrow> int \<Rightarrow> int list \<Rightarrow> nat \<Rightarrow> nat \<Rightarrow> nat option list \<Rightarrow> sap \<Rightarrow> sap" where
  "handed k msgId token bytes h a later s =
     s\<lparr>sockets := (sockets s)[k := (sockets s ! k)\<lparr>front := Some a\<rparr>],
       sap_requests := (sap_requests s)(a \<mapsto> \<lparr>sr_token = token, sr_curr = Some h, sr_next = front (sockets s ! k),
         sr_socketId = so_id (sockets s ! k)\<rparr>),
       headers := (headers s)(h \<mapsto> \<lparr>mh_token = token, mh_id = msgId, mh_payload = Some bytes\<rparr>),
       sap_memory := later, sap_log := sap_log s @ [SapRequest msgId bytes a]\<rparr>"

lemma request_handed:
  assumes k: "k < length (sockets s)" "find_socket (so_id (sockets s ! k)) (sockets s) = Some k"
    and slot: "map_option rilSocketId (sapService s ! slot) = Some (so_id (sockets s ! k))"
    and mem: "sap_memory s = Some h # Some b # Some p # Some a # later"
    and new: "headers s h = None" "sap_requests s a = None" and funcs: "uimFuncs (sockets s ! k)"
    and enc: "pb_size pb req = Some n" "pb_encode pb req = Some bytes" and len: "length bytes < 65536"
  shows "plain_request pb vendor slot msgId token req s
    = bnd (case vendor msgId bytes of None \<Rightarrow> ret () | Some (e, response) \<Rightarrow> sOnRequestComplete pb a e response)
        (\<lambda>_. bnd (header (Some h)) (\<lambda>x. modify (\<lambda>s. s\<lparr>headers := (headers s)(h \<mapsto> x\<lparr>mh_payload := None\<rparr>)\<rparr>)))
        (handed k msgId token bytes h a later s)"
proof -
  define s1 where "s1 = s\<lparr>sap_memory := Some a # later,
      headers := (headers s)(h \<mapsto> \<lparr>mh_token = token, mh_id = msgId, mh_payload = Some bytes\<rparr>)\<rparr>"
  have s1_of: "sockets s1 = sockets s" "sap_requests s1 = sap_requests s" "sap_memory s1 = Some a # later"
    "headers s1 h = Some \<lparr>mh_token = token, mh_id = msgId, mh_payload = Some bytes\<rparr>" by (simp_all add: s1_def)
  have new_header: "createMsgHeader msgId token s = Done (Some h)
      (s\<lparr>headers := (headers s)(h \<mapsto> \<lparr>mh_token = token, mh_id = msgId, mh_payload = None\<rparr>),
         sap_memory := Some b # Some p # Some a # later\<rparr>)"
    using mem new(1) by (simp add: createMsgHeader_def sap_malloc_def bnd_def andthen_def modify_def ret_def)
  have pre: "plain_request pb vendor slot msgId token req s
    = andthen (dispatchRequest pb vendor k h)
        (bnd (header (Some h)) (\<lambda>x. modify (\<lambda>s. s\<lparr>headers := (headers s)(h \<mapsto> x\<lparr>mh_payload := None\<rparr>)\<rparr>))) s1"
    using slot k(2) enc len unfolding plain_request_def with_header_def bnd_run [of "createMsgHeader msgId token", OF new_header]
    by (auto simp: encode_and_dispatch_def addPayloadAndDispatchRequest_def sap_block_run header_def
        getSocketById_def gets_def bnd_def modify_def andthen_def ret_def s1_def)
  define r where "r = \<lparr>sr_token = token, sr_curr = Some h, sr_next = None, sr_socketId = so_id (sockets s ! k)\<rparr>"
  define s2 where "s2 = s1\<lparr>sap_memory := later, sap_requests := (sap_requests s)(a \<mapsto> r)\<rparr>"
  have enq: "enqueue k a s2 = Done () (s2\<lparr>sockets := (sockets s2)[k := (sockets s2 ! k)\<lparr>front := Some a\<rparr>],
      sap_requests := (sap_requests s2)(a \<mapsto> r\<lparr>sr_next := front (sockets s2 ! k)\<rparr>)\<rparr>)"
    by (rule enqueue_front) (simp_all add: s2_def s1_of k(1))
  have fin: "(s2\<lparr>sockets := (sockets s2)[k := (sockets s2 ! k)\<lparr>front := Some a\<rparr>],
      sap_requests := (sap_requests s2)(a \<mapsto> r\<lparr>sr_next := front (sockets s2 ! k)\<rparr>)\<rparr>)\<lparr>sap_log := sap_log s2 @ [SapRequest msgId bytes a]\<rparr>
    = handed k msgId token bytes h a later s"
    by (simp add: handed_def s2_def s1_def r_def)
  have "dispatchRequest pb vendor k h s1
    = (case vendor msgId bytes of None \<Rightarrow> ret () | Some (e, response) \<Rightarrow> sOnRequestComplete pb a e response)
        (handed k msgId token bytes h a later s)"
    using enq new(2) funcs fin s1_of
    by (simp add: dispatchRequest_def sap_malloc_def header_def gets_def bnd_def modify_def andthen_def ret_def sap_say_def
        s2_def [symmetric] r_def [symmetric])
  with pre show ?thesis by (simp add: andthen_def bnd_def)
qed

lemma handed_ok:
  assumes ok: "sap_ok s k q" and new: "headers s h = None" "sap_requests s a = None"
  shows "sap_ok (handed k msgId token bytes h a later s) k (a # q)"
    and "entry (handed k msgId token bytes h a later s) k a h \<lparr>mh_token = token, mh_id = msgId, mh_payload = Some bytes\<rparr>"
proof -
  let ?v = "handed k msgId token bytes h a later s"
  from ok have k: "k < length (sockets s)" and chain: "queued (sap_requests s) (front (sockets s ! k)) q"
    and alive: "\<forall>b\<in>set q. \<exists>h m. entry s k b h m" by (simp_all add: sap_ok_def)
  show e: "entry ?v k a h \<lparr>mh_token = token, mh_id = msgId, mh_payload = Some bytes\<rparr>"
    using k by (simp add: entry_def handed_def)
  have out: "a \<notin> set q" using alive new(2) by (fastforce simp: entry_def)
  have same: "entry ?v k b h' m = entry s k b h' m" if "b \<in> set q" for b h' m
  proof -
    from alive that obtain g n where "entry s k b g n" by blast
    then show ?thesis using that out new k by (auto simp: entry_def handed_def)
  qed
  have "h' \<noteq> h" if "entry s k b h' m" for b h' m using that new(1) by (auto simp: entry_def)
  moreover have "h' = h" if "entry ?v k a h' m" for h' m using entry_unique [OF e that] by simp
  ultimately have "b = c" if "b \<in> set (a # q)" "c \<in> set (a # q)" "entry ?v k b g m" "entry ?v k c g n" for b c g m n
    using that ok same unfolding sap_ok_def by (metis set_ConsD)
  moreover have "\<exists>g m. entry ?v k b g m" if "b \<in> set (a # q)" for b using that e alive same by auto
  moreover have "queued (sap_requests ?v) (front (sockets ?v ! k)) (a # q)"
    using k chain out by (simp add: handed_def queued_update)
  moreover have "k < length (sockets ?v)" "find_socket (so_id (sockets ?v ! k)) (sockets ?v) = Some k"
    using ok k by (simp_all add: sap_ok_def handed_def)
  ultimately show "sap_ok ?v k (a # q)"
    using ok out unfolding sap_ok_def by (metis distinct.simps(2))
qed

text \<open>
  The service frees the payload of a request through its header after the hand-over. A UIM library
  that completes the request before its \<^verbatim>\<open>onRequest\<close> returns has freed the header by then.
\<close>

theorem synchronous_completion_uses_freed_header:
  assumes ok: "sap_ok s k q" and mem: "sap_memory s = Some h # Some b # Some p # Some a # Some c # later"
    and slot: "map_option rilSocketId (sapService s ! slot) = Some (so_id (sockets s ! k))" and serv: "served s k"
    and new: "headers s h = None" "sap_requests s a = None" and funcs: "uimFuncs (sockets s ! k)"
    and enc: "pb_size pb (POWER_REQ on) = Some n" "pb_encode pb (POWER_REQ on) = Some bytes" "length bytes < 65536"
    and sync: "vendor MsgId_RIL_SIM_SAP_POWER bytes = Some (e, response)"
  shows "powerReq pb vendor slot token on s = Crash UseAfterFree"
proof -
  let ?v = "handed k MsgId_RIL_SIM_SAP_POWER token bytes h a (Some c # later) s"
  from ok have k: "k < length (sockets s)" "find_socket (so_id (sockets s ! k)) (sockets s) = Some k" by (simp_all add: sap_ok_def)
  have m: "sap_memory ?v = Some c # later" and sv: "served ?v k"
    using serv k(1) by (simp_all add: handed_def served_def)
  have "sap_ok ?v k ([] @ a # q)" using handed_ok(1) [OF ok new] by simp
  from sap_request_answered_aux [OF this handed_ok(2) [OF ok new] m _ sv, of pb e response] obtain t where
    "sOnRequestComplete pb a e response ?v = Done () t" "headers t h = None" by (auto simp: sap_request_ids_def)
  then show ?thesis
    unfolding powerReq_def request_handed [OF k slot mem new funcs enc] sync
    by (simp add: bnd_def header_def gets_def crash_def)
qed

text \<open>
  The same happens when there is no memory for the record of the request: dispatchRequest frees the
  header and returns, the service reads the payload through it. The client gets no response.
\<close>

theorem no_memory_uses_freed_header:
  assumes k: "k < length (sockets s)" "find_socket (so_id (sockets s ! k)) (sockets s) = Some k"
    and slot: "map_option rilSocketId (sapService s ! slot) = Some (so_id (sockets s ! k))"
    and mem: "sap_memory s = Some h # Some b # Some p # None # later" and new: "headers s h = None"
    and enc: "pb_size pb (POWER_REQ on) = Some n" "pb_encode pb (POWER_REQ on) = Some bytes"
  shows "powerReq pb vendor slot token on s = Crash UseAfterFree"
proof -
  have new_header: "createMsgHeader MsgId_RIL_SIM_SAP_POWER token s = Done (Some h)
      (s\<lparr>headers := (headers s)(h \<mapsto> \<lparr>mh_token = token, mh_id = MsgId_RIL_SIM_SAP_POWER, mh_payload = None\<rparr>),
         sap_memory := Some b # Some p # None # later\<rparr>)"
    using mem new(1) by (simp add: createMsgHeader_def sap_malloc_def bnd_def andthen_def modify_def ret_def)
  show ?thesis
    using slot k(2) enc unfolding powerReq_def plain_request_def with_header_def bnd_run [of "createMsgHeader _ token", OF new_header]
    by (auto simp: encode_and_dispatch_def addPayloadAndDispatchRequest_def sap_block_run header_def dispatchRequest_def
        sap_malloc_def free_header_def getSocketById_def gets_def bnd_def modify_def andthen_def ret_def crash_def)
qed

text \<open>
  C39: enqueue puts a request in front, and checkAndDequeue removes the first that has the message and
  the token. When two outstanding requests share them, completing the older one frees the newer one,
  whose completion then reads freed memory.
\<close>

theorem same_token_frees_newer_request:
  assumes ok: "sap_ok s k (b # q)" and a: "a \<in> set q" "entry s k a h m" and b: "entry s k b g n"
    and same: "mh_id n = mh_id m" "mh_token n = mh_token m" and mem: "sap_memory s = Some p # later"
    and id: "mh_id m \<in> sap_request_ids" and serv: "served s k"
  shows "\<exists>t c. sOnRequestComplete pb a e response s = Done () t
    \<and> sap_log t = sap_log s @ [SapCall (so_id (sockets s ! k)) c]
    \<and> answers (mh_id m) c \<and> call_token c = Some (mh_token m)
    \<and> sOnRequestComplete pb b e' response' t = Crash UseAfterFree"
proof -
  from completion_calls_client [OF ok a(2) mem id serv, of pb e response] obtain c u where
    run: "sOnRequestComplete pb a e response s
      = andthen (bnd (checkAndDequeue k (mh_id m) (mh_token m)) (\<lambda>_. ret ())) (free_header h) u"
    and c: "answers (mh_id m) c" "call_token c = Some (mh_token m)"
    and u: "sap_log u = sap_log s @ [SapCall (so_id (sockets s ! k)) c]" "headers u = headers s"
      "\<forall>b h n. entry u k b h n = entry s k b h n" and oku: "sap_ok u k (b # q)" by blast
  have ok_u: "sap_ok u k ([] @ b # q)" and bu: "entry u k b g n" using oku b u(3) by simp_all
  from checkAndDequeue_removes [OF ok_u bu] obtain v where
    v: "checkAndDequeue k (mh_id m) (mh_token m) u = Done True v" "sap_requests v b = None"
      "headers v = headers u" "sap_log v = sap_log u" by (auto simp: same)
  have hv: "headers v h = Some m" using v(3) u(2) a(2) by (auto simp: entry_def)
  have "sOnRequestComplete pb a e response s = Done () (v\<lparr>headers := (headers v)(h := None)\<rparr>)"
    unfolding run by (simp add: free_header_def header_def run_simps v(1) hv)
  moreover have "sOnRequestComplete pb b e' response' (v\<lparr>headers := (headers v)(h := None)\<rparr>) = Crash UseAfterFree"
    using v(2) by (simp add: sOnRequestComplete_def sreq_def run_simps)
  ultimately show ?thesis using v(4) u(1) c by (intro exI [of _ "v\<lparr>headers := (headers v)(h := None)\<rparr>"] exI [of _ c]) simp
qed

section \<open>Indications\<close>

lemma answer_call_token [simp]: "call_token (answer_call token m) = token"
  by (cases m) (simp_all add: answer_call_def)

lemma failed_call_token: "failed_call msgId token = Some c \<Longrightarrow> call_token c = token"
  by (auto simp: failed_call_def split: if_splits)

lemma call_client_logs: "call_client slot c s = Done x t \<Longrightarrow> sap_log t = sap_log s @ [SapCall slot c]"
  by (auto simp: call_client_def checkReturnStatus_def run_simps split: option.splits if_splits list.splits)

definition unset_token :: "sap_msg \<Rightarrow> bool" where
  "unset_token m \<longleftrightarrow> (\<exists>slot c. m = SapCall slot c \<and> call_token c = None)"

text \<open>At most one callback, and it has no token.\<close>

definition at_most_unset :: "sap \<Rightarrow> sap \<Rightarrow> bool" where
  "at_most_unset s t \<longleftrightarrow> sap_log t = sap_log s \<or> (\<exists>m. sap_log t = sap_log s @ [m] \<and> unset_token m)"

lemma decode_into_log: "decode_into d f s = Done r u \<Longrightarrow> sap_log u = sap_log s"
  by (auto simp: decode_into_run)

lemma decode_log: "sapDecodeMessage pb msgId msgType bytes s = Done r u \<Longrightarrow> sap_log u = sap_log s"
  by (auto simp: sapDecodeMessage_def ret_def dest: decode_into_log split: if_splits)

lemma processResponse_unset:
  assumes "processResponse pb msgId None bytes k msgType s = Done x t"
  shows "at_most_unset s t"
proof -
  from assms obtain r u where u: "sapDecodeMessage pb msgId msgType bytes s = Done r u"
    and run: "bnd (getSapImpl k) (\<lambda>sapImpl. case sapImpl of None \<Rightarrow> crash NullDeref
      | Some slot \<Rightarrow> bnd (gets (\<lambda>s. map_option sapCallback (sapService s ! slot) = Some True)) (\<lambda>callback.
          if \<not> callback then ret () else case r of None \<Rightarrow> sendFailedResponse slot msgId None None
          | Some m \<Rightarrow> call_client slot (answer_call None m))) u = Done x t"
    unfolding processResponse_def bnd_Done [of "sapDecodeMessage pb msgId msgType bytes"] by blast
  have log: "sap_log u = sap_log s" using u by (rule decode_log)
  from run consider "sap_log t = sap_log u" | slot c where "call_client slot c u = Done x t" "call_token c = None"
    by (auto simp: getSapImpl_def bnd_Done gets_def ret_def crash_def sendFailedResponse_def andthen_Done
        dest: failed_call_token split: if_splits option.splits)
  then show ?thesis
    using log by cases (auto simp: at_most_unset_def unset_token_def dest: call_client_logs)
qed

text \<open>
  An indication of the UIM library reaches the client at most once, and with a token nothing has
  written: onUnsolicitedResponse leaves the field of its header unset and processResponse passes it on.
\<close>

theorem indication_token_unset:
  assumes "sOnUnsolicitedResponse pb socketId msgId bytes s = Done x t"
  shows "sap_log t = sap_log s \<or> (\<exists>m. sap_log t = sap_log s @ [m] \<and> unset_token m)"
  using assms
  by (auto simp: sOnUnsolicitedResponse_def sap_onUnsolicitedResponse_def getSocketById_def bnd_Done gets_def ret_def
      whenever_def sap_block_run at_most_unset_def dest!: processResponse_unset split: if_splits option.splits)

section \<open>Examples\<close>

definition sap_state :: "nat option \<Rightarrow> (nat \<Rightarrow> SapSocketRequest option) \<Rightarrow> (nat \<Rightarrow> MsgHeader option) \<Rightarrow> nat option list \<Rightarrow> sap" where
  "sap_state p rs hs mem = \<lparr>sockets = [\<lparr>so_name = ''slot1'', so_id = 0, uimFuncs = True, front = p\<rparr>],
     sap_requests = rs, headers = hs, sapService = [Some \<lparr>rilSocketId = 0, sapCallback = True\<rparr>],
     sap_memory = mem, call_results = [], sap_log = []\<rparr>"

definition two_requests :: sap where
  "two_requests = sap_state (Some 2) [1 \<mapsto> \<lparr>sr_token = 7, sr_curr = Some 11, sr_next = None, sr_socketId = 0\<rparr>,
       2 \<mapsto> \<lparr>sr_token = 7, sr_curr = Some 12, sr_next = Some 1, sr_socketId = 0\<rparr>]
     [11 \<mapsto> \<lparr>mh_token = 7, mh_id = 5, mh_payload = None\<rparr>, 12 \<mapsto> \<lparr>mh_token = 7, mh_id = 5, mh_payload = None\<rparr>] [Some 21]"

definition no_requests :: "nat option list \<Rightarrow> sap" where
  "no_requests mem = sap_state None Map.empty Map.empty mem"

text \<open>An encoder that sends a request as one byte and a decoder that refuses everything.\<close>

definition small_codec :: codec where
  "small_codec = \<lparr>pb_size = \<lambda>_. Some 1, pb_encode = \<lambda>_. Some [1], pb_connect = \<lambda>_. None, pb_disconnect = \<lambda>_. None,
     pb_disconnect_ind = \<lambda>_. None, pb_apdu = \<lambda>_. None, pb_transfer_atr = \<lambda>_. None, pb_power = \<lambda>_. None,
     pb_reset_sim = \<lambda>_. None, pb_status = \<lambda>_. None, pb_card_reader_status = \<lambda>_. None, pb_error = \<lambda>_. None,
     pb_set_transfer_protocol = \<lambda>_. None\<rparr>"

lemma two_requests_entry [simp]:
  "entry two_requests 0 a h m \<longleftrightarrow> (a = 1 \<and> h = 11 \<or> a = 2 \<and> h = 12) \<and> m = \<lparr>mh_token = 7, mh_id = 5, mh_payload = None\<rparr>"
  by (auto simp: entry_def two_requests_def sap_state_def split: if_splits)

lemma two_requests_ok: "sap_ok two_requests 0 [2, 1]" "served two_requests 0" "sap_memory two_requests = [Some 21]"
proof -
  have "queued (sap_requests two_requests) (front (sockets two_requests ! 0)) [2, 1]" "0 < length (sockets two_requests)"
    "find_socket (so_id (sockets two_requests ! 0)) (sockets two_requests) = Some 0"
    by (simp_all add: two_requests_def sap_state_def)
  then show "sap_ok two_requests 0 [2, 1]" by (auto simp: sap_ok_def simp del: queued.simps)
qed (simp_all add: served_def two_requests_def sap_state_def)

lemma no_requests_ok: "sap_ok (no_requests mem) 0 []" "served (no_requests mem) 0"
  by (simp_all add: sap_ok_def served_def no_requests_def sap_state_def)

theorem same_token_witness:
  "\<exists>t c. sOnRequestComplete small_codec 1 RIL_E_SUCCESS [5] two_requests = Done () t
    \<and> sap_log t = sap_log two_requests @ [SapCall (so_id (sockets two_requests ! 0)) c]
    \<and> answers 5 c \<and> call_token c = Some 7
    \<and> sOnRequestComplete small_codec 2 RIL_E_SUCCESS [6] t = Crash UseAfterFree"
  using same_token_frees_newer_request [OF two_requests_ok(1), where a = 1 and h = 11 and g = 12 and pb = small_codec
      and m = "\<lparr>mh_token = 7, mh_id = 5, mh_payload = None\<rparr>" and n = "\<lparr>mh_token = 7, mh_id = 5, mh_payload = None\<rparr>"
      and p = 21 and later = "[]" and e = RIL_E_SUCCESS and e' = RIL_E_SUCCESS
      and response = "[5]" and response' = "[6]"] two_requests_ok
  by (simp add: sap_request_ids_def)

theorem sap_answer_witness:
  "\<exists>t c. sOnRequestComplete small_codec 2 RIL_E_SUCCESS [5] two_requests = Done () t
    \<and> sap_log t = sap_log two_requests @ [SapCall (so_id (sockets two_requests ! 0)) c]
    \<and> answers 5 c \<and> call_token c = Some 7
    \<and> sap_requests t 2 = None \<and> headers t 12 = None \<and> sap_ok t 0 [1]"
  using sap_request_answered [where us = "[]" and vs = "[1]" and s = two_requests and k = 0 and a = 2 and h = 12 and b = 21
      and later = "[]" and m = "\<lparr>mh_token = 7, mh_id = 5, mh_payload = None\<rparr>" and pb = small_codec
      and e = RIL_E_SUCCESS and response = "[5]"] two_requests_ok
  by (simp add: sap_request_ids_def)

theorem synchronous_completion_witness:
  "powerReq small_codec (\<lambda>_ _. Some (RIL_E_SUCCESS, [])) 0 8 True (no_requests [Some 21, Some 22, Some 23, Some 24, Some 25])
    = Crash UseAfterFree"
  by (rule synchronous_completion_uses_freed_header [OF no_requests_ok(1), where h = 21 and b = 22 and p = 23 and a = 24
      and c = 25 and later = "[]" and n = 1 and bytes = "[1]" and e = RIL_E_SUCCESS and response = "[]"])
    (simp_all add: no_requests_ok(2), simp_all add: no_requests_def sap_state_def small_codec_def)

theorem no_memory_witness:
  "powerReq small_codec (\<lambda>_ _. None) 0 8 True (no_requests [Some 21, Some 22, Some 23, None]) = Crash UseAfterFree"
  by (rule no_memory_uses_freed_header [where k = 0 and h = 21 and b = 22 and p = 23 and later = "[]" and n = 1 and bytes = "[1]"])
    (simp_all add: no_requests_def sap_state_def small_codec_def)

definition status_codec :: codec where
  "status_codec = small_codec\<lparr>pb_status := \<lambda>_. Some 4\<rparr>"

theorem indication_token_witness:
  "\<exists>t. sOnUnsolicitedResponse status_codec 0 MsgId_RIL_SIM_SAP_STATUS [8] (no_requests [Some 1, Some 2]) = Done () t
    \<and> sap_log t = [SapCall 0 (statusIndication None 4)]
    \<and> (sap_log t = sap_log (no_requests [Some 1, Some 2]) \<or> (\<exists>m. sap_log t = sap_log (no_requests [Some 1, Some 2]) @ [m] \<and> unset_token m))"
proof -
  obtain t where t: "sOnUnsolicitedResponse status_codec 0 MsgId_RIL_SIM_SAP_STATUS [8] (no_requests [Some 1, Some 2]) = Done () t"
    "sap_log t = [SapCall 0 (statusIndication None 4)]"
    by (simp add: sOnUnsolicitedResponse_def sap_onUnsolicitedResponse_def getSocketById_def processResponse_def
        sapDecodeMessage_def decode_into_run sap_block_run getSapImpl_def call_client_def checkReturnStatus_def answer_call_def
        status_codec_def small_codec_def no_requests_def sap_state_def run_simps)
  from indication_token_unset [OF t(1)] t show ?thesis by blast
qed

end
