(* ===== verification/RilState.thy ===== *)
theory RilState
  imports RilTypes
begin

text \<open>
  The radio state and technology of \<^verbatim>\<open>reference-ril.c\<close>, and the three functions the channel
  calls back: \<^verbatim>\<open>onUnsolicited\<close>, \<^verbatim>\<open>onATReaderClosed\<close> and \<^verbatim>\<open>onATTimeout\<close>. They satisfy the channel's
  interface, so what is proved of the channel holds for this client.
\<close>

section \<open>Technologies\<close>

definition is3gpp2 :: "int \<Rightarrow> bool" where
  "is3gpp2 radioTech \<longleftrightarrow> radioTech \<in> {RADIO_TECH_IS95A, RADIO_TECH_IS95B, RADIO_TECH_1xRTT,
     RADIO_TECH_EVDO_0, RADIO_TECH_EVDO_A, RADIO_TECH_EVDO_B, RADIO_TECH_EHRPD}"

definition techFromModemType :: "int \<Rightarrow> ('s, int) prog" where
  "techFromModemType mdmtype = bnd (shl1 mdmtype) (\<lambda>bit. ret
     (if bit = MDM_CDMA then RADIO_TECH_1xRTT
      else if bit = MDM_EVDO then RADIO_TECH_EVDO_A
      else if bit = MDM_GSM then RADIO_TECH_GPRS
      else if bit = MDM_WCDMA then RADIO_TECH_HSPA
      else if bit = MDM_LTE then RADIO_TECH_LTE
      else -1))"

definition TECH :: "int rprog" where
  "TECH = gets (\<lambda>s. currentTech (sMdmInfo s))"

definition TECH_BIT :: "int rprog" where
  "TECH_BIT = bnd TECH shl1"

definition setRadioTechnology :: "int \<Rightarrow> unit rprog" where
  "setRadioTechnology newtech =
     bnd TECH (\<lambda>oldtech.
       if newtech \<noteq> oldtech then
         andthen (modify (\<lambda>s. s\<lparr>sMdmInfo := (sMdmInfo s)\<lparr>currentTech := newtech\<rparr>\<rparr>))
           (bnd (techFromModemType newtech) (\<lambda>n. bnd (techFromModemType oldtech) (\<lambda>old.
              if n \<noteq> old then
                bnd TECH (\<lambda>cur. bnd (techFromModemType cur) (\<lambda>tech.
                  whenever (tech > 0)
                    (RIL_onUnsolicitedResponse RIL_UNSOL_VOICE_RADIO_TECH_CHANGED (PInts [tech]))))
              else ret ())))
       else ret ())"

text \<open>
  The return code, and what is stored through \<^verbatim>\<open>current\<close> and \<^verbatim>\<open>preferred\<close> when they are not NULL.
\<close>

definition parse_technology_response :: "string \<Rightarrow> int \<times> int option \<times> int option" where
  "parse_technology_response response =
     (let (err, p) = at_tok_start (Some response) in
      if err \<noteq> 0 \<or> \<not> at_tok_hasmore p then (-1, None, None)
      else
        let (err, p, ct) = at_tok_nextint p 0 in
        if err \<noteq> 0 then (-1, None, None)
        else
          let (err, p, pt) = at_tok_nexthexint p 0 in
          if err \<noteq> 0 then (1, Some ct, None)
          else (0, Some ct, Some pt))"

section \<open>The radio state\<close>

text \<open>
  \<^verbatim>\<open>setRadioState\<close>, with the code run when the radio is on as the argument \<open>power_on\<close>: on the
  command thread it is \<^verbatim>\<open>onRadioPowerOn\<close>; the callbacks below never get there.
\<close>

definition setRadioState_with :: "unit rprog \<Rightarrow> RIL_RadioState \<Rightarrow> unit rprog" where
  "setRadioState_with power_on newState =
     bnd (gets sState) (\<lambda>oldState.
     bnd (gets s_closed) (\<lambda>closed.
       let new = (if closed then RADIO_STATE_UNAVAILABLE else newState) in
       andthen
         (whenever (oldState \<noteq> new \<or> closed) (modify (\<lambda>s. s\<lparr>sState := new\<rparr>)))
         (bnd (gets sState) (\<lambda>now.
            whenever (now \<noteq> oldState)
              (seqs [RIL_onUnsolicitedResponse RIL_UNSOL_RESPONSE_RADIO_STATE_CHANGED PNone,
                     RIL_onUnsolicitedResponse RIL_UNSOL_RESPONSE_SIM_STATUS_CHANGED PNone,
                     bnd (gets sState) (\<lambda>st. whenever (st = RADIO_STATE_ON) power_on)])))))"

text \<open>No other state than \<^verbatim>\<open>RADIO_STATE_ON\<close> gets to \<open>power_on\<close>.\<close>

lemma setRadioState_with_not_on:
  "newState \<noteq> RADIO_STATE_ON \<Longrightarrow> setRadioState_with h newState = setRadioState_with h' newState"
  by (auto simp: fun_eq_iff setRadioState_with_def Let_def act_defs run_simps)

section \<open>Unsolicited lines\<close>

definition onUnsolicited :: "string \<Rightarrow> cptr \<Rightarrow> unit rprog" where
  "onUnsolicited line sms_pdu =
     bnd (gets (\<lambda>s. USE_TI_COMMANDS (env s))) (\<lambda>fake_cgev.
     bnd (gets sState) (\<lambda>state.
      if state = RADIO_STATE_UNAVAILABLE then ret ()
      else if strStartsWith line ''%CTZV:'' then
        (let (_, p) = at_tok_start (Some line); (err, _, response) = at_tok_nextstr p None in
         if err \<noteq> 0 then ret ()
         else bnd (deref response)
           (\<lambda>_. RIL_onUnsolicitedResponse RIL_UNSOL_NITZ_TIME_RECEIVED (PStr response)))
      else if strStartsWith line ''+CRING:'' \<or> strStartsWith line ''RING''
              \<or> strStartsWith line ''NO CARRIER'' \<or> strStartsWith line ''+CCWA'' then
        andthen (RIL_onUnsolicitedResponse RIL_UNSOL_RESPONSE_CALL_STATE_CHANGED PNone)
          (whenever fake_cgev (RIL_requestTimedCallback CB_onDataCallListChanged 0))
      else if strStartsWith line ''+CREG:'' \<or> strStartsWith line ''+CGREG:'' then
        andthen (RIL_onUnsolicitedResponse RIL_UNSOL_RESPONSE_VOICE_NETWORK_STATE_CHANGED PNone)
          (whenever fake_cgev (RIL_requestTimedCallback CB_onDataCallListChanged 0))
      else if strStartsWith line ''+CMT:'' then
        bnd (deref sms_pdu) (\<lambda>_. RIL_onUnsolicitedResponse RIL_UNSOL_RESPONSE_NEW_SMS (PStr sms_pdu))
      else if strStartsWith line ''+CDS:'' then
        bnd (deref sms_pdu)
          (\<lambda>_. RIL_onUnsolicitedResponse RIL_UNSOL_RESPONSE_NEW_SMS_STATUS_REPORT (PStr sms_pdu))
      else if strStartsWith line ''+CGEV:'' then RIL_requestTimedCallback CB_onDataCallListChanged 0
      else if fake_cgev \<and> strStartsWith line ''+CME ERROR: 150'' then
        RIL_requestTimedCallback CB_onDataCallListChanged 0
      else if strStartsWith line ''+CTEC: '' then
        (let (rc, current, _) = parse_technology_response line in
         case current of
           None \<Rightarrow> ret ()
         | Some tech \<Rightarrow>
             bnd (shl1 tech) (\<lambda>mask.
               if mask \<noteq> MDM_GSM \<and> mask \<noteq> MDM_CDMA \<and> mask \<noteq> MDM_WCDMA \<and> mask \<noteq> MDM_LTE then ret ()
               else setRadioTechnology tech))
      else if strStartsWith line ''+CCSS: '' then
        (let (err, p) = at_tok_start (Some line) in
         if err < 0 then ret ()
         else let (err, _, source) = at_tok_nextint p 0 in
           if err < 0 then ret ()
           else andthen
             (modify (\<lambda>s. s\<lparr>sMdmInfo := (sMdmInfo s)\<lparr>subscription_source := source\<rparr>\<rparr>))
             (RIL_onUnsolicitedResponse RIL_UNSOL_CDMA_SUBSCRIPTION_SOURCE_CHANGED (PInts [source])))
      else if strStartsWith line ''+WSOS: '' then
        (let (err, p) = at_tok_start (Some line) in
         if err < 0 then ret ()
         else let (err, _, on) = at_tok_nextbool p 0 in
           if err < 0 then ret ()
           else RIL_onUnsolicitedResponse
             (if on \<noteq> 0 then RIL_UNSOL_ENTER_EMERGENCY_CALLBACK_MODE
              else RIL_UNSOL_EXIT_EMERGENCY_CALLBACK_MODE) PNone)
      else if strStartsWith line ''+WPRL: '' then
        (let (err, p) = at_tok_start (Some line) in
         if err < 0 then ret ()
         else let (err, _, version) = at_tok_nextint p (-1) in
           if err < 0 then ret ()
           else RIL_onUnsolicitedResponse RIL_UNSOL_CDMA_PRL_CHANGED (PInts [version]))
      else if strStartsWith line ''+CFUN: 0'' then setRadioState_with (ret ()) RADIO_STATE_OFF
      else ret ()))"

text \<open>
  The channel closes: \<^verbatim>\<open>s_closed\<close> is set first, so the new state is \<^verbatim>\<open>RADIO_STATE_UNAVAILABLE\<close>.
\<close>

definition onATReaderClosed :: "unit rprog" where
  "onATReaderClosed = seqs [at_close, modify (\<lambda>s. s\<lparr>s_closed := True\<rparr>),
     setRadioState_with (ret ()) RADIO_STATE_UNAVAILABLE]"

definition onATTimeout :: "unit rprog" where
  "onATTimeout = seqs [at_close, modify (\<lambda>s. s\<lparr>s_closed := True\<rparr>),
     setRadioState_with (ret ()) RADIO_STATE_UNAVAILABLE]"

definition ril_handlers :: "ril handlers" where
  "ril_handlers = \<lparr>h_unsol = onUnsolicited, h_closed = onATReaderClosed, h_timeout = onATTimeout\<rparr>"

section \<open>The callbacks keep to the channel's interface\<close>

text \<open>Programs that leave every field of the channel alone.\<close>

definition chan_same :: "ril \<Rightarrow> ril \<Rightarrow> bool" where
  "chan_same s t \<longleftrightarrow> at_chan.truncate t = at_chan.truncate s"

interpretation chan: frame chan_same
  by unfold_locales (simp_all add: chan_same_def)

named_theorems chan_intros "programs that leave the channel alone"

lemma chan_act [chan_intros]: "steps chan_same (do_act a)"
  by (simp add: steps_def do_act_def modify_def chan_same_def at_chan.defs)

lemma chan_lib [chan_intros]:
  "steps chan_same (RIL_onRequestComplete t e p)" "steps chan_same (RIL_onUnsolicitedResponse u p)"
  "steps chan_same (RIL_requestTimedCallback c d)"
  by (simp_all add: RIL_onRequestComplete_def RIL_onUnsolicitedResponse_def RIL_requestTimedCallback_def
      chan_act)

lemma chan_shl1 [chan_intros]: "steps chan_same (shl1 n)"
  by (simp add: shl1_def chan.steps_ret chan.steps_crash)

lemma chan_deref [chan_intros]: "steps chan_same (deref p)"
  by (simp add: deref_def chan.steps_ret chan.steps_crash split: option.split)

lemma chan_tech [chan_intros]: "steps chan_same (techFromModemType n)" "steps chan_same TECH"
  by (auto simp: techFromModemType_def TECH_def intro!: chan_intros chan.frame_rules)

lemma chan_setRadioTechnology [chan_intros]: "steps chan_same (setRadioTechnology n)"
  unfolding setRadioTechnology_def
  by (intro chan_intros chan.frame_rules chan.steps_modify) (simp add: chan_same_def at_chan.defs)

lemma chan_upd [chan_intros]:
  "steps chan_same (modify (\<lambda>s. s\<lparr>sMdmInfo := f s\<rparr>))" "steps chan_same (modify (\<lambda>s. s\<lparr>sState := v\<rparr>))"
  by (auto intro!: chan.steps_modify simp: chan_same_def at_chan.defs)

lemma chan_setRadioState [chan_intros]:
  "steps chan_same h \<Longrightarrow> steps chan_same (setRadioState_with h n)"
  unfolding setRadioState_with_def
  by (intro chan_intros chan.frame_rules chan.steps_seqs) (auto intro!: chan_intros chan.frame_rules)

lemma chan_onUnsolicited: "steps chan_same (onUnsolicited l p)"
  unfolding onUnsolicited_def
  by (intro chan_intros chan.frame_rules)

lemma closed_handler_law:
  assumes "seqs [at_close, modify (\<lambda>s. s\<lparr>s_closed := True\<rparr>),
     setRadioState_with (ret ()) RADIO_STATE_UNAVAILABLE] s = Done () t"
  shows "at_chan.truncate t = (at_chan.truncate s)\<lparr>s_fd := s_fd t, s_readerClosed := True\<rparr>"
proof -
  let ?s = "s\<lparr>s_fd := -1, s_readerClosed := True, s_closed := True\<rparr>"
  have "setRadioState_with (ret ()) RADIO_STATE_UNAVAILABLE ?s = Done () t"
    using assms by (simp add: at_close_def andthen_def bnd_def modify_def ret_def split: outcome.splits)
  from stepsD [OF chan_setRadioState [OF chan.steps_ret] this]
  show ?thesis by (simp add: chan_same_def at_chan.defs)
qed

interpretation ril: channel_client ril_handlers
proof unfold_locales
  fix l p s t assume "h_unsol ril_handlers l p s = Done () t"
  then show "at_chan.truncate t = at_chan.truncate s"
    using stepsD [OF chan_onUnsolicited, of l p s "()" t] by (simp add: ril_handlers_def chan_same_def)
next
  fix s t assume "h_closed ril_handlers s = Done () t"
  then show "at_chan.truncate t = (at_chan.truncate s)\<lparr>s_fd := s_fd t, s_readerClosed := True\<rparr>"
    by (intro closed_handler_law) (simp add: ril_handlers_def onATReaderClosed_def)
next
  fix s t assume "h_timeout ril_handlers s = Done () t"
  then show "at_chan.truncate t = (at_chan.truncate s)\<lparr>s_fd := s_fd t, s_readerClosed := True\<rparr>"
    by (intro closed_handler_law) (simp add: ril_handlers_def onATTimeout_def)
qed

section \<open>The static variables at the start\<close>

text \<open>As the C files initialise them; \<^verbatim>\<open>sMdmInfo\<close> is zeroed.\<close>

definition boot :: "surroundings \<Rightarrow> (string \<Rightarrow> bool option) \<Rightarrow> ril" where
  "boot e ifs = \<lparr>s_fd = -1, s_unsolHandler = False, s_onReaderClosed = False, s_onTimeout = False,
    s_type = NO_RESULT, s_responsePrefix = None, s_smsPDU = None, sp_response = None,
    s_readerClosed = False, r_alive = False, r_line1 = None, on_reader = False, sched = [], wres = [],
    wrote = [], handed = [],
    sState = RADIO_STATE_UNAVAILABLE, s_closed = False,
    sMdmInfo = \<lparr>supportedTechs = 0, currentTech = 0, isMultimode = 0, preferredNetworkMode = 0,
      subscription_source = 0\<rparr>,
    s_mcc = 0, s_mnc = 0, s_lac = 0, s_cid = 0, s_cell_info_rate_ms = INT_MAX,
    s_ims_registered = 0, s_ims_services = 1, s_ims_format = 1, s_ims_cause_retry = 0,
    s_ims_cause_perm_failure = 0, s_ims_gsm_retry = 0, s_ims_gsm_fail = 0,
    s_incomingOrWaitingLine = -1, s_repollCallsCount = 0, s_expectAnswer = 0,
    ifaces = ifs, env = e, acts = []\<rparr>"

text \<open>An opened channel with a schedule, for the examples.\<close>

definition sample_env :: surroundings where
  "sample_env = \<lparr>USE_TI_COMMANDS = False, POLL_CALL_STATE = False, sizeof_ptr = 8, properties = (\<lambda>_. None),
    clock_monotonic = (0, 5000), if_socket_ok = True, if_set_ok = True, qmi = None\<rparr>"

definition sample_ril :: "RIL_RadioState \<Rightarrow> segment list \<Rightarrow> ril" where
  "sample_ril st sc = (boot sample_env (\<lambda>_. Some False))\<lparr>s_fd := 3, s_unsolHandler := True,
     s_onReaderClosed := True, s_onTimeout := True, r_alive := True, sState := st, sched := sc\<rparr>"

lemma sample_ril_sel [simp]:
  "sState (sample_ril st sc) = st" "sched (sample_ril st sc) = sc" "env (sample_ril st sc) = sample_env"
  "acts (sample_ril st sc) = []" "s_closed (sample_ril st sc) = False" "wrote (sample_ril st sc) = []"
  "ready (sample_ril st sc)" "r_alive (sample_ril st sc)" "s_readerClosed (sample_ril st sc) = False"
  "s_onReaderClosed (sample_ril st sc)" "r_line1 (sample_ril st sc) = None"
  "sp_response (sample_ril st sc) = None" "s_unsolHandler (sample_ril st sc)"
  "handed (sample_ril st sc) = []" "idle (sample_ril st sc)" "\<not> on_reader (sample_ril st sc)"
  "sMdmInfo (sample_ril st sc) = \<lparr>supportedTechs = 0, currentTech = 0, isMultimode = 0,
     preferredNetworkMode = 0, subscription_source = 0\<rparr>"
  by (simp_all add: sample_ril_def boot_def ready_def idle_def)

lemma sample_env_sel [simp]:
  "USE_TI_COMMANDS sample_env = False" "POLL_CALL_STATE sample_env = False" "sizeof_ptr sample_env = 8"
  "properties sample_env x = None" "qmi sample_env = None" "if_socket_ok sample_env" "if_set_ok sample_env"
  by (simp_all add: sample_env_def)

lemma asked_ril [simp]:
  "sState (asked c ty sc s) = sState s" "acts (asked c ty sc s) = acts s" "env (asked c ty sc s) = env s"
  "s_closed (asked c ty sc s) = s_closed s" "sMdmInfo (asked c ty sc s) = sMdmInfo s"
  "ifaces (asked c ty sc s) = ifaces s" "s_ims_gsm_fail (asked c ty sc s) = s_ims_gsm_fail s"
  "s_ims_gsm_retry (asked c ty sc s) = s_ims_gsm_retry s"
  by (simp_all add: asked_def)

end
