(* ===== verification/RilComplete.thy ===== *)
theory RilComplete
  imports RilState
begin

text \<open>
  Counting completions. The RIL library waits for one \<^verbatim>\<open>RIL_onRequestComplete\<close> per request; here are
  the number of completions of a token in the log, the programs that complete a request once
  and those that do not complete any, and the rules that follow the structure of a handler.
\<close>

definition completes :: "RIL_Token \<Rightarrow> act \<Rightarrow> bool" where
  "completes t a = (case a of Complete t' _ _ \<Rightarrow> t' = t | _ \<Rightarrow> False)"

definition completions :: "RIL_Token \<Rightarrow> ril \<Rightarrow> nat" where
  "completions t s = length (filter (completes t) (acts s))"

definition adds :: "RIL_Token \<Rightarrow> nat \<Rightarrow> 'a rprog \<Rightarrow> bool" where
  "adds t n m = steps (\<lambda>s s'. completions t s' = completions t s + n) m"

definition quiet :: "RIL_Token \<Rightarrow> 'a rprog \<Rightarrow> bool" where
  "quiet t m = adds t 0 m"

definition once :: "RIL_Token \<Rightarrow> 'a rprog \<Rightarrow> bool" where
  "once t m = adds t 1 m"

named_theorems count_intros "handlers by the number of completions"

interpretation count: frame "\<lambda>s s'. completions t s' = completions t s" for t
  by unfold_locales auto

lemma quiet_iff: "quiet t m \<longleftrightarrow> steps (\<lambda>s s'. completions t s' = completions t s) m"
  by (simp add: quiet_def adds_def)

lemma adds_bnd:
  assumes "adds t m a" and "\<And>x. adds t n (b x)"
  shows "adds t (m + n) (bnd a b)"
  using assms unfolding adds_def
  by (fastforce simp: steps_def bnd_Done)

lemma quiet_base [count_intros]:
  "quiet t (ret x)" "quiet t (crash e)" "quiet t (gets f)" "once t (crash e)" "quiet t hang" "once t hang"
  by (simp_all add: quiet_def once_def adds_def steps_def ret_def crash_def gets_def hang_def)

lemma quiet_modify [count_intros]: "(\<And>s. acts (f s) = acts s) \<Longrightarrow> quiet t (modify f)"
  by (simp add: quiet_def adds_def steps_def modify_def completions_def)

lemma once_complete: "once t (RIL_onRequestComplete t e p)"
  by (simp add: once_def adds_def steps_def act_defs modify_def completions_def completes_def)

lemma quiet_lib [count_intros]:
  "quiet t (RIL_onUnsolicitedResponse u p)" "quiet t (RIL_requestTimedCallback c d)"
  by (simp_all add: quiet_def adds_def steps_def act_defs modify_def completions_def completes_def)

lemma quiet_bnd: "quiet t a \<Longrightarrow> (\<And>x. quiet t (b x)) \<Longrightarrow> quiet t (bnd a b)"
  using adds_bnd [of t 0 a 0 b] by (simp add: quiet_def)

lemma once_bnd: "quiet t a \<Longrightarrow> (\<And>x. once t (b x)) \<Longrightarrow> once t (bnd a b)"
  using adds_bnd [of t 0 a 1 b] by (simp add: quiet_def once_def)

lemma once_bnd_first: "once t a \<Longrightarrow> (\<And>x. quiet t (b x)) \<Longrightarrow> once t (bnd a b)"
  using adds_bnd [of t 1 a 0 b] by (simp add: quiet_def once_def)

lemma quiet_andthen: "quiet t a \<Longrightarrow> quiet t b \<Longrightarrow> quiet t (andthen a b)"
  by (simp add: andthen_def quiet_bnd)

lemma once_andthen: "quiet t a \<Longrightarrow> once t b \<Longrightarrow> once t (andthen a b)"
  by (simp add: andthen_def once_bnd)

lemma once_complete_then: "quiet t b \<Longrightarrow> once t (andthen (RIL_onRequestComplete t e p) b)"
  by (simp add: andthen_def once_bnd_first once_complete)

lemma quiet_seqs: "(\<And>m. m \<in> set ms \<Longrightarrow> quiet t m) \<Longrightarrow> quiet t (seqs ms)"
  by (induction ms) (auto intro: quiet_base quiet_andthen)

lemma quiet_whenever: "quiet t m \<Longrightarrow> quiet t (whenever b m)"
  by (simp add: whenever_def quiet_base)

lemma quiet_if: "quiet t a \<Longrightarrow> quiet t b \<Longrightarrow> quiet t (if c then a else b)"
  by simp

lemma once_if: "once t a \<Longrightarrow> once t b \<Longrightarrow> once t (if c then a else b)"
  by simp

lemma quiet_cases:
  "quiet t a \<Longrightarrow> (\<And>x. quiet t (f x)) \<Longrightarrow> quiet t (case v of None \<Rightarrow> a | Some x \<Rightarrow> f x)"
  "(\<And>x y. quiet t (g x y)) \<Longrightarrow> quiet t (case w of (x, y) \<Rightarrow> g x y)"
  "(\<And>x. quiet t (h x)) \<Longrightarrow> quiet t (Let u h)"
  "quiet t b \<Longrightarrow> (\<And>x xs. quiet t (k x xs)) \<Longrightarrow> quiet t (case ls of [] \<Rightarrow> b | x # xs \<Rightarrow> k x xs)"
  by (auto simp: Let_def split: option.split prod.split list.split)

lemma once_cases:
  "once t a \<Longrightarrow> (\<And>x. once t (f x)) \<Longrightarrow> once t (case v of None \<Rightarrow> a | Some x \<Rightarrow> f x)"
  "(\<And>x y. once t (g x y)) \<Longrightarrow> once t (case w of (x, y) \<Rightarrow> g x y)"
  "(\<And>x. once t (h x)) \<Longrightarrow> once t (Let u h)"
  "once t b \<Longrightarrow> (\<And>x xs. once t (k x xs)) \<Longrightarrow> once t (case ls of [] \<Rightarrow> b | x # xs \<Rightarrow> k x xs)"
  by (auto simp: Let_def split: option.split prod.split list.split)

lemma quiet_small [count_intros]:
  "quiet t (shl1 n)" "quiet t (deref p)" "quiet t (techFromModemType n)" "quiet t TECH" "quiet t TECH_BIT"
  "quiet t (data_int d i)" "quiet t (data_str d i)"
  by (auto simp: shl1_def deref_def techFromModemType_def TECH_def TECH_BIT_def
      intro!: quiet_base quiet_bnd quiet_if split: option.split)
    ((cases "(d, i)" rule: data_int.cases, auto intro!: quiet_base),
     (cases "(d, i)" rule: data_str.cases, auto intro!: quiet_base))

lemmas count_rules = once_complete_then once_complete quiet_bnd once_bnd quiet_andthen once_andthen
  quiet_whenever quiet_if once_if quiet_cases once_cases

lemma quiet_setRadioTechnology [count_intros]: "quiet t (setRadioTechnology n)"
  unfolding setRadioTechnology_def by (intro count_intros count_rules) simp

lemma quiet_setRadioState_with [count_intros]: "quiet t h \<Longrightarrow> quiet t (setRadioState_with h n)"
  unfolding setRadioState_with_def
  by (intro count_intros count_rules quiet_seqs) (auto intro!: count_intros count_rules)

lemma quiet_onUnsolicited: "quiet t (onUnsolicited l p)"
  unfolding onUnsolicited_def by (intro count_intros count_rules) simp

lemma quiet_closed: "quiet t onATReaderClosed" "quiet t onATTimeout"
  unfolding onATReaderClosed_def onATTimeout_def at_close_def
  by (auto intro!: quiet_andthen count_intros)

lemma acts_more: "at_chan.more s' = at_chan.more s \<Longrightarrow> acts s' = acts (s :: ril)"
  by (cases s; cases s') simp

interpretation count_client: client_frame "\<lambda>s s'. completions t s' = completions t s" ril_handlers for t
  by unfold_locales
    (use quiet_onUnsolicited quiet_closed in
      \<open>auto simp: ril_handlers_def quiet_iff completions_def dest: acts_more\<close>)

lemma quiet_sends [count_intros]:
  "quiet t (at_send_command ril_handlers c pp)" "quiet t (at_send_command_singleline ril_handlers c pfx pp)"
  "quiet t (at_send_command_numeric ril_handlers c pp)" "quiet t (at_send_command_sms ril_handlers c pdu pfx pp)"
  "quiet t (at_send_command_multiline ril_handlers c pfx pp)" "quiet t (at_handshake ril_handlers)"
  using count_client.send_R count_client.handshake_R by (simp_all add: quiet_iff)

end
