(* ===== verification/RilSim.thy ===== *)
theory RilSim
  imports RilComplete
begin

text \<open>
  The SIM and the radio's power in \<^verbatim>\<open>reference-ril.c\<close>: reading the SIM status, the card status
  the framework sees, polling, switching the radio on and off, and the requests on the SIM:
  PIN entry, \<^verbatim>\<open>SIM_IO\<close> and the logical channels.
\<close>

section \<open>Looking at a response\<close>

fun the_resp :: "resp \<Rightarrow> ('s, ATResponse) prog" where
  "the_resp Uninit = crash UninitPointer"
| "the_resp Null = crash NullDeref"
| "the_resp (Resp p) = ret p"

text \<open>\<^verbatim>\<open>err < 0 || p_response->success == 0\<close>, also written with \<^verbatim>\<open>err != 0\<close>: no code is positive.\<close>

definition failed :: "int \<Rightarrow> resp \<Rightarrow> ('s, bool) prog" where
  "failed err r = (if err \<noteq> 0 then ret True else bnd (the_resp r) (\<lambda>p. ret (success p = 0)))"

text \<open>\<^verbatim>\<open>p_response->p_intermediates->line\<close>.\<close>

definition first_line_of :: "resp \<Rightarrow> ('s, string) prog" where
  "first_line_of r = bnd (the_resp r) (\<lambda>p.
     case p_intermediates p of [] \<Rightarrow> crash NullDeref | l # _ \<Rightarrow> ret l)"

text \<open>A command whose outcome is not looked at.\<close>

definition send_ignore :: "string \<Rightarrow> unit rprog" where
  "send_ignore command = bnd (at_send_command ril_handlers command None) (\<lambda>_. ret ())"

abbreviation send :: "string \<Rightarrow> resp \<Rightarrow> (int \<times> resp) rprog" where
  "send command old \<equiv> at_send_command ril_handlers command (Some old)"

abbreviation send_singleline :: "string \<Rightarrow> string \<Rightarrow> resp \<Rightarrow> (int \<times> resp) rprog" where
  "send_singleline command prefix old \<equiv> at_send_command_singleline ril_handlers command prefix (Some old)"

abbreviation send_numeric :: "string \<Rightarrow> resp \<Rightarrow> (int \<times> resp) rprog" where
  "send_numeric command old \<equiv> at_send_command_numeric ril_handlers command (Some old)"

abbreviation send_multiline :: "string \<Rightarrow> string \<Rightarrow> resp \<Rightarrow> (int \<times> resp) rprog" where
  "send_multiline command prefix old \<equiv> at_send_command_multiline ril_handlers command prefix (Some old)"

lemma quiet_resp [count_intros]:
  "quiet t (the_resp r)" "quiet t (failed err r)" "quiet t (first_line_of r)" "quiet t (send_ignore c)"
proof -
  show *: "quiet t (the_resp r)" for r by (cases r) (auto intro: quiet_base)
  show "quiet t (failed err r)" "quiet t (first_line_of r)" "quiet t (send_ignore c)"
    by (auto simp: failed_def first_line_of_def send_ignore_def intro!: count_intros quiet_bnd * quiet_cases)
qed

section \<open>The SIM status\<close>

text \<open>What \<^verbatim>\<open>AT+CPIN?\<close> answers, as a status; \<open>on_ready\<close> is what a ready card means.\<close>

definition cpin_status :: "string \<Rightarrow> SIM_Status \<Rightarrow> SIM_Status" where
  "cpin_status cpinResult on_ready =
     (if cpinResult = ''SIM PIN'' then SIM_PIN
      else if cpinResult = ''SIM PUK'' then SIM_PUK
      else if cpinResult = ''PH-NET PIN'' then SIM_NETWORK_PERSONALIZATION
      else if cpinResult \<noteq> ''READY'' then SIM_ABSENT
      else on_ready)"

definition getSIMStatus :: "SIM_Status rprog" where
  "getSIMStatus =
     bnd (send_singleline ''AT+CPIN?'' ''+CPIN:'' Null) (\<lambda>(err, r).
       if err \<noteq> 0 then ret SIM_NOT_READY
       else bnd (the_resp r) (\<lambda>p.
         let cme = at_get_cme_error p in
         if cme = CME_SIM_NOT_INSERTED then ret SIM_ABSENT
         else if cme \<noteq> CME_SUCCESS then ret SIM_NOT_READY
         else bnd (first_line_of r) (\<lambda>cpinLine.
           let (err, cur) = at_tok_start (Some cpinLine) in
           if err < 0 then ret SIM_NOT_READY
           else let (err, _, cpinResult) = at_tok_nextstr cur None in
             if err < 0 then ret SIM_NOT_READY
             else bnd (deref cpinResult) (\<lambda>cpinResult.
               bnd (gets sState) (\<lambda>st.
                 ret (cpin_status cpinResult
                   (if st = RADIO_STATE_ON then SIM_READY else SIM_NOT_READY)))))))"

text \<open>The same for a R-UIM, which only asks when the radio is on; the code does not call it.\<close>

definition getRUIMStatus :: "SIM_Status rprog" where
  "getRUIMStatus =
     bnd (gets sState) (\<lambda>st.
     if st = RADIO_STATE_OFF \<or> st = RADIO_STATE_UNAVAILABLE then ret SIM_NOT_READY
     else bnd (send_singleline ''AT+CPIN?'' ''+CPIN:'' Null) (\<lambda>(err, r).
       if err \<noteq> 0 then ret SIM_NOT_READY
       else bnd (the_resp r) (\<lambda>p.
         let cme = at_get_cme_error p in
         if cme = CME_SIM_NOT_INSERTED then ret SIM_ABSENT
         else if cme \<noteq> CME_SUCCESS then ret SIM_NOT_READY
         else bnd (first_line_of r) (\<lambda>cpinLine.
           let (err, cur) = at_tok_start (Some cpinLine) in
           if err < 0 then ret SIM_NOT_READY
           else let (err, _, cpinResult) = at_tok_nextstr cur None in
             if err < 0 then ret SIM_NOT_READY
             else bnd (deref cpinResult) (\<lambda>cpinResult. ret (cpin_status cpinResult SIM_READY))))))"

lemma quiet_getSIMStatus [count_intros]: "quiet t getSIMStatus"
  unfolding getSIMStatus_def by (intro count_intros count_rules)

section \<open>The card status\<close>

text \<open>The rows of \<^verbatim>\<open>app_status_array\<close>, by the application type where they depend on it.\<close>

definition app_row :: "int \<Rightarrow> int \<Rightarrow> int \<Rightarrow> int \<Rightarrow> RIL_AppStatus" where
  "app_row ty st perso pin =
     \<lparr>app_type = ty, app_state = st, perso_substate = perso, aid_ptr = None, app_label_ptr = None,
      pin1_replaced = 0, pin1 = pin, pin2 = 0\<rparr>"

definition app_status_array :: "RIL_AppStatus list" where
  "app_status_array =
    [ \<comment> \<open>\<^verbatim>\<open>SIM_ABSENT\<close> ...: USIM (type 2)\<close>
      app_row 0 0 0 0, app_row 2 1 0 0, app_row 2 5 2 0, app_row 2 2 0 1, app_row 2 3 0 4, app_row 2 4 3 1,
      \<comment> \<open>\<^verbatim>\<open>RUIM_ABSENT\<close> ...: RUIM (type 3)\<close>
      app_row 0 0 0 0, app_row 3 1 0 0, app_row 3 5 2 0, app_row 3 2 0 1, app_row 3 3 0 4, app_row 3 4 3 1,
      \<comment> \<open>\<^verbatim>\<open>ISIM_ABSENT\<close> ...: ISIM (type 5)\<close>
      app_row 0 0 0 0, app_row 5 1 0 0, app_row 5 5 2 0, app_row 5 2 0 1, app_row 5 3 0 4, app_row 5 4 3 1]"

definition RIL_CARD_MAX_APPS :: nat where "RIL_CARD_MAX_APPS = 8"

definition card_status_of :: "SIM_Status \<Rightarrow> RIL_CardStatus_v6" where
  "card_status_of sim_status =
     (let num_apps = (if sim_status = SIM_ABSENT then 0 else 3);
          base = \<lparr>card_state = (if sim_status = SIM_ABSENT then 0 else 1), universal_pin_state = 0,
            gsm_umts_subscription_app_index = -1, cdma_subscription_app_index = -1,
            ims_subscription_app_index = -1, num_applications = num_apps,
            applications = replicate RIL_CARD_MAX_APPS (app_status_array ! sim_code SIM_ABSENT)\<rparr>
      in if num_apps \<noteq> 0 then
           base\<lparr>num_applications := 3, gsm_umts_subscription_app_index := 0,
             cdma_subscription_app_index := 1, ims_subscription_app_index := 2,
             applications := (applications base)
               [0 := app_status_array ! sim_code sim_status,
                1 := app_status_array ! (sim_code sim_status + RUIM_ABSENT),
                2 := app_status_array ! (sim_code sim_status + ISIM_ABSENT)]\<rparr>
         else base)"

definition getCardStatus :: "RIL_CardStatus_v6 rprog" where
  "getCardStatus = bnd getSIMStatus (\<lambda>sim_status. ret (card_status_of sim_status))"

lemma quiet_getCardStatus [count_intros]: "quiet t getCardStatus"
  unfolding getCardStatus_def by (intro count_intros count_rules)

section \<open>Polling the SIM, and the radio coming on\<close>

definition onSIMReady :: "unit rprog" where
  "onSIMReady =
     andthen (bnd (at_send_command_singleline ril_handlers ''AT+CSMS=1'' ''+CSMS:'' None) (\<lambda>_. ret ()))
       (send_ignore ''AT+CNMI=1,2,2,1,1'')"

definition TIMEVAL_SIMPOLL :: int where "TIMEVAL_SIMPOLL = 1000000"
definition TIMEVAL_CALLSTATEPOLL :: int where "TIMEVAL_CALLSTATEPOLL = 500000"

definition pollSIMState :: "unit rprog" where
  "pollSIMState =
     bnd (gets sState) (\<lambda>st.
       if st \<noteq> RADIO_STATE_UNAVAILABLE then ret ()
       else bnd getSIMStatus (\<lambda>sim.
         if sim = SIM_NOT_READY then RIL_requestTimedCallback CB_pollSIMState TIMEVAL_SIMPOLL
         else if sim = SIM_READY then
           andthen onSIMReady (RIL_onUnsolicitedResponse RIL_UNSOL_RESPONSE_SIM_STATUS_CHANGED PNone)
         else RIL_onUnsolicitedResponse RIL_UNSOL_RESPONSE_SIM_STATUS_CHANGED PNone))"

definition onRadioPowerOn :: "unit rprog" where
  "onRadioPowerOn =
     bnd (gets (\<lambda>s. USE_TI_COMMANDS (env s))) (\<lambda>ti.
       andthen (whenever ti (andthen (send_ignore ''AT%CPHS=1'') (send_ignore ''AT%CTZV=1'')))
         pollSIMState)"

definition setRadioState :: "RIL_RadioState \<Rightarrow> unit rprog" where
  "setRadioState = setRadioState_with onRadioPowerOn"

text \<open>1 if on, 0 if off, -1 on error.\<close>

definition isRadioOn :: "int rprog" where
  "isRadioOn =
     bnd (send_singleline ''AT+CFUN?'' ''+CFUN:'' Null) (\<lambda>(err, r).
     bnd (failed err r) (\<lambda>bad.
       if bad then ret (-1)
       else bnd (first_line_of r) (\<lambda>line.
         let (err, cur) = at_tok_start (Some line) in
         if err < 0 then ret (-1)
         else let (err, _, on) = at_tok_nextbool cur 0 in
           if err < 0 then ret (-1) else ret on)))"

lemma quiet_power [count_intros]:
  "quiet t onSIMReady" "quiet t pollSIMState" "quiet t onRadioPowerOn" "quiet t isRadioOn"
proof -
  show 1: "quiet t onSIMReady" unfolding onSIMReady_def by (intro count_intros count_rules)
  show 2: "quiet t pollSIMState" unfolding pollSIMState_def by (intro count_intros count_rules 1)
  show "quiet t onRadioPowerOn" unfolding onRadioPowerOn_def by (intro count_intros count_rules 2)
  show "quiet t isRadioOn" unfolding isRadioOn_def by (intro count_intros count_rules)
qed

lemma quiet_setRadioState [count_intros]: "quiet t (setRadioState n)"
  unfolding setRadioState_def by (intro count_intros)

definition requestRadioPower :: "req_data \<Rightarrow> RIL_Token \<Rightarrow> unit rprog" where
  "requestRadioPower data t =
     bnd (gets (\<lambda>s. sizeof_ptr (env s))) (\<lambda>psize.
     if datalen psize data < psize then crash AssertFail
     else bnd (data_int data 0) (\<lambda>onOff.
     bnd (gets sState) (\<lambda>st.
       if onOff = 0 \<and> st \<noteq> RADIO_STATE_OFF then
         bnd (send ''AT+CFUN=0'' Null) (\<lambda>(err, r).
         bnd (failed err r) (\<lambda>bad.
           if bad then RIL_onRequestComplete t RIL_E_GENERIC_FAILURE PNone
           else andthen (setRadioState RADIO_STATE_OFF)
             (RIL_onRequestComplete t RIL_E_SUCCESS PNone)))
       else if onOff > 0 \<and> st = RADIO_STATE_OFF then
         bnd (send ''AT+CFUN=1'' Null) (\<lambda>(err, r).
         bnd (failed err r) (\<lambda>bad.
         bnd (if bad then isRadioOn else ret 1) (\<lambda>on.
           if on \<noteq> 1 then RIL_onRequestComplete t RIL_E_GENERIC_FAILURE PNone
           else andthen (setRadioState RADIO_STATE_ON)
             (RIL_onRequestComplete t RIL_E_SUCCESS PNone))))
       else RIL_onRequestComplete t RIL_E_SUCCESS PNone)))"

definition requestShutdown :: "RIL_Token \<Rightarrow> unit rprog" where
  "requestShutdown t =
     bnd (gets sState) (\<lambda>st.
       andthen
         (whenever (st \<noteq> RADIO_STATE_OFF)
           (andthen (bnd (send ''AT+CFUN=0'' Null) (\<lambda>_. ret ())) (setRadioState RADIO_STATE_UNAVAILABLE)))
         (RIL_onRequestComplete t RIL_E_SUCCESS PNone))"

section \<open>Requests on the SIM\<close>

text \<open>The return code and the response filled so far.\<close>

definition parseSimResponseLine :: "string \<Rightarrow> RIL_SIM_IO_Response \<Rightarrow> int \<times> RIL_SIM_IO_Response" where
  "parseSimResponseLine line resp0 =
     (let (err, cur) = at_tok_start (Some line) in
      if err < 0 then (err, resp0)
      else let (err, cur, v1) = at_tok_nextint cur (sw1 resp0); resp1 = resp0\<lparr>sw1 := v1\<rparr> in
        if err < 0 then (err, resp1)
        else let (err, cur, v2) = at_tok_nextint cur (sw2 resp1); resp2 = resp1\<lparr>sw2 := v2\<rparr> in
          if err < 0 then (err, resp2)
          else if at_tok_hasmore cur then
            (let (err, _, str) = at_tok_nextstr cur None in
             if err < 0 then (err, resp2) else (0, resp2\<lparr>simResponse := Some str\<rparr>))
          else (0, resp2))"

definition requestSIM_IO :: "req_data \<Rightarrow> RIL_Token \<Rightarrow> unit rprog" where
  "requestSIM_IO data t =
     (case data of
        DSimIO io \<Rightarrow>
          (let five = fmt_d (io_command io) @ '','' @ fmt_d (io_fileid io) @ '','' @ fmt_d (io_p1 io)
                 @ '','' @ fmt_d (io_p2 io) @ '','' @ fmt_d (io_p3 io);
               cmd = ''AT+CRSM='' @ five @ (case io_data io of None \<Rightarrow> [] | Some d \<Rightarrow> '','' @ d)
           in
           bnd (send_singleline cmd ''+CRSM:'' Null) (\<lambda>(err, r).
           bnd (failed err r) (\<lambda>bad.
             if bad then RIL_onRequestComplete t RIL_E_GENERIC_FAILURE PNone
             else bnd (first_line_of r) (\<lambda>line.
               let (err, sr) = parseSimResponseLine line \<lparr>sw1 = 0, sw2 = 0, simResponse = Some None\<rparr> in
               if err < 0 then RIL_onRequestComplete t RIL_E_GENERIC_FAILURE PNone
               else RIL_onRequestComplete t RIL_E_SUCCESS (PSimIO sr)))))
      | DNone \<Rightarrow> crash NullDeref
      | _ \<Rightarrow> crash BadData)"

definition requestEnterSimPin :: "req_data \<Rightarrow> RIL_Token \<Rightarrow> unit rprog" where
  "requestEnterSimPin data t =
     bnd (gets (\<lambda>s. sizeof_ptr (env s))) (\<lambda>psize.
     let len = datalen psize data in
     if len = psize \<or> len = 2 * psize then
       bnd (data_str data 0) (\<lambda>pin.
       bnd (if len = psize then ret [] else bnd (data_str data 1) (\<lambda>s. ret ('','' @ fmt_s s))) (\<lambda>second.
       bnd (send_singleline (''AT+CPIN='' @ fmt_s pin @ second) ''+CPIN:'' Null) (\<lambda>(err, r).
       bnd (failed err r) (\<lambda>bad.
         if bad then RIL_onRequestComplete t RIL_E_PASSWORD_INCORRECT PNone
         else RIL_onRequestComplete t RIL_E_SUCCESS PNone))))
     else RIL_onRequestComplete t RIL_E_PASSWORD_INCORRECT PNone)"

text \<open>
  \<^verbatim>\<open>sscanf(line, "%d%c", ...) == 1\<close>: a number and nothing after it; \<open>None\<close> when the result is
  another.
\<close>

definition sscanf_int_only :: "string \<Rightarrow> int option" where
  "sscanf_int_only line =
     (let s = snd (skip_sign (dropWhile ch_isspace line)) in
      if takeWhile (is_base_digit 10) s \<noteq> [] \<and> dropWhile (is_base_digit 10) s = []
      then map_option to_int32 (c_strtol 10 line) else None)"

text \<open>The command buffer has 32 bytes; \<^verbatim>\<open>snprintf\<close> cuts what does not fit.\<close>

definition requestSimOpenChannel :: "req_data \<Rightarrow> RIL_Token \<Rightarrow> unit rprog" where
  "requestSimOpenChannel data t =
     bnd (gets (\<lambda>s. sizeof_ptr (env s))) (\<lambda>psize.
     let len = datalen psize data in
     if data = DNone \<or> len = 0 \<or> len > 16 then RIL_onRequestComplete t RIL_E_GENERIC_FAILURE PNone
     else case data of
       DStr aid \<Rightarrow>
         bnd (send_numeric (take 31 (''AT+CCHO='' @ aid)) Null) (\<lambda>(err, r).
         bnd (if r = Null then ret True else failed err r) (\<lambda>bad.
           if bad then RIL_onRequestComplete t RIL_E_GENERIC_FAILURE PNone
           else bnd (first_line_of r) (\<lambda>line.
             case sscanf_int_only line of
               None \<Rightarrow> RIL_onRequestComplete t RIL_E_GENERIC_FAILURE PNone
             | Some session_id \<Rightarrow> RIL_onRequestComplete t RIL_E_SUCCESS (PInts [session_id]))))
     | _ \<Rightarrow> crash BadData)"

definition requestSimCloseChannel :: "req_data \<Rightarrow> RIL_Token \<Rightarrow> unit rprog" where
  "requestSimCloseChannel data t =
     bnd (gets (\<lambda>s. sizeof_ptr (env s))) (\<lambda>psize.
     if data = DNone \<or> datalen psize data \<noteq> 4 then RIL_onRequestComplete t RIL_E_GENERIC_FAILURE PNone
     else bnd (data_int data 0) (\<lambda>session_id.
       bnd (send_singleline (take 31 (''AT+CCHC='' @ fmt_d session_id)) ''+CCHC'' Null) (\<lambda>(err, r).
       bnd (if r = Null then ret True else failed err r) (\<lambda>bad.
         if bad then RIL_onRequestComplete t RIL_E_GENERIC_FAILURE PNone
         else RIL_onRequestComplete t RIL_E_SUCCESS PNone))))"

text \<open>
  The response structure is a local variable that nothing initialises: its pointer is \<open>None\<close>
  until the parser assigns it.
\<close>

definition requestSimTransmitApduChannel :: "req_data \<Rightarrow> RIL_Token \<Rightarrow> unit rprog" where
  "requestSimTransmitApduChannel data t =
     (case data of
        DApdu apdu \<Rightarrow>
          (let d = (case ap_data apdu of None \<Rightarrow> [] | Some d \<Rightarrow> d);
               cmd_size = 10 + length d;
               cmd = ''AT+CGLA='' @ fmt_d (sessionid apdu) @ '','' @ fmt_zu cmd_size @ '',''
                 @ fmt_02x (cla apdu) @ fmt_02x (instruction apdu) @ fmt_02x (ap_p1 apdu)
                 @ fmt_02x (ap_p2 apdu) @ fmt_02x (ap_p3 apdu) @ d
           in
           bnd (send_singleline cmd ''+CGLA'' Null) (\<lambda>(err, r).
           bnd (if r = Null then ret True else failed err r) (\<lambda>bad.
             if bad then RIL_onRequestComplete t RIL_E_GENERIC_FAILURE PNone
             else bnd (first_line_of r) (\<lambda>line.
               let (err, sr) = parseSimResponseLine line \<lparr>sw1 = 0, sw2 = 0, simResponse = None\<rparr> in
               if err = 0 then RIL_onRequestComplete t RIL_E_SUCCESS (PSimIO sr)
               else RIL_onRequestComplete t RIL_E_GENERIC_FAILURE PNone))))
      | _ \<Rightarrow> RIL_onRequestComplete t RIL_E_GENERIC_FAILURE PNone)"

section \<open>Each request is completed once\<close>

lemma once_sim [count_intros]:
  "once t (requestRadioPower data t)" "once t (requestShutdown t)" "once t (requestSIM_IO data t)"
  "once t (requestEnterSimPin data t)" "once t (requestSimOpenChannel data t)"
  "once t (requestSimCloseChannel data t)" "once t (requestSimTransmitApduChannel data t)"
proof -
  show "once t (requestRadioPower data t)"
    unfolding requestRadioPower_def by (intro count_intros count_rules)
  show "once t (requestShutdown t)"
    unfolding requestShutdown_def by (intro count_intros count_rules)
  show "once t (requestSIM_IO data t)"
    unfolding requestSIM_IO_def Let_def
    by (cases data) (auto simp del: ATResponse.simps intro!: count_intros count_rules)
  show "once t (requestEnterSimPin data t)"
    unfolding requestEnterSimPin_def by (intro count_intros count_rules)
  show "once t (requestSimOpenChannel data t)"
    unfolding requestSimOpenChannel_def Let_def
    by (cases data) (auto intro!: count_intros count_rules)
  show "once t (requestSimCloseChannel data t)"
    unfolding requestSimCloseChannel_def by (intro count_intros count_rules)
  show "once t (requestSimTransmitApduChannel data t)"
    unfolding requestSimTransmitApduChannel_def Let_def
    by (cases data) (auto intro!: count_intros count_rules)
qed

section \<open>Properties\<close>

lemmas run_ril = bnd_def andthen_def gets_def modify_def ret_def whenever_def crash_def act_defs failed_def
  first_line_of_def

text \<open>The order of the C enumerators.\<close>

instantiation SIM_Status :: linorder
begin

definition less_eq_SIM_Status :: "SIM_Status \<Rightarrow> SIM_Status \<Rightarrow> bool" where
  "a \<le> b \<longleftrightarrow> sim_code a \<le> sim_code b"

definition less_SIM_Status :: "SIM_Status \<Rightarrow> SIM_Status \<Rightarrow> bool" where
  "a < b \<longleftrightarrow> sim_code a < sim_code b"

instance
proof
  fix a b :: SIM_Status
  show "a \<le> b \<Longrightarrow> b \<le> a \<Longrightarrow> a = b"
    by (cases a; cases b) (simp_all add: less_eq_SIM_Status_def)
qed (auto simp: less_eq_SIM_Status_def less_SIM_Status_def)

end

lemma sim_code_bound: "sim_code st < 6"
  by (cases st) simp_all

lemma onRadioPowerOn_quiet:
  "sState s = RADIO_STATE_ON \<Longrightarrow> \<not> USE_TI_COMMANDS (env s) \<Longrightarrow> onRadioPowerOn s = Done () s"
  by (simp add: onRadioPowerOn_def pollSIMState_def run_ril)

text \<open>
  \<^verbatim>\<open>setRadioState\<close> moves to the requested state, or to \<^verbatim>\<open>RADIO_STATE_UNAVAILABLE\<close> whatever is requested
  when the channel is closed, and tells the library, once and in this order, of the radio state
  and the SIM status exactly when the state has changed. When the radio comes on nothing is sent to
  the modem: \<^verbatim>\<open>onRadioPowerOn\<close> calls \<^verbatim>\<open>pollSIMState\<close>, which only goes on while the radio is unavailable,
  so the commands of \<^verbatim>\<open>onSIMReady\<close> that switch on the delivery of messages are not issued.
\<close>

theorem setRadioState_contract:
  assumes "\<not> USE_TI_COMMANDS (env s)" and "new = (if s_closed s then RADIO_STATE_UNAVAILABLE else n)"
  shows "setRadioState n s = Done () (s\<lparr>sState := new,
    acts := acts s @ (if new = sState s then []
      else [Unsol RIL_UNSOL_RESPONSE_RADIO_STATE_CHANGED PNone, Unsol RIL_UNSOL_RESPONSE_SIM_STATUS_CHANGED PNone])\<rparr>)"
proof -
  have same: "s\<lparr>sState := sState s, acts := acts s\<rparr> = s" by simp
  show ?thesis
    using assms same
    by (auto simp: setRadioState_def setRadioState_with_def run_ril Let_def onRadioPowerOn_quiet)
qed

lemma setRadioState_contract_witness:
  "setRadioState RADIO_STATE_ON (sample_ril RADIO_STATE_OFF [])
    = Done () ((sample_ril RADIO_STATE_OFF [])\<lparr>sState := RADIO_STATE_ON,
        acts := [Unsol RIL_UNSOL_RESPONSE_RADIO_STATE_CHANGED PNone, Unsol RIL_UNSOL_RESPONSE_SIM_STATUS_CHANGED PNone]\<rparr>)"
  using setRadioState_contract [of "sample_ril RADIO_STATE_OFF []" RADIO_STATE_ON RADIO_STATE_ON] by simp

text \<open>
  The function \<^verbatim>\<open>getSIMStatus\<close> asks with \<^verbatim>\<open>AT+CPIN?\<close> and reads the modem's answer: \<^verbatim>\<open>SIM PIN\<close>, \<^verbatim>\<open>SIM PUK\<close> and \<^verbatim>\<open>PH-NET PIN\<close>
  are the status they name, \<^verbatim>\<open>READY\<close> is \<^verbatim>\<open>SIM_READY\<close> when the radio is on and \<^verbatim>\<open>SIM_NOT_READY\<close> otherwise, and
  any other word is an absent card.
\<close>

theorem sim_status_read:
  assumes "gets_reply [''+CPIN: '' @ w] f later s" and "isFinalResponseSuccess f" and "field_ok (Plain w)"
  shows "getSIMStatus s = Done (cpin_status w (if sState s = RADIO_STATE_ON then SIM_READY else SIM_NOT_READY))
    (asked ''AT+CPIN?'' SINGLELINE later s)"
proof -
  have send: "send_singleline ''AT+CPIN?'' ''+CPIN:'' Null s
      = Done (0, Resp (final_resp f [''+CPIN: '' @ w])) (asked ''AT+CPIN?'' SINGLELINE later s)"
    using assms(1,2) by (intro reply_singleline) (simp_all add: line_class)
  have tok: "at_tok_nextstr (Some w) None = (0, None, Some w)"
    using nextTok_plain_last [OF assms(3)] by (simp add: at_tok_nextstr_def)
  show ?thesis
    by (simp add: getSIMStatus_def send run_ril at_get_cme_error_def CME_SUCCESS_def CME_SIM_NOT_INSERTED_def
        assms(2) c_strchr_def tok deref_def)
qed

lemma sample_gets_reply [simp]:
  "gets_reply ls f later (sample_ril st sc) \<longleftrightarrow> sc = ([], False) # (map Some (ls @ [f]), False) # later"
  by (simp add: gets_reply_def)

lemma sim_status_read_witness:
  "getSIMStatus (sample_ril RADIO_STATE_ON [([], False), ([Some ''+CPIN: READY'', Some ''OK''], False)])
    = Done SIM_READY (asked ''AT+CPIN?'' SINGLELINE []
        (sample_ril RADIO_STATE_ON [([], False), ([Some ''+CPIN: READY'', Some ''OK''], False)]))"
  using sim_status_read [of "''READY''" "''OK''" "[]"
      "sample_ril RADIO_STATE_ON [([], False), ([Some ''+CPIN: READY'', Some ''OK''], False)]"]
  by (simp add: cpin_status_def ch_isspace_def)

text \<open>For the examples: the SIM is ready and the rest of the schedule is left.\<close>

lemma sample_sim_ready:
  "\<exists>u. getSIMStatus (sample_ril RADIO_STATE_ON (([], False) # ([Some ''+CPIN: READY'', Some ''OK''], False) # later))
      = Done SIM_READY u \<and> ready u \<and> sched u = later \<and> acts u = []
    \<and> wrote u = ''AT+CPIN?'' @ [CHR 0x0D] \<and> s_ims_gsm_fail u = 0 \<and> s_ims_gsm_retry u = 0"
proof -
  let ?s = "sample_ril RADIO_STATE_ON (([], False) # ([Some ''+CPIN: READY'', Some ''OK''], False) # later)"
  have send: "send_singleline ''AT+CPIN?'' ''+CPIN:'' Null ?s
      = Done (0, Resp (final_resp ''OK'' [''+CPIN: READY''])) (asked ''AT+CPIN?'' SINGLELINE later ?s)"
    by (intro reply_singleline) (simp_all add: line_class)
  have t: "nextTok (Some ''READY'') = (Some ''READY'', None)"
    by (rule nextTok_plain_last) (simp add: ch_isspace_def)
  have "getSIMStatus ?s = Done SIM_READY (asked ''AT+CPIN?'' SINGLELINE later ?s)"
    by (simp add: getSIMStatus_def send run_ril at_get_cme_error_def CME_SUCCESS_def CME_SIM_NOT_INSERTED_def
        c_strchr_def at_tok_nextstr_def t deref_def cpin_status_def)
  moreover have "s_ims_gsm_fail ?s = 0" "s_ims_gsm_retry ?s = 0" by (simp_all add: sample_ril_def boot_def)
  ultimately show ?thesis by simp
qed

lemma cme_final: "isFinalResponse (''+CME ERROR: '' @ r)" "\<not> isFinalResponseSuccess (''+CME ERROR: '' @ r)"
  by (simp_all add: line_class)

text \<open>
  When the modem answers \<^verbatim>\<open>AT+CPIN?\<close> with \<^verbatim>\<open>+CME ERROR: n\<close>, the status is \<^verbatim>\<open>SIM_ABSENT\<close> for 10 (SIM not
  inserted) and \<^verbatim>\<open>SIM_NOT_READY\<close> for every other number except 0: that one \<^verbatim>\<open>at_get_cme_error\<close> reports
  like a success, and the code goes on to read the first line of a response that has none,
  through a NULL pointer.
\<close>

theorem sim_status_error:
  assumes "gets_reply [] (''+CME ERROR: '' @ fmt_d n) later s" and "is_int32 n"
  shows "getSIMStatus s = (if n = 0 then Crash NullDeref
    else Done (if n = 10 then SIM_ABSENT else SIM_NOT_READY) (asked ''AT+CPIN?'' SINGLELINE later s))"
proof -
  define p where "p = final_resp (''+CME ERROR: '' @ fmt_d n) []"
  have send: "send_singleline ''AT+CPIN?'' ''+CPIN:'' Null s
      = Done (0, Resp p) (asked ''AT+CPIN?'' SINGLELINE later s)"
    unfolding p_def by (rule reply_singleline_error [OF assms(1) cme_final])
  have p: "at_get_cme_error p = n" "p_intermediates p = []"
    unfolding p_def by (rule cme_of_error [OF assms(2)]) (use cme_final in simp_all)
  show ?thesis
    by (simp add: getSIMStatus_def send run_ril p CME_SUCCESS_def CME_SIM_NOT_INSERTED_def)
qed

lemma sim_status_error_witness:
  "getSIMStatus (sample_ril RADIO_STATE_ON [([], False), ([Some ''+CME ERROR: 0''], False)]) = Crash NullDeref"
proof -
  have "fmt_d 0 = ''0''" by code_simp
  then show ?thesis
    using sim_status_error [of 0 "[]" "sample_ril RADIO_STATE_ON [([], False), ([Some ''+CME ERROR: 0''], False)]"]
    by (simp add: int32_defs)
qed

text \<open>
  The card status reported for a status of the SIM: an absent card has no application and no
  index; a present one has exactly the three applications USIM, RUIM and ISIM, at the indices
  the structure names, all in the state that belongs to the status (ready, PIN, PUK, network
  locked or detected), and no access to the table of applications is out of its bounds.
\<close>

theorem card_status_contract:
  shows "num_applications (card_status_of st) \<le> int RIL_CARD_MAX_APPS
    \<and> length (applications (card_status_of st)) = RIL_CARD_MAX_APPS
    \<and> sim_code st + ISIM_ABSENT < length app_status_array
    \<and> (if st = SIM_ABSENT
       then card_state (card_status_of st) = 0 \<and> num_applications (card_status_of st) = 0
         \<and> gsm_umts_subscription_app_index (card_status_of st) = -1
         \<and> cdma_subscription_app_index (card_status_of st) = -1
         \<and> ims_subscription_app_index (card_status_of st) = -1
       else card_state (card_status_of st) = 1 \<and> num_applications (card_status_of st) = 3
         \<and> map (\<lambda>i. app_type (applications (card_status_of st) ! nat i))
             [gsm_umts_subscription_app_index (card_status_of st), cdma_subscription_app_index (card_status_of st),
              ims_subscription_app_index (card_status_of st)] = [2, 3, 5]
         \<and> (\<forall>i<3. app_state (applications (card_status_of st) ! i)
             = (case st of SIM_READY \<Rightarrow> 5 | SIM_PIN \<Rightarrow> 2 | SIM_PUK \<Rightarrow> 3
                | SIM_NETWORK_PERSONALIZATION \<Rightarrow> 4 | _ \<Rightarrow> 1)))"
  by (cases st)
    (simp_all add: card_status_of_def Let_def RIL_CARD_MAX_APPS_def app_status_array_def app_row_def RUIM_ABSENT_def
      ISIM_ABSENT_def eval_nat_numeral All_less_Suc)

lemma card_status_contract_witness:
  "app_type (applications (card_status_of SIM_PIN) ! 1) = 3 \<and> num_applications (card_status_of SIM_PIN) = 3"
  using card_status_contract [of SIM_PIN]
  by (simp add: card_status_of_def Let_def RIL_CARD_MAX_APPS_def app_status_array_def app_row_def RUIM_ABSENT_def
      ISIM_ABSENT_def eval_nat_numeral)

text \<open>
  \<^verbatim>\<open>RADIO_POWER\<close> turns the radio on when it is off: it sends \<^verbatim>\<open>AT+CFUN=1\<close>, moves to \<^verbatim>\<open>RADIO_STATE_ON\<close>, tells the
  library and completes with success. But its assertion compares the length of the data with the
  size of a pointer: with one \<^verbatim>\<open>int\<close>, which is what the request carries, it holds only where
  a pointer has four bytes, and on a 64-bit build the assertion fails.
\<close>

theorem radio_power_on:
  assumes "sState s = RADIO_STATE_OFF" and "\<not> s_closed s" and "\<not> USE_TI_COMMANDS (env s)"
    and "gets_reply [] f later s" and "isFinalResponseSuccess f" and "onOff > 0"
  shows "requestRadioPower (DInts [onOff]) tok s =
    (if sizeof_ptr (env s) \<le> 4
     then Done () ((asked ''AT+CFUN=1'' NO_RESULT later s)\<lparr>sState := RADIO_STATE_ON,
       acts := acts s @ [Unsol RIL_UNSOL_RESPONSE_RADIO_STATE_CHANGED PNone,
         Unsol RIL_UNSOL_RESPONSE_SIM_STATUS_CHANGED PNone, Complete tok RIL_E_SUCCESS PNone]\<rparr>)
     else Crash AssertFail)"
proof -
  have send: "send ''AT+CFUN=1'' Null s = Done (0, Resp (final_resp f [])) (asked ''AT+CFUN=1'' NO_RESULT later s)"
    using reply_command [OF assms(4), of ril_handlers "''AT+CFUN=1''" "Some Null"] assms(5) by simp
  show ?thesis
    using assms(1-3,5,6) send
    by (simp add: requestRadioPower_def run_ril setRadioState_def setRadioState_with_def onRadioPowerOn_quiet)
qed

lemma radio_power_on_witness:
  "requestRadioPower (DInts [1]) 7 (sample_ril RADIO_STATE_OFF [([], False), ([Some ''OK''], False)]) = Crash AssertFail"
  using radio_power_on [of "sample_ril RADIO_STATE_OFF [([], False), ([Some ''OK''], False)]" "''OK''" "[]" 1 7]
  by simp

text \<open>
  A PIN the modem accepts is reported as wrong. The code waits for a line \<^verbatim>\<open>+CPIN:\<close>, which
  \<^verbatim>\<open>AT+CPIN=<pin>\<close> does not answer with: a bare success is an invalid response to
  \<^verbatim>\<open>at_send_command_singleline\<close>, and the request is completed with \<^verbatim>\<open>RIL_E_PASSWORD_INCORRECT\<close>.
\<close>

theorem accepted_pin_reported_wrong:
  assumes "gets_reply [] f later s" and "isFinalResponseSuccess f" and "sizeof_ptr (env s) > 0"
  shows "requestEnterSimPin (DStrs [Some pin]) tok s
    = Done () ((asked (''AT+CPIN='' @ pin) SINGLELINE later s)
        \<lparr>acts := acts s @ [Complete tok RIL_E_PASSWORD_INCORRECT PNone]\<rparr>)"
proof -
  have "send_singleline (''AT+CPIN='' @ pin) ''+CPIN:'' Null s
      = Done (AT_ERROR_INVALID_RESPONSE, Null) (asked (''AT+CPIN='' @ pin) SINGLELINE later s)"
    by (rule reply_singleline_empty [OF assms(1,2)])
  then show ?thesis
    using assms(3) by (simp add: requestEnterSimPin_def run_ril Let_def fmt_s_def at_error_defs)
qed

lemma accepted_pin_reported_wrong_witness:
  "\<exists>t. requestEnterSimPin (DStrs [Some ''1234'']) 7 (sample_ril RADIO_STATE_ON [([], False), ([Some ''OK''], False)])
      = Done () t \<and> acts t = [Complete 7 RIL_E_PASSWORD_INCORRECT PNone]"
  using accepted_pin_reported_wrong [of "''OK''" "[]" "sample_ril RADIO_STATE_ON [([], False), ([Some ''OK''], False)]"
    "''1234''" 7] by simp

text \<open>
  \<^verbatim>\<open>SIM_TRANSMIT_APDU_CHANNEL\<close> answered with the two status words and no data is completed with
  success and a response whose string pointer was never assigned: the structure is an
  uninitialised local variable, which \<^verbatim>\<open>SIM_IO\<close> clears first and this request does not.
\<close>

lemma apdu_response_uninitialised:
  assumes "gets_reply [''+CGLA: '' @ fmt_d a @ '','' @ fmt_d b] f later s" and "isFinalResponseSuccess f"
    and "is_int32 a" and "is_int32 b"
  shows "\<exists>t. requestSimTransmitApduChannel (DApdu apdu) tok s = Done () t
    \<and> acts t = acts s @ [Complete tok RIL_E_SUCCESS (PSimIO \<lparr>sw1 = a, sw2 = b, simResponse = None\<rparr>)]"
proof -
  have send: "send_singleline cmd ''+CGLA'' Null s
      = Done (0, Resp (final_resp f [''+CGLA: '' @ fmt_d a @ '','' @ fmt_d b])) (asked cmd SINGLELINE later s)" for cmd
    using assms(1,2) by (intro reply_singleline) (simp_all add: line_class)
  have p: "parseSimResponseLine (''+CGLA: '' @ fmt_d a @ '','' @ fmt_d b) \<lparr>sw1 = 0, sw2 = 0, simResponse = None\<rparr>
      = (0, \<lparr>sw1 = a, sw2 = b, simResponse = None\<rparr>)"
    using assms(3,4) by (simp add: parseSimResponseLine_def c_strchr_def nextint_more nextint_last at_tok_hasmore_def)
  show ?thesis
    using assms(2)
    by (simp add: requestSimTransmitApduChannel_def Let_def bnd_def send)
      (simp add: run_ril p [simplified])
qed

end
