(* ===== verification/RilCalls.thy ===== *)
theory RilCalls
  imports RilSim
begin

text \<open>
  Voice calls in \<^verbatim>\<open>reference-ril.c\<close>: the call list of \<^verbatim>\<open>AT+CLCC\<close> with the workaround for calls
  that show as answered, dialling, hanging up and the call selections of 3GPP 22.030.
\<close>

section \<open>The call list\<close>

definition clccStateToRILState :: "int \<Rightarrow> RIL_CallState option" where
  "clccStateToRILState state =
     (if state = 0 then Some RIL_CALL_ACTIVE
      else if state = 1 then Some RIL_CALL_HOLDING
      else if state = 2 then Some RIL_CALL_DIALING
      else if state = 3 then Some RIL_CALL_ALERTING
      else if state = 4 then Some RIL_CALL_INCOMING
      else if state = 5 then Some RIL_CALL_WAITING
      else None)"

definition is_dial_char :: "char \<Rightarrow> bool" where
  "is_dial_char c \<longleftrightarrow> c \<in> set ''+0123456789''"

text \<open>\<^verbatim>\<open>0 == strspn(number, "+0123456789")\<close>: then the number is dropped.\<close>

definition clean_number :: "cptr \<Rightarrow> cptr" where
  "clean_number n =
     (case n of None \<Rightarrow> None | Some s \<Rightarrow> if s = [] \<or> \<not> is_dial_char (hd s) then None else n)"

text \<open>
  The parser fills the caller's structure field by field and may fail in the middle: the result
  is the return code and the structure as it then is.
\<close>

definition callFromCLCCLine :: "string \<Rightarrow> RIL_Call \<Rightarrow> int \<times> RIL_Call" where
  "callFromCLCCLine line c =
    (let (err, cur) = at_tok_start (Some line) in if err < 0 then (-1, c) else
     let (err, cur, v) = at_tok_nextint cur (call_index c); c = c\<lparr>call_index := v\<rparr> in
       if err < 0 then (-1, c) else
     let (err, cur, v) = at_tok_nextbool cur (isMT c); c = c\<lparr>isMT := v\<rparr> in
       if err < 0 then (-1, c) else
     let (err, cur, state) = at_tok_nextint cur 0 in if err < 0 then (-1, c) else
     case clccStateToRILState state of None \<Rightarrow> (-1, c) | Some st \<Rightarrow>
     let c = c\<lparr>call_state := st\<rparr>; (err, cur, mode) = at_tok_nextint cur 0 in
       if err < 0 then (-1, c) else
     let c = c\<lparr>isVoice := (mode = 0)\<rparr>; (err, cur, v) = at_tok_nextbool cur (isMpty c);
         c = c\<lparr>isMpty := v\<rparr> in
       if err < 0 then (-1, c) else
     if at_tok_hasmore cur then
       (let (err, cur, num) = at_tok_nextstr cur (number c) in
        if err < 0 then (0, c\<lparr>number := num\<rparr>)
        else
          let c = c\<lparr>number := clean_number num\<rparr>; (err, cur, v) = at_tok_nextint cur (toa c);
              c = c\<lparr>toa := v\<rparr>
          in if err < 0 then (-1, c) else (0, c))
     else (0, c))"

definition zero_call :: RIL_Call where
  "zero_call = \<lparr>call_state = RIL_CALL_ACTIVE, call_index = 0, toa = 0, isMpty = 0, isMT = 0,
     isVoice = False, number = None\<rparr>"

text \<open>
  The loop over the lines: \<open>slot\<close> is the structure at \<^verbatim>\<open>p_calls + countValidCalls\<close>, which a line that
  fails leaves as it filled it. The result: the valid calls, the index of the last incoming or
  waiting call (-1 for none), and whether a repoll is due.
\<close>

fun parse_calls :: "string list \<Rightarrow> RIL_Call \<Rightarrow> int \<Rightarrow> bool \<Rightarrow> RIL_Call list \<times> int \<times> bool" where
  "parse_calls [] slot inc need = ([], inc, need)"
| "parse_calls (l # ls) slot inc need =
     (let (err, c) = callFromCLCCLine l slot in
      if err \<noteq> 0 then parse_calls ls c inc need
      else
        let inc' = (if call_state c = RIL_CALL_INCOMING \<or> call_state c = RIL_CALL_WAITING
                    then call_index c else inc);
            need' = (need \<or> (call_state c \<noteq> RIL_CALL_ACTIVE \<and> call_state c \<noteq> RIL_CALL_HOLDING));
            (cs, res) = parse_calls ls zero_call inc' need'
        in (c # cs, res))"

definition REPOLL_CALLS_COUNT_MAX :: int where "REPOLL_CALLS_COUNT_MAX = 4"

text \<open>The test of \<^verbatim>\<open>WORKAROUND_ERRONEOUS_ANSWER\<close>: was a ringing call marked active unanswered?\<close>

definition erroneous_answer :: "int \<Rightarrow> int \<Rightarrow> RIL_Call list \<Rightarrow> bool rprog" where
  "erroneous_answer prev inc calls =
     bnd (gets s_expectAnswer) (\<lambda>expect. bnd (gets s_repollCallsCount) (\<lambda>cnt.
       if prev \<ge> 0 \<and> inc < 0 \<and> expect = 0
          \<and> list_ex (\<lambda>c. call_index c = prev \<and> call_state c = RIL_CALL_ACTIVE
               \<and> cnt < REPOLL_CALLS_COUNT_MAX) calls
       then andthen (modify (\<lambda>s. s\<lparr>s_repollCallsCount := cnt + 1\<rparr>)) (ret True)
       else andthen (modify (\<lambda>s. s\<lparr>s_expectAnswer := 0, s_repollCallsCount := 0\<rparr>)) (ret False)))"

definition requestGetCurrentCalls :: "RIL_Token \<Rightarrow> unit rprog" where
  "requestGetCurrentCalls t =
     bnd (gets (\<lambda>s. USE_TI_COMMANDS (env s))) (\<lambda>ti.
     bnd (gets s_incomingOrWaitingLine) (\<lambda>prev.
     andthen (whenever ti (modify (\<lambda>s. s\<lparr>s_incomingOrWaitingLine := -1\<rparr>)))
     (bnd (send_multiline ''AT+CLCC'' ''+CLCC:'' Uninit) (\<lambda>(err, r).
      bnd (failed err r) (\<lambda>bad.
      if bad then RIL_onRequestComplete t RIL_E_GENERIC_FAILURE PNone
      else bnd (the_resp r) (\<lambda>p.
        let (calls, inc, need) = parse_calls (p_intermediates p) zero_call (-1) False in
        andthen (whenever ti (modify (\<lambda>s. s\<lparr>s_incomingOrWaitingLine := inc\<rparr>)))
        (bnd (if ti then erroneous_answer prev inc calls else ret False) (\<lambda>wrong.
         if wrong then RIL_onRequestComplete t RIL_E_GENERIC_FAILURE PNone
         else andthen (RIL_onRequestComplete t RIL_E_SUCCESS (PCalls calls))
           (bnd (gets (\<lambda>s. POLL_CALL_STATE (env s))) (\<lambda>poll.
              whenever (if poll then calls \<noteq> [] else need)
                (RIL_requestTimedCallback CB_sendCallStateChanged TIMEVAL_CALLSTATEPOLL)))))))))))"

definition sendCallStateChanged :: "unit rprog" where
  "sendCallStateChanged = RIL_onUnsolicitedResponse RIL_UNSOL_RESPONSE_CALL_STATE_CHANGED PNone"

section \<open>Making and ending calls\<close>

definition requestDial :: "req_data \<Rightarrow> RIL_Token \<Rightarrow> unit rprog" where
  "requestDial data t =
     (case data of
        DDial address clir \<Rightarrow>
          (let c = (if clir = 1 then ''I'' else if clir = 2 then ''i'' else []) in
           andthen (send_ignore (''ATD'' @ address @ c @ '';''))
             (RIL_onRequestComplete t RIL_E_SUCCESS PNone))
      | DNone \<Rightarrow> crash NullDeref
      | _ \<Rightarrow> crash BadData)"

definition requestHangup :: "req_data \<Rightarrow> RIL_Token \<Rightarrow> unit rprog" where
  "requestHangup data t =
     bnd getSIMStatus (\<lambda>sim.
       if sim = SIM_ABSENT then RIL_onRequestComplete t RIL_E_MODEM_ERR PNone
       else bnd (data_int data 0) (\<lambda>line.
         andthen (send_ignore (''AT+CHLD=1'' @ fmt_d line))
           (RIL_onRequestComplete t RIL_E_SUCCESS PNone)))"

definition requestCallSelection :: "RIL_Token \<Rightarrow> int \<Rightarrow> unit rprog" where
  "requestCallSelection t request =
     bnd getSIMStatus (\<lambda>sim.
       if sim = SIM_ABSENT then RIL_onRequestComplete t RIL_E_RADIO_NOT_AVAILABLE PNone
       else bnd
         (if request = RIL_REQUEST_HANGUP_WAITING_OR_BACKGROUND then ret ''AT+CHLD=0''
          else if request = RIL_REQUEST_HANGUP_FOREGROUND_RESUME_BACKGROUND then ret ''AT+CHLD=1''
          else if request = RIL_REQUEST_SWITCH_WAITING_OR_HOLDING_AND_ACTIVE then
            bnd (gets (\<lambda>s. USE_TI_COMMANDS (env s))) (\<lambda>ti.
              andthen (whenever ti (modify (\<lambda>s. s\<lparr>s_expectAnswer := 1\<rparr>))) (ret ''AT+CHLD=2''))
          else if request = RIL_REQUEST_CONFERENCE then ret ''AT+CHLD=3''
          else if request = RIL_REQUEST_UDUB then ret ''ATH''
          else crash AssertFail)
         (\<lambda>atCommand. andthen (send_ignore atCommand) (RIL_onRequestComplete t RIL_E_SUCCESS PNone)))"

text \<open>The cases of \<^verbatim>\<open>onRequest\<close> that are written out there.\<close>

definition requestAnswer :: "RIL_Token \<Rightarrow> unit rprog" where
  "requestAnswer t =
     andthen (send_ignore ''ATA'')
     (bnd (gets (\<lambda>s. USE_TI_COMMANDS (env s))) (\<lambda>ti.
      andthen (whenever ti (modify (\<lambda>s. s\<lparr>s_expectAnswer := 1\<rparr>)))
      (bnd getSIMStatus (\<lambda>sim.
         if sim \<noteq> SIM_READY then RIL_onRequestComplete t RIL_E_MODEM_ERR PNone
         else RIL_onRequestComplete t RIL_E_SUCCESS PNone))))"

definition requestSeparateConnection :: "req_data \<Rightarrow> RIL_Token \<Rightarrow> unit rprog" where
  "requestSeparateConnection data t =
     bnd (data_int data 0) (\<lambda>party.
     bnd getSIMStatus (\<lambda>sim.
       if sim = SIM_ABSENT then RIL_onRequestComplete t RIL_E_RADIO_NOT_AVAILABLE PNone
       else if party > 0 \<and> party < 10 then
         andthen (send_ignore (''AT+CHLD=2'' @ fmt_d party))
           (RIL_onRequestComplete t RIL_E_SUCCESS PNone)
       else RIL_onRequestComplete t RIL_E_GENERIC_FAILURE PNone))"

text \<open>\<^verbatim>\<open>%c\<close> of the first character; that of an empty string is the NUL, which ends the command.\<close>

definition requestDtmf :: "req_data \<Rightarrow> RIL_Token \<Rightarrow> unit rprog" where
  "requestDtmf data t =
     (case data of
        DStr s \<Rightarrow> andthen (send_ignore (''AT+VTS='' @ take 1 s)) (RIL_onRequestComplete t RIL_E_SUCCESS PNone)
      | DNone \<Rightarrow> crash NullDeref
      | _ \<Rightarrow> crash BadData)"

section \<open>Each request is completed once\<close>

lemma quiet_erroneous [count_intros]: "quiet t (erroneous_answer p i c)"
  unfolding erroneous_answer_def by (intro count_intros count_rules) simp_all

lemma once_calls [count_intros]:
  "once t (requestGetCurrentCalls t)" "once t (requestDial data t)" "once t (requestHangup data t)"
  "once t (requestCallSelection t req)" "once t (requestAnswer t)" "once t (requestSeparateConnection data t)"
  "once t (requestDtmf data t)"
proof -
  show "once t (requestGetCurrentCalls t)"
    unfolding requestGetCurrentCalls_def by (intro count_intros count_rules) simp_all
  show "once t (requestDial data t)"
    unfolding requestDial_def Let_def by (cases data) (auto intro!: count_intros count_rules)
  show "once t (requestHangup data t)"
    unfolding requestHangup_def by (intro count_intros count_rules)
  show "once t (requestCallSelection t req)"
    unfolding requestCallSelection_def by (intro count_intros count_rules) simp_all
  show "once t (requestAnswer t)"
    unfolding requestAnswer_def by (intro count_intros count_rules) simp_all
  show "once t (requestSeparateConnection data t)"
    unfolding requestSeparateConnection_def by (intro count_intros count_rules)
  show "once t (requestDtmf data t)"
    unfolding requestDtmf_def by (cases data) (auto intro!: count_intros count_rules)
qed

section \<open>Properties\<close>

text \<open>The line a modem sends for a call (27.007, 7.18), and the calls it can send.\<close>

fun state_code :: "RIL_CallState \<Rightarrow> int" where
  "state_code RIL_CALL_ACTIVE = 0"
| "state_code RIL_CALL_HOLDING = 1"
| "state_code RIL_CALL_DIALING = 2"
| "state_code RIL_CALL_ALERTING = 3"
| "state_code RIL_CALL_INCOMING = 4"
| "state_code RIL_CALL_WAITING = 5"

definition clcc_head :: "RIL_Call \<Rightarrow> string" where
  "clcc_head c = ''+CLCC: '' @ fmt_d (call_index c) @ '','' @ fmt_d (isMT c) @ '',''
     @ fmt_d (state_code (call_state c)) @ '','' @ fmt_d (if isVoice c then 0 else 1) @ '','' @ fmt_d (isMpty c)"

definition clcc_line :: "RIL_Call \<Rightarrow> string" where
  "clcc_line c = clcc_head c @ '','' @ render_field (Quoted (the (number c))) @ '','' @ fmt_d (toa c)"

definition call_ok :: "RIL_Call \<Rightarrow> bool" where
  "call_ok c \<longleftrightarrow> is_int32 (call_index c) \<and> is_int32 (toa c) \<and> isMT c \<in> {0, 1} \<and> isMpty c \<in> {0, 1}
     \<and> (case number c of None \<Rightarrow> False
        | Some n \<Rightarrow> CHR 0x22 \<notin> set n \<and> n \<noteq> [] \<and> is_dial_char (hd n))"

lemma clccState_code [simp]: "clccStateToRILState (state_code st) = Some st"
  by (cases st) (simp_all add: clccStateToRILState_def)

lemma code_int32: "is_int32 (state_code st)" "is_int32 1" "is_int32 0"
  by (cases st; simp add: int32_defs) (simp_all add: int32_defs)

lemma dial_number: "n \<noteq> [] \<Longrightarrow> is_dial_char (hd n) \<Longrightarrow> clean_number (Some n) = Some n"
  by (simp add: clean_number_def)

text \<open>The first five fields: whatever the slot held before.\<close>

lemma read_call_head:
  assumes "is_int32 (call_index c)" and "isMT c \<in> {0, 1}" and "isMpty c \<in> {0, 1}"
  shows "callFromCLCCLine (clcc_head c @ CHR '','' # r) slot
    = (let d = slot\<lparr>call_index := call_index c, isMT := isMT c, call_state := call_state c,
         isVoice := isVoice c, isMpty := isMpty c\<rparr> in
       if at_tok_hasmore (Some r) then
         (let (err, cur, num) = at_tok_nextstr (Some r) (number d) in
          if err < 0 then (0, d\<lparr>number := num\<rparr>)
          else let d = d\<lparr>number := clean_number num\<rparr>; (err, cur, v) = at_tok_nextint cur (toa d);
                 d = d\<lparr>toa := v\<rparr> in if err < 0 then (-1, d) else (0, d))
       else (0, d))"
    and "callFromCLCCLine (clcc_head c) slot
    = (0, slot\<lparr>call_index := call_index c, isMT := isMT c, call_state := call_state c,
         isVoice := isVoice c, isMpty := isMpty c\<rparr>)"
proof -
  define mode where "mode = (if isVoice c then 0 else 1 :: int)"
  have mode: "is_int32 mode" "isVoice c \<longleftrightarrow> mode = 0" by (simp_all add: mode_def int32_defs)
  have head: "clcc_head c = ''+CLCC: '' @ fmt_d (call_index c) @ '','' @ fmt_d (isMT c) @ '',''
     @ fmt_d (state_code (call_state c)) @ '','' @ fmt_d mode @ '','' @ fmt_d (isMpty c)"
    by (simp add: clcc_head_def mode_def)
  note reads = nextint_more nextbool_more nextbool_last code_int32 at_tok_hasmore_def Let_def c_strchr_def
  show "callFromCLCCLine (clcc_head c @ CHR '','' # r) slot
    = (let d = slot\<lparr>call_index := call_index c, isMT := isMT c, call_state := call_state c,
         isVoice := isVoice c, isMpty := isMpty c\<rparr> in
       if at_tok_hasmore (Some r) then
         (let (err, cur, num) = at_tok_nextstr (Some r) (number d) in
          if err < 0 then (0, d\<lparr>number := num\<rparr>)
          else let d = d\<lparr>number := clean_number num\<rparr>; (err, cur, v) = at_tok_nextint cur (toa d);
                 d = d\<lparr>toa := v\<rparr> in if err < 0 then (-1, d) else (0, d))
       else (0, d))"
    using assms by (simp add: callFromCLCCLine_def head reads mode)
  show "callFromCLCCLine (clcc_head c) slot
    = (0, slot\<lparr>call_index := call_index c, isMT := isMT c, call_state := call_state c,
         isVoice := isVoice c, isMpty := isMpty c\<rparr>)"
    using assms by (simp add: callFromCLCCLine_def head reads mode)
qed

lemma read_clcc_line:
  assumes "call_ok c"
  shows "callFromCLCCLine (clcc_line c) slot = (0, c)"
proof -
  from assms obtain n where n: "number c = Some n" "CHR 0x22 \<notin> set n" "clean_number (Some n) = Some n"
    by (auto simp: call_ok_def dial_number split: option.splits)
  have str: "at_tok_nextstr (Some (render_field (Quoted n) @ '','' @ fmt_d (toa c))) out
      = (0, Some (fmt_d (toa c)), Some n)" for out
    using nextstr_more [of "Quoted n" "fmt_d (toa c)" out] n(2) by simp
  have eq: "slot\<lparr>call_index := call_index c, isMT := isMT c, call_state := call_state c,
     isVoice := isVoice c, isMpty := isMpty c, number := number c, toa := toa c\<rparr> = c"
    by (cases c; cases slot) simp
  show ?thesis
    using assms str n eq
    by (simp add: clcc_line_def read_call_head(1) call_ok_def at_tok_hasmore_def Let_def nextint_last
        del: render_field.simps)
qed

lemma clcc_class: "ordinary (clcc_line c)" "strStartsWith (clcc_line c) ''+CLCC:''"
  by (simp_all add: clcc_line_def clcc_head_def line_class)

definition call_moving :: "RIL_Call \<Rightarrow> bool" where
  "call_moving c \<longleftrightarrow> call_state c \<noteq> RIL_CALL_ACTIVE \<and> call_state c \<noteq> RIL_CALL_HOLDING"

lemma parse_clcc_lines:
  "\<forall>c\<in>set cs. call_ok c \<Longrightarrow> \<exists>inc'. parse_calls (map clcc_line cs) slot inc need
     = (cs, inc', need \<or> (\<exists>c\<in>set cs. call_moving c))"
proof (induction cs arbitrary: slot inc need)
  case (Cons c cs)
  let ?inc = "if call_state c = RIL_CALL_INCOMING \<or> call_state c = RIL_CALL_WAITING then call_index c else inc"
  have "\<forall>c\<in>set cs. call_ok c" using Cons.prems by simp
  from Cons.IH [OF this, of zero_call ?inc "need \<or> call_moving c"] obtain inc'
    where "parse_calls (map clcc_line cs) zero_call ?inc (need \<or> call_moving c)
      = (cs, inc', need \<or> call_moving c \<or> (\<exists>c\<in>set cs. call_moving c))" by auto
  with Cons.prems show ?case by (simp add: read_clcc_line call_moving_def Let_def)
qed simp

text \<open>
  The call list the framework gets is the modem's: for any calls the modem can list, one \<^verbatim>\<open>+CLCC\<close>
  line each, \<^verbatim>\<open>GET_CURRENT_CALLS\<close> completes with exactly these calls, every field and the order kept,
  and asks to be polled again half a second later exactly when some call is neither active nor
  on hold.
\<close>

theorem call_list_read:
  assumes "gets_reply (map clcc_line cs) f later s" and "isFinalResponseSuccess f"
    and "\<forall>c\<in>set cs. call_ok c" and "\<not> USE_TI_COMMANDS (env s)" and "\<not> POLL_CALL_STATE (env s)"
  shows "\<exists>t. requestGetCurrentCalls tok s = Done () t
    \<and> acts t = acts s @ [Complete tok RIL_E_SUCCESS (PCalls cs)]
        @ (if \<exists>c\<in>set cs. call_moving c then [Timed CB_sendCallStateChanged 500000] else [])"
proof -
  have send: "send_multiline ''AT+CLCC'' ''+CLCC:'' Uninit s
      = Done (0, Resp (final_resp f (map clcc_line cs))) (asked ''AT+CLCC'' MULTILINE later s)"
    using assms(1,2) by (intro reply_multiline) (auto simp: clcc_class)
  obtain inc' where "parse_calls (map clcc_line cs) zero_call (-1) False = (cs, inc', \<exists>c\<in>set cs. call_moving c)"
    using parse_clcc_lines [OF assms(3), of zero_call "-1" False] by auto
  with assms(2,4,5) send show ?thesis
    by (simp add: requestGetCurrentCalls_def run_ril TIMEVAL_CALLSTATEPOLL_def)
qed

definition sample_call :: RIL_Call where
  "sample_call = \<lparr>call_state = RIL_CALL_INCOMING, call_index = 1, toa = 129, isMpty = 0, isMT = 1,
     isVoice = True, number = Some ''5551234''\<rparr>"

lemma sample_call_ok: "call_ok sample_call"
  by (simp add: call_ok_def sample_call_def int32_defs is_dial_char_def)

lemma call_list_read_witness:
  "\<exists>t. requestGetCurrentCalls 7 (sample_ril RADIO_STATE_ON [([], False), ([Some (clcc_line sample_call), Some ''OK''], False)])
      = Done () t
    \<and> acts t = [Complete 7 RIL_E_SUCCESS (PCalls [sample_call]), Timed CB_sendCallStateChanged 500000]"
  using call_list_read [of "[sample_call]" "''OK''" "[]"
      "sample_ril RADIO_STATE_ON [([], False), ([Some (clcc_line sample_call), Some ''OK''], False)]" 7] sample_call_ok
  by (simp add: call_moving_def sample_call_def)

text \<open>
  A line that fails leaves what it has already read in the slot the next line fills: after a call
  with a number but no type of address, a call listed without a number is reported with the
  number of the one before it.
\<close>

theorem stale_number:
  assumes "call_ok c" and "is_int32 (call_index d)" and "isMT d \<in> {0, 1}" and "isMpty d \<in> {0, 1}"
    and "l = clcc_head c @ '','' @ render_field (Quoted (the (number c)))"
  shows "\<exists>inc need. parse_calls [l, clcc_head d] zero_call (-1) False
    = ([d\<lparr>number := number c, toa := 0\<rparr>], inc, need)"
proof -
  from assms(1) obtain n where n: "number c = Some n" "CHR 0x22 \<notin> set n" "clean_number (Some n) = Some n"
    by (auto simp: call_ok_def dial_number split: option.splits)
  obtain k where k: "at_tok_nextstr (Some (render_field (Quoted n))) None = (0, k, Some n)" "\<not> at_tok_hasmore k"
    using nextstr_last [of "Quoted n" None] n(2) by auto
  have i: "\<exists>rc cur'. at_tok_nextint k 0 = (rc, cur', 0) \<and> rc < 0"
    using k(2)
    by (auto simp: at_tok_hasmore_def at_tok_nextint_def at_tok_nextint_base_def nextTok_def c_strtol_def
        scan_number_def)
  have l: "\<exists>e. callFromCLCCLine l zero_call = (e, c\<lparr>toa := 0\<rparr>) \<and> e \<noteq> 0"
    using assms(1,5) n k(1) i
    by (cases c) (auto simp: read_call_head(1) call_ok_def at_tok_hasmore_def Let_def zero_call_def)
  have "callFromCLCCLine (clcc_head d) (c\<lparr>toa := 0\<rparr>) = (0, d\<lparr>number := number c, toa := 0\<rparr>)"
    using assms(2-4) by (cases c; cases d) (simp add: read_call_head(2))
  with l show ?thesis by (auto simp: Let_def)
qed

lemma stale_number_witness:
  "\<exists>inc need. parse_calls [clcc_head sample_call @ '','' @ render_field (Quoted ''5551234''),
       clcc_head (sample_call\<lparr>call_index := 2, number := None\<rparr>)] zero_call (-1) False
    = ([sample_call\<lparr>call_index := 2, toa := 0\<rparr>], inc, need)"
  using stale_number [OF sample_call_ok, of "sample_call\<lparr>call_index := 2, number := None\<rparr>"]
  by (simp add: sample_call_def int32_defs)

text \<open>
  The workaround for calls that show as answered cannot withhold the call list for ever: each
  time it does, the count goes up by one from below four; when it does not, the count and
  the expected answer are reset. So after at most four refusals the list gets through.
\<close>

theorem repoll_bounded:
  shows "\<exists>b t. erroneous_answer prev inc calls s = Done b t
    \<and> (b \<longrightarrow> s_repollCallsCount s < REPOLL_CALLS_COUNT_MAX \<and> s_repollCallsCount t = s_repollCallsCount s + 1
         \<and> s_expectAnswer t = s_expectAnswer s)
    \<and> (\<not> b \<longrightarrow> s_repollCallsCount t = 0 \<and> s_expectAnswer t = 0)"
proof (cases "prev \<ge> 0 \<and> inc < 0 \<and> s_expectAnswer s = 0
    \<and> list_ex (\<lambda>c. call_index c = prev \<and> call_state c = RIL_CALL_ACTIVE
        \<and> s_repollCallsCount s < REPOLL_CALLS_COUNT_MAX) calls")
  case True
  then have "s_repollCallsCount s < REPOLL_CALLS_COUNT_MAX" by (auto simp: list_ex_iff)
  with True show ?thesis
    by (intro exI [of _ True]) (simp add: erroneous_answer_def run_ril)
next
  case False
  then show ?thesis by (intro exI [of _ False]) (simp only: erroneous_answer_def run_ril outcome.simps if_False, simp)
qed

lemma repoll_bounded_witness:
  "\<exists>b t. erroneous_answer 1 (-1) [sample_call\<lparr>call_state := RIL_CALL_ACTIVE\<rparr>] (sample_ril RADIO_STATE_ON [])
      = Done b t \<and> b \<and> s_repollCallsCount t = 1"
  using repoll_bounded [of 1 "-1" "[sample_call\<lparr>call_state := RIL_CALL_ACTIVE\<rparr>]" "sample_ril RADIO_STATE_ON []"]
  by (simp add: erroneous_answer_def run_ril sample_call_def sample_ril_def boot_def REPOLL_CALLS_COUNT_MAX_def)

end
