(* ===== verification/RilSms.thy ===== *)
theory RilSms
  imports RilSim
begin

text \<open>
  Short messages in \<^verbatim>\<open>reference-ril.c\<close>: writing to the SIM, sending over GSM, CDMA and IMS, and
  acknowledging.
\<close>

definition requestWriteSmsToSim :: "req_data \<Rightarrow> RIL_Token \<Rightarrow> unit rprog" where
  "requestWriteSmsToSim data t =
     bnd getSIMStatus (\<lambda>sim.
       if sim = SIM_ABSENT then RIL_onRequestComplete t RIL_E_SIM_ABSENT PNone
       else case data of
         DSmsWrite st pdu \<Rightarrow>
           (let cmd = ''AT+CMGW='' @ fmt_d (int (length pdu div 2)) @ '','' @ fmt_d st in
            bnd (at_send_command_sms ril_handlers cmd pdu ''+CMGW:'' (Some Null)) (\<lambda>(err, r).
            bnd (failed err r) (\<lambda>bad.
              if bad then RIL_onRequestComplete t RIL_E_GENERIC_FAILURE PNone
              else RIL_onRequestComplete t RIL_E_SUCCESS PNone)))
       | DNone \<Rightarrow> crash NullDeref
       | _ \<Rightarrow> crash BadData)"

text \<open>The CDMA message is only logged: sending it always asks for a retry.\<close>

definition requestCdmaSendSMS :: "req_data \<Rightarrow> RIL_Token \<Rightarrow> unit rprog" where
  "requestCdmaSendSMS data t =
     bnd getSIMStatus (\<lambda>sim.
       if sim = SIM_ABSENT then RIL_onRequestComplete t RIL_E_SIM_ABSENT PNone
       else case data of
         DCdmaSms \<Rightarrow> RIL_onRequestComplete t RIL_E_SMS_SEND_FAIL_RETRY (PSms (-1))
       | DNone \<Rightarrow> crash NullDeref
       | _ \<Rightarrow> crash BadData)"

definition requestSendSMS :: "req_data \<Rightarrow> RIL_Token \<Rightarrow> unit rprog" where
  "requestSendSMS data t =
     bnd getSIMStatus (\<lambda>sim.
       if sim = SIM_ABSENT then RIL_onRequestComplete t RIL_E_SIM_ABSENT PNone
       else
     bnd (gets s_ims_gsm_fail) (\<lambda>gsm_fail. bnd (gets s_ims_gsm_retry) (\<lambda>gsm_retry.
       if gsm_fail \<noteq> 0 then RIL_onRequestComplete t RIL_E_GENERIC_FAILURE (PSms (-2))
       else if gsm_retry \<noteq> 0 then RIL_onRequestComplete t RIL_E_SMS_SEND_FAIL_RETRY (PSms (-1))
       else
         bnd (data_str data 0) (\<lambda>smsc. bnd (data_str data 1) (\<lambda>pdu. bnd (deref pdu) (\<lambda>pdu.
           let tpLayerLength = length pdu div 2;
               smsc = (case smsc of None \<Rightarrow> ''00'' | Some c \<Rightarrow> c);
               cmd1 = ''AT+CMGS='' @ fmt_d (int tpLayerLength);
               cmd2 = smsc @ pdu
           in
           bnd (at_send_command_sms ril_handlers cmd1 cmd2 ''+CMGS:'' (Some Null)) (\<lambda>(err, r).
           bnd (failed err r) (\<lambda>bad.
             if bad then RIL_onRequestComplete t RIL_E_GENERIC_FAILURE (PSms (-2))
             else RIL_onRequestComplete t RIL_E_SUCCESS (PSms 1)))))))))"

definition requestImsSendSMS :: "req_data \<Rightarrow> RIL_Token \<Rightarrow> unit rprog" where
  "requestImsSendSMS data t =
     bnd (gets s_ims_cause_perm_failure) (\<lambda>perm. bnd (gets s_ims_cause_retry) (\<lambda>cause_retry.
       if perm \<noteq> 0 then RIL_onRequestComplete t RIL_E_GENERIC_FAILURE (PSms (-2))
       else case data of
         DImsSms tech retries message \<Rightarrow>
           if cause_retry \<noteq> 0 \<and> retries = 0 then
             RIL_onRequestComplete t RIL_E_SMS_SEND_FAIL_RETRY (PSms (-1))
           else if tech = RADIO_TECH_3GPP then requestSendSMS message t
           else if tech = RADIO_TECH_3GPP2 then requestCdmaSendSMS message t
           else RIL_onRequestComplete t RIL_E_GENERIC_FAILURE (PSms (-2))
       | DNone \<Rightarrow> crash NullDeref
       | _ \<Rightarrow> crash BadData))"

text \<open>
  After the success the code runs on into its error label: a supported acknowledgement is
  completed twice.
\<close>

definition requestSMSAcknowledge :: "req_data \<Rightarrow> RIL_Token \<Rightarrow> unit rprog" where
  "requestSMSAcknowledge data t =
     bnd getSIMStatus (\<lambda>sim.
       if sim = SIM_ABSENT then RIL_onRequestComplete t RIL_E_RADIO_NOT_AVAILABLE PNone
       else bnd (data_int data 0) (\<lambda>ackSuccess.
         if ackSuccess = 1 \<or> ackSuccess = 0 then
           seqs [send_ignore (if ackSuccess = 1 then ''AT+CNMA=1'' else ''AT+CNMA=2''),
                 RIL_onRequestComplete t RIL_E_SUCCESS PNone,
                 RIL_onRequestComplete t RIL_E_GENERIC_FAILURE PNone]
         else RIL_onRequestComplete t RIL_E_GENERIC_FAILURE PNone))"

definition requestDeleteSmsOnSim :: "req_data \<Rightarrow> RIL_Token \<Rightarrow> unit rprog" where
  "requestDeleteSmsOnSim data t =
     bnd (data_int data 0) (\<lambda>i.
     bnd (send (''AT+CMGD='' @ fmt_d i) Null) (\<lambda>(err, r).
     bnd (failed err r) (\<lambda>bad.
       if bad then RIL_onRequestComplete t RIL_E_GENERIC_FAILURE PNone
       else RIL_onRequestComplete t RIL_E_SUCCESS PNone)))"

lemma once_sms [count_intros]:
  "once t (requestWriteSmsToSim data t)" "once t (requestCdmaSendSMS data t)" "once t (requestSendSMS data t)"
  "once t (requestImsSendSMS data t)" "once t (requestDeleteSmsOnSim data t)"
proof -
  show "once t (requestWriteSmsToSim data t)"
    unfolding requestWriteSmsToSim_def Let_def by (cases data) (auto intro!: count_intros count_rules)
  show c: "once t (requestCdmaSendSMS data t)" for data
    unfolding requestCdmaSendSMS_def by (cases data) (auto intro!: count_intros count_rules)
  show s: "once t (requestSendSMS data t)" for data
    unfolding requestSendSMS_def by (intro count_intros count_rules)
  show "once t (requestImsSendSMS data t)"
    unfolding requestImsSendSMS_def by (cases data) (auto intro!: count_intros count_rules c s)
  show "once t (requestDeleteSmsOnSim data t)"
    unfolding requestDeleteSmsOnSim_def by (intro count_intros count_rules)
qed

section \<open>Properties\<close>

text \<open>The exchange of an SMS command: the prompt, then the answer and the final response.\<close>

lemma reply_sms:
  assumes "ready s" and "sched s = ([], False) # ([Some ''> ''], False) # ([Some l, Some f], False) # later"
    and "isFinalResponse f" and "ordinary l" and "strStartsWith l pfx"
  shows "at_send_command_sms cb command pdu pfx (Some old) s
    = Done (0, Resp (final_resp f [l])) ((asked command SINGLELINE later s)
        \<lparr>wrote := wrote s @ command @ CHR 0x0D # pdu @ [CHR 0x1A]\<rparr>)"
proof -
  have same: "s\<lparr>s_responsePrefix := None, s_smsPDU := None, sp_response := None\<rparr> = s"
    "s\<lparr>on_reader := False\<rparr> = s"
    using assms(1) by (cases s; simp add: ready_def idle_def)+
  have prompt: "\<not> isFinalResponseSuccess ''> ''" "\<not> isFinalResponseError ''> ''" "\<not> isSMSUnsolicited ''> ''"
    by code_simp+
  have f: "\<not> isSMSUnsolicited f" "isFinalResponseSuccess f \<or> isFinalResponseError f"
    using assms(3) by (auto simp: final_not_sms isFinalResponse_def)
  have l: "\<not> isFinalResponseSuccess l" "\<not> isFinalResponseError l" "\<not> isSMSUnsolicited l"
    using assms(4) by (auto simp: ordinary_def isFinalResponse_def)
  let ?s = "s\<lparr>s_type := SINGLELINE, s_responsePrefix := Some pfx, sched := later\<rparr>"
  have "at_send_command_full cb command SINGLELINE (Some pfx) (Some pdu) 0 (Some old) s
    = Done (0, Resp (final_resp f [l])) ((asked command SINGLELINE later s)
        \<lparr>wrote := wrote s @ command @ CHR 0x0D # pdu @ [CHR 0x1A]\<rparr>)"
    using assms(1,2,5) f l prompt
    by (auto simp: at_send_command_full_def at_send_command_full_nolock_def at_send_start_def
        at_send_finish_def ready_def idle_def lock_commandmutex_def ret_def andthen_def bnd_def writeline_def
        writeCtrlZ_def write_with_full await.simps reader_turn_def readerLoop_step_def processLine_def
        handleFinalResponse_def modify_def has_prefix_def addIntermediate_def clearPendingCommand_def
        at_response_new_def reverseIntermediates_def final_resp_def at_error_defs asked_def
        intro!: at_chan.equality)
  then show ?thesis
    by (auto simp: at_send_command_sms_def bnd_def need_intermediate_def ret_def)
qed

text \<open>
  C34: \<^verbatim>\<open>SEND_SMS\<close> with a SIM present writes \<^verbatim>\<open>AT+CMGS=<length>\<close>, waits for the prompt, writes the service
  centre (\<^verbatim>\<open>00\<close> when none is given) and the PDU closed by one Ctrl-Z, and completes with success
  when the modem confirms; the length is that of the PDU in octets, without the service centre.
\<close>

theorem send_sms_exchange:
  assumes "getSIMStatus s = Done sim u" and "sim \<noteq> SIM_ABSENT"
    and "s_ims_gsm_fail u = 0" and "s_ims_gsm_retry u = 0" and "ready u"
    and "sched u = ([], False) # ([Some ''> ''], False) # ([Some (''+CMGS:'' @ r), Some f], False) # later"
    and "isFinalResponseSuccess f"
  shows "\<exists>t. requestSendSMS (DStrs [smsc, Some pdu]) tok s = Done () t
    \<and> acts t = acts u @ [Complete tok RIL_E_SUCCESS (PSms 1)] \<and> ready t
    \<and> wrote t = wrote u @ ''AT+CMGS='' @ fmt_d (int (length pdu div 2)) @ [CHR 0x0D]
        @ (case smsc of None \<Rightarrow> ''00'' | Some c \<Rightarrow> c) @ pdu @ [CHR 0x1A]"
proof -
  have o: "ordinary (''+CMGS:'' @ r)" by (simp add: line_class)
  have send: "at_send_command_sms ril_handlers command body ''+CMGS:'' (Some Null) u
    = Done (0, Resp (final_resp f [''+CMGS:'' @ r])) ((asked command SINGLELINE later u)
        \<lparr>wrote := wrote u @ command @ CHR 0x0D # body @ [CHR 0x1A]\<rparr>)" for command body
    using assms(5-7) o by (intro reply_sms) simp_all
  have rdy: "ready ((asked command SINGLELINE later u)\<lparr>wrote := w, acts := a\<rparr>)" for command w a
    using assms(5) by (simp add: ready_def idle_def asked_def)
  show ?thesis
    using assms(1-4,7) rdy
    by (simp add: requestSendSMS_def run_ril deref_def Let_def send [simplified])
qed

text \<open>
  C35: A supported \<^verbatim>\<open>SMS_ACKNOWLEDGE\<close> (the data 0 or 1) with a SIM present is completed twice, first with success and
  then with a generic failure: the code has no return before its error label.
\<close>

theorem sms_ack_completed_twice:
  assumes "getSIMStatus s = Done sim u" and "sim \<noteq> SIM_ABSENT" and "gets_reply [] f later u"
    and "isFinalResponse f" and "ackSuccess = 0 \<or> ackSuccess = 1"
  shows "\<exists>t. requestSMSAcknowledge (DInts [ackSuccess, cause]) tok s = Done () t
    \<and> acts t = acts u @ [Complete tok RIL_E_SUCCESS PNone, Complete tok RIL_E_GENERIC_FAILURE PNone]"
proof -
  have send: "at_send_command ril_handlers command None u = Done (0, Null) (asked command NO_RESULT later u)" for command
    using reply_command [OF assms(3,4), of ril_handlers command None] by simp
  show ?thesis
    using assms(1,2,5) by (auto simp: requestSMSAcknowledge_def run_ril send_ignore_def send)
qed

lemma send_sms_exchange_witness:
  "\<exists>t. requestSendSMS (DStrs [None, Some ''0102'']) 7
        (sample_ril RADIO_STATE_ON [([], False), ([Some ''+CPIN: READY'', Some ''OK''], False), ([], False),
           ([Some ''> ''], False), ([Some ''+CMGS: 5'', Some ''OK''], False)]) = Done () t
    \<and> acts t = [Complete 7 RIL_E_SUCCESS (PSms 1)]
    \<and> wrote t = ''AT+CPIN?'' @ CHR 0x0D # ''AT+CMGS=2'' @ CHR 0x0D # ''000102'' @ [CHR 0x1A]"
proof -
  obtain u where u: "getSIMStatus (sample_ril RADIO_STATE_ON [([], False), ([Some ''+CPIN: READY'', Some ''OK''], False),
      ([], False), ([Some ''> ''], False), ([Some ''+CMGS: 5'', Some ''OK''], False)]) = Done SIM_READY u"
    "ready u" "sched u = [([], False), ([Some ''> ''], False), ([Some (''+CMGS:'' @ '' 5''), Some ''OK''], False)]"
    "acts u = []" "wrote u = ''AT+CPIN?'' @ [CHR 0x0D]" "s_ims_gsm_fail u = 0" "s_ims_gsm_retry u = 0"
    using sample_sim_ready by fastforce
  have d: "fmt_d (int (length ''0102'' div 2)) = ''2''" by code_simp
  have "\<exists>t. requestSendSMS (DStrs [None, Some ''0102'']) 7
        (sample_ril RADIO_STATE_ON [([], False), ([Some ''+CPIN: READY'', Some ''OK''], False), ([], False),
           ([Some ''> ''], False), ([Some ''+CMGS: 5'', Some ''OK''], False)]) = Done () t
    \<and> acts t = acts u @ [Complete 7 RIL_E_SUCCESS (PSms 1)] \<and> ready t
    \<and> wrote t = wrote u @ ''AT+CMGS='' @ ''2'' @ [CHR 0x0D] @ ''00'' @ ''0102'' @ [CHR 0x1A]"
    using send_sms_exchange [OF u(1) _ u(6,7,2,3), of None "''0102''" 7] by (simp only: d) simp
  with u(4,5) show ?thesis by auto
qed

lemma sms_ack_completed_twice_witness:
  "\<exists>t. requestSMSAcknowledge (DInts [1, 0]) 7
        (sample_ril RADIO_STATE_ON [([], False), ([Some ''+CPIN: READY'', Some ''OK''], False), ([], False),
           ([Some ''OK''], False)]) = Done () t
    \<and> acts t = [Complete 7 RIL_E_SUCCESS PNone, Complete 7 RIL_E_GENERIC_FAILURE PNone]"
proof -
  obtain u where u: "getSIMStatus (sample_ril RADIO_STATE_ON [([], False), ([Some ''+CPIN: READY'', Some ''OK''], False),
      ([], False), ([Some ''OK''], False)]) = Done SIM_READY u"
    "ready u" "sched u = [([], False), ([Some ''OK''], False)]" "acts u = []"
    using sample_sim_ready by fastforce
  then have "gets_reply [] ''OK'' [] u" by (simp add: gets_reply_def)
  from sms_ack_completed_twice [OF u(1) _ this, of 1 0 7] u(4) show ?thesis by simp
qed

end
