(* ===== verification/RilNetwork.thy ===== *)
theory RilNetwork
  imports RilSim
begin

text \<open>
  The network side of \<^verbatim>\<open>reference-ril.c\<close>: registration, operator, signal strength, the modem's
  technologies and the preferred network type, and cell information.
\<close>

section \<open>Technologies of the modem\<close>

definition net2modem :: "int list" where
  "net2modem = [
     MDM_GSM OR MDM_WCDMA, MDM_GSM, MDM_WCDMA, MDM_GSM OR MDM_WCDMA, MDM_CDMA OR MDM_EVDO, MDM_CDMA, MDM_EVDO,
     MDM_GSM OR MDM_WCDMA OR MDM_CDMA OR MDM_EVDO, MDM_LTE OR MDM_CDMA OR MDM_EVDO,
     MDM_LTE OR MDM_GSM OR MDM_WCDMA, MDM_LTE OR MDM_CDMA OR MDM_EVDO OR MDM_GSM OR MDM_WCDMA, MDM_LTE]"

definition net2pmask :: "int list" where
  "net2pmask = [
     MDM_GSM OR push_bit 8 MDM_WCDMA, MDM_GSM, MDM_WCDMA, MDM_GSM OR MDM_WCDMA, MDM_CDMA OR MDM_EVDO, MDM_CDMA,
     MDM_EVDO, MDM_GSM OR MDM_WCDMA OR MDM_CDMA OR MDM_EVDO, MDM_LTE OR MDM_CDMA OR MDM_EVDO,
     MDM_LTE OR MDM_GSM OR MDM_WCDMA, MDM_LTE OR MDM_CDMA OR MDM_EVDO OR MDM_GSM OR MDM_WCDMA, MDM_LTE]"

text \<open>An index of an array; the code does not check it.\<close>

definition array_at :: "'x list \<Rightarrow> int \<Rightarrow> ('s, 'x) prog" where
  "array_at a i = (if 0 \<le> i \<and> i < int (length a) then ret (a ! nat i) else crash OutOfBounds)"

definition networkModePossible :: "ModemInfo \<Rightarrow> int \<Rightarrow> ('s, bool) prog" where
  "networkModePossible mdm nm =
     bnd (array_at net2modem nm) (\<lambda>m. ret (m AND supportedTechs mdm = m))"

text \<open>The return code and what is stored through the two pointers.\<close>

definition query_ctec :: "(int \<times> int option \<times> int option) rprog" where
  "query_ctec =
     bnd (send_singleline ''AT+CTEC?'' ''+CTEC:'' Null) (\<lambda>(err, r).
     bnd (failed err r) (\<lambda>bad.
       if bad then ret (-1, None, None)
       else bnd (first_line_of r) (\<lambda>line. ret (parse_technology_response line))))"

text \<open>The loop that reads the supported technologies; every number shortens the line.\<close>

function read_techs :: "cptr \<Rightarrow> int \<Rightarrow> ('s, int) prog" where
  "read_techs cur techs =
     (case at_tok_nextint cur 0 of
        (err, cur', val) \<Rightarrow>
          if err \<noteq> 0 then ret techs
          else bnd (shl1 val) (\<lambda>bit. read_techs cur' (techs OR bit)))"
  by pat_completeness auto
termination
  by (relation "measure (\<lambda>(cur, techs). tok_len cur)") (auto dest!: at_tok_nextint_progress [OF sym])

declare read_techs.simps [simp del]

text \<open>
  The response variable is not initialised, and the error path frees it: that is harmless only
  when the send has assigned it.
\<close>

definition query_supported_techs :: "int option rprog" where
  "query_supported_techs =
     bnd (send_singleline ''AT+CTEC=?'' ''+CTEC:'' Uninit) (\<lambda>(err, r).
     bnd (failed err r) (\<lambda>bad.
       if bad then andthen (at_response_free r) (ret None)
       else bnd (first_line_of r) (\<lambda>line.
         let (err, cur) = at_tok_start (Some line) in
         if err \<noteq> 0 \<or> \<not> at_tok_hasmore cur then andthen (at_response_free r) (ret None)
         else bnd (read_techs cur 0) (\<lambda>techs. ret (Some techs)))))"

definition set_mdm :: "(ModemInfo \<Rightarrow> ModemInfo) \<Rightarrow> unit rprog" where
  "set_mdm f = modify (\<lambda>s. s\<lparr>sMdmInfo := f (sMdmInfo s)\<rparr>)"

definition is_multimode_modem :: "bool rprog" where
  "is_multimode_modem =
     bnd query_ctec (\<lambda>(rc, current, preferred).
       case (current, preferred) of
         (Some tech, Some pref) \<Rightarrow>
           andthen (set_mdm (\<lambda>m. m\<lparr>currentTech := tech, preferredNetworkMode := pref\<rparr>))
             (bnd query_supported_techs (\<lambda>techs.
                case techs of
                  None \<Rightarrow> ret False
                | Some v \<Rightarrow> andthen (set_mdm (\<lambda>m. m\<lparr>supportedTechs := v\<rparr>)) (ret True)))
       | _ \<Rightarrow> ret False)"

text \<open>
  \<^verbatim>\<open>currentTech\<close> is the index of a technology bit everywhere else; here the bit itself is stored.
\<close>

definition probeForModemMode :: "unit rprog" where
  "probeForModemMode =
     bnd is_multimode_modem (\<lambda>multi.
       if multi then ret ()
       else andthen (set_mdm (\<lambda>m. m\<lparr>isMultimode := 0\<rparr>))
         (bnd (send_singleline ''AT+WNAM'' ''+WNAM:'' Uninit) (\<lambda>(err, r).
          bnd (failed err r) (\<lambda>bad.
            if \<not> bad then
              set_mdm (\<lambda>m. m\<lparr>supportedTechs := MDM_CDMA OR MDM_EVDO, currentTech := MDM_CDMA\<rparr>)
            else
              andthen (whenever (err = 0) (at_response_free r))
                (set_mdm (\<lambda>m. m\<lparr>supportedTechs := MDM_GSM OR MDM_WCDMA OR MDM_LTE, currentTech := MDM_GSM\<rparr>))))))"

section \<open>Preferred network type\<close>

text \<open>\<^verbatim>\<open>strstr\<close>.\<close>

fun has_substring :: "string \<Rightarrow> string \<Rightarrow> bool" where
  "has_substring [] p = (p = [])"
| "has_substring (c # s) p = (strStartsWith (c # s) p \<or> has_substring s p)"

text \<open>
  What is remembered as preferred is \<^verbatim>\<open>value\<close>, the index, and not the mask that was compared and
  sent.
\<close>

definition requestSetPreferredNetworkType :: "req_data \<Rightarrow> RIL_Token \<Rightarrow> unit rprog" where
  "requestSetPreferredNetworkType data t =
     bnd (data_int data 0) (\<lambda>value.
     bnd (array_at net2pmask value) (\<lambda>preferred.
     bnd (gets sMdmInfo) (\<lambda>mdm.
     bnd (networkModePossible mdm value) (\<lambda>possible.
       if \<not> possible then RIL_onRequestComplete t RIL_E_MODE_NOT_SUPPORTED PNone
       else
     bnd query_ctec (\<lambda>(rc, current, _).
       case current of
         None \<Rightarrow> RIL_onRequestComplete t RIL_E_GENERIC_FAILURE PNone
       | Some current \<Rightarrow>
           bnd (gets (\<lambda>s. preferredNetworkMode (sMdmInfo s))) (\<lambda>old.
             if old \<noteq> preferred then
               bnd (send_singleline (''AT+CTEC='' @ fmt_d current @ '',\"'' @ fmt_x preferred @ ''\"'')
                     ''+CTEC:'' Null) (\<lambda>(err, r).
               bnd (failed err r) (\<lambda>bad.
                 if bad then RIL_onRequestComplete t RIL_E_GENERIC_FAILURE PNone
                 else
                   andthen (set_mdm (\<lambda>m. m\<lparr>preferredNetworkMode := value\<rparr>))
                   (bnd (first_line_of r) (\<lambda>line.
                    andthen
                      (if has_substring line ''DONE'' then ret ()
                       else (let (res, current, _) = parse_technology_response line in
                             case current of None \<Rightarrow> ret () | Some c \<Rightarrow> setRadioTechnology c))
                      (RIL_onRequestComplete t RIL_E_SUCCESS PNone)))))
             else RIL_onRequestComplete t RIL_E_SUCCESS PNone))))))"

text \<open>The loop over \<^verbatim>\<open>net2pmask\<close>: the first index that holds the mask.\<close>

fun find_mask :: "int \<Rightarrow> int list \<Rightarrow> int \<Rightarrow> int option" where
  "find_mask preferred [] i = None"
| "find_mask preferred (m # ms) i = (if preferred = m then Some i else find_mask preferred ms (i + 1))"

definition requestGetPreferredNetworkType :: "RIL_Token \<Rightarrow> unit rprog" where
  "requestGetPreferredNetworkType t =
     bnd query_ctec (\<lambda>(rc, _, preferred).
       case preferred of
         None \<Rightarrow> RIL_onRequestComplete t RIL_E_GENERIC_FAILURE PNone
       | Some p \<Rightarrow>
           (case find_mask p net2pmask 0 of
              Some i \<Rightarrow> RIL_onRequestComplete t RIL_E_SUCCESS (PInts [i])
            | None \<Rightarrow> RIL_onRequestComplete t RIL_E_GENERIC_FAILURE PNone))"

definition requestVoiceRadioTech :: "RIL_Token \<Rightarrow> unit rprog" where
  "requestVoiceRadioTech t =
     bnd TECH (\<lambda>cur. bnd (techFromModemType cur) (\<lambda>tech.
       if tech < 0 then RIL_onRequestComplete t RIL_E_GENERIC_FAILURE PNone
       else RIL_onRequestComplete t RIL_E_SUCCESS (PInts [tech])))"

section \<open>Signal strength\<close>

definition minNumOfElements :: nat where "minNumOfElements = 12"
definition maxNumOfElements :: nat where "maxNumOfElements = 14"

text \<open>The loop over the array: from element \<open>count\<close> on, \<open>n\<close> elements are left.\<close>

fun read_strengths :: "nat \<Rightarrow> nat \<Rightarrow> cptr \<Rightarrow> int list option" where
  "read_strengths 0 count cur = Some []"
| "read_strengths (Suc n) count cur =
     (let (err, cur', v) = at_tok_nextint cur 0 in
      if err < 0 \<and> count < minNumOfElements then None
      else map_option ((#) v) (read_strengths n (count + 1) cur'))"

text \<open>When the command fails the request is completed there and again at the error label.\<close>

definition requestSignalStrength :: "RIL_Token \<Rightarrow> unit rprog" where
  "requestSignalStrength t =
     bnd (send_singleline ''AT+CSQ'' ''+CSQ:'' Null) (\<lambda>(err, r).
     bnd (failed err r) (\<lambda>bad.
       if bad then andthen (RIL_onRequestComplete t RIL_E_GENERIC_FAILURE PNone)
         (RIL_onRequestComplete t RIL_E_GENERIC_FAILURE PNone)
       else bnd (first_line_of r) (\<lambda>line.
         let (err, cur) = at_tok_start (Some line) in
         if err < 0 then RIL_onRequestComplete t RIL_E_GENERIC_FAILURE PNone
         else case read_strengths maxNumOfElements 0 cur of
           None \<Rightarrow> RIL_onRequestComplete t RIL_E_GENERIC_FAILURE PNone
         | Some vs \<Rightarrow> RIL_onRequestComplete t RIL_E_SUCCESS (PInts vs))))"

section \<open>Registration\<close>

text \<open>Writing an element of a heap array.\<close>

definition put :: "nat \<Rightarrow> 'x \<Rightarrow> 'x list \<Rightarrow> ('s, 'x list) prog" where
  "put i v a = (if i < length a then ret (a[i := v]) else crash OutOfBounds)"

text \<open>
  Reading the arguments in turn: where each goes (\<open>None\<close> for the one skipped) and whether it is
  hexadecimal. \<open>None\<close> as the result is the jump to the error label.
\<close>

fun read_fields :: "(nat option \<times> bool) list \<Rightarrow> cptr \<Rightarrow> int list \<Rightarrow> ('s, int list option) prog" where
  "read_fields [] cur arr = ret (Some arr)"
| "read_fields ((i, hex) # fs) cur arr =
     (let (err, cur', v) = (if hex then at_tok_nexthexint cur 0 else at_tok_nextint cur 0) in
      if err < 0 then ret None
      else case i of
        None \<Rightarrow> read_fields fs cur' arr
      | Some i \<Rightarrow> bnd (put i v arr) (read_fields fs cur'))"

definition reg_fields :: "nat \<Rightarrow> (nat option \<times> bool) list option" where
  "reg_fields commas =
     (if commas = 0 then Some [(Some 0, False)]
      else if commas = 1 then Some [(None, False), (Some 0, False)]
      else if commas = 2 then Some [(Some 0, False), (Some 1, True), (Some 2, True)]
      else if commas = 3 then Some [(None, False), (Some 0, False), (Some 1, True), (Some 2, True)]
      else if commas = 4 then
        Some [(None, False), (Some 0, False), (Some 1, True), (Some 2, True), (Some 3, True)]
      else None)"

text \<open>
  The array has \<open>commas + 1\<close> elements; without location and cell the code stores -1 in elements 1
  and 2 all the same. The result: type, number of items, the array.
\<close>

definition parseRegistrationState :: "string \<Rightarrow> (int \<times> nat \<times> int list) option rprog" where
  "parseRegistrationState str =
     (let (err, line) = at_tok_start (Some str) in
      if err < 0 then ret None
      else
        bnd (deref line) (\<lambda>rest.
        let commas = length (filter (\<lambda>c. c = CHR '','') rest) in
        case reg_fields commas of
          None \<Rightarrow> ret None
        | Some fs \<Rightarrow>
            bnd (read_fields fs line (replicate (commas + 1) 0)) (\<lambda>res.
            case res of
              None \<Rightarrow> ret None
            | Some arr \<Rightarrow>
                bnd (if commas \<le> 1 then bnd (put 1 (-1) arr) (put 2 (-1)) else ret arr) (\<lambda>resp.
                andthen (modify (\<lambda>s. s\<lparr>s_lac := resp ! 1, s_cid := resp ! 2\<rparr>))
                (bnd TECH (\<lambda>cur. bnd (techFromModemType cur) (\<lambda>type.
                   ret (Some (type, commas + 1, resp)))))))))"

definition REG_STATE_LEN :: nat where "REG_STATE_LEN = 15"
definition REG_DATA_STATE_LEN :: nat where "REG_DATA_STATE_LEN = 6"

text \<open>The strings that are reported.\<close>

definition registration_strings :: "int \<Rightarrow> int \<Rightarrow> nat \<Rightarrow> int list \<Rightarrow> cptr list" where
  "registration_strings request type count registration =
     (let numElements = (if request = RIL_REQUEST_VOICE_REGISTRATION_STATE then REG_STATE_LEN
                         else REG_DATA_STATE_LEN);
          empty = replicate numElements None;
          filled =
            (if is3gpp2 type then
               (if request = RIL_REQUEST_VOICE_REGISTRATION_STATE then
                  take 3 empty @ map Some [''8'', ''1'', ''123'', ''222'', ''0'', ''4'', ''65535'', ''0'', ''1'',
                    ''0'', ''0'', ''0'']
                else empty[3 := Some ''8''])
             else
               (let a = empty[1 := Some (fmt_x (registration ! 1)), 2 := Some (fmt_x (registration ! 2))] in
                if count > 3 then a[3 := Some (fmt_d (registration ! 3))] else a))
      in filled[0 := Some (fmt_d (registration ! 0))])"

text \<open>\<^verbatim>\<open>p_response->success\<close> is not looked at: an error response has no line to read.\<close>

definition requestRegistrationState :: "int \<Rightarrow> RIL_Token \<Rightarrow> unit rprog" where
  "requestRegistrationState request t =
     bnd (if request = RIL_REQUEST_VOICE_REGISTRATION_STATE then ret (''AT+CREG?'', ''+CREG:'')
          else if request = RIL_REQUEST_DATA_REGISTRATION_STATE then ret (''AT+CGREG?'', ''+CGREG:'')
          else crash AssertFail) (\<lambda>(cmd, prefix).
     bnd (send_singleline cmd prefix Null) (\<lambda>(err, r).
       if err \<noteq> 0 then RIL_onRequestComplete t RIL_E_GENERIC_FAILURE PNone
       else bnd (first_line_of r) (\<lambda>line.
         bnd (parseRegistrationState line) (\<lambda>res.
           case res of
             None \<Rightarrow> RIL_onRequestComplete t RIL_E_GENERIC_FAILURE PNone
           | Some (type, count, registration) \<Rightarrow>
               RIL_onRequestComplete t RIL_E_SUCCESS
                 (PStrs (registration_strings request type count registration))))))"

section \<open>Operator and selection mode\<close>

text \<open>\<^verbatim>\<open>%3d\<close> of \<^verbatim>\<open>sscanf\<close>: at most three characters, a sign counted.\<close>

definition scan_3d :: "string \<Rightarrow> (int \<times> string) option" where
  "scan_3d s =
     (let w = dropWhile ch_isspace s;
          (neg, r) = skip_sign (take 3 w);
          ds = takeWhile (is_base_digit 10) r;
          used = length (take 3 w) - length r + length ds
      in if ds = [] then None
         else Some (if neg then - int (digits_value 10 ds) else int (digits_value 10 ds), drop used w))"

definition scan_mccmnc :: "string \<Rightarrow> unit rprog" where
  "scan_mccmnc s =
     (case scan_3d s of
        None \<Rightarrow> ret ()
      | Some (mcc, rest) \<Rightarrow>
          andthen (modify (\<lambda>s. s\<lparr>s_mcc := mcc\<rparr>))
            (case scan_3d rest of
               None \<Rightarrow> ret ()
             | Some (mnc, _) \<Rightarrow> modify (\<lambda>s. s\<lparr>s_mnc := mnc\<rparr>)))"

text \<open>
  The loop over the lines, writing element \<open>i\<close> of an array of three: a fourth line is written
  behind it. The result: the number of lines and the array, or \<open>None\<close> for the error label.
\<close>

fun operator_lines :: "string list \<Rightarrow> nat \<Rightarrow> cptr list \<Rightarrow> (nat \<times> cptr list) option rprog" where
  "operator_lines [] i response = ret (Some (i, response))"
| "operator_lines (l # ls) i response =
     (let (err, line) = at_tok_start (Some l) in
      if err < 0 then ret None
      else let (err, line, _) = at_tok_nextint line 0 in
      if err < 0 then ret None
      else if \<not> at_tok_hasmore line then bnd (put i None response) (operator_lines ls (i + 1))
      else let (err, line, _) = at_tok_nextint line 0 in
      if err < 0 then ret None
      else if \<not> at_tok_hasmore line then bnd (put i None response) (operator_lines ls (i + 1))
      else let (err, line, str) = at_tok_nextstr line None in
      if err < 0 then ret None
      else
        bnd (put i str response) (\<lambda>response.
        bnd (deref str) (\<lambda>s.
        andthen (whenever (length s = 6) (scan_mccmnc s))
          (operator_lines ls (i + 1) response))))"

definition requestOperator :: "RIL_Token \<Rightarrow> unit rprog" where
  "requestOperator t =
     bnd (send_multiline ''AT+COPS=3,0;+COPS?;+COPS=3,1;+COPS?;+COPS=3,2;+COPS?'' ''+COPS:'' Null) (\<lambda>(err, r).
       if err \<noteq> 0 then RIL_onRequestComplete t RIL_E_GENERIC_FAILURE PNone
       else bnd (the_resp r) (\<lambda>p.
         bnd (operator_lines (p_intermediates p) 0 [None, None, None]) (\<lambda>res.
           case res of
             None \<Rightarrow> RIL_onRequestComplete t RIL_E_GENERIC_FAILURE PNone
           | Some (i, response) \<Rightarrow>
               if i \<noteq> 3 then RIL_onRequestComplete t RIL_E_GENERIC_FAILURE PNone
               else RIL_onRequestComplete t RIL_E_SUCCESS (PStrs response))))"

text \<open>A line with one integer behind its prefix: the shape several requests read.\<close>

definition complete_with_int :: "RIL_Token \<Rightarrow> int \<Rightarrow> resp \<Rightarrow> unit rprog" where
  "complete_with_int t err r =
     bnd (failed err r) (\<lambda>bad.
       if bad then RIL_onRequestComplete t RIL_E_GENERIC_FAILURE PNone
       else bnd (first_line_of r) (\<lambda>line.
         let (err, cur) = at_tok_start (Some line) in
         if err < 0 then RIL_onRequestComplete t RIL_E_GENERIC_FAILURE PNone
         else let (err, _, v) = at_tok_nextint cur 0 in
           if err < 0 then RIL_onRequestComplete t RIL_E_GENERIC_FAILURE PNone
           else RIL_onRequestComplete t RIL_E_SUCCESS (PInts [v])))"

definition requestQueryNetworkSelectionMode :: "RIL_Token \<Rightarrow> unit rprog" where
  "requestQueryNetworkSelectionMode t =
     bnd (send_singleline ''AT+COPS?'' ''+COPS:'' Null) (\<lambda>(err, r). complete_with_int t err r)"

text \<open>On a present SIM the request is not completed.\<close>

definition requestSetNetworkSelectionAutomatic :: "RIL_Token \<Rightarrow> unit rprog" where
  "requestSetNetworkSelectionAutomatic t =
     bnd getSIMStatus (\<lambda>sim.
       if sim = SIM_ABSENT then RIL_onRequestComplete t RIL_E_RADIO_NOT_AVAILABLE PNone
       else send_ignore ''AT+COPS=0'')"

section \<open>Cell information\<close>

definition RIL_TIMESTAMP_TYPE_MODEM :: int where "RIL_TIMESTAMP_TYPE_MODEM = 2"

definition requestGetCellInfoList :: "RIL_Token \<Rightarrow> unit rprog" where
  "requestGetCellInfoList t =
     bnd (gets (\<lambda>s. \<lparr>ci_type = 1, ci_registered = 1, ci_timeStampType = RIL_TIMESTAMP_TYPE_MODEM,
                 ci_arfcn = 0, ci_bsic = 255, ci_signalStrength = 10, ci_bitErrorRate = 0,
                 ci_timingAdvance = INT_MAX, ci_mcc = s_mcc s, ci_mnc = s_mnc s, ci_lac = s_lac s,
                 ci_cid = s_cid s, ci_timeStamp = ril_nano_time (clock_monotonic (env s)) - 1000\<rparr>))
       (\<lambda>ci. RIL_onRequestComplete t RIL_E_SUCCESS (PCells [ci]))"

definition requestSetCellInfoListRate :: "req_data \<Rightarrow> RIL_Token \<Rightarrow> unit rprog" where
  "requestSetCellInfoListRate data t =
     bnd (gets (\<lambda>s. sizeof_ptr (env s))) (\<lambda>psize.
     if datalen psize data \<noteq> 4 then crash AssertFail
     else bnd (data_int data 0) (\<lambda>rate.
       andthen (modify (\<lambda>s. s\<lparr>s_cell_info_rate_ms := rate\<rparr>))
         (RIL_onRequestComplete t RIL_E_SUCCESS PNone)))"

section \<open>Completions\<close>

lemma quiet_small_network [count_intros]:
  "quiet t (array_at a j)" "quiet t (put i v a)" "quiet t (set_mdm f)" "quiet t query_ctec"
  "quiet t (networkModePossible m j)" "quiet t (at_response_free r)"
  unfolding array_at_def put_def set_mdm_def query_ctec_def networkModePossible_def at_response_free_def
  by (intro count_intros count_rules; simp)+

lemma quiet_read_techs [count_intros]: "quiet t (read_techs cur techs)"
proof (induction cur techs rule: read_techs.induct)
  case (1 cur techs)
  then show ?case
    by (subst read_techs.simps) (auto intro!: count_intros quiet_bnd split: prod.split)
qed

lemma quiet_probe [count_intros]:
  "quiet t query_supported_techs" "quiet t is_multimode_modem" "quiet t probeForModemMode"
proof -
  show 1: "quiet t query_supported_techs"
    unfolding query_supported_techs_def by (intro count_intros count_rules)
  show 2: "quiet t is_multimode_modem"
    unfolding is_multimode_modem_def by (intro count_intros count_rules 1)
  show "quiet t probeForModemMode"
    unfolding probeForModemMode_def by (intro count_intros count_rules 2)
qed

lemma quiet_read_fields [count_intros]: "quiet t (read_fields fs cur arr)"
proof (induction fs arbitrary: cur arr)
  case (Cons f fs)
  obtain i hex where "f = (i, hex)" by (cases f)
  then show ?case by (simp only: read_fields.simps(2)) (intro count_intros count_rules Cons)
qed (simp add: count_intros)

lemma quiet_parseRegistrationState [count_intros]: "quiet t (parseRegistrationState str)"
  unfolding parseRegistrationState_def by (intro count_intros count_rules) simp

lemma quiet_scan_mccmnc [count_intros]: "quiet t (scan_mccmnc s)"
  unfolding scan_mccmnc_def by (intro count_intros count_rules) simp_all

lemma quiet_operator_lines [count_intros]: "quiet t (operator_lines ls i response)"
proof (induction ls arbitrary: i response)
  case (Cons l ls)
  show ?case
    unfolding operator_lines.simps(2)
    by (intro count_intros count_rules Cons)
qed (simp add: count_intros)

lemma once_complete_with_int [count_intros]: "once t (complete_with_int t err r)"
  unfolding complete_with_int_def by (intro count_intros count_rules)

lemma once_network [count_intros]:
  "once t (requestSetPreferredNetworkType data t)" "once t (requestGetPreferredNetworkType t)"
  "once t (requestVoiceRadioTech t)" "once t (requestRegistrationState req t)" "once t (requestOperator t)"
  "once t (requestQueryNetworkSelectionMode t)" "once t (requestGetCellInfoList t)"
  "once t (requestSetCellInfoListRate data t)"
proof -
  show "once t (requestSetPreferredNetworkType data t)"
    unfolding requestSetPreferredNetworkType_def by (intro count_intros count_rules)
  show "once t (requestGetPreferredNetworkType t)"
    unfolding requestGetPreferredNetworkType_def by (intro count_intros count_rules)
  show "once t (requestVoiceRadioTech t)"
    unfolding requestVoiceRadioTech_def by (intro count_intros count_rules)
  show "once t (requestRegistrationState req t)"
    unfolding requestRegistrationState_def by (intro count_intros count_rules)
  show "once t (requestOperator t)"
    unfolding requestOperator_def by (intro count_intros count_rules)
  show "once t (requestQueryNetworkSelectionMode t)"
    unfolding requestQueryNetworkSelectionMode_def by (intro count_intros count_rules)
  show "once t (requestGetCellInfoList t)"
    unfolding requestGetCellInfoList_def by (intro count_intros count_rules)
  show "once t (requestSetCellInfoListRate data t)"
    unfolding requestSetCellInfoListRate_def by (intro count_intros count_rules) simp
qed

section \<open>Properties\<close>

lemma no_comma_fmt [simp]: "filter (\<lambda>c. c = CHR '','') (fmt_d i) = []" "filter (\<lambda>c. c = CHR '','') (fmt_x i) = []"
  using plain_fmt_d [of i] plain_fmt_x [of i] by (auto simp: filter_empty_conv)

lemma no_quote_fmt_x: "CHR 0x22 \<notin> set (fmt_x i)"
  using fmt_x_chars [of _ i] base_digit_not_special by blast

lemma hex_quoted:
  assumes "is_int32 i"
  shows "at_tok_nexthexint (Some (CHR 0x22 # fmt_x i @ CHR 0x22 # CHR '','' # r)) out = (0, Some r, i)"
    and "\<exists>k. at_tok_nexthexint (Some (CHR 0x22 # fmt_x i @ [CHR 0x22])) out = (0, k, i)"
  using nextTok_quoted [OF no_quote_fmt_x, of i "CHR '','' # r"] nextTok_quoted [OF no_quote_fmt_x, of i "[]"] assms
  by (simp_all add: at_tok_nexthexint_def at_tok_nextint_base_def c_strtoul_fmt_x to_int32_mod)

text \<open>
  A registration line as the modem answers \<^verbatim>\<open>AT+CREG?\<close>, with the state, the location area and the
  cell (in hexadecimal, quoted), is decoded to exactly these numbers, which are remembered for the
  cell information; the type reported is the radio technology of the current modem technology.
\<close>

theorem registration_decoded:
  assumes "is_int32 n" and "is_int32 stat" and "is_int32 area" and "is_int32 cell"
    and "techFromModemType (currentTech (sMdmInfo s)) s = Done type s"
  shows "parseRegistrationState (''+CREG: '' @ fmt_d n @ '','' @ fmt_d stat @ '',\"'' @ fmt_x area @ ''\",\"''
      @ fmt_x cell @ ''\"'') s
    = Done (Some (type, 4, [stat, area, cell, 0])) (s\<lparr>s_lac := area, s_cid := cell\<rparr>)"
proof -
  let ?rest = "'' '' @ fmt_d n @ '','' @ fmt_d stat @ '',\"'' @ fmt_x area @ ''\",\"'' @ fmt_x cell @ ''\"''"
  obtain k where k: "at_tok_nexthexint (Some (CHR 0x22 # fmt_x cell @ [CHR 0x22])) 0 = (0, k, cell)"
    using hex_quoted(2) [OF assms(4)] by blast
  have commas: "length (filter (\<lambda>c. c = CHR '','') ?rest) = 3" by simp
  have tech: "techFromModemType (currentTech (sMdmInfo s)) (s\<lparr>s_lac := a, s_cid := b\<rparr>)
      = Done type (s\<lparr>s_lac := a, s_cid := b\<rparr>)" for a b
    using assms(5) by (auto simp: techFromModemType_def shl1_def run_ril split: if_splits)
  have fields: "read_fields [(None, False), (Some 0, False), (Some 1, True), (Some 2, True)] (Some ?rest)
      [0, 0, 0, 0] s = Done (Some [stat, area, cell, 0]) s"
    using assms(1-3) k by (simp add: nextint_more hex_quoted(1) put_def run_ril)
  show ?thesis
    using commas fields tech
    by (simp add: parseRegistrationState_def c_strchr_def deref_def run_ril Let_def reg_fields_def TECH_def
        eval_nat_numeral)
qed

lemma registration_decoded_witness:
  "parseRegistrationState (''+CREG: '' @ fmt_d 2 @ '','' @ fmt_d 1 @ '',\"'' @ fmt_x 6 @ ''\",\"'' @ fmt_x 255 @ ''\"'')
      (sample_ril RADIO_STATE_ON [])
    = Done (Some (RADIO_TECH_GPRS, 4, [1, 6, 255, 0])) ((sample_ril RADIO_STATE_ON [])\<lparr>s_lac := 6, s_cid := 255\<rparr>)"
proof -
  have "techFromModemType (currentTech (sMdmInfo (sample_ril RADIO_STATE_ON []))) (sample_ril RADIO_STATE_ON [])
      = Done RADIO_TECH_GPRS (sample_ril RADIO_STATE_ON [])"
    by (simp add: techFromModemType_def shl1_def run_ril mdm_defs)
  from registration_decoded [OF _ _ _ _ this] show ?thesis by (simp add: int32_defs)
qed

text \<open>
  A modem that is not registered sends no location: for a line with the state alone, or with \<open>n\<close> and
  the state, the array has one or two elements and the code writes elements 1 and 2, behind its
  end. And an error answer to \<^verbatim>\<open>AT+CREG?\<close> or \<^verbatim>\<open>AT+CGREG?\<close> makes the request read the first line of a
  response without lines, through NULL: only the return code is tested, not \<^verbatim>\<open>success\<close>.
\<close>

theorem registration_crashes:
  assumes "is_int32 n" and "is_int32 stat"
    and "gets_reply [] f later s" and "isFinalResponse f" and "\<not> isFinalResponseSuccess f"
    and "request = RIL_REQUEST_VOICE_REGISTRATION_STATE \<or> request = RIL_REQUEST_DATA_REGISTRATION_STATE"
  shows "parseRegistrationState (''+CREG: '' @ fmt_d stat) s' = Crash OutOfBounds
    \<and> parseRegistrationState (''+CREG: '' @ fmt_d n @ '','' @ fmt_d stat) s' = Crash OutOfBounds
    \<and> requestRegistrationState request tok s = Crash NullDeref"
proof (intro conjI)
  show "parseRegistrationState (''+CREG: '' @ fmt_d stat) s' = Crash OutOfBounds"
    using assms(2)
    by (simp add: parseRegistrationState_def c_strchr_def deref_def run_ril Let_def reg_fields_def nextint_last
        put_def)
  show "parseRegistrationState (''+CREG: '' @ fmt_d n @ '','' @ fmt_d stat) s' = Crash OutOfBounds"
    using assms(1,2)
    by (simp add: parseRegistrationState_def c_strchr_def deref_def run_ril Let_def reg_fields_def nextint_last
        nextint_more put_def)
  have send: "send_singleline command pfx Null s
      = Done (0, Resp (final_resp f [])) (asked command SINGLELINE later s)" for command pfx
    using assms(3-5) by (rule reply_singleline_error)
  show "requestRegistrationState request tok s = Crash NullDeref"
    using assms(5,6) by (auto simp: requestRegistrationState_def run_ril send)
qed

lemma registration_crashes_witness:
  "parseRegistrationState (''+CREG: '' @ fmt_d 0) (sample_ril RADIO_STATE_ON []) = Crash OutOfBounds
    \<and> requestRegistrationState RIL_REQUEST_VOICE_REGISTRATION_STATE 7
        (sample_ril RADIO_STATE_ON [([], False), ([Some ''ERROR''], False)]) = Crash NullDeref"
proof -
  have "gets_reply [] ''ERROR'' [] (sample_ril RADIO_STATE_ON [([], False), ([Some ''ERROR''], False)])" by simp
  from registration_crashes [OF _ _ this, of 0 0 RIL_REQUEST_VOICE_REGISTRATION_STATE "sample_ril RADIO_STATE_ON []" 7]
  show ?thesis by (simp add: int32_defs line_class)
qed

text \<open>One answer line of the operator query.\<close>

definition cops_line :: "string \<Rightarrow> string" where
  "cops_line name = ''+COPS: '' @ fmt_d 0 @ '','' @ fmt_d 2 @ '',\"'' @ name @ ''\"''"

lemma scan_returns: "\<exists>t. scan_mccmnc x s = Done () t \<and> acts t = acts s"
  by (auto simp: scan_mccmnc_def run_ril split: option.split)

lemma operator_step:
  assumes "CHR 0x22 \<notin> set x"
  shows "operator_lines (cops_line x # ls) i response s
    = (if i < length response
       then bnd (whenever (length x = 6) (scan_mccmnc x))
              (\<lambda>_. operator_lines ls (i + 1) (response[i := Some x])) s
       else Crash OutOfBounds)"
proof -
  obtain k where k: "at_tok_nextstr (Some (CHR 0x22 # x @ [CHR 0x22])) None = (0, k, Some x)"
    using nextstr_last [of "Quoted x" None] assms by auto
  have i: "is_int32 0" "is_int32 2" by (simp_all add: int32_defs)
  show ?thesis
    by (simp add: cops_line_def c_strchr_def nextint_more i at_tok_hasmore_def k put_def deref_def run_ril)
qed

lemma operator_lines_run:
  assumes "\<forall>x\<in>set xs. CHR 0x22 \<notin> set x" and "length response = 3" and "i \<le> 3"
  shows "if i + length xs \<le> 3
    then \<exists>t. operator_lines (map cops_line xs) i response s
        = Done (Some (i + length xs, take i response @ map Some xs @ drop (i + length xs) response)) t
      \<and> acts t = acts s
    else operator_lines (map cops_line xs) i response s = Crash OutOfBounds"
  using assms
proof (induction xs arbitrary: i response s)
  case Nil
  then show ?case by (simp add: ret_def)
next
  case (Cons x xs)
  obtain u where u: "whenever (length x = 6) (scan_mccmnc x) s = Done () u" "acts u = acts s"
    using scan_returns [of x s] by (cases "length x = 6") (auto simp: whenever_def ret_def)
  have step: "operator_lines (map cops_line (x # xs)) i response s
      = (if i < 3 then operator_lines (map cops_line xs) (i + 1) (response[i := Some x]) u else Crash OutOfBounds)"
    using Cons.prems operator_step [of x "map cops_line xs" i response s] u by (simp add: bnd_def)
  show ?case
  proof (cases "i < 3")
    case True
    have tk: "take (Suc i) (response[i := Some x]) = take i response @ [Some x]"
      using True Cons.prems(2) by (simp add: take_Suc_conv_app_nth)
    have dr: "drop (Suc (i + n)) (response[i := Some x]) = drop (Suc (i + n)) response" for n by simp
    from Cons.IH [of "response[i := Some x]" "i + 1" u] Cons.prems True step u(2) tk dr
    show ?thesis by (auto split: if_splits)
  next
    case False
    with Cons.prems step show ?thesis by simp
  qed
qed

text \<open>
  The operator query expects the three names of the operator, one line each: with exactly three
  lines it completes with the three strings in their order; with fewer it fails; and with more it
  writes behind its array of three pointers, which nothing prevents.
\<close>

theorem operator_names:
  assumes "gets_reply (map cops_line xs) f later s" and "isFinalResponse f"
    and "\<forall>x\<in>set xs. CHR 0x22 \<notin> set x"
  shows "if length xs \<le> 3
    then \<exists>t. requestOperator tok s = Done () t
      \<and> acts t = acts s @ [if length xs = 3 then Complete tok RIL_E_SUCCESS (PStrs (map Some xs))
          else Complete tok RIL_E_GENERIC_FAILURE PNone]
    else requestOperator tok s = Crash OutOfBounds"
proof -
  let ?c = "''AT+COPS=3,0;+COPS?;+COPS=3,1;+COPS?;+COPS=3,2;+COPS?''"
  let ?u = "asked ?c MULTILINE later s"
  have cls: "\<forall>l\<in>set (map cops_line xs). ordinary l \<and> strStartsWith l ''+COPS:''"
    by (auto simp: cops_line_def line_class)
  have send: "send_multiline ?c ''+COPS:'' Null s = Done (0, Resp (final_resp f (map cops_line xs))) ?u"
    using assms(1,2) cls by (rule reply_multiline)
  note run = operator_lines_run [OF assms(3), of "[None, None, None]" 0 ?u]
  show ?thesis
  proof (cases "length xs \<le> 3")
    case True
    with run obtain t where t: "operator_lines (map cops_line xs) 0 [None, None, None] ?u
        = Done (Some (length xs, map Some xs @ drop (length xs) [None, None, None])) t" "acts t = acts s"
      by auto
    with True send show ?thesis by (simp add: requestOperator_def run_ril)
  next
    case False
    with run send show ?thesis by (simp add: requestOperator_def run_ril)
  qed
qed

lemma operator_names_witness:
  "requestOperator 7 (sample_ril RADIO_STATE_ON
      [([], False), (map Some (map cops_line [''A'', ''B'', ''C'', ''D''] @ [''OK'']), False)]) = Crash OutOfBounds"
  using operator_names [of "[''A'', ''B'', ''C'', ''D'']" "''OK''" "[]" "sample_ril RADIO_STATE_ON
      [([], False), (map Some (map cops_line [''A'', ''B'', ''C'', ''D''] @ [''OK'']), False)]" 7]
  by simp

text \<open>A list of numbers behind a prefix.\<close>

definition csq_line :: "int list \<Rightarrow> string" where
  "csq_line vs = ''+CSQ: '' @ render_fields (map (Plain \<circ> fmt_d) vs)"

lemma read_strengths_None: "12 \<le> count \<Longrightarrow> read_strengths n count None = Some (replicate n 0)"
  by (induction n arbitrary: count) (simp_all add: at_tok_nextint_def at_tok_nextint_base_def minNumOfElements_def)

lemma read_strengths_values:
  assumes "vs \<noteq> []" and "\<forall>v\<in>set vs. is_int32 v" and "count + n = 14"
  shows "read_strengths n count (Some (render_fields (map (Plain \<circ> fmt_d) vs)))
    = (if length vs + count < 12 then None else Some (take n (vs @ replicate n 0)))"
  using assms
proof (induction vs arbitrary: n count rule: induct_list012)
  case (2 v)
  show ?case
  proof (cases n)
    case (Suc m)
    show ?thesis
    proof (cases "count < 11")
      case True
      then obtain m' where "m = Suc m'" using 2 Suc by (cases m) auto
      with True Suc 2 show ?thesis
        by (simp add: nextint_last) (simp add: at_tok_nextint_def at_tok_nextint_base_def minNumOfElements_def)
    next
      case False
      moreover have "take m (0 # replicate m 0) = replicate m (0::int)"
        using take_replicate [of m "Suc m" "0::int"] by simp
      ultimately show ?thesis using Suc 2 by (simp add: nextint_last read_strengths_None)
    qed
  qed (use 2 in simp)
next
  case (3 v w vs)
  show ?case
  proof (cases n)
    case (Suc m)
    have "take m ((w # vs @ replicate m 0) @ [0]) = take m (w # vs @ replicate m 0)"
      by (simp only: take_append) simp
    with Suc 3 "3.IH"(2) [of "Suc count" m] show ?thesis
      by (simp add: nextint_more replicate_append_same [symmetric])
  qed (use 3 in simp)
qed simp

text \<open>
  The signal strengths of \<^verbatim>\<open>AT+CSQ\<close> reach the library unchanged: with at least twelve numbers the
  request completes with the first fourteen of them, in order, a missing thirteenth or
  fourteenth as 0; with fewer than twelve it fails.
\<close>

theorem signal_strength_read:
  assumes "gets_reply [csq_line vs] f later s" and "isFinalResponseSuccess f"
    and "vs \<noteq> []" and "\<forall>v\<in>set vs. is_int32 v"
  shows "\<exists>t. requestSignalStrength tok s = Done () t
    \<and> acts t = acts s @ [if length vs \<ge> 12 then Complete tok RIL_E_SUCCESS (PInts (take 14 (vs @ [0, 0])))
        else Complete tok RIL_E_GENERIC_FAILURE PNone]"
proof -
  have cls: "ordinary (csq_line vs)" "strStartsWith (csq_line vs) ''+CSQ:''"
    by (simp_all add: csq_line_def line_class)
  have send: "send_singleline ''AT+CSQ'' ''+CSQ:'' Null s
      = Done (0, Resp (final_resp f [csq_line vs])) (asked ''AT+CSQ'' SINGLELINE later s)"
    using assms(1,2) cls by (intro reply_singleline) simp_all
  have start: "at_tok_start (Some (csq_line vs)) = (0, Some ('' '' @ render_fields (map (Plain \<circ> fmt_d) vs)))"
    by (simp add: csq_line_def c_strchr_def)
  have sp: "read_strengths 14 0 (Some ('' '' @ r)) = read_strengths 14 0 (Some r)" for r
    by (simp add: eval_nat_numeral)
  have vals: "read_strengths 14 0 (Some (render_fields (map (Plain \<circ> fmt_d) vs)))
      = (if length vs < 12 then None else Some (take 14 (vs @ replicate 14 0)))"
    using read_strengths_values [OF assms(3,4), of 0 14] by simp
  have pad: "take 14 (vs @ replicate 14 0) = take 14 (vs @ [0, 0])" if "length vs \<ge> 12"
  proof -
    have eq: "replicate 14 (0::int) = [0, 0] @ replicate 12 0" by (simp add: eval_nat_numeral)
    define k where "k = 14 - length vs"
    have "k \<le> length [0, 0::int]" using that by (simp add: k_def)
    then have "take k ([0, 0] @ replicate 12 0) = take k [0, 0::int]" by (simp only: take_append) simp
    then show ?thesis by (simp only: eq take_append k_def)
  qed
  show ?thesis
    using assms(2) send vals pad
    by (simp add: requestSignalStrength_def run_ril start maxNumOfElements_def sp del: at_tok_start.simps append.simps)
qed

lemma signal_strength_read_witness:
  "\<exists>t. requestSignalStrength 7 (sample_ril RADIO_STATE_ON [([], False), ([Some (csq_line [1 .. 12]), Some ''OK''], False)])
      = Done () t
    \<and> acts t = [Complete 7 RIL_E_SUCCESS (PInts [1, 2, 3, 4, 5, 6, 7, 8, 9, 10, 11, 12, 0, 0])]"
proof -
  have l: "[1 .. 12 :: int] = [1, 2, 3, 4, 5, 6, 7, 8, 9, 10, 11, 12]" by (simp add: upto.simps)
  show ?thesis
    using signal_strength_read [of "[1 .. 12]" "''OK''" "[]"
        "sample_ril RADIO_STATE_ON [([], False), ([Some (csq_line [1 .. 12]), Some ''OK''], False)]" 7]
    by (simp add: l int32_defs)
qed

text \<open>
  Two requests break the rule of one completion. When \<^verbatim>\<open>AT+CSQ\<close> fails, \<^verbatim>\<open>SIGNAL_STRENGTH\<close> is completed with
  a failure at the test and again at the error label it jumps to. With a SIM present
  \<^verbatim>\<open>SET_NETWORK_SELECTION_AUTOMATIC\<close> sends its command and is never completed.
\<close>

theorem miscounted_requests:
  assumes "gets_reply [] f later s" and "isFinalResponse f" and "\<not> isFinalResponseSuccess f"
    and "getSIMStatus s' = Done sim u" and "sim \<noteq> SIM_ABSENT" and "gets_reply [] g later' u" and "isFinalResponse g"
  shows "(\<exists>t. requestSignalStrength tok s = Done () t \<and> acts t = acts s
      @ [Complete tok RIL_E_GENERIC_FAILURE PNone, Complete tok RIL_E_GENERIC_FAILURE PNone])
    \<and> (\<exists>t. requestSetNetworkSelectionAutomatic tok s' = Done () t \<and> acts t = acts u
      \<and> wrote t = wrote u @ ''AT+COPS=0'' @ [CHR 0x0D])"
proof -
  have "send_singleline ''AT+CSQ'' ''+CSQ:'' Null s
      = Done (0, Resp (final_resp f [])) (asked ''AT+CSQ'' SINGLELINE later s)"
    using assms(1-3) by (rule reply_singleline_error)
  moreover have "at_send_command ril_handlers ''AT+COPS=0'' None u = Done (0, Null) (asked ''AT+COPS=0'' NO_RESULT later' u)"
    using reply_command [OF assms(6,7), of ril_handlers "''AT+COPS=0''" None] by simp
  ultimately show ?thesis
    using assms(3-5)
    by (simp add: requestSignalStrength_def requestSetNetworkSelectionAutomatic_def run_ril send_ignore_def)
qed

lemma miscounted_requests_witness:
  "(\<exists>t. requestSignalStrength 7 (sample_ril RADIO_STATE_ON [([], False), ([Some ''ERROR''], False)]) = Done () t
      \<and> acts t = [Complete 7 RIL_E_GENERIC_FAILURE PNone, Complete 7 RIL_E_GENERIC_FAILURE PNone])
    \<and> (\<exists>t. requestSetNetworkSelectionAutomatic 7 (sample_ril RADIO_STATE_ON
        [([], False), ([Some ''+CPIN: READY'', Some ''OK''], False), ([], False), ([Some ''OK''], False)]) = Done () t
      \<and> acts t = [])"
proof -
  let ?s = "sample_ril RADIO_STATE_ON [([], False), ([Some ''ERROR''], False)]"
  obtain u where u: "getSIMStatus (sample_ril RADIO_STATE_ON [([], False), ([Some ''+CPIN: READY'', Some ''OK''], False),
      ([], False), ([Some ''OK''], False)]) = Done SIM_READY u"
    "ready u" "sched u = [([], False), ([Some ''OK''], False)]" "acts u = []"
    using sample_sim_ready by fastforce
  then have g: "gets_reply [] ''OK'' [] u" by (simp add: gets_reply_def)
  have e: "isFinalResponse ''ERROR''" "\<not> isFinalResponseSuccess ''ERROR''" by code_simp+
  have "gets_reply [] ''ERROR'' [] ?s" by simp
  from miscounted_requests [OF this e u(1) _ g, of 7] u(4) show ?thesis by auto
qed

lemma probe_run:
  assumes "gets_reply [] e (([], False) # (map Some (ls @ [f]), False) # later) s"
    and "isFinalResponse e" and "\<not> isFinalResponseSuccess e"
    and "cdma \<and> isFinalResponseSuccess f \<and> ls = [''+WNAM:'' @ r] \<or> \<not> cdma \<and> isFinalResponse f \<and> \<not> isFinalResponseSuccess f \<and> ls = []"
  shows "\<exists>t. probeForModemMode s = Done () t
    \<and> currentTech (sMdmInfo t) = (if cdma then MDM_CDMA else MDM_GSM)
    \<and> TECH_BIT t = Done (if cdma then MDM_LTE else MDM_WCDMA) t \<and> ready t \<and> sched t = later
    \<and> acts t = acts s \<and> sState t = sState s \<and> s_closed t = s_closed s \<and> env t = env s"
proof -
  let ?later = "([], False) # (map Some (ls @ [f]), False) # later"
  let ?u = "asked ''AT+CTEC?'' SINGLELINE ?later s"
  have first: "send_singleline ''AT+CTEC?'' ''+CTEC:'' Null s = Done (0, Resp (final_resp e [])) ?u"
    using assms(1-3) by (rule reply_singleline_error)
  have u: "gets_reply ls f later ?u" using assms(1) by (simp add: gets_reply_def)
  have second: "send_singleline ''AT+WNAM'' ''+WNAM:'' Uninit (?u\<lparr>sMdmInfo := m\<rparr>)
      = Done (0, Resp (final_resp f ls)) ((asked ''AT+WNAM'' SINGLELINE later ?u)\<lparr>sMdmInfo := m\<rparr>)" for m
  proof -
    have g: "gets_reply ls f later (?u\<lparr>sMdmInfo := m\<rparr>)"
      using u by (simp add: gets_reply_def ready_def idle_def asked_def)
    have a: "(asked ''AT+WNAM'' SINGLELINE later ?u)\<lparr>sMdmInfo := m\<rparr> = asked ''AT+WNAM'' SINGLELINE later (?u\<lparr>sMdmInfo := m\<rparr>)"
      by (simp add: asked_def)
    show ?thesis
    proof (cases cdma)
      case True
      then have l: "ls = [''+WNAM:'' @ r]" "isFinalResponseSuccess f" using assms(4) by auto
      show ?thesis
        unfolding a using g l by (simp only: l(1)) (rule reply_singleline; simp add: line_class)
    next
      case False
      with assms(4) g show ?thesis unfolding a by (auto intro: reply_singleline_error)
    qed
  qed
  have rdy: "ready ((asked ''AT+WNAM'' SINGLELINE later ?u)\<lparr>sMdmInfo := m\<rparr>)" for m
    using assms(1) by (simp add: gets_reply_def ready_def idle_def asked_def)
  show ?thesis
    using assms(3,4) first second rdy
    by (cases cdma)
      (auto simp: probeForModemMode_def is_multimode_modem_def query_ctec_def run_ril set_mdm_def TECH_BIT_def
        TECH_def shl1_def mdm_defs at_response_free_def)
qed

text \<open>
  On a modem without \<^verbatim>\<open>AT+CTEC\<close> the probe finds out CDMA or GSM by \<^verbatim>\<open>AT+WNAM\<close>, but stores the technology's bit
  where every reader expects its index: afterwards \<^verbatim>\<open>TECH_BIT\<close> is that of LTE on a CDMA modem and
  that of WCDMA on a GSM modem, so no test for \<^verbatim>\<open>MDM_CDMA\<close> succeeds on a CDMA modem.
\<close>

theorem probe_stores_bit:
  assumes "gets_reply [] e (([], False) # (map Some (ls @ [f]), False) # later) s"
    and "isFinalResponse e" and "\<not> isFinalResponseSuccess e"
    and "cdma \<and> isFinalResponseSuccess f \<and> ls = [''+WNAM:'' @ r] \<or> \<not> cdma \<and> isFinalResponse f \<and> \<not> isFinalResponseSuccess f \<and> ls = []"
  shows "\<exists>t. probeForModemMode s = Done () t
    \<and> currentTech (sMdmInfo t) = (if cdma then MDM_CDMA else MDM_GSM)
    \<and> TECH_BIT t = Done (if cdma then MDM_LTE else MDM_WCDMA) t \<and> ready t \<and> sched t = later"
  using probe_run [OF assms] by blast

lemma probe_stores_bit_witness:
  "\<exists>t. probeForModemMode (sample_ril RADIO_STATE_OFF [([], False), ([Some ''ERROR''], False), ([], False),
        ([Some ''+WNAM: X'', Some ''OK''], False)]) = Done () t
    \<and> currentTech (sMdmInfo t) = MDM_CDMA \<and> TECH_BIT t = Done MDM_LTE t"
proof -
  have e: "isFinalResponse ''ERROR''" "\<not> isFinalResponseSuccess ''ERROR''" by code_simp+
  have "gets_reply [] ''ERROR'' (([], False) # (map Some ([''+WNAM: X''] @ [''OK'']), False) # [])
    (sample_ril RADIO_STATE_OFF [([], False), ([Some ''ERROR''], False), ([], False), ([Some ''+WNAM: X'', Some ''OK''], False)])"
    by simp
  from probe_stores_bit [OF this e, of True "'' X''"] show ?thesis by auto
qed

text \<open>
  The preferred network type survives the modem: when the modem answers \<^verbatim>\<open>AT+CTEC?\<close> with the mask the
  table has for a type, \<^verbatim>\<open>GET_PREFERRED_NETWORK_TYPE\<close> completes with that type, for each of the twelve types the tables know.
\<close>

theorem preferred_type_roundtrip:
  assumes "i < 12" and "is_int32 tech" and "isFinalResponseSuccess f"
    and "gets_reply [''+CTEC: '' @ fmt_d tech @ '','' @ fmt_x (net2pmask ! i)] f later s"
  shows "length net2pmask = 12 \<and> (\<exists>t. requestGetPreferredNetworkType tok s = Done () t
    \<and> acts t = acts s @ [Complete tok RIL_E_SUCCESS (PInts [int i])])"
proof -
  have "\<forall>j < 12. find_mask (net2pmask ! j) net2pmask 0 = Some (int j) \<and> is_int32 (net2pmask ! j)"
    by code_simp
  with assms(1) have i: "find_mask (net2pmask ! i) net2pmask 0 = Some (int i)" "is_int32 (net2pmask ! i)" by auto
  have send: "send_singleline ''AT+CTEC?'' ''+CTEC:'' Null s
      = Done (0, Resp (final_resp f [''+CTEC: '' @ fmt_d tech @ '','' @ fmt_x (net2pmask ! i)]))
          (asked ''AT+CTEC?'' SINGLELINE later s)"
    using assms(3,4) by (intro reply_singleline) (simp_all add: line_class)
  have parse: "parse_technology_response (''+CTEC: '' @ fmt_d tech @ '','' @ fmt_x (net2pmask ! i))
      = (0, Some tech, Some (net2pmask ! i))"
    using assms(2) i(2)
    by (simp add: parse_technology_response_def c_strchr_def nextint_more nexthexint_last at_tok_hasmore_def)
  have "length net2pmask = 12" by code_simp
  then show ?thesis
    using assms(3) send parse i(1)
    by (simp add: requestGetPreferredNetworkType_def query_ctec_def run_ril)
qed

lemma preferred_type_roundtrip_witness:
  "\<exists>t. requestGetPreferredNetworkType 7 (sample_ril RADIO_STATE_ON [([], False),
        ([Some (''+CTEC: '' @ fmt_d 1 @ '','' @ fmt_x (net2pmask ! 9)), Some ''OK''], False)]) = Done () t
    \<and> acts t = [Complete 7 RIL_E_SUCCESS (PInts [9])]"
proof -
  have "gets_reply [''+CTEC: '' @ fmt_d 1 @ '','' @ fmt_x (net2pmask ! 9)] ''OK'' []
    (sample_ril RADIO_STATE_ON [([], False), ([Some (''+CTEC: '' @ fmt_d 1 @ '','' @ fmt_x (net2pmask ! 9)), Some ''OK''], False)])"
    by simp
  from preferred_type_roundtrip [OF _ _ _ this, of 7] show ?thesis by (simp add: int32_defs)
qed

end
