(* ===== verification/RilData.thy ===== *)
theory RilData
  imports RilSim
begin

text \<open>
  Packet data in \<^verbatim>\<open>reference-ril.c\<close>: the list of data calls, setting one up over the network
  interface or the QMI device, and taking it down. The system calls on the interface and the
  device are read from the surroundings.
\<close>

section \<open>The interface\<close>

definition hasWifiCapability :: "bool rprog" where
  "hasWifiCapability = gets (\<lambda>s. properties (env s) ''ro.boot.qemu.wifi'' = Some ''1'')"

definition getRadioInterfaceName :: "bool \<Rightarrow> string" where
  "getRadioInterfaceName hasWifi = (if hasWifi then ''radio0'' else ''eth0'')"

datatype InterfaceState = kInterfaceUp | kInterfaceDown

definition setInterfaceState :: "string \<Rightarrow> InterfaceState \<Rightarrow> RIL_Errno rprog" where
  "setInterfaceState name st =
     bnd (gets env) (\<lambda>e.
     if \<not> if_socket_ok e then ret RIL_E_GENERIC_FAILURE
     else bnd (gets (\<lambda>s. ifaces s name)) (\<lambda>flag.
       case flag of
         None \<Rightarrow> ret RIL_E_RADIO_NOT_AVAILABLE
       | Some isUp \<Rightarrow>
           if (st = kInterfaceUp \<and> isUp) \<or> (st = kInterfaceDown \<and> \<not> isUp) then ret RIL_E_SUCCESS
           else if \<not> if_set_ok e then ret RIL_E_GENERIC_FAILURE
           else andthen (modify (\<lambda>s. s\<lparr>ifaces := (ifaces s)(name := Some (\<not> isUp))\<rparr>))
             (ret RIL_E_SUCCESS)))"

section \<open>The list of data calls\<close>

definition empty_data_call :: RIL_Data_Call_Response_v11 where
  "empty_data_call = \<lparr>status = -1, suggestedRetryTime = -1, cid = -1, active = -1, call_type = [],
     ifname = [], addresses = [], dnses = [], gateways = [], pcscf = [], mtu = 0\<rparr>"

text \<open>The first loop: \<^verbatim>\<open>+CGACT: cid,active\<close>; \<open>None\<close> is the jump to the error label.\<close>

fun cgact_lines :: "string list \<Rightarrow> RIL_Data_Call_Response_v11 list option" where
  "cgact_lines [] = Some []"
| "cgact_lines (l # ls) =
     (let (err, line) = at_tok_start (Some l) in
      if err < 0 then None
      else let (err, line, c) = at_tok_nextint line (-1) in
      if err < 0 then None
      else let (err, _, a) = at_tok_nextint line (-1) in
      if err < 0 then None
      else map_option ((#) (empty_data_call\<lparr>cid := c, active := a\<rparr>)) (cgact_lines ls))"

text \<open>The inner search for the context: the first entry with this id.\<close>

fun find_cid :: "int \<Rightarrow> RIL_Data_Call_Response_v11 list \<Rightarrow> nat option" where
  "find_cid c [] = None"
| "find_cid c (r # rs) = (if cid r = c then Some 0 else map_option Suc (find_cid c rs))"

text \<open>The second loop: \<^verbatim>\<open>+CGDCONT: cid,type,APN,address\<close>.\<close>

fun cgdcont_lines ::
  "string \<Rightarrow> string list \<Rightarrow> RIL_Data_Call_Response_v11 list \<Rightarrow>
   ('s, RIL_Data_Call_Response_v11 list option) prog" where
  "cgdcont_lines name [] rs = ret (Some rs)"
| "cgdcont_lines name (l # ls) rs =
     (let (err, line) = at_tok_start (Some l) in
      if err < 0 then ret None
      else let (err, line, c) = at_tok_nextint line 0 in
      if err < 0 then ret None
      else case find_cid c rs of
        None \<Rightarrow> cgdcont_lines name ls rs
      | Some i \<Rightarrow>
          let r = (rs ! i)\<lparr>status := 0\<rparr>; (err, line, ty) = at_tok_nextstr line None in
          if err < 0 then ret None
          else case ty of None \<Rightarrow> crash NullDeref | Some ty \<Rightarrow>
          let r = r\<lparr>call_type := ty\<rparr>; (err, line, _) = at_tok_nextstr line None in
          if err < 0 then ret None
          else let r = r\<lparr>ifname := name\<rparr>; (err, line, addr) = at_tok_nextstr line None in
          if err < 0 then ret None
          else case addr of None \<Rightarrow> crash NullDeref | Some addr \<Rightarrow>
          let r = r\<lparr>addresses := addr, dnses := ''8.8.8.8 8.8.4.4'', gateways := []\<rparr> in
          cgdcont_lines name ls (rs[i := r]))"

text \<open>The result goes to the request, or is unsolicited without one.\<close>

definition report_data_calls :: "RIL_Token option \<Rightarrow> RIL_Errno \<Rightarrow> payload \<Rightarrow> unit rprog" where
  "report_data_calls t e p =
     (case t of
        Some t \<Rightarrow> RIL_onRequestComplete t e p
      | None \<Rightarrow> RIL_onUnsolicitedResponse RIL_UNSOL_DATA_CALL_LIST_CHANGED p)"

definition requestOrSendDataCallList :: "RIL_Token option \<Rightarrow> unit rprog" where
  "requestOrSendDataCallList t =
     bnd hasWifiCapability (\<lambda>hasWifi.
     bnd (send_multiline ''AT+CGACT?'' ''+CGACT:'' Uninit) (\<lambda>(err, r).
     bnd (failed err r) (\<lambda>bad.
       if bad then report_data_calls t RIL_E_GENERIC_FAILURE PNone
       else bnd (the_resp r) (\<lambda>p.
         case cgact_lines (p_intermediates p) of
           None \<Rightarrow> report_data_calls t RIL_E_GENERIC_FAILURE PNone
         | Some responses \<Rightarrow>
             bnd (send_multiline ''AT+CGDCONT?'' ''+CGDCONT:'' r) (\<lambda>(err, r).
             bnd (failed err r) (\<lambda>bad.
               if bad then report_data_calls t RIL_E_GENERIC_FAILURE PNone
               else bnd (the_resp r) (\<lambda>p.
               bnd (cgdcont_lines (getRadioInterfaceName hasWifi) (p_intermediates p) responses) (\<lambda>res.
                 case res of
                   None \<Rightarrow> report_data_calls t RIL_E_GENERIC_FAILURE PNone
                 | Some responses \<Rightarrow> report_data_calls t RIL_E_SUCCESS (PDataCalls responses)))))))))"

definition onDataCallListChanged :: "unit rprog" where
  "onDataCallListChanged = requestOrSendDataCallList None"

definition requestDataCallList :: "RIL_Token \<Rightarrow> unit rprog" where
  "requestDataCallList t = requestOrSendDataCallList (Some t)"

section \<open>Setting up a data call\<close>

text \<open>
  The loop that waits for the QMI device, \<open>retry\<close> times at most: the result says whether it is up;
  \<open>None\<close> is a read error.
\<close>

fun qmi_wait :: "cptr list \<Rightarrow> nat \<Rightarrow> ('s, bool option) prog" where
  "qmi_wait [] retry = hang"
| "qmi_wait (None # rs) retry = ret None"
| "qmi_wait (Some txt # rs) retry =
     (if strStartsWith (take 31 txt) ''STATE=up'' \<or> take 31 txt = ''online'' then ret (Some True)
      else if retry - 1 = 0 then ret (Some False)
      else qmi_wait rs (retry - 1))"

definition setup_qmi :: "qmi_device \<Rightarrow> cptr \<Rightarrow> bool rprog" where
  "setup_qmi dev apn =
     (let (ok, _, _) = write_all (qmi_writes dev) (''up:'' @ fmt_s apn) in
      if \<not> ok then ret False
      else bnd (qmi_wait (qmi_reads dev) 10) (\<lambda>up.
        if up = Some True then ret (\<not> qmi_system dev < 0) else ret False))"

text \<open>The other branch: bring the interface up, configure and dial; whether it succeeded.\<close>

definition setup_modem :: "req_data \<Rightarrow> nat \<Rightarrow> cptr \<Rightarrow> bool rprog" where
  "setup_modem data psize apn =
     bnd hasWifiCapability (\<lambda>hasWifi.
     bnd (setInterfaceState (getRadioInterfaceName hasWifi) kInterfaceUp) (\<lambda>e.
       if e \<noteq> RIL_E_SUCCESS then ret False
       else
         bnd (if datalen psize data > 6 * psize then data_str data 6 else ret (Some ''IP'')) (\<lambda>pdp_type.
         andthen (seqs
           [send_ignore (''AT+CGDCONT=1,\"'' @ fmt_s pdp_type @ ''\",\"'' @ fmt_s apn @ ''\",,0,0''),
            send_ignore ''AT+CGQREQ=1'', send_ignore ''AT+CGQMIN=1'', send_ignore ''AT+CGEREP=1,0'',
            send_ignore ''AT+CGACT=1,0''])
         (bnd (send ''ATD*99***1#'' Null) (\<lambda>(err, r). bnd (failed err r) (\<lambda>bad. ret (\<not> bad)))))))"

definition requestSetupDataCall :: "req_data \<Rightarrow> RIL_Token \<Rightarrow> unit rprog" where
  "requestSetupDataCall data t =
     bnd (gets env) (\<lambda>e.
     bnd (data_str data 2) (\<lambda>apn.
     andthen
       (whenever (USE_TI_COMMANDS e) (andthen
         (send_ignore ''AT%CPRIM=\"GMM\",\"CONFIG MULTISLOT_CLASS=<10>\"'')
         (send_ignore ''AT%DATA=2,\"UART\",1,,\"SER\",\"UART\",0'')))
     (bnd (case qmi e of Some dev \<Rightarrow> setup_qmi dev apn | None \<Rightarrow> setup_modem data (sizeof_ptr e) apn) (\<lambda>ok.
       if ok then requestOrSendDataCallList (Some t)
       else RIL_onRequestComplete t RIL_E_GENERIC_FAILURE PNone))))"

definition requestDeactivateDataCall :: "RIL_Token \<Rightarrow> unit rprog" where
  "requestDeactivateDataCall t =
     bnd hasWifiCapability (\<lambda>hasWifi.
     bnd (setInterfaceState (getRadioInterfaceName hasWifi) kInterfaceDown) (\<lambda>e.
       RIL_onRequestComplete t e PNone))"

section \<open>Completions\<close>

lemma quiet_cgdcont [count_intros]: "quiet t (cgdcont_lines name ls rs)"
proof (induction ls arbitrary: rs)
  case (Cons l ls)
  show ?case
    unfolding cgdcont_lines.simps(2) by (intro count_intros count_rules Cons)
qed (simp add: count_intros)

lemma quiet_qmi_wait [count_intros]: "quiet t (qmi_wait rs n)"
  by (induction rs n rule: qmi_wait.induct) (auto intro!: count_intros)

lemma quiet_data [count_intros]:
  "quiet t hasWifiCapability" "quiet t (setInterfaceState name st)" "quiet t (setup_qmi dev apn)"
  "quiet t (setup_modem data p apn)"
proof -
  show 1: "quiet t hasWifiCapability" unfolding hasWifiCapability_def by (intro count_intros)
  show 2: "quiet t (setInterfaceState name st)" for name st
    unfolding setInterfaceState_def by (intro count_intros count_rules) simp
  show "quiet t (setup_qmi dev apn)"
    unfolding setup_qmi_def by (intro count_intros count_rules)
  show "quiet t (setup_modem data p apn)"
    unfolding setup_modem_def
    by (intro count_intros count_rules 1 2 quiet_seqs) (auto intro!: count_intros)
qed

lemma once_report: "once t (report_data_calls (Some t) e p)"
  by (simp add: report_data_calls_def once_complete)

lemma quiet_report: "quiet t (report_data_calls None e p)"
  by (simp add: report_data_calls_def quiet_lib)

lemma once_dataCallList [count_intros]: "once t (requestOrSendDataCallList (Some t))"
  unfolding requestOrSendDataCallList_def by (intro count_intros count_rules once_report)

lemma quiet_onDataCallListChanged [count_intros]: "quiet t onDataCallListChanged"
  unfolding onDataCallListChanged_def requestOrSendDataCallList_def
  by (intro count_intros count_rules quiet_report)

lemma once_data [count_intros]:
  "once t (requestDataCallList t)" "once t (requestSetupDataCall data t)" "once t (requestDeactivateDataCall t)"
proof -
  show "once t (requestDataCallList t)"
    unfolding requestDataCallList_def by (intro count_intros)
  show "once t (requestSetupDataCall data t)"
    unfolding requestSetupDataCall_def by (intro count_intros count_rules)
  show "once t (requestDeactivateDataCall t)"
    unfolding requestDeactivateDataCall_def by (intro count_intros count_rules)
qed

section \<open>Properties\<close>

text \<open>
  The modem's contexts as the abstract data: id, active flag, type, access point name and address;
  the two lines it answers for each, and the data call they stand for.
\<close>

type_synonym pdp = "int \<times> int \<times> string \<times> string \<times> string"

fun cgact_line :: "pdp \<Rightarrow> string" where
  "cgact_line (c, a, ty, apn, addr) = ''+CGACT: '' @ fmt_d c @ '','' @ fmt_d a"

fun cgdcont_line :: "pdp \<Rightarrow> string" where
  "cgdcont_line (c, a, ty, apn, addr) = ''+CGDCONT: '' @ fmt_d c @ CHR '','' # render_field (Quoted ty)
     @ CHR '','' # render_field (Quoted apn) @ CHR '','' # render_field (Quoted addr)"

fun activated :: "pdp \<Rightarrow> RIL_Data_Call_Response_v11" where
  "activated (c, a, ty, apn, addr) = empty_data_call\<lparr>cid := c, active := a\<rparr>"

fun data_call :: "string \<Rightarrow> pdp \<Rightarrow> RIL_Data_Call_Response_v11" where
  "data_call name (c, a, ty, apn, addr) = empty_data_call\<lparr>status := 0, cid := c, active := a, call_type := ty,
     ifname := name, addresses := addr, dnses := ''8.8.8.8 8.8.4.4''\<rparr>"

fun pdp_ok :: "pdp \<Rightarrow> bool" where
  "pdp_ok (c, a, ty, apn, addr) \<longleftrightarrow> is_int32 c \<and> is_int32 a
     \<and> CHR 0x22 \<notin> set ty \<and> CHR 0x22 \<notin> set apn \<and> CHR 0x22 \<notin> set addr"

lemma cgact_lines_read: "\<forall>p\<in>set ps. pdp_ok p \<Longrightarrow> cgact_lines (map cgact_line ps) = Some (map activated ps)"
proof (induction ps)
  case (Cons p ps)
  then show ?case by (cases p) (simp add: c_strchr_def nextint_more nextint_last)
qed simp

lemma cid_simps: "cid (activated p) = fst p" "cid (data_call name p) = fst p"
  by (cases p; simp)+

lemma find_cid_append:
  "c \<notin> cid ` set rs \<Longrightarrow> cid r = c \<Longrightarrow> find_cid c (rs @ r # rest) = Some (length rs)"
  by (induction rs) auto

lemma cgdcont_step:
  assumes "pdp_ok p" and "fst p \<notin> cid ` set done"
  shows "cgdcont_lines name (cgdcont_line p # ls) (done @ activated p # rest) s
    = cgdcont_lines name ls (done @ data_call name p # rest) s"
proof -
  obtain c a ty apn addr where p: "p = (c, a, ty, apn, addr)" by (cases p)
  have f: "find_cid c (done @ activated p # rest) = Some (length done)"
    using assms(2) p by (intro find_cid_append) simp_all
  have ok: "is_int32 c" "field_ok (Quoted ty)" "field_ok (Quoted apn)" "field_ok (Quoted addr)"
    using assms(1) p by auto
  obtain k where k: "at_tok_nextstr (Some (render_field (Quoted addr))) None = (0, k, Some addr)"
    using nextstr_last [OF ok(4), of None] by auto
  show ?thesis
    using f ok(1) nextstr_more [OF ok(2)] nextstr_more [OF ok(3)] k
    by (simp add: p c_strchr_def nextint_more Let_def empty_data_call_def del: render_field.simps)
qed

lemma cgdcont_lines_read:
  assumes "\<forall>p\<in>set ps. pdp_ok p" and "distinct (map fst ps)" and "\<forall>p\<in>set ps. fst p \<notin> cid ` set done"
  shows "cgdcont_lines name (map cgdcont_line ps) (done @ map activated ps) s
    = Done (Some (done @ map (data_call name) ps)) s"
  using assms
proof (induction ps arbitrary: "done")
  case Nil
  then show ?case by (simp add: ret_def)
next
  case (Cons p ps)
  have "\<forall>q\<in>set ps. fst q \<notin> cid ` set (done @ [data_call name p])"
  proof
    fix q assume q: "q \<in> set ps"
    then have "fst q \<in> fst ` set ps" by (rule imageI)
    moreover have "fst p \<notin> fst ` set ps" using Cons.prems(2) by simp
    ultimately have "fst q \<noteq> fst p" by metis
    with q Cons.prems(3) show "fst q \<notin> cid ` set (done @ [data_call name p])" by (simp add: cid_simps)
  qed
  with Cons.IH [of "done @ [data_call name p]"] Cons.prems show ?case
    by (simp add: cgdcont_step del: cgdcont_lines.simps)
qed

text \<open>
  C33: The list of data calls is the modem's: for contexts with different ids, which the modem lists with
  \<^verbatim>\<open>+CGACT\<close> and describes with \<^verbatim>\<open>+CGDCONT\<close>, the request completes with one data call for each, in order,
  with its id, its active flag, its type and its address, the interface the system property
  selects and the two fixed name servers.
\<close>

theorem data_calls_reported:
  assumes "gets_reply (map cgact_line ps) f (([], False) # (map Some (map cgdcont_line ps @ [g]), False) # later) s"
    and "isFinalResponseSuccess f" and "isFinalResponseSuccess g"
    and "\<forall>p\<in>set ps. pdp_ok p" and "distinct (map fst ps)"
  shows "\<exists>t. requestDataCallList tok s = Done () t
    \<and> acts t = acts s @ [Complete tok RIL_E_SUCCESS (PDataCalls
        (map (data_call (getRadioInterfaceName (properties (env s) ''ro.boot.qemu.wifi'' = Some ''1''))) ps))]"
proof -
  let ?later = "([], False) # (map Some (map cgdcont_line ps @ [g]), False) # later"
  let ?u = "asked ''AT+CGACT?'' MULTILINE ?later s"
  have cls: "\<forall>l\<in>set (map cgact_line ps). ordinary l \<and> strStartsWith l ''+CGACT:''"
    "\<forall>l\<in>set (map cgdcont_line ps). ordinary l \<and> strStartsWith l ''+CGDCONT:''"
    by (auto simp: line_class)
  have first: "send_multiline ''AT+CGACT?'' ''+CGACT:'' Uninit s
      = Done (0, Resp (final_resp f (map cgact_line ps))) ?u"
    using assms(1,2) cls(1) by (intro reply_multiline) simp_all
  have "gets_reply (map cgdcont_line ps) g later ?u" using assms(1) by (simp add: gets_reply_def)
  then have second: "send_multiline ''AT+CGDCONT?'' ''+CGDCONT:'' old ?u
      = Done (0, Resp (final_resp g (map cgdcont_line ps))) (asked ''AT+CGDCONT?'' MULTILINE later ?u)" for old
    using assms(3) cls(2) by (intro reply_multiline) simp_all
  have "cgdcont_lines name (map cgdcont_line ps) (map activated ps) s'
      = Done (Some (map (data_call name) ps)) s'" for name and s' :: ril
    using cgdcont_lines_read [OF assms(4,5), of "[]"] by simp
  with first second assms(2,3) show ?thesis
    by (simp add: requestDataCallList_def requestOrSendDataCallList_def hasWifiCapability_def run_ril
        cgact_lines_read [OF assms(4)] report_data_calls_def)
qed

lemma data_calls_reported_witness:
  "\<exists>t. requestDataCallList 7 (sample_ril RADIO_STATE_ON
      [([], False), (map Some (map cgact_line [(1, 1, ''IP'', ''net'', ''10.0.2.15'')] @ [''OK'']), False),
       ([], False), (map Some (map cgdcont_line [(1, 1, ''IP'', ''net'', ''10.0.2.15'')] @ [''OK'']), False)]) = Done () t
    \<and> acts t = [Complete 7 RIL_E_SUCCESS (PDataCalls [data_call ''eth0'' (1, 1, ''IP'', ''net'', ''10.0.2.15'')])]"
proof -
  let ?p = "[(1, 1, ''IP'', ''net'', ''10.0.2.15'')]"
  have "gets_reply (map cgact_line ?p) ''OK'' (([], False) # (map Some (map cgdcont_line ?p @ [''OK'']), False) # [])
    (sample_ril RADIO_STATE_ON [([], False), (map Some (map cgact_line ?p @ [''OK'']), False),
       ([], False), (map Some (map cgdcont_line ?p @ [''OK'']), False)])"
    by (simp add: gets_reply_def del: cgact_line.simps cgdcont_line.simps)
  from data_calls_reported [OF this, of 7] show ?thesis
    by (simp add: int32_defs getRadioInterfaceName_def del: cgact_line.simps cgdcont_line.simps data_call.simps)
qed

end
