(* ===== verification/RilCdma.thy ===== *)
theory RilCdma
  imports RilNetwork
begin

text \<open>
  The CDMA requests of \<^verbatim>\<open>reference-ril.c\<close>, the requests answered with fixed values, and those that
  report one line of the modem.
\<close>

section \<open>CDMA\<close>

definition requestCdmaPrlVersion :: "RIL_Token \<Rightarrow> unit rprog" where
  "requestCdmaPrlVersion t =
     bnd (send_singleline ''AT+WPRL?'' ''+WPRL:'' Null) (\<lambda>(err, r).
     bnd (failed err r) (\<lambda>bad.
       if bad then RIL_onRequestComplete t RIL_E_GENERIC_FAILURE PNone
       else bnd (first_line_of r) (\<lambda>line.
         let (err, cur) = at_tok_start (Some line) in
         if err < 0 then RIL_onRequestComplete t RIL_E_GENERIC_FAILURE PNone
         else let (err, _, responseStr) = at_tok_nextstr cur None in
           if err < 0 \<or> responseStr = None then RIL_onRequestComplete t RIL_E_GENERIC_FAILURE PNone
           else RIL_onRequestComplete t RIL_E_SUCCESS (PStr responseStr))))"

definition requestCdmaBaseBandVersion :: "RIL_Token \<Rightarrow> unit rprog" where
  "requestCdmaBaseBandVersion t = RIL_onRequestComplete t RIL_E_SUCCESS (PStr (Some ''1.0.0.0''))"

definition requestDeviceIdentity :: "RIL_Token \<Rightarrow> unit rprog" where
  "requestDeviceIdentity t =
     bnd (send_numeric ''AT+CGSN'' Null) (\<lambda>(err, r).
     bnd (failed err r) (\<lambda>bad.
       if bad then RIL_onRequestComplete t RIL_E_GENERIC_FAILURE PNone
       else
         bnd TECH_BIT (\<lambda>bit.
         bnd (first_line_of r) (\<lambda>line.
           let base = [Some ''----'', Some ''----'', Some ''77777777'', Some []] in
           RIL_onRequestComplete t RIL_E_SUCCESS
             (PStrs (if bit = MDM_CDMA then base[3 := Some line] else base[0 := Some line]))))))"

text \<open>The return code of the second tokenizer call is not looked at.\<close>

definition requestCdmaGetSubscriptionSource :: "RIL_Token \<Rightarrow> unit rprog" where
  "requestCdmaGetSubscriptionSource t =
     bnd (send_singleline ''AT+CCSS?'' ''+CCSS:'' Null) (\<lambda>(err, r).
     bnd (failed err r) (\<lambda>bad.
       if bad then RIL_onRequestComplete t RIL_E_GENERIC_FAILURE PNone
       else bnd (first_line_of r) (\<lambda>line.
         let (err, cur) = at_tok_start (Some line) in
         if err < 0 then RIL_onRequestComplete t RIL_E_GENERIC_FAILURE PNone
         else let (_, _, response) = at_tok_nextint cur 0 in
           RIL_onRequestComplete t RIL_E_SUCCESS (PInts [response]))))"

definition requestCdmaSetSubscriptionSource :: "req_data \<Rightarrow> RIL_Token \<Rightarrow> unit rprog" where
  "requestCdmaSetSubscriptionSource data t =
     bnd (gets (\<lambda>s. sizeof_ptr (env s))) (\<lambda>psize.
     if data = DNone \<or> datalen psize data = 0 then RIL_onRequestComplete t RIL_E_GENERIC_FAILURE PNone
     else bnd (data_int data 0) (\<lambda>ss.
       bnd (send (''AT+CCSS='' @ fmt_d ss) Null) (\<lambda>(err, r).
       bnd (failed err r) (\<lambda>bad.
         if bad then RIL_onRequestComplete t RIL_E_GENERIC_FAILURE PNone
         else andthen (RIL_onRequestComplete t RIL_E_SUCCESS PNone)
           (RIL_onUnsolicitedResponse RIL_UNSOL_CDMA_SUBSCRIPTION_SOURCE_CHANGED (PInts [ss]))))))"

definition requestCdmaSubscription :: "RIL_Token \<Rightarrow> unit rprog" where
  "requestCdmaSubscription t =
     RIL_onRequestComplete t RIL_E_SUCCESS
       (PStrs [Some ''8587777777'', Some ''1'', Some ''1'', Some ''8587777777'', Some ''1''])"

definition requestCdmaGetRoamingPreference :: "RIL_Token \<Rightarrow> unit rprog" where
  "requestCdmaGetRoamingPreference t =
     bnd (send_singleline ''AT+WRMP?'' ''+WRMP:'' Null) (\<lambda>(err, r). complete_with_int t err r)"

definition requestCdmaSetRoamingPreference :: "req_data \<Rightarrow> RIL_Token \<Rightarrow> unit rprog" where
  "requestCdmaSetRoamingPreference data t =
     bnd (data_int data 0) (\<lambda>pref.
     bnd (send (''AT+WRMP='' @ fmt_d pref) Null) (\<lambda>(err, r).
     bnd (failed err r) (\<lambda>bad.
       if bad then RIL_onRequestComplete t RIL_E_GENERIC_FAILURE PNone
       else RIL_onRequestComplete t RIL_E_SUCCESS PNone)))"

definition requestExitEmergencyMode :: "RIL_Token \<Rightarrow> unit rprog" where
  "requestExitEmergencyMode t =
     bnd (send ''AT+WSOS=0'' Null) (\<lambda>(err, r).
     bnd (failed err r) (\<lambda>bad.
       if bad then RIL_onRequestComplete t RIL_E_GENERIC_FAILURE PNone
       else RIL_onRequestComplete t RIL_E_SUCCESS PNone))"

section \<open>Fixed values and single lines\<close>

definition requestGetHardwareConfig :: "RIL_Token \<Rightarrow> unit rprog" where
  "requestGetHardwareConfig t = RIL_onRequestComplete t RIL_E_SUCCESS (PHwConfig (-1))"

definition requestGetTtyMode :: "RIL_Token \<Rightarrow> unit rprog" where
  "requestGetTtyMode t =
     bnd getSIMStatus (\<lambda>sim.
       RIL_onRequestComplete t RIL_E_SUCCESS (PInts [if sim = SIM_READY then 1 else 0]))"

definition requestGetRadioCapability :: "RIL_Token \<Rightarrow> unit rprog" where
  "requestGetRadioCapability t =
     RIL_onRequestComplete t RIL_E_SUCCESS (PRadioCapability
       \<lparr>rc_version = 1, rc_session = 0, rc_phase = 0, rc_rat = 0, rc_uuid = [], rc_status = 1\<rparr>)"

definition requestGetMute :: "RIL_Token \<Rightarrow> unit rprog" where
  "requestGetMute t = RIL_onRequestComplete t RIL_E_SUCCESS (PInts [0])"

definition requestSendUSSD :: "RIL_Token \<Rightarrow> unit rprog" where
  "requestSendUSSD t = RIL_onRequestComplete t RIL_E_REQUEST_NOT_SUPPORTED PNone"

text \<open>The cases of \<^verbatim>\<open>onRequest\<close> that report the line of a numeric response.\<close>

definition complete_with_line :: "RIL_Token \<Rightarrow> string \<Rightarrow> unit rprog" where
  "complete_with_line t command =
     bnd (send_numeric command Null) (\<lambda>(err, r).
     bnd (failed err r) (\<lambda>bad.
       if bad then RIL_onRequestComplete t RIL_E_GENERIC_FAILURE PNone
       else bnd (first_line_of r) (\<lambda>line. RIL_onRequestComplete t RIL_E_SUCCESS (PStr (Some line)))))"

definition requestCancelUssd :: "RIL_Token \<Rightarrow> unit rprog" where
  "requestCancelUssd t =
     bnd getSIMStatus (\<lambda>sim.
       if sim = SIM_ABSENT then RIL_onRequestComplete t RIL_E_RADIO_NOT_AVAILABLE PNone
       else complete_with_line t ''AT+CUSD=2'')"

definition requestImsRegistrationState :: "RIL_Token \<Rightarrow> unit rprog" where
  "requestImsRegistrationState t =
     bnd (gets s_ims_registered) (\<lambda>reg. bnd (gets s_ims_format) (\<lambda>fmt.
       if fmt \<noteq> -1 then RIL_onRequestComplete t RIL_E_SUCCESS (PInts [reg, fmt])
       else RIL_onRequestComplete t RIL_E_GENERIC_FAILURE PNone))"

definition requestLce :: "RIL_Token \<Rightarrow> unit rprog" where
  "requestLce t =
     bnd getSIMStatus (\<lambda>sim.
       if sim = SIM_ABSENT then RIL_onRequestComplete t RIL_E_SIM_ABSENT PNone
       else RIL_onRequestComplete t RIL_E_LCE_NOT_SUPPORTED PNone)"

section \<open>Completions\<close>

lemma once_complete_with_line [count_intros]: "once t (complete_with_line t command)"
  unfolding complete_with_line_def by (intro count_intros count_rules)

lemma once_cdma [count_intros]:
  "once t (requestCdmaPrlVersion t)" "once t (requestCdmaBaseBandVersion t)" "once t (requestDeviceIdentity t)"
  "once t (requestCdmaGetSubscriptionSource t)" "once t (requestCdmaSetSubscriptionSource data t)"
  "once t (requestCdmaSubscription t)" "once t (requestCdmaGetRoamingPreference t)"
  "once t (requestCdmaSetRoamingPreference data t)" "once t (requestExitEmergencyMode t)"
  "once t (requestGetHardwareConfig t)" "once t (requestGetTtyMode t)" "once t (requestGetRadioCapability t)"
  "once t (requestGetMute t)" "once t (requestSendUSSD t)" "once t (requestCancelUssd t)"
  "once t (requestImsRegistrationState t)" "once t (requestLce t)"
  unfolding requestCdmaPrlVersion_def requestCdmaBaseBandVersion_def requestDeviceIdentity_def
    requestCdmaGetSubscriptionSource_def requestCdmaSetSubscriptionSource_def requestCdmaSubscription_def
    requestCdmaGetRoamingPreference_def requestCdmaSetRoamingPreference_def requestExitEmergencyMode_def
    requestGetHardwareConfig_def requestGetTtyMode_def requestGetRadioCapability_def requestGetMute_def
    requestSendUSSD_def requestCancelUssd_def requestImsRegistrationState_def requestLce_def
  by (intro count_intros count_rules)+

end
