(* ===== verification/RilDispatch.thy ===== *)
theory RilDispatch
  imports RilCalls RilSms RilNetwork RilData RilCdma
begin

text \<open>
  The entry points of \<^verbatim>\<open>reference-ril.c\<close>: \<^verbatim>\<open>onRequest\<close> with its gating by the radio state,
  the timed callbacks, the initialisation of the modem, the main loop and \<^verbatim>\<open>RIL_Init\<close>.
\<close>

section \<open>onRequest\<close>

text \<open>The requests that are processed although the radio is off.\<close>

definition allowed_when_off :: "int list" where
  "allowed_when_off =
    [RIL_REQUEST_BASEBAND_VERSION, RIL_REQUEST_CDMA_GET_SUBSCRIPTION_SOURCE,
     RIL_REQUEST_CDMA_QUERY_PREFERRED_VOICE_PRIVACY_MODE, RIL_REQUEST_CDMA_SET_PREFERRED_VOICE_PRIVACY_MODE,
     RIL_REQUEST_CDMA_SET_ROAMING_PREFERENCE, RIL_REQUEST_CDMA_SET_SUBSCRIPTION_SOURCE,
     RIL_REQUEST_CDMA_SUBSCRIPTION, RIL_REQUEST_DEVICE_IDENTITY, RIL_REQUEST_EXIT_EMERGENCY_CALLBACK_MODE,
     RIL_REQUEST_GET_ACTIVITY_INFO, RIL_REQUEST_GET_CARRIER_RESTRICTIONS, RIL_REQUEST_GET_CURRENT_CALLS,
     RIL_REQUEST_GET_IMEI, RIL_REQUEST_GET_MUTE, RIL_REQUEST_GET_NEIGHBORING_CELL_IDS,
     RIL_REQUEST_GET_PREFERRED_NETWORK_TYPE, RIL_REQUEST_GET_RADIO_CAPABILITY, RIL_REQUEST_GET_SIM_STATUS,
     RIL_REQUEST_NV_RESET_CONFIG, RIL_REQUEST_QUERY_AVAILABLE_BAND_MODE,
     RIL_REQUEST_QUERY_NETWORK_SELECTION_MODE, RIL_REQUEST_QUERY_TTY_MODE, RIL_REQUEST_RADIO_POWER,
     RIL_REQUEST_SET_BAND_MODE, RIL_REQUEST_SET_CARRIER_RESTRICTIONS, RIL_REQUEST_SET_LOCATION_UPDATES,
     RIL_REQUEST_SET_PREFERRED_NETWORK_TYPE, RIL_REQUEST_SET_TTY_MODE,
     RIL_REQUEST_SET_UNSOL_CELL_INFO_LIST_RATE, RIL_REQUEST_STOP_LCE, RIL_REQUEST_VOICE_RADIO_TECH]"

text \<open>The requests that are completed with success and nothing else.\<close>

definition done_nothing :: "int list" where
  "done_nothing =
    [RIL_REQUEST_SET_INITIAL_ATTACH_APN, RIL_REQUEST_ALLOW_DATA, RIL_REQUEST_ENTER_NETWORK_DEPERSONALIZATION,
     RIL_REQUEST_SET_CLIR, RIL_REQUEST_SET_SUPP_SVC_NOTIFICATION, RIL_REQUEST_SET_BAND_MODE,
     RIL_REQUEST_QUERY_AVAILABLE_BAND_MODE, RIL_REQUEST_GET_NEIGHBORING_CELL_IDS,
     RIL_REQUEST_SET_LOCATION_UPDATES, RIL_REQUEST_SET_TTY_MODE,
     RIL_REQUEST_CDMA_SET_PREFERRED_VOICE_PRIVACY_MODE]"

text \<open>A CDMA request on another technology is answered without asking the modem.\<close>

definition if_cdma :: "unit rprog \<Rightarrow> unit rprog \<Rightarrow> unit rprog" where
  "if_cdma m other = bnd TECH_BIT (\<lambda>bit. if bit = MDM_CDMA then m else other)"

definition dispatch :: "int \<Rightarrow> req_data \<Rightarrow> RIL_Token \<Rightarrow> unit rprog" where
  "dispatch request data t =
    (if request = RIL_REQUEST_GET_SIM_STATUS then
       bnd getCardStatus (\<lambda>card. RIL_onRequestComplete t RIL_E_SUCCESS (PCard card))
     else if request = RIL_REQUEST_GET_CURRENT_CALLS then requestGetCurrentCalls t
     else if request = RIL_REQUEST_DIAL then requestDial data t
     else if request = RIL_REQUEST_HANGUP then requestHangup data t
     else if request \<in> set [RIL_REQUEST_HANGUP_WAITING_OR_BACKGROUND,
         RIL_REQUEST_HANGUP_FOREGROUND_RESUME_BACKGROUND, RIL_REQUEST_SWITCH_WAITING_OR_HOLDING_AND_ACTIVE,
         RIL_REQUEST_CONFERENCE, RIL_REQUEST_UDUB] then requestCallSelection t request
     else if request = RIL_REQUEST_ANSWER then requestAnswer t
     else if request = RIL_REQUEST_SEPARATE_CONNECTION then requestSeparateConnection data t
     else if request = RIL_REQUEST_SIGNAL_STRENGTH then requestSignalStrength t
     else if request \<in> set [RIL_REQUEST_VOICE_REGISTRATION_STATE, RIL_REQUEST_DATA_REGISTRATION_STATE] then
       requestRegistrationState request t
     else if request = RIL_REQUEST_OPERATOR then requestOperator t
     else if request = RIL_REQUEST_RADIO_POWER then requestRadioPower data t
     else if request = RIL_REQUEST_DTMF then requestDtmf data t
     else if request \<in> set [RIL_REQUEST_SEND_SMS, RIL_REQUEST_SEND_SMS_EXPECT_MORE] then requestSendSMS data t
     else if request = RIL_REQUEST_CDMA_SEND_SMS then requestCdmaSendSMS data t
     else if request = RIL_REQUEST_IMS_SEND_SMS then requestImsSendSMS data t
     else if request = RIL_REQUEST_SIM_OPEN_CHANNEL then requestSimOpenChannel data t
     else if request = RIL_REQUEST_SIM_CLOSE_CHANNEL then requestSimCloseChannel data t
     else if request = RIL_REQUEST_SIM_TRANSMIT_APDU_CHANNEL then requestSimTransmitApduChannel data t
     else if request = RIL_REQUEST_SETUP_DATA_CALL then requestSetupDataCall data t
     else if request = RIL_REQUEST_DEACTIVATE_DATA_CALL then requestDeactivateDataCall t
     else if request = RIL_REQUEST_SMS_ACKNOWLEDGE then requestSMSAcknowledge data t
     else if request = RIL_REQUEST_GET_IMSI then complete_with_line t ''AT+CIMI''
     else if request = RIL_REQUEST_GET_IMEI then complete_with_line t ''AT+CGSN''
     else if request = RIL_REQUEST_SIM_IO then requestSIM_IO data t
     else if request = RIL_REQUEST_SEND_USSD then requestSendUSSD t
     else if request = RIL_REQUEST_CANCEL_USSD then requestCancelUssd t
     else if request = RIL_REQUEST_SET_NETWORK_SELECTION_AUTOMATIC then requestSetNetworkSelectionAutomatic t
     else if request = RIL_REQUEST_DATA_CALL_LIST then requestDataCallList t
     else if request = RIL_REQUEST_QUERY_NETWORK_SELECTION_MODE then requestQueryNetworkSelectionMode t
     else if request \<in> set [RIL_REQUEST_OEM_HOOK_RAW, RIL_REQUEST_OEM_HOOK_STRINGS] then
       RIL_onRequestComplete t RIL_E_SUCCESS (PRaw data)
     else if request = RIL_REQUEST_WRITE_SMS_TO_SIM then requestWriteSmsToSim data t
     else if request = RIL_REQUEST_DELETE_SMS_ON_SIM then requestDeleteSmsOnSim data t
     else if request \<in> set [RIL_REQUEST_ENTER_SIM_PIN, RIL_REQUEST_ENTER_SIM_PUK, RIL_REQUEST_ENTER_SIM_PIN2,
         RIL_REQUEST_ENTER_SIM_PUK2, RIL_REQUEST_CHANGE_SIM_PIN, RIL_REQUEST_CHANGE_SIM_PIN2] then
       requestEnterSimPin data t
     else if request = RIL_REQUEST_IMS_REGISTRATION_STATE then requestImsRegistrationState t
     else if request = RIL_REQUEST_VOICE_RADIO_TECH then requestVoiceRadioTech t
     else if request = RIL_REQUEST_SET_PREFERRED_NETWORK_TYPE then requestSetPreferredNetworkType data t
     else if request = RIL_REQUEST_GET_PREFERRED_NETWORK_TYPE then requestGetPreferredNetworkType t
     else if request = RIL_REQUEST_GET_CELL_INFO_LIST then requestGetCellInfoList t
     else if request = RIL_REQUEST_SET_UNSOL_CELL_INFO_LIST_RATE then requestSetCellInfoListRate data t
     else if request = RIL_REQUEST_GET_HARDWARE_CONFIG then requestGetHardwareConfig t
     else if request = RIL_REQUEST_SHUTDOWN then requestShutdown t
     else if request = RIL_REQUEST_QUERY_TTY_MODE then requestGetTtyMode t
     else if request = RIL_REQUEST_GET_RADIO_CAPABILITY then requestGetRadioCapability t
     else if request = RIL_REQUEST_GET_MUTE then requestGetMute t
     else if request \<in> set done_nothing then RIL_onRequestComplete t RIL_E_SUCCESS PNone
     else if request = RIL_REQUEST_BASEBAND_VERSION then requestCdmaBaseBandVersion t
     else if request = RIL_REQUEST_DEVICE_IDENTITY then requestDeviceIdentity t
     else if request = RIL_REQUEST_CDMA_SUBSCRIPTION then requestCdmaSubscription t
     else if request = RIL_REQUEST_CDMA_GET_SUBSCRIPTION_SOURCE then requestCdmaGetSubscriptionSource t
     else if request \<in> set [RIL_REQUEST_START_LCE, RIL_REQUEST_STOP_LCE, RIL_REQUEST_PULL_LCEDATA] then
       requestLce t
     else if request = RIL_REQUEST_CDMA_QUERY_ROAMING_PREFERENCE then
       if_cdma (requestCdmaGetRoamingPreference t) (RIL_onRequestComplete t RIL_E_REQUEST_NOT_SUPPORTED PNone)
     else if request = RIL_REQUEST_CDMA_SET_SUBSCRIPTION_SOURCE then
       if_cdma (requestCdmaSetSubscriptionSource data t) (RIL_onRequestComplete t RIL_E_SUCCESS PNone)
     else if request = RIL_REQUEST_CDMA_SET_ROAMING_PREFERENCE then
       if_cdma (requestCdmaSetRoamingPreference data t) (RIL_onRequestComplete t RIL_E_SUCCESS PNone)
     else if request = RIL_REQUEST_EXIT_EMERGENCY_CALLBACK_MODE then
       if_cdma (requestExitEmergencyMode t) (RIL_onRequestComplete t RIL_E_SUCCESS PNone)
     else RIL_onRequestComplete t RIL_E_REQUEST_NOT_SUPPORTED PNone)"

definition onRequest :: "int \<Rightarrow> req_data \<Rightarrow> RIL_Token \<Rightarrow> unit rprog" where
  "onRequest request data t =
     bnd (gets sState) (\<lambda>st.
       if st = RADIO_STATE_UNAVAILABLE \<and> request \<noteq> RIL_REQUEST_GET_SIM_STATUS then
         RIL_onRequestComplete t RIL_E_RADIO_NOT_AVAILABLE PNone
       else if st = RADIO_STATE_OFF \<and> request \<notin> set allowed_when_off then
         RIL_onRequestComplete t RIL_E_RADIO_NOT_AVAILABLE PNone
       else dispatch request data t)"

definition currentState :: "RIL_RadioState rprog" where
  "currentState = gets sState"

definition onSupports :: "int \<Rightarrow> int" where
  "onSupports requestCode = 1"

definition onCancel :: "RIL_Token \<Rightarrow> unit rprog" where
  "onCancel t = ret ()"

definition getVersion :: string where
  "getVersion = ''android reference-ril 1.0''"

section \<open>Initialisation\<close>

definition initializeCallback :: "unit rprog" where
  "initializeCallback = seqs
    [setRadioState RADIO_STATE_OFF,
     bnd (at_handshake ril_handlers) (\<lambda>_. ret ()),
     probeForModemMode,
     send_ignore ''ATE0Q0V1'',
     send_ignore ''ATS0=0'',
     send_ignore ''AT+CMEE=1'',
     bnd (send ''AT+CREG=2'' Null) (\<lambda>(err, r). bnd (failed err r) (\<lambda>bad. whenever bad (send_ignore ''AT+CREG=1''))),
     send_ignore ''AT+CGREG=1'',
     send_ignore ''AT+CCWA=1'',
     send_ignore ''AT+CMOD=0'',
     send_ignore ''AT+CMUT=0'',
     send_ignore ''AT+CSSN=0,1'',
     send_ignore ''AT+COLP=0'',
     send_ignore ''AT+CSCS=\"HEX\"'',
     send_ignore ''AT+CUSD=1'',
     send_ignore ''AT+CGEREP=1,0'',
     send_ignore ''AT+CMGF=0'',
     bnd (gets (\<lambda>s. USE_TI_COMMANDS (env s))) (\<lambda>ti.
       whenever ti (andthen (send_ignore ''AT%CPI=3'') (send_ignore ''AT%CSTAT=1''))),
     bnd isRadioOn (\<lambda>on. whenever (on > 0) (setRadioState RADIO_STATE_ON))]"

text \<open>The timed callbacks, when the event loop fires them.\<close>

fun run_timed :: "timed_callback \<Rightarrow> unit rprog" where
  "run_timed CB_initializeCallback = initializeCallback"
| "run_timed CB_pollSIMState = pollSIMState"
| "run_timed CB_sendCallStateChanged = sendCallStateChanged"
| "run_timed CB_onDataCallListChanged = onDataCallListChanged"

section \<open>The main loop and RIL_Init\<close>

datatype at_device = TcpPort int | LocalSocket cptr | TtyDevice string | NoDevice

text \<open>Which device the main loop opens; with none it retries for ever.\<close>

definition choose_device :: "int \<Rightarrow> bool \<Rightarrow> cptr \<Rightarrow> at_device" where
  "choose_device s_port s_device_socket s_device_path =
     (if s_port > 0 then TcpPort s_port
      else if s_device_socket then LocalSocket s_device_path
      else case s_device_path of Some p \<Rightarrow> TtyDevice p | None \<Rightarrow> NoDevice)"

text \<open>One round of the loop with the descriptor it opened, up to \<^verbatim>\<open>waitForClose\<close>.\<close>

definition mainLoop_open :: "int \<Rightarrow> unit rprog" where
  "mainLoop_open fd = seqs
    [modify (\<lambda>s. s\<lparr>s_closed := False\<rparr>),
     bnd (at_open fd) (\<lambda>_. ret ()),
     RIL_requestTimedCallback CB_initializeCallback 0]"

text \<open>\<^verbatim>\<open>waitForClose\<close> returns once this holds.\<close>

definition waitForClose_done :: "ril \<Rightarrow> bool" where
  "waitForClose_done s = s_closed s"

definition mainLoop_start :: "unit rprog" where
  "mainLoop_start = andthen at_set_on_reader_closed at_set_on_timeout"

text \<open>
  The option loop over what \<^verbatim>\<open>getopt\<close> returns: port, path and the socket flag; \<open>None\<close> when it
  prints the usage and gives up.
\<close>

fun ril_options :: "(char \<times> string) list \<Rightarrow> int \<times> cptr \<times> bool \<Rightarrow> (int \<times> cptr \<times> bool) option" where
  "ril_options [] cfg = Some cfg"
| "ril_options ((opt, optarg) # opts) (port, path, sock) =
     (if opt = CHR ''p'' then
        (let p = c_atoi optarg in if p = 0 then None else ril_options opts (p, path, sock))
      else if opt = CHR ''d'' then ril_options opts (port, Some optarg, sock)
      else if opt = CHR ''s'' then ril_options opts (port, Some optarg, True)
      else if opt = CHR ''c'' then ril_options opts (port, path, sock)
      else None)"

definition RIL_Init :: "(char \<times> string) list \<Rightarrow> at_device option" where
  "RIL_Init opts =
     (case ril_options opts (-1, None, False) of
        None \<Rightarrow> None
      | Some (port, path, sock) \<Rightarrow>
          if port < 0 \<and> path = None then None else Some (choose_device port sock path))"

section \<open>Each request is completed once\<close>

lemma once_if_cdma [count_intros]: "once t a \<Longrightarrow> once t b \<Longrightarrow> once t (if_cdma a b)"
  unfolding if_cdma_def by (intro count_intros count_rules)

definition miscounted :: "int list" where
  "miscounted = [RIL_REQUEST_SIGNAL_STRENGTH, RIL_REQUEST_SMS_ACKNOWLEDGE,
     RIL_REQUEST_SET_NETWORK_SELECTION_AUTOMATIC]"

lemma once_dispatch:
  assumes "request \<notin> set miscounted"
  shows "once t (dispatch request data t)"
proof -
  have "request \<noteq> RIL_REQUEST_SIGNAL_STRENGTH" "request \<noteq> RIL_REQUEST_SMS_ACKNOWLEDGE"
    "request \<noteq> RIL_REQUEST_SET_NETWORK_SELECTION_AUTOMATIC"
    using assms by (auto simp: miscounted_def)
  then have eq: "(if request = RIL_REQUEST_SIGNAL_STRENGTH then a else b) = b"
    "(if request = RIL_REQUEST_SMS_ACKNOWLEDGE then a else b) = b"
    "(if request = RIL_REQUEST_SET_NETWORK_SELECTION_AUTOMATIC then a else b) = b" for a b :: "unit rprog"
    by simp_all
  show ?thesis unfolding dispatch_def eq by (intro count_intros count_rules)
qed

lemma once_onRequest:
  assumes "request \<notin> set miscounted"
  shows "once t (onRequest request data t)"
  unfolding onRequest_def
  by (intro quiet_base once_bnd once_if once_complete once_dispatch [OF assms])

lemma quiet_initializeCallback: "quiet t initializeCallback"
  unfolding initializeCallback_def
  by (rule quiet_seqs) (auto intro!: count_intros count_rules)

end
