(* ===== verification/RilInvariant.thy ===== *)
theory RilInvariant
  imports RilDispatch
begin

text \<open>
  What holds over the whole life of the RIL: a relation that the library calls, the sends and
  the changes of the radio state keep to is kept by every handler (one locale, walked once
  through the code), and its instances: the invariants of the reachable states of the step
  relation of requests, timed callbacks, reader turns and re-openings.
\<close>

section \<open>Relations every handler keeps\<close>

text \<open>Only fields change that no such relation looks at.\<close>

definition soft :: "ril \<Rightarrow> ril \<Rightarrow> bool" where
  "soft s t \<longleftrightarrow> chan_same s t \<and> sState t = sState s \<and> s_closed t = s_closed s \<and> acts t = acts s"

locale ril_frame = frame R for R :: "ril \<Rightarrow> ril \<Rightarrow> bool" +
  fixes tok :: RIL_Token
  assumes R_complete: "steps R (RIL_onRequestComplete tok e p)"
    and R_unsol: "steps R (RIL_onUnsolicitedResponse u p)"
    and R_timed: "steps R (RIL_requestTimedCallback c d)"
    and R_soft: "soft s t \<Longrightarrow> R s t"
    and R_send: "(needs_prefix ty \<Longrightarrow> pfx \<noteq> None) \<Longrightarrow> steps R (at_send_command_full ril_handlers com ty pfx pdu 0 pp)"
    and R_handshake: "steps R (at_handshake ril_handlers)"
    and R_setstate: "steps R h \<Longrightarrow> steps R (setRadioState_with h n)"
begin

lemma R_modify: "(\<And>s. soft s (f s)) \<Longrightarrow> steps R (modify f)"
  by (rule steps_modify) (rule R_soft)

lemma R_mods:
  "steps R (modify (\<lambda>s. s\<lparr>s_incomingOrWaitingLine := v\<rparr>))" "steps R (modify (\<lambda>s. s\<lparr>s_repollCallsCount := v\<rparr>))"
  "steps R (modify (\<lambda>s. s\<lparr>s_expectAnswer := v\<rparr>))" "steps R (modify (\<lambda>s. s\<lparr>s_expectAnswer := v, s_repollCallsCount := w\<rparr>))"
  "steps R (modify (\<lambda>s. s\<lparr>s_lac := v, s_cid := w\<rparr>))" "steps R (modify (\<lambda>s. s\<lparr>s_mcc := v\<rparr>))"
  "steps R (modify (\<lambda>s. s\<lparr>s_mnc := v\<rparr>))" "steps R (modify (\<lambda>s. s\<lparr>s_cell_info_rate_ms := v\<rparr>))"
  "steps R (modify (\<lambda>s. s\<lparr>sMdmInfo := g s\<rparr>))" "steps R (modify (\<lambda>s. s\<lparr>ifaces := k s\<rparr>))"
  by (auto intro!: R_modify simp: soft_def chan_same_def at_chan.defs)

lemma steps_case_resp:
  "steps R a \<Longrightarrow> steps R b \<Longrightarrow> (\<And>p. steps R (f p)) \<Longrightarrow>
   steps R (case r of Uninit \<Rightarrow> a | Null \<Rightarrow> b | Resp p \<Rightarrow> f p)"
  by (simp split: resp.split)

lemma R_need: "steps R (need_intermediate pp er)"
  unfolding need_intermediate_def at_response_free_def by (intro frame_rules steps_case_resp)

lemma R_sends:
  "steps R (at_send_command ril_handlers c pp)" "steps R (at_send_command_singleline ril_handlers c pfx pp)"
  "steps R (at_send_command_numeric ril_handlers c pp)" "steps R (at_send_command_sms ril_handlers c pdu pfx pp)"
  "steps R (at_send_command_multiline ril_handlers c pfx pp)"
  unfolding at_send_command_def at_send_command_singleline_def at_send_command_numeric_def
    at_send_command_sms_def at_send_command_multiline_def
  by (auto intro!: steps_bnd R_need R_send simp: needs_prefix_def)

lemma R_small:
  "steps R (shl1 n)" "steps R (deref p)" "steps R (techFromModemType n)" "steps R TECH" "steps R TECH_BIT"
  "steps R (the_resp r)" "steps R (failed err r)" "steps R (first_line_of r)"
  "steps R (send_ignore c)" "steps R (array_at a j)" "steps R (put i v xs)" "steps R (set_mdm f)"
  "steps R (at_response_free r)"
proof -
  show 1: "steps R (shl1 n)" for n unfolding shl1_def by (intro frame_rules)
  show 2: "steps R (deref p)" for p unfolding deref_def by (intro frame_rules)
  show 3: "steps R (techFromModemType n)" for n unfolding techFromModemType_def by (intro frame_rules 1)
  show 4: "steps R TECH" unfolding TECH_def by (intro frame_rules)
  show "steps R TECH_BIT" unfolding TECH_BIT_def by (intro frame_rules 1 4)
  show 5: "steps R (the_resp r)" for r by (cases r) (simp_all add: steps_crash steps_ret)
  show "steps R (failed err r)" unfolding failed_def by (intro frame_rules 5)
  show "steps R (first_line_of r)" unfolding first_line_of_def by (intro frame_rules 5)
  show "steps R (send_ignore c)" unfolding send_ignore_def by (intro frame_rules R_sends)
  show "steps R (array_at a j)" unfolding array_at_def by (intro frame_rules)
  show "steps R (put i v xs)" unfolding put_def by (intro frame_rules)
  show "steps R (set_mdm f)" unfolding set_mdm_def by (intro R_mods)
  show "steps R (at_response_free r)" unfolding at_response_free_def by (intro frame_rules)
qed

lemma R_data: "steps R (data_int d i)" "steps R (data_str d i)"
  by ((cases "(d, i)" rule: data_int.cases, auto intro!: frame_rules),
      (cases "(d, i)" rule: data_str.cases, auto intro!: frame_rules))

lemmas R_basic = R_complete R_unsol R_timed R_mods R_sends R_small R_data R_handshake R_setstate

lemma R_sim:
  "steps R getSIMStatus" "steps R getCardStatus" "steps R onSIMReady" "steps R pollSIMState"
  "steps R onRadioPowerOn" "steps R isRadioOn" "steps R (setRadioState n)"
proof -
  show 1: "steps R getSIMStatus" unfolding getSIMStatus_def by (intro R_basic frame_rules)
  show "steps R getCardStatus" unfolding getCardStatus_def by (intro R_basic frame_rules 1)
  show 2: "steps R onSIMReady" unfolding onSIMReady_def by (intro R_basic frame_rules)
  show 3: "steps R pollSIMState" unfolding pollSIMState_def by (intro R_basic frame_rules 1 2)
  show 4: "steps R onRadioPowerOn" unfolding onRadioPowerOn_def by (intro R_basic frame_rules 3)
  show "steps R isRadioOn" unfolding isRadioOn_def by (intro R_basic frame_rules)
  show "steps R (setRadioState n)" unfolding setRadioState_def by (intro R_basic 4)
qed

lemma R_setRadioTechnology: "steps R (setRadioTechnology n)"
  unfolding setRadioTechnology_def by (intro R_basic frame_rules)

lemma R_read_techs: "steps R (read_techs cur techs)"
proof (induction cur techs rule: read_techs.induct)
  case (1 cur techs)
  then show ?case
    by (subst read_techs.simps) (auto intro!: R_small frame_rules split: prod.split)
qed

lemma R_modem:
  "steps R query_ctec" "steps R query_supported_techs" "steps R is_multimode_modem" "steps R probeForModemMode"
  "steps R (networkModePossible m i)"
proof -
  show 1: "steps R query_ctec" unfolding query_ctec_def by (intro R_basic frame_rules)
  show 2: "steps R query_supported_techs"
    unfolding query_supported_techs_def by (intro R_basic frame_rules R_read_techs)
  show 3: "steps R is_multimode_modem" unfolding is_multimode_modem_def by (intro R_basic frame_rules 1 2)
  show "steps R probeForModemMode" unfolding probeForModemMode_def by (intro R_basic frame_rules 3)
  show "steps R (networkModePossible m i)" unfolding networkModePossible_def by (intro R_basic frame_rules)
qed

lemma R_loops:
  "steps R (read_fields fs cur arr)" "steps R (operator_lines ls i response)" "steps R (scan_mccmnc str)"
  "steps R (cgdcont_lines name ls rs)" "steps R (qmi_wait qs n)"
proof -
  show "steps R (read_fields fs cur arr)"
  proof (induction fs arbitrary: cur arr)
    case (Cons f fs)
    obtain i hex where "f = (i, hex)" by (cases f)
    then show ?case by (simp only: read_fields.simps(2)) (intro R_basic frame_rules Cons)
  qed (simp add: steps_ret)
  show 1: "steps R (scan_mccmnc str)" for str unfolding scan_mccmnc_def by (intro R_basic frame_rules)
  show "steps R (operator_lines ls i response)"
  proof (induction ls arbitrary: i response)
    case (Cons l ls)
    show ?case unfolding operator_lines.simps(2) by (intro R_basic frame_rules Cons 1)
  qed (simp add: steps_ret)
  show "steps R (cgdcont_lines name ls rs)"
  proof (induction ls arbitrary: rs)
    case (Cons l ls)
    show ?case unfolding cgdcont_lines.simps(2) by (intro R_basic frame_rules Cons)
  qed (simp add: steps_ret)
  show "steps R (qmi_wait qs n)"
    by (induction qs n rule: qmi_wait.induct) (auto intro!: frame_rules)
qed

lemma R_iface:
  "steps R hasWifiCapability" "steps R (setInterfaceState name st)" "steps R (setup_qmi dev apn)"
  "steps R (setup_modem data psize apn)" "steps R (report_data_calls (Some tok) e p)" "steps R (report_data_calls None e p)"
proof -
  show 1: "steps R hasWifiCapability" unfolding hasWifiCapability_def by (intro frame_rules)
  show 2: "steps R (setInterfaceState name st)" for name st
    unfolding setInterfaceState_def by (intro R_basic frame_rules)
  show "steps R (setup_qmi dev apn)" unfolding setup_qmi_def by (intro R_loops frame_rules)
  show "steps R (setup_modem data psize apn)"
    unfolding setup_modem_def by (intro R_basic frame_rules 1 2 steps_seqs) (auto intro!: R_basic)
  show "steps R (report_data_calls (Some tok) e p)" "steps R (report_data_calls None e p)"
    unfolding report_data_calls_def by (auto intro!: R_basic)
qed

lemma R_dataCallList: "steps R (requestOrSendDataCallList (Some tok))" "steps R (requestOrSendDataCallList None)"
  unfolding requestOrSendDataCallList_def by (intro R_basic R_loops R_iface frame_rules)+

lemma R_parseRegistrationState: "steps R (parseRegistrationState str)"
  unfolding parseRegistrationState_def by (intro R_basic R_loops frame_rules)

lemma R_complete_with: "steps R (complete_with_int tok err r)" "steps R (complete_with_line tok command)"
  unfolding complete_with_int_def complete_with_line_def by (intro R_basic frame_rules)+

lemmas R_all = R_basic R_sim R_setRadioTechnology R_modem R_loops R_iface R_dataCallList
  R_parseRegistrationState R_complete_with frame_rules

lemma R_requests_sim:
  "steps R (requestRadioPower data tok)" "steps R (requestShutdown tok)" "steps R (requestEnterSimPin data tok)"
  "steps R (requestSimCloseChannel data tok)"
  unfolding requestRadioPower_def requestShutdown_def requestEnterSimPin_def requestSimCloseChannel_def
  by (intro R_all)+

lemma R_requests_data_cases:
  "steps R (requestSIM_IO data tok)" "steps R (requestSimOpenChannel data tok)"
  "steps R (requestSimTransmitApduChannel data tok)" "steps R (requestDial data tok)"
  "steps R (requestDtmf data tok)" "steps R (requestWriteSmsToSim data tok)" "steps R (requestCdmaSendSMS data tok)"
proof -
  show "steps R (requestSIM_IO data tok)"
    unfolding requestSIM_IO_def Let_def by (cases data) (auto intro!: R_all)
  show "steps R (requestSimOpenChannel data tok)"
    unfolding requestSimOpenChannel_def Let_def by (cases data) (auto intro!: R_all)
  show "steps R (requestSimTransmitApduChannel data tok)"
    unfolding requestSimTransmitApduChannel_def Let_def by (cases data) (auto intro!: R_all)
  show "steps R (requestDial data tok)"
    unfolding requestDial_def Let_def by (cases data) (auto intro!: R_all)
  show "steps R (requestDtmf data tok)"
    unfolding requestDtmf_def by (cases data) (auto intro!: R_all)
  show "steps R (requestWriteSmsToSim data tok)"
    unfolding requestWriteSmsToSim_def Let_def by (cases data) (auto intro!: R_all)
  show "steps R (requestCdmaSendSMS data tok)"
    unfolding requestCdmaSendSMS_def by (cases data) (auto intro!: R_all)
qed

lemma R_erroneous: "steps R (erroneous_answer prev inc calls)"
  unfolding erroneous_answer_def by (intro R_all)

lemma R_requests_calls:
  "steps R (requestGetCurrentCalls tok)" "steps R (requestHangup data tok)"
  "steps R (requestCallSelection tok req)" "steps R (requestAnswer tok)" "steps R (requestSeparateConnection data tok)"
  "steps R (requestSendSMS data tok)" "steps R (requestDeleteSmsOnSim data tok)"
  unfolding requestGetCurrentCalls_def requestHangup_def requestCallSelection_def requestAnswer_def
    requestSeparateConnection_def requestSendSMS_def requestDeleteSmsOnSim_def
  by (intro R_all R_erroneous)+

lemma R_requests_sms: "steps R (requestImsSendSMS data tok)" "steps R (requestSMSAcknowledge data tok)"
proof -
  have s: "steps R (requestSendSMS d tok)" for d
    unfolding requestSendSMS_def by (intro R_all)
  have c: "steps R (requestCdmaSendSMS d tok)" for d
    unfolding requestCdmaSendSMS_def by (cases d) (auto intro!: R_all)
  show "steps R (requestImsSendSMS data tok)"
    unfolding requestImsSendSMS_def by (cases data) (auto intro!: R_all s c)
  show "steps R (requestSMSAcknowledge data tok)"
    unfolding requestSMSAcknowledge_def by (intro R_all steps_seqs) (auto intro!: R_all)
qed

lemma R_requests_network:
  "steps R (requestSetPreferredNetworkType data tok)" "steps R (requestGetPreferredNetworkType tok)"
  "steps R (requestVoiceRadioTech tok)" "steps R (requestRegistrationState req tok)" "steps R (requestOperator tok)"
  "steps R (requestQueryNetworkSelectionMode tok)" "steps R (requestGetCellInfoList tok)"
  "steps R (requestSetCellInfoListRate data tok)" "steps R (requestSignalStrength tok)"
  "steps R (requestSetNetworkSelectionAutomatic tok)" "steps R (requestSetupDataCall data tok)"
  "steps R (requestDeactivateDataCall tok)" "steps R (requestDataCallList tok)"
  unfolding requestSetPreferredNetworkType_def requestGetPreferredNetworkType_def requestVoiceRadioTech_def
    requestRegistrationState_def requestOperator_def requestQueryNetworkSelectionMode_def
    requestGetCellInfoList_def requestSetCellInfoListRate_def requestSignalStrength_def
    requestSetNetworkSelectionAutomatic_def requestSetupDataCall_def requestDeactivateDataCall_def
    requestDataCallList_def
  by (intro R_all)+

lemma R_requests_cdma:
  "steps R (requestCdmaPrlVersion tok)" "steps R (requestCdmaBaseBandVersion tok)" "steps R (requestDeviceIdentity tok)"
  "steps R (requestCdmaGetSubscriptionSource tok)" "steps R (requestCdmaSetSubscriptionSource data tok)"
  "steps R (requestCdmaSubscription tok)" "steps R (requestCdmaGetRoamingPreference tok)"
  "steps R (requestCdmaSetRoamingPreference data tok)" "steps R (requestExitEmergencyMode tok)"
  "steps R (requestGetHardwareConfig tok)" "steps R (requestGetTtyMode tok)" "steps R (requestGetRadioCapability tok)"
  "steps R (requestGetMute tok)" "steps R (requestSendUSSD tok)" "steps R (requestCancelUssd tok)"
  "steps R (requestImsRegistrationState tok)" "steps R (requestLce tok)"
  unfolding requestCdmaPrlVersion_def requestCdmaBaseBandVersion_def requestDeviceIdentity_def
    requestCdmaGetSubscriptionSource_def requestCdmaSetSubscriptionSource_def requestCdmaSubscription_def
    requestCdmaGetRoamingPreference_def requestCdmaSetRoamingPreference_def requestExitEmergencyMode_def
    requestGetHardwareConfig_def requestGetTtyMode_def requestGetRadioCapability_def requestGetMute_def
    requestSendUSSD_def requestCancelUssd_def requestImsRegistrationState_def requestLce_def
  by (intro R_all)+

lemma R_onRequest: "steps R (onRequest req data tok)"
  unfolding onRequest_def dispatch_def if_cdma_def
  by (intro R_complete R_small R_sim R_requests_sim R_requests_data_cases R_requests_calls R_requests_sms
      R_requests_network R_requests_cdma R_complete_with frame_rules)

lemma R_initializeCallback: "steps R initializeCallback"
  unfolding initializeCallback_def
  by (rule steps_seqs) (auto intro!: R_all)

lemma R_run_timed: "steps R (run_timed c)"
  by (cases c)
    (auto simp: sendCallStateChanged_def onDataCallListChanged_def
      intro: R_initializeCallback R_sim R_dataCallList R_unsol)

end

section \<open>The relations\<close>

lemma soft_more:
  "soft s t \<Longrightarrow> sState t = sState s \<and> s_closed t = s_closed s \<and> acts t = acts s \<and> idle t = idle s
     \<and> on_reader t = on_reader s"
  by (auto simp: soft_def chan_same_def truncate_eq_iff idle_def)

lemma more_ril:
  assumes "at_chan.more t = at_chan.more (s :: ril)"
  shows "sState t = sState s \<and> s_closed t = s_closed s \<and> acts t = acts s"
  using assms by (cases s; cases t) simp

lemma act_keeps:
  "do_act a s = Done () t \<Longrightarrow> sState t = sState s \<and> s_closed t = s_closed s"
  by (auto simp: do_act_def modify_def)

text \<open>A closed channel means an unavailable radio: kept by every step, and made true by each
  change of the radio state.\<close>

definition closed_unavailable :: "ril \<Rightarrow> bool" where
  "closed_unavailable s \<longleftrightarrow> (s_closed s \<longrightarrow> sState s = RADIO_STATE_UNAVAILABLE)"

definition keeps :: "(ril \<Rightarrow> bool) \<Rightarrow> ril \<Rightarrow> ril \<Rightarrow> bool" where
  "keeps P s t \<longleftrightarrow> (P s \<longrightarrow> P t)"

interpretation keep: frame "keeps P" for P
  by unfold_locales (auto simp: keeps_def)

lemma closed_act: "steps (keeps closed_unavailable) (do_act a)"
  by (rule stepsI) (simp add: keeps_def closed_unavailable_def do_act_def modify_def)

lemma closed_lib:
  "steps (keeps closed_unavailable) (RIL_onRequestComplete tok e p)"
  "steps (keeps closed_unavailable) (RIL_onUnsolicitedResponse u p)"
  "steps (keeps closed_unavailable) (RIL_requestTimedCallback c d)"
  by (simp_all only: act_defs(2-4) closed_act)

lemma setRadioState_closed:
  assumes "setRadioState_with h n s = Done () t" and "steps (keeps closed_unavailable) h"
  shows "closed_unavailable t"
proof -
  let ?new = "if s_closed s then RADIO_STATE_UNAVAILABLE else n"
  define u where "u = (if sState s \<noteq> ?new \<or> s_closed s then s\<lparr>sState := ?new\<rparr> else s)"
  have u: "closed_unavailable u" by (auto simp: u_def closed_unavailable_def)
  let ?k = "\<lambda>now. whenever (now \<noteq> sState s)
      (seqs [RIL_onUnsolicitedResponse RIL_UNSOL_RESPONSE_RADIO_STATE_CHANGED PNone,
             RIL_onUnsolicitedResponse RIL_UNSOL_RESPONSE_SIM_STATUS_CHANGED PNone,
             bnd (gets sState) (\<lambda>st. whenever (st = RADIO_STATE_ON) h)])"
  have "setRadioState_with h n s = bnd (gets sState) ?k u"
    by (simp add: setRadioState_with_def u_def bnd_def gets_def andthen_def whenever_def modify_def ret_def)
  with assms(1) have run: "bnd (gets sState) ?k u = Done () t" by (simp only:)
  have "steps (keeps closed_unavailable) (bnd (gets sState) ?k)"
    by (intro keep.frame_rules keep.steps_seqs) (auto intro!: closed_lib keep.frame_rules assms(2))
  from stepsD [OF this run] u show ?thesis by (simp add: keeps_def)
qed

lemma closed_setRadioState:
  "steps (keeps closed_unavailable) h \<Longrightarrow> steps (keeps closed_unavailable) (setRadioState_with h n)"
  by (rule stepsI) (auto simp: keeps_def dest: setRadioState_closed)

lemma closed_soft: "soft s t \<Longrightarrow> keeps closed_unavailable s t"
  by (auto simp: keeps_def closed_unavailable_def dest: soft_more)

lemma closed_tech: "steps (keeps closed_unavailable) (setRadioTechnology n)"
  unfolding setRadioTechnology_def techFromModemType_def shl1_def TECH_def
  by (intro closed_lib keep.frame_rules keep.steps_modify)
    (auto simp: keeps_def closed_unavailable_def)

lemma closed_onUnsolicited: "steps (keeps closed_unavailable) (onUnsolicited l p)"
  unfolding onUnsolicited_def deref_def shl1_def
  by (intro closed_lib closed_tech closed_setRadioState keep.frame_rules keep.steps_modify)
    (auto simp: keeps_def closed_unavailable_def)

lemma closed_handlers: "steps (keeps closed_unavailable) onATReaderClosed"
  "steps (keeps closed_unavailable) onATTimeout"
proof -
  have *: "steps (keeps closed_unavailable) (seqs [at_close, modify (\<lambda>s. s\<lparr>s_closed := True\<rparr>),
     setRadioState_with (ret ()) RADIO_STATE_UNAVAILABLE])"
  proof (rule stepsI)
    fix s t and x :: unit
    assume "seqs [at_close, modify (\<lambda>s. s\<lparr>s_closed := True\<rparr>),
      setRadioState_with (ret ()) RADIO_STATE_UNAVAILABLE] s = Done x t"
    then obtain u where "setRadioState_with (ret ()) RADIO_STATE_UNAVAILABLE u = Done () t"
      by (auto simp: andthen_Done ret_def [where x = "()", THEN fun_cong])
    from setRadioState_closed [OF this keep.steps_ret] show "keeps closed_unavailable s t"
      by (simp add: keeps_def)
  qed
  show "steps (keeps closed_unavailable) onATReaderClosed" "steps (keeps closed_unavailable) onATTimeout"
    using * by (simp_all add: onATReaderClosed_def onATTimeout_def)
qed

interpretation closed_client: client_frame "keeps closed_unavailable" ril_handlers
  by unfold_locales
    (use closed_onUnsolicited closed_handlers in
      \<open>auto simp: ril_handlers_def keeps_def closed_unavailable_def dest: more_ril\<close>)

interpretation closed_frame: ril_frame "keeps closed_unavailable" tok for tok
  by unfold_locales
    (rule closed_lib closed_soft closed_client.send_full_R closed_client.handshake_R closed_setRadioState
      | assumption)+

text \<open>Between two steps no command is pending and the reader is not in a callback.\<close>

definition at_rest :: "ril \<Rightarrow> bool" where
  "at_rest s \<longleftrightarrow> idle s \<and> \<not> on_reader s"

lemma rest_chan: "steps chan_same m \<Longrightarrow> steps (keeps at_rest) m"
  by (auto intro!: stepsI simp: keeps_def at_rest_def idle_def chan_same_def truncate_eq_iff dest: stepsD)

lemmas rest_lib = chan_lib [THEN rest_chan]

lemma rest_handshake_loop:
  "handshake_loop ril_handlers n e s = Done x t \<Longrightarrow> at_rest s \<Longrightarrow> at_rest t"
proof (induction n arbitrary: e s)
  case (Suc n)
  from Suc.prems(1) obtain err r u where
    u: "at_send_command_full_nolock ril_handlers ''ATE0Q0V1'' NO_RESULT None None HANDSHAKE_TIMEOUT_MSEC None s
      = Done (err, r) u"
    "(if err = 0 then ret err else handshake_loop ril_handlers n err) u = Done x t"
    by (auto simp: bnd_Done)
  from ril.nolock_result [OF u(1)] Suc.prems(2) have "at_rest u"
    by (simp add: at_rest_def needs_prefix_def)
  with u(2) Suc.IH show ?case by (auto simp: ret_def split: if_splits)
qed (simp add: ret_def)

lemma rest_handshake: "steps (keeps at_rest) (at_handshake ril_handlers)"
proof (rule stepsI)
  fix s t and x :: int assume "at_handshake ril_handlers s = Done x t"
  then show "keeps at_rest s t"
    by (auto simp: at_handshake_def keeps_def at_rest_def andthen_Done
        dest!: ril.lock_result rest_handshake_loop [unfolded at_rest_def] split: if_splits)
qed

lemma rest_send:
  assumes "needs_prefix ty \<Longrightarrow> pfx \<noteq> None"
  shows "steps (keeps at_rest) (at_send_command_full ril_handlers com ty pfx pdu 0 pp)"
  using ril.send_full_result [OF _ _ _ assms]
  by (auto intro!: stepsI simp: keeps_def at_rest_def)

lemma rest_setRadioState: "steps (keeps at_rest) h \<Longrightarrow> steps (keeps at_rest) (setRadioState_with h n)"
  unfolding setRadioState_with_def
  by (intro keep.frame_rules rest_chan [OF chan_upd(2)] keep.steps_seqs)
    (auto intro!: keep.frame_rules rest_lib)

interpretation rest_frame: ril_frame "keeps at_rest" tok for tok
  by unfold_locales
    (rule rest_lib rest_send rest_handshake rest_setRadioState
      | assumption | simp add: keeps_def at_rest_def soft_more)+

text \<open>A request completes no other one.\<close>

definition others_same :: "RIL_Token \<Rightarrow> ril \<Rightarrow> ril \<Rightarrow> bool" where
  "others_same tok s t \<longleftrightarrow> (\<forall>tok'. tok' \<noteq> tok \<longrightarrow> completions tok' t = completions tok' s)"

interpretation others: frame "others_same tok" for tok
  by unfold_locales (auto simp: others_same_def)

lemma others_quiet: "(\<And>tok'. quiet tok' m) \<Longrightarrow> steps (others_same tok) m"
  by (auto simp: quiet_iff steps_def others_same_def)

lemma others_complete: "steps (others_same tok) (RIL_onRequestComplete tok e p)"
  by (simp add: steps_def others_same_def act_defs modify_def completions_def completes_def)

lemmas others_lib = others_complete others_quiet [OF quiet_lib(1)] others_quiet [OF quiet_lib(2)]

lemma quiet_handlers_law: "quiet t (h_unsol ril_handlers l p)" "quiet t (h_closed ril_handlers)"
  "quiet t (h_timeout ril_handlers)"
  using quiet_onUnsolicited quiet_closed by (simp_all add: ril_handlers_def)

interpretation others_client: client_frame "others_same tok" ril_handlers for tok
  by unfold_locales
    (auto intro: others_quiet quiet_handlers_law simp: others_same_def completions_def dest: acts_more)

lemma others_setRadioState:
  "steps (others_same tok) h \<Longrightarrow> steps (others_same tok) (setRadioState_with h n)"
  unfolding setRadioState_with_def
  by (intro others.frame_rules others_quiet [OF quiet_modify] others.steps_seqs)
    (auto intro!: others.frame_rules others_lib)

interpretation others_frame: ril_frame "others_same tok" tok for tok
  by unfold_locales
    (rule others_lib others_client.send_full_R others_client.handshake_R
        others_setRadioState
      | assumption | simp add: others_same_def completions_def soft_more)+

end
