(* ===== verification/RilSystem.thy ===== *)
theory RilSystem
  imports RilInvariant
begin

text \<open>
  The life of the RIL as a step relation: the main loop opening the channel, requests and timed
  callbacks on the command thread (with whatever the modem and \<^verbatim>\<open>write\<close> do meanwhile), and lines
  that arrive when no command waits. The invariants of the reachable states and the life of a
  request follow from the relations every handler keeps.
\<close>

section \<open>States and steps\<close>

text \<open>What the modem and \<^verbatim>\<open>write\<close> will do during the next step, and the interfaces by then.\<close>

definition surround :: "segment list \<Rightarrow> write_result list \<Rightarrow> (string \<Rightarrow> bool option) \<Rightarrow> ril \<Rightarrow> ril" where
  "surround sc ws ifs s = s\<lparr>sched := sc, wres := ws, ifaces := ifs\<rparr>"

text \<open>
  The main loop opens the channel before there was one and after every close. A step that does
  not return, or crashes, leads nowhere.
\<close>

inductive ril_step :: "ril \<Rightarrow> ril \<Rightarrow> bool" where
  opened: "s_fd s < 0 \<or> waitForClose_done s \<Longrightarrow> fd \<ge> 0 \<Longrightarrow> mainLoop_open fd s = Done () t \<Longrightarrow> ril_step s t"
| request: "onRequest req data tok (surround sc ws ifs s) = Done () t \<Longrightarrow> ril_step s t"
| timed: "run_timed c (surround sc ws ifs s) = Done () t \<Longrightarrow> ril_step s t"
| line: "reader_turn ril_handlers x (surround sc ws ifs s) = Done () t \<Longrightarrow> ril_step s t"

inductive reachable :: "ril \<Rightarrow> bool" where
  start: "mainLoop_start (boot e ifs) = Done () s \<Longrightarrow> reachable s"
| step: "reachable s \<Longrightarrow> ril_step s t \<Longrightarrow> reachable t"

inductive_cases ril_stepE: "ril_step s t"
inductive_simps reachable_iff: "reachable t"

lemma surround_sel [simp]:
  "sState (surround sc ws ifs s) = sState s" "s_closed (surround sc ws ifs s) = s_closed s"
  "acts (surround sc ws ifs s) = acts s" "idle (surround sc ws ifs s) = idle s"
  "on_reader (surround sc ws ifs s) = on_reader s" "s_fd (surround sc ws ifs s) = s_fd s"
  "s_readerClosed (surround sc ws ifs s) = s_readerClosed s" "wrote (surround sc ws ifs s) = wrote s"
  by (simp_all add: surround_def idle_def)

lemma start_state:
  "mainLoop_start (boot e ifs) = Done () s \<Longrightarrow>
   s = (boot e ifs)\<lparr>s_onReaderClosed := True, s_onTimeout := True\<rparr>"
  by (simp add: mainLoop_start_def at_set_on_reader_closed_def at_set_on_timeout_def andthen_def bnd_def modify_def)

lemma opened_state:
  "mainLoop_open fd s = Done () t \<Longrightarrow> \<not> s_closed t \<and> sState t = sState s \<and> idle t \<and> s_fd t = fd
     \<and> on_reader t = on_reader s \<and> acts t = acts s @ [Timed CB_initializeCallback 0]"
  by (auto simp: mainLoop_open_def at_open_def andthen_def bnd_def modify_def ret_def act_defs idle_def)

lemma reader_rest: "steps (keeps at_rest) (reader_turn ril_handlers x)"
proof (rule stepsI)
  fix s t and y :: unit
  assume run: "reader_turn ril_handlers x s = Done y t"
  show "keeps at_rest s t"
    using stepsD [OF ril.reader_turn_frame run] ril.reader_turn_on_reader [of s x t] run
    by (auto simp: keeps_def at_rest_def reader_frame_def idle_iff)
qed

section \<open>Invariants\<close>

definition ril_inv :: "ril \<Rightarrow> bool" where
  "ril_inv s \<longleftrightarrow> at_rest s \<and> closed_unavailable s"

lemma step_inv: "ril_step s t \<Longrightarrow> ril_inv s \<Longrightarrow> ril_inv t"
proof (induction rule: ril_step.induct)
  case (opened s fd t)
  from opened_state [OF opened(3)] opened(4) show ?case
    by (auto simp: ril_inv_def at_rest_def closed_unavailable_def)
next
  case (request req data tok sc ws ifs s t)
  from stepsD [OF rest_frame.R_onRequest request(1)] stepsD [OF closed_frame.R_onRequest request(1)] request(2)
  show ?case by (simp add: ril_inv_def keeps_def at_rest_def closed_unavailable_def)
next
  case (timed c sc ws ifs s t)
  from stepsD [OF rest_frame.R_run_timed timed(1)] stepsD [OF closed_frame.R_run_timed timed(1)] timed(2)
  show ?case by (simp add: ril_inv_def keeps_def at_rest_def closed_unavailable_def)
next
  case (line x sc ws ifs s t)
  from stepsD [OF reader_rest line(1)] stepsD [OF closed_client.reader_turn_R line(1)] line(2)
  show ?case by (simp add: ril_inv_def keeps_def at_rest_def closed_unavailable_def)
qed

lemma reachable_inv: "reachable s \<Longrightarrow> ril_inv s"
proof (induction rule: reachable.induct)
  case (start e ifs s)
  show ?case
    unfolding start_state [OF start]
    by (simp add: ril_inv_def at_rest_def closed_unavailable_def idle_def boot_def)
qed (rule step_inv)


lemma reachable_run:
  "\<exists>s. reachable s \<and> s_fd s = 3 \<and> \<not> s_closed s
    \<and> acts s = [Timed CB_initializeCallback 0, Complete 7 RIL_E_RADIO_NOT_AVAILABLE PNone]"
proof -
  define s0 where "s0 = (boot sample_env (\<lambda>_. None))\<lparr>s_onReaderClosed := True, s_onTimeout := True\<rparr>"
  have r0: "reachable s0"
    by (rule reachable.start [of sample_env "\<lambda>_. None"])
      (simp add: mainLoop_start_def at_set_on_reader_closed_def at_set_on_timeout_def andthen_def bnd_def
        modify_def s0_def)
  obtain s1 where s1: "mainLoop_open 3 s0 = Done () s1"
    by (simp add: mainLoop_open_def at_open_def andthen_def bnd_def modify_def ret_def act_defs)
  have r1: "reachable s1"
    by (rule reachable.step [OF r0 ril_step.opened [OF _ _ s1]]) (simp_all add: s0_def boot_def)
  have st: "sState s1 = RADIO_STATE_UNAVAILABLE" "acts s1 = [Timed CB_initializeCallback 0]" "s_fd s1 = 3"
    "\<not> s_closed s1"
    using opened_state [OF s1] by (simp_all add: s0_def boot_def)
  obtain s2 where s2: "onRequest RIL_REQUEST_GET_MUTE DNone 7 (surround [] [] (\<lambda>_. None) s1) = Done () s2"
    and f: "s_fd s2 = 3" "\<not> s_closed s2"
      "acts s2 = [Timed CB_initializeCallback 0, Complete 7 RIL_E_RADIO_NOT_AVAILABLE PNone]"
    using st by (simp add: onRequest_def bnd_def gets_def act_defs modify_def)
  from reachable.step [OF r1 ril_step.request [OF s2]] f show ?thesis by blast
qed


section \<open>The life of a request\<close>

lemma request_counts:
  assumes "request \<notin> set miscounted" and "onRequest request data tok s = Done () t"
  shows "completions tok t = completions tok s + 1
    \<and> (\<forall>tok'. tok' \<noteq> tok \<longrightarrow> completions tok' t = completions tok' s)"
  using stepsD [OF once_onRequest [OF assms(1), of tok data, unfolded once_def adds_def] assms(2)]
    stepsD [OF others_frame.R_onRequest assms(2)]
  by (simp add: others_same_def)

text \<open>
  C2: A request that \<^verbatim>\<open>onRequest\<close> handles is completed exactly once by the time it returns, and no
  other request is completed meanwhile, whatever the modem sends and whatever the request's data,
  for every request code but three: \<^verbatim>\<open>SIGNAL_STRENGTH\<close>, \<^verbatim>\<open>SMS_ACKNOWLEDGE\<close> and
  \<^verbatim>\<open>SET_NETWORK_SELECTION_AUTOMATIC\<close>.
\<close>

theorem request_completed_once:
  assumes "request \<notin> set miscounted" and "onRequest request data tok s = Done () t"
  shows "completions tok t = completions tok s + 1
    \<and> (\<forall>tok'. tok' \<noteq> tok \<longrightarrow> completions tok' t = completions tok' s)"
  by (rule request_counts [OF assms])

lemma sample_reply [simp]:
  "gets_reply ls f later (sample_ril st (([], False) # (map Some (ls @ [f]), False) # later))"
  by (simp add: gets_reply_def)

lemma imei_run:
  "onRequest RIL_REQUEST_GET_IMEI DNone 7
     (sample_ril RADIO_STATE_ON [([], False), (map Some ([''35'', ''OK'']), False)])
   = Done () ((asked ''AT+CGSN'' NUMERIC []
       (sample_ril RADIO_STATE_ON [([], False), (map Some ([''35'', ''OK'']), False)]))
       \<lparr>acts := [Complete 7 RIL_E_SUCCESS (PStr (Some ''35''))]\<rparr>)"
proof -
  let ?s = "sample_ril RADIO_STATE_ON [([], False), (map Some ([''35''] @ [''OK'']), False)]"
  have "at_send_command_numeric ril_handlers ''AT+CGSN'' (Some Null) ?s
      = Done (0, Resp (final_resp ''OK'' [''35''])) (asked ''AT+CGSN'' NUMERIC [] ?s)"
    by (rule reply_numeric)
      (simp_all add: gets_reply_def ordinary_def isFinalResponse_def isFinalResponseSuccess_def
        isFinalResponseError_def s_finalResponsesError_def s_finalResponsesSuccess_def isSMSUnsolicited_def
        s_smsUnsoliciteds_def starts_with_digit_def ch_isdigit_def)
  then show ?thesis
    by (simp add: onRequest_def dispatch_def bnd_def gets_def complete_with_line_def failed_def ret_def
        first_line_of_def act_defs modify_def)
qed

lemma request_completed_once_witness:
  "\<exists>t. onRequest RIL_REQUEST_GET_IMEI DNone 7
      (sample_ril RADIO_STATE_ON [([], False), (map Some ([''35'', ''OK'']), False)]) = Done () t
    \<and> completions 7 t = 1 \<and> completions 8 t = 0"
  using request_completed_once [OF _ imei_run] imei_run
  by (fastforce simp: miscounted_def completions_def)

lemma refused_run:
  "sState s = RADIO_STATE_UNAVAILABLE \<Longrightarrow> request \<noteq> RIL_REQUEST_GET_SIM_STATUS \<Longrightarrow>
     onRequest request data tok s = Done () (s\<lparr>acts := acts s @ [Complete tok RIL_E_RADIO_NOT_AVAILABLE PNone]\<rparr>)"
  by (simp add: onRequest_def bnd_def gets_def act_defs modify_def)



section \<open>Losing the channel\<close>



section \<open>The channel with this client\<close>

lemma returns_lib [returns_rules]:
  "returns (RIL_onRequestComplete tok e p)" "returns (RIL_onUnsolicitedResponse u p)"
  "returns (RIL_requestTimedCallback c d)"
  unfolding act_defs by (rule returns_rules)+

lemma returns_setRadioState [returns_rules]: "returns h \<Longrightarrow> returns (setRadioState_with h n)"
  unfolding setRadioState_with_def by (intro returns_rules) (auto intro!: returns_rules)

lemma returns_deref [returns_rules]: "p \<noteq> None \<Longrightarrow> returns (deref p)"
  by (auto simp: deref_def intro: returns_rules)

lemma nextstr_Some: "at_tok_nextstr cur None = (0, cur', response) \<Longrightarrow> response \<noteq> None"
  using nextTok_Some [of "the cur"] by (cases cur) (auto simp: at_tok_nextstr_def)

lemma ril_returns_on:
  assumes "\<not> strStartsWith l ''+CTEC: ''" and "\<not> isSMSUnsolicited l"
  shows "returns_on ril_handlers l"
proof -
  have "\<not> strStartsWith l ''+CMT:''" "\<not> strStartsWith l ''+CDS:''"
    using assms(2) by (auto simp: isSMSUnsolicited_def s_smsUnsoliciteds_def)
  with assms(1) have "returns (onUnsolicited l None)"
    unfolding onUnsolicited_def
    by (intro returns_rules) (auto dest: nextstr_Some [OF sym])
  then show ?thesis by (auto simp: returns_def returns_on_def ril_handlers_def)
qed



text \<open>
  C5: Whatever the reader does meanwhile, a command without a timeout ends in one of three ways:
  0 with a complete, well-formed response; \<^verbatim>\<open>AT_ERROR_CHANNEL_CLOSED\<close>; or \<^verbatim>\<open>AT_ERROR_GENERIC\<close> with the
  caller's variable left alone. In each case no command stays pending. The response has
  a final line, \<^verbatim>\<open>success\<close> agrees with it, and holds only lines the command asked for, at most
  one unless it is multi-line.
\<close>

theorem command_contract:
  assumes "at_send_command_full ril_handlers command ty pfx pdu 0 (Some old) s = Done (err, r) t"
    and "idle s" and "\<not> on_reader s" and "needs_prefix ty \<Longrightarrow> pfx \<noteq> None"
  shows "idle t \<and> \<not> on_reader t \<and>
    (err = 0 \<and> (\<exists>p. r = Resp p \<and> resp_ok ty pfx p \<and> finalResponse p \<noteq> None)
     \<or> err = AT_ERROR_CHANNEL_CLOSED \<and> (r = old \<or> (\<exists>p. r = Resp p))
     \<or> err = AT_ERROR_GENERIC \<and> r = old)"
  using ril.send_full_result [OF assms]
  by (auto simp: send_result_def answer_ok_def old_resp_def)

lemma command_contract_witness:
  "\<exists>t. at_send_command_full ril_handlers ''AT'' NO_RESULT None None 0 (Some Uninit)
        ((sample_ril RADIO_STATE_ON [])\<lparr>wres := [WrOk 1, WrErr]\<rparr>) = Done (AT_ERROR_GENERIC, Uninit) t
    \<and> idle t \<and> \<not> on_reader t"
proof -
  let ?s = "(sample_ril RADIO_STATE_ON [])\<lparr>wres := [WrOk 1, WrErr]\<rparr>"
  have "\<exists>t. at_send_command_full ril_handlers ''AT'' NO_RESULT None None 0 (Some Uninit) ?s
      = Done (AT_ERROR_GENERIC, Uninit) t"
    by (simp add: at_send_command_full_def at_send_command_full_nolock_def at_send_start_def
        lock_commandmutex_def ret_def andthen_def bnd_def writeline_def write_with_def
        clearPendingCommand_def modify_def at_error_defs sample_ril_def boot_def old_resp_def)
  then obtain t where t: "at_send_command_full ril_handlers ''AT'' NO_RESULT None None 0 (Some Uninit) ?s
      = Done (AT_ERROR_GENERIC, Uninit) t" by blast
  have "idle ?s \<and> \<not> on_reader ?s" by (simp add: sample_ril_def boot_def idle_def)
  with command_contract [OF t] t show ?thesis by (auto simp: needs_prefix_def)
qed

section \<open>Notifications\<close>

text \<open>
  The two lines of a short message that arrives while the radio is not unavailable are handed over as
  one notification with the second line as the PDU, \<^verbatim>\<open>NEW_SMS\<close> for \<^verbatim>\<open>+CMT:\<close> and \<^verbatim>\<open>NEW_SMS_STATUS_REPORT\<close> for
  \<^verbatim>\<open>+CDS:\<close>; a pending command and its response are not touched, even where the second line
  looks like a final response.
\<close>

theorem sms_delivered:
  assumes "r_alive s" and "r_line1 s = None" and "s_unsolHandler s" and "sState s \<noteq> RADIO_STATE_UNAVAILABLE"
    and "l = prefix @ rest" and "prefix = ''+CMT:'' \<or> prefix = ''+CDS:''"
  shows "run_reader ril_handlers [Some l, Some pdu] s
    = Done () (s\<lparr>on_reader := False, handed := handed s @ [(l, Some pdu)],
        acts := acts s @ [Unsol (if prefix = ''+CMT:'' then RIL_UNSOL_RESPONSE_NEW_SMS
          else RIL_UNSOL_RESPONSE_NEW_SMS_STATUS_REPORT) (PStr (Some pdu))]\<rparr>)"
proof -
  have up: "s\<lparr>r_line1 := None, on_reader := False\<rparr> = s\<lparr>on_reader := False\<rparr>" using assms(2) by (cases s) simp
  from assms(6) show ?thesis
    using assms(1-5) up
    by (elim disjE)
      (simp add: reader_turn_def readerLoop_step_def bnd_def andthen_def ret_def modify_def isSMSUnsolicited_def
        s_smsUnsoliciteds_def call_unsol_def ril_handlers_def onUnsolicited_def gets_def deref_def act_defs)+
qed

lemma sms_delivered_witness:
  "run_reader ril_handlers [Some ''+CMT: ,4'', Some ''OK''] (sample_ril RADIO_STATE_ON [])
    = Done () ((sample_ril RADIO_STATE_ON [])\<lparr>on_reader := False, handed := [(''+CMT: ,4'', Some ''OK'')],
        acts := [Unsol RIL_UNSOL_RESPONSE_NEW_SMS (PStr (Some ''OK''))]\<rparr>)"
  using sms_delivered [of "sample_ril RADIO_STATE_ON []" "''+CMT: ,4''" "''+CMT:''" "'' ,4''" "''OK''"]
  by (simp add: sample_ril_def boot_def)

section \<open>Initialisation\<close>

lemma seqs_append: "seqs (ms @ ns) = andthen (seqs ms) (seqs ns)"
  by (induction ms) (auto simp: andthen_def bnd_assoc)

text \<open>A modem that answers \<open>n\<close> commands with \<^verbatim>\<open>OK\<close>.\<close>

fun ok_turns :: "nat \<Rightarrow> segment list \<Rightarrow> segment list" where
  "ok_turns 0 later = later"
| "ok_turns (Suc n) later = ([], False) # ([Some ''OK''], False) # ok_turns n later"

definition same_ril :: "ril \<Rightarrow> ril \<Rightarrow> bool" where
  "same_ril s t \<longleftrightarrow> acts t = acts s \<and> sState t = sState s \<and> s_closed t = s_closed s \<and> env t = env s"

lemma send_ignore_ok:
  "ready s \<Longrightarrow> sched s = ok_turns (Suc n) later \<Longrightarrow>
   send_ignore c s = Done () (asked c NO_RESULT (ok_turns n later) s)"
  using reply_command [of "''OK''" "ok_turns n later" s ril_handlers c None]
  by (simp add: send_ignore_def bnd_def gets_reply_def ret_def)

lemma send_ignores_ok:
  "ready s \<Longrightarrow> sched s = ok_turns (length cs + n) later \<Longrightarrow>
   \<exists>t. seqs (map send_ignore cs) s = Done () t \<and> ready t \<and> sched t = ok_turns n later \<and> same_ril s t
     \<and> wrote t = wrote s @ concat (map (\<lambda>c. c @ [CHR 0x0D]) cs)"
proof (induction cs arbitrary: s)
  case (Cons c cs)
  let ?u = "asked c NO_RESULT (ok_turns (length cs + n) later) s"
  have "send_ignore c s = Done () ?u" using Cons.prems by (intro send_ignore_ok) simp_all
  with Cons.IH [of ?u] Cons.prems show ?case by (auto simp: andthen_def bnd_def same_ril_def)
qed (simp add: ret_def same_ril_def)

lemma handshake_ok:
  assumes "gets_reply [] ''OK'' later s"
  shows "at_handshake cb s = Done 0 (asked ''ATE0Q0V1'' NO_RESULT later s)"
proof -
  have "s\<lparr>s_responsePrefix := None, s_smsPDU := None, sp_response := None\<rparr> = s" "s\<lparr>on_reader := False\<rparr> = s"
    using assms by (cases s; simp add: gets_reply_def ready_def idle_def)+
  with assms show ?thesis
    by (simp add: at_handshake_def HANDSHAKE_RETRY_COUNT_def eval_nat_numeral at_send_command_full_nolock_def
        at_send_start_def at_send_finish_def gets_reply_def ready_def idle_def lock_commandmutex_def ret_def
        andthen_def bnd_def writeline_def write_with_full await.simps modify_def clearPendingCommand_def
        at_response_new_def at_error_defs HANDSHAKE_TIMEOUT_MSEC_def reader_turn_def readerLoop_step_def
        processLine_def handleFinalResponse_def isSMSUnsolicited_def s_smsUnsoliciteds_def asked_def)
qed

definition init_commands :: "string list" where
  "init_commands = [''AT+CGREG=1'', ''AT+CCWA=1'', ''AT+CMOD=0'', ''AT+CMUT=0'', ''AT+CSSN=0,1'', ''AT+COLP=0'',
     ''AT+CSCS=\"HEX\"'', ''AT+CUSD=1'', ''AT+CGEREP=1,0'', ''AT+CMGF=0'']"

lemma init_commands_length: "length init_commands = 10"
  by (simp add: init_commands_def)

lemma initialize_split:
  "initializeCallback = andthen (setRadioState RADIO_STATE_OFF)
    (andthen (bnd (at_handshake ril_handlers) (\<lambda>_. ret ()))
    (andthen probeForModemMode
    (andthen (seqs (map send_ignore [''ATE0Q0V1'', ''ATS0=0'', ''AT+CMEE=1'']))
    (andthen (bnd (send ''AT+CREG=2'' Null)
        (\<lambda>(err, r). bnd (failed err r) (\<lambda>bad. whenever bad (send_ignore ''AT+CREG=1''))))
    (andthen (seqs (map send_ignore init_commands))
    (seqs [bnd (gets (\<lambda>s. USE_TI_COMMANDS (env s))) (\<lambda>ti.
       whenever ti (andthen (send_ignore ''AT%CPI=3'') (send_ignore ''AT%CSTAT=1''))),
     bnd isRadioOn (\<lambda>on. whenever (on > 0) (setRadioState RADIO_STATE_ON))]))))))"
  by (simp add: initializeCallback_def init_commands_def andthen_def bnd_assoc)

lemma cfun_answer:
  assumes "gets_reply [''+CFUN: '' @ fmt_d on] ''OK'' later s" and "on = 0 \<or> on = 1"
  shows "isRadioOn s = Done on (asked ''AT+CFUN?'' SINGLELINE later s)"
proof -
  have "send_singleline ''AT+CFUN?'' ''+CFUN:'' Null s
      = Done (0, Resp (final_resp ''OK'' [''+CFUN: '' @ fmt_d on])) (asked ''AT+CFUN?'' SINGLELINE later s)"
    using assms(1) by (intro reply_singleline) (simp_all add: line_class)
  with nextbool_last [OF assms(2)] show ?thesis by (simp add: isRadioOn_def run_ril c_strchr_def)
qed

lemma set_state_quiet:
  assumes "\<not> USE_TI_COMMANDS (env s)" and "\<not> s_closed s" and "n \<noteq> sState s"
  shows "setRadioState n s = Done () (s\<lparr>sState := n, acts := acts s
    @ [Unsol RIL_UNSOL_RESPONSE_RADIO_STATE_CHANGED PNone, Unsol RIL_UNSOL_RESPONSE_SIM_STATUS_CHANGED PNone]\<rparr>)"
  using assms
  by (auto simp: setRadioState_def setRadioState_with_def run_ril Let_def onRadioPowerOn_quiet)

lemma ready_upd [simp]: "ready (s\<lparr>sState := n, acts := a\<rparr>) = ready (s :: ril)"
  by (simp add: ready_def idle_def)



end
