(* ===== verification/SvcTypes.thy ===== *)
theory SvcTypes
  imports RilTypes
begin

text \<open>
  The data of the service \<^verbatim>\<open>libril/ril_service.cpp\<close> on the way to the vendor library: the fields it
  reads of the HIDL structures, which the build generates, and the structures of \<^verbatim>\<open>telephony/ril.h\<close> and
  \<^verbatim>\<open>telephony/ril_cdma_sms.h\<close> it fills in.
\<close>

section \<open>Request numbers\<close>

text \<open>Those that the reference vendor library does not name.\<close>

abbreviation (input) RIL_REQUEST_SWITCH_HOLDING_AND_ACTIVE :: int where "RIL_REQUEST_SWITCH_HOLDING_AND_ACTIVE \<equiv> 15"
abbreviation (input) RIL_REQUEST_LAST_CALL_FAIL_CAUSE :: int where "RIL_REQUEST_LAST_CALL_FAIL_CAUSE \<equiv> 18"
abbreviation (input) RIL_REQUEST_GET_CLIR :: int where "RIL_REQUEST_GET_CLIR \<equiv> 31"
abbreviation (input) RIL_REQUEST_QUERY_CALL_FORWARD_STATUS :: int where "RIL_REQUEST_QUERY_CALL_FORWARD_STATUS \<equiv> 33"
abbreviation (input) RIL_REQUEST_SET_CALL_FORWARD :: int where "RIL_REQUEST_SET_CALL_FORWARD \<equiv> 34"
abbreviation (input) RIL_REQUEST_QUERY_CALL_WAITING :: int where "RIL_REQUEST_QUERY_CALL_WAITING \<equiv> 35"
abbreviation (input) RIL_REQUEST_SET_CALL_WAITING :: int where "RIL_REQUEST_SET_CALL_WAITING \<equiv> 36"
abbreviation (input) RIL_REQUEST_GET_IMEISV :: int where "RIL_REQUEST_GET_IMEISV \<equiv> 39"
abbreviation (input) RIL_REQUEST_QUERY_FACILITY_LOCK :: int where "RIL_REQUEST_QUERY_FACILITY_LOCK \<equiv> 42"
abbreviation (input) RIL_REQUEST_SET_FACILITY_LOCK :: int where "RIL_REQUEST_SET_FACILITY_LOCK \<equiv> 43"
abbreviation (input) RIL_REQUEST_CHANGE_BARRING_PASSWORD :: int where "RIL_REQUEST_CHANGE_BARRING_PASSWORD \<equiv> 44"
abbreviation (input) RIL_REQUEST_SET_NETWORK_SELECTION_MANUAL :: int where "RIL_REQUEST_SET_NETWORK_SELECTION_MANUAL \<equiv> 47"
abbreviation (input) RIL_REQUEST_QUERY_AVAILABLE_NETWORKS :: int where "RIL_REQUEST_QUERY_AVAILABLE_NETWORKS \<equiv> 48"
abbreviation (input) RIL_REQUEST_DTMF_START :: int where "RIL_REQUEST_DTMF_START \<equiv> 49"
abbreviation (input) RIL_REQUEST_DTMF_STOP :: int where "RIL_REQUEST_DTMF_STOP \<equiv> 50"
abbreviation (input) RIL_REQUEST_SET_MUTE :: int where "RIL_REQUEST_SET_MUTE \<equiv> 53"
abbreviation (input) RIL_REQUEST_QUERY_CLIP :: int where "RIL_REQUEST_QUERY_CLIP \<equiv> 55"
abbreviation (input) RIL_REQUEST_LAST_DATA_CALL_FAIL_CAUSE :: int where "RIL_REQUEST_LAST_DATA_CALL_FAIL_CAUSE \<equiv> 56"
abbreviation (input) RIL_REQUEST_RESET_RADIO :: int where "RIL_REQUEST_RESET_RADIO \<equiv> 58"
abbreviation (input) RIL_REQUEST_SCREEN_STATE :: int where "RIL_REQUEST_SCREEN_STATE \<equiv> 61"
abbreviation (input) RIL_REQUEST_STK_GET_PROFILE :: int where "RIL_REQUEST_STK_GET_PROFILE \<equiv> 67"
abbreviation (input) RIL_REQUEST_STK_SET_PROFILE :: int where "RIL_REQUEST_STK_SET_PROFILE \<equiv> 68"
abbreviation (input) RIL_REQUEST_STK_SEND_ENVELOPE_COMMAND :: int where "RIL_REQUEST_STK_SEND_ENVELOPE_COMMAND \<equiv> 69"
abbreviation (input) RIL_REQUEST_STK_SEND_TERMINAL_RESPONSE :: int where "RIL_REQUEST_STK_SEND_TERMINAL_RESPONSE \<equiv> 70"
abbreviation (input) RIL_REQUEST_STK_HANDLE_CALL_SETUP_REQUESTED_FROM_SIM :: int where "RIL_REQUEST_STK_HANDLE_CALL_SETUP_REQUESTED_FROM_SIM \<equiv> 71"
abbreviation (input) RIL_REQUEST_EXPLICIT_CALL_TRANSFER :: int where "RIL_REQUEST_EXPLICIT_CALL_TRANSFER \<equiv> 72"
abbreviation (input) RIL_REQUEST_CDMA_FLASH :: int where "RIL_REQUEST_CDMA_FLASH \<equiv> 84"
abbreviation (input) RIL_REQUEST_CDMA_BURST_DTMF :: int where "RIL_REQUEST_CDMA_BURST_DTMF \<equiv> 85"
abbreviation (input) RIL_REQUEST_CDMA_VALIDATE_AND_WRITE_AKEY :: int where "RIL_REQUEST_CDMA_VALIDATE_AND_WRITE_AKEY \<equiv> 86"
abbreviation (input) RIL_REQUEST_CDMA_SMS_ACKNOWLEDGE :: int where "RIL_REQUEST_CDMA_SMS_ACKNOWLEDGE \<equiv> 88"
abbreviation (input) RIL_REQUEST_GSM_GET_BROADCAST_SMS_CONFIG :: int where "RIL_REQUEST_GSM_GET_BROADCAST_SMS_CONFIG \<equiv> 89"
abbreviation (input) RIL_REQUEST_GSM_SET_BROADCAST_SMS_CONFIG :: int where "RIL_REQUEST_GSM_SET_BROADCAST_SMS_CONFIG \<equiv> 90"
abbreviation (input) RIL_REQUEST_GSM_SMS_BROADCAST_ACTIVATION :: int where "RIL_REQUEST_GSM_SMS_BROADCAST_ACTIVATION \<equiv> 91"
abbreviation (input) RIL_REQUEST_CDMA_GET_BROADCAST_SMS_CONFIG :: int where "RIL_REQUEST_CDMA_GET_BROADCAST_SMS_CONFIG \<equiv> 92"
abbreviation (input) RIL_REQUEST_CDMA_SET_BROADCAST_SMS_CONFIG :: int where "RIL_REQUEST_CDMA_SET_BROADCAST_SMS_CONFIG \<equiv> 93"
abbreviation (input) RIL_REQUEST_CDMA_SMS_BROADCAST_ACTIVATION :: int where "RIL_REQUEST_CDMA_SMS_BROADCAST_ACTIVATION \<equiv> 94"
abbreviation (input) RIL_REQUEST_CDMA_WRITE_SMS_TO_RUIM :: int where "RIL_REQUEST_CDMA_WRITE_SMS_TO_RUIM \<equiv> 96"
abbreviation (input) RIL_REQUEST_CDMA_DELETE_SMS_ON_RUIM :: int where "RIL_REQUEST_CDMA_DELETE_SMS_ON_RUIM \<equiv> 97"
abbreviation (input) RIL_REQUEST_GET_SMSC_ADDRESS :: int where "RIL_REQUEST_GET_SMSC_ADDRESS \<equiv> 100"
abbreviation (input) RIL_REQUEST_SET_SMSC_ADDRESS :: int where "RIL_REQUEST_SET_SMSC_ADDRESS \<equiv> 101"
abbreviation (input) RIL_REQUEST_REPORT_SMS_MEMORY_STATUS :: int where "RIL_REQUEST_REPORT_SMS_MEMORY_STATUS \<equiv> 102"
abbreviation (input) RIL_REQUEST_REPORT_STK_SERVICE_IS_RUNNING :: int where "RIL_REQUEST_REPORT_STK_SERVICE_IS_RUNNING \<equiv> 103"
abbreviation (input) RIL_REQUEST_ISIM_AUTHENTICATION :: int where "RIL_REQUEST_ISIM_AUTHENTICATION \<equiv> 105"
abbreviation (input) RIL_REQUEST_ACKNOWLEDGE_INCOMING_GSM_SMS_WITH_PDU :: int where "RIL_REQUEST_ACKNOWLEDGE_INCOMING_GSM_SMS_WITH_PDU \<equiv> 106"
abbreviation (input) RIL_REQUEST_STK_SEND_ENVELOPE_WITH_STATUS :: int where "RIL_REQUEST_STK_SEND_ENVELOPE_WITH_STATUS \<equiv> 107"
abbreviation (input) RIL_REQUEST_SIM_TRANSMIT_APDU_BASIC :: int where "RIL_REQUEST_SIM_TRANSMIT_APDU_BASIC \<equiv> 114"
abbreviation (input) RIL_REQUEST_NV_READ_ITEM :: int where "RIL_REQUEST_NV_READ_ITEM \<equiv> 118"
abbreviation (input) RIL_REQUEST_NV_WRITE_ITEM :: int where "RIL_REQUEST_NV_WRITE_ITEM \<equiv> 119"
abbreviation (input) RIL_REQUEST_NV_WRITE_CDMA_PRL :: int where "RIL_REQUEST_NV_WRITE_CDMA_PRL \<equiv> 120"
abbreviation (input) RIL_REQUEST_SIM_AUTHENTICATION :: int where "RIL_REQUEST_SIM_AUTHENTICATION \<equiv> 125"
abbreviation (input) RIL_REQUEST_GET_DC_RT_INFO :: int where "RIL_REQUEST_GET_DC_RT_INFO \<equiv> 126"
abbreviation (input) RIL_REQUEST_SET_DC_RT_INFO_RATE :: int where "RIL_REQUEST_SET_DC_RT_INFO_RATE \<equiv> 127"
abbreviation (input) RIL_REQUEST_SET_DATA_PROFILE :: int where "RIL_REQUEST_SET_DATA_PROFILE \<equiv> 128"
abbreviation (input) RIL_REQUEST_SET_RADIO_CAPABILITY :: int where "RIL_REQUEST_SET_RADIO_CAPABILITY \<equiv> 131"
abbreviation (input) RIL_REQUEST_SEND_DEVICE_STATE :: int where "RIL_REQUEST_SEND_DEVICE_STATE \<equiv> 138"
abbreviation (input) RIL_REQUEST_SET_UNSOLICITED_RESPONSE_FILTER :: int where "RIL_REQUEST_SET_UNSOLICITED_RESPONSE_FILTER \<equiv> 139"
abbreviation (input) RIL_REQUEST_SET_SIM_CARD_POWER :: int where "RIL_REQUEST_SET_SIM_CARD_POWER \<equiv> 140"
abbreviation (input) RIL_REQUEST_SET_CARRIER_INFO_IMSI_ENCRYPTION :: int where "RIL_REQUEST_SET_CARRIER_INFO_IMSI_ENCRYPTION \<equiv> 141"
abbreviation (input) RIL_REQUEST_START_NETWORK_SCAN :: int where "RIL_REQUEST_START_NETWORK_SCAN \<equiv> 142"
abbreviation (input) RIL_REQUEST_STOP_NETWORK_SCAN :: int where "RIL_REQUEST_STOP_NETWORK_SCAN \<equiv> 143"
abbreviation (input) RIL_REQUEST_START_KEEPALIVE :: int where "RIL_REQUEST_START_KEEPALIVE \<equiv> 144"
abbreviation (input) RIL_REQUEST_STOP_KEEPALIVE :: int where "RIL_REQUEST_STOP_KEEPALIVE \<equiv> 145"
abbreviation (input) RIL_REQUEST_SET_UICC_SUBSCRIPTION :: int where "RIL_REQUEST_SET_UICC_SUBSCRIPTION \<equiv> 122"

section \<open>HIDL structures\<close>

text \<open>
  A string from another process tells its size; \<open>hs_chars\<close> is what \<^verbatim>\<open>c_str()\<close> reads up to the first
  NUL, which may be in front of the size or, when the sender lies, behind it.
\<close>

record hidl_string =
  hs_size :: nat
  hs_chars :: string

text \<open>\<^verbatim>\<open>hidl_string(const char *)\<close>.\<close>

definition hstr :: "string \<Rightarrow> hidl_string" where
  "hstr s = \<lparr>hs_size = length s, hs_chars = s\<rparr>"

datatype MvnoType = MVNO_IMSI | MVNO_GID | MVNO_SPN | MVNO_NONE | MVNO_other int

datatype RadioTechnologyFamily = THREE_GPP | THREE_GPP2 | TECH_other int

datatype ResetNvType = RELOAD | ERASE | FACTORY_RESET | RESET_other int

datatype RadioAccessNetworks = GERAN | UTRAN | EUTRAN | RAN_other int

text \<open>An enumeration that is only cast is an \<open>int\<close>.\<close>

record UusInfo =
  uu_type :: int
  uu_dcs :: int
  uu_data :: hidl_string

record Dial =
  da_address :: hidl_string
  da_clir :: int
  da_uus :: "UusInfo list"

record GsmSmsMessage =
  gs_smscPdu :: hidl_string
  gs_pdu :: hidl_string

record CdmaSmsAddress =
  ca_digitMode :: int
  ca_numberMode :: int
  ca_numberType :: int
  ca_numberPlan :: int
  ca_digits :: "int list"

record CdmaSmsSubaddress =
  cs_type :: int
  cs_odd :: bool
  cs_digits :: "int list"

record CdmaSmsMessage =
  cm_teleserviceId :: int
  cm_isServicePresent :: bool
  cm_serviceCategory :: int
  cm_address :: CdmaSmsAddress
  cm_subAddress :: CdmaSmsSubaddress
  cm_bearerData :: "int list"

record ImsSmsMessage =
  im_tech :: RadioTechnologyFamily
  im_retry :: bool
  im_messageRef :: int
  im_cdma :: "CdmaSmsMessage list"
  im_gsm :: "GsmSmsMessage list"

record DataProfileInfo =
  dp_profileId :: int
  dp_apn :: hidl_string
  dp_protocol :: hidl_string
  dp_roamingProtocol :: hidl_string
  dp_authType :: int
  dp_user :: hidl_string
  dp_password :: hidl_string
  dp_type :: int
  dp_maxConnsTime :: int
  dp_maxConns :: int
  dp_waitTime :: int
  dp_enabled :: bool
  dp_supportedApnTypesBitmap :: int
  dp_bearerBitmap :: int
  dp_mtu :: int
  dp_mvnoType :: MvnoType
  dp_mvnoMatchData :: hidl_string

record IccIo =
  ii_command :: int
  ii_fileId :: int
  ii_path :: hidl_string
  ii_p1 :: int
  ii_p2 :: int
  ii_p3 :: int
  ii_data :: hidl_string
  ii_pin2 :: hidl_string
  ii_aid :: hidl_string

record CallForwardInfo =
  fw_status :: int
  fw_reason :: int
  fw_serviceClass :: int
  fw_toa :: int
  fw_number :: hidl_string
  fw_timeSeconds :: int

record SimApdu =
  sa_sessionId :: int
  sa_cla :: int
  sa_instruction :: int
  sa_p1 :: int
  sa_p2 :: int
  sa_p3 :: int
  sa_data :: hidl_string

record SmsWriteArgs =
  sw_status :: int
  sw_pdu :: hidl_string
  sw_smsc :: hidl_string

record CdmaSmsWriteArgs =
  cw_status :: int
  cw_message :: CdmaSmsMessage

record GsmBroadcastSmsConfigInfo =
  gb_fromServiceId :: int
  gb_toServiceId :: int
  gb_fromCodeScheme :: int
  gb_toCodeScheme :: int
  gb_selected :: bool

record CdmaBroadcastSmsConfigInfo =
  cb_serviceCategory :: int
  cb_language :: int
  cb_selected :: bool

record NvWriteItem =
  nw_itemId :: int
  nw_value :: hidl_string

record SelectUiccSub =
  us_slot :: int
  us_appIndex :: int
  us_subType :: int
  us_actStatus :: int

record RadioCapability =
  rr_session :: int
  rr_phase :: int
  rr_raf :: int
  rr_logicalModemUuid :: hidl_string
  rr_status :: int

record Carrier =
  cr_mcc :: hidl_string
  cr_mnc :: hidl_string
  cr_matchType :: int
  cr_matchData :: hidl_string

record RadioAccessSpecifier =
  ra_network :: RadioAccessNetworks
  ra_geranBands :: "int list"
  ra_utranBands :: "int list"
  ra_eutranBands :: "int list"
  ra_channels :: "int list"

record NetworkScanRequest =
  ns_type :: int
  ns_interval :: int
  ns_specifiers :: "RadioAccessSpecifier list"

record ImsiEncryptionInfo =
  ie_mcc :: hidl_string
  ie_mnc :: hidl_string
  ie_carrierKey :: "int list"
  ie_keyIdentifier :: hidl_string
  ie_expirationTime :: int

record KeepaliveRequest =
  ka_type :: int
  ka_sourceAddress :: "int list"
  ka_sourcePort :: int
  ka_destinationAddress :: "int list"
  ka_destinationPort :: int
  ka_maxKeepaliveIntervalMillis :: int
  ka_cid :: int

section \<open>Structures of the vendor interface\<close>

record RIL_UUS_Info =
  uusType :: int
  uusDcs :: int
  uusLength :: int
  uusData :: cptr

record RIL_Dial =
  dial_address :: cptr
  dial_clir :: int
  dial_uusInfo :: "RIL_UUS_Info option"

record RIL_SIM_IO =
  sio_command :: int
  sio_fileid :: int
  sio_path :: cptr
  sio_p1 :: int
  sio_p2 :: int
  sio_p3 :: int
  sio_data :: cptr
  sio_pin2 :: cptr
  sio_aidPtr :: cptr

record RIL_CallForwardInfo =
  cf_status :: int
  cf_reason :: int
  cf_serviceClass :: int
  cf_toa :: int
  cf_number :: cptr
  cf_timeSeconds :: int

record RIL_SMS_WriteArgs =
  swa_status :: int
  swa_pdu :: cptr
  swa_smsc :: cptr

text \<open>The arrays of digits and bytes have a fixed length; the numbers beside them are not cut to it.\<close>

record RIL_CDMA_SMS_Address =
  digit_mode :: int
  number_mode :: int
  number_type :: int
  number_plan :: int
  number_of_digits :: int
  address_digits :: "int list"

record RIL_CDMA_SMS_Subaddress =
  subaddressType :: int
  sub_odd :: int
  sub_number_of_digits :: int
  sub_digits :: "int list"

record RIL_CDMA_SMS_Message =
  uTeleserviceID :: int
  bIsServicePresent :: int
  uServicecategory :: int
  sAddress :: RIL_CDMA_SMS_Address
  sSubAddress :: RIL_CDMA_SMS_Subaddress
  uBearerDataLen :: int
  aBearerData :: "int list"

record RIL_GSM_BroadcastSmsConfigInfo =
  gbc_fromServiceId :: int
  gbc_toServiceId :: int
  gbc_fromCodeScheme :: int
  gbc_toCodeScheme :: int
  gbc_selected :: int

record RIL_CDMA_BroadcastSmsConfigInfo =
  cbc_service_category :: int
  cbc_language :: int
  cbc_selected :: int

record RIL_InitialAttachApn =
  iaa_apn :: cptr
  iaa_protocol :: cptr
  iaa_authtype :: int
  iaa_username :: cptr
  iaa_password :: cptr

record RIL_InitialAttachApn_v15 = RIL_InitialAttachApn +
  iaa_roamingProtocol :: cptr
  iaa_supportedTypesBitmask :: int
  iaa_bearerBitmask :: int
  iaa_modemCognitive :: int
  iaa_mtu :: int
  iaa_mvnoType :: cptr
  iaa_mvnoMatchData :: cptr

record RIL_DataProfileInfo =
  dpi_profileId :: int
  dpi_apn :: cptr
  dpi_protocol :: cptr
  dpi_authType :: int
  dpi_user :: cptr
  dpi_password :: cptr
  dpi_type :: int
  dpi_maxConnsTime :: int
  dpi_maxConns :: int
  dpi_waitTime :: int
  dpi_enabled :: int

record RIL_DataProfileInfo_v15 = RIL_DataProfileInfo +
  dpi_roamingProtocol :: cptr
  dpi_supportedTypesBitmask :: int
  dpi_bearerBitmask :: int
  dpi_mtu :: int
  dpi_mvnoType :: cptr
  dpi_mvnoMatchData :: cptr

record RIL_Carrier =
  rca_mcc :: cptr
  rca_mnc :: cptr
  rca_match_type :: int
  rca_match_data :: cptr

text \<open>\<open>ras_bands\<close> and \<open>ras_channels\<close> are the parts of the arrays that the lengths beside them count.\<close>

record RIL_RadioAccessSpecifier =
  ras_network :: RadioAccessNetworks
  ras_bands :: "int list"
  ras_channels :: "int list"

record RIL_NetworkScanRequest =
  nsr_type :: int
  nsr_interval :: int
  nsr_specifiers :: "RIL_RadioAccessSpecifier list"

record RIL_CarrierInfoForImsiEncryption =
  cie_mcc :: cptr
  cie_mnc :: cptr
  cie_carrierKey :: "int list"
  cie_keyIdentifier :: cptr
  cie_expirationTime :: int

record RIL_KeepaliveRequest =
  kar_type :: int
  kar_sourceAddress :: "int list"
  kar_sourcePort :: int
  kar_destinationAddress :: "int list"
  kar_destinationPort :: int
  kar_maxKeepaliveIntervalMillis :: int
  kar_cid :: int

text \<open>The data a request is handed over with, by what the pointer points to.\<close>

datatype ril_data =
    NoData
  | Ints "int list"
  | Str cptr
  | Strs "cptr list"
  | Raw "int list"
  | DialData RIL_Dial
  | SimIoData RIL_SIM_IO
  | CallForwardData RIL_CallForwardInfo
  | ApduData RIL_SIM_APDU
  | SmsWriteData RIL_SMS_WriteArgs
  | CdmaSmsData RIL_CDMA_SMS_Message
  | CdmaSmsAckData int int                         \<comment> \<open>error class, cause\<close>
  | CdmaSmsWriteData int RIL_CDMA_SMS_Message
  | GsmBroadcastData "RIL_GSM_BroadcastSmsConfigInfo list"
  | CdmaBroadcastData "RIL_CDMA_BroadcastSmsConfigInfo list"
  | AttachApnData RIL_InitialAttachApn
  | AttachApnData_v15 RIL_InitialAttachApn_v15
  | ImsGsmData int int "cptr list"                 \<comment> \<open>retry, message reference, strings\<close>
  | ImsCdmaData int int RIL_CDMA_SMS_Message
  | OpenChannelData cptr int
  | NvReadData int
  | NvWriteData int cptr
  | UiccSubData int int int int
  | SimAuthData int cptr cptr
  | DataProfilesData "RIL_DataProfileInfo list"
  | DataProfilesData_v15 "RIL_DataProfileInfo_v15 list"
  | RadioCapabilityData RIL_RadioCapability
  | CarriersData "RIL_Carrier list" "RIL_Carrier list"
  | ScanData RIL_NetworkScanRequest
  | ImsiEncryptionData RIL_CarrierInfoForImsiEncryption
  | KeepaliveData RIL_KeepaliveRequest

end
