(* ===== verification/SvcDispatch.thy ===== *)
theory SvcDispatch
  imports SvcTypes LibSystem
begin

text \<open>
  How \<^verbatim>\<open>libril/ril_service.cpp\<close> hands a request to the vendor library: it enters the request into the
  list of pending ones, copies the arguments and calls the vendor's \<^verbatim>\<open>onRequest\<close>, or answers with an
  error.
\<close>

section \<open>Copying and dispatching\<close>

text \<open>
  The vendor library's \<^verbatim>\<open>onRequest\<close> is a program on the library's state, by the request, its data, its
  token and the slot: it may complete the request and call the library in other ways.
\<close>

type_synonym vendor = "int \<Rightarrow> ril_data \<Rightarrow> nat \<Rightarrow> nat \<Rightarrow> unit lprog"

definition BOOL_TO_INT :: "bool \<Rightarrow> int" where
  "BOOL_TO_INT b = (if b then 1 else 0)"

text \<open>\<^verbatim>\<open>calloc\<close> of a block that is freed before the function returns.\<close>

definition block :: "bool lprog" where
  "block = bnd (calloc (\<lambda>s a. False)) (\<lambda>p. ret (p \<noteq> None))"

definition sendErrorResponse :: "nat option \<Rightarrow> RIL_Errno \<Rightarrow> unit lprog" where
  "sendErrorResponse pRI err = (case pRI of
     None \<Rightarrow> crash NullDeref
   | Some a \<Rightarrow> bnd (request_at a) (\<lambda>r. call_response r RESPONSE_SOLICITED err PNone))"

text \<open>\<open>None\<close>: it has failed, and answered the request.\<close>

definition copyHidlStringToRil :: "hidl_string \<Rightarrow> nat \<Rightarrow> bool \<Rightarrow> cptr option lprog" where
  "copyHidlStringToRil src pRI allowEmpty =
     (if hs_size src = 0 \<and> \<not> allowEmpty then ret (Some None)
      else bnd block (\<lambda>ok.
        if \<not> ok then andthen (sendErrorResponse (Some pRI) RIL_E_NO_MEMORY) (ret None)
        else if length (hs_chars src) \<ge> hs_size src + 1 then
          andthen (sendErrorResponse (Some pRI) RIL_E_INTERNAL_ERR) (ret None)
        else ret (Some (Some (hs_chars src)))))"

text \<open>A function that is left when a string cannot be copied.\<close>

definition copied :: "hidl_string \<Rightarrow> nat \<Rightarrow> bool \<Rightarrow> (cptr \<Rightarrow> unit lprog) \<Rightarrow> unit lprog" where
  "copied src pRI allowEmpty go =
     bnd (copyHidlStringToRil src pRI allowEmpty) (\<lambda>p. case p of None \<Rightarrow> ret () | Some c \<Rightarrow> go c)"

definition with_request :: "int \<Rightarrow> nat \<Rightarrow> int \<Rightarrow> (nat \<Rightarrow> unit lprog) \<Rightarrow> unit lprog" where
  "with_request serial slotId request go =
     bnd (addRequestToList serial slotId (nat request)) (\<lambda>pRI. case pRI of None \<Rightarrow> ret () | Some a \<Rightarrow> go a)"

text \<open>Memory for an array; without it the request is answered.\<close>

definition with_block :: "nat \<Rightarrow> unit lprog \<Rightarrow> unit lprog" where
  "with_block pRI go =
     bnd block (\<lambda>ok. if ok then go else sendErrorResponse (Some pRI) RIL_E_NO_MEMORY)"

definition requestNumber_of :: "nat \<Rightarrow> int lprog" where
  "requestNumber_of pRI = bnd (request_at pRI) (\<lambda>r. ret (requestNumber (s_commands ! ri_pCI r)))"

definition dispatchVoid :: "vendor \<Rightarrow> int \<Rightarrow> nat \<Rightarrow> int \<Rightarrow> unit lprog" where
  "dispatchVoid vendor serial slotId request =
     with_request serial slotId request (\<lambda>pRI. vendor request NoData pRI slotId)"

definition dispatchString :: "vendor \<Rightarrow> int \<Rightarrow> nat \<Rightarrow> int \<Rightarrow> string \<Rightarrow> unit lprog" where
  "dispatchString vendor serial slotId request str =
     with_request serial slotId request (\<lambda>pRI.
       copied (hstr str) pRI False (\<lambda>pString. vendor request (Str pString) pRI slotId))"

fun copy_all :: "hidl_string list \<Rightarrow> nat \<Rightarrow> bool \<Rightarrow> (cptr list \<Rightarrow> unit lprog) \<Rightarrow> unit lprog" where
  "copy_all [] pRI allowEmpty go = go []"
| "copy_all (s # ss) pRI allowEmpty go =
     copied s pRI allowEmpty (\<lambda>c. copy_all ss pRI allowEmpty (\<lambda>cs. go (c # cs)))"

definition dispatchStrings :: "vendor \<Rightarrow> int \<Rightarrow> nat \<Rightarrow> int \<Rightarrow> bool \<Rightarrow> string list \<Rightarrow> unit lprog" where
  "dispatchStrings vendor serial slotId request allowEmpty strs =
     with_request serial slotId request (\<lambda>pRI. with_block pRI
       (copy_all (map hstr strs) pRI allowEmpty (\<lambda>pStrings. vendor request (Strs pStrings) pRI slotId)))"

definition dispatchStrings_vec :: "vendor \<Rightarrow> int \<Rightarrow> nat \<Rightarrow> int \<Rightarrow> hidl_string list \<Rightarrow> unit lprog" where
  "dispatchStrings_vec vendor serial slotId request strs =
     with_request serial slotId request (\<lambda>pRI. with_block pRI
       (copy_all strs pRI False (\<lambda>pStrings. vendor request (Strs pStrings) pRI slotId)))"

definition dispatchInts :: "vendor \<Rightarrow> int \<Rightarrow> nat \<Rightarrow> int \<Rightarrow> int list \<Rightarrow> unit lprog" where
  "dispatchInts vendor serial slotId request ints =
     with_request serial slotId request (\<lambda>pRI. with_block pRI (vendor request (Ints ints) pRI slotId))"

definition dispatchCallForwardStatus :: "vendor \<Rightarrow> int \<Rightarrow> nat \<Rightarrow> int \<Rightarrow> CallForwardInfo \<Rightarrow> unit lprog" where
  "dispatchCallForwardStatus vendor serial slotId request callInfo =
     with_request serial slotId request (\<lambda>pRI.
       copied (fw_number callInfo) pRI False (\<lambda>num.
         vendor request (CallForwardData \<lparr>cf_status = fw_status callInfo, cf_reason = fw_reason callInfo,
           cf_serviceClass = fw_serviceClass callInfo, cf_toa = fw_toa callInfo, cf_number = num,
           cf_timeSeconds = fw_timeSeconds callInfo\<rparr>) pRI slotId))"

definition dispatchRaw :: "vendor \<Rightarrow> int \<Rightarrow> nat \<Rightarrow> int \<Rightarrow> int list \<Rightarrow> unit lprog" where
  "dispatchRaw vendor serial slotId request rawBytes =
     with_request serial slotId request (\<lambda>pRI. vendor request (Raw rawBytes) pRI slotId)"

definition dispatchIccApdu :: "vendor \<Rightarrow> int \<Rightarrow> nat \<Rightarrow> int \<Rightarrow> SimApdu \<Rightarrow> unit lprog" where
  "dispatchIccApdu vendor serial slotId request message =
     with_request serial slotId request (\<lambda>pRI.
       copied (sa_data message) pRI False (\<lambda>d.
         vendor request (ApduData \<lparr>sessionid = sa_sessionId message, cla = sa_cla message,
           instruction = sa_instruction message, ap_p1 = sa_p1 message, ap_p2 = sa_p2 message,
           ap_p3 = sa_p3 message, ap_data = d\<rparr>) pRI slotId))"

section \<open>What becomes of a pending request\<close>

text \<open>
  A program handed a pending request and a vendor library: it changes nothing but what the allocator
  gives next and then either calls the vendor's \<^verbatim>\<open>onRequest\<close> once, as its last action, with the number
  and the token of the request and its slot, or answers the request once with an error.
\<close>

definition answered_with :: "lib \<Rightarrow> RequestInfo \<Rightarrow> RIL_Errno \<Rightarrow> lib" where
  "answered_with s r e = s\<lparr>sent := sent s @ [MResponse (ri_socket r) (ri_token r) RESPONSE_SOLICITED e PNone]\<rparr>"

definition goes_out :: "int \<Rightarrow> int \<Rightarrow> nat \<Rightarrow> nat \<Rightarrow> (vendor \<Rightarrow> unit lprog) \<Rightarrow> bool" where
  "goes_out v n slotId a m \<longleftrightarrow>
     (\<forall>s r. callbacks_version s = v \<longrightarrow> requests s a = Some r \<longrightarrow> ri_pCI r = nat n \<longrightarrow> ri_socket r = slotId \<longrightarrow>
       answerable r \<longrightarrow>
       (\<exists>b. (\<exists>d. \<forall>vendor. m vendor s = vendor n d a slotId (s\<lparr>allocs := b\<rparr>))
          \<or> (\<exists>e. \<forall>vendor. m vendor s = Done () (answered_with (s\<lparr>allocs := b\<rparr>) r e))))"

named_theorems goes_intros "programs that hand a request out or answer it"

lemma allocs_same [simp]: "s\<lparr>allocs := allocs s\<rparr> = (s :: lib)"
  by simp

lemma goes_vendor [goes_intros]: "goes_out v n slotId a (\<lambda>vendor. vendor n d a slotId)"
  unfolding goes_out_def
proof (intro allI impI)
  fix s :: lib and r
  show "\<exists>b. (\<exists>d'. \<forall>vendor :: vendor. vendor n d a slotId s = vendor n d' a slotId (s\<lparr>allocs := b\<rparr>))
      \<or> (\<exists>e. \<forall>vendor :: vendor. vendor n d a slotId s = Done () (answered_with (s\<lparr>allocs := b\<rparr>) r e))"
    by (intro exI [of _ "allocs s"] disjI1 exI [of _ d] allI) simp
qed

lemma error_answers:
  assumes "requests s a = Some r" and "answerable r"
  shows "sendErrorResponse (Some a) e s = Done () (answered_with s r e)"
  using assms by (auto simp: sendErrorResponse_def request_at_def call_response_def send_msg_def answerable_def
      answered_with_def run_simps)

lemma goes_error [goes_intros]: "goes_out v n slotId a (\<lambda>vendor. sendErrorResponse (Some a) e)"
  unfolding goes_out_def
proof (intro allI impI)
  fix s :: lib and r assume "requests s a = Some r" "answerable r"
  then show "\<exists>b. (\<exists>d. \<forall>vendor :: vendor. sendErrorResponse (Some a) e s = vendor n d a slotId (s\<lparr>allocs := b\<rparr>))
      \<or> (\<exists>e'. \<forall>vendor :: vendor. sendErrorResponse (Some a) e s = Done () (answered_with (s\<lparr>allocs := b\<rparr>) r e'))"
    by (intro exI [of _ "allocs s"] disjI2 exI [of _ e] allI) (simp add: error_answers)
qed

lemma block_run: "\<exists>ok b. block s = Done ok (s\<lparr>allocs := b\<rparr>)"
proof -
  have "block s = Done (case allocs s of Some a # _ \<Rightarrow> True | _ \<Rightarrow> False) (s\<lparr>allocs := tl (allocs s)\<rparr>)"
  proof (cases "allocs s")
    case Nil
    then have "s\<lparr>allocs := []\<rparr> = s" by (metis allocs_same)
    with Nil show ?thesis by (simp add: block_def calloc_def run_simps)
  qed (auto simp: block_def calloc_def run_simps split: option.split)
  then show ?thesis by blast
qed

text \<open>Starting from another state of the allocator makes no difference.\<close>

lemma goes_out_after:
  assumes "goes_out v n slotId a m" and "callbacks_version s = v" "requests s a = Some r" "ri_pCI r = nat n" "ri_socket r = slotId" "answerable r"
    and "\<And>vendor. k vendor s = m vendor (s\<lparr>allocs := b\<rparr>)"
  shows "\<exists>b. (\<exists>d. \<forall>vendor. k vendor s = vendor n d a slotId (s\<lparr>allocs := b\<rparr>))
          \<or> (\<exists>e. \<forall>vendor. k vendor s = Done () (answered_with (s\<lparr>allocs := b\<rparr>) r e))"
  using assms(1) [unfolded goes_out_def, rule_format, of "s\<lparr>allocs := b\<rparr>" r] assms(2-7) by simp

lemma goes_block:
  assumes "goes_out v n slotId a (\<lambda>vendor. f True vendor)" and "goes_out v n slotId a (\<lambda>vendor. f False vendor)"
  shows "goes_out v n slotId a (\<lambda>vendor. bnd block (\<lambda>ok. f ok vendor))"
  unfolding goes_out_def
proof (intro allI impI)
  fix s :: lib and r assume r: "callbacks_version s = v" "requests s a = Some r" "ri_pCI r = nat n" "ri_socket r = slotId" "answerable r"
  obtain ok b where "block s = Done ok (s\<lparr>allocs := b\<rparr>)" using block_run by blast
  then have "bnd block (\<lambda>ok. f ok vendor) s = f ok vendor (s\<lparr>allocs := b\<rparr>)" for vendor by (simp add: bnd_def)
  moreover have "goes_out v n slotId a (\<lambda>vendor. f ok vendor)" using assms by (cases ok) simp_all
  ultimately show "\<exists>b. (\<exists>d. \<forall>vendor. bnd block (\<lambda>ok. f ok vendor) s = vendor n d a slotId (s\<lparr>allocs := b\<rparr>))
      \<or> (\<exists>e. \<forall>vendor. bnd block (\<lambda>ok. f ok vendor) s = Done () (answered_with (s\<lparr>allocs := b\<rparr>) r e))"
    using goes_out_after [OF _ r, where k = "\<lambda>vendor. bnd block (\<lambda>ok. f ok vendor)"] by blast
qed

lemma goes_if [goes_intros]:
  "goes_out v n slotId a f \<Longrightarrow> goes_out v n slotId a g \<Longrightarrow> goes_out v n slotId a (\<lambda>vendor. if c then f vendor else g vendor)"
  by (cases c) simp_all

lemma goes_with_block [goes_intros]:
  "goes_out v n slotId a f \<Longrightarrow> goes_out v n slotId a (\<lambda>vendor. with_block a (f vendor))"
  unfolding with_block_def by (rule goes_block) (simp_all add: goes_error)

lemma bnd_if: "bnd (if c then m else k) f = (if c then bnd m f else bnd k f)"
  by simp

lemma andthen_ret_bnd [simp]: "bnd (andthen m (ret x)) f = andthen m (f x)"
  by (simp add: andthen_def bnd_assoc)

lemma andthen_unit [simp]: "andthen m (ret ()) = m"
  by (auto simp: andthen_def bnd_def ret_def fun_eq_iff split: outcome.split)

lemma goes_copied [goes_intros]:
  assumes "\<And>c. goes_out v n slotId a (\<lambda>vendor. f c vendor)"
  shows "goes_out v n slotId a (\<lambda>vendor. copied src a allowEmpty (\<lambda>c. f c vendor))"
proof -
  have eq: "copied src a allowEmpty (\<lambda>c. f c vendor) =
      (if hs_size src = 0 \<and> \<not> allowEmpty then f None vendor
       else bnd block (\<lambda>ok. if \<not> ok then sendErrorResponse (Some a) RIL_E_NO_MEMORY
         else if length (hs_chars src) \<ge> hs_size src + 1 then sendErrorResponse (Some a) RIL_E_INTERNAL_ERR
         else f (Some (hs_chars src)) vendor))" for vendor
    unfolding copied_def copyHidlStringToRil_def
    by (simp add: bnd_assoc bnd_if cong: if_cong)
  show ?thesis
    unfolding eq
    by (intro goes_if assms goes_block) (simp_all add: assms goes_error)
qed

lemma goes_copy_all [goes_intros]:
  assumes "\<And>cs. goes_out v n slotId a (\<lambda>vendor. f cs vendor)"
  shows "goes_out v n slotId a (\<lambda>vendor. copy_all strs a allowEmpty (\<lambda>cs. f cs vendor))"
  using assms by (induction strs arbitrary: f) (simp_all add: goes_copied)

section \<open>What becomes of a client's call\<close>

text \<open>
  With memory for the record of the request: the request is entered with the client's serial number and
  goes out.
\<close>

definition entered :: "lib \<Rightarrow> eref list \<Rightarrow> eref list \<Rightarrow> (nat \<Rightarrow> nat list) \<Rightarrow> int \<Rightarrow> nat \<Rightarrow> int \<Rightarrow> nat \<Rightarrow> lib \<Rightarrow> bool" where
  "entered s ts ps L serial slotId n a t \<longleftrightarrow>
     (let k = pendingRequestsHook (SIM_COUNT s) slotId in lib_ok t ts ps (L(k := a # L k)))
     \<and> (\<exists>r. requests t a = Some r \<and> ri_token r = serial \<and> ri_pCI r = nat n \<and> ri_socket r = slotId \<and> answerable r
          \<and> ri_wasAckSent r = 0)
     \<and> SIM_COUNT t = SIM_COUNT s \<and> callbacks_version t = callbacks_version s"

definition served_once :: "int \<Rightarrow> int \<Rightarrow> nat \<Rightarrow> int \<Rightarrow> (vendor \<Rightarrow> unit lprog) \<Rightarrow> bool" where
  "served_once v n slotId serial m \<longleftrightarrow>
     (\<forall>s ts ps L a later. callbacks_version s = v \<longrightarrow> lib_ok s ts ps L \<longrightarrow> allocs s = Some a # later \<longrightarrow> requests s a = None \<longrightarrow>
       (\<exists>t. entered s ts ps L serial slotId n a t \<and>
          (sent t = sent s \<and> (\<exists>d. \<forall>vendor. m vendor s = vendor n d a slotId t)
         \<or> (\<exists>e. sent t = sent s @ [MResponse slotId serial RESPONSE_SOLICITED e PNone] \<and> (\<forall>vendor. m vendor s = Done () t)))))"

definition has_row :: "int \<Rightarrow> bool" where
  "has_row n \<longleftrightarrow> 0 \<le> n \<and> n < int (length s_commands) \<and> responseFunction (s_commands ! nat n) \<noteq> None"

lemma lib_ok_allocs_sent:
  "lib_ok (s\<lparr>allocs := b\<rparr>) ts ps L = lib_ok s ts ps L" "lib_ok (s\<lparr>sent := l\<rparr>) ts ps L = lib_ok s ts ps L"
proof -
  have "loop_ok (s\<lparr>sent := l\<rparr>) ts ps = loop_ok s ts ps" by (rule loop_ok_cong) simp_all
  moreover have "callable (s\<lparr>sent := l\<rparr>) e = callable s e" for e by (cases e) (simp_all add: callable_def call_of_def)
  ultimately show "lib_ok (s\<lparr>sent := l\<rparr>) ts ps L = lib_ok s ts ps L"
    by (simp add: lib_ok_def callbacks_ok_def wake_ok_def pending_ok_def watched_def)
qed (rule lib_ok_environment)

lemma entered_same:
  "entered s ts ps L serial slotId n a (t\<lparr>allocs := b\<rparr>) = entered s ts ps L serial slotId n a t"
  "entered s ts ps L serial slotId n a (t\<lparr>sent := l\<rparr>) = entered s ts ps L serial slotId n a t"
  by (simp_all add: entered_def lib_ok_allocs_sent)

lemma addRequest_version: "steps (\<lambda>s t. callbacks_version t = callbacks_version s) (addRequestToList serial slotId n)"
  unfolding addRequestToList_def calloc_def
  by (auto simp: steps_def bnd_Done andthen_Done gets_def modify_def ret_def crash_def split: list.splits option.splits if_splits)

lemma served_with_request:
  assumes row: "has_row n" and out: "\<And>a. goes_out v n slotId a (\<lambda>vendor. f a vendor)"
  shows "served_once v n slotId serial (\<lambda>vendor. with_request serial slotId n (\<lambda>a. f a vendor))"
  unfolding served_once_def
proof (intro allI impI)
  fix s ts ps L a later
  assume v: "callbacks_version s = v" and ok: "lib_ok s ts ps L" and al: "allocs s = Some a # later" and new: "requests s a = None"
  have req: "nat n < length s_commands" using row by (simp only: has_row_def) linarith
  from add_request_ok [OF ok al new req refl, of serial slotId] obtain t r where
    t: "addRequestToList serial slotId (nat n) s = Done (Some a) t"
      "lib_ok t ts ps (L(pendingRequestsHook (SIM_COUNT s) slotId := a # L (pendingRequestsHook (SIM_COUNT s) slotId)))"
      "requests t a = Some r" "ri_token r = serial" "ri_pCI r = nat n" "ri_socket r = slotId" "ri_cancelled r = 0"
      "ri_local r = 0" "ri_wasAckSent r = 0" "sent t = sent s" "SIM_COUNT t = SIM_COUNT s" by blast
  have ver: "callbacks_version t = callbacks_version s"
    using stepsD [OF addRequest_version t(1)] .
  have ans: "answerable r" using t row by (simp add: answerable_def has_row_def)
  have ent: "entered s ts ps L serial slotId n a t"
    using t ans ver by (simp add: entered_def)
  have run: "with_request serial slotId n (\<lambda>a. f a vendor) s = f a vendor t" for vendor
    by (simp add: with_request_def bnd_def t(1))
  from out [unfolded goes_out_def, rule_format, OF _ t(3,5,6) ans] ver v obtain b where
    "(\<exists>d. \<forall>vendor. f a vendor t = vendor n d a slotId (t\<lparr>allocs := b\<rparr>))
     \<or> (\<exists>e. \<forall>vendor. f a vendor t = Done () (answered_with (t\<lparr>allocs := b\<rparr>) r e))" by blast
  then show "\<exists>t. entered s ts ps L serial slotId n a t \<and>
      (sent t = sent s \<and> (\<exists>d. \<forall>vendor. with_request serial slotId n (\<lambda>a. f a vendor) s = vendor n d a slotId t)
      \<or> (\<exists>e. sent t = sent s @ [MResponse slotId serial RESPONSE_SOLICITED e PNone]
           \<and> (\<forall>vendor. with_request serial slotId n (\<lambda>a. f a vendor) s = Done () t)))"
  proof
    assume "\<exists>d. \<forall>vendor. f a vendor t = vendor n d a slotId (t\<lparr>allocs := b\<rparr>)"
    then show ?thesis using ent t(10) by (intro exI [of _ "t\<lparr>allocs := b\<rparr>"]) (simp add: run entered_same)
  next
    assume "\<exists>e. \<forall>vendor. f a vendor t = Done () (answered_with (t\<lparr>allocs := b\<rparr>) r e)"
    then obtain e where "\<forall>vendor. f a vendor t = Done () (answered_with (t\<lparr>allocs := b\<rparr>) r e)" by blast
    then show ?thesis
      using ent t by (intro exI [of _ "answered_with (t\<lparr>allocs := b\<rparr>) r e"]) (auto simp: run answered_with_def entered_same)
  qed
qed

end
