(* ===== verification/SvcSimple.thy ===== *)
theory SvcSimple
  imports SvcDispatch
begin

text \<open>
  The requests of \<^verbatim>\<open>libril/ril_service.cpp\<close> whose arguments are none, integers or strings: each method
  of the service names its request and lists its arguments.
\<close>

section \<open>Requests\<close>

definition getIccCardStatus :: "vendor \<Rightarrow> nat \<Rightarrow> int \<Rightarrow> unit lprog" where
  "getIccCardStatus vendor slot serial =
     dispatchVoid vendor serial slot RIL_REQUEST_GET_SIM_STATUS"

definition supplyIccPinForApp :: "vendor \<Rightarrow> nat \<Rightarrow> int \<Rightarrow> hidl_string \<Rightarrow> hidl_string \<Rightarrow> unit lprog" where
  "supplyIccPinForApp vendor slot serial pin aid =
     dispatchStrings vendor serial slot RIL_REQUEST_ENTER_SIM_PIN True
       [hs_chars pin, hs_chars aid]"

definition supplyIccPukForApp :: "vendor \<Rightarrow> nat \<Rightarrow> int \<Rightarrow> hidl_string \<Rightarrow> hidl_string \<Rightarrow> hidl_string \<Rightarrow> unit lprog" where
  "supplyIccPukForApp vendor slot serial puk pin aid =
     dispatchStrings vendor serial slot RIL_REQUEST_ENTER_SIM_PUK True
       [hs_chars puk, hs_chars pin, hs_chars aid]"

definition supplyIccPin2ForApp :: "vendor \<Rightarrow> nat \<Rightarrow> int \<Rightarrow> hidl_string \<Rightarrow> hidl_string \<Rightarrow> unit lprog" where
  "supplyIccPin2ForApp vendor slot serial sim_pin2 aid =
     dispatchStrings vendor serial slot RIL_REQUEST_ENTER_SIM_PIN2 True
       [hs_chars sim_pin2, hs_chars aid]"

definition supplyIccPuk2ForApp :: "vendor \<Rightarrow> nat \<Rightarrow> int \<Rightarrow> hidl_string \<Rightarrow> hidl_string \<Rightarrow> hidl_string \<Rightarrow> unit lprog" where
  "supplyIccPuk2ForApp vendor slot serial puk2 sim_pin2 aid =
     dispatchStrings vendor serial slot RIL_REQUEST_ENTER_SIM_PUK2 True
       [hs_chars puk2, hs_chars sim_pin2, hs_chars aid]"

definition changeIccPinForApp :: "vendor \<Rightarrow> nat \<Rightarrow> int \<Rightarrow> hidl_string \<Rightarrow> hidl_string \<Rightarrow> hidl_string \<Rightarrow> unit lprog" where
  "changeIccPinForApp vendor slot serial oldPin newPin aid =
     dispatchStrings vendor serial slot RIL_REQUEST_CHANGE_SIM_PIN True
       [hs_chars oldPin, hs_chars newPin, hs_chars aid]"

definition changeIccPin2ForApp :: "vendor \<Rightarrow> nat \<Rightarrow> int \<Rightarrow> hidl_string \<Rightarrow> hidl_string \<Rightarrow> hidl_string \<Rightarrow> unit lprog" where
  "changeIccPin2ForApp vendor slot serial oldPin2 newPin2 aid =
     dispatchStrings vendor serial slot RIL_REQUEST_CHANGE_SIM_PIN2 True
       [hs_chars oldPin2, hs_chars newPin2, hs_chars aid]"

definition supplyNetworkDepersonalization :: "vendor \<Rightarrow> nat \<Rightarrow> int \<Rightarrow> hidl_string \<Rightarrow> unit lprog" where
  "supplyNetworkDepersonalization vendor slot serial netPin =
     dispatchStrings vendor serial slot RIL_REQUEST_ENTER_NETWORK_DEPERSONALIZATION True
       [hs_chars netPin]"

definition getCurrentCalls :: "vendor \<Rightarrow> nat \<Rightarrow> int \<Rightarrow> unit lprog" where
  "getCurrentCalls vendor slot serial =
     dispatchVoid vendor serial slot RIL_REQUEST_GET_CURRENT_CALLS"

definition getImsiForApp :: "vendor \<Rightarrow> nat \<Rightarrow> int \<Rightarrow> hidl_string \<Rightarrow> unit lprog" where
  "getImsiForApp vendor slot serial aid =
     dispatchStrings vendor serial slot RIL_REQUEST_GET_IMSI False
       [hs_chars aid]"

definition hangup :: "vendor \<Rightarrow> nat \<Rightarrow> int \<Rightarrow> int \<Rightarrow> unit lprog" where
  "hangup vendor slot serial gsmIndex =
     dispatchInts vendor serial slot RIL_REQUEST_HANGUP [gsmIndex]"

definition hangupWaitingOrBackground :: "vendor \<Rightarrow> nat \<Rightarrow> int \<Rightarrow> unit lprog" where
  "hangupWaitingOrBackground vendor slot serial =
     dispatchVoid vendor serial slot RIL_REQUEST_HANGUP_WAITING_OR_BACKGROUND"

definition hangupForegroundResumeBackground :: "vendor \<Rightarrow> nat \<Rightarrow> int \<Rightarrow> unit lprog" where
  "hangupForegroundResumeBackground vendor slot serial =
     dispatchVoid vendor serial slot RIL_REQUEST_HANGUP_FOREGROUND_RESUME_BACKGROUND"

definition switchWaitingOrHoldingAndActive :: "vendor \<Rightarrow> nat \<Rightarrow> int \<Rightarrow> unit lprog" where
  "switchWaitingOrHoldingAndActive vendor slot serial =
     dispatchVoid vendor serial slot RIL_REQUEST_SWITCH_WAITING_OR_HOLDING_AND_ACTIVE"

definition conference :: "vendor \<Rightarrow> nat \<Rightarrow> int \<Rightarrow> unit lprog" where
  "conference vendor slot serial =
     dispatchVoid vendor serial slot RIL_REQUEST_CONFERENCE"

definition rejectCall :: "vendor \<Rightarrow> nat \<Rightarrow> int \<Rightarrow> unit lprog" where
  "rejectCall vendor slot serial =
     dispatchVoid vendor serial slot RIL_REQUEST_UDUB"

definition getLastCallFailCause :: "vendor \<Rightarrow> nat \<Rightarrow> int \<Rightarrow> unit lprog" where
  "getLastCallFailCause vendor slot serial =
     dispatchVoid vendor serial slot RIL_REQUEST_LAST_CALL_FAIL_CAUSE"

definition getSignalStrength :: "vendor \<Rightarrow> nat \<Rightarrow> int \<Rightarrow> unit lprog" where
  "getSignalStrength vendor slot serial =
     dispatchVoid vendor serial slot RIL_REQUEST_SIGNAL_STRENGTH"

definition getVoiceRegistrationState :: "vendor \<Rightarrow> nat \<Rightarrow> int \<Rightarrow> unit lprog" where
  "getVoiceRegistrationState vendor slot serial =
     dispatchVoid vendor serial slot RIL_REQUEST_VOICE_REGISTRATION_STATE"

definition getDataRegistrationState :: "vendor \<Rightarrow> nat \<Rightarrow> int \<Rightarrow> unit lprog" where
  "getDataRegistrationState vendor slot serial =
     dispatchVoid vendor serial slot RIL_REQUEST_DATA_REGISTRATION_STATE"

definition getOperator :: "vendor \<Rightarrow> nat \<Rightarrow> int \<Rightarrow> unit lprog" where
  "getOperator vendor slot serial =
     dispatchVoid vendor serial slot RIL_REQUEST_OPERATOR"

definition sendDtmf :: "vendor \<Rightarrow> nat \<Rightarrow> int \<Rightarrow> hidl_string \<Rightarrow> unit lprog" where
  "sendDtmf vendor slot serial tones =
     dispatchString vendor serial slot RIL_REQUEST_DTMF (hs_chars tones)"

definition sendSms :: "vendor \<Rightarrow> nat \<Rightarrow> int \<Rightarrow> GsmSmsMessage \<Rightarrow> unit lprog" where
  "sendSms vendor slot serial msg =
     dispatchStrings vendor serial slot RIL_REQUEST_SEND_SMS False
       [hs_chars (gs_smscPdu msg), hs_chars (gs_pdu msg)]"

definition sendSMSExpectMore :: "vendor \<Rightarrow> nat \<Rightarrow> int \<Rightarrow> GsmSmsMessage \<Rightarrow> unit lprog" where
  "sendSMSExpectMore vendor slot serial msg =
     dispatchStrings vendor serial slot RIL_REQUEST_SEND_SMS_EXPECT_MORE False
       [hs_chars (gs_smscPdu msg), hs_chars (gs_pdu msg)]"

definition sendUssd :: "vendor \<Rightarrow> nat \<Rightarrow> int \<Rightarrow> hidl_string \<Rightarrow> unit lprog" where
  "sendUssd vendor slot serial ussd =
     dispatchString vendor serial slot RIL_REQUEST_SEND_USSD (hs_chars ussd)"

definition cancelPendingUssd :: "vendor \<Rightarrow> nat \<Rightarrow> int \<Rightarrow> unit lprog" where
  "cancelPendingUssd vendor slot serial =
     dispatchVoid vendor serial slot RIL_REQUEST_CANCEL_USSD"

definition getClir :: "vendor \<Rightarrow> nat \<Rightarrow> int \<Rightarrow> unit lprog" where
  "getClir vendor slot serial =
     dispatchVoid vendor serial slot RIL_REQUEST_GET_CLIR"

definition setClir :: "vendor \<Rightarrow> nat \<Rightarrow> int \<Rightarrow> int \<Rightarrow> unit lprog" where
  "setClir vendor slot serial clir_status =
     dispatchInts vendor serial slot RIL_REQUEST_SET_CLIR [clir_status]"

definition getCallForwardStatus :: "vendor \<Rightarrow> nat \<Rightarrow> int \<Rightarrow> CallForwardInfo \<Rightarrow> unit lprog" where
  "getCallForwardStatus vendor slot serial callInfo =
     dispatchCallForwardStatus vendor serial slot RIL_REQUEST_QUERY_CALL_FORWARD_STATUS callInfo"

definition setCallForward :: "vendor \<Rightarrow> nat \<Rightarrow> int \<Rightarrow> CallForwardInfo \<Rightarrow> unit lprog" where
  "setCallForward vendor slot serial callInfo =
     dispatchCallForwardStatus vendor serial slot RIL_REQUEST_SET_CALL_FORWARD callInfo"

definition getCallWaiting :: "vendor \<Rightarrow> nat \<Rightarrow> int \<Rightarrow> int \<Rightarrow> unit lprog" where
  "getCallWaiting vendor slot serial serviceClass =
     dispatchInts vendor serial slot RIL_REQUEST_QUERY_CALL_WAITING [serviceClass]"

definition setCallWaiting :: "vendor \<Rightarrow> nat \<Rightarrow> int \<Rightarrow> bool \<Rightarrow> int \<Rightarrow> unit lprog" where
  "setCallWaiting vendor slot serial enabled serviceClass =
     dispatchInts vendor serial slot RIL_REQUEST_SET_CALL_WAITING [BOOL_TO_INT enabled, serviceClass]"

definition acknowledgeLastIncomingGsmSms :: "vendor \<Rightarrow> nat \<Rightarrow> int \<Rightarrow> bool \<Rightarrow> int \<Rightarrow> unit lprog" where
  "acknowledgeLastIncomingGsmSms vendor slot serial accepted cause =
     dispatchInts vendor serial slot RIL_REQUEST_SMS_ACKNOWLEDGE [BOOL_TO_INT accepted, cause]"

definition acceptCall :: "vendor \<Rightarrow> nat \<Rightarrow> int \<Rightarrow> unit lprog" where
  "acceptCall vendor slot serial =
     dispatchVoid vendor serial slot RIL_REQUEST_ANSWER"

definition deactivateDataCall :: "vendor \<Rightarrow> nat \<Rightarrow> int \<Rightarrow> int \<Rightarrow> bool \<Rightarrow> unit lprog" where
  "deactivateDataCall vendor slot serial call_id reasonRadioShutDown =
     dispatchStrings vendor serial slot RIL_REQUEST_DEACTIVATE_DATA_CALL False
       [fmt_d call_id, if reasonRadioShutDown then ''1'' else ''0'']"

definition getFacilityLockForApp :: "vendor \<Rightarrow> nat \<Rightarrow> int \<Rightarrow> hidl_string \<Rightarrow> hidl_string \<Rightarrow> int \<Rightarrow> hidl_string \<Rightarrow> unit lprog" where
  "getFacilityLockForApp vendor slot serial facility password serviceClass appId =
     dispatchStrings vendor serial slot RIL_REQUEST_QUERY_FACILITY_LOCK True
       [hs_chars facility, hs_chars password, fmt_d serviceClass, hs_chars appId]"

definition setFacilityLockForApp :: "vendor \<Rightarrow> nat \<Rightarrow> int \<Rightarrow> hidl_string \<Rightarrow> bool \<Rightarrow> hidl_string \<Rightarrow> int \<Rightarrow> hidl_string \<Rightarrow> unit lprog" where
  "setFacilityLockForApp vendor slot serial facility lockState password serviceClass appId =
     dispatchStrings vendor serial slot RIL_REQUEST_SET_FACILITY_LOCK True
       [hs_chars facility, if lockState then ''1'' else ''0'', hs_chars password, fmt_d serviceClass, hs_chars appId]"

definition setBarringPassword :: "vendor \<Rightarrow> nat \<Rightarrow> int \<Rightarrow> hidl_string \<Rightarrow> hidl_string \<Rightarrow> hidl_string \<Rightarrow> unit lprog" where
  "setBarringPassword vendor slot serial facility oldPassword newPassword =
     dispatchStrings vendor serial slot RIL_REQUEST_CHANGE_BARRING_PASSWORD True
       [hs_chars facility, hs_chars oldPassword, hs_chars newPassword]"

definition getNetworkSelectionMode :: "vendor \<Rightarrow> nat \<Rightarrow> int \<Rightarrow> unit lprog" where
  "getNetworkSelectionMode vendor slot serial =
     dispatchVoid vendor serial slot RIL_REQUEST_QUERY_NETWORK_SELECTION_MODE"

definition setNetworkSelectionModeAutomatic :: "vendor \<Rightarrow> nat \<Rightarrow> int \<Rightarrow> unit lprog" where
  "setNetworkSelectionModeAutomatic vendor slot serial =
     dispatchVoid vendor serial slot RIL_REQUEST_SET_NETWORK_SELECTION_AUTOMATIC"

definition setNetworkSelectionModeManual :: "vendor \<Rightarrow> nat \<Rightarrow> int \<Rightarrow> hidl_string \<Rightarrow> unit lprog" where
  "setNetworkSelectionModeManual vendor slot serial operatorNumeric =
     dispatchString vendor serial slot RIL_REQUEST_SET_NETWORK_SELECTION_MANUAL (hs_chars operatorNumeric)"

definition getAvailableNetworks :: "vendor \<Rightarrow> nat \<Rightarrow> int \<Rightarrow> unit lprog" where
  "getAvailableNetworks vendor slot serial =
     dispatchVoid vendor serial slot RIL_REQUEST_QUERY_AVAILABLE_NETWORKS"

definition stopNetworkScan :: "vendor \<Rightarrow> nat \<Rightarrow> int \<Rightarrow> unit lprog" where
  "stopNetworkScan vendor slot serial =
     dispatchVoid vendor serial slot RIL_REQUEST_STOP_NETWORK_SCAN"

definition startDtmf :: "vendor \<Rightarrow> nat \<Rightarrow> int \<Rightarrow> hidl_string \<Rightarrow> unit lprog" where
  "startDtmf vendor slot serial tones =
     dispatchString vendor serial slot RIL_REQUEST_DTMF_START (hs_chars tones)"

definition stopDtmf :: "vendor \<Rightarrow> nat \<Rightarrow> int \<Rightarrow> unit lprog" where
  "stopDtmf vendor slot serial =
     dispatchVoid vendor serial slot RIL_REQUEST_DTMF_STOP"

definition getBasebandVersion :: "vendor \<Rightarrow> nat \<Rightarrow> int \<Rightarrow> unit lprog" where
  "getBasebandVersion vendor slot serial =
     dispatchVoid vendor serial slot RIL_REQUEST_BASEBAND_VERSION"

definition separateConnection :: "vendor \<Rightarrow> nat \<Rightarrow> int \<Rightarrow> int \<Rightarrow> unit lprog" where
  "separateConnection vendor slot serial gsmIndex =
     dispatchInts vendor serial slot RIL_REQUEST_SEPARATE_CONNECTION [gsmIndex]"

definition setMute :: "vendor \<Rightarrow> nat \<Rightarrow> int \<Rightarrow> bool \<Rightarrow> unit lprog" where
  "setMute vendor slot serial enabled =
     dispatchInts vendor serial slot RIL_REQUEST_SET_MUTE [BOOL_TO_INT enabled]"

definition getMute :: "vendor \<Rightarrow> nat \<Rightarrow> int \<Rightarrow> unit lprog" where
  "getMute vendor slot serial =
     dispatchVoid vendor serial slot RIL_REQUEST_GET_MUTE"

definition getClip :: "vendor \<Rightarrow> nat \<Rightarrow> int \<Rightarrow> unit lprog" where
  "getClip vendor slot serial =
     dispatchVoid vendor serial slot RIL_REQUEST_QUERY_CLIP"

definition getDataCallList :: "vendor \<Rightarrow> nat \<Rightarrow> int \<Rightarrow> unit lprog" where
  "getDataCallList vendor slot serial =
     dispatchVoid vendor serial slot RIL_REQUEST_DATA_CALL_LIST"

definition setSuppServiceNotifications :: "vendor \<Rightarrow> nat \<Rightarrow> int \<Rightarrow> bool \<Rightarrow> unit lprog" where
  "setSuppServiceNotifications vendor slot serial enabled =
     dispatchInts vendor serial slot RIL_REQUEST_SET_SUPP_SVC_NOTIFICATION [BOOL_TO_INT enabled]"

definition deleteSmsOnSim :: "vendor \<Rightarrow> nat \<Rightarrow> int \<Rightarrow> int \<Rightarrow> unit lprog" where
  "deleteSmsOnSim vendor slot serial sms_index =
     dispatchInts vendor serial slot RIL_REQUEST_DELETE_SMS_ON_SIM [sms_index]"

definition setBandMode :: "vendor \<Rightarrow> nat \<Rightarrow> int \<Rightarrow> int \<Rightarrow> unit lprog" where
  "setBandMode vendor slot serial mode_code =
     dispatchInts vendor serial slot RIL_REQUEST_SET_BAND_MODE [mode_code]"

definition getAvailableBandModes :: "vendor \<Rightarrow> nat \<Rightarrow> int \<Rightarrow> unit lprog" where
  "getAvailableBandModes vendor slot serial =
     dispatchVoid vendor serial slot RIL_REQUEST_QUERY_AVAILABLE_BAND_MODE"

definition sendEnvelope :: "vendor \<Rightarrow> nat \<Rightarrow> int \<Rightarrow> hidl_string \<Rightarrow> unit lprog" where
  "sendEnvelope vendor slot serial contents =
     dispatchString vendor serial slot RIL_REQUEST_STK_SEND_ENVELOPE_COMMAND (hs_chars contents)"

definition sendTerminalResponseToSim :: "vendor \<Rightarrow> nat \<Rightarrow> int \<Rightarrow> hidl_string \<Rightarrow> unit lprog" where
  "sendTerminalResponseToSim vendor slot serial commandResponse =
     dispatchString vendor serial slot RIL_REQUEST_STK_SEND_TERMINAL_RESPONSE (hs_chars commandResponse)"

definition handleStkCallSetupRequestFromSim :: "vendor \<Rightarrow> nat \<Rightarrow> int \<Rightarrow> bool \<Rightarrow> unit lprog" where
  "handleStkCallSetupRequestFromSim vendor slot serial accepted =
     dispatchInts vendor serial slot RIL_REQUEST_STK_HANDLE_CALL_SETUP_REQUESTED_FROM_SIM [BOOL_TO_INT accepted]"

definition explicitCallTransfer :: "vendor \<Rightarrow> nat \<Rightarrow> int \<Rightarrow> unit lprog" where
  "explicitCallTransfer vendor slot serial =
     dispatchVoid vendor serial slot RIL_REQUEST_EXPLICIT_CALL_TRANSFER"

definition setPreferredNetworkType :: "vendor \<Rightarrow> nat \<Rightarrow> int \<Rightarrow> int \<Rightarrow> unit lprog" where
  "setPreferredNetworkType vendor slot serial nwType =
     dispatchInts vendor serial slot RIL_REQUEST_SET_PREFERRED_NETWORK_TYPE [nwType]"

definition getPreferredNetworkType :: "vendor \<Rightarrow> nat \<Rightarrow> int \<Rightarrow> unit lprog" where
  "getPreferredNetworkType vendor slot serial =
     dispatchVoid vendor serial slot RIL_REQUEST_GET_PREFERRED_NETWORK_TYPE"

definition getNeighboringCids :: "vendor \<Rightarrow> nat \<Rightarrow> int \<Rightarrow> unit lprog" where
  "getNeighboringCids vendor slot serial =
     dispatchVoid vendor serial slot RIL_REQUEST_GET_NEIGHBORING_CELL_IDS"

definition setLocationUpdates :: "vendor \<Rightarrow> nat \<Rightarrow> int \<Rightarrow> bool \<Rightarrow> unit lprog" where
  "setLocationUpdates vendor slot serial enabled =
     dispatchInts vendor serial slot RIL_REQUEST_SET_LOCATION_UPDATES [BOOL_TO_INT enabled]"

definition setCdmaSubscriptionSource :: "vendor \<Rightarrow> nat \<Rightarrow> int \<Rightarrow> int \<Rightarrow> unit lprog" where
  "setCdmaSubscriptionSource vendor slot serial cdmaSub =
     dispatchInts vendor serial slot RIL_REQUEST_CDMA_SET_SUBSCRIPTION_SOURCE [cdmaSub]"

definition setCdmaRoamingPreference :: "vendor \<Rightarrow> nat \<Rightarrow> int \<Rightarrow> int \<Rightarrow> unit lprog" where
  "setCdmaRoamingPreference vendor slot serial roaming_type =
     dispatchInts vendor serial slot RIL_REQUEST_CDMA_SET_ROAMING_PREFERENCE [roaming_type]"

definition getCdmaRoamingPreference :: "vendor \<Rightarrow> nat \<Rightarrow> int \<Rightarrow> unit lprog" where
  "getCdmaRoamingPreference vendor slot serial =
     dispatchVoid vendor serial slot RIL_REQUEST_CDMA_QUERY_ROAMING_PREFERENCE"

definition setTTYMode :: "vendor \<Rightarrow> nat \<Rightarrow> int \<Rightarrow> int \<Rightarrow> unit lprog" where
  "setTTYMode vendor slot serial mode_code =
     dispatchInts vendor serial slot RIL_REQUEST_SET_TTY_MODE [mode_code]"

definition getTTYMode :: "vendor \<Rightarrow> nat \<Rightarrow> int \<Rightarrow> unit lprog" where
  "getTTYMode vendor slot serial =
     dispatchVoid vendor serial slot RIL_REQUEST_QUERY_TTY_MODE"

definition setPreferredVoicePrivacy :: "vendor \<Rightarrow> nat \<Rightarrow> int \<Rightarrow> bool \<Rightarrow> unit lprog" where
  "setPreferredVoicePrivacy vendor slot serial enabled =
     dispatchInts vendor serial slot RIL_REQUEST_CDMA_SET_PREFERRED_VOICE_PRIVACY_MODE [BOOL_TO_INT enabled]"

definition getPreferredVoicePrivacy :: "vendor \<Rightarrow> nat \<Rightarrow> int \<Rightarrow> unit lprog" where
  "getPreferredVoicePrivacy vendor slot serial =
     dispatchVoid vendor serial slot RIL_REQUEST_CDMA_QUERY_PREFERRED_VOICE_PRIVACY_MODE"

definition sendCDMAFeatureCode :: "vendor \<Rightarrow> nat \<Rightarrow> int \<Rightarrow> hidl_string \<Rightarrow> unit lprog" where
  "sendCDMAFeatureCode vendor slot serial featureCode =
     dispatchString vendor serial slot RIL_REQUEST_CDMA_FLASH (hs_chars featureCode)"

definition sendBurstDtmf :: "vendor \<Rightarrow> nat \<Rightarrow> int \<Rightarrow> hidl_string \<Rightarrow> int \<Rightarrow> int \<Rightarrow> unit lprog" where
  "sendBurstDtmf vendor slot serial dtmf on_ms off_ms =
     dispatchStrings vendor serial slot RIL_REQUEST_CDMA_BURST_DTMF False
       [hs_chars dtmf, fmt_d on_ms, fmt_d off_ms]"

definition getGsmBroadcastConfig :: "vendor \<Rightarrow> nat \<Rightarrow> int \<Rightarrow> unit lprog" where
  "getGsmBroadcastConfig vendor slot serial =
     dispatchVoid vendor serial slot RIL_REQUEST_GSM_GET_BROADCAST_SMS_CONFIG"

definition setGsmBroadcastActivation :: "vendor \<Rightarrow> nat \<Rightarrow> int \<Rightarrow> bool \<Rightarrow> unit lprog" where
  "setGsmBroadcastActivation vendor slot serial activate =
     dispatchInts vendor serial slot RIL_REQUEST_GSM_SMS_BROADCAST_ACTIVATION [BOOL_TO_INT (\<not> activate)]"

definition getCdmaBroadcastConfig :: "vendor \<Rightarrow> nat \<Rightarrow> int \<Rightarrow> unit lprog" where
  "getCdmaBroadcastConfig vendor slot serial =
     dispatchVoid vendor serial slot RIL_REQUEST_CDMA_GET_BROADCAST_SMS_CONFIG"

definition setCdmaBroadcastActivation :: "vendor \<Rightarrow> nat \<Rightarrow> int \<Rightarrow> bool \<Rightarrow> unit lprog" where
  "setCdmaBroadcastActivation vendor slot serial activate =
     dispatchInts vendor serial slot RIL_REQUEST_CDMA_SMS_BROADCAST_ACTIVATION [BOOL_TO_INT (\<not> activate)]"

definition getCDMASubscription :: "vendor \<Rightarrow> nat \<Rightarrow> int \<Rightarrow> unit lprog" where
  "getCDMASubscription vendor slot serial =
     dispatchVoid vendor serial slot RIL_REQUEST_CDMA_SUBSCRIPTION"

definition deleteSmsOnRuim :: "vendor \<Rightarrow> nat \<Rightarrow> int \<Rightarrow> int \<Rightarrow> unit lprog" where
  "deleteSmsOnRuim vendor slot serial sms_index =
     dispatchInts vendor serial slot RIL_REQUEST_CDMA_DELETE_SMS_ON_RUIM [sms_index]"

definition getDeviceIdentity :: "vendor \<Rightarrow> nat \<Rightarrow> int \<Rightarrow> unit lprog" where
  "getDeviceIdentity vendor slot serial =
     dispatchVoid vendor serial slot RIL_REQUEST_DEVICE_IDENTITY"

definition exitEmergencyCallbackMode :: "vendor \<Rightarrow> nat \<Rightarrow> int \<Rightarrow> unit lprog" where
  "exitEmergencyCallbackMode vendor slot serial =
     dispatchVoid vendor serial slot RIL_REQUEST_EXIT_EMERGENCY_CALLBACK_MODE"

definition getSmscAddress :: "vendor \<Rightarrow> nat \<Rightarrow> int \<Rightarrow> unit lprog" where
  "getSmscAddress vendor slot serial =
     dispatchVoid vendor serial slot RIL_REQUEST_GET_SMSC_ADDRESS"

definition setSmscAddress :: "vendor \<Rightarrow> nat \<Rightarrow> int \<Rightarrow> hidl_string \<Rightarrow> unit lprog" where
  "setSmscAddress vendor slot serial smsc =
     dispatchString vendor serial slot RIL_REQUEST_SET_SMSC_ADDRESS (hs_chars smsc)"

definition reportSmsMemoryStatus :: "vendor \<Rightarrow> nat \<Rightarrow> int \<Rightarrow> bool \<Rightarrow> unit lprog" where
  "reportSmsMemoryStatus vendor slot serial available =
     dispatchInts vendor serial slot RIL_REQUEST_REPORT_SMS_MEMORY_STATUS [BOOL_TO_INT available]"

definition reportStkServiceIsRunning :: "vendor \<Rightarrow> nat \<Rightarrow> int \<Rightarrow> unit lprog" where
  "reportStkServiceIsRunning vendor slot serial =
     dispatchVoid vendor serial slot RIL_REQUEST_REPORT_STK_SERVICE_IS_RUNNING"

definition getCdmaSubscriptionSource :: "vendor \<Rightarrow> nat \<Rightarrow> int \<Rightarrow> unit lprog" where
  "getCdmaSubscriptionSource vendor slot serial =
     dispatchVoid vendor serial slot RIL_REQUEST_CDMA_GET_SUBSCRIPTION_SOURCE"

definition requestIsimAuthentication :: "vendor \<Rightarrow> nat \<Rightarrow> int \<Rightarrow> hidl_string \<Rightarrow> unit lprog" where
  "requestIsimAuthentication vendor slot serial nonce =
     dispatchString vendor serial slot RIL_REQUEST_ISIM_AUTHENTICATION (hs_chars nonce)"

definition acknowledgeIncomingGsmSmsWithPdu :: "vendor \<Rightarrow> nat \<Rightarrow> int \<Rightarrow> bool \<Rightarrow> hidl_string \<Rightarrow> unit lprog" where
  "acknowledgeIncomingGsmSmsWithPdu vendor slot serial accepted ackPdu =
     dispatchStrings vendor serial slot RIL_REQUEST_ACKNOWLEDGE_INCOMING_GSM_SMS_WITH_PDU False
       [if accepted then ''1'' else ''0'', hs_chars ackPdu]"

definition sendEnvelopeWithStatus :: "vendor \<Rightarrow> nat \<Rightarrow> int \<Rightarrow> hidl_string \<Rightarrow> unit lprog" where
  "sendEnvelopeWithStatus vendor slot serial contents =
     dispatchString vendor serial slot RIL_REQUEST_STK_SEND_ENVELOPE_WITH_STATUS (hs_chars contents)"

definition getVoiceRadioTechnology :: "vendor \<Rightarrow> nat \<Rightarrow> int \<Rightarrow> unit lprog" where
  "getVoiceRadioTechnology vendor slot serial =
     dispatchVoid vendor serial slot RIL_REQUEST_VOICE_RADIO_TECH"

definition getCellInfoList :: "vendor \<Rightarrow> nat \<Rightarrow> int \<Rightarrow> unit lprog" where
  "getCellInfoList vendor slot serial =
     dispatchVoid vendor serial slot RIL_REQUEST_GET_CELL_INFO_LIST"

definition setCellInfoListRate :: "vendor \<Rightarrow> nat \<Rightarrow> int \<Rightarrow> int \<Rightarrow> unit lprog" where
  "setCellInfoListRate vendor slot serial list_rate =
     dispatchInts vendor serial slot RIL_REQUEST_SET_UNSOL_CELL_INFO_LIST_RATE [list_rate]"

definition getImsRegistrationState :: "vendor \<Rightarrow> nat \<Rightarrow> int \<Rightarrow> unit lprog" where
  "getImsRegistrationState vendor slot serial =
     dispatchVoid vendor serial slot RIL_REQUEST_IMS_REGISTRATION_STATE"

definition iccTransmitApduBasicChannel :: "vendor \<Rightarrow> nat \<Rightarrow> int \<Rightarrow> SimApdu \<Rightarrow> unit lprog" where
  "iccTransmitApduBasicChannel vendor slot serial msg =
     dispatchIccApdu vendor serial slot RIL_REQUEST_SIM_TRANSMIT_APDU_BASIC msg"

definition iccCloseLogicalChannel :: "vendor \<Rightarrow> nat \<Rightarrow> int \<Rightarrow> int \<Rightarrow> unit lprog" where
  "iccCloseLogicalChannel vendor slot serial channel =
     dispatchInts vendor serial slot RIL_REQUEST_SIM_CLOSE_CHANNEL [channel]"

definition iccTransmitApduLogicalChannel :: "vendor \<Rightarrow> nat \<Rightarrow> int \<Rightarrow> SimApdu \<Rightarrow> unit lprog" where
  "iccTransmitApduLogicalChannel vendor slot serial msg =
     dispatchIccApdu vendor serial slot RIL_REQUEST_SIM_TRANSMIT_APDU_CHANNEL msg"

definition nvWriteCdmaPrl :: "vendor \<Rightarrow> nat \<Rightarrow> int \<Rightarrow> int list \<Rightarrow> unit lprog" where
  "nvWriteCdmaPrl vendor slot serial prl =
     dispatchRaw vendor serial slot RIL_REQUEST_NV_WRITE_CDMA_PRL prl"

definition setDataAllowed :: "vendor \<Rightarrow> nat \<Rightarrow> int \<Rightarrow> bool \<Rightarrow> unit lprog" where
  "setDataAllowed vendor slot serial allow =
     dispatchInts vendor serial slot RIL_REQUEST_ALLOW_DATA [BOOL_TO_INT allow]"

definition getHardwareConfig :: "vendor \<Rightarrow> nat \<Rightarrow> int \<Rightarrow> unit lprog" where
  "getHardwareConfig vendor slot serial =
     dispatchVoid vendor serial slot RIL_REQUEST_GET_HARDWARE_CONFIG"

definition requestShutdown_svc :: "vendor \<Rightarrow> nat \<Rightarrow> int \<Rightarrow> unit lprog" where
  "requestShutdown_svc vendor slot serial =
     dispatchVoid vendor serial slot RIL_REQUEST_SHUTDOWN"

definition getRadioCapability :: "vendor \<Rightarrow> nat \<Rightarrow> int \<Rightarrow> unit lprog" where
  "getRadioCapability vendor slot serial =
     dispatchVoid vendor serial slot RIL_REQUEST_GET_RADIO_CAPABILITY"

definition startLceService :: "vendor \<Rightarrow> nat \<Rightarrow> int \<Rightarrow> int \<Rightarrow> bool \<Rightarrow> unit lprog" where
  "startLceService vendor slot serial reportInterval pullMode =
     dispatchInts vendor serial slot RIL_REQUEST_START_LCE [reportInterval, BOOL_TO_INT pullMode]"

definition stopLceService :: "vendor \<Rightarrow> nat \<Rightarrow> int \<Rightarrow> unit lprog" where
  "stopLceService vendor slot serial =
     dispatchVoid vendor serial slot RIL_REQUEST_STOP_LCE"

definition pullLceData :: "vendor \<Rightarrow> nat \<Rightarrow> int \<Rightarrow> unit lprog" where
  "pullLceData vendor slot serial =
     dispatchVoid vendor serial slot RIL_REQUEST_PULL_LCEDATA"

definition getModemActivityInfo :: "vendor \<Rightarrow> nat \<Rightarrow> int \<Rightarrow> unit lprog" where
  "getModemActivityInfo vendor slot serial =
     dispatchVoid vendor serial slot RIL_REQUEST_GET_ACTIVITY_INFO"

definition getAllowedCarriers :: "vendor \<Rightarrow> nat \<Rightarrow> int \<Rightarrow> unit lprog" where
  "getAllowedCarriers vendor slot serial =
     dispatchVoid vendor serial slot RIL_REQUEST_GET_CARRIER_RESTRICTIONS"

definition setSimCardPower :: "vendor \<Rightarrow> nat \<Rightarrow> int \<Rightarrow> bool \<Rightarrow> unit lprog" where
  "setSimCardPower vendor slot serial powerUp =
     dispatchInts vendor serial slot RIL_REQUEST_SET_SIM_CARD_POWER [BOOL_TO_INT powerUp]"

definition setSimCardPower_1_1 :: "vendor \<Rightarrow> nat \<Rightarrow> int \<Rightarrow> int \<Rightarrow> unit lprog" where
  "setSimCardPower_1_1 vendor slot serial state_on =
     dispatchInts vendor serial slot RIL_REQUEST_SET_SIM_CARD_POWER [state_on]"

definition sendRequestRaw :: "vendor \<Rightarrow> nat \<Rightarrow> int \<Rightarrow> int list \<Rightarrow> unit lprog" where
  "sendRequestRaw vendor slot serial bytes =
     dispatchRaw vendor serial slot RIL_REQUEST_OEM_HOOK_RAW bytes"

definition sendRequestStrings :: "vendor \<Rightarrow> nat \<Rightarrow> int \<Rightarrow> hidl_string list \<Rightarrow> unit lprog" where
  "sendRequestStrings vendor slot serial bytes =
     dispatchStrings_vec vendor serial slot RIL_REQUEST_OEM_HOOK_STRINGS bytes"

definition setRadioPower :: "vendor \<Rightarrow> nat \<Rightarrow> int \<Rightarrow> bool \<Rightarrow> unit lprog" where
  "setRadioPower vendor slot serial on =
     dispatchInts vendor serial slot RIL_REQUEST_RADIO_POWER [BOOL_TO_INT on]"

end
