(* ===== verification/SvcRequests.thy ===== *)
theory SvcRequests
  imports SvcSimple
begin

text \<open>
  The requests of \<^verbatim>\<open>libril/ril_service.cpp\<close> that fill in a structure of \<^verbatim>\<open>telephony/ril.h\<close>, with their
  checks of the arguments, and the acknowledgement and connection of a client.
\<close>

section \<open>Requests with structures\<close>

text \<open>\<^verbatim>\<open>CALL_ONREQUEST\<close> with the number, and the slot, taken from the request.\<close>

definition call_onRequest :: "vendor \<Rightarrow> ril_data \<Rightarrow> nat \<Rightarrow> nat \<Rightarrow> unit lprog" where
  "call_onRequest vendor d pRI slot = bnd (requestNumber_of pRI) (\<lambda>n. vendor n d pRI slot)"

definition call_onRequest_own :: "vendor \<Rightarrow> ril_data \<Rightarrow> nat \<Rightarrow> unit lprog" where
  "call_onRequest_own vendor d pRI =
     bnd (request_at pRI) (\<lambda>r. vendor (requestNumber (s_commands ! ri_pCI r)) d pRI (ri_socket r))"

definition dial :: "vendor \<Rightarrow> nat \<Rightarrow> int \<Rightarrow> Dial \<Rightarrow> unit lprog" where
  "dial vendor slot serial dialInfo =
     with_request serial slot RIL_REQUEST_DIAL (\<lambda>pRI.
       copied (da_address dialInfo) pRI False (\<lambda>addr.
         let go = (\<lambda>uus. vendor RIL_REQUEST_DIAL (DialData \<lparr>dial_address = addr, dial_clir = da_clir dialInfo,
                     dial_uusInfo = uus\<rparr>) pRI slot)
         in case da_uus dialInfo of
              [] \<Rightarrow> go None
            | u # _ \<Rightarrow>
                if hs_size (uu_data u) = 0 then
                  go (Some \<lparr>uusType = uu_type u, uusDcs = uu_dcs u, uusLength = 0, uusData = None\<rparr>)
                else copied (uu_data u) pRI False (\<lambda>d.
                  go (Some \<lparr>uusType = uu_type u, uusDcs = uu_dcs u, uusLength = int (hs_size (uu_data u)), uusData = d\<rparr>))))"

definition convertMvnoTypeToString :: "MvnoType \<Rightarrow> string option" where
  "convertMvnoTypeToString type = (case type of
     MVNO_IMSI \<Rightarrow> Some ''imsi''
   | MVNO_GID \<Rightarrow> Some ''gid''
   | MVNO_SPN \<Rightarrow> Some ''spn''
   | MVNO_NONE \<Rightarrow> Some ''''
   | MVNO_other _ \<Rightarrow> None)"

definition refuse :: "int \<Rightarrow> nat \<Rightarrow> int \<Rightarrow> RIL_Errno \<Rightarrow> unit lprog" where
  "refuse serial slot request e = with_request serial slot request (\<lambda>pRI. sendErrorResponse (Some pRI) e)"

definition flag :: "bool \<Rightarrow> string" where
  "flag b = (if b then ''1'' else ''0'')"

definition setupDataCall :: "vendor \<Rightarrow> nat \<Rightarrow> int \<Rightarrow> int \<Rightarrow> DataProfileInfo \<Rightarrow> bool \<Rightarrow> bool \<Rightarrow> bool \<Rightarrow> unit lprog" where
  "setupDataCall vendor slot serial radioTechnology info modemCognitive roamingAllowed isRoaming =
     bnd (gets callbacks_version) (\<lambda>version.
       if version \<ge> 4 \<and> version \<le> 14 then
         dispatchStrings vendor serial slot RIL_REQUEST_SETUP_DATA_CALL True
           [fmt_d (radioTechnology + 2), fmt_d (dp_profileId info), hs_chars (dp_apn info),
            hs_chars (dp_user info), hs_chars (dp_password info), fmt_d (dp_authType info),
            hs_chars (if isRoaming then dp_roamingProtocol info else dp_protocol info)]
       else if version \<ge> 15 then
         (case convertMvnoTypeToString (dp_mvnoType info) of
            None \<Rightarrow> refuse serial slot RIL_REQUEST_SETUP_DATA_CALL RIL_E_INVALID_ARGUMENTS
          | Some mvnoTypeStr \<Rightarrow>
              dispatchStrings vendor serial slot RIL_REQUEST_SETUP_DATA_CALL True
                [fmt_d (radioTechnology + 2), fmt_d (dp_profileId info), hs_chars (dp_apn info),
                 hs_chars (dp_user info), hs_chars (dp_password info), fmt_d (dp_authType info),
                 hs_chars (dp_protocol info), hs_chars (dp_roamingProtocol info),
                 fmt_d (dp_supportedApnTypesBitmap info), fmt_d (dp_bearerBitmap info),
                 flag modemCognitive, fmt_d (dp_mtu info), mvnoTypeStr,
                 hs_chars (dp_mvnoMatchData info), flag roamingAllowed])
       else refuse serial slot RIL_REQUEST_SETUP_DATA_CALL RIL_E_REQUEST_NOT_SUPPORTED)"

definition iccIOForApp :: "vendor \<Rightarrow> nat \<Rightarrow> int \<Rightarrow> IccIo \<Rightarrow> unit lprog" where
  "iccIOForApp vendor slot serial iccIo =
     with_request serial slot RIL_REQUEST_SIM_IO (\<lambda>pRI.
       copied (ii_path iccIo) pRI False (\<lambda>path.
       copied (ii_data iccIo) pRI False (\<lambda>d.
       copied (ii_pin2 iccIo) pRI False (\<lambda>p2.
       copied (ii_aid iccIo) pRI False (\<lambda>aid.
         vendor RIL_REQUEST_SIM_IO (SimIoData \<lparr>sio_command = ii_command iccIo, sio_fileid = ii_fileId iccIo,
           sio_path = path, sio_p1 = ii_p1 iccIo, sio_p2 = ii_p2 iccIo, sio_p3 = ii_p3 iccIo, sio_data = d,
           sio_pin2 = p2, sio_aidPtr = aid\<rparr>) pRI slot)))))"

definition MAX_RADIO_ACCESS_NETWORKS :: nat where "MAX_RADIO_ACCESS_NETWORKS = 8"
definition MAX_BANDS :: nat where "MAX_BANDS = 8"
definition MAX_CHANNELS :: nat where "MAX_CHANNELS = 32"

text \<open>The loop over the specifiers; \<open>None\<close> is the exit with an error.\<close>

fun scan_specifiers :: "RadioAccessSpecifier list \<Rightarrow> RIL_RadioAccessSpecifier list option" where
  "scan_specifiers [] = Some []"
| "scan_specifiers (ras # rest) =
     (if length (ra_geranBands ras) > MAX_BANDS \<or> length (ra_utranBands ras) > MAX_BANDS
         \<or> length (ra_eutranBands ras) > MAX_BANDS \<or> length (ra_channels ras) > MAX_CHANNELS then None
      else
        let to = (\<lambda>bands. \<lparr>ras_network = ra_network ras, ras_bands = bands, ras_channels = ra_channels ras\<rparr>)
        in (case ra_network ras of
              GERAN \<Rightarrow> map_option (Cons (to (ra_geranBands ras))) (scan_specifiers rest)
            | UTRAN \<Rightarrow> map_option (Cons (to (ra_utranBands ras))) (scan_specifiers rest)
            | EUTRAN \<Rightarrow> map_option (Cons (to (ra_eutranBands ras))) (scan_specifiers rest)
            | RAN_other _ \<Rightarrow> None))"

definition startNetworkScan :: "vendor \<Rightarrow> nat \<Rightarrow> int \<Rightarrow> NetworkScanRequest \<Rightarrow> unit lprog" where
  "startNetworkScan vendor slot serial request =
     with_request serial slot RIL_REQUEST_START_NETWORK_SCAN (\<lambda>pRI.
       if length (ns_specifiers request) > MAX_RADIO_ACCESS_NETWORKS then
         sendErrorResponse (Some pRI) RIL_E_INVALID_ARGUMENTS
       else (case scan_specifiers (ns_specifiers request) of
         None \<Rightarrow> sendErrorResponse (Some pRI) RIL_E_INVALID_ARGUMENTS
       | Some specs \<Rightarrow> vendor RIL_REQUEST_START_NETWORK_SCAN (ScanData \<lparr>nsr_type = ns_type request,
           nsr_interval = ns_interval request, nsr_specifiers = specs\<rparr>) pRI slot))"

definition writeSmsToSim :: "vendor \<Rightarrow> nat \<Rightarrow> int \<Rightarrow> SmsWriteArgs \<Rightarrow> unit lprog" where
  "writeSmsToSim vendor slot serial args =
     with_request serial slot RIL_REQUEST_WRITE_SMS_TO_SIM (\<lambda>pRI.
       copied (sw_pdu args) pRI False (\<lambda>pdu.
       copied (sw_smsc args) pRI False (\<lambda>smsc.
         vendor RIL_REQUEST_WRITE_SMS_TO_SIM
           (SmsWriteData \<lparr>swa_status = sw_status args, swa_pdu = pdu, swa_smsc = smsc\<rparr>) pRI slot)))"

text \<open>
  The first \<open>n\<close> elements go into an array of \<open>max\<close> zeros; a number of digits is kept in an
  \<^verbatim>\<open>unsigned char\<close>.
\<close>

definition into_array :: "nat \<Rightarrow> nat \<Rightarrow> int list \<Rightarrow> int list" where
  "into_array max_len n xs = (let k = min n max_len in take k xs @ replicate (max_len - k) 0)"

definition RIL_CDMA_SMS_ADDRESS_MAX :: nat where "RIL_CDMA_SMS_ADDRESS_MAX = 36"
definition RIL_CDMA_SMS_SUBADDRESS_MAX :: nat where "RIL_CDMA_SMS_SUBADDRESS_MAX = 36"
definition RIL_CDMA_SMS_BEARER_DATA_MAX :: nat where "RIL_CDMA_SMS_BEARER_DATA_MAX = 255"

definition constructCdmaSms :: "CdmaSmsMessage \<Rightarrow> RIL_CDMA_SMS_Message" where
  "constructCdmaSms sms =
     (let addr = cm_address sms; sub = cm_subAddress sms;
          digits = length (ca_digits addr) mod 256; sdigits = length (cs_digits sub) mod 256
      in \<lparr>uTeleserviceID = cm_teleserviceId sms, bIsServicePresent = BOOL_TO_INT (cm_isServicePresent sms),
          uServicecategory = cm_serviceCategory sms,
          sAddress = \<lparr>digit_mode = ca_digitMode addr, number_mode = ca_numberMode addr, number_type = ca_numberType addr,
            number_plan = ca_numberPlan addr, number_of_digits = int digits,
            address_digits = into_array RIL_CDMA_SMS_ADDRESS_MAX digits (ca_digits addr)\<rparr>,
          sSubAddress = \<lparr>subaddressType = cs_type sub, sub_odd = BOOL_TO_INT (cs_odd sub),
            sub_number_of_digits = int sdigits,
            sub_digits = into_array RIL_CDMA_SMS_SUBADDRESS_MAX sdigits (cs_digits sub)\<rparr>,
          uBearerDataLen = int (length (cm_bearerData sms)),
          aBearerData = into_array RIL_CDMA_SMS_BEARER_DATA_MAX (length (cm_bearerData sms)) (cm_bearerData sms)\<rparr>)"

definition sendCdmaSms :: "vendor \<Rightarrow> nat \<Rightarrow> int \<Rightarrow> CdmaSmsMessage \<Rightarrow> unit lprog" where
  "sendCdmaSms vendor slot serial sms =
     with_request serial slot RIL_REQUEST_CDMA_SEND_SMS (\<lambda>pRI.
       call_onRequest vendor (CdmaSmsData (constructCdmaSms sms)) pRI slot)"

definition acknowledgeLastIncomingCdmaSms :: "vendor \<Rightarrow> nat \<Rightarrow> int \<Rightarrow> int \<Rightarrow> int \<Rightarrow> unit lprog" where
  "acknowledgeLastIncomingCdmaSms vendor slot serial errorClass smsCauseCode =
     with_request serial slot RIL_REQUEST_CDMA_SMS_ACKNOWLEDGE (\<lambda>pRI.
       call_onRequest vendor (CdmaSmsAckData errorClass smsCauseCode) pRI slot)"

definition MAX_BROADCAST_SMS_CONFIG_INFO :: nat where "MAX_BROADCAST_SMS_CONFIG_INFO = 25"

definition setGsmBroadcastConfig :: "vendor \<Rightarrow> nat \<Rightarrow> int \<Rightarrow> GsmBroadcastSmsConfigInfo list \<Rightarrow> unit lprog" where
  "setGsmBroadcastConfig vendor slot serial configInfo =
     with_request serial slot RIL_REQUEST_GSM_SET_BROADCAST_SMS_CONFIG (\<lambda>pRI.
       if length configInfo > MAX_BROADCAST_SMS_CONFIG_INFO then
         sendErrorResponse (Some pRI) RIL_E_INVALID_ARGUMENTS
       else with_block pRI (call_onRequest vendor (GsmBroadcastData (map (\<lambda>c.
         \<lparr>gbc_fromServiceId = gb_fromServiceId c, gbc_toServiceId = gb_toServiceId c,
          gbc_fromCodeScheme = gb_fromCodeScheme c, gbc_toCodeScheme = gb_toCodeScheme c,
          gbc_selected = BOOL_TO_INT (gb_selected c)\<rparr>) configInfo)) pRI slot))"

definition setCdmaBroadcastConfig :: "vendor \<Rightarrow> nat \<Rightarrow> int \<Rightarrow> CdmaBroadcastSmsConfigInfo list \<Rightarrow> unit lprog" where
  "setCdmaBroadcastConfig vendor slot serial configInfo =
     with_request serial slot RIL_REQUEST_CDMA_SET_BROADCAST_SMS_CONFIG (\<lambda>pRI.
       if length configInfo > MAX_BROADCAST_SMS_CONFIG_INFO then
         sendErrorResponse (Some pRI) RIL_E_INVALID_ARGUMENTS
       else with_block pRI (call_onRequest vendor (CdmaBroadcastData (map (\<lambda>c.
         \<lparr>cbc_service_category = cb_serviceCategory c, cbc_language = cb_language c,
          cbc_selected = BOOL_TO_INT (cb_selected c)\<rparr>) configInfo)) pRI slot))"

definition writeSmsToRuim :: "vendor \<Rightarrow> nat \<Rightarrow> int \<Rightarrow> CdmaSmsWriteArgs \<Rightarrow> unit lprog" where
  "writeSmsToRuim vendor slot serial args =
     with_request serial slot RIL_REQUEST_CDMA_WRITE_SMS_TO_RUIM (\<lambda>pRI.
       call_onRequest vendor (CdmaSmsWriteData (cw_status args) (constructCdmaSms (cw_message args))) pRI slot)"

definition setInitialAttachApn :: "vendor \<Rightarrow> nat \<Rightarrow> int \<Rightarrow> DataProfileInfo \<Rightarrow> bool \<Rightarrow> bool \<Rightarrow> unit lprog" where
  "setInitialAttachApn vendor slot serial info modemCognitive isRoaming =
     with_request serial slot RIL_REQUEST_SET_INITIAL_ATTACH_APN (\<lambda>pRI.
     bnd (gets callbacks_version) (\<lambda>version.
       if version \<le> 14 then
         copied (dp_apn info) pRI True (\<lambda>apn.
         copied (if isRoaming then dp_roamingProtocol info else dp_protocol info) pRI False (\<lambda>protocol.
         copied (dp_user info) pRI False (\<lambda>username.
         copied (dp_password info) pRI False (\<lambda>password.
           vendor RIL_REQUEST_SET_INITIAL_ATTACH_APN (AttachApnData \<lparr>iaa_apn = apn, iaa_protocol = protocol,
             iaa_authtype = dp_authType info, iaa_username = username, iaa_password = password\<rparr>) pRI slot))))
       else
         copied (dp_apn info) pRI True (\<lambda>apn.
         copied (dp_protocol info) pRI False (\<lambda>protocol.
         copied (dp_roamingProtocol info) pRI False (\<lambda>roaming.
         copied (dp_user info) pRI False (\<lambda>username.
         copied (dp_password info) pRI False (\<lambda>password.
           case convertMvnoTypeToString (dp_mvnoType info) of
             None \<Rightarrow> sendErrorResponse (Some pRI) RIL_E_INVALID_ARGUMENTS
           | Some mvno \<Rightarrow>
               copied (dp_mvnoMatchData info) pRI False (\<lambda>matching.
                 vendor RIL_REQUEST_SET_INITIAL_ATTACH_APN (AttachApnData_v15 \<lparr>iaa_apn = apn,
                   iaa_protocol = protocol, iaa_authtype = dp_authType info, iaa_username = username,
                   iaa_password = password, iaa_roamingProtocol = roaming,
                   iaa_supportedTypesBitmask = dp_supportedApnTypesBitmap info,
                   iaa_bearerBitmask = dp_bearerBitmap info, iaa_modemCognitive = BOOL_TO_INT modemCognitive,
                   iaa_mtu = dp_mtu info, iaa_mvnoType = Some mvno, iaa_mvnoMatchData = matching\<rparr>) pRI slot))))))))"

definition dispatchImsGsmSms :: "vendor \<Rightarrow> ImsSmsMessage \<Rightarrow> nat \<Rightarrow> unit lprog" where
  "dispatchImsGsmSms vendor message pRI = (case im_gsm message of
     [m] \<Rightarrow> with_block pRI
       (copied (gs_smscPdu m) pRI False (\<lambda>smsc.
        copied (gs_pdu m) pRI False (\<lambda>pdu.
          call_onRequest_own vendor (ImsGsmData (BOOL_TO_INT (im_retry message)) (im_messageRef message) [smsc, pdu]) pRI)))
   | _ \<Rightarrow> sendErrorResponse (Some pRI) RIL_E_INVALID_ARGUMENTS)"

definition dispatchImsCdmaSms :: "vendor \<Rightarrow> ImsSmsMessage \<Rightarrow> nat \<Rightarrow> unit lprog" where
  "dispatchImsCdmaSms vendor message pRI = (case im_cdma message of
     [m] \<Rightarrow> call_onRequest_own vendor
       (ImsCdmaData (BOOL_TO_INT (im_retry message)) (im_messageRef message) (constructCdmaSms m)) pRI
   | _ \<Rightarrow> sendErrorResponse (Some pRI) RIL_E_INVALID_ARGUMENTS)"

definition sendImsSms :: "vendor \<Rightarrow> nat \<Rightarrow> int \<Rightarrow> ImsSmsMessage \<Rightarrow> unit lprog" where
  "sendImsSms vendor slot serial message =
     with_request serial slot RIL_REQUEST_IMS_SEND_SMS (\<lambda>pRI. case im_tech message of
       THREE_GPP \<Rightarrow> dispatchImsGsmSms vendor message pRI
     | THREE_GPP2 \<Rightarrow> dispatchImsCdmaSms vendor message pRI
     | TECH_other _ \<Rightarrow> sendErrorResponse (Some pRI) RIL_E_INVALID_ARGUMENTS)"

definition iccOpenLogicalChannel :: "vendor \<Rightarrow> nat \<Rightarrow> int \<Rightarrow> hidl_string \<Rightarrow> int \<Rightarrow> unit lprog" where
  "iccOpenLogicalChannel vendor slot serial aid p2 =
     bnd (gets callbacks_version) (\<lambda>version.
       if version < 15 then dispatchString vendor serial slot RIL_REQUEST_SIM_OPEN_CHANNEL (hs_chars aid)
       else with_request serial slot RIL_REQUEST_SIM_OPEN_CHANNEL (\<lambda>pRI.
         copied aid pRI False (\<lambda>aidPtr. call_onRequest vendor (OpenChannelData aidPtr p2) pRI slot)))"

definition nvReadItem :: "vendor \<Rightarrow> nat \<Rightarrow> int \<Rightarrow> int \<Rightarrow> unit lprog" where
  "nvReadItem vendor slot serial itemId =
     with_request serial slot RIL_REQUEST_NV_READ_ITEM (\<lambda>pRI. call_onRequest vendor (NvReadData itemId) pRI slot)"

definition nvWriteItem :: "vendor \<Rightarrow> nat \<Rightarrow> int \<Rightarrow> NvWriteItem \<Rightarrow> unit lprog" where
  "nvWriteItem vendor slot serial item =
     with_request serial slot RIL_REQUEST_NV_WRITE_ITEM (\<lambda>pRI.
       copied (nw_value item) pRI False (\<lambda>v. call_onRequest vendor (NvWriteData (nw_itemId item) v) pRI slot))"

definition nvResetConfig :: "vendor \<Rightarrow> nat \<Rightarrow> int \<Rightarrow> ResetNvType \<Rightarrow> unit lprog" where
  "nvResetConfig vendor slot serial resetType =
     dispatchInts vendor serial slot RIL_REQUEST_NV_RESET_CONFIG
       [case resetType of RELOAD \<Rightarrow> 1 | ERASE \<Rightarrow> 2 | FACTORY_RESET \<Rightarrow> 3 | RESET_other _ \<Rightarrow> -1]"

definition setUiccSubscription :: "vendor \<Rightarrow> nat \<Rightarrow> int \<Rightarrow> SelectUiccSub \<Rightarrow> unit lprog" where
  "setUiccSubscription vendor slot serial sub =
     with_request serial slot RIL_REQUEST_SET_UICC_SUBSCRIPTION (\<lambda>pRI.
       call_onRequest vendor (UiccSubData (us_slot sub) (us_appIndex sub) (us_subType sub) (us_actStatus sub)) pRI slot)"

definition requestIccSimAuthentication :: "vendor \<Rightarrow> nat \<Rightarrow> int \<Rightarrow> int \<Rightarrow> hidl_string \<Rightarrow> hidl_string \<Rightarrow> unit lprog" where
  "requestIccSimAuthentication vendor slot serial authContext authData aid =
     with_request serial slot RIL_REQUEST_SIM_AUTHENTICATION (\<lambda>pRI.
       copied authData pRI False (\<lambda>auth.
       copied aid pRI False (\<lambda>aidPtr.
         call_onRequest vendor (SimAuthData authContext auth aidPtr) pRI slot)))"

definition plain_profile :: "DataProfileInfo \<Rightarrow> cptr \<Rightarrow> cptr \<Rightarrow> cptr \<Rightarrow> cptr \<Rightarrow> RIL_DataProfileInfo" where
  "plain_profile p apn protocol user password =
     \<lparr>dpi_profileId = dp_profileId p, dpi_apn = apn, dpi_protocol = protocol, dpi_authType = dp_authType p,
      dpi_user = user, dpi_password = password, dpi_type = dp_type p, dpi_maxConnsTime = dp_maxConnsTime p,
      dpi_maxConns = dp_maxConns p, dpi_waitTime = dp_waitTime p, dpi_enabled = BOOL_TO_INT (dp_enabled p)\<rparr>"

fun copy_profiles :: "bool \<Rightarrow> DataProfileInfo list \<Rightarrow> nat \<Rightarrow> (RIL_DataProfileInfo list \<Rightarrow> unit lprog) \<Rightarrow> unit lprog" where
  "copy_profiles isRoaming [] pRI go = go []"
| "copy_profiles isRoaming (p # ps) pRI go =
     copied (dp_apn p) pRI True (\<lambda>apn.
     copied (if isRoaming then dp_roamingProtocol p else dp_protocol p) pRI True (\<lambda>protocol.
     copied (dp_user p) pRI True (\<lambda>user.
     copied (dp_password p) pRI True (\<lambda>password.
       copy_profiles isRoaming ps pRI (\<lambda>rest. go (plain_profile p apn protocol user password # rest))))))"

fun copy_profiles_v15 :: "DataProfileInfo list \<Rightarrow> nat \<Rightarrow> (RIL_DataProfileInfo_v15 list \<Rightarrow> unit lprog) \<Rightarrow> unit lprog" where
  "copy_profiles_v15 [] pRI go = go []"
| "copy_profiles_v15 (p # ps) pRI go =
     copied (dp_apn p) pRI True (\<lambda>apn.
     copied (dp_protocol p) pRI False (\<lambda>protocol.
     copied (dp_roamingProtocol p) pRI True (\<lambda>roaming.
     copied (dp_user p) pRI True (\<lambda>user.
     copied (dp_password p) pRI True (\<lambda>password.
     copied (dp_mvnoMatchData p) pRI True (\<lambda>matching.
       case convertMvnoTypeToString (dp_mvnoType p) of
         None \<Rightarrow> sendErrorResponse (Some pRI) RIL_E_INVALID_ARGUMENTS
       | Some mvno \<Rightarrow>
           copy_profiles_v15 ps pRI (\<lambda>rest. go (RIL_DataProfileInfo.extend
             (plain_profile p apn protocol user password)
             (RIL_DataProfileInfo_v15.fields roaming (dp_supportedApnTypesBitmap p) (dp_bearerBitmap p) (dp_mtu p)
               (Some mvno) matching) # rest))))))))"

definition setDataProfile :: "vendor \<Rightarrow> nat \<Rightarrow> int \<Rightarrow> DataProfileInfo list \<Rightarrow> bool \<Rightarrow> unit lprog" where
  "setDataProfile vendor slot serial profiles isRoaming =
     with_request serial slot RIL_REQUEST_SET_DATA_PROFILE (\<lambda>pRI.
     bnd (gets callbacks_version) (\<lambda>version.
       if version \<le> 14 then with_block pRI (with_block pRI
         (copy_profiles isRoaming profiles pRI (\<lambda>ps.
            vendor RIL_REQUEST_SET_DATA_PROFILE (DataProfilesData ps) pRI slot)))
       else with_block pRI (with_block pRI
         (copy_profiles_v15 profiles pRI (\<lambda>ps.
            vendor RIL_REQUEST_SET_DATA_PROFILE (DataProfilesData_v15 ps) pRI slot)))))"

definition setRadioCapability :: "vendor \<Rightarrow> nat \<Rightarrow> int \<Rightarrow> RadioCapability \<Rightarrow> unit lprog" where
  "setRadioCapability vendor slot serial rc =
     with_request serial slot RIL_REQUEST_SET_RADIO_CAPABILITY (\<lambda>pRI.
       call_onRequest vendor (RadioCapabilityData \<lparr>rc_version = 0, rc_session = rr_session rc, rc_phase = rr_phase rc,
         rc_rat = rr_raf rc, rc_uuid = take 63 (hs_chars (rr_logicalModemUuid rc)), rc_status = rr_status rc\<rparr>) pRI slot)"

definition to_carrier :: "Carrier \<Rightarrow> RIL_Carrier" where
  "to_carrier c = \<lparr>rca_mcc = Some (hs_chars (cr_mcc c)), rca_mnc = Some (hs_chars (cr_mnc c)),
     rca_match_type = cr_matchType c, rca_match_data = Some (hs_chars (cr_matchData c))\<rparr>"

definition setAllowedCarriers :: "vendor \<Rightarrow> nat \<Rightarrow> int \<Rightarrow> Carrier list \<Rightarrow> Carrier list \<Rightarrow> unit lprog" where
  "setAllowedCarriers vendor slot serial allowed excluded =
     with_request serial slot RIL_REQUEST_SET_CARRIER_RESTRICTIONS (\<lambda>pRI.
       with_block pRI (with_block pRI
         (call_onRequest vendor (CarriersData (map to_carrier allowed) (map to_carrier excluded)) pRI slot)))"

text \<open>
  An old vendor library gets the screen state alone. The error goes to what \<^verbatim>\<open>addRequestToList\<close> returned,
  whether it is a request or not.
\<close>

abbreviation (input) LOW_DATA_EXPECTED :: int where "LOW_DATA_EXPECTED \<equiv> 2"

definition refuse_unchecked :: "int \<Rightarrow> nat \<Rightarrow> int \<Rightarrow> RIL_Errno \<Rightarrow> unit lprog" where
  "refuse_unchecked serial slot request e =
     bnd (addRequestToList serial slot (nat request)) (\<lambda>pRI. sendErrorResponse pRI e)"

definition sendDeviceState :: "vendor \<Rightarrow> nat \<Rightarrow> int \<Rightarrow> int \<Rightarrow> bool \<Rightarrow> unit lprog" where
  "sendDeviceState vendor slot serial deviceStateType on =
     bnd (gets callbacks_version) (\<lambda>version.
       if version < 15 then
         if deviceStateType = LOW_DATA_EXPECTED then
           dispatchInts vendor serial slot RIL_REQUEST_SCREEN_STATE [BOOL_TO_INT (\<not> on)]
         else refuse_unchecked serial slot RIL_REQUEST_SEND_DEVICE_STATE RIL_E_REQUEST_NOT_SUPPORTED
       else dispatchInts vendor serial slot RIL_REQUEST_SEND_DEVICE_STATE [deviceStateType, BOOL_TO_INT on])"

definition setIndicationFilter :: "vendor \<Rightarrow> nat \<Rightarrow> int \<Rightarrow> int \<Rightarrow> unit lprog" where
  "setIndicationFilter vendor slot serial indicationFilter =
     bnd (gets callbacks_version) (\<lambda>version.
       if version < 15 then
         refuse_unchecked serial slot RIL_REQUEST_SET_UNSOLICITED_RESPONSE_FILTER RIL_E_REQUEST_NOT_SUPPORTED
       else dispatchInts vendor serial slot RIL_REQUEST_SET_UNSOLICITED_RESPONSE_FILTER [indicationFilter])"

definition setCarrierInfoForImsiEncryption :: "vendor \<Rightarrow> nat \<Rightarrow> int \<Rightarrow> ImsiEncryptionInfo \<Rightarrow> unit lprog" where
  "setCarrierInfoForImsiEncryption vendor slot serial info =
     with_request serial slot RIL_REQUEST_SET_CARRIER_INFO_IMSI_ENCRYPTION (\<lambda>pRI.
       copied (ie_mnc info) pRI False (\<lambda>mnc.
       copied (ie_mcc info) pRI False (\<lambda>mcc.
       copied (ie_keyIdentifier info) pRI False (\<lambda>keyid.
         call_onRequest vendor (ImsiEncryptionData \<lparr>cie_mcc = mcc, cie_mnc = mnc,
           cie_carrierKey = ie_carrierKey info, cie_keyIdentifier = keyid,
           cie_expirationTime = ie_expirationTime info\<rparr>) pRI slot))))"

abbreviation (input) NATT_IPV4 :: int where "NATT_IPV4 \<equiv> 0"
abbreviation (input) NATT_IPV6 :: int where "NATT_IPV6 \<equiv> 1"
definition MAX_INADDR_LEN :: nat where "MAX_INADDR_LEN = 16"

definition keepalive_valid :: "KeepaliveRequest \<Rightarrow> bool" where
  "keepalive_valid k =
     (if ka_type k = NATT_IPV4 then
        length (ka_sourceAddress k) = 4 \<and> length (ka_destinationAddress k) = 4
      else if ka_type k = NATT_IPV6 then
        length (ka_sourceAddress k) = 16 \<and> length (ka_destinationAddress k) = 16
      else False)"

definition startKeepalive :: "vendor \<Rightarrow> nat \<Rightarrow> int \<Rightarrow> KeepaliveRequest \<Rightarrow> unit lprog" where
  "startKeepalive vendor slot serial k =
     with_request serial slot RIL_REQUEST_START_KEEPALIVE (\<lambda>pRI.
       if \<not> keepalive_valid k then sendErrorResponse (Some pRI) RIL_E_INVALID_ARGUMENTS
       else call_onRequest vendor (KeepaliveData \<lparr>kar_type = ka_type k,
         kar_sourceAddress = into_array MAX_INADDR_LEN (length (ka_sourceAddress k)) (ka_sourceAddress k),
         kar_sourcePort = ka_sourcePort k,
         kar_destinationAddress = into_array MAX_INADDR_LEN (length (ka_destinationAddress k)) (ka_destinationAddress k),
         kar_destinationPort = ka_destinationPort k,
         kar_maxKeepaliveIntervalMillis = ka_maxKeepaliveIntervalMillis k, kar_cid = ka_cid k\<rparr>) pRI slot)"

definition stopKeepalive :: "vendor \<Rightarrow> nat \<Rightarrow> int \<Rightarrow> int \<Rightarrow> unit lprog" where
  "stopKeepalive vendor slot serial sessionHandle =
     with_request serial slot RIL_REQUEST_STOP_KEEPALIVE (\<lambda>pRI.
       call_onRequest vendor (Ints [sessionHandle]) pRI slot)"

section \<open>Acknowledgement and connection\<close>

definition responseAcknowledgement :: "unit lprog" where
  "responseAcknowledgement = releaseWakeLock"

text \<open>\<open>radioResponse\<close>: whether the callbacks of the client are not NULL.\<close>

definition setResponseFunctions :: "nat \<Rightarrow> bool \<Rightarrow> unit lprog" where
  "setResponseFunctions slot radioResponse =
     andthen (modify (\<lambda>s. s\<lparr>connected := (connected s)(slot := radioResponse)\<rparr>)) (onNewCommandConnect slot)"

end
