(* ===== verification/SvcServed.thy ===== *)
theory SvcServed
  imports SvcRequests
begin

text \<open>
  Every request of the service is handed to the vendor library once or answered with an error once.
\<close>

section \<open>Rows\<close>

definition rows_without_function :: "nat list" where
  "rows_without_function = [0, 38, 39, 56, 58, 67, 68, 86, 126, 127]"

lemma response_functions:
  "map (\<lambda>r. responseFunction r = None) s_commands = map (\<lambda>i. i \<in> set rows_without_function) [0..<146]"
  by (simp add: s_commands_def command_rows_def command_row_def rows_without_function_def upt_rec)

lemma has_row_iff: "has_row n \<longleftrightarrow> 0 \<le> n \<and> n < 146 \<and> nat n \<notin> set rows_without_function"
proof -
  have "responseFunction (s_commands ! i) = None \<longleftrightarrow> i \<in> set rows_without_function" if "i < 146" for i
    using arg_cong [OF response_functions, of "\<lambda>xs. xs ! i"] that by simp
  from this [of "nat n"] show ?thesis by (auto simp: has_row_def nat_less_iff)
qed

section \<open>Rules\<close>

lemma goes_version [goes_intros]:
  "goes_out v n slotId a (\<lambda>vendor. f v vendor)
    \<Longrightarrow> goes_out v n slotId a (\<lambda>vendor. bnd (gets callbacks_version) (\<lambda>w. f w vendor))"
  by (simp add: goes_out_def bnd_def gets_def)

lemma served_version:
  "served_once v n slotId serial (\<lambda>vendor. f v vendor)
    \<Longrightarrow> served_once v n slotId serial (\<lambda>vendor. bnd (gets callbacks_version) (\<lambda>w. f w vendor))"
  by (simp add: served_once_def bnd_def gets_def)

lemma goes_option [goes_intros]:
  "goes_out v n slotId a f \<Longrightarrow> (\<And>x. goes_out v n slotId a (\<lambda>vendor. g x vendor))
    \<Longrightarrow> goes_out v n slotId a (\<lambda>vendor. case y of None \<Rightarrow> f vendor | Some x \<Rightarrow> g x vendor)"
  by (cases y) simp_all

lemma goes_list [goes_intros]:
  "goes_out v n slotId a f \<Longrightarrow> (\<And>x xs. goes_out v n slotId a (\<lambda>vendor. g x xs vendor))
    \<Longrightarrow> goes_out v n slotId a (\<lambda>vendor. case y of [] \<Rightarrow> f vendor | x # xs \<Rightarrow> g x xs vendor)"
  by (cases y) simp_all

lemma goes_tech [goes_intros]:
  "goes_out v n slotId a f \<Longrightarrow> goes_out v n slotId a g \<Longrightarrow> (\<And>x. goes_out v n slotId a (\<lambda>vendor. h x vendor))
    \<Longrightarrow> goes_out v n slotId a (\<lambda>vendor. case y of THREE_GPP \<Rightarrow> f vendor | THREE_GPP2 \<Rightarrow> g vendor | TECH_other x \<Rightarrow> h x vendor)"
  by (cases y) simp_all

lemma number_is:
  assumes "has_row n" and "requests s a = Some r" and "ri_pCI r = nat n"
  shows "requestNumber_of a s = Done n s" and "requestNumber (s_commands ! ri_pCI r) = n"
proof -
  have "nat n < 146" "0 \<le> n" using assms(1) by (auto simp: has_row_iff)
  then show *: "requestNumber (s_commands ! ri_pCI r) = n"
    using arg_cong [OF command_numbers, of "\<lambda>xs. xs ! nat n"] assms(3) by simp
  then show "requestNumber_of a s = Done n s"
    using assms(2) by (simp add: requestNumber_of_def request_at_def run_simps)
qed

lemma goes_call [goes_intros]:
  assumes "has_row n"
  shows "goes_out v n slotId a (\<lambda>vendor. call_onRequest vendor d a slotId)"
    and "goes_out v n slotId a (\<lambda>vendor. call_onRequest_own vendor d a)"
proof -
  have "call_onRequest vendor d a slotId s = vendor n d a slotId (s\<lparr>allocs := allocs s\<rparr>)"
    "ri_socket r = slotId \<Longrightarrow> call_onRequest_own vendor d a s = vendor n d a slotId (s\<lparr>allocs := allocs s\<rparr>)"
    if "requests s a = Some r" "ri_pCI r = nat n" for s r and vendor :: vendor
    using number_is [OF assms that] that
    by (simp_all add: call_onRequest_def call_onRequest_own_def bnd_def request_at_def gets_def ret_def)
  then show "goes_out v n slotId a (\<lambda>vendor. call_onRequest vendor d a slotId)"
    "goes_out v n slotId a (\<lambda>vendor. call_onRequest_own vendor d a)"
    unfolding goes_out_def by blast+
qed

lemma goes_profiles [goes_intros]:
  assumes "\<And>ps. goes_out v n slotId a (\<lambda>vendor. f ps vendor)"
  shows "goes_out v n slotId a (\<lambda>vendor. copy_profiles isRoaming profiles a (\<lambda>ps. f ps vendor))"
  using assms by (induction profiles arbitrary: f) (simp_all add: goes_copied)

lemma goes_profiles_v15 [goes_intros]:
  assumes "\<And>ps. goes_out v n slotId a (\<lambda>vendor. f ps vendor)"
  shows "goes_out v n slotId a (\<lambda>vendor. copy_profiles_v15 profiles a (\<lambda>ps. f ps vendor))"
  using assms by (induction profiles arbitrary: f) (simp_all add: goes_copied goes_option goes_error)

lemma served_if:
  "served_once v n slotId serial f \<Longrightarrow> served_once v n slotId serial g
    \<Longrightarrow> served_once v n slotId serial (\<lambda>vendor. if c then f vendor else g vendor)"
  by (cases c) simp_all

lemma served_option:
  "served_once v n slotId serial f \<Longrightarrow> (\<And>x. served_once v n slotId serial (\<lambda>vendor. g x vendor))
    \<Longrightarrow> served_once v n slotId serial (\<lambda>vendor. case y of None \<Rightarrow> f vendor | Some x \<Rightarrow> g x vendor)"
  by (cases y) simp_all

lemma served_dispatch:
  assumes "has_row n"
  shows "served_once v n slotId serial (\<lambda>vendor. dispatchVoid vendor serial slotId n)"
    "served_once v n slotId serial (\<lambda>vendor. dispatchString vendor serial slotId n str)"
    "served_once v n slotId serial (\<lambda>vendor. dispatchStrings vendor serial slotId n allowEmpty strs)"
    "served_once v n slotId serial (\<lambda>vendor. dispatchStrings_vec vendor serial slotId n hstrs)"
    "served_once v n slotId serial (\<lambda>vendor. dispatchInts vendor serial slotId n ints)"
    "served_once v n slotId serial (\<lambda>vendor. dispatchCallForwardStatus vendor serial slotId n callInfo)"
    "served_once v n slotId serial (\<lambda>vendor. dispatchRaw vendor serial slotId n rawBytes)"
    "served_once v n slotId serial (\<lambda>vendor. dispatchIccApdu vendor serial slotId n apdu)"
    "served_once v n slotId serial (\<lambda>vendor. refuse serial slotId n e)"
  unfolding dispatchVoid_def dispatchString_def dispatchStrings_def dispatchStrings_vec_def dispatchInts_def
    dispatchCallForwardStatus_def dispatchRaw_def dispatchIccApdu_def refuse_def
  by (intro served_with_request [OF assms] goes_intros)+

lemma served_unchecked:
  assumes "has_row n"
  shows "served_once v n slotId serial (\<lambda>vendor. refuse_unchecked serial slotId n e)"
proof -
  have "served_once v n slotId serial (\<lambda>vendor. refuse serial slotId n e)" by (rule served_dispatch [OF assms])
  moreover have "refuse_unchecked serial slotId n e s = refuse serial slotId n e s"
    if ok: "lib_ok s ts ps L" and al: "allocs s = Some a # later" "requests s a = None" for s ts ps L a later
  proof -
    have "nat n < length s_commands" using assms by (simp only: has_row_def) linarith
    from add_request_ok [OF ok al this refl, of serial slotId] obtain t where
      "addRequestToList serial slotId (nat n) s = Done (Some a) t" by blast
    then show ?thesis by (simp add: refuse_def refuse_unchecked_def with_request_def bnd_def)
  qed
  ultimately show ?thesis unfolding served_once_def by metis
qed

end
