(* ===== verification/SvcCalls.thy ===== *)
theory SvcCalls
  imports SvcServed
begin

text \<open>
  The calls a client can make of \<^verbatim>\<open>libril/ril_service.cpp\<close>, and what becomes of them.
\<close>

section \<open>The calls\<close>

text \<open>
  \<open>radio_call v slot serial n m\<close>: \<open>m\<close> is a method of the service of the slot, called with the serial
  number, and \<open>n\<close> the request it stands for with a vendor library of version \<open>v\<close>.
\<close>

inductive radio_call :: "int \<Rightarrow> nat \<Rightarrow> int \<Rightarrow> int \<Rightarrow> (vendor \<Rightarrow> unit lprog) \<Rightarrow> bool" for v slot serial where
  "radio_call v slot serial RIL_REQUEST_GET_SIM_STATUS (\<lambda>vendor. getIccCardStatus vendor slot serial)"
| "radio_call v slot serial RIL_REQUEST_ENTER_SIM_PIN (\<lambda>vendor. supplyIccPinForApp vendor slot serial h1 h2)"
| "radio_call v slot serial RIL_REQUEST_ENTER_SIM_PUK (\<lambda>vendor. supplyIccPukForApp vendor slot serial h1 h2 h3)"
| "radio_call v slot serial RIL_REQUEST_ENTER_SIM_PIN2 (\<lambda>vendor. supplyIccPin2ForApp vendor slot serial h1 h2)"
| "radio_call v slot serial RIL_REQUEST_ENTER_SIM_PUK2 (\<lambda>vendor. supplyIccPuk2ForApp vendor slot serial h1 h2 h3)"
| "radio_call v slot serial RIL_REQUEST_CHANGE_SIM_PIN (\<lambda>vendor. changeIccPinForApp vendor slot serial h1 h2 h3)"
| "radio_call v slot serial RIL_REQUEST_CHANGE_SIM_PIN2 (\<lambda>vendor. changeIccPin2ForApp vendor slot serial h1 h2 h3)"
| "radio_call v slot serial RIL_REQUEST_ENTER_NETWORK_DEPERSONALIZATION (\<lambda>vendor. supplyNetworkDepersonalization vendor slot serial h1)"
| "radio_call v slot serial RIL_REQUEST_GET_CURRENT_CALLS (\<lambda>vendor. getCurrentCalls vendor slot serial)"
| "radio_call v slot serial RIL_REQUEST_GET_IMSI (\<lambda>vendor. getImsiForApp vendor slot serial h1)"
| "radio_call v slot serial RIL_REQUEST_HANGUP (\<lambda>vendor. hangup vendor slot serial i1)"
| "radio_call v slot serial RIL_REQUEST_HANGUP_WAITING_OR_BACKGROUND (\<lambda>vendor. hangupWaitingOrBackground vendor slot serial)"
| "radio_call v slot serial RIL_REQUEST_HANGUP_FOREGROUND_RESUME_BACKGROUND (\<lambda>vendor. hangupForegroundResumeBackground vendor slot serial)"
| "radio_call v slot serial RIL_REQUEST_SWITCH_WAITING_OR_HOLDING_AND_ACTIVE (\<lambda>vendor. switchWaitingOrHoldingAndActive vendor slot serial)"
| "radio_call v slot serial RIL_REQUEST_CONFERENCE (\<lambda>vendor. conference vendor slot serial)"
| "radio_call v slot serial RIL_REQUEST_UDUB (\<lambda>vendor. rejectCall vendor slot serial)"
| "radio_call v slot serial RIL_REQUEST_LAST_CALL_FAIL_CAUSE (\<lambda>vendor. getLastCallFailCause vendor slot serial)"
| "radio_call v slot serial RIL_REQUEST_SIGNAL_STRENGTH (\<lambda>vendor. getSignalStrength vendor slot serial)"
| "radio_call v slot serial RIL_REQUEST_VOICE_REGISTRATION_STATE (\<lambda>vendor. getVoiceRegistrationState vendor slot serial)"
| "radio_call v slot serial RIL_REQUEST_DATA_REGISTRATION_STATE (\<lambda>vendor. getDataRegistrationState vendor slot serial)"
| "radio_call v slot serial RIL_REQUEST_OPERATOR (\<lambda>vendor. getOperator vendor slot serial)"
| "radio_call v slot serial RIL_REQUEST_DTMF (\<lambda>vendor. sendDtmf vendor slot serial h1)"
| "radio_call v slot serial RIL_REQUEST_SEND_SMS (\<lambda>vendor. sendSms vendor slot serial gsm1)"
| "radio_call v slot serial RIL_REQUEST_SEND_SMS_EXPECT_MORE (\<lambda>vendor. sendSMSExpectMore vendor slot serial gsm1)"
| "radio_call v slot serial RIL_REQUEST_SEND_USSD (\<lambda>vendor. sendUssd vendor slot serial h1)"
| "radio_call v slot serial RIL_REQUEST_CANCEL_USSD (\<lambda>vendor. cancelPendingUssd vendor slot serial)"
| "radio_call v slot serial RIL_REQUEST_GET_CLIR (\<lambda>vendor. getClir vendor slot serial)"
| "radio_call v slot serial RIL_REQUEST_SET_CLIR (\<lambda>vendor. setClir vendor slot serial i1)"
| "radio_call v slot serial RIL_REQUEST_QUERY_CALL_FORWARD_STATUS (\<lambda>vendor. getCallForwardStatus vendor slot serial cf1)"
| "radio_call v slot serial RIL_REQUEST_SET_CALL_FORWARD (\<lambda>vendor. setCallForward vendor slot serial cf1)"
| "radio_call v slot serial RIL_REQUEST_QUERY_CALL_WAITING (\<lambda>vendor. getCallWaiting vendor slot serial i1)"
| "radio_call v slot serial RIL_REQUEST_SET_CALL_WAITING (\<lambda>vendor. setCallWaiting vendor slot serial b1 i1)"
| "radio_call v slot serial RIL_REQUEST_SMS_ACKNOWLEDGE (\<lambda>vendor. acknowledgeLastIncomingGsmSms vendor slot serial b1 i1)"
| "radio_call v slot serial RIL_REQUEST_ANSWER (\<lambda>vendor. acceptCall vendor slot serial)"
| "radio_call v slot serial RIL_REQUEST_DEACTIVATE_DATA_CALL (\<lambda>vendor. deactivateDataCall vendor slot serial i1 b1)"
| "radio_call v slot serial RIL_REQUEST_QUERY_FACILITY_LOCK (\<lambda>vendor. getFacilityLockForApp vendor slot serial h1 h2 i1 h3)"
| "radio_call v slot serial RIL_REQUEST_SET_FACILITY_LOCK (\<lambda>vendor. setFacilityLockForApp vendor slot serial h1 b1 h2 i1 h3)"
| "radio_call v slot serial RIL_REQUEST_CHANGE_BARRING_PASSWORD (\<lambda>vendor. setBarringPassword vendor slot serial h1 h2 h3)"
| "radio_call v slot serial RIL_REQUEST_QUERY_NETWORK_SELECTION_MODE (\<lambda>vendor. getNetworkSelectionMode vendor slot serial)"
| "radio_call v slot serial RIL_REQUEST_SET_NETWORK_SELECTION_AUTOMATIC (\<lambda>vendor. setNetworkSelectionModeAutomatic vendor slot serial)"
| "radio_call v slot serial RIL_REQUEST_SET_NETWORK_SELECTION_MANUAL (\<lambda>vendor. setNetworkSelectionModeManual vendor slot serial h1)"
| "radio_call v slot serial RIL_REQUEST_QUERY_AVAILABLE_NETWORKS (\<lambda>vendor. getAvailableNetworks vendor slot serial)"
| "radio_call v slot serial RIL_REQUEST_STOP_NETWORK_SCAN (\<lambda>vendor. stopNetworkScan vendor slot serial)"
| "radio_call v slot serial RIL_REQUEST_DTMF_START (\<lambda>vendor. startDtmf vendor slot serial h1)"
| "radio_call v slot serial RIL_REQUEST_DTMF_STOP (\<lambda>vendor. stopDtmf vendor slot serial)"
| "radio_call v slot serial RIL_REQUEST_BASEBAND_VERSION (\<lambda>vendor. getBasebandVersion vendor slot serial)"
| "radio_call v slot serial RIL_REQUEST_SEPARATE_CONNECTION (\<lambda>vendor. separateConnection vendor slot serial i1)"
| "radio_call v slot serial RIL_REQUEST_SET_MUTE (\<lambda>vendor. setMute vendor slot serial b1)"
| "radio_call v slot serial RIL_REQUEST_GET_MUTE (\<lambda>vendor. getMute vendor slot serial)"
| "radio_call v slot serial RIL_REQUEST_QUERY_CLIP (\<lambda>vendor. getClip vendor slot serial)"
| "radio_call v slot serial RIL_REQUEST_DATA_CALL_LIST (\<lambda>vendor. getDataCallList vendor slot serial)"
| "radio_call v slot serial RIL_REQUEST_SET_SUPP_SVC_NOTIFICATION (\<lambda>vendor. setSuppServiceNotifications vendor slot serial b1)"
| "radio_call v slot serial RIL_REQUEST_DELETE_SMS_ON_SIM (\<lambda>vendor. deleteSmsOnSim vendor slot serial i1)"
| "radio_call v slot serial RIL_REQUEST_SET_BAND_MODE (\<lambda>vendor. setBandMode vendor slot serial i1)"
| "radio_call v slot serial RIL_REQUEST_QUERY_AVAILABLE_BAND_MODE (\<lambda>vendor. getAvailableBandModes vendor slot serial)"
| "radio_call v slot serial RIL_REQUEST_STK_SEND_ENVELOPE_COMMAND (\<lambda>vendor. sendEnvelope vendor slot serial h1)"
| "radio_call v slot serial RIL_REQUEST_STK_SEND_TERMINAL_RESPONSE (\<lambda>vendor. sendTerminalResponseToSim vendor slot serial h1)"
| "radio_call v slot serial RIL_REQUEST_STK_HANDLE_CALL_SETUP_REQUESTED_FROM_SIM (\<lambda>vendor. handleStkCallSetupRequestFromSim vendor slot serial b1)"
| "radio_call v slot serial RIL_REQUEST_EXPLICIT_CALL_TRANSFER (\<lambda>vendor. explicitCallTransfer vendor slot serial)"
| "radio_call v slot serial RIL_REQUEST_SET_PREFERRED_NETWORK_TYPE (\<lambda>vendor. setPreferredNetworkType vendor slot serial i1)"
| "radio_call v slot serial RIL_REQUEST_GET_PREFERRED_NETWORK_TYPE (\<lambda>vendor. getPreferredNetworkType vendor slot serial)"
| "radio_call v slot serial RIL_REQUEST_GET_NEIGHBORING_CELL_IDS (\<lambda>vendor. getNeighboringCids vendor slot serial)"
| "radio_call v slot serial RIL_REQUEST_SET_LOCATION_UPDATES (\<lambda>vendor. setLocationUpdates vendor slot serial b1)"
| "radio_call v slot serial RIL_REQUEST_CDMA_SET_SUBSCRIPTION_SOURCE (\<lambda>vendor. setCdmaSubscriptionSource vendor slot serial i1)"
| "radio_call v slot serial RIL_REQUEST_CDMA_SET_ROAMING_PREFERENCE (\<lambda>vendor. setCdmaRoamingPreference vendor slot serial i1)"
| "radio_call v slot serial RIL_REQUEST_CDMA_QUERY_ROAMING_PREFERENCE (\<lambda>vendor. getCdmaRoamingPreference vendor slot serial)"
| "radio_call v slot serial RIL_REQUEST_SET_TTY_MODE (\<lambda>vendor. setTTYMode vendor slot serial i1)"
| "radio_call v slot serial RIL_REQUEST_QUERY_TTY_MODE (\<lambda>vendor. getTTYMode vendor slot serial)"
| "radio_call v slot serial RIL_REQUEST_CDMA_SET_PREFERRED_VOICE_PRIVACY_MODE (\<lambda>vendor. setPreferredVoicePrivacy vendor slot serial b1)"
| "radio_call v slot serial RIL_REQUEST_CDMA_QUERY_PREFERRED_VOICE_PRIVACY_MODE (\<lambda>vendor. getPreferredVoicePrivacy vendor slot serial)"
| "radio_call v slot serial RIL_REQUEST_CDMA_FLASH (\<lambda>vendor. sendCDMAFeatureCode vendor slot serial h1)"
| "radio_call v slot serial RIL_REQUEST_CDMA_BURST_DTMF (\<lambda>vendor. sendBurstDtmf vendor slot serial h1 i1 i2)"
| "radio_call v slot serial RIL_REQUEST_GSM_GET_BROADCAST_SMS_CONFIG (\<lambda>vendor. getGsmBroadcastConfig vendor slot serial)"
| "radio_call v slot serial RIL_REQUEST_GSM_SMS_BROADCAST_ACTIVATION (\<lambda>vendor. setGsmBroadcastActivation vendor slot serial b1)"
| "radio_call v slot serial RIL_REQUEST_CDMA_GET_BROADCAST_SMS_CONFIG (\<lambda>vendor. getCdmaBroadcastConfig vendor slot serial)"
| "radio_call v slot serial RIL_REQUEST_CDMA_SMS_BROADCAST_ACTIVATION (\<lambda>vendor. setCdmaBroadcastActivation vendor slot serial b1)"
| "radio_call v slot serial RIL_REQUEST_CDMA_SUBSCRIPTION (\<lambda>vendor. getCDMASubscription vendor slot serial)"
| "radio_call v slot serial RIL_REQUEST_CDMA_DELETE_SMS_ON_RUIM (\<lambda>vendor. deleteSmsOnRuim vendor slot serial i1)"
| "radio_call v slot serial RIL_REQUEST_DEVICE_IDENTITY (\<lambda>vendor. getDeviceIdentity vendor slot serial)"
| "radio_call v slot serial RIL_REQUEST_EXIT_EMERGENCY_CALLBACK_MODE (\<lambda>vendor. exitEmergencyCallbackMode vendor slot serial)"
| "radio_call v slot serial RIL_REQUEST_GET_SMSC_ADDRESS (\<lambda>vendor. getSmscAddress vendor slot serial)"
| "radio_call v slot serial RIL_REQUEST_SET_SMSC_ADDRESS (\<lambda>vendor. setSmscAddress vendor slot serial h1)"
| "radio_call v slot serial RIL_REQUEST_REPORT_SMS_MEMORY_STATUS (\<lambda>vendor. reportSmsMemoryStatus vendor slot serial b1)"
| "radio_call v slot serial RIL_REQUEST_REPORT_STK_SERVICE_IS_RUNNING (\<lambda>vendor. reportStkServiceIsRunning vendor slot serial)"
| "radio_call v slot serial RIL_REQUEST_CDMA_GET_SUBSCRIPTION_SOURCE (\<lambda>vendor. getCdmaSubscriptionSource vendor slot serial)"
| "radio_call v slot serial RIL_REQUEST_ISIM_AUTHENTICATION (\<lambda>vendor. requestIsimAuthentication vendor slot serial h1)"
| "radio_call v slot serial RIL_REQUEST_ACKNOWLEDGE_INCOMING_GSM_SMS_WITH_PDU (\<lambda>vendor. acknowledgeIncomingGsmSmsWithPdu vendor slot serial b1 h1)"
| "radio_call v slot serial RIL_REQUEST_STK_SEND_ENVELOPE_WITH_STATUS (\<lambda>vendor. sendEnvelopeWithStatus vendor slot serial h1)"
| "radio_call v slot serial RIL_REQUEST_VOICE_RADIO_TECH (\<lambda>vendor. getVoiceRadioTechnology vendor slot serial)"
| "radio_call v slot serial RIL_REQUEST_GET_CELL_INFO_LIST (\<lambda>vendor. getCellInfoList vendor slot serial)"
| "radio_call v slot serial RIL_REQUEST_SET_UNSOL_CELL_INFO_LIST_RATE (\<lambda>vendor. setCellInfoListRate vendor slot serial i1)"
| "radio_call v slot serial RIL_REQUEST_IMS_REGISTRATION_STATE (\<lambda>vendor. getImsRegistrationState vendor slot serial)"
| "radio_call v slot serial RIL_REQUEST_SIM_TRANSMIT_APDU_BASIC (\<lambda>vendor. iccTransmitApduBasicChannel vendor slot serial ap1)"
| "radio_call v slot serial RIL_REQUEST_SIM_CLOSE_CHANNEL (\<lambda>vendor. iccCloseLogicalChannel vendor slot serial i1)"
| "radio_call v slot serial RIL_REQUEST_SIM_TRANSMIT_APDU_CHANNEL (\<lambda>vendor. iccTransmitApduLogicalChannel vendor slot serial ap1)"
| "radio_call v slot serial RIL_REQUEST_NV_WRITE_CDMA_PRL (\<lambda>vendor. nvWriteCdmaPrl vendor slot serial is1)"
| "radio_call v slot serial RIL_REQUEST_ALLOW_DATA (\<lambda>vendor. setDataAllowed vendor slot serial b1)"
| "radio_call v slot serial RIL_REQUEST_GET_HARDWARE_CONFIG (\<lambda>vendor. getHardwareConfig vendor slot serial)"
| "radio_call v slot serial RIL_REQUEST_SHUTDOWN (\<lambda>vendor. requestShutdown_svc vendor slot serial)"
| "radio_call v slot serial RIL_REQUEST_GET_RADIO_CAPABILITY (\<lambda>vendor. getRadioCapability vendor slot serial)"
| "radio_call v slot serial RIL_REQUEST_START_LCE (\<lambda>vendor. startLceService vendor slot serial i1 b1)"
| "radio_call v slot serial RIL_REQUEST_STOP_LCE (\<lambda>vendor. stopLceService vendor slot serial)"
| "radio_call v slot serial RIL_REQUEST_PULL_LCEDATA (\<lambda>vendor. pullLceData vendor slot serial)"
| "radio_call v slot serial RIL_REQUEST_GET_ACTIVITY_INFO (\<lambda>vendor. getModemActivityInfo vendor slot serial)"
| "radio_call v slot serial RIL_REQUEST_GET_CARRIER_RESTRICTIONS (\<lambda>vendor. getAllowedCarriers vendor slot serial)"
| "radio_call v slot serial RIL_REQUEST_SET_SIM_CARD_POWER (\<lambda>vendor. setSimCardPower vendor slot serial b1)"
| "radio_call v slot serial RIL_REQUEST_SET_SIM_CARD_POWER (\<lambda>vendor. setSimCardPower_1_1 vendor slot serial i1)"
| "radio_call v slot serial RIL_REQUEST_OEM_HOOK_RAW (\<lambda>vendor. sendRequestRaw vendor slot serial is1)"
| "radio_call v slot serial RIL_REQUEST_OEM_HOOK_STRINGS (\<lambda>vendor. sendRequestStrings vendor slot serial hs1)"
| "radio_call v slot serial RIL_REQUEST_RADIO_POWER (\<lambda>vendor. setRadioPower vendor slot serial b)"
| "radio_call v slot serial RIL_REQUEST_DIAL (\<lambda>vendor. dial vendor slot serial info)"
| "radio_call v slot serial RIL_REQUEST_SETUP_DATA_CALL (\<lambda>vendor. setupDataCall vendor slot serial tech info b1 b2 b3)"
| "radio_call v slot serial RIL_REQUEST_SIM_IO (\<lambda>vendor. iccIOForApp vendor slot serial io)"
| "radio_call v slot serial RIL_REQUEST_START_NETWORK_SCAN (\<lambda>vendor. startNetworkScan vendor slot serial scan_req)"
| "radio_call v slot serial RIL_REQUEST_WRITE_SMS_TO_SIM (\<lambda>vendor. writeSmsToSim vendor slot serial args)"
| "radio_call v slot serial RIL_REQUEST_CDMA_SEND_SMS (\<lambda>vendor. sendCdmaSms vendor slot serial sms)"
| "radio_call v slot serial RIL_REQUEST_CDMA_SMS_ACKNOWLEDGE (\<lambda>vendor. acknowledgeLastIncomingCdmaSms vendor slot serial i1 i2)"
| "radio_call v slot serial RIL_REQUEST_GSM_SET_BROADCAST_SMS_CONFIG (\<lambda>vendor. setGsmBroadcastConfig vendor slot serial gcs)"
| "radio_call v slot serial RIL_REQUEST_CDMA_SET_BROADCAST_SMS_CONFIG (\<lambda>vendor. setCdmaBroadcastConfig vendor slot serial ccs)"
| "radio_call v slot serial RIL_REQUEST_CDMA_WRITE_SMS_TO_RUIM (\<lambda>vendor. writeSmsToRuim vendor slot serial args)"
| "radio_call v slot serial RIL_REQUEST_SET_INITIAL_ATTACH_APN (\<lambda>vendor. setInitialAttachApn vendor slot serial info b1 b2)"
| "radio_call v slot serial RIL_REQUEST_IMS_SEND_SMS (\<lambda>vendor. sendImsSms vendor slot serial ims)"
| "radio_call v slot serial RIL_REQUEST_SIM_OPEN_CHANNEL (\<lambda>vendor. iccOpenLogicalChannel vendor slot serial h1 i1)"
| "radio_call v slot serial RIL_REQUEST_NV_READ_ITEM (\<lambda>vendor. nvReadItem vendor slot serial i1)"
| "radio_call v slot serial RIL_REQUEST_NV_WRITE_ITEM (\<lambda>vendor. nvWriteItem vendor slot serial item)"
| "radio_call v slot serial RIL_REQUEST_NV_RESET_CONFIG (\<lambda>vendor. nvResetConfig vendor slot serial rt)"
| "radio_call v slot serial RIL_REQUEST_SET_UICC_SUBSCRIPTION (\<lambda>vendor. setUiccSubscription vendor slot serial sub)"
| "radio_call v slot serial RIL_REQUEST_SIM_AUTHENTICATION (\<lambda>vendor. requestIccSimAuthentication vendor slot serial i1 h1 h2)"
| "radio_call v slot serial RIL_REQUEST_SET_DATA_PROFILE (\<lambda>vendor. setDataProfile vendor slot serial profiles b1)"
| "radio_call v slot serial RIL_REQUEST_SET_RADIO_CAPABILITY (\<lambda>vendor. setRadioCapability vendor slot serial rc)"
| "radio_call v slot serial RIL_REQUEST_SET_CARRIER_RESTRICTIONS (\<lambda>vendor. setAllowedCarriers vendor slot serial cs1 cs2)"
| "radio_call v slot serial RIL_REQUEST_SET_UNSOLICITED_RESPONSE_FILTER (\<lambda>vendor. setIndicationFilter vendor slot serial i1)"
| "radio_call v slot serial RIL_REQUEST_SET_CARRIER_INFO_IMSI_ENCRYPTION (\<lambda>vendor. setCarrierInfoForImsiEncryption vendor slot serial info)"
| "radio_call v slot serial RIL_REQUEST_START_KEEPALIVE (\<lambda>vendor. startKeepalive vendor slot serial ka)"
| "radio_call v slot serial RIL_REQUEST_STOP_KEEPALIVE (\<lambda>vendor. stopKeepalive vendor slot serial i1)"
| "v < 15 \<Longrightarrow> radio_call v slot serial RIL_REQUEST_SCREEN_STATE (\<lambda>vendor. sendDeviceState vendor slot serial LOW_DATA_EXPECTED b)"
| "v \<ge> 15 \<or> t \<noteq> LOW_DATA_EXPECTED \<Longrightarrow>
    radio_call v slot serial RIL_REQUEST_SEND_DEVICE_STATE (\<lambda>vendor. sendDeviceState vendor slot serial t b)"

section \<open>Each is served once\<close>

lemmas plain_calls =
  getIccCardStatus_def supplyIccPinForApp_def supplyIccPukForApp_def supplyIccPin2ForApp_def
    supplyIccPuk2ForApp_def changeIccPinForApp_def changeIccPin2ForApp_def supplyNetworkDepersonalization_def
    getCurrentCalls_def getImsiForApp_def hangup_def hangupWaitingOrBackground_def
    hangupForegroundResumeBackground_def switchWaitingOrHoldingAndActive_def conference_def rejectCall_def
    getLastCallFailCause_def getSignalStrength_def getVoiceRegistrationState_def getDataRegistrationState_def
    getOperator_def sendDtmf_def sendSms_def sendSMSExpectMore_def sendUssd_def cancelPendingUssd_def
    getClir_def setClir_def getCallForwardStatus_def setCallForward_def getCallWaiting_def setCallWaiting_def
    acknowledgeLastIncomingGsmSms_def acceptCall_def deactivateDataCall_def getFacilityLockForApp_def
    setFacilityLockForApp_def setBarringPassword_def getNetworkSelectionMode_def
    setNetworkSelectionModeAutomatic_def setNetworkSelectionModeManual_def getAvailableNetworks_def
    stopNetworkScan_def startDtmf_def stopDtmf_def getBasebandVersion_def separateConnection_def setMute_def
    getMute_def getClip_def getDataCallList_def setSuppServiceNotifications_def deleteSmsOnSim_def
    setBandMode_def getAvailableBandModes_def sendEnvelope_def sendTerminalResponseToSim_def
    handleStkCallSetupRequestFromSim_def explicitCallTransfer_def setPreferredNetworkType_def
    getPreferredNetworkType_def getNeighboringCids_def setLocationUpdates_def setCdmaSubscriptionSource_def
    setCdmaRoamingPreference_def getCdmaRoamingPreference_def setTTYMode_def getTTYMode_def
    setPreferredVoicePrivacy_def getPreferredVoicePrivacy_def sendCDMAFeatureCode_def sendBurstDtmf_def
    getGsmBroadcastConfig_def setGsmBroadcastActivation_def getCdmaBroadcastConfig_def
    setCdmaBroadcastActivation_def getCDMASubscription_def deleteSmsOnRuim_def getDeviceIdentity_def
    exitEmergencyCallbackMode_def getSmscAddress_def setSmscAddress_def reportSmsMemoryStatus_def
    reportStkServiceIsRunning_def getCdmaSubscriptionSource_def requestIsimAuthentication_def
    acknowledgeIncomingGsmSmsWithPdu_def sendEnvelopeWithStatus_def getVoiceRadioTechnology_def
    getCellInfoList_def setCellInfoListRate_def getImsRegistrationState_def iccTransmitApduBasicChannel_def
    iccCloseLogicalChannel_def iccTransmitApduLogicalChannel_def nvWriteCdmaPrl_def setDataAllowed_def
    getHardwareConfig_def requestShutdown_svc_def getRadioCapability_def startLceService_def
    stopLceService_def pullLceData_def getModemActivityInfo_def getAllowedCarriers_def setSimCardPower_def
    setSimCardPower_1_1_def sendRequestRaw_def sendRequestStrings_def setRadioPower_def nvResetConfig_def

lemmas structured_calls =
  dial_def iccIOForApp_def startNetworkScan_def writeSmsToSim_def sendCdmaSms_def
    acknowledgeLastIncomingCdmaSms_def setGsmBroadcastConfig_def setCdmaBroadcastConfig_def writeSmsToRuim_def
    setInitialAttachApn_def sendImsSms_def nvReadItem_def nvWriteItem_def setUiccSubscription_def
    requestIccSimAuthentication_def setDataProfile_def setRadioCapability_def setAllowedCarriers_def
    setCarrierInfoForImsiEncryption_def startKeepalive_def stopKeepalive_def

lemma row_simps: "rows_without_function = [0, 38, 39, 56, 58, 67, 68, 86, 126, 127]"
  by (rule rows_without_function_def)

lemma device_state_served:
  "v < 15 \<Longrightarrow> served_once v RIL_REQUEST_SCREEN_STATE slot serial (\<lambda>vendor. sendDeviceState vendor slot serial LOW_DATA_EXPECTED b)"
  "v \<ge> 15 \<or> t \<noteq> LOW_DATA_EXPECTED
    \<Longrightarrow> served_once v RIL_REQUEST_SEND_DEVICE_STATE slot serial (\<lambda>vendor. sendDeviceState vendor slot serial t b)"
  unfolding sendDeviceState_def
  by (rule served_version, cases "v < 15"; auto intro!: served_version served_dispatch served_unchecked
        simp: has_row_iff row_simps)+

lemma call_served: "radio_call v slot serial n m \<Longrightarrow> served_once v n slot serial m"
  by (erule radio_call.cases; (simp only: device_state_served; fail)?;
      simp only: plain_calls structured_calls setupDataCall_def iccOpenLogicalChannel_def setIndicationFilter_def
        dispatchImsGsmSms_def dispatchImsCdmaSms_def Let_def;
      intro served_dispatch served_unchecked served_version served_if served_option served_with_request goes_intros;
      simp add: has_row_iff row_simps)

section \<open>With memory for it\<close>



end
