(* ===== verification/SvcMemory.thy ===== *)
theory SvcMemory
  imports SvcTypes
begin

text \<open>
  What the vendor library hands back: the structures of \<^verbatim>\<open>telephony/ril.h\<close> that the service reads, their
  sizes as the compiler lays them out, and the object that a \<^verbatim>\<open>void *\<close> points to. Reading an object as
  another type than its own is a fault.
\<close>

section \<open>Sizes\<close>

text \<open>\<open>p\<close> is the size of a pointer; a 64-bit integer is aligned to its size.\<close>

datatype ctype = CChar | CInt | CLong | CPtr | CArr nat ctype | CStruct "ctype list" | CUnion "ctype list"

fun align_of :: "nat \<Rightarrow> ctype \<Rightarrow> nat" and aligns_of :: "nat \<Rightarrow> ctype list \<Rightarrow> nat" where
  "align_of p CChar = 1"
| "align_of p CInt = 4"
| "align_of p CLong = 8"
| "align_of p CPtr = p"
| "align_of p (CArr n t) = align_of p t"
| "align_of p (CStruct ts) = aligns_of p ts"
| "align_of p (CUnion ts) = aligns_of p ts"
| "aligns_of p [] = 1"
| "aligns_of p (t # ts) = max (align_of p t) (aligns_of p ts)"

definition round_up :: "nat \<Rightarrow> nat \<Rightarrow> nat" where
  "round_up n a = ((n + a - 1) div a) * a"

fun size_of :: "nat \<Rightarrow> ctype \<Rightarrow> nat" and end_of :: "nat \<Rightarrow> nat \<Rightarrow> ctype list \<Rightarrow> nat"
  and widest :: "nat \<Rightarrow> ctype list \<Rightarrow> nat" where
  "size_of p CChar = 1"
| "size_of p CInt = 4"
| "size_of p CLong = 8"
| "size_of p CPtr = p"
| "size_of p (CArr n t) = n * size_of p t"
| "size_of p (CStruct ts) = round_up (end_of p 0 ts) (aligns_of p ts)"
| "size_of p (CUnion ts) = round_up (widest p ts) (aligns_of p ts)"
| "end_of p start [] = start"
| "end_of p start (t # ts) = end_of p (round_up start (align_of p t) + size_of p t) ts"
| "widest p [] = 0"
| "widest p (t # ts) = max (size_of p t) (widest p ts)"

section \<open>Structures\<close>

text \<open>A call with the fields that the reference vendor library leaves zero.\<close>

record RIL_Call_full = RIL_Call +
  als :: int
  isVoicePrivacy :: int
  numberPresentation :: int
  call_name :: cptr
  namePresentation :: int
  uusInfo :: "RIL_UUS_Info option"

record RIL_Data_Call_v11 =
  dcr_status :: int
  dcr_suggestedRetryTime :: int
  dcr_cid :: int
  dcr_active :: int
  dcr_type :: cptr
  dcr_ifname :: cptr
  dcr_addresses :: cptr
  dcr_dnses :: cptr
  dcr_gateways :: cptr
  dcr_pcscf :: cptr
  dcr_mtu :: int

record RIL_SMS_Response =
  sr_messageRef :: int
  sr_ackPDU :: cptr
  sr_errorCode :: int

record RIL_LastCallFailCauseInfo =
  lc_cause_code :: int
  lc_vendor_cause :: cptr

record RIL_NeighboringCell =
  nc_cid :: cptr
  nc_rssi :: int

record RIL_LceStatusInfo =
  ls_lce_status :: int
  ls_actual_interval_ms :: int

record RIL_LceDataInfo =
  ld_last_hop_capacity_kbps :: int
  ld_confidence_level :: int
  ld_lce_suspended :: int

record RIL_ActivityStatsInfo =
  as_sleep_mode_time_ms :: int
  as_idle_mode_time_ms :: int
  as_tx_mode_time_ms :: "int list"
  as_rx_mode_time_ms :: int

record RIL_CarrierRestrictions =
  crs_len_allowed_carriers :: int
  crs_len_excluded_carriers :: int
  crs_allowed_carriers :: "RIL_Carrier list"
  crs_excluded_carriers :: "RIL_Carrier list"

record RIL_KeepaliveStatus =
  ks_sessionHandle :: int
  ks_code :: int

record RIL_SuppSvcNotification =
  sn_notificationType :: int
  sn_code :: int
  sn_index :: int
  sn_type :: int
  sn_number :: cptr

record RIL_SimRefreshResponse_v7 =
  sf_result :: int
  sf_ef_id :: int
  sf_aid :: cptr

record RIL_CDMA_SignalInfoRecord =
  si_isPresent :: int
  si_signalType :: int
  si_alertPitch :: int
  si_signal :: int

record RIL_CDMA_CallWaiting_v6 =
  wt_number :: cptr
  wt_numberPresentation :: int
  wt_name :: cptr
  wt_signalInfoRecord :: RIL_CDMA_SignalInfoRecord
  wt_number_type :: int
  wt_number_plan :: int

record RIL_PCO_Data =
  pco_cid :: int
  pco_bearer_proto :: cptr
  pco_pco_id :: int
  pco_contents_length :: int
  pco_contents :: "int list"

record RIL_CfData =
  cfd_numValidIndexes :: int
  cfd_cfInfo :: "RIL_CallForwardInfo list"

text \<open>The union at the end holds \<open>ssInfo\<close> or \<open>cfData\<close>.\<close>

datatype ss_union = SsInfo "int list" | CfData RIL_CfData

record RIL_StkCcUnsolSsResponse =
  ss_serviceType :: int
  ss_requestType :: int
  ss_teleserviceType :: int
  ss_serviceClass :: int
  ss_result :: int
  ss_data :: ss_union

section \<open>Cells\<close>

record RIL_CellIdentityGsm_v12 =
  gsm_mcc :: int
  gsm_mnc :: int
  gsm_lac :: int
  gsm_cid :: int
  gsm_arfcn :: int
  gsm_bsic :: int

record RIL_CellIdentityWcdma_v12 =
  wcdma_mcc :: int
  wcdma_mnc :: int
  wcdma_lac :: int
  wcdma_cid :: int
  wcdma_psc :: int
  wcdma_uarfcn :: int

record RIL_CellIdentityCdma =
  cdma_networkId :: int
  cdma_systemId :: int
  cdma_basestationId :: int
  cdma_longitude :: int
  cdma_latitude :: int

record RIL_CellIdentityLte_v12 =
  lte_mcc :: int
  lte_mnc :: int
  lte_ci :: int
  lte_pci :: int
  lte_tac :: int
  lte_earfcn :: int

record RIL_CellIdentityTdscdma =
  tds_mcc :: int
  tds_mnc :: int
  tds_lac :: int
  tds_cid :: int
  tds_cpid :: int

text \<open>The union of the identities; \<open>CI_none\<close> is one whose type says that there is none.\<close>

datatype RIL_CellIdentity_v16 =
    CI_none int
  | CI_gsm RIL_CellIdentityGsm_v12
  | CI_wcdma RIL_CellIdentityWcdma_v12
  | CI_cdma RIL_CellIdentityCdma
  | CI_lte RIL_CellIdentityLte_v12
  | CI_tdscdma RIL_CellIdentityTdscdma

record RIL_LTE_SignalStrength_v8 =
  ltes_signalStrength :: int
  ltes_rsrp :: int
  ltes_rsrq :: int
  ltes_rssnr :: int
  ltes_cqi :: int
  ltes_timingAdvance :: int

record RIL_EVDO_SignalStrength =
  evdo_dbm :: int
  evdo_ecio :: int
  evdo_signalNoiseRatio :: int

record RIL_SignalStrength_v10 =
  gw_signalStrength :: int
  gw_bitErrorRate :: int
  cdmas_dbm :: int
  cdmas_ecio :: int
  evdo_part :: RIL_EVDO_SignalStrength
  lte_part :: RIL_LTE_SignalStrength_v8
  tdscdma_rscp :: int

text \<open>A cell with its identity and its signal: GSM strength, error rate, advance; WCDMA strength, error rate.\<close>

datatype RIL_CellInfo_union =
    Cell_none int
  | Cell_gsm RIL_CellIdentityGsm_v12 int int int
  | Cell_wcdma RIL_CellIdentityWcdma_v12 int int
  | Cell_cdma RIL_CellIdentityCdma int int RIL_EVDO_SignalStrength
  | Cell_lte RIL_CellIdentityLte_v12 RIL_LTE_SignalStrength_v8
  | Cell_tdscdma RIL_CellIdentityTdscdma int

record RIL_CellInfo_v12 =
  cell_registered :: int
  cell_timeStampType :: int
  cell_timeStamp :: int
  cell_info :: RIL_CellInfo_union

record RIL_NetworkScanResult =
  sc_status :: int
  sc_network_infos_length :: int
  sc_network_infos :: "RIL_CellInfo_v12 list"
  sc_error :: int

record RIL_VoiceRegistrationStateResponse =
  vr_regState :: int
  vr_rat :: int
  vr_cssSupported :: int
  vr_roamingIndicator :: int
  vr_systemIsInPrl :: int
  vr_defaultRoamingIndicator :: int
  vr_reasonForDenial :: int
  vr_cellIdentity :: RIL_CellIdentity_v16

record RIL_DataRegistrationStateResponse =
  dr_regState :: int
  dr_rat :: int
  dr_reasonDataDenied :: int
  dr_maxDataCalls :: int
  dr_cellIdentity :: RIL_CellIdentity_v16

section \<open>Hardware and CDMA records\<close>

datatype hw_union = HwModem int int int int int | HwSim string | HwOther

text \<open>Model, technologies, voice, data, standby; the type is in the constructor, but for one that is neither.\<close>

record RIL_HardwareConfig =
  hw_type :: int
  hw_uuid :: string
  hw_state :: int
  hw_cfg :: hw_union

record RIL_CDMA_NumberInfoRecord =
  ni_len :: int
  ni_buf :: string
  ni_number_type :: int
  ni_number_plan :: int
  ni_pi :: int
  ni_si :: int

text \<open>The record by its name and the part of the union that goes with it.\<close>

datatype RIL_CDMA_InformationRecord =
    DisplayRec int int string                           \<comment> \<open>name, length, buffer\<close>
  | NumberRec int RIL_CDMA_NumberInfoRecord
  | SignalRec RIL_CDMA_SignalInfoRecord
  | RedirRec RIL_CDMA_NumberInfoRecord int
  | LineCtrlRec int int int int
  | ClirRec int
  | AudioCtrlRec int int
  | OtherRec int

record RIL_CDMA_InformationRecords =
  numberOfInfoRecs :: int
  infoRec :: "RIL_CDMA_InformationRecord list"

section \<open>Objects\<close>

datatype obj =
    ObjInts "int list"
  | ObjStr string
  | ObjBytes "int list"
  | ObjStrs "cptr list"
  | ObjCard RIL_CardStatus_v6
  | ObjCalls "RIL_Call_full option list"
  | ObjFailCause RIL_LastCallFailCauseInfo
  | ObjVoiceReg RIL_VoiceRegistrationStateResponse
  | ObjDataReg RIL_DataRegistrationStateResponse
  | ObjSms RIL_SMS_Response
  | ObjDataCalls "RIL_Data_Call_v11 list"
  | ObjSimIo RIL_SIM_IO_Response
  | ObjForwards "RIL_CallForwardInfo option list"
  | ObjCids "RIL_NeighboringCell option list"
  | ObjGsmBroadcast "RIL_GSM_BroadcastSmsConfigInfo option list"
  | ObjCdmaBroadcast "RIL_CDMA_BroadcastSmsConfigInfo option list"
  | ObjCells "RIL_CellInfo_v12 list"
  | ObjHardware "RIL_HardwareConfig list"
  | ObjCapability RIL_RadioCapability
  | ObjLceStatus RIL_LceStatusInfo
  | ObjLceData RIL_LceDataInfo
  | ObjActivity RIL_ActivityStatsInfo
  | ObjCarriers RIL_CarrierRestrictions
  | ObjKeepalive RIL_KeepaliveStatus
  | ObjSuppSvc RIL_SuppSvcNotification
  | ObjRefresh RIL_SimRefreshResponse_v7
  | ObjSignalInfo RIL_CDMA_SignalInfoRecord
  | ObjCdmaSms RIL_CDMA_SMS_Message
  | ObjCallWaiting RIL_CDMA_CallWaiting_v6
  | ObjInfoRecs RIL_CDMA_InformationRecords
  | ObjSs RIL_StkCcUnsolSsResponse
  | ObjPco RIL_PCO_Data
  | ObjScan RIL_NetworkScanResult

end
