(* ===== verification/SvcClient.thy ===== *)
theory SvcClient
  imports SvcMemory LibState
begin

text \<open>
  The other end of the service \<^verbatim>\<open>libril/ril_service.cpp\<close>: what a client is told, the callbacks of the
  client and what happens when the client is gone.
\<close>

section \<open>What a client is told\<close>

text \<open>
  The fields of the HIDL structures that the service assigns. A HIDL enumeration has the numbers of the
  enumeration of \<^verbatim>\<open>ril.h\<close> it is cast from; one that is only cast is an \<open>int\<close>.
\<close>

datatype RadioResponseType = SOLICITED | SOLICITED_ACK_EXP

datatype RadioIndicationType = UNSOLICITED | UNSOLICITED_ACK_EXP

record RadioResponseInfo =
  rs_type :: RadioResponseType
  rs_serial :: int
  rs_error :: RIL_Errno

record AppStatus =
  ha_appType :: int
  ha_appState :: int
  ha_persoSubstate :: int
  ha_aidPtr :: string
  ha_appLabelPtr :: string
  ha_pin1Replaced :: int
  ha_pin1 :: int
  ha_pin2 :: int

record CardStatus =
  hc_cardState :: int
  hc_universalPinState :: int
  hc_gsmUmtsSubscriptionAppIndex :: int
  hc_cdmaSubscriptionAppIndex :: int
  hc_imsSubscriptionAppIndex :: int
  hc_applications :: "AppStatus list"

text \<open>\<open>None\<close> for no user-to-user information; its data end at the first NUL.\<close>

record Call =
  hl_state :: RIL_CallState
  hl_index :: int
  hl_toa :: int
  hl_isMpty :: bool
  hl_isMT :: bool
  hl_als :: int
  hl_isVoice :: bool
  hl_isVoicePrivacy :: bool
  hl_number :: string
  hl_numberPresentation :: int
  hl_name :: string
  hl_namePresentation :: int
  hl_uusInfo :: "(int \<times> int \<times> string) option"

record SetupDataCallResult =
  hd_status :: int
  hd_suggestedRetryTime :: int
  hd_cid :: int
  hd_active :: int
  hd_type :: string
  hd_ifname :: string
  hd_addresses :: string
  hd_dnses :: string
  hd_gateways :: string
  hd_pcscf :: string
  hd_mtu :: int

record SendSmsResult =
  hs_messageRef :: int
  hs_ackPDU :: string
  hs_errorCode :: int

record IccIoResult =
  hi_sw1 :: int
  hi_sw2 :: int
  hi_simResponse :: string

record SignalStrength =
  hg_gw_signalStrength :: int
  hg_gw_bitErrorRate :: int
  hg_gw_timingAdvance :: int
  hg_cdma_dbm :: int
  hg_cdma_ecio :: int
  hg_evdo :: RIL_EVDO_SignalStrength
  hg_lte :: RIL_LTE_SignalStrength_v8
  hg_tdScdma_rscp :: int

text \<open>The identities carry the codes of country and network as strings, in place of the numbers.\<close>

record CellIdentityGsm =
  hgsm_mcc :: string
  hgsm_mnc :: string
  hgsm_lac :: int
  hgsm_cid :: int
  hgsm_arfcn :: int
  hgsm_bsic :: int

record CellIdentityWcdma =
  hwcdma_mcc :: string
  hwcdma_mnc :: string
  hwcdma_lac :: int
  hwcdma_cid :: int
  hwcdma_psc :: int
  hwcdma_uarfcn :: int

record CellIdentityLte =
  hlte_mcc :: string
  hlte_mnc :: string
  hlte_ci :: int
  hlte_pci :: int
  hlte_tac :: int
  hlte_earfcn :: int

record CellIdentityTdscdma =
  htds_mcc :: string
  htds_mnc :: string
  htds_lac :: int
  htds_cid :: int
  htds_cpid :: int

text \<open>At most one of the vectors of identities has an element.\<close>

datatype CellIdentity =
    HCI_none int
  | HCI_gsm CellIdentityGsm
  | HCI_wcdma CellIdentityWcdma
  | HCI_cdma RIL_CellIdentityCdma
  | HCI_lte CellIdentityLte
  | HCI_tdscdma CellIdentityTdscdma

record VoiceRegStateResult =
  hv_regState :: int
  hv_rat :: int
  hv_cssSupported :: bool
  hv_roamingIndicator :: int
  hv_systemIsInPrl :: int
  hv_defaultRoamingIndicator :: int
  hv_reasonForDenial :: int
  hv_cellIdentity :: CellIdentity

record DataRegStateResult =
  hr_regState :: int
  hr_rat :: int
  hr_reasonDataDenied :: int
  hr_maxDataCalls :: int
  hr_cellIdentity :: CellIdentity

datatype CellInfo_part =
    HCell_none int
  | HCell_gsm CellIdentityGsm int int int
  | HCell_wcdma CellIdentityWcdma int int
  | HCell_cdma RIL_CellIdentityCdma int int RIL_EVDO_SignalStrength
  | HCell_lte CellIdentityLte RIL_LTE_SignalStrength_v8
  | HCell_tdscdma CellIdentityTdscdma int

record CellInfo =
  hcell_registered :: bool
  hcell_timeStampType :: int
  hcell_timeStamp :: int
  hcell_info :: CellInfo_part

datatype OperatorStatus = OP_UNKNOWN | OP_AVAILABLE | OP_CURRENT | OP_FORBIDDEN

record OperatorInfo =
  op_alphaLong :: string
  op_alphaShort :: string
  op_operatorNumeric :: string
  op_status :: OperatorStatus

datatype HardwareConfig_part = HW_modem int int int int | HW_sim string | HW_neither

record HardwareConfig =
  hh_type :: int
  hh_uuid :: string
  hh_state :: int
  hh_part :: HardwareConfig_part

record NumberInfo =
  hn_number :: string
  hn_numberType :: int
  hn_numberPlan :: int
  hn_pi :: int
  hn_si :: int

datatype CdmaInformationRecord =
    HDisplay int string
  | HNumber int NumberInfo
  | HSignal RIL_CDMA_SignalInfoRecord
  | HRedir NumberInfo int
  | HLineCtrl int int int int
  | HClir int
  | HAudioCtrl int int

datatype ss_part = HSsInfo "int list" | HCfData "CallForwardInfo list"

record StkCcUnsolSsResult =
  hss_serviceType :: int
  hss_requestType :: int
  hss_teleserviceType :: int
  hss_serviceClass :: int
  hss_result :: int
  hss_data :: ss_part

record CdmaCallWaiting =
  hw_number :: string
  hw_numberPresentation :: int
  hw_name :: string
  hw_signalInfoRecord :: RIL_CDMA_SignalInfoRecord
  hw_numberType :: int
  hw_numberPlan :: int

text \<open>An argument of a callback.\<close>

datatype harg =
    HInfo RadioResponseInfo
  | HInd RadioIndicationType
  | HInt int
  | HBool bool
  | HStr string
  | HInts "int list"
  | HStrs "string list"
  | HCard CardStatus
  | HCalls "Call list"
  | HFailCause int string
  | HSignalStrength SignalStrength
  | HVoiceReg VoiceRegStateResult
  | HDataReg DataRegStateResult
  | HSms SendSmsResult
  | HDataCall SetupDataCallResult
  | HDataCalls "SetupDataCallResult list"
  | HIccIo IccIoResult
  | HForwards "CallForwardInfo list"
  | HOperators "OperatorInfo list"
  | HCids "(string \<times> int) list"
  | HGsmBroadcast "GsmBroadcastSmsConfigInfo list"
  | HCdmaBroadcast "CdmaBroadcastSmsConfigInfo list"
  | HFamily RadioTechnologyFamily
  | HCells "CellInfo list"
  | HHardware "HardwareConfig list"
  | HCapability RadioCapability
  | HLceStatus int int
  | HLceData int int bool
  | HActivity "(int \<times> int \<times> int list \<times> int) option"    \<comment> \<open>\<open>None\<close>: never assigned\<close>
  | HCarriers bool "Carrier list" "Carrier list"
  | HKeepalive int int
  | HSuppSvc bool int int int string
  | HRefresh int int string
  | HRing bool RIL_CDMA_SignalInfoRecord
  | HCdmaSms CdmaSmsMessage
  | HCallWaiting CdmaCallWaiting
  | HInfoRecs "CdmaInformationRecord list"
  | HSs StkCcUnsolSsResult
  | HPco int string int "int list"
  | HScan int int "CellInfo list"

section \<open>The service\<close>

text \<open>
  The callbacks of the radio client, by the slot, as whether they are set: of the first and of the
  second version of the interface; those of the OEM client; the counters that tell a change of them.
  \<open>client_ok\<close> says of the next calls whether they reach the client, \<open>reconnects\<close> whether a client sets
  its callbacks anew while the lock is given up. \<open>heard\<close> is what clients were told.
\<close>

record svc =
  radio_version :: int                \<comment> \<open>\<^verbatim>\<open>s_vendorFunctions->version\<close>\<close>
  onStateRequest :: "nat \<Rightarrow> int"
  kOemHookEnabled :: bool
  sizeof_pointer :: nat
  sizeof_KeepaliveStatus :: nat       \<comment> \<open>of the HIDL structure\<close>
  mRadioResponse :: "nat \<Rightarrow> bool"
  mRadioIndication :: "nat \<Rightarrow> bool"
  mRadioResponseV1_1 :: "nat \<Rightarrow> bool"
  mRadioIndicationV1_1 :: "nat \<Rightarrow> bool"
  mOemHookResponse :: "nat \<Rightarrow> bool"
  mOemHookIndication :: "nat \<Rightarrow> bool"
  mCounterRadio :: "nat \<Rightarrow> int"
  mCounterOemHook :: "nat \<Rightarrow> int"
  nitzTimeReceived :: "nat \<Rightarrow> int"
  can_malloc :: "bool list"           \<comment> \<open>of the next calls of \<^verbatim>\<open>malloc\<close>; then always\<close>
  client_ok :: "bool list"
  reconnects :: "bool list"
  heard :: "(nat \<times> string \<times> harg list) list"

type_synonym 'a sprog = "(svc, 'a) prog"

section \<open>Calling a client\<close>

text \<open>A client, of the first version of the interface or of both, sets its callbacks.\<close>

definition set_radio :: "nat \<Rightarrow> bool \<Rightarrow> bool \<Rightarrow> svc \<Rightarrow> svc" where
  "set_radio slot on v1_1 s = s\<lparr>mRadioResponse := (mRadioResponse s)(slot := on),
     mRadioIndication := (mRadioIndication s)(slot := on),
     mRadioResponseV1_1 := (mRadioResponseV1_1 s)(slot := on \<and> v1_1),
     mRadioIndicationV1_1 := (mRadioIndicationV1_1 s)(slot := on \<and> v1_1),
     mCounterRadio := (mCounterRadio s)(slot := mCounterRadio s slot + 1)\<rparr>"

definition set_oem :: "nat \<Rightarrow> bool \<Rightarrow> svc \<Rightarrow> svc" where
  "set_oem slot on s = s\<lparr>mOemHookResponse := (mOemHookResponse s)(slot := on),
     mOemHookIndication := (mOemHookIndication s)(slot := on),
     mCounterOemHook := (mCounterOemHook s)(slot := mCounterOemHook s slot + 1)\<rparr>"

definition set_callbacks :: "bool \<Rightarrow> nat \<Rightarrow> bool \<Rightarrow> svc \<Rightarrow> svc" where
  "set_callbacks isRadioService slot on = (if isRadioService then set_radio slot on on else set_oem slot on)"

definition counter :: "bool \<Rightarrow> nat \<Rightarrow> svc \<Rightarrow> int" where
  "counter isRadioService slot s = (if isRadioService then mCounterRadio s slot else mCounterOemHook s slot)"

text \<open>What other threads do while the lock is given up.\<close>

definition unlocked :: "bool \<Rightarrow> nat \<Rightarrow> unit sprog" where
  "unlocked isRadioService slot = modify (\<lambda>s. case reconnects s of
     [] \<Rightarrow> s
   | again # later \<Rightarrow>
       (if again then set_callbacks isRadioService slot True (s\<lparr>reconnects := later\<rparr>) else s\<lparr>reconnects := later\<rparr>))"

definition checkReturnStatus_svc :: "nat \<Rightarrow> bool \<Rightarrow> bool \<Rightarrow> unit sprog" where
  "checkReturnStatus_svc slotId ok isRadioService =
     (if ok then ret ()
      else bnd (gets (counter isRadioService slotId)) (\<lambda>before.
        andthen (unlocked isRadioService slotId)
          (bnd (gets (counter isRadioService slotId)) (\<lambda>now.
            if before = now then modify (set_callbacks isRadioService slotId False) else ret ()))))"

text \<open>A call of a client's callback and the check of its status.\<close>

definition tell :: "bool \<Rightarrow> nat \<Rightarrow> string \<Rightarrow> harg list \<Rightarrow> unit sprog" where
  "tell isRadioService slotId method args = bnd (gets client_ok) (\<lambda>oks.
     let ok = (case oks of [] \<Rightarrow> True | ok # _ \<Rightarrow> ok) in
     andthen (modify (\<lambda>s. s\<lparr>client_ok := tl oks, heard := (if ok then heard s @ [(slotId, method, args)] else heard s)\<rparr>))
       (checkReturnStatus_svc slotId ok isRadioService))"

abbreviation (input) tell_radio :: "nat \<Rightarrow> string \<Rightarrow> harg list \<Rightarrow> unit sprog" where
  "tell_radio \<equiv> tell True"

section \<open>Reading a response\<close>

text \<open>\<^verbatim>\<open>(T *) response\<close>, read through: \<open>f\<close> picks the objects of the type.\<close>

definition cast :: "(obj \<Rightarrow> 'a option) \<Rightarrow> obj option \<Rightarrow> 'a sprog" where
  "cast f response = (case response of
     None \<Rightarrow> crash NullDeref
   | Some ob \<Rightarrow> (case f ob of None \<Rightarrow> crash BadData | Some x \<Rightarrow> ret x))"

text \<open>The first \<open>n\<close> elements of an array.\<close>

definition first_n :: "nat \<Rightarrow> 'a list \<Rightarrow> 'a list sprog" where
  "first_n n xs = (if n \<le> length xs then ret (take n xs) else crash OutOfBounds)"

text \<open>The structures behind an array of pointers.\<close>

fun pointed :: "'a option list \<Rightarrow> 'a list sprog" where
  "pointed [] = ret []"
| "pointed (None # ps) = crash NullDeref"
| "pointed (Some x # ps) = bnd (pointed ps) (\<lambda>xs. ret (x # xs))"

fun ints_of :: "obj \<Rightarrow> int list option" where "ints_of (ObjInts xs) = Some xs" | "ints_of _ = None"
fun str_of :: "obj \<Rightarrow> string option" where "str_of (ObjStr x) = Some x" | "str_of _ = None"
fun strs_of :: "obj \<Rightarrow> cptr list option" where "strs_of (ObjStrs xs) = Some xs" | "strs_of _ = None"

text \<open>Any object can be read as bytes; the model does so with strings and with bytes.\<close>

fun bytes_of :: "obj \<Rightarrow> int list option" where
  "bytes_of (ObjStr x) = Some (map of_char x @ [0])"
| "bytes_of (ObjBytes xs) = Some xs"
| "bytes_of _ = None"

definition int_at :: "nat \<Rightarrow> int list \<Rightarrow> int sprog" where
  "int_at i xs = (if i < length xs then ret (xs ! i) else crash OutOfBounds)"

definition convertCharPtrToHidlString :: "cptr \<Rightarrow> string" where
  "convertCharPtrToHidlString p = (case p of None \<Rightarrow> '''' | Some s \<Rightarrow> s)"

text \<open>\<^verbatim>\<open>convertCharPtrToHidlString((char *) response)\<close>.\<close>

definition response_string :: "obj option \<Rightarrow> string sprog" where
  "response_string response = (case response of None \<Rightarrow> ret '''' | Some ob \<Rightarrow> cast str_of (Some ob))"

section \<open>The head of a response\<close>

definition populateResponseInfo :: "int \<Rightarrow> int \<Rightarrow> RIL_Errno \<Rightarrow> RadioResponseInfo" where
  "populateResponseInfo serial responseType e =
     \<lparr>rs_type = (if responseType = RESPONSE_SOLICITED_ACK_EXP then SOLICITED_ACK_EXP else SOLICITED), rs_serial = serial, rs_error = e\<rparr>"

text \<open>\<^verbatim>\<open>if (e == RIL_E_SUCCESS) responseInfo.error = RadioError::INVALID_RESPONSE\<close>.\<close>

definition invalid :: "RIL_Errno \<Rightarrow> RadioResponseInfo \<Rightarrow> RadioResponseInfo" where
  "invalid e info = (if e = RIL_E_SUCCESS then info\<lparr>rs_error := RIL_E_INVALID_RESPONSE\<rparr> else info)"

definition responseIntOrEmpty :: "int \<Rightarrow> int \<Rightarrow> RIL_Errno \<Rightarrow> obj option \<Rightarrow> nat \<Rightarrow> (RadioResponseInfo \<times> int) sprog" where
  "responseIntOrEmpty serial responseType e response responseLen =
     (let info = populateResponseInfo serial responseType e in
      if response = None \<and> responseLen = 0 then ret (info, -1)
      else if response = None \<or> responseLen \<noteq> 4 then ret (invalid e info, -1)
      else bnd (cast ints_of response) (\<lambda>p_int. bnd (int_at 0 p_int) (\<lambda>v. ret (info, v))))"

definition responseInt :: "int \<Rightarrow> int \<Rightarrow> RIL_Errno \<Rightarrow> obj option \<Rightarrow> nat \<Rightarrow> (RadioResponseInfo \<times> int) sprog" where
  "responseInt serial responseType e response responseLen =
     (let info = populateResponseInfo serial responseType e in
      if response = None \<or> responseLen \<noteq> 4 then ret (invalid e info, -1)
      else bnd (cast ints_of response) (\<lambda>p_int. bnd (int_at 0 p_int) (\<lambda>v. ret (info, v))))"

text \<open>\<^verbatim>\<open>if (mRadioResponse != NULL)\<close>; each function returns 0 whatever happens.\<close>

definition with_response :: "nat \<Rightarrow> unit sprog \<Rightarrow> unit sprog" where
  "with_response slotId go = bnd (gets (\<lambda>s. mRadioResponse s slotId)) (\<lambda>up. whenever up go)"

definition with_responseV1_1 :: "nat \<Rightarrow> unit sprog \<Rightarrow> unit sprog" where
  "with_responseV1_1 slotId go = bnd (gets (\<lambda>s. mRadioResponseV1_1 s slotId)) (\<lambda>up. whenever up go)"

type_synonym response_fn = "nat \<Rightarrow> int \<Rightarrow> int \<Rightarrow> RIL_Errno \<Rightarrow> obj option \<Rightarrow> nat \<Rightarrow> unit sprog"

text \<open>A function whose client callback gets the head alone.\<close>

definition tell_info :: "string \<Rightarrow> response_fn" where
  "tell_info method slotId responseType serial e response responseLen =
     tell_radio slotId method [HInfo (populateResponseInfo serial responseType e)]"

definition acknowledgeRequest :: "nat \<Rightarrow> int \<Rightarrow> unit sprog" where
  "acknowledgeRequest slotId serial = with_response slotId (tell_radio slotId ''acknowledgeRequest'' [HInt serial])"

end
