(* ===== verification/SvcConvert.thy ===== *)
theory SvcConvert
  imports SvcClient CLib
begin

unbundle bit_operations_syntax

text \<open>
  The conversions of \<^verbatim>\<open>libril/ril_service.cpp\<close> between the structures of \<^verbatim>\<open>ril.h\<close> and those of the
  client, and the codes of country and network of \<^verbatim>\<open>ril_mcc.h\<close> and \<^verbatim>\<open>ril_mnc.h\<close>.
\<close>

section \<open>Codes of country and network\<close>

text \<open>\<^verbatim>\<open>%03d\<close> of a number below 1000.\<close>

definition three_digits :: "nat \<Rightarrow> string" where
  "three_digits n = [digit_char (n div 100 mod 10), digit_char (n div 10 mod 10), digit_char (n mod 10)]"

definition mcc_decode :: "int \<Rightarrow> string" where
  "mcc_decode mcc = (if mcc > 999 \<or> mcc < 0 then '''' else three_digits (nat mcc))"

text \<open>The most significant four bits tell the number of digits.\<close>

definition mnc_decode :: "int \<Rightarrow> string" where
  "mnc_decode mnc =
     (if mnc = INT_MAX \<or> mnc < 0 then ''''
      else
        let umnc = word_of_int mnc :: 32 word;
            mncNumDigits = unat (drop_bit 28 umnc AND 0xF);
            rest = unat (drop_bit 4 (push_bit 4 umnc))
        in if rest > 999 then ''''
           else if mncNumDigits = 0 then fmt_d (int rest)
           else if mncNumDigits = 2 then tl (three_digits rest)
           else if mncNumDigits = 3 then three_digits rest
           else '''')"

definition mnc_encode_int :: "int \<Rightarrow> nat \<Rightarrow> int" where
  "mnc_encode_int mnc numDigits =
     (if mnc > 999 \<or> mnc < 0 then INT_MAX
      else if numDigits = 0 \<or> numDigits = 2 \<or> numDigits = 3 then
        sint (push_bit 28 (of_nat numDigits :: 32 word) OR word_of_int mnc)
      else INT_MAX)"

text \<open>\<^verbatim>\<open>std::stoi\<close> throws where there is no number or it does not fit: \<open>None\<close>.\<close>

definition mnc_encode :: "string \<Rightarrow> int option" where
  "mnc_encode mnc = (case c_strtol 10 mnc of
     None \<Rightarrow> None
   | Some v \<Rightarrow> if is_int32 v then Some (mnc_encode_int v (length mnc)) else None)"

section \<open>Registration\<close>

definition ATOI_NULL_HANDLED :: "cptr \<Rightarrow> int" where
  "ATOI_NULL_HANDLED x = (case x of None \<Rightarrow> -1 | Some s \<Rightarrow> c_atoi s)"

definition ATOI_NULL_HANDLED_DEF :: "cptr \<Rightarrow> int \<Rightarrow> int" where
  "ATOI_NULL_HANDLED_DEF x defaultVal = (case x of None \<Rightarrow> defaultVal | Some s \<Rightarrow> c_atoi s)"

definition RIL_CELL_INFO_TYPE_NONE :: int where "RIL_CELL_INFO_TYPE_NONE = 0"
definition RIL_CELL_INFO_TYPE_GSM :: int where "RIL_CELL_INFO_TYPE_GSM = 1"
definition RIL_CELL_INFO_TYPE_CDMA :: int where "RIL_CELL_INFO_TYPE_CDMA = 2"
definition RIL_CELL_INFO_TYPE_LTE :: int where "RIL_CELL_INFO_TYPE_LTE = 3"
definition RIL_CELL_INFO_TYPE_WCDMA :: int where "RIL_CELL_INFO_TYPE_WCDMA = 4"
definition RIL_CELL_INFO_TYPE_TD_SCDMA :: int where "RIL_CELL_INFO_TYPE_TD_SCDMA = 5"

lemmas cell_types = RIL_CELL_INFO_TYPE_NONE_def RIL_CELL_INFO_TYPE_GSM_def RIL_CELL_INFO_TYPE_CDMA_def
  RIL_CELL_INFO_TYPE_LTE_def RIL_CELL_INFO_TYPE_WCDMA_def RIL_CELL_INFO_TYPE_TD_SCDMA_def

text \<open>
  \<^verbatim>\<open>GPRS\<close>, \<^verbatim>\<open>EDGE\<close>, \<^verbatim>\<open>GSM\<close> are 1, 2, 16; \<^verbatim>\<open>UMTS\<close>, \<^verbatim>\<open>HSDPA\<close>, \<^verbatim>\<open>HSUPA\<close>, \<^verbatim>\<open>HSPA\<close>, \<^verbatim>\<open>HSPAP\<close> are 3, 9,
  10, 11, 15; \<^verbatim>\<open>IS95A\<close>, \<^verbatim>\<open>IS95B\<close>, \<^verbatim>\<open>1xRTT\<close>, \<^verbatim>\<open>EVDO_0\<close>, \<^verbatim>\<open>EVDO_A\<close>, \<^verbatim>\<open>EVDO_B\<close>, \<^verbatim>\<open>EHRPD\<close> are 4 to 8, 12
  and 13; \<^verbatim>\<open>LTE\<close> and \<^verbatim>\<open>LTE_CA\<close> are 14 and 19; \<^verbatim>\<open>TD_SCDMA\<close> is 17.
\<close>

definition getCellInfoTypeRadioTechnology :: "cptr \<Rightarrow> int" where
  "getCellInfoTypeRadioTechnology rat = (case rat of
     None \<Rightarrow> RIL_CELL_INFO_TYPE_NONE
   | Some s \<Rightarrow>
       let radioTech = c_atoi s in
       if radioTech \<in> {1, 2, 16} then RIL_CELL_INFO_TYPE_GSM
       else if radioTech \<in> {3, 9, 10, 11, 15} then RIL_CELL_INFO_TYPE_WCDMA
       else if radioTech \<in> {4, 5, 6, 7, 8, 12, 13} then RIL_CELL_INFO_TYPE_CDMA
       else if radioTech \<in> {14, 19} then RIL_CELL_INFO_TYPE_LTE
       else if radioTech = 17 then RIL_CELL_INFO_TYPE_TD_SCDMA
       else RIL_CELL_INFO_TYPE_NONE)"

definition cell_mcc :: "int \<Rightarrow> string" where
  "cell_mcc mcc = (let m = mcc_decode mcc in if m = ''-1'' then '''' else m)"

fun fillCellIdentityResponse :: "RIL_CellIdentity_v16 \<Rightarrow> CellIdentity" where
  "fillCellIdentityResponse (CI_gsm c) = HCI_gsm \<lparr>hgsm_mcc = cell_mcc (gsm_mcc c), hgsm_mnc = mnc_decode (gsm_mnc c),
     hgsm_lac = gsm_lac c, hgsm_cid = gsm_cid c, hgsm_arfcn = gsm_arfcn c, hgsm_bsic = gsm_bsic c\<rparr>"
| "fillCellIdentityResponse (CI_wcdma c) = HCI_wcdma \<lparr>hwcdma_mcc = cell_mcc (wcdma_mcc c),
     hwcdma_mnc = mnc_decode (wcdma_mnc c), hwcdma_lac = wcdma_lac c, hwcdma_cid = wcdma_cid c,
     hwcdma_psc = wcdma_psc c, hwcdma_uarfcn = wcdma_uarfcn c\<rparr>"
| "fillCellIdentityResponse (CI_cdma c) = HCI_cdma c"
| "fillCellIdentityResponse (CI_lte c) = HCI_lte \<lparr>hlte_mcc = cell_mcc (lte_mcc c), hlte_mnc = mnc_decode (lte_mnc c),
     hlte_ci = lte_ci c, hlte_pci = lte_pci c, hlte_tac = lte_tac c, hlte_earfcn = lte_earfcn c\<rparr>"
| "fillCellIdentityResponse (CI_tdscdma c) = HCI_tdscdma \<lparr>htds_mcc = cell_mcc (tds_mcc c),
     htds_mnc = mnc_decode (tds_mnc c), htds_lac = tds_lac c, htds_cid = tds_cid c, htds_cpid = tds_cpid c\<rparr>"
| "fillCellIdentityResponse (CI_none n) = HCI_none n"

definition convertResponseStringEntryToInt :: "cptr list \<Rightarrow> nat \<Rightarrow> nat \<Rightarrow> int" where
  "convertResponseStringEntryToInt response index numStrings =
     (if numStrings > index then ATOI_NULL_HANDLED (response ! index) else -1)"

definition convertResponseHexStringEntryToInt :: "cptr list \<Rightarrow> nat \<Rightarrow> nat \<Rightarrow> int" where
  "convertResponseHexStringEntryToInt response index numStrings =
     (if numStrings > index then
        (case response ! index of
           None \<Rightarrow> -1
         | Some s \<Rightarrow> (case c_strtol 16 s of None \<Rightarrow> 0 | Some v \<Rightarrow> to_int32 v))
      else -1)"

text \<open>Every byte of the structure is first set to 0xff.\<close>

definition fillCellIdentityFromVoiceRegStateResponseString :: "nat \<Rightarrow> cptr list \<Rightarrow> CellIdentity" where
  "fillCellIdentityFromVoiceRegStateResponseString numStrings response =
     (let cellInfoType = getCellInfoTypeRadioTechnology (response ! 3);
          hex = (\<lambda>i. convertResponseHexStringEntryToInt response i numStrings);
          dec = (\<lambda>i. convertResponseStringEntryToInt response i numStrings)
      in fillCellIdentityResponse
        (if cellInfoType = RIL_CELL_INFO_TYPE_GSM then
           CI_gsm \<lparr>gsm_mcc = -1, gsm_mnc = -1, gsm_lac = hex 1, gsm_cid = hex 2, gsm_arfcn = -1, gsm_bsic = 255\<rparr>
         else if cellInfoType = RIL_CELL_INFO_TYPE_WCDMA then
           CI_wcdma \<lparr>wcdma_mcc = -1, wcdma_mnc = -1, wcdma_lac = hex 1, wcdma_cid = hex 2, wcdma_psc = dec 14,
             wcdma_uarfcn = -1\<rparr>
         else if cellInfoType = RIL_CELL_INFO_TYPE_TD_SCDMA then
           CI_tdscdma \<lparr>tds_mcc = -1, tds_mnc = -1, tds_lac = hex 1, tds_cid = hex 2, tds_cpid = -1\<rparr>
         else if cellInfoType = RIL_CELL_INFO_TYPE_CDMA then
           CI_cdma \<lparr>cdma_networkId = dec 9, cdma_systemId = dec 8, cdma_basestationId = dec 4,
             cdma_longitude = dec 6, cdma_latitude = dec 5\<rparr>
         else if cellInfoType = RIL_CELL_INFO_TYPE_LTE then
           CI_lte \<lparr>lte_mcc = -1, lte_mnc = -1, lte_ci = hex 2, lte_pci = -1, lte_tac = hex 1, lte_earfcn = -1\<rparr>
         else CI_none cellInfoType))"

definition fillCellIdentityFromDataRegStateResponseString :: "nat \<Rightarrow> cptr list \<Rightarrow> CellIdentity" where
  "fillCellIdentityFromDataRegStateResponseString numStrings response =
     (let cellInfoType = getCellInfoTypeRadioTechnology (response ! 3);
          hex = (\<lambda>i. convertResponseHexStringEntryToInt response i numStrings);
          dec = (\<lambda>i. convertResponseStringEntryToInt response i numStrings);
          mcc = (if numStrings \<ge> 13 then dec 11 else -1);
          mnc = (if numStrings \<ge> 13 then dec 12 else -1)
      in fillCellIdentityResponse
        (if cellInfoType = RIL_CELL_INFO_TYPE_GSM then
           CI_gsm \<lparr>gsm_mcc = mcc, gsm_mnc = mnc, gsm_lac = hex 1, gsm_cid = hex 2, gsm_arfcn = -1, gsm_bsic = 255\<rparr>
         else if cellInfoType = RIL_CELL_INFO_TYPE_WCDMA then
           CI_wcdma \<lparr>wcdma_mcc = mcc, wcdma_mnc = mnc, wcdma_lac = hex 1, wcdma_cid = hex 2, wcdma_psc = -1,
             wcdma_uarfcn = -1\<rparr>
         else if cellInfoType = RIL_CELL_INFO_TYPE_TD_SCDMA then
           CI_tdscdma \<lparr>tds_mcc = mcc, tds_mnc = mnc, tds_lac = hex 1, tds_cid = hex 2, tds_cpid = -1\<rparr>
         else if cellInfoType = RIL_CELL_INFO_TYPE_LTE then
           CI_lte \<lparr>lte_mcc = mcc, lte_mnc = mnc, lte_ci = dec 8, lte_pci = dec 7, lte_tac = dec 6, lte_earfcn = -1\<rparr>
         else if cellInfoType = RIL_CELL_INFO_TYPE_CDMA then
           CI_cdma \<lparr>cdma_networkId = -1, cdma_systemId = -1, cdma_basestationId = -1, cdma_longitude = -1,
             cdma_latitude = -1\<rparr>
         else CI_none cellInfoType))"

section \<open>Signal strength and cells\<close>

text \<open>A signal may be given as an array of integers, which has the layout of the structure.\<close>

fun signal_of :: "obj \<Rightarrow> RIL_SignalStrength_v10 option" where
  "signal_of (ObjInts (a # b # c # d # e # f # g # h # i # j # k # l # m # n # rest)) =
     Some \<lparr>gw_signalStrength = a, gw_bitErrorRate = b, cdmas_dbm = c, cdmas_ecio = d,
       evdo_part = \<lparr>evdo_dbm = e, evdo_ecio = f, evdo_signalNoiseRatio = g\<rparr>,
       lte_part = \<lparr>ltes_signalStrength = h, ltes_rsrp = i, ltes_rsrq = j, ltes_rssnr = k, ltes_cqi = l,
         ltes_timingAdvance = m\<rparr>, tdscdma_rscp = n\<rparr>"
| "signal_of _ = None"

definition fix_lte :: "RIL_LTE_SignalStrength_v8 \<Rightarrow> RIL_LTE_SignalStrength_v8" where
  "fix_lte l = l\<lparr>ltes_signalStrength := (if ltes_signalStrength l = -1 then 99 else ltes_signalStrength l),
     ltes_rsrp := (if ltes_rsrp l = -1 then INT_MAX else if ltes_rsrp l < -1 then - ltes_rsrp l else ltes_rsrp l),
     ltes_rsrq := (if ltes_rsrq l = -1 then INT_MAX else ltes_rsrq l),
     ltes_cqi := (if ltes_cqi l = -1 then INT_MAX else ltes_cqi l)\<rparr>"

definition convertRilSignalStrengthToHal :: "RIL_SignalStrength_v10 \<Rightarrow> SignalStrength" where
  "convertRilSignalStrengthToHal r =
     \<lparr>hg_gw_signalStrength = gw_signalStrength r, hg_gw_bitErrorRate = gw_bitErrorRate r, hg_gw_timingAdvance = INT_MAX,
      hg_cdma_dbm = cdmas_dbm r, hg_cdma_ecio = cdmas_ecio r, hg_evdo = evdo_part r, hg_lte = fix_lte (lte_part r),
      hg_tdScdma_rscp = tdscdma_rscp r\<rparr>"

text \<open>Without the check of the country code that \<open>fillCellIdentityResponse\<close> makes.\<close>

fun convert_cell :: "RIL_CellInfo_union \<Rightarrow> CellInfo_part" where
  "convert_cell (Cell_gsm c strength errors advance) = HCell_gsm \<lparr>hgsm_mcc = mcc_decode (gsm_mcc c),
     hgsm_mnc = mnc_decode (gsm_mnc c), hgsm_lac = gsm_lac c, hgsm_cid = gsm_cid c, hgsm_arfcn = gsm_arfcn c,
     hgsm_bsic = gsm_bsic c\<rparr> strength errors advance"
| "convert_cell (Cell_wcdma c strength errors) = HCell_wcdma \<lparr>hwcdma_mcc = mcc_decode (wcdma_mcc c),
     hwcdma_mnc = mnc_decode (wcdma_mnc c), hwcdma_lac = wcdma_lac c, hwcdma_cid = wcdma_cid c,
     hwcdma_psc = wcdma_psc c, hwcdma_uarfcn = wcdma_uarfcn c\<rparr> strength errors"
| "convert_cell (Cell_cdma c dbm ecio evdo) = HCell_cdma c dbm ecio evdo"
| "convert_cell (Cell_lte c lte) = HCell_lte \<lparr>hlte_mcc = mcc_decode (lte_mcc c), hlte_mnc = mnc_decode (lte_mnc c),
     hlte_ci = lte_ci c, hlte_pci = lte_pci c, hlte_tac = lte_tac c, hlte_earfcn = lte_earfcn c\<rparr> lte"
| "convert_cell (Cell_tdscdma c rscp) = HCell_tdscdma \<lparr>htds_mcc = mcc_decode (tds_mcc c),
     htds_mnc = mnc_decode (tds_mnc c), htds_lac = tds_lac c, htds_cid = tds_cid c, htds_cpid = tds_cpid c\<rparr> rscp"
| "convert_cell (Cell_none n) = HCell_none n"

definition convert_cell_info :: "RIL_CellInfo_v12 \<Rightarrow> CellInfo" where
  "convert_cell_info c = \<lparr>hcell_registered = (cell_registered c \<noteq> 0), hcell_timeStampType = cell_timeStampType c,
     hcell_timeStamp = cell_timeStamp c, hcell_info = convert_cell (cell_info c)\<rparr>"

fun cells_of :: "obj \<Rightarrow> RIL_CellInfo_v12 list option" where "cells_of (ObjCells xs) = Some xs" | "cells_of _ = None"

definition evdo_type :: "ctype list" where "evdo_type = [CInt, CInt, CInt]"
definition lte_type :: "ctype list" where "lte_type = [CInt, CInt, CInt, CInt, CInt, CInt]"

definition RIL_CellInfo_v12_type :: ctype where
  "RIL_CellInfo_v12_type = CStruct [CInt, CInt, CInt, CLong, CUnion
     [CStruct [CStruct [CInt, CInt, CInt, CInt, CInt, CChar], CStruct [CInt, CInt, CInt]],
      CStruct [CStruct [CInt, CInt, CInt, CInt, CInt], CStruct [CInt, CInt], CStruct evdo_type],
      CStruct [CStruct [CInt, CInt, CInt, CInt, CInt, CInt], CStruct lte_type],
      CStruct [CStruct [CInt, CInt, CInt, CInt, CInt, CInt], CStruct [CInt, CInt]],
      CStruct [CStruct [CInt, CInt, CInt, CInt, CInt], CStruct [CInt]]]]"

text \<open>The list is read through only where it is not empty.\<close>

definition elements :: "(obj \<Rightarrow> 'a list option) \<Rightarrow> obj option \<Rightarrow> nat \<Rightarrow> 'a list sprog" where
  "elements f response num = (if num = 0 then ret [] else bnd (cast f response) (first_n num))"

definition convertRilCellInfoListToHal :: "nat \<Rightarrow> obj option \<Rightarrow> nat \<Rightarrow> CellInfo list sprog" where
  "convertRilCellInfoListToHal p response responseLen =
     bnd (elements cells_of response (responseLen div size_of p RIL_CellInfo_v12_type)) (\<lambda>cs.
       ret (map convert_cell_info cs))"

section \<open>Data calls, capability, hardware\<close>

definition convertRilDataCallToHal :: "RIL_Data_Call_v11 \<Rightarrow> SetupDataCallResult" where
  "convertRilDataCallToHal d = \<lparr>hd_status = dcr_status d, hd_suggestedRetryTime = dcr_suggestedRetryTime d,
     hd_cid = dcr_cid d, hd_active = dcr_active d, hd_type = convertCharPtrToHidlString (dcr_type d),
     hd_ifname = convertCharPtrToHidlString (dcr_ifname d), hd_addresses = convertCharPtrToHidlString (dcr_addresses d),
     hd_dnses = convertCharPtrToHidlString (dcr_dnses d), hd_gateways = convertCharPtrToHidlString (dcr_gateways d),
     hd_pcscf = convertCharPtrToHidlString (dcr_pcscf d), hd_mtu = dcr_mtu d\<rparr>"

definition RIL_Data_Call_Response_v11_type :: ctype where
  "RIL_Data_Call_Response_v11_type = CStruct [CInt, CInt, CInt, CInt, CPtr, CPtr, CPtr, CPtr, CPtr, CPtr, CInt]"

fun data_calls_of :: "obj \<Rightarrow> RIL_Data_Call_v11 list option" where
  "data_calls_of (ObjDataCalls xs) = Some xs"
| "data_calls_of _ = None"

definition convertRilDataCallListToHal :: "nat \<Rightarrow> obj option \<Rightarrow> nat \<Rightarrow> SetupDataCallResult list sprog" where
  "convertRilDataCallListToHal p response responseLen =
     bnd (elements data_calls_of response (responseLen div size_of p RIL_Data_Call_Response_v11_type)) (\<lambda>ds.
       ret (map convertRilDataCallToHal ds))"

fun capability_of :: "obj \<Rightarrow> RIL_RadioCapability option" where
  "capability_of (ObjCapability x) = Some x"
| "capability_of _ = None"

definition RIL_RadioCapability_type :: ctype where
  "RIL_RadioCapability_type = CStruct [CInt, CInt, CInt, CInt, CArr 64 CChar, CInt]"

definition convertRilRadioCapabilityToHal :: "obj option \<Rightarrow> RadioCapability sprog" where
  "convertRilRadioCapabilityToHal response = bnd (cast capability_of response) (\<lambda>c.
     ret \<lparr>rr_session = rc_session c, rr_phase = rc_phase c, rr_raf = rc_rat c,
          rr_logicalModemUuid = hstr (rc_uuid c), rr_status = rc_status c\<rparr>)"

fun hardware_of :: "obj \<Rightarrow> RIL_HardwareConfig list option" where
  "hardware_of (ObjHardware xs) = Some xs"
| "hardware_of _ = None"

definition RIL_HardwareConfig_type :: ctype where
  "RIL_HardwareConfig_type = CStruct [CInt, CArr 64 CChar, CInt, CUnion
     [CStruct [CInt, CInt, CInt, CInt, CInt], CStruct [CArr 64 CChar]]]"

definition convert_hardware :: "RIL_HardwareConfig \<Rightarrow> HardwareConfig sprog" where
  "convert_hardware h =
     (let made = (\<lambda>part. ret \<lparr>hh_type = hw_type h, hh_uuid = hw_uuid h, hh_state = hw_state h, hh_part = part\<rparr>) in
      if hw_type h = 0 then
        (case hw_cfg h of
           HwModem model rat maxVoice maxData maxStandby \<Rightarrow> made (HW_modem rat maxVoice maxData maxStandby)
         | _ \<Rightarrow> crash BadData)
      else if hw_type h = 1 then
        (case hw_cfg h of HwSim modemUuid \<Rightarrow> made (HW_sim modemUuid) | _ \<Rightarrow> crash BadData)
      else made HW_neither)"

fun convert_hardwares :: "RIL_HardwareConfig list \<Rightarrow> HardwareConfig list sprog" where
  "convert_hardwares [] = ret []"
| "convert_hardwares (h # hs) = bnd (convert_hardware h) (\<lambda>x. bnd (convert_hardwares hs) (\<lambda>xs. ret (x # xs)))"

definition convertRilHardwareConfigListToHal :: "nat \<Rightarrow> obj option \<Rightarrow> nat \<Rightarrow> HardwareConfig list sprog" where
  "convertRilHardwareConfigListToHal p response responseLen =
     bnd (elements hardware_of response (responseLen div size_of p RIL_HardwareConfig_type)) convert_hardwares"

fun lce_data_of :: "obj \<Rightarrow> RIL_LceDataInfo option" where "lce_data_of (ObjLceData x) = Some x" | "lce_data_of _ = None"

definition RIL_LceDataInfo_type :: ctype where "RIL_LceDataInfo_type = CStruct [CInt, CChar, CChar]"

definition convertRilLceDataInfoToHal :: "obj option \<Rightarrow> harg sprog" where
  "convertRilLceDataInfoToHal response = bnd (cast lce_data_of response) (\<lambda>l.
     ret (HLceData (ld_last_hop_capacity_kbps l) (ld_confidence_level l) (ld_lce_suspended l \<noteq> 0)))"

fun keepalive_of :: "obj \<Rightarrow> RIL_KeepaliveStatus option" where
  "keepalive_of (ObjKeepalive x) = Some x"
| "keepalive_of _ = None"

definition convertRilKeepaliveStatusToHal :: "obj option \<Rightarrow> harg sprog" where
  "convertRilKeepaliveStatusToHal response =
     bnd (cast keepalive_of response) (\<lambda>k. ret (HKeepalive (ks_sessionHandle k) (ks_code k)))"

text \<open>The record of the client has the fields of that of \<^verbatim>\<open>ril.h\<close>.\<close>

definition convertRilCdmaSignalInfoRecordToHal :: "RIL_CDMA_SignalInfoRecord \<Rightarrow> RIL_CDMA_SignalInfoRecord" where
  "convertRilCdmaSignalInfoRecordToHal r = \<lparr>si_isPresent = (if si_isPresent r \<noteq> 0 then 1 else 0),
     si_signalType = si_signalType r, si_alertPitch = si_alertPitch r, si_signal = si_signal r\<rparr>"

end
