(* ===== verification/SvcResponses.thy ===== *)
theory SvcResponses
  imports SvcConvert
begin

text \<open>
  The functions of \<^verbatim>\<open>libril/ril_service.cpp\<close> that take the answer to a request to the client and convert
  what comes with it. A response whose length is not that of the type is not read: the client gets
  \<^verbatim>\<open>INVALID_RESPONSE\<close> in place of success, or the error.
\<close>

section \<open>Results that several functions share\<close>

text \<open>\<^verbatim>\<open>if (bad) { if (e == RIL_E_SUCCESS) error = INVALID_RESPONSE; } else convert\<close>.\<close>

definition checked :: "bool \<Rightarrow> RIL_Errno \<Rightarrow> RadioResponseInfo \<Rightarrow> 'a \<Rightarrow> 'a sprog \<Rightarrow> (RadioResponseInfo \<times> 'a) sprog" where
  "checked bad e info def convert =
     (if bad then ret (invalid e info, def) else bnd convert (\<lambda>x. ret (info, x)))"

text \<open>The list is missing, or its length is not a multiple of the size of an element.\<close>

definition bad_list :: "obj option \<Rightarrow> nat \<Rightarrow> nat \<Rightarrow> bool" where
  "bad_list response responseLen width \<longleftrightarrow> (response = None \<and> responseLen \<noteq> 0) \<or> responseLen mod width \<noteq> 0"

definition RIL_SMS_Response_type :: ctype where "RIL_SMS_Response_type = CStruct [CInt, CPtr, CInt]"
definition RIL_SIM_IO_Response_type :: ctype where "RIL_SIM_IO_Response_type = CStruct [CInt, CInt, CPtr]"
definition RIL_LceStatusInfo_type :: ctype where "RIL_LceStatusInfo_type = CStruct [CChar, CInt]"

fun sms_of :: "obj \<Rightarrow> RIL_SMS_Response option" where "sms_of (ObjSms x) = Some x" | "sms_of _ = None"
fun sim_io_of :: "obj \<Rightarrow> RIL_SIM_IO_Response option" where "sim_io_of (ObjSimIo x) = Some x" | "sim_io_of _ = None"
fun lce_status_of :: "obj \<Rightarrow> RIL_LceStatusInfo option" where
  "lce_status_of (ObjLceStatus x) = Some x"
| "lce_status_of _ = None"

definition makeSendSmsResult :: "int \<Rightarrow> int \<Rightarrow> RIL_Errno \<Rightarrow> obj option \<Rightarrow> nat \<Rightarrow> (RadioResponseInfo \<times> SendSmsResult) sprog" where
  "makeSendSmsResult serial responseType e response responseLen = bnd (gets sizeof_pointer) (\<lambda>p.
     checked (response = None \<or> responseLen \<noteq> size_of p RIL_SMS_Response_type) e
       (populateResponseInfo serial responseType e) \<lparr>hs_messageRef = 0, hs_ackPDU = '''', hs_errorCode = 0\<rparr>
       (bnd (cast sms_of response) (\<lambda>resp. ret \<lparr>hs_messageRef = sr_messageRef resp,
          hs_ackPDU = convertCharPtrToHidlString (sr_ackPDU resp), hs_errorCode = sr_errorCode resp\<rparr>)))"

definition responseIccIo :: "int \<Rightarrow> int \<Rightarrow> RIL_Errno \<Rightarrow> obj option \<Rightarrow> nat \<Rightarrow> (RadioResponseInfo \<times> IccIoResult) sprog" where
  "responseIccIo serial responseType e response responseLen = bnd (gets sizeof_pointer) (\<lambda>p.
     checked (response = None \<or> responseLen \<noteq> size_of p RIL_SIM_IO_Response_type) e
       (populateResponseInfo serial responseType e) \<lparr>hi_sw1 = 0, hi_sw2 = 0, hi_simResponse = ''''\<rparr>
       (bnd (cast sim_io_of response) (\<lambda>resp. case simResponse resp of
          None \<Rightarrow> crash UninitPointer
        | Some c \<Rightarrow> ret \<lparr>hi_sw1 = sw1 resp, hi_sw2 = sw2 resp, hi_simResponse = convertCharPtrToHidlString c\<rparr>)))"

definition responseLceStatusInfo :: "int \<Rightarrow> int \<Rightarrow> RIL_Errno \<Rightarrow> obj option \<Rightarrow> nat \<Rightarrow> (RadioResponseInfo \<times> harg) sprog" where
  "responseLceStatusInfo serial responseType e response responseLen = bnd (gets sizeof_pointer) (\<lambda>p.
     checked (response = None \<or> responseLen \<noteq> size_of p RIL_LceStatusInfo_type) e
       (populateResponseInfo serial responseType e) (HLceStatus 0 0)
       (bnd (cast lce_status_of response) (\<lambda>resp.
          ret (HLceStatus (ls_lce_status resp) (ls_actual_interval_ms resp mod 256)))))"

definition responseRadioCapability :: "int \<Rightarrow> int \<Rightarrow> RIL_Errno \<Rightarrow> obj option \<Rightarrow> nat \<Rightarrow> (RadioResponseInfo \<times> RadioCapability) sprog" where
  "responseRadioCapability serial responseType e response responseLen = bnd (gets sizeof_pointer) (\<lambda>p.
     checked (response = None \<or> responseLen \<noteq> size_of p RIL_RadioCapability_type) e
       (populateResponseInfo serial responseType e)
       \<lparr>rr_session = 0, rr_phase = 0, rr_raf = 0, rr_logicalModemUuid = hstr '''', rr_status = 0\<rparr>
       (convertRilRadioCapabilityToHal response))"

text \<open>Functions by the one result that they tell the client.\<close>

definition tell_string :: "string \<Rightarrow> response_fn" where
  "tell_string method slotId responseType serial e response responseLen =
     bnd (response_string response) (\<lambda>str.
       tell_radio slotId method [HInfo (populateResponseInfo serial responseType e), HStr str])"

definition tell_result :: "string \<Rightarrow> nat \<Rightarrow> ('a \<Rightarrow> harg) \<Rightarrow> (RadioResponseInfo \<times> 'a) sprog \<Rightarrow> unit sprog" where
  "tell_result method slotId arg result =
     bnd result (\<lambda>(info, x). tell_radio slotId method [HInfo info, arg x])"

section \<open>SIM, calls and signal\<close>

definition RIL_AppStatus_type :: ctype where
  "RIL_AppStatus_type = CStruct [CInt, CInt, CInt, CPtr, CPtr, CInt, CInt, CInt]"

definition RIL_CardStatus_v6_type :: ctype where
  "RIL_CardStatus_v6_type = CStruct [CInt, CInt, CInt, CInt, CInt, CInt, CArr 8 RIL_AppStatus_type]"

fun card_of :: "obj \<Rightarrow> RIL_CardStatus_v6 option" where "card_of (ObjCard x) = Some x" | "card_of _ = None"

definition convert_app :: "RIL_AppStatus \<Rightarrow> AppStatus" where
  "convert_app a = \<lparr>ha_appType = app_type a, ha_appState = app_state a, ha_persoSubstate = perso_substate a,
     ha_aidPtr = convertCharPtrToHidlString (aid_ptr a), ha_appLabelPtr = convertCharPtrToHidlString (app_label_ptr a),
     ha_pin1Replaced = pin1_replaced a, ha_pin1 = pin1 a, ha_pin2 = pin2 a\<rparr>"

text \<open>A vector cannot be given a negative length: the program is stopped.\<close>

definition first_int :: "int \<Rightarrow> 'a list \<Rightarrow> 'a list sprog" where
  "first_int n xs = (if n < 0 then crash AssertFail else first_n (nat n) xs)"

definition convert_card :: "RIL_CardStatus_v6 \<Rightarrow> CardStatus sprog" where
  "convert_card c = bnd (first_int (num_applications c) (applications c)) (\<lambda>apps.
     ret \<lparr>hc_cardState = card_state c, hc_universalPinState = universal_pin_state c,
       hc_gsmUmtsSubscriptionAppIndex = gsm_umts_subscription_app_index c,
       hc_cdmaSubscriptionAppIndex = cdma_subscription_app_index c,
       hc_imsSubscriptionAppIndex = ims_subscription_app_index c, hc_applications = map convert_app apps\<rparr>)"

definition no_card :: CardStatus where
  "no_card = \<lparr>hc_cardState = 0, hc_universalPinState = 0, hc_gsmUmtsSubscriptionAppIndex = -1,
     hc_cdmaSubscriptionAppIndex = -1, hc_imsSubscriptionAppIndex = -1, hc_applications = []\<rparr>"

definition getIccCardStatusResponse :: response_fn where
  "getIccCardStatusResponse slotId responseType serial e response responseLen = with_response slotId
     (bnd (gets sizeof_pointer) (\<lambda>p. tell_result ''getIccCardStatusResponse'' slotId HCard
       (let info = populateResponseInfo serial responseType e in
        if response = None \<or> responseLen \<noteq> size_of p RIL_CardStatus_v6_type then ret (invalid e info, no_card)
        else bnd (cast card_of response) (\<lambda>p_cur.
          checked (gsm_umts_subscription_app_index p_cur \<ge> num_applications p_cur
              \<or> cdma_subscription_app_index p_cur \<ge> num_applications p_cur
              \<or> ims_subscription_app_index p_cur \<ge> num_applications p_cur) e info no_card (convert_card p_cur)))))"

fun calls_of :: "obj \<Rightarrow> RIL_Call_full option list option" where "calls_of (ObjCalls xs) = Some xs" | "calls_of _ = None"

text \<open>\<^verbatim>\<open>strndup\<close> takes a negative length as no bound.\<close>

definition convert_uus :: "RIL_UUS_Info option \<Rightarrow> (int \<times> int \<times> string) option" where
  "convert_uus u = (case u of
     None \<Rightarrow> None
   | Some i \<Rightarrow> (case uusData i of
       None \<Rightarrow> None
     | Some d \<Rightarrow> Some (uusType i, uusDcs i, if uusLength i < 0 then d else take (nat (uusLength i)) d)))"

definition convert_call :: "RIL_Call_full \<Rightarrow> Call" where
  "convert_call c = \<lparr>hl_state = call_state c, hl_index = call_index c, hl_toa = toa c, hl_isMpty = (isMpty c \<noteq> 0),
     hl_isMT = (isMT c \<noteq> 0), hl_als = als c, hl_isVoice = isVoice c, hl_isVoicePrivacy = (isVoicePrivacy c \<noteq> 0),
     hl_number = convertCharPtrToHidlString (number c), hl_numberPresentation = numberPresentation c,
     hl_name = convertCharPtrToHidlString (call_name c), hl_namePresentation = namePresentation c,
     hl_uusInfo = convert_uus (uusInfo c)\<rparr>"

text \<open>A response that is an array of pointers to structures.\<close>

definition tell_pointers :: "string \<Rightarrow> (obj \<Rightarrow> 'a option list option) \<Rightarrow> ('a \<Rightarrow> 'b) \<Rightarrow> ('b list \<Rightarrow> harg) \<Rightarrow> response_fn" where
  "tell_pointers method pick convert arg slotId responseType serial e response responseLen = with_response slotId
     (bnd (gets sizeof_pointer) (\<lambda>p. tell_result method slotId arg
       (checked (bad_list response responseLen p) e (populateResponseInfo serial responseType e) []
         (bnd (elements pick response (responseLen div p)) (\<lambda>ps. bnd (pointed ps) (\<lambda>xs. ret (map convert xs)))))))"

definition getCurrentCallsResponse :: response_fn where
  "getCurrentCallsResponse = tell_pointers ''getCurrentCallsResponse'' calls_of convert_call HCalls"

definition RIL_LastCallFailCauseInfo_type :: ctype where "RIL_LastCallFailCauseInfo_type = CStruct [CInt, CPtr]"

fun fail_cause_of :: "obj \<Rightarrow> RIL_LastCallFailCauseInfo option" where
  "fail_cause_of (ObjFailCause x) = Some x"
| "fail_cause_of _ = None"

definition getLastCallFailCauseResponse :: response_fn where
  "getLastCallFailCauseResponse slotId responseType serial e response responseLen = with_response slotId
     (bnd (gets sizeof_pointer) (\<lambda>p. tell_result ''getLastCallFailCauseResponse'' slotId (\<lambda>(cause, vendor). HFailCause cause vendor)
       (let info = populateResponseInfo serial responseType e in
        if response = None then ret (invalid e info, (0, ''''))
        else if responseLen = 4 then
          bnd (cast ints_of response) (\<lambda>pInt. bnd (int_at 0 pInt) (\<lambda>cause. ret (info, (cause, ''''))))
        else if responseLen = size_of p RIL_LastCallFailCauseInfo_type then
          bnd (cast fail_cause_of response) (\<lambda>c.
            ret (info, (lc_cause_code c, convertCharPtrToHidlString (lc_vendor_cause c))))
        else ret (invalid e info, (0, '''')))))"

definition RIL_SignalStrength_v10_type :: ctype where
  "RIL_SignalStrength_v10_type =
     CStruct [CStruct [CInt, CInt], CStruct [CInt, CInt], CStruct evdo_type, CStruct lte_type, CStruct [CInt]]"

definition no_evdo :: RIL_EVDO_SignalStrength where
  "no_evdo = \<lparr>evdo_dbm = 0, evdo_ecio = 0, evdo_signalNoiseRatio = 0\<rparr>"

definition no_lte :: RIL_LTE_SignalStrength_v8 where
  "no_lte = \<lparr>ltes_signalStrength = 0, ltes_rsrp = 0, ltes_rsrq = 0, ltes_rssnr = 0, ltes_cqi = 0, ltes_timingAdvance = 0\<rparr>"

definition no_signal :: SignalStrength where
  "no_signal = \<lparr>hg_gw_signalStrength = 0, hg_gw_bitErrorRate = 0, hg_gw_timingAdvance = 0, hg_cdma_dbm = 0,
     hg_cdma_ecio = 0, hg_evdo = no_evdo, hg_lte = no_lte, hg_tdScdma_rscp = 0\<rparr>"

definition getSignalStrengthResponse :: response_fn where
  "getSignalStrengthResponse slotId responseType serial e response responseLen = with_response slotId
     (bnd (gets sizeof_pointer) (\<lambda>p. tell_result ''getSignalStrengthResponse'' slotId HSignalStrength
       (checked (response = None \<or> responseLen \<noteq> size_of p RIL_SignalStrength_v10_type) e
         (populateResponseInfo serial responseType e) no_signal
         (bnd (cast signal_of response) (\<lambda>r. ret (convertRilSignalStrengthToHal r))))))"

section \<open>Registration\<close>

definition RIL_CellIdentity_v16_type :: ctype where
  "RIL_CellIdentity_v16_type = CStruct [CInt, CUnion
     [CStruct [CInt, CInt, CInt, CInt, CInt, CChar], CStruct [CInt, CInt, CInt, CInt, CInt, CInt],
      CStruct [CInt, CInt, CInt, CInt, CInt, CInt], CStruct [CInt, CInt, CInt, CInt, CInt],
      CStruct [CInt, CInt, CInt, CInt, CInt]]]"

definition RIL_VoiceRegistrationStateResponse_type :: ctype where
  "RIL_VoiceRegistrationStateResponse_type =
     CStruct [CInt, CInt, CInt, CInt, CInt, CInt, CInt, RIL_CellIdentity_v16_type]"

definition RIL_DataRegistrationStateResponse_type :: ctype where
  "RIL_DataRegistrationStateResponse_type = CStruct [CInt, CInt, CInt, CInt, RIL_CellIdentity_v16_type]"

fun voice_reg_of :: "obj \<Rightarrow> RIL_VoiceRegistrationStateResponse option" where
  "voice_reg_of (ObjVoiceReg x) = Some x"
| "voice_reg_of _ = None"

fun data_reg_of :: "obj \<Rightarrow> RIL_DataRegistrationStateResponse option" where
  "data_reg_of (ObjDataReg x) = Some x"
| "data_reg_of _ = None"

definition no_voice_reg :: VoiceRegStateResult where
  "no_voice_reg = \<lparr>hv_regState = 0, hv_rat = 0, hv_cssSupported = False, hv_roamingIndicator = 0, hv_systemIsInPrl = 0,
     hv_defaultRoamingIndicator = 0, hv_reasonForDenial = 0, hv_cellIdentity = HCI_none 0\<rparr>"

definition no_data_reg :: DataRegStateResult where
  "no_data_reg = \<lparr>hr_regState = 0, hr_rat = 0, hr_reasonDataDenied = 0, hr_maxDataCalls = 0, hr_cellIdentity = HCI_none 0\<rparr>"

definition voice_reg_strings :: "nat \<Rightarrow> cptr list \<Rightarrow> VoiceRegStateResult" where
  "voice_reg_strings numStrings resp =
     \<lparr>hv_regState = ATOI_NULL_HANDLED_DEF (resp ! 0) 4, hv_rat = ATOI_NULL_HANDLED (resp ! 3),
      hv_cssSupported = (ATOI_NULL_HANDLED_DEF (resp ! 7) 0 \<noteq> 0), hv_roamingIndicator = ATOI_NULL_HANDLED (resp ! 10),
      hv_systemIsInPrl = ATOI_NULL_HANDLED_DEF (resp ! 11) 0,
      hv_defaultRoamingIndicator = ATOI_NULL_HANDLED_DEF (resp ! 12) 0,
      hv_reasonForDenial = ATOI_NULL_HANDLED_DEF (resp ! 13) 0,
      hv_cellIdentity = fillCellIdentityFromVoiceRegStateResponseString numStrings resp\<rparr>"

definition data_reg_strings :: "nat \<Rightarrow> cptr list \<Rightarrow> DataRegStateResult" where
  "data_reg_strings numStrings resp =
     \<lparr>hr_regState = ATOI_NULL_HANDLED_DEF (resp ! 0) 4, hr_rat = ATOI_NULL_HANDLED_DEF (resp ! 3) 0,
      hr_reasonDataDenied = ATOI_NULL_HANDLED (resp ! 4), hr_maxDataCalls = ATOI_NULL_HANDLED_DEF (resp ! 5) 1,
      hr_cellIdentity = fillCellIdentityFromDataRegStateResponseString numStrings resp\<rparr>"

definition getVoiceRegistrationStateResponse :: response_fn where
  "getVoiceRegistrationStateResponse slotId responseType serial e response responseLen = with_response slotId
     (bnd (gets sizeof_pointer) (\<lambda>p. bnd (gets radio_version) (\<lambda>version.
       tell_result ''getVoiceRegistrationStateResponse'' slotId HVoiceReg
         (let info = populateResponseInfo serial responseType e; numStrings = responseLen div p in
          if response = None then ret (invalid e info, no_voice_reg)
          else if version \<le> 14 then
            checked (numStrings \<noteq> 15) e info no_voice_reg
              (bnd (elements strs_of response numStrings) (\<lambda>resp. ret (voice_reg_strings numStrings resp)))
          else checked (responseLen \<noteq> size_of p RIL_VoiceRegistrationStateResponse_type) e info no_voice_reg
            (bnd (cast voice_reg_of response) (\<lambda>v.
               ret \<lparr>hv_regState = vr_regState v, hv_rat = vr_rat v, hv_cssSupported = (vr_cssSupported v \<noteq> 0),
                 hv_roamingIndicator = vr_roamingIndicator v, hv_systemIsInPrl = vr_systemIsInPrl v,
                 hv_defaultRoamingIndicator = vr_defaultRoamingIndicator v, hv_reasonForDenial = vr_reasonForDenial v,
                 hv_cellIdentity = fillCellIdentityResponse (vr_cellIdentity v)\<rparr>))))))"

definition getDataRegistrationStateResponse :: response_fn where
  "getDataRegistrationStateResponse slotId responseType serial e response responseLen = with_response slotId
     (bnd (gets sizeof_pointer) (\<lambda>p. bnd (gets radio_version) (\<lambda>version.
       tell_result ''getDataRegistrationStateResponse'' slotId HDataReg
         (let info = populateResponseInfo serial responseType e; numStrings = responseLen div p in
          if response = None then ret (invalid e info, no_data_reg)
          else if version \<le> 14 then
            checked (numStrings \<noteq> 6 \<and> numStrings \<noteq> 11 \<and> numStrings \<noteq> 13) e info no_data_reg
              (bnd (elements strs_of response numStrings) (\<lambda>resp. ret (data_reg_strings numStrings resp)))
          else checked (responseLen \<noteq> size_of p RIL_DataRegistrationStateResponse_type) e info no_data_reg
            (bnd (cast data_reg_of response) (\<lambda>d.
               ret \<lparr>hr_regState = dr_regState d, hr_rat = dr_rat d, hr_reasonDataDenied = dr_reasonDataDenied d,
                 hr_maxDataCalls = dr_maxDataCalls d,
                 hr_cellIdentity = fillCellIdentityResponse (dr_cellIdentity d)\<rparr>))))))"

text \<open>A response of a fixed number of strings, told as as many arguments.\<close>

definition tell_strings :: "string \<Rightarrow> nat \<Rightarrow> response_fn" where
  "tell_strings method count slotId responseType serial e response responseLen = with_response slotId
     (bnd (gets sizeof_pointer) (\<lambda>p.
       bnd (checked (response = None \<or> responseLen div p \<noteq> count) e (populateResponseInfo serial responseType e)
              (replicate count '''')
              (bnd (elements strs_of response count) (\<lambda>resp. ret (map convertCharPtrToHidlString resp))))
         (\<lambda>(info, strs). tell_radio slotId method (HInfo info # map HStr strs))))"

definition getOperatorResponse :: response_fn where
  "getOperatorResponse = tell_strings ''getOperatorResponse'' 3"

definition getCDMASubscriptionResponse :: response_fn where
  "getCDMASubscriptionResponse = tell_strings ''getCDMASubscriptionResponse'' 5"

definition getDeviceIdentityResponse :: response_fn where
  "getDeviceIdentityResponse = tell_strings ''getDeviceIdentityResponse'' 4"

end
