(* ===== verification/SvcLists.thy ===== *)
theory SvcLists
  imports SvcResponses
begin

text \<open>
  More of the functions of \<^verbatim>\<open>libril/ril_service.cpp\<close> that take an answer to the client: those with
  integers, lists and structures, those of the second version of the interface and of the OEM service.
\<close>

section \<open>Integers\<close>

definition tell_ints :: "string \<Rightarrow> nat \<Rightarrow> harg list \<Rightarrow> (int list \<Rightarrow> harg list) \<Rightarrow> response_fn" where
  "tell_ints method count def convert slotId responseType serial e response responseLen = with_response slotId
     (bnd (checked (response = None \<or> responseLen div 4 \<noteq> count) e (populateResponseInfo serial responseType e) def
             (bnd (elements ints_of response count) (\<lambda>pInt. ret (convert pInt))))
        (\<lambda>(info, args). tell_radio slotId method (HInfo info # args)))"

definition getClirResponse :: response_fn where
  "getClirResponse = tell_ints ''getClirResponse'' 2 [HInt (-1), HInt (-1)] (\<lambda>pInt. [HInt (pInt ! 0), HInt (pInt ! 1)])"

definition getCallWaitingResponse :: response_fn where
  "getCallWaitingResponse = tell_ints ''getCallWaitingResponse'' 2 [HBool False, HInt (-1)]
     (\<lambda>pInt. [HBool (pInt ! 0 = 1), HInt (pInt ! 1)])"

definition getPreferredVoicePrivacyResponse :: response_fn where
  "getPreferredVoicePrivacyResponse = tell_ints ''getPreferredVoicePrivacyResponse'' 1 [HBool False]
     (\<lambda>pInt. [HBool (pInt ! 0 = 1)])"

definition getImsRegistrationStateResponse :: response_fn where
  "getImsRegistrationStateResponse = tell_ints ''getImsRegistrationStateResponse'' 2 [HBool False, HFamily THREE_GPP]
     (\<lambda>pInt. [HBool (pInt ! 0 = 1), HFamily (if pInt ! 1 = RADIO_TECH_3GPP then THREE_GPP else THREE_GPP2)])"

text \<open>One integer of exactly that length, told as a truth value.\<close>

definition tell_flag :: "string \<Rightarrow> response_fn" where
  "tell_flag method slotId responseType serial e response responseLen = with_response slotId
     (tell_result method slotId HBool
       (checked (response = None \<or> responseLen \<noteq> 4) e (populateResponseInfo serial responseType e) False
         (bnd (elements ints_of response 1) (\<lambda>pInt. ret (pInt ! 0 = 1)))))"

definition getNetworkSelectionModeResponse :: response_fn where
  "getNetworkSelectionModeResponse = tell_flag ''getNetworkSelectionModeResponse''"

definition getMuteResponse :: response_fn where
  "getMuteResponse = tell_flag ''getMuteResponse''"

definition getAvailableBandModesResponse :: response_fn where
  "getAvailableBandModesResponse slotId responseType serial e response responseLen = with_response slotId
     (tell_result ''getAvailableBandModesResponse'' slotId HInts
       (checked (bad_list response responseLen 4) e (populateResponseInfo serial responseType e) []
         (elements ints_of response (responseLen div 4))))"

definition to_int8 :: "int \<Rightarrow> int" where
  "to_int8 x = (x + 128) mod 256 - 128"

text \<open>No answer at all is no error; a vector of length \<^verbatim>\<open>numInts - 1\<close> stops the program when there is no integer.\<close>

definition iccOpenLogicalChannelResponse :: response_fn where
  "iccOpenLogicalChannelResponse slotId responseType serial e response responseLen = with_response slotId
     (bnd (let info = populateResponseInfo serial responseType e; numInts = responseLen div 4 in
           if response = None then ret (info, (-1, []))
           else if responseLen mod 4 \<noteq> 0 then ret (invalid e info, (-1, []))
           else bnd (cast ints_of response) (\<lambda>pInt. bnd (int_at 0 pInt) (\<lambda>channelId.
             if numInts = 0 then crash AssertFail
             else bnd (first_n numInts pInt) (\<lambda>xs. ret (info, (channelId, map to_int8 (tl xs)))))))
        (\<lambda>(info, answer).
           tell_radio slotId ''iccOpenLogicalChannelResponse'' (HInfo info # [HInt (fst answer), HInts (snd answer)])))"

section \<open>Data calls, cells, hardware\<close>

definition no_data_call :: SetupDataCallResult where
  "no_data_call = \<lparr>hd_status = 0xffff, hd_suggestedRetryTime = 0, hd_cid = 0, hd_active = 0, hd_type = '''',
     hd_ifname = '''', hd_addresses = '''', hd_dnses = '''', hd_gateways = '''', hd_pcscf = '''', hd_mtu = 0\<rparr>"

text \<open>The first data call of the answer; no answer at all is no error of the response.\<close>

definition setupDataCallResponse :: response_fn where
  "setupDataCallResponse slotId responseType serial e response responseLen = with_response slotId
     (bnd (gets sizeof_pointer) (\<lambda>p. tell_result ''setupDataCallResponse'' slotId HDataCall
       (let info = populateResponseInfo serial responseType e in
        if response = None then ret (info, no_data_call)
        else if responseLen mod size_of p RIL_Data_Call_Response_v11_type \<noteq> 0 then ret (invalid e info, no_data_call)
        else bnd (elements data_calls_of response 1) (\<lambda>ds. ret (info, convertRilDataCallToHal (hd ds))))))"

definition getDataCallListResponse :: response_fn where
  "getDataCallListResponse slotId responseType serial e response responseLen = with_response slotId
     (bnd (gets sizeof_pointer) (\<lambda>p. tell_result ''getDataCallListResponse'' slotId HDataCalls
       (checked (bad_list response responseLen (size_of p RIL_Data_Call_Response_v11_type)) e
         (populateResponseInfo serial responseType e) []
         (convertRilDataCallListToHal p response responseLen))))"

definition getCellInfoListResponse :: response_fn where
  "getCellInfoListResponse slotId responseType serial e response responseLen = with_response slotId
     (bnd (gets sizeof_pointer) (\<lambda>p. tell_result ''getCellInfoListResponse'' slotId HCells
       (checked (bad_list response responseLen (size_of p RIL_CellInfo_v12_type)) e
         (populateResponseInfo serial responseType e) []
         (convertRilCellInfoListToHal p response responseLen))))"

definition getHardwareConfigResponse :: response_fn where
  "getHardwareConfigResponse slotId responseType serial e response responseLen = with_response slotId
     (bnd (gets sizeof_pointer) (\<lambda>p. tell_result ''getHardwareConfigResponse'' slotId HHardware
       (checked (bad_list response responseLen (size_of p RIL_HardwareConfig_type)) e
         (populateResponseInfo serial responseType e) []
         (convertRilHardwareConfigListToHal p response responseLen))))"

definition pullLceDataResponse :: response_fn where
  "pullLceDataResponse slotId responseType serial e response responseLen = with_response slotId
     (bnd (gets sizeof_pointer) (\<lambda>p. tell_result ''pullLceDataResponse'' slotId id
       (checked (response = None \<or> responseLen \<noteq> size_of p RIL_LceDataInfo_type) e
         (populateResponseInfo serial responseType e) (HLceData 0 0 False)
         (convertRilLceDataInfoToHal response))))"

definition RIL_NUM_TX_POWER_LEVELS :: nat where "RIL_NUM_TX_POWER_LEVELS = 5"

definition RIL_ActivityStatsInfo_type :: ctype where
  "RIL_ActivityStatsInfo_type = CStruct [CInt, CInt, CArr RIL_NUM_TX_POWER_LEVELS CInt, CInt]"

fun activity_of :: "obj \<Rightarrow> RIL_ActivityStatsInfo option" where
  "activity_of (ObjActivity x) = Some x"
| "activity_of _ = None"

text \<open>The structure of the client is not initialised.\<close>

definition getModemActivityInfoResponse :: response_fn where
  "getModemActivityInfoResponse slotId responseType serial e response responseLen = with_response slotId
     (bnd (gets sizeof_pointer) (\<lambda>p. tell_result ''getModemActivityInfoResponse'' slotId HActivity
       (checked (response = None \<or> responseLen \<noteq> size_of p RIL_ActivityStatsInfo_type) e
         (populateResponseInfo serial responseType e) None
         (bnd (cast activity_of response) (\<lambda>resp.
            bnd (first_n RIL_NUM_TX_POWER_LEVELS (as_tx_mode_time_ms resp)) (\<lambda>tx.
              ret (Some (as_sleep_mode_time_ms resp, as_idle_mode_time_ms resp, tx, as_rx_mode_time_ms resp))))))))"

section \<open>Lists of structures\<close>

fun forwards_of :: "obj \<Rightarrow> RIL_CallForwardInfo option list option" where
  "forwards_of (ObjForwards xs) = Some xs"
| "forwards_of _ = None"

definition convert_forward :: "RIL_CallForwardInfo \<Rightarrow> CallForwardInfo" where
  "convert_forward c = \<lparr>fw_status = cf_status c, fw_reason = cf_reason c, fw_serviceClass = cf_serviceClass c,
     fw_toa = cf_toa c, fw_number = hstr (convertCharPtrToHidlString (cf_number c)), fw_timeSeconds = cf_timeSeconds c\<rparr>"

definition getCallForwardStatusResponse :: response_fn where
  "getCallForwardStatusResponse = tell_pointers ''getCallForwardStatusResponse'' forwards_of convert_forward HForwards"

fun cids_of :: "obj \<Rightarrow> RIL_NeighboringCell option list option" where "cids_of (ObjCids xs) = Some xs" | "cids_of _ = None"

definition getNeighboringCidsResponse :: response_fn where
  "getNeighboringCidsResponse = tell_pointers ''getNeighboringCidsResponse'' cids_of
     (\<lambda>c. (convertCharPtrToHidlString (nc_cid c), nc_rssi c)) HCids"

fun gsm_broadcast_of :: "obj \<Rightarrow> RIL_GSM_BroadcastSmsConfigInfo option list option" where
  "gsm_broadcast_of (ObjGsmBroadcast xs) = Some xs"
| "gsm_broadcast_of _ = None"

definition getGsmBroadcastConfigResponse :: response_fn where
  "getGsmBroadcastConfigResponse = tell_pointers ''getGsmBroadcastConfigResponse'' gsm_broadcast_of
     (\<lambda>c. \<lparr>gb_fromServiceId = gbc_fromServiceId c, gb_toServiceId = gbc_toServiceId c,
        gb_fromCodeScheme = gbc_fromCodeScheme c, gb_toCodeScheme = gbc_toCodeScheme c,
        gb_selected = (gbc_selected c = 1)\<rparr>) HGsmBroadcast"

fun cdma_broadcast_of :: "obj \<Rightarrow> RIL_CDMA_BroadcastSmsConfigInfo option list option" where
  "cdma_broadcast_of (ObjCdmaBroadcast xs) = Some xs"
| "cdma_broadcast_of _ = None"

definition getCdmaBroadcastConfigResponse :: response_fn where
  "getCdmaBroadcastConfigResponse = tell_pointers ''getCdmaBroadcastConfigResponse'' cdma_broadcast_of
     (\<lambda>c. \<lparr>cb_serviceCategory = cbc_service_category c, cb_language = cbc_language c,
        cb_selected = (cbc_selected c = 1)\<rparr>) HCdmaBroadcast"

text \<open>\<^verbatim>\<open>strncmp(word, str, 9) == 0\<close>.\<close>

definition same_9 :: "string \<Rightarrow> string \<Rightarrow> bool" where
  "same_9 w str \<longleftrightarrow> take 9 (w @ [CHR 0x00]) = take 9 (str @ [CHR 0x00])"

definition convertOperatorStatusToInt :: "string \<Rightarrow> OperatorStatus option" where
  "convertOperatorStatusToInt str =
     (if same_9 ''unknown'' str then Some OP_UNKNOWN
      else if same_9 ''available'' str then Some OP_AVAILABLE
      else if same_9 ''current'' str then Some OP_CURRENT
      else if same_9 ''forbidden'' str then Some OP_FORBIDDEN
      else None)"

text \<open>Four strings at a time; a status that is not known makes the response invalid and stays 0.\<close>

fun convert_networks :: "cptr list \<Rightarrow> (bool \<times> OperatorInfo list) sprog" where
  "convert_networks (long # short # numeric # st # rest) = (case st of
     None \<Rightarrow> crash NullDeref
   | Some str \<Rightarrow> bnd (convert_networks rest) (\<lambda>(ok, infos).
       let status = convertOperatorStatusToInt str in
       ret (ok \<and> status \<noteq> None,
         \<lparr>op_alphaLong = convertCharPtrToHidlString long, op_alphaShort = convertCharPtrToHidlString short,
          op_operatorNumeric = convertCharPtrToHidlString numeric,
          op_status = (case status of None \<Rightarrow> OP_UNKNOWN | Some st \<Rightarrow> st)\<rparr> # infos)))"
| "convert_networks _ = ret (True, [])"

definition getAvailableNetworksResponse :: response_fn where
  "getAvailableNetworksResponse slotId responseType serial e response responseLen = with_response slotId
     (bnd (gets sizeof_pointer) (\<lambda>p. tell_result ''getAvailableNetworksResponse'' slotId HOperators
       (let info = populateResponseInfo serial responseType e in
        if bad_list response responseLen (4 * p) then ret (invalid e info, [])
        else bnd (elements strs_of response (responseLen div p)) (\<lambda>resp. bnd (convert_networks resp) (\<lambda>(ok, networks).
          ret (if ok then info else invalid e info, networks))))))"

fun carriers_of :: "obj \<Rightarrow> RIL_CarrierRestrictions option" where
  "carriers_of (ObjCarriers x) = Some x"
| "carriers_of _ = None"

definition RIL_CarrierRestrictions_type :: ctype where
  "RIL_CarrierRestrictions_type = CStruct [CInt, CInt, CPtr, CPtr]"

definition convert_carrier :: "RIL_Carrier \<Rightarrow> Carrier" where
  "convert_carrier c = \<lparr>cr_mcc = hstr (convertCharPtrToHidlString (rca_mcc c)),
     cr_mnc = hstr (convertCharPtrToHidlString (rca_mnc c)), cr_matchType = rca_match_type c,
     cr_matchData = hstr (convertCharPtrToHidlString (rca_match_data c))\<rparr>"

text \<open>No answer at all means that every carrier is allowed.\<close>

definition getAllowedCarriersResponse :: response_fn where
  "getAllowedCarriersResponse slotId responseType serial e response responseLen = with_response slotId
     (bnd (gets sizeof_pointer) (\<lambda>p. tell_result ''getAllowedCarriersResponse'' slotId (\<lambda>(alll, allowed, excluded). HCarriers alll allowed excluded)
       (let info = populateResponseInfo serial responseType e in
        if response = None then ret (info, (True, [], []))
        else if responseLen \<noteq> size_of p RIL_CarrierRestrictions_type then ret (invalid e info, (True, [], []))
        else bnd (cast carriers_of response) (\<lambda>pCr.
          bnd (first_int (crs_len_allowed_carriers pCr) (crs_allowed_carriers pCr)) (\<lambda>allowed.
          bnd (first_int (crs_len_excluded_carriers pCr) (crs_excluded_carriers pCr)) (\<lambda>excluded.
            ret (info, (\<not> (crs_len_allowed_carriers pCr > 0 \<or> crs_len_excluded_carriers pCr > 0),
              map convert_carrier allowed, map convert_carrier excluded))))))))"

section \<open>The second version of the interface, the OEM service\<close>

definition setSimCardPowerResponse :: response_fn where
  "setSimCardPowerResponse slotId responseType serial e response responseLen =
     bnd (gets (\<lambda>s. (mRadioResponse s slotId, mRadioResponseV1_1 s slotId))) (\<lambda>(v1_0, v1_1).
       if v1_1 then tell_info ''setSimCardPowerResponse_1_1'' slotId responseType serial e response responseLen
       else whenever v1_0 (tell_info ''setSimCardPowerResponse'' slotId responseType serial e response responseLen))"

definition startKeepaliveResponse :: response_fn where
  "startKeepaliveResponse slotId responseType serial e response responseLen = with_responseV1_1 slotId
     (bnd (gets sizeof_KeepaliveStatus) (\<lambda>width. tell_result ''startKeepaliveResponse'' slotId id
       (checked (response = None \<or> responseLen \<noteq> width) e (populateResponseInfo serial responseType e) (HKeepalive 0 0)
         (convertRilKeepaliveStatusToHal response))))"

definition stopKeepaliveResponse :: response_fn where
  "stopKeepaliveResponse slotId responseType serial e response responseLen = with_responseV1_1 slotId
     (tell_info ''stopKeepaliveResponse'' slotId responseType serial e response responseLen)"

definition with_oem_response :: "nat \<Rightarrow> unit sprog \<Rightarrow> unit sprog" where
  "with_oem_response slotId go =
     bnd (gets (\<lambda>s. kOemHookEnabled s \<and> mOemHookResponse s slotId)) (\<lambda>up. whenever up go)"

definition sendRequestRawResponse :: response_fn where
  "sendRequestRawResponse slotId responseType serial e response responseLen = with_oem_response slotId
     (bnd (checked (response = None) e (populateResponseInfo serial responseType e) []
             (bnd (cast bytes_of response) (first_n responseLen)))
        (\<lambda>(info, data). tell False slotId ''sendRequestRawResponse'' [HInfo info, HInts data]))"

definition sendRequestStringsResponse :: response_fn where
  "sendRequestStringsResponse slotId responseType serial e response responseLen = with_oem_response slotId
     (bnd (gets sizeof_pointer) (\<lambda>p.
       bnd (checked (bad_list response responseLen p) e (populateResponseInfo serial responseType e) []
              (bnd (elements strs_of response (responseLen div p)) (\<lambda>resp. ret (map convertCharPtrToHidlString resp))))
         (\<lambda>(info, data). tell False slotId ''sendRequestStringsResponse'' [HInfo info, HStrs data])))"

end
