(* ===== verification/SvcIndications.thy ===== *)
theory SvcIndications
  imports SvcLists
begin

text \<open>
  The indications of \<^verbatim>\<open>libril/ril_service.cpp\<close>: what the vendor library reports of itself is checked,
  converted and handed to the client's callback. Malformed data are dropped without a word to the client.
\<close>

section \<open>Shapes\<close>

text \<open>An indication function returns 0 but for the one that says that nobody was told.\<close>

type_synonym indication_fn = "nat \<Rightarrow> int \<Rightarrow> int \<Rightarrow> RIL_Errno \<Rightarrow> obj option \<Rightarrow> nat \<Rightarrow> int sprog"

definition convertIntToRadioIndicationType :: "int \<Rightarrow> RadioIndicationType" where
  "convertIntToRadioIndicationType indicationType =
     (if indicationType = RESPONSE_UNSOLICITED then UNSOLICITED else UNSOLICITED_ACK_EXP)"

text \<open>\<^verbatim>\<open>radioService[slotId] != NULL && mRadioIndication != NULL\<close>: a service that is not there has no callbacks.\<close>

definition with_indication :: "nat \<Rightarrow> int sprog \<Rightarrow> int sprog" where
  "with_indication slotId go = bnd (gets (\<lambda>s. mRadioIndication s slotId)) (\<lambda>up. if up then go else ret 0)"

definition with_indicationV1_1 :: "nat \<Rightarrow> int sprog \<Rightarrow> int sprog" where
  "with_indicationV1_1 slotId go = bnd (gets (\<lambda>s. mRadioIndicationV1_1 s slotId)) (\<lambda>up. if up then go else ret 0)"

definition indicate :: "bool \<Rightarrow> nat \<Rightarrow> string \<Rightarrow> int \<Rightarrow> harg list \<Rightarrow> int sprog" where
  "indicate isRadioService slotId method indicationType args =
     andthen (tell isRadioService slotId method (HInd (convertIntToRadioIndicationType indicationType) # args)) (ret 0)"

text \<open>\<^verbatim>\<open>if (...) { RLOGE("invalid response"); return 0; }\<close>.\<close>

definition unless_bad :: "bool \<Rightarrow> int sprog \<Rightarrow> int sprog" where
  "unless_bad bad go = (if bad then ret 0 else go)"

definition ind_plain :: "string \<Rightarrow> indication_fn" where
  "ind_plain method slotId indicationType token e response responseLen =
     with_indication slotId (indicate True slotId method indicationType [])"

definition ind_int :: "string \<Rightarrow> (int \<Rightarrow> harg) \<Rightarrow> indication_fn" where
  "ind_int method arg slotId indicationType token e response responseLen = with_indication slotId
     (unless_bad (response = None \<or> responseLen \<noteq> 4)
       (bnd (cast ints_of response) (\<lambda>p_int. bnd (int_at 0 p_int) (\<lambda>v.
          indicate True slotId method indicationType [arg v]))))"

definition ind_string :: "string \<Rightarrow> indication_fn" where
  "ind_string method slotId indicationType token e response responseLen = with_indication slotId
     (unless_bad (response = None \<or> responseLen = 0)
       (bnd (response_string response) (\<lambda>str. indicate True slotId method indicationType [HStr str])))"

definition ind_struct :: "string \<Rightarrow> ctype \<Rightarrow> (obj option \<Rightarrow> harg sprog) \<Rightarrow> indication_fn" where
  "ind_struct method type convert slotId indicationType token e response responseLen = with_indication slotId
     (bnd (gets sizeof_pointer) (\<lambda>p. unless_bad (response = None \<or> responseLen \<noteq> size_of p type)
       (bnd (convert response) (\<lambda>arg. indicate True slotId method indicationType [arg]))))"

definition ind_list :: "string \<Rightarrow> ctype \<Rightarrow> (nat \<Rightarrow> obj option \<Rightarrow> nat \<Rightarrow> 'a sprog) \<Rightarrow> ('a \<Rightarrow> harg) \<Rightarrow> indication_fn" where
  "ind_list method type convert arg slotId indicationType token e response responseLen = with_indication slotId
     (bnd (gets sizeof_pointer) (\<lambda>p. unless_bad (bad_list response responseLen (size_of p type))
       (bnd (convert p response responseLen) (\<lambda>x. indicate True slotId method indicationType [arg x]))))"

section \<open>Indications without data, with a number, with a string\<close>

definition radioStateChangedInd :: indication_fn where
  "radioStateChangedInd slotId indicationType token e response responseLen = with_indication slotId
     (bnd (gets (\<lambda>s. onStateRequest s slotId)) (\<lambda>radioState.
       indicate True slotId ''radioStateChanged'' indicationType [HInt radioState]))"

definition callStateChangedInd :: indication_fn where
  "callStateChangedInd = ind_plain ''callStateChanged''"

definition networkStateChangedInd :: indication_fn where
  "networkStateChangedInd = ind_plain ''networkStateChanged''"

definition stkSessionEndInd :: indication_fn where
  "stkSessionEndInd = ind_plain ''stkSessionEnd''"

definition simSmsStorageFullInd :: indication_fn where
  "simSmsStorageFullInd = ind_plain ''simSmsStorageFull''"

definition simStatusChangedInd :: indication_fn where
  "simStatusChangedInd = ind_plain ''simStatusChanged''"

definition cdmaRuimSmsStorageFullInd :: indication_fn where
  "cdmaRuimSmsStorageFullInd = ind_plain ''cdmaRuimSmsStorageFull''"

definition enterEmergencyCallbackModeInd :: indication_fn where
  "enterEmergencyCallbackModeInd = ind_plain ''enterEmergencyCallbackMode''"

definition resendIncallMuteInd :: indication_fn where
  "resendIncallMuteInd = ind_plain ''resendIncallMute''"

definition exitEmergencyCallbackModeInd :: indication_fn where
  "exitEmergencyCallbackModeInd = ind_plain ''exitEmergencyCallbackMode''"

definition rilConnectedInd :: indication_fn where
  "rilConnectedInd = ind_plain ''rilConnected''"

definition imsNetworkStateChangedInd :: indication_fn where
  "imsNetworkStateChangedInd = ind_plain ''imsNetworkStateChanged''"

definition newSmsOnSimInd :: indication_fn where
  "newSmsOnSimInd = ind_int ''newSmsOnSim'' HInt"

definition stkCallSetupInd :: indication_fn where
  "stkCallSetupInd = ind_int ''stkCallSetup'' HInt"

definition restrictedStateChangedInd :: indication_fn where
  "restrictedStateChangedInd = ind_int ''restrictedStateChanged'' HInt"

definition cdmaOtaProvisionStatusInd :: indication_fn where
  "cdmaOtaProvisionStatusInd = ind_int ''cdmaOtaProvisionStatus'' HInt"

definition cdmaSubscriptionSourceChangedInd :: indication_fn where
  "cdmaSubscriptionSourceChangedInd = ind_int ''cdmaSubscriptionSourceChanged'' HInt"

definition cdmaPrlChangedInd :: indication_fn where
  "cdmaPrlChangedInd = ind_int ''cdmaPrlChanged'' HInt"

definition voiceRadioTechChangedInd :: indication_fn where
  "voiceRadioTechChangedInd = ind_int ''voiceRadioTechChanged'' HInt"

definition srvccStateNotifyInd :: indication_fn where
  "srvccStateNotifyInd = ind_int ''srvccStateNotify'' HInt"

definition indicateRingbackToneInd :: indication_fn where
  "indicateRingbackToneInd = ind_int ''indicateRingbackTone'' (\<lambda>v. HBool (v \<noteq> 0))"

definition subscriptionStatusChangedInd :: indication_fn where
  "subscriptionStatusChangedInd = ind_int ''subscriptionStatusChanged'' (\<lambda>v. HBool (v \<noteq> 0))"

definition stkProactiveCommandInd :: indication_fn where
  "stkProactiveCommandInd = ind_string ''stkProactiveCommand''"

definition stkEventNotifyInd :: indication_fn where
  "stkEventNotifyInd = ind_string ''stkEventNotify''"

definition stkCallControlAlphaNotifyInd :: indication_fn where
  "stkCallControlAlphaNotifyInd = ind_string ''stkCallControlAlphaNotify''"

definition modemResetInd :: indication_fn where
  "modemResetInd = ind_string ''modemReset''"

definition nitzTimeReceivedInd :: indication_fn where
  "nitzTimeReceivedInd slotId indicationType token e response responseLen =
     bnd (gets (\<lambda>s. mRadioIndication s slotId)) (\<lambda>up.
       if up then
         unless_bad (response = None \<or> responseLen = 0)
           (bnd (response_string response) (\<lambda>nitzTime. bnd (gets (\<lambda>s. nitzTimeReceived s slotId)) (\<lambda>received.
             indicate True slotId ''nitzTimeReceived'' indicationType [HStr nitzTime, HInt received])))
       else ret (-1))"

definition setNitzTimeReceived :: "nat \<Rightarrow> int \<Rightarrow> unit sprog" where
  "setNitzTimeReceived slotId timeReceived =
     modify (\<lambda>s. s\<lparr>nitzTimeReceived := (nitzTimeReceived s)(slotId := timeReceived)\<rparr>)"

text \<open>The second string may be missing; the first is read as a number without a look at it.\<close>

definition onUssdInd :: indication_fn where
  "onUssdInd slotId indicationType token e response responseLen = with_indication slotId
     (bnd (gets sizeof_pointer) (\<lambda>p. unless_bad (response = None \<or> responseLen \<noteq> 2 * p)
       (bnd (elements strs_of response 2) (\<lambda>strings.
         (case strings ! 0 of
            None \<Rightarrow> crash NullDeref
          | Some mode \<Rightarrow> indicate True slotId ''onUssd'' indicationType
              [HInt (c_atoi mode), HStr (convertCharPtrToHidlString (strings ! 1))])))))"

section \<open>Bytes\<close>

definition INVALID_HEX_CHAR :: int where "INVALID_HEX_CHAR = 16"

definition hexCharToInt :: "int \<Rightarrow> int" where
  "hexCharToInt c = (if 48 \<le> c \<and> c \<le> 57 then c - 48
     else if 65 \<le> c \<and> c \<le> 70 then c - 65 + 10
     else if 97 \<le> c \<and> c \<le> 102 then c - 97 + 10
     else INVALID_HEX_CHAR)"

text \<open>\<open>calloc\<close> of the bytes may fail; \<open>malloc\<close> of a string too.\<close>

definition allocate :: "bool sprog" where
  "allocate = bnd (gets can_malloc) (\<lambda>oks.
     andthen (modify (\<lambda>s. s\<lparr>can_malloc := tl oks\<rparr>)) (ret (case oks of [] \<Rightarrow> True | ok # _ \<Rightarrow> ok)))"

text \<open>The loop over the pairs, \<open>n\<close> of which are left; \<open>None\<close> for a character that is no hex digit.\<close>

fun hex_loop :: "nat \<Rightarrow> int list \<Rightarrow> int list option sprog" where
  "hex_loop 0 hexString = ret (Some [])"
| "hex_loop (Suc n) (a # b # hexString) =
     (let hexChar1 = hexCharToInt a; hexChar2 = hexCharToInt b in
      if hexChar1 = INVALID_HEX_CHAR \<or> hexChar2 = INVALID_HEX_CHAR then ret None
      else bnd (hex_loop n hexString) (\<lambda>bytes.
             ret (map_option (\<lambda>bs. uint ((push_bit 4 (word_of_int hexChar1) :: 8 word) OR word_of_int hexChar2) # bs) bytes)))"
| "hex_loop (Suc n) _ = crash OutOfBounds"

definition convertHexStringToBytes :: "obj option \<Rightarrow> nat \<Rightarrow> int list option sprog" where
  "convertHexStringToBytes response responseLen =
     (if responseLen mod 2 \<noteq> 0 then ret None
      else bnd allocate (\<lambda>ok. if \<not> ok then ret None
             else bnd (cast bytes_of response) (hex_loop (responseLen div 2))))"

definition ind_pdu :: "string \<Rightarrow> indication_fn" where
  "ind_pdu method slotId indicationType token e response responseLen = with_indication slotId
     (unless_bad (response = None \<or> responseLen = 0)
       (bnd (convertHexStringToBytes response responseLen) (\<lambda>pdu.
          (case pdu of
             None \<Rightarrow> ret 0
           | Some bytes \<Rightarrow> indicate True slotId method indicationType [HInts bytes]))))"

definition newSmsInd :: indication_fn where
  "newSmsInd = ind_pdu ''newSms''"

definition newSmsStatusReportInd :: indication_fn where
  "newSmsStatusReportInd = ind_pdu ''newSmsStatusReport''"

definition newBroadcastSmsInd :: indication_fn where
  "newBroadcastSmsInd slotId indicationType token e response responseLen = with_indication slotId
     (unless_bad (response = None \<or> responseLen = 0)
       (bnd (elements bytes_of response responseLen) (\<lambda>data.
          indicate True slotId ''newBroadcastSms'' indicationType [HInts data])))"

definition oemHookRawInd :: indication_fn where
  "oemHookRawInd slotId indicationType token e response responseLen =
     bnd (gets (\<lambda>s. kOemHookEnabled s \<and> mOemHookIndication s slotId)) (\<lambda>up.
       if up then
         unless_bad (response = None \<or> responseLen = 0)
           (bnd (elements bytes_of response responseLen) (\<lambda>data.
              indicate False slotId ''oemHookRaw'' indicationType [HInts data]))
       else ret 0)"

section \<open>Structures\<close>

definition currentSignalStrengthInd :: indication_fn where
  "currentSignalStrengthInd = ind_struct ''currentSignalStrength'' RIL_SignalStrength_v10_type
     (\<lambda>response. bnd (cast signal_of response) (\<lambda>r. ret (HSignalStrength (convertRilSignalStrengthToHal r))))"

definition dataCallListChangedInd :: indication_fn where
  "dataCallListChangedInd = ind_list ''dataCallListChanged'' RIL_Data_Call_Response_v11_type
     convertRilDataCallListToHal HDataCalls"

definition cellInfoListInd :: indication_fn where
  "cellInfoListInd = ind_list ''cellInfoList'' RIL_CellInfo_v12_type convertRilCellInfoListToHal HCells"

definition hardwareConfigChangedInd :: indication_fn where
  "hardwareConfigChangedInd = ind_list ''hardwareConfigChanged'' RIL_HardwareConfig_type
     convertRilHardwareConfigListToHal HHardware"

definition radioCapabilityIndicationInd :: indication_fn where
  "radioCapabilityIndicationInd = ind_struct ''radioCapabilityIndication'' RIL_RadioCapability_type
     (\<lambda>response. bnd (convertRilRadioCapabilityToHal response) (\<lambda>rc. ret (HCapability rc)))"

definition lceDataInd :: indication_fn where
  "lceDataInd = ind_struct ''lceData'' RIL_LceDataInfo_type convertRilLceDataInfoToHal"

definition RIL_SuppSvcNotification_type :: ctype where
  "RIL_SuppSvcNotification_type = CStruct [CInt, CInt, CInt, CInt, CPtr]"

fun supp_svc_of :: "obj \<Rightarrow> RIL_SuppSvcNotification option" where
  "supp_svc_of (ObjSuppSvc x) = Some x"
| "supp_svc_of _ = None"

definition suppSvcNotifyInd :: indication_fn where
  "suppSvcNotifyInd = ind_struct ''suppSvcNotify'' RIL_SuppSvcNotification_type
     (\<lambda>response. bnd (cast supp_svc_of response) (\<lambda>ssn. ret (HSuppSvc (sn_notificationType ssn \<noteq> 0) (sn_code ssn)
        (sn_index ssn) (sn_type ssn) (convertCharPtrToHidlString (sn_number ssn)))))"

definition RIL_SimRefreshResponse_v7_type :: ctype where
  "RIL_SimRefreshResponse_v7_type = CStruct [CInt, CInt, CPtr]"

fun refresh_of :: "obj \<Rightarrow> RIL_SimRefreshResponse_v7 option" where
  "refresh_of (ObjRefresh x) = Some x"
| "refresh_of _ = None"

definition simRefreshInd :: indication_fn where
  "simRefreshInd = ind_struct ''simRefresh'' RIL_SimRefreshResponse_v7_type
     (\<lambda>response. bnd (cast refresh_of response) (\<lambda>r.
        ret (HRefresh (sf_result r) (sf_ef_id r) (convertCharPtrToHidlString (sf_aid r)))))"

definition RIL_CDMA_SignalInfoRecord_type :: ctype where
  "RIL_CDMA_SignalInfoRecord_type = CStruct [CChar, CChar, CChar, CChar]"

fun signal_info_of :: "obj \<Rightarrow> RIL_CDMA_SignalInfoRecord option" where
  "signal_info_of (ObjSignalInfo x) = Some x"
| "signal_info_of _ = None"

definition no_signal_info :: RIL_CDMA_SignalInfoRecord where
  "no_signal_info = \<lparr>si_isPresent = 0, si_signalType = 0, si_alertPitch = 0, si_signal = 0\<rparr>"

text \<open>No data stand for a ring of GSM.\<close>

definition callRingInd :: indication_fn where
  "callRingInd slotId indicationType token e response responseLen = with_indication slotId
     (bnd (gets sizeof_pointer) (\<lambda>p.
       if response = None \<or> responseLen = 0 then
         indicate True slotId ''callRing'' indicationType [HRing True no_signal_info]
       else unless_bad (responseLen \<noteq> size_of p RIL_CDMA_SignalInfoRecord_type)
         (bnd (cast signal_info_of response) (\<lambda>r.
            indicate True slotId ''callRing'' indicationType [HRing False (convertRilCdmaSignalInfoRecordToHal r)]))))"

definition RIL_CDMA_CallWaiting_v6_type :: ctype where
  "RIL_CDMA_CallWaiting_v6_type = CStruct [CPtr, CInt, CPtr, RIL_CDMA_SignalInfoRecord_type, CInt, CInt]"

fun call_waiting_of :: "obj \<Rightarrow> RIL_CDMA_CallWaiting_v6 option" where
  "call_waiting_of (ObjCallWaiting x) = Some x"
| "call_waiting_of _ = None"

definition cdmaCallWaitingInd :: indication_fn where
  "cdmaCallWaitingInd = ind_struct ''cdmaCallWaiting'' RIL_CDMA_CallWaiting_v6_type
     (\<lambda>response. bnd (cast call_waiting_of response) (\<lambda>w.
        ret (HCallWaiting \<lparr>hw_number = convertCharPtrToHidlString (wt_number w), hw_numberPresentation = wt_numberPresentation w,
          hw_name = convertCharPtrToHidlString (wt_name w),
          hw_signalInfoRecord = convertRilCdmaSignalInfoRecordToHal (wt_signalInfoRecord w),
          hw_numberType = wt_number_type w, hw_numberPlan = wt_number_plan w\<rparr>)))"

end
