(* ===== verification/SvcReports.thy ===== *)
theory SvcReports
  imports SvcIndications SvcRequests
begin

text \<open>
  The indications of \<^verbatim>\<open>libril/ril_service.cpp\<close> whose data have arrays with a length of their own, and those of
  the second version of the interface; the functions by the names that the table of unsolicited
  responses points to.
\<close>

section \<open>A CDMA message\<close>

text \<open>\<^verbatim>\<open>setToExternal(data, len)\<close>: a negative length is a huge one, and the vector refuses it.\<close>

definition set_external :: "'a list \<Rightarrow> int \<Rightarrow> 'a list sprog" where
  "set_external data len = first_int len data"

definition RIL_CDMA_SMS_Message_type :: ctype where
  "RIL_CDMA_SMS_Message_type = CStruct [CInt, CChar, CInt,
     CStruct [CInt, CInt, CInt, CInt, CChar, CArr RIL_CDMA_SMS_ADDRESS_MAX CChar],
     CStruct [CInt, CChar, CChar, CArr RIL_CDMA_SMS_SUBADDRESS_MAX CChar],
     CInt, CArr RIL_CDMA_SMS_BEARER_DATA_MAX CChar]"

fun cdma_sms_of :: "obj \<Rightarrow> RIL_CDMA_SMS_Message option" where
  "cdma_sms_of (ObjCdmaSms x) = Some x"
| "cdma_sms_of _ = None"

definition convert_cdma_sms :: "RIL_CDMA_SMS_Message \<Rightarrow> CdmaSmsMessage sprog" where
  "convert_cdma_sms m =
     bnd (set_external (address_digits (sAddress m)) (min (number_of_digits (sAddress m)) (int RIL_CDMA_SMS_ADDRESS_MAX))) (\<lambda>digits.
     bnd (set_external (sub_digits (sSubAddress m)) (min (sub_number_of_digits (sSubAddress m)) (int RIL_CDMA_SMS_SUBADDRESS_MAX))) (\<lambda>subs.
     bnd (set_external (aBearerData m) (min (uBearerDataLen m) (int RIL_CDMA_SMS_BEARER_DATA_MAX))) (\<lambda>bearer.
       ret \<lparr>cm_teleserviceId = uTeleserviceID m, cm_isServicePresent = (bIsServicePresent m \<noteq> 0),
         cm_serviceCategory = uServicecategory m,
         cm_address = \<lparr>ca_digitMode = digit_mode (sAddress m), ca_numberMode = number_mode (sAddress m),
           ca_numberType = number_type (sAddress m), ca_numberPlan = number_plan (sAddress m), ca_digits = digits\<rparr>,
         cm_subAddress = \<lparr>cs_type = subaddressType (sSubAddress m), cs_odd = (sub_odd (sSubAddress m) \<noteq> 0), cs_digits = subs\<rparr>,
         cm_bearerData = bearer\<rparr>)))"

definition cdmaNewSmsInd :: indication_fn where
  "cdmaNewSmsInd = ind_struct ''cdmaNewSms'' RIL_CDMA_SMS_Message_type
     (\<lambda>response. bnd (cast cdma_sms_of response) (\<lambda>m. bnd (convert_cdma_sms m) (\<lambda>msg. ret (HCdmaSms msg))))"

section \<open>CDMA information records\<close>

definition CDMA_ALPHA_INFO_BUFFER_LENGTH :: nat where "CDMA_ALPHA_INFO_BUFFER_LENGTH = 64"
definition CDMA_NUMBER_INFO_BUFFER_LENGTH :: nat where "CDMA_NUMBER_INFO_BUFFER_LENGTH = 81"
definition RIL_CDMA_MAX_NUMBER_OF_INFO_RECS :: nat where "RIL_CDMA_MAX_NUMBER_OF_INFO_RECS = 10"

definition number_info_type :: ctype where
  "number_info_type = CStruct [CChar, CArr CDMA_NUMBER_INFO_BUFFER_LENGTH CChar, CChar, CChar, CChar, CChar]"

definition RIL_CDMA_InformationRecords_type :: ctype where
  "RIL_CDMA_InformationRecords_type = CStruct [CChar, CArr RIL_CDMA_MAX_NUMBER_OF_INFO_RECS (CStruct [CInt, CUnion
     [CStruct [CChar, CArr CDMA_ALPHA_INFO_BUFFER_LENGTH CChar], number_info_type, RIL_CDMA_SignalInfoRecord_type,
      CStruct [number_info_type, CInt], CStruct [CChar, CChar, CChar, CChar], CStruct [CChar], CStruct [CChar, CChar]]])]"

fun info_recs_of :: "obj \<Rightarrow> RIL_CDMA_InformationRecords option" where
  "info_recs_of (ObjInfoRecs x) = Some x"
| "info_recs_of _ = None"

text \<open>
  The copy of a buffer as a terminated string. The length is a \<^verbatim>\<open>char\<close>, which may be negative: then
  \<^verbatim>\<open>malloc(len + 1)\<close> asks for more than there is, but for \<open>-1\<close>, where it succeeds and \<^verbatim>\<open>memcpy\<close> runs off.
  \<open>None\<close> stands for the early return. The client reads the string up to the first NUL.
\<close>

definition copied_text :: "nat \<Rightarrow> int \<Rightarrow> string \<Rightarrow> string option sprog" where
  "copied_text limit len buf =
     (if len > int limit then ret None
      else bnd allocate (\<lambda>ok.
        if \<not> ok \<or> len < -1 then ret None
        else if len < 0 then crash OutOfBounds
        else bnd (first_n (nat len) buf) (\<lambda>str. ret (Some (takeWhile (\<lambda>c. c \<noteq> CHR 0x00) str)))))"

definition convert_number :: "RIL_CDMA_NumberInfoRecord \<Rightarrow> NumberInfo option sprog" where
  "convert_number n = bnd (copied_text CDMA_NUMBER_INFO_BUFFER_LENGTH (ni_len n) (ni_buf n)) (\<lambda>str.
     ret (map_option (\<lambda>s. \<lparr>hn_number = s, hn_numberType = ni_number_type n, hn_numberPlan = ni_number_plan n,
       hn_pi = ni_pi n, hn_si = ni_si n\<rparr>) str))"

text \<open>The names: 0 and 7 a text, 1 to 3 a number, 4 a signal, 5 a redirection, 6, 8 and 10; 9 is refused.\<close>

definition convert_info :: "RIL_CDMA_InformationRecord \<Rightarrow> CdmaInformationRecord option sprog" where
  "convert_info record = (case record of
     DisplayRec name len buf \<Rightarrow>
       if name = 0 \<or> name = 7 then
         bnd (copied_text CDMA_ALPHA_INFO_BUFFER_LENGTH len buf) (\<lambda>str. ret (map_option (HDisplay name) str))
       else crash BadData
   | NumberRec name n \<Rightarrow>
       if 1 \<le> name \<and> name \<le> 3 then bnd (convert_number n) (\<lambda>x. ret (map_option (HNumber name) x)) else crash BadData
   | SignalRec r \<Rightarrow> ret (Some (HSignal (convertRilCdmaSignalInfoRecordToHal r)))
   | RedirRec n reason \<Rightarrow> bnd (convert_number n) (\<lambda>x. ret (map_option (\<lambda>number. HRedir number reason) x))
   | LineCtrlRec polarity toggle reverse denial \<Rightarrow> ret (Some (HLineCtrl polarity toggle reverse denial))
   | ClirRec cause \<Rightarrow> ret (Some (HClir cause))
   | AudioCtrlRec upLink downLink \<Rightarrow> ret (Some (HAudioCtrl upLink downLink))
   | OtherRec name \<Rightarrow> if name < 0 \<or> name = 9 \<or> name > 10 then ret None else crash BadData)"

fun convert_infos :: "RIL_CDMA_InformationRecord list \<Rightarrow> CdmaInformationRecord list option sprog" where
  "convert_infos [] = ret (Some [])"
| "convert_infos (r # rs) = bnd (convert_info r) (\<lambda>x. case x of
     None \<Rightarrow> ret None
   | Some i \<Rightarrow> bnd (convert_infos rs) (\<lambda>is. ret (map_option ((#) i) is)))"

definition cdmaInfoRecInd :: indication_fn where
  "cdmaInfoRecInd slotId indicationType token e response responseLen = with_indication slotId
     (bnd (gets sizeof_pointer) (\<lambda>p. unless_bad (response = None \<or> responseLen \<noteq> size_of p RIL_CDMA_InformationRecords_type)
       (bnd (cast info_recs_of response) (\<lambda>recs.
         bnd (first_int (min (numberOfInfoRecs recs) (int RIL_CDMA_MAX_NUMBER_OF_INFO_RECS)) (infoRec recs)) (\<lambda>rs.
           bnd (convert_infos rs) (\<lambda>records. case records of
             None \<Rightarrow> ret 0
           | Some converted \<Rightarrow> indicate True slotId ''cdmaInfoRec'' indicationType [HInfoRecs converted]))))))"

section \<open>Supplementary services\<close>

definition SS_INFO_MAX :: nat where "SS_INFO_MAX = 4"
definition NUM_SERVICE_CLASSES :: nat where "NUM_SERVICE_CLASSES = 7"
definition SS_INTERROGATION :: int where "SS_INTERROGATION = 2"

text \<open>The call forwarding services have the numbers 0 to 5.\<close>

definition isServiceTypeCfQuery :: "int \<Rightarrow> int \<Rightarrow> bool" where
  "isServiceTypeCfQuery serType reqType \<longleftrightarrow> reqType = SS_INTERROGATION \<and> serType \<in> set [0, 1, 2, 3, 4, 5]"

definition RIL_StkCcUnsolSsResponse_type :: ctype where
  "RIL_StkCcUnsolSsResponse_type = CStruct [CInt, CInt, CInt, CInt, CInt, CUnion [CArr SS_INFO_MAX CInt,
     CStruct [CInt, CArr NUM_SERVICE_CLASSES (CStruct [CInt, CInt, CInt, CInt, CPtr, CInt])]]]"

fun ss_of :: "obj \<Rightarrow> RIL_StkCcUnsolSsResponse option" where "ss_of (ObjSs x) = Some x" | "ss_of _ = None"

definition convert_ss_data :: "RIL_StkCcUnsolSsResponse \<Rightarrow> ss_part sprog" where
  "convert_ss_data ss =
     (if isServiceTypeCfQuery (ss_serviceType ss) (ss_requestType ss) then
        (case ss_data ss of
           CfData d \<Rightarrow> bnd (first_int (min (cfd_numValidIndexes d) (int NUM_SERVICE_CLASSES)) (cfd_cfInfo d)) (\<lambda>cfs.
             ret (HCfData (map convert_forward cfs)))
         | SsInfo _ \<Rightarrow> crash BadData)
      else
        (case ss_data ss of
           SsInfo xs \<Rightarrow> bnd (first_n SS_INFO_MAX xs) (\<lambda>ys. ret (HSsInfo ys))
         | CfData _ \<Rightarrow> crash BadData))"

definition onSupplementaryServiceIndicationInd :: indication_fn where
  "onSupplementaryServiceIndicationInd = ind_struct ''onSupplementaryServiceIndication'' RIL_StkCcUnsolSsResponse_type
     (\<lambda>response. bnd (cast ss_of response) (\<lambda>ss. bnd (convert_ss_data ss) (\<lambda>part.
        ret (HSs \<lparr>hss_serviceType = ss_serviceType ss, hss_requestType = ss_requestType ss,
          hss_teleserviceType = ss_teleserviceType ss, hss_serviceClass = ss_serviceClass ss,
          hss_result = ss_result ss, hss_data = part\<rparr>))))"

section \<open>Operator data, the second version of the interface\<close>

definition RIL_PCO_Data_type :: ctype where
  "RIL_PCO_Data_type = CStruct [CInt, CPtr, CInt, CInt, CPtr]"

fun pco_of :: "obj \<Rightarrow> RIL_PCO_Data option" where "pco_of (ObjPco x) = Some x" | "pco_of _ = None"

definition pcoDataInd :: indication_fn where
  "pcoDataInd = ind_struct ''pcoData'' RIL_PCO_Data_type
     (\<lambda>response. bnd (cast pco_of response) (\<lambda>d.
        bnd (set_external (pco_contents d) (pco_contents_length d)) (\<lambda>contents.
          ret (HPco (pco_cid d) (convertCharPtrToHidlString (pco_bearer_proto d)) (pco_pco_id d) contents))))"

fun scan_of :: "obj \<Rightarrow> RIL_NetworkScanResult option" where "scan_of (ObjScan x) = Some x" | "scan_of _ = None"

text \<open>The length of the data is not compared with the size of the structure.\<close>

definition networkScanResultInd :: indication_fn where
  "networkScanResultInd slotId indicationType token e response responseLen = with_indicationV1_1 slotId
     (unless_bad (response = None \<or> responseLen = 0)
       (bnd (gets sizeof_pointer) (\<lambda>p. bnd (cast scan_of response) (\<lambda>scan.
         bnd (convertRilCellInfoListToHal p (Some (ObjCells (sc_network_infos scan)))
               (nat (sc_network_infos_length scan) * size_of p RIL_CellInfo_v12_type)) (\<lambda>cells.
           indicate True slotId ''networkScanResult'' indicationType [HScan (sc_status scan) (sc_error scan) cells])))))"

definition carrierInfoForImsiEncryption :: indication_fn where
  "carrierInfoForImsiEncryption slotId indicationType token e response responseLen = with_indicationV1_1 slotId
     (unless_bad (response = None \<or> responseLen = 0)
       (indicate True slotId ''carrierInfoForImsiEncryption'' indicationType []))"

text \<open>
  The client is asked for the second version of its interface; the question may not reach it. A client
  of the first version answers with NULL, through which the callback is then called.
\<close>

definition keepaliveStatusInd :: indication_fn where
  "keepaliveStatusInd slotId indicationType token e response responseLen = with_indication slotId
     (bnd (gets client_ok) (\<lambda>oks. bnd (gets (\<lambda>s. mRadioIndicationV1_1 s slotId)) (\<lambda>v1_1.
        andthen (modify (\<lambda>s. s\<lparr>client_ok := tl oks\<rparr>))
          (if oks \<noteq> [] \<and> \<not> hd oks then ret 0
           else bnd (gets sizeof_KeepaliveStatus) (\<lambda>width. unless_bad (response = None \<or> responseLen \<noteq> width)
             (bnd (convertRilKeepaliveStatusToHal response) (\<lambda>ks.
               if v1_1 then indicate True slotId ''keepaliveStatus'' indicationType [ks] else crash NullDeref)))))))"

section \<open>The lock of a slot\<close>

text \<open>
  Which of the locks \<^verbatim>\<open>radioServiceRwlock\<close> (1), \<^verbatim>\<open>radioServiceRwlock2\<close>, \<^verbatim>\<open>radioServiceRwlock3\<close>,
  \<^verbatim>\<open>radioServiceRwlock4\<close> guards a slot, in a build for \<open>simCount\<close> SIM cards. The slots count from 0.
\<close>

definition getRadioServiceRwlock :: "nat \<Rightarrow> nat \<Rightarrow> nat" where
  "getRadioServiceRwlock simCount slotId =
     (if simCount \<ge> 2 \<and> slotId = 2 then 2
      else if simCount \<ge> 3 \<and> slotId = 3 then 3
      else if simCount \<ge> 4 \<and> slotId = 4 then 4
      else 1)"

end
