(* ===== verification/SvcPlain.thy ===== *)
theory SvcPlain
  imports SvcLists
begin

text \<open>
  The functions of \<^verbatim>\<open>libril/ril_service.cpp\<close> that take to the client the outcome of a request and at
  most one integer, string or shared structure, and the table of all response functions.
\<close>

section \<open>The outcome alone\<close>

definition dialResponse :: response_fn where
  "dialResponse slotId responseType serial e response responseLen = with_response slotId
     (tell_info ''dialResponse'' slotId responseType serial e response responseLen)"

definition hangupConnectionResponse :: response_fn where
  "hangupConnectionResponse slotId responseType serial e response responseLen = with_response slotId
     (tell_info ''hangupConnectionResponse'' slotId responseType serial e response responseLen)"

definition hangupWaitingOrBackgroundResponse :: response_fn where
  "hangupWaitingOrBackgroundResponse slotId responseType serial e response responseLen = with_response slotId
     (tell_info ''hangupWaitingOrBackgroundResponse'' slotId responseType serial e response responseLen)"

definition hangupForegroundResumeBackgroundResponse :: response_fn where
  "hangupForegroundResumeBackgroundResponse slotId responseType serial e response responseLen = with_response slotId
     (tell_info ''hangupWaitingOrBackgroundResponse'' slotId responseType serial e response responseLen)"

definition switchWaitingOrHoldingAndActiveResponse :: response_fn where
  "switchWaitingOrHoldingAndActiveResponse slotId responseType serial e response responseLen = with_response slotId
     (tell_info ''switchWaitingOrHoldingAndActiveResponse'' slotId responseType serial e response responseLen)"

definition conferenceResponse :: response_fn where
  "conferenceResponse slotId responseType serial e response responseLen = with_response slotId
     (tell_info ''conferenceResponse'' slotId responseType serial e response responseLen)"

definition rejectCallResponse :: response_fn where
  "rejectCallResponse slotId responseType serial e response responseLen = with_response slotId
     (tell_info ''rejectCallResponse'' slotId responseType serial e response responseLen)"

definition setRadioPowerResponse :: response_fn where
  "setRadioPowerResponse slotId responseType serial e response responseLen = with_response slotId
     (tell_info ''setRadioPowerResponse'' slotId responseType serial e response responseLen)"

definition sendDtmfResponse :: response_fn where
  "sendDtmfResponse slotId responseType serial e response responseLen = with_response slotId
     (tell_info ''sendDtmfResponse'' slotId responseType serial e response responseLen)"

definition sendUssdResponse :: response_fn where
  "sendUssdResponse slotId responseType serial e response responseLen = with_response slotId
     (tell_info ''sendUssdResponse'' slotId responseType serial e response responseLen)"

definition cancelPendingUssdResponse :: response_fn where
  "cancelPendingUssdResponse slotId responseType serial e response responseLen = with_response slotId
     (tell_info ''cancelPendingUssdResponse'' slotId responseType serial e response responseLen)"

definition setClirResponse :: response_fn where
  "setClirResponse slotId responseType serial e response responseLen = with_response slotId
     (tell_info ''setClirResponse'' slotId responseType serial e response responseLen)"

definition setCallForwardResponse :: response_fn where
  "setCallForwardResponse slotId responseType serial e response responseLen = with_response slotId
     (tell_info ''setCallForwardResponse'' slotId responseType serial e response responseLen)"

definition setCallWaitingResponse :: response_fn where
  "setCallWaitingResponse slotId responseType serial e response responseLen = with_response slotId
     (tell_info ''setCallWaitingResponse'' slotId responseType serial e response responseLen)"

definition acknowledgeLastIncomingGsmSmsResponse :: response_fn where
  "acknowledgeLastIncomingGsmSmsResponse slotId responseType serial e response responseLen = with_response slotId
     (tell_info ''acknowledgeLastIncomingGsmSmsResponse'' slotId responseType serial e response responseLen)"

definition acceptCallResponse :: response_fn where
  "acceptCallResponse slotId responseType serial e response responseLen = with_response slotId
     (tell_info ''acceptCallResponse'' slotId responseType serial e response responseLen)"

definition deactivateDataCallResponse :: response_fn where
  "deactivateDataCallResponse slotId responseType serial e response responseLen = with_response slotId
     (tell_info ''deactivateDataCallResponse'' slotId responseType serial e response responseLen)"

definition setBarringPasswordResponse :: response_fn where
  "setBarringPasswordResponse slotId responseType serial e response responseLen = with_response slotId
     (tell_info ''setBarringPasswordResponse'' slotId responseType serial e response responseLen)"

definition setNetworkSelectionModeAutomaticResponse :: response_fn where
  "setNetworkSelectionModeAutomaticResponse slotId responseType serial e response responseLen = with_response slotId
     (tell_info ''setNetworkSelectionModeAutomaticResponse'' slotId responseType serial e response responseLen)"

definition setNetworkSelectionModeManualResponse :: response_fn where
  "setNetworkSelectionModeManualResponse slotId responseType serial e response responseLen = with_response slotId
     (tell_info ''setNetworkSelectionModeManualResponse'' slotId responseType serial e response responseLen)"

definition startDtmfResponse :: response_fn where
  "startDtmfResponse slotId responseType serial e response responseLen = with_response slotId
     (tell_info ''startDtmfResponse'' slotId responseType serial e response responseLen)"

definition stopDtmfResponse :: response_fn where
  "stopDtmfResponse slotId responseType serial e response responseLen = with_response slotId
     (tell_info ''stopDtmfResponse'' slotId responseType serial e response responseLen)"

definition separateConnectionResponse :: response_fn where
  "separateConnectionResponse slotId responseType serial e response responseLen = with_response slotId
     (tell_info ''separateConnectionResponse'' slotId responseType serial e response responseLen)"

definition setMuteResponse :: response_fn where
  "setMuteResponse slotId responseType serial e response responseLen = with_response slotId
     (tell_info ''setMuteResponse'' slotId responseType serial e response responseLen)"

definition setSuppServiceNotificationsResponse :: response_fn where
  "setSuppServiceNotificationsResponse slotId responseType serial e response responseLen = with_response slotId
     (tell_info ''setSuppServiceNotificationsResponse'' slotId responseType serial e response responseLen)"

definition deleteSmsOnSimResponse :: response_fn where
  "deleteSmsOnSimResponse slotId responseType serial e response responseLen = with_response slotId
     (tell_info ''deleteSmsOnSimResponse'' slotId responseType serial e response responseLen)"

definition setBandModeResponse :: response_fn where
  "setBandModeResponse slotId responseType serial e response responseLen = with_response slotId
     (tell_info ''setBandModeResponse'' slotId responseType serial e response responseLen)"

definition sendTerminalResponseToSimResponse :: response_fn where
  "sendTerminalResponseToSimResponse slotId responseType serial e response responseLen = with_response slotId
     (tell_info ''sendTerminalResponseToSimResponse'' slotId responseType serial e response responseLen)"

definition handleStkCallSetupRequestFromSimResponse :: response_fn where
  "handleStkCallSetupRequestFromSimResponse slotId responseType serial e response responseLen = with_response slotId
     (tell_info ''handleStkCallSetupRequestFromSimResponse'' slotId responseType serial e response responseLen)"

definition explicitCallTransferResponse :: response_fn where
  "explicitCallTransferResponse slotId responseType serial e response responseLen = with_response slotId
     (tell_info ''explicitCallTransferResponse'' slotId responseType serial e response responseLen)"

definition setPreferredNetworkTypeResponse :: response_fn where
  "setPreferredNetworkTypeResponse slotId responseType serial e response responseLen = with_response slotId
     (tell_info ''setPreferredNetworkTypeResponse'' slotId responseType serial e response responseLen)"

definition setLocationUpdatesResponse :: response_fn where
  "setLocationUpdatesResponse slotId responseType serial e response responseLen = with_response slotId
     (tell_info ''setLocationUpdatesResponse'' slotId responseType serial e response responseLen)"

definition setCdmaSubscriptionSourceResponse :: response_fn where
  "setCdmaSubscriptionSourceResponse slotId responseType serial e response responseLen = with_response slotId
     (tell_info ''setCdmaSubscriptionSourceResponse'' slotId responseType serial e response responseLen)"

definition setCdmaRoamingPreferenceResponse :: response_fn where
  "setCdmaRoamingPreferenceResponse slotId responseType serial e response responseLen = with_response slotId
     (tell_info ''setCdmaRoamingPreferenceResponse'' slotId responseType serial e response responseLen)"

definition setTTYModeResponse :: response_fn where
  "setTTYModeResponse slotId responseType serial e response responseLen = with_response slotId
     (tell_info ''setTTYModeResponse'' slotId responseType serial e response responseLen)"

definition setPreferredVoicePrivacyResponse :: response_fn where
  "setPreferredVoicePrivacyResponse slotId responseType serial e response responseLen = with_response slotId
     (tell_info ''setPreferredVoicePrivacyResponse'' slotId responseType serial e response responseLen)"

definition sendCDMAFeatureCodeResponse :: response_fn where
  "sendCDMAFeatureCodeResponse slotId responseType serial e response responseLen = with_response slotId
     (tell_info ''sendCDMAFeatureCodeResponse'' slotId responseType serial e response responseLen)"

definition sendBurstDtmfResponse :: response_fn where
  "sendBurstDtmfResponse slotId responseType serial e response responseLen = with_response slotId
     (tell_info ''sendBurstDtmfResponse'' slotId responseType serial e response responseLen)"

definition acknowledgeLastIncomingCdmaSmsResponse :: response_fn where
  "acknowledgeLastIncomingCdmaSmsResponse slotId responseType serial e response responseLen = with_response slotId
     (tell_info ''acknowledgeLastIncomingCdmaSmsResponse'' slotId responseType serial e response responseLen)"

definition setGsmBroadcastConfigResponse :: response_fn where
  "setGsmBroadcastConfigResponse slotId responseType serial e response responseLen = with_response slotId
     (tell_info ''setGsmBroadcastConfigResponse'' slotId responseType serial e response responseLen)"

definition setGsmBroadcastActivationResponse :: response_fn where
  "setGsmBroadcastActivationResponse slotId responseType serial e response responseLen = with_response slotId
     (tell_info ''setGsmBroadcastActivationResponse'' slotId responseType serial e response responseLen)"

definition setCdmaBroadcastConfigResponse :: response_fn where
  "setCdmaBroadcastConfigResponse slotId responseType serial e response responseLen = with_response slotId
     (tell_info ''setCdmaBroadcastConfigResponse'' slotId responseType serial e response responseLen)"

definition setCdmaBroadcastActivationResponse :: response_fn where
  "setCdmaBroadcastActivationResponse slotId responseType serial e response responseLen = with_response slotId
     (tell_info ''setCdmaBroadcastActivationResponse'' slotId responseType serial e response responseLen)"

definition deleteSmsOnRuimResponse :: response_fn where
  "deleteSmsOnRuimResponse slotId responseType serial e response responseLen = with_response slotId
     (tell_info ''deleteSmsOnRuimResponse'' slotId responseType serial e response responseLen)"

definition exitEmergencyCallbackModeResponse :: response_fn where
  "exitEmergencyCallbackModeResponse slotId responseType serial e response responseLen = with_response slotId
     (tell_info ''exitEmergencyCallbackModeResponse'' slotId responseType serial e response responseLen)"

definition setSmscAddressResponse :: response_fn where
  "setSmscAddressResponse slotId responseType serial e response responseLen = with_response slotId
     (tell_info ''setSmscAddressResponse'' slotId responseType serial e response responseLen)"

definition reportSmsMemoryStatusResponse :: response_fn where
  "reportSmsMemoryStatusResponse slotId responseType serial e response responseLen = with_response slotId
     (tell_info ''reportSmsMemoryStatusResponse'' slotId responseType serial e response responseLen)"

definition reportStkServiceIsRunningResponse :: response_fn where
  "reportStkServiceIsRunningResponse slotId responseType serial e response responseLen = with_response slotId
     (tell_info ''reportStkServiceIsRunningResponse'' slotId responseType serial e response responseLen)"

definition acknowledgeIncomingGsmSmsWithPduResponse :: response_fn where
  "acknowledgeIncomingGsmSmsWithPduResponse slotId responseType serial e response responseLen = with_response slotId
     (tell_info ''acknowledgeIncomingGsmSmsWithPduResponse'' slotId responseType serial e response responseLen)"

definition setCellInfoListRateResponse :: response_fn where
  "setCellInfoListRateResponse slotId responseType serial e response responseLen = with_response slotId
     (tell_info ''setCellInfoListRateResponse'' slotId responseType serial e response responseLen)"

definition setInitialAttachApnResponse :: response_fn where
  "setInitialAttachApnResponse slotId responseType serial e response responseLen = with_response slotId
     (tell_info ''setInitialAttachApnResponse'' slotId responseType serial e response responseLen)"

definition iccCloseLogicalChannelResponse :: response_fn where
  "iccCloseLogicalChannelResponse slotId responseType serial e response responseLen = with_response slotId
     (tell_info ''iccCloseLogicalChannelResponse'' slotId responseType serial e response responseLen)"

definition nvWriteItemResponse :: response_fn where
  "nvWriteItemResponse slotId responseType serial e response responseLen = with_response slotId
     (tell_info ''nvWriteItemResponse'' slotId responseType serial e response responseLen)"

definition nvWriteCdmaPrlResponse :: response_fn where
  "nvWriteCdmaPrlResponse slotId responseType serial e response responseLen = with_response slotId
     (tell_info ''nvWriteCdmaPrlResponse'' slotId responseType serial e response responseLen)"

definition nvResetConfigResponse :: response_fn where
  "nvResetConfigResponse slotId responseType serial e response responseLen = with_response slotId
     (tell_info ''nvResetConfigResponse'' slotId responseType serial e response responseLen)"

definition setUiccSubscriptionResponse :: response_fn where
  "setUiccSubscriptionResponse slotId responseType serial e response responseLen = with_response slotId
     (tell_info ''setUiccSubscriptionResponse'' slotId responseType serial e response responseLen)"

definition setDataAllowedResponse :: response_fn where
  "setDataAllowedResponse slotId responseType serial e response responseLen = with_response slotId
     (tell_info ''setDataAllowedResponse'' slotId responseType serial e response responseLen)"

definition setDataProfileResponse :: response_fn where
  "setDataProfileResponse slotId responseType serial e response responseLen = with_response slotId
     (tell_info ''setDataProfileResponse'' slotId responseType serial e response responseLen)"

definition requestShutdownResponse :: response_fn where
  "requestShutdownResponse slotId responseType serial e response responseLen = with_response slotId
     (tell_info ''requestShutdownResponse'' slotId responseType serial e response responseLen)"

definition sendDeviceStateResponse :: response_fn where
  "sendDeviceStateResponse slotId responseType serial e response responseLen = with_response slotId
     (tell_info ''sendDeviceStateResponse'' slotId responseType serial e response responseLen)"

definition setCarrierInfoForImsiEncryptionResponse :: response_fn where
  "setCarrierInfoForImsiEncryptionResponse slotId responseType serial e response responseLen = with_responseV1_1 slotId
     (tell_info ''setCarrierInfoForImsiEncryptionResponse'' slotId responseType serial e response responseLen)"

definition setIndicationFilterResponse :: response_fn where
  "setIndicationFilterResponse slotId responseType serial e response responseLen = with_response slotId
     (tell_info ''setIndicationFilterResponse'' slotId responseType serial e response responseLen)"

definition startNetworkScanResponse :: response_fn where
  "startNetworkScanResponse slotId responseType serial e response responseLen = with_responseV1_1 slotId
     (tell_info ''startNetworkScanResponse'' slotId responseType serial e response responseLen)"

definition stopNetworkScanResponse :: response_fn where
  "stopNetworkScanResponse slotId responseType serial e response responseLen = with_responseV1_1 slotId
     (tell_info ''stopNetworkScanResponse'' slotId responseType serial e response responseLen)"

section \<open>A string, an integer or a shared structure\<close>

definition supplyIccPinForAppResponse :: response_fn where
  "supplyIccPinForAppResponse slotId responseType serial e response responseLen = with_response slotId
     (tell_result ''supplyIccPinForAppResponse'' slotId HInt (responseIntOrEmpty serial responseType e response responseLen))"

definition supplyIccPukForAppResponse :: response_fn where
  "supplyIccPukForAppResponse slotId responseType serial e response responseLen = with_response slotId
     (tell_result ''supplyIccPukForAppResponse'' slotId HInt (responseIntOrEmpty serial responseType e response responseLen))"

definition supplyIccPin2ForAppResponse :: response_fn where
  "supplyIccPin2ForAppResponse slotId responseType serial e response responseLen = with_response slotId
     (tell_result ''supplyIccPin2ForAppResponse'' slotId HInt (responseIntOrEmpty serial responseType e response responseLen))"

definition supplyIccPuk2ForAppResponse :: response_fn where
  "supplyIccPuk2ForAppResponse slotId responseType serial e response responseLen = with_response slotId
     (tell_result ''supplyIccPuk2ForAppResponse'' slotId HInt (responseIntOrEmpty serial responseType e response responseLen))"

definition changeIccPinForAppResponse :: response_fn where
  "changeIccPinForAppResponse slotId responseType serial e response responseLen = with_response slotId
     (tell_result ''changeIccPinForAppResponse'' slotId HInt (responseIntOrEmpty serial responseType e response responseLen))"

definition changeIccPin2ForAppResponse :: response_fn where
  "changeIccPin2ForAppResponse slotId responseType serial e response responseLen = with_response slotId
     (tell_result ''changeIccPin2ForAppResponse'' slotId HInt (responseIntOrEmpty serial responseType e response responseLen))"

definition supplyNetworkDepersonalizationResponse :: response_fn where
  "supplyNetworkDepersonalizationResponse slotId responseType serial e response responseLen = with_response slotId
     (tell_result ''supplyNetworkDepersonalizationResponse'' slotId HInt (responseIntOrEmpty serial responseType e response responseLen))"

definition getIMSIForAppResponse :: response_fn where
  "getIMSIForAppResponse slotId responseType serial e response responseLen = with_response slotId
     (tell_string ''getIMSIForAppResponse'' slotId responseType serial e response responseLen)"

definition sendSmsResponse :: response_fn where
  "sendSmsResponse slotId responseType serial e response responseLen = with_response slotId
     (tell_result ''sendSmsResponse'' slotId HSms (makeSendSmsResult serial responseType e response responseLen))"

definition sendSMSExpectMoreResponse :: response_fn where
  "sendSMSExpectMoreResponse slotId responseType serial e response responseLen = with_response slotId
     (tell_result ''sendSMSExpectMoreResponse'' slotId HSms (makeSendSmsResult serial responseType e response responseLen))"

definition iccIOForAppResponse :: response_fn where
  "iccIOForAppResponse slotId responseType serial e response responseLen = with_response slotId
     (tell_result ''iccIOForAppResponse'' slotId HIccIo (responseIccIo serial responseType e response responseLen))"

definition getFacilityLockForAppResponse :: response_fn where
  "getFacilityLockForAppResponse slotId responseType serial e response responseLen = with_response slotId
     (tell_result ''getFacilityLockForAppResponse'' slotId HInt (responseInt serial responseType e response responseLen))"

definition setFacilityLockForAppResponse :: response_fn where
  "setFacilityLockForAppResponse slotId responseType serial e response responseLen = with_response slotId
     (tell_result ''setFacilityLockForAppResponse'' slotId HInt (responseIntOrEmpty serial responseType e response responseLen))"

definition getBasebandVersionResponse :: response_fn where
  "getBasebandVersionResponse slotId responseType serial e response responseLen = with_response slotId
     (tell_string ''getBasebandVersionResponse'' slotId responseType serial e response responseLen)"

definition getClipResponse :: response_fn where
  "getClipResponse slotId responseType serial e response responseLen = with_response slotId
     (tell_result ''getClipResponse'' slotId HInt (responseInt serial responseType e response responseLen))"

definition writeSmsToSimResponse :: response_fn where
  "writeSmsToSimResponse slotId responseType serial e response responseLen = with_response slotId
     (tell_result ''writeSmsToSimResponse'' slotId HInt (responseInt serial responseType e response responseLen))"

definition sendEnvelopeResponse :: response_fn where
  "sendEnvelopeResponse slotId responseType serial e response responseLen = with_response slotId
     (tell_string ''sendEnvelopeResponse'' slotId responseType serial e response responseLen)"

definition getPreferredNetworkTypeResponse :: response_fn where
  "getPreferredNetworkTypeResponse slotId responseType serial e response responseLen = with_response slotId
     (tell_result ''getPreferredNetworkTypeResponse'' slotId HInt (responseInt serial responseType e response responseLen))"

definition getCdmaRoamingPreferenceResponse :: response_fn where
  "getCdmaRoamingPreferenceResponse slotId responseType serial e response responseLen = with_response slotId
     (tell_result ''getCdmaRoamingPreferenceResponse'' slotId HInt (responseInt serial responseType e response responseLen))"

definition getTTYModeResponse :: response_fn where
  "getTTYModeResponse slotId responseType serial e response responseLen = with_response slotId
     (tell_result ''getTTYModeResponse'' slotId HInt (responseInt serial responseType e response responseLen))"

definition sendCdmaSmsResponse :: response_fn where
  "sendCdmaSmsResponse slotId responseType serial e response responseLen = with_response slotId
     (tell_result ''sendCdmaSmsResponse'' slotId HSms (makeSendSmsResult serial responseType e response responseLen))"

definition writeSmsToRuimResponse :: response_fn where
  "writeSmsToRuimResponse slotId responseType serial e response responseLen = with_response slotId
     (tell_result ''writeSmsToRuimResponse'' slotId HInt (responseInt serial responseType e response responseLen))"

definition getSmscAddressResponse :: response_fn where
  "getSmscAddressResponse slotId responseType serial e response responseLen = with_response slotId
     (tell_string ''getSmscAddressResponse'' slotId responseType serial e response responseLen)"

definition getCdmaSubscriptionSourceResponse :: response_fn where
  "getCdmaSubscriptionSourceResponse slotId responseType serial e response responseLen = with_response slotId
     (tell_result ''getCdmaSubscriptionSourceResponse'' slotId HInt (responseInt serial responseType e response responseLen))"

definition requestIsimAuthenticationResponse :: response_fn where
  "requestIsimAuthenticationResponse slotId responseType serial e response responseLen = with_response slotId
     (tell_string ''requestIsimAuthenticationResponse'' slotId responseType serial e response responseLen)"

definition sendEnvelopeWithStatusResponse :: response_fn where
  "sendEnvelopeWithStatusResponse slotId responseType serial e response responseLen = with_response slotId
     (tell_result ''sendEnvelopeWithStatusResponse'' slotId HIccIo (responseIccIo serial responseType e response responseLen))"

definition getVoiceRadioTechnologyResponse :: response_fn where
  "getVoiceRadioTechnologyResponse slotId responseType serial e response responseLen = with_response slotId
     (tell_result ''getVoiceRadioTechnologyResponse'' slotId HInt (responseInt serial responseType e response responseLen))"

definition sendImsSmsResponse :: response_fn where
  "sendImsSmsResponse slotId responseType serial e response responseLen = with_response slotId
     (tell_result ''sendImsSmsResponse'' slotId HSms (makeSendSmsResult serial responseType e response responseLen))"

definition iccTransmitApduBasicChannelResponse :: response_fn where
  "iccTransmitApduBasicChannelResponse slotId responseType serial e response responseLen = with_response slotId
     (tell_result ''iccTransmitApduBasicChannelResponse'' slotId HIccIo (responseIccIo serial responseType e response responseLen))"

definition iccTransmitApduLogicalChannelResponse :: response_fn where
  "iccTransmitApduLogicalChannelResponse slotId responseType serial e response responseLen = with_response slotId
     (tell_result ''iccTransmitApduLogicalChannelResponse'' slotId HIccIo (responseIccIo serial responseType e response responseLen))"

definition nvReadItemResponse :: response_fn where
  "nvReadItemResponse slotId responseType serial e response responseLen = with_response slotId
     (tell_string ''nvReadItemResponse'' slotId responseType serial e response responseLen)"

definition requestIccSimAuthenticationResponse :: response_fn where
  "requestIccSimAuthenticationResponse slotId responseType serial e response responseLen = with_response slotId
     (tell_result ''requestIccSimAuthenticationResponse'' slotId HIccIo (responseIccIo serial responseType e response responseLen))"

definition getRadioCapabilityResponse :: response_fn where
  "getRadioCapabilityResponse slotId responseType serial e response responseLen = with_response slotId
     (tell_result ''getRadioCapabilityResponse'' slotId HCapability (responseRadioCapability serial responseType e response responseLen))"

definition setRadioCapabilityResponse :: response_fn where
  "setRadioCapabilityResponse slotId responseType serial e response responseLen = with_response slotId
     (tell_result ''setRadioCapabilityResponse'' slotId HCapability (responseRadioCapability serial responseType e response responseLen))"

definition startLceServiceResponse :: response_fn where
  "startLceServiceResponse slotId responseType serial e response responseLen = with_response slotId
     (tell_result ''startLceServiceResponse'' slotId id (responseLceStatusInfo serial responseType e response responseLen))"

definition stopLceServiceResponse :: response_fn where
  "stopLceServiceResponse slotId responseType serial e response responseLen = with_response slotId
     (tell_result ''stopLceServiceResponse'' slotId id (responseLceStatusInfo serial responseType e response responseLen))"

definition setAllowedCarriersResponse :: response_fn where
  "setAllowedCarriersResponse slotId responseType serial e response responseLen = with_response slotId
     (tell_result ''setAllowedCarriersResponse'' slotId HInt (responseInt serial responseType e response responseLen))"

end
