(* ===== verification/SvcAnswers.thy ===== *)
theory SvcAnswers
  imports SvcPlain
begin

text \<open>
  The response functions by the names that the command table points to, and what each does to the
  client: one callback, with the serial number of the request.
\<close>

section \<open>The functions by name\<close>

definition response_functions :: "(string \<times> response_fn) list" where
  "response_functions =
  [(''getIccCardStatusResponse'', getIccCardStatusResponse),
   (''supplyIccPinForAppResponse'', supplyIccPinForAppResponse),
   (''supplyIccPukForAppResponse'', supplyIccPukForAppResponse),
   (''supplyIccPin2ForAppResponse'', supplyIccPin2ForAppResponse),
   (''supplyIccPuk2ForAppResponse'', supplyIccPuk2ForAppResponse),
   (''changeIccPinForAppResponse'', changeIccPinForAppResponse),
   (''changeIccPin2ForAppResponse'', changeIccPin2ForAppResponse),
   (''supplyNetworkDepersonalizationResponse'', supplyNetworkDepersonalizationResponse),
   (''getCurrentCallsResponse'', getCurrentCallsResponse), (''dialResponse'', dialResponse),
   (''getIMSIForAppResponse'', getIMSIForAppResponse),
   (''hangupConnectionResponse'', hangupConnectionResponse),
   (''hangupWaitingOrBackgroundResponse'', hangupWaitingOrBackgroundResponse),
   (''hangupForegroundResumeBackgroundResponse'', hangupForegroundResumeBackgroundResponse),
   (''switchWaitingOrHoldingAndActiveResponse'', switchWaitingOrHoldingAndActiveResponse),
   (''conferenceResponse'', conferenceResponse), (''rejectCallResponse'', rejectCallResponse),
   (''getLastCallFailCauseResponse'', getLastCallFailCauseResponse),
   (''getSignalStrengthResponse'', getSignalStrengthResponse),
   (''getVoiceRegistrationStateResponse'', getVoiceRegistrationStateResponse),
   (''getDataRegistrationStateResponse'', getDataRegistrationStateResponse),
   (''getOperatorResponse'', getOperatorResponse), (''setRadioPowerResponse'', setRadioPowerResponse),
   (''sendDtmfResponse'', sendDtmfResponse), (''sendSmsResponse'', sendSmsResponse),
   (''sendSMSExpectMoreResponse'', sendSMSExpectMoreResponse),
   (''setupDataCallResponse'', setupDataCallResponse), (''iccIOForAppResponse'', iccIOForAppResponse),
   (''sendUssdResponse'', sendUssdResponse), (''cancelPendingUssdResponse'', cancelPendingUssdResponse),
   (''getClirResponse'', getClirResponse), (''setClirResponse'', setClirResponse),
   (''getCallForwardStatusResponse'', getCallForwardStatusResponse),
   (''setCallForwardResponse'', setCallForwardResponse), (''getCallWaitingResponse'', getCallWaitingResponse),
   (''setCallWaitingResponse'', setCallWaitingResponse),
   (''acknowledgeLastIncomingGsmSmsResponse'', acknowledgeLastIncomingGsmSmsResponse),
   (''acceptCallResponse'', acceptCallResponse), (''deactivateDataCallResponse'', deactivateDataCallResponse),
   (''getFacilityLockForAppResponse'', getFacilityLockForAppResponse),
   (''setFacilityLockForAppResponse'', setFacilityLockForAppResponse),
   (''setBarringPasswordResponse'', setBarringPasswordResponse),
   (''getNetworkSelectionModeResponse'', getNetworkSelectionModeResponse),
   (''setNetworkSelectionModeAutomaticResponse'', setNetworkSelectionModeAutomaticResponse),
   (''setNetworkSelectionModeManualResponse'', setNetworkSelectionModeManualResponse),
   (''getAvailableNetworksResponse'', getAvailableNetworksResponse),
   (''startDtmfResponse'', startDtmfResponse), (''stopDtmfResponse'', stopDtmfResponse),
   (''getBasebandVersionResponse'', getBasebandVersionResponse),
   (''separateConnectionResponse'', separateConnectionResponse), (''setMuteResponse'', setMuteResponse),
   (''getMuteResponse'', getMuteResponse), (''getClipResponse'', getClipResponse),
   (''getDataCallListResponse'', getDataCallListResponse),
   (''sendRequestRawResponse'', sendRequestRawResponse),
   (''sendRequestStringsResponse'', sendRequestStringsResponse),
   (''sendDeviceStateResponse'', sendDeviceStateResponse),
   (''setSuppServiceNotificationsResponse'', setSuppServiceNotificationsResponse),
   (''writeSmsToSimResponse'', writeSmsToSimResponse), (''deleteSmsOnSimResponse'', deleteSmsOnSimResponse),
   (''setBandModeResponse'', setBandModeResponse),
   (''getAvailableBandModesResponse'', getAvailableBandModesResponse),
   (''sendEnvelopeResponse'', sendEnvelopeResponse),
   (''sendTerminalResponseToSimResponse'', sendTerminalResponseToSimResponse),
   (''handleStkCallSetupRequestFromSimResponse'', handleStkCallSetupRequestFromSimResponse),
   (''explicitCallTransferResponse'', explicitCallTransferResponse),
   (''setPreferredNetworkTypeResponse'', setPreferredNetworkTypeResponse),
   (''getPreferredNetworkTypeResponse'', getPreferredNetworkTypeResponse),
   (''getNeighboringCidsResponse'', getNeighboringCidsResponse),
   (''setLocationUpdatesResponse'', setLocationUpdatesResponse),
   (''setCdmaSubscriptionSourceResponse'', setCdmaSubscriptionSourceResponse),
   (''setCdmaRoamingPreferenceResponse'', setCdmaRoamingPreferenceResponse),
   (''getCdmaRoamingPreferenceResponse'', getCdmaRoamingPreferenceResponse),
   (''setTTYModeResponse'', setTTYModeResponse), (''getTTYModeResponse'', getTTYModeResponse),
   (''setPreferredVoicePrivacyResponse'', setPreferredVoicePrivacyResponse),
   (''getPreferredVoicePrivacyResponse'', getPreferredVoicePrivacyResponse),
   (''sendCDMAFeatureCodeResponse'', sendCDMAFeatureCodeResponse),
   (''sendBurstDtmfResponse'', sendBurstDtmfResponse), (''sendCdmaSmsResponse'', sendCdmaSmsResponse),
   (''acknowledgeLastIncomingCdmaSmsResponse'', acknowledgeLastIncomingCdmaSmsResponse),
   (''getGsmBroadcastConfigResponse'', getGsmBroadcastConfigResponse),
   (''setGsmBroadcastConfigResponse'', setGsmBroadcastConfigResponse),
   (''setGsmBroadcastActivationResponse'', setGsmBroadcastActivationResponse),
   (''getCdmaBroadcastConfigResponse'', getCdmaBroadcastConfigResponse),
   (''setCdmaBroadcastConfigResponse'', setCdmaBroadcastConfigResponse),
   (''setCdmaBroadcastActivationResponse'', setCdmaBroadcastActivationResponse),
   (''getCDMASubscriptionResponse'', getCDMASubscriptionResponse),
   (''writeSmsToRuimResponse'', writeSmsToRuimResponse),
   (''deleteSmsOnRuimResponse'', deleteSmsOnRuimResponse),
   (''getDeviceIdentityResponse'', getDeviceIdentityResponse),
   (''exitEmergencyCallbackModeResponse'', exitEmergencyCallbackModeResponse),
   (''getSmscAddressResponse'', getSmscAddressResponse), (''setSmscAddressResponse'', setSmscAddressResponse),
   (''reportSmsMemoryStatusResponse'', reportSmsMemoryStatusResponse),
   (''reportStkServiceIsRunningResponse'', reportStkServiceIsRunningResponse),
   (''getCdmaSubscriptionSourceResponse'', getCdmaSubscriptionSourceResponse),
   (''requestIsimAuthenticationResponse'', requestIsimAuthenticationResponse),
   (''acknowledgeIncomingGsmSmsWithPduResponse'', acknowledgeIncomingGsmSmsWithPduResponse),
   (''sendEnvelopeWithStatusResponse'', sendEnvelopeWithStatusResponse),
   (''getVoiceRadioTechnologyResponse'', getVoiceRadioTechnologyResponse),
   (''getCellInfoListResponse'', getCellInfoListResponse),
   (''setCellInfoListRateResponse'', setCellInfoListRateResponse),
   (''setInitialAttachApnResponse'', setInitialAttachApnResponse),
   (''getImsRegistrationStateResponse'', getImsRegistrationStateResponse),
   (''sendImsSmsResponse'', sendImsSmsResponse),
   (''iccTransmitApduBasicChannelResponse'', iccTransmitApduBasicChannelResponse),
   (''iccOpenLogicalChannelResponse'', iccOpenLogicalChannelResponse),
   (''iccCloseLogicalChannelResponse'', iccCloseLogicalChannelResponse),
   (''iccTransmitApduLogicalChannelResponse'', iccTransmitApduLogicalChannelResponse),
   (''nvReadItemResponse'', nvReadItemResponse), (''nvWriteItemResponse'', nvWriteItemResponse),
   (''nvWriteCdmaPrlResponse'', nvWriteCdmaPrlResponse), (''nvResetConfigResponse'', nvResetConfigResponse),
   (''setUiccSubscriptionResponse'', setUiccSubscriptionResponse),
   (''setDataAllowedResponse'', setDataAllowedResponse),
   (''getHardwareConfigResponse'', getHardwareConfigResponse),
   (''requestIccSimAuthenticationResponse'', requestIccSimAuthenticationResponse),
   (''setDataProfileResponse'', setDataProfileResponse),
   (''requestShutdownResponse'', requestShutdownResponse),
   (''getRadioCapabilityResponse'', getRadioCapabilityResponse),
   (''setRadioCapabilityResponse'', setRadioCapabilityResponse),
   (''startLceServiceResponse'', startLceServiceResponse),
   (''stopLceServiceResponse'', stopLceServiceResponse), (''pullLceDataResponse'', pullLceDataResponse),
   (''getModemActivityInfoResponse'', getModemActivityInfoResponse),
   (''setAllowedCarriersResponse'', setAllowedCarriersResponse),
   (''getAllowedCarriersResponse'', getAllowedCarriersResponse),
   (''setIndicationFilterResponse'', setIndicationFilterResponse),
   (''setSimCardPowerResponse'', setSimCardPowerResponse),
   (''setCarrierInfoForImsiEncryptionResponse'', setCarrierInfoForImsiEncryptionResponse),
   (''startNetworkScanResponse'', startNetworkScanResponse),
   (''stopNetworkScanResponse'', stopNetworkScanResponse),
   (''startKeepaliveResponse'', startKeepaliveResponse), (''stopKeepaliveResponse'', stopKeepaliveResponse)]"

text \<open>The callback that each calls; one calls that of another request.\<close>

definition callback_of :: "string \<Rightarrow> string \<Rightarrow> bool" where
  "callback_of f m \<longleftrightarrow> m = f \<and> f \<noteq> ''hangupForegroundResumeBackgroundResponse''
     \<or> f = ''hangupForegroundResumeBackgroundResponse'' \<and> m = ''hangupWaitingOrBackgroundResponse''
     \<or> f = ''setSimCardPowerResponse'' \<and> m = ''setSimCardPowerResponse_1_1''"

section \<open>One callback\<close>

text \<open>A program that only reads, and what it returns.\<close>

definition reads :: "('a \<Rightarrow> bool) \<Rightarrow> 'a sprog \<Rightarrow> bool" where
  "reads P m \<longleftrightarrow> (\<forall>s x t. m s = Done x t \<longrightarrow> t = s \<and> P x)"

text \<open>The head names the request; it has the vendor library's error, or that the response is invalid.\<close>

definition head_ok :: "int \<Rightarrow> int \<Rightarrow> RIL_Errno \<Rightarrow> RadioResponseInfo \<Rightarrow> bool" where
  "head_ok serial responseType e info \<longleftrightarrow>
     info = populateResponseInfo serial responseType e \<or> info = invalid e (populateResponseInfo serial responseType e)"

text \<open>
  With a client that can be reached, the program calls one callback of it; it calls none only where not
  every kind of callback is set.
\<close>

definition all_up :: "nat \<Rightarrow> svc \<Rightarrow> bool" where
  "all_up slot s \<longleftrightarrow> mRadioResponse s slot \<and> mRadioResponseV1_1 s slot \<and> kOemHookEnabled s \<and> mOemHookResponse s slot"

definition told_one :: "(string \<Rightarrow> bool) \<Rightarrow> nat \<Rightarrow> int \<Rightarrow> int \<Rightarrow> RIL_Errno \<Rightarrow> svc \<Rightarrow> svc \<Rightarrow> bool" where
  "told_one M slot serial responseType e s t \<longleftrightarrow> (\<exists>method info args. M method \<and> head_ok serial responseType e info
     \<and> t = s\<lparr>heard := heard s @ [(slot, method, HInfo info # args)]\<rparr>)"

definition tells :: "(string \<Rightarrow> bool) \<Rightarrow> nat \<Rightarrow> int \<Rightarrow> int \<Rightarrow> RIL_Errno \<Rightarrow> unit sprog \<Rightarrow> bool" where
  "tells M slot serial responseType e m \<longleftrightarrow> (\<forall>s t. client_ok s = [] \<longrightarrow> m s = Done () t \<longrightarrow>
     told_one M slot serial responseType e s t \<or> \<not> all_up slot s \<and> t = s)"

named_theorems tells_intros "programs that tell the client once"

lemma head_okI [tells_intros]:
  "head_ok serial responseType e (populateResponseInfo serial responseType e)"
  "head_ok serial responseType e (invalid e (populateResponseInfo serial responseType e))"
  by (simp_all add: head_ok_def)

lemma head_ok_if [tells_intros]:
  "head_ok serial responseType e a \<Longrightarrow> head_ok serial responseType e b \<Longrightarrow> head_ok serial responseType e (if c then a else b)"
  by simp

lemma reads_simple [tells_intros]:
  "P x \<Longrightarrow> reads P (ret x)" "(\<And>s. P (f s)) \<Longrightarrow> reads P (gets f)" "reads P (crash fault)"
  by (simp_all add: reads_def run_simps)

lemma reads_bnd:
  assumes "reads Q m" and "\<And>x. Q x \<Longrightarrow> reads P (f x)"
  shows "reads P (bnd m f)"
  unfolding reads_def
proof (intro allI impI)
  fix s x t assume "bnd m f s = Done x t"
  then obtain y u where "m s = Done y u" "f y u = Done x t" by (auto simp: bnd_Done)
  with assms show "t = s \<and> P x" unfolding reads_def by blast
qed

lemma reads_bnd_any [tells_intros]: "reads (\<lambda>_. True) m \<Longrightarrow> (\<And>x. reads P (f x)) \<Longrightarrow> reads P (bnd m f)"
  by (rule reads_bnd)

lemma reads_cases [tells_intros]:
  "reads P a \<Longrightarrow> reads P b \<Longrightarrow> reads P (if c then a else b)"
  "reads P a \<Longrightarrow> (\<And>x. reads P (g x)) \<Longrightarrow> reads P (case v of None \<Rightarrow> a | Some x \<Rightarrow> g x)"
  "(\<And>x y. reads P (h x y)) \<Longrightarrow> reads P (case w of (x, y) \<Rightarrow> h x y)"
  by (simp_all split: option.split prod.split)

lemma reads_cast [tells_intros]: "reads (\<lambda>_. True) (cast f r)"
  unfolding cast_def by (intro tells_intros) simp_all

lemma reads_arrays [tells_intros]:
  "reads (\<lambda>_. True) (first_n n xs)" "reads (\<lambda>_. True) (first_int k xs)" "reads (\<lambda>_. True) (int_at n is)"
  "reads (\<lambda>_. True) (elements f r n)"
  unfolding first_n_def first_int_def int_at_def elements_def by (intro conjI tells_intros TrueI)+

lemma reads_pointed [tells_intros]: "reads (\<lambda>_. True) (pointed ps)"
  by (induction ps rule: pointed.induct) (auto intro!: tells_intros)

lemma reads_networks [tells_intros]: "reads (\<lambda>_. True) (convert_networks ss)"
  by (induction ss rule: convert_networks.induct) (auto intro!: tells_intros simp: Let_def split: option.split)

lemma reads_checked [tells_intros]:
  "head_ok serial responseType e info \<Longrightarrow> head_ok serial responseType e (invalid e info)
    \<Longrightarrow> reads (\<lambda>_. True) m \<Longrightarrow> reads (\<lambda>(i, x). head_ok serial responseType e i) (checked bad e info def m)"
  unfolding checked_def by (intro tells_intros) simp_all

lemma reads_head [tells_intros]:
  "head_ok serial responseType e info \<Longrightarrow> reads (\<lambda>(i, x). head_ok serial responseType e i) (ret (info, y))"
  by (simp add: reads_def ret_def)

lemma reads_int [tells_intros]:
  "reads (\<lambda>(i, x). head_ok serial responseType e i) (responseIntOrEmpty serial responseType e r n)"
  "reads (\<lambda>(i, x). head_ok serial responseType e i) (responseInt serial responseType e r n)"
  unfolding responseIntOrEmpty_def responseInt_def Let_def
  by (intro tells_intros TrueI)+

lemma reads_sms [tells_intros]:
  "reads (\<lambda>(i, x). head_ok serial responseType e i) (makeSendSmsResult serial responseType e r n)"
  unfolding makeSendSmsResult_def
  by (rule reads_bnd_any reads_checked head_okI reads_simple TrueI reads_cast reads_cases)+

lemma reads_icc [tells_intros]:
  "reads (\<lambda>(i, x). head_ok serial responseType e i) (responseIccIo serial responseType e r n)"
  unfolding responseIccIo_def
  by (rule reads_bnd_any reads_checked head_okI reads_simple TrueI reads_cast reads_cases)+

lemma reads_lce [tells_intros]:
  "reads (\<lambda>(i, x). head_ok serial responseType e i) (responseLceStatusInfo serial responseType e r n)"
  unfolding responseLceStatusInfo_def
  by (rule reads_bnd_any reads_checked head_okI reads_simple TrueI reads_cast reads_cases)+

lemma reads_capability [tells_intros]:
  "reads (\<lambda>(i, x). head_ok serial responseType e i) (responseRadioCapability serial responseType e r n)"
  unfolding responseRadioCapability_def convertRilRadioCapabilityToHal_def
  by (rule reads_bnd_any reads_checked head_okI reads_simple TrueI reads_cast reads_cases)+

lemma client_ok_same: "client_ok s = [] \<Longrightarrow> s\<lparr>client_ok := [], heard := h\<rparr> = s\<lparr>heard := h\<rparr>"
  by (cases s) simp

lemma tell_run:
  assumes "client_ok s = []"
  shows "tell b slot method args s = Done () (s\<lparr>heard := heard s @ [(slot, method, args)]\<rparr>)"
  by (simp add: tell_def bnd_def gets_def andthen_def modify_def checkReturnStatus_svc_def ret_def assms
      client_ok_same [OF assms])

lemma tells_tell:
  assumes "M method" and "head_ok serial responseType e info"
  shows "tells M slot serial responseType e (tell b slot method (HInfo info # args))"
  unfolding tells_def told_one_def
proof (intro allI impI disjI1)
  fix s t assume "client_ok s = []" "tell b slot method (HInfo info # args) s = Done () t"
  then have "t = s\<lparr>heard := heard s @ [(slot, method, HInfo info # args)]\<rparr>"
    by (metis tell_run outcome.inject(1))
  with assms show "\<exists>method info args. M method \<and> head_ok serial responseType e info
      \<and> t = s\<lparr>heard := heard s @ [(slot, method, HInfo info # args)]\<rparr>" by blast
qed

lemma tells_bnd:
  assumes "reads Q m" and "\<And>x. Q x \<Longrightarrow> tells M slot serial responseType e (f x)"
  shows "tells M slot serial responseType e (bnd m f)"
  unfolding tells_def
proof (intro allI impI)
  fix s t assume "client_ok s = []" and "bnd m f s = Done () t"
  moreover from this obtain y where "m s = Done y s" "f y s = Done () t" "Q y"
    using assms(1) unfolding reads_def bnd_Done by blast
  ultimately show "told_one M slot serial responseType e s t \<or> \<not> all_up slot s \<and> t = s"
    using assms(2) [of y] unfolding tells_def by blast
qed

lemma tells_when:
  assumes "tells M slot serial responseType e m" and "\<And>s. all_up slot s \<Longrightarrow> up s"
  shows "tells M slot serial responseType e (bnd (gets up) (\<lambda>b. whenever b m))"
  using assms unfolding tells_def by (auto simp: bnd_def gets_def whenever_def ret_def split: if_splits)

lemma tells_with [tells_intros]:
  assumes "tells M slot serial responseType e m"
  shows "tells M slot serial responseType e (with_response slot m)"
    and "tells M slot serial responseType e (with_responseV1_1 slot m)"
    and "tells M slot serial responseType e (with_oem_response slot m)"
  unfolding with_response_def with_responseV1_1_def with_oem_response_def
  by (rule tells_when [OF assms], simp add: all_up_def)+

lemma tells_info [tells_intros]:
  "M method \<Longrightarrow> tells M slot serial responseType e (tell_info method slot responseType serial e r n)"
  unfolding tell_info_def by (intro tells_tell head_okI)

lemma tells_string [tells_intros]:
  "M method \<Longrightarrow> tells M slot serial responseType e (tell_string method slot responseType serial e r n)"
  unfolding tell_string_def response_string_def
  by (rule tells_bnd [where Q = "\<lambda>_. True"]) (auto intro!: tells_tell tells_intros)

lemma tells_result [tells_intros]:
  assumes "M method" and "reads (\<lambda>(i, x). head_ok serial responseType e i) result"
  shows "tells M slot serial responseType e (tell_result method slot arg result)"
  unfolding tell_result_def using assms by (intro tells_bnd [OF assms(2)]) (auto intro: tells_tell)

lemma tells_rest:
  assumes "M method" and "reads (\<lambda>(i, x). head_ok serial responseType e i) result"
  shows "tells M slot serial responseType e (bnd result (\<lambda>(info, x). tell b slot method (HInfo info # arg x)))"
  using assms by (intro tells_bnd [OF assms(2)]) (auto intro: tells_tell)

lemma tells_gets [tells_intros]:
  "(\<And>p. tells M slot serial responseType e (g p)) \<Longrightarrow> tells M slot serial responseType e (bnd (gets f) g)"
  by (rule tells_bnd [where Q = "\<lambda>_. True"]) (auto simp: reads_def gets_def)

lemma tells_lists [tells_intros]:
  assumes "M method"
  shows "tells M slot serial responseType e (tell_strings method k slot responseType serial e r n)"
    and "tells M slot serial responseType e (tell_ints method k def f slot responseType serial e r n)"
    and "tells M slot serial responseType e (tell_flag method slot responseType serial e r n)"
    and "tells M slot serial responseType e (tell_pointers method pick g arg slot responseType serial e r n)"
  unfolding tell_strings_def tell_ints_def tell_flag_def tell_pointers_def
  by (intro tells_intros tells_rest assms TrueI)+

lemmas plain_responses =
  supplyIccPinForAppResponse_def supplyIccPukForAppResponse_def supplyIccPin2ForAppResponse_def
    supplyIccPuk2ForAppResponse_def changeIccPinForAppResponse_def changeIccPin2ForAppResponse_def
    supplyNetworkDepersonalizationResponse_def dialResponse_def getIMSIForAppResponse_def
    hangupConnectionResponse_def hangupWaitingOrBackgroundResponse_def
    hangupForegroundResumeBackgroundResponse_def switchWaitingOrHoldingAndActiveResponse_def
    conferenceResponse_def rejectCallResponse_def setRadioPowerResponse_def sendDtmfResponse_def
    sendSmsResponse_def sendSMSExpectMoreResponse_def iccIOForAppResponse_def sendUssdResponse_def
    cancelPendingUssdResponse_def setClirResponse_def setCallForwardResponse_def setCallWaitingResponse_def
    acknowledgeLastIncomingGsmSmsResponse_def acceptCallResponse_def deactivateDataCallResponse_def
    getFacilityLockForAppResponse_def setFacilityLockForAppResponse_def setBarringPasswordResponse_def
    setNetworkSelectionModeAutomaticResponse_def setNetworkSelectionModeManualResponse_def
    startDtmfResponse_def stopDtmfResponse_def getBasebandVersionResponse_def separateConnectionResponse_def
    setMuteResponse_def getClipResponse_def setSuppServiceNotificationsResponse_def
    deleteSmsOnSimResponse_def setBandModeResponse_def writeSmsToSimResponse_def sendEnvelopeResponse_def
    sendTerminalResponseToSimResponse_def handleStkCallSetupRequestFromSimResponse_def
    explicitCallTransferResponse_def setPreferredNetworkTypeResponse_def getPreferredNetworkTypeResponse_def
    setLocationUpdatesResponse_def setCdmaSubscriptionSourceResponse_def setCdmaRoamingPreferenceResponse_def
    getCdmaRoamingPreferenceResponse_def setTTYModeResponse_def getTTYModeResponse_def
    setPreferredVoicePrivacyResponse_def sendCDMAFeatureCodeResponse_def sendBurstDtmfResponse_def
    sendCdmaSmsResponse_def acknowledgeLastIncomingCdmaSmsResponse_def setGsmBroadcastConfigResponse_def
    setGsmBroadcastActivationResponse_def setCdmaBroadcastConfigResponse_def
    setCdmaBroadcastActivationResponse_def writeSmsToRuimResponse_def deleteSmsOnRuimResponse_def
    exitEmergencyCallbackModeResponse_def getSmscAddressResponse_def setSmscAddressResponse_def
    reportSmsMemoryStatusResponse_def reportStkServiceIsRunningResponse_def
    getCdmaSubscriptionSourceResponse_def requestIsimAuthenticationResponse_def
    acknowledgeIncomingGsmSmsWithPduResponse_def sendEnvelopeWithStatusResponse_def
    getVoiceRadioTechnologyResponse_def setCellInfoListRateResponse_def setInitialAttachApnResponse_def
    sendImsSmsResponse_def iccTransmitApduBasicChannelResponse_def iccCloseLogicalChannelResponse_def
    iccTransmitApduLogicalChannelResponse_def nvReadItemResponse_def nvWriteItemResponse_def
    nvWriteCdmaPrlResponse_def nvResetConfigResponse_def setUiccSubscriptionResponse_def
    setDataAllowedResponse_def requestIccSimAuthenticationResponse_def setDataProfileResponse_def
    requestShutdownResponse_def getRadioCapabilityResponse_def setRadioCapabilityResponse_def
    startLceServiceResponse_def stopLceServiceResponse_def setAllowedCarriersResponse_def
    sendDeviceStateResponse_def setCarrierInfoForImsiEncryptionResponse_def setIndicationFilterResponse_def
    startNetworkScanResponse_def stopNetworkScanResponse_def

lemmas converted_responses =
  getIccCardStatusResponse_def getCurrentCallsResponse_def getLastCallFailCauseResponse_def
    getSignalStrengthResponse_def getVoiceRegistrationStateResponse_def getDataRegistrationStateResponse_def
    getOperatorResponse_def setupDataCallResponse_def getClirResponse_def getCallForwardStatusResponse_def
    getCallWaitingResponse_def getNetworkSelectionModeResponse_def getAvailableNetworksResponse_def
    getMuteResponse_def getDataCallListResponse_def getAvailableBandModesResponse_def
    getNeighboringCidsResponse_def getPreferredVoicePrivacyResponse_def getGsmBroadcastConfigResponse_def
    getCdmaBroadcastConfigResponse_def getCDMASubscriptionResponse_def getDeviceIdentityResponse_def
    getCellInfoListResponse_def getImsRegistrationStateResponse_def iccOpenLogicalChannelResponse_def
    getHardwareConfigResponse_def pullLceDataResponse_def getModemActivityInfoResponse_def
    getAllowedCarriersResponse_def setSimCardPowerResponse_def startKeepaliveResponse_def
    stopKeepaliveResponse_def sendRequestRawResponse_def sendRequestStringsResponse_def

lemmas converters = convertRilDataCallListToHal_def convertRilCellInfoListToHal_def
  convertRilHardwareConfigListToHal_def convertRilLceDataInfoToHal_def convertRilKeepaliveStatusToHal_def
  convert_card_def

lemma reads_hardware [tells_intros]: "reads (\<lambda>_. True) (convert_hardwares hs)"
proof (induction hs)
  case (Cons h hs)
  have "reads (\<lambda>_. True) (convert_hardware h)"
    unfolding convert_hardware_def Let_def by (auto simp: reads_def ret_def crash_def split: hw_union.splits)
  with Cons show ?case by (auto intro!: tells_intros)
qed (simp add: reads_simple)

lemma tells_power [tells_intros]:
  "tells (callback_of ''setSimCardPowerResponse'') slot serial responseType e
     (setSimCardPowerResponse slot responseType serial e r n)"
proof -
  have "tells (callback_of ''setSimCardPowerResponse'') slot serial responseType e (tell_info m slot responseType serial e r n)"
    if "m = ''setSimCardPowerResponse'' \<or> m = ''setSimCardPowerResponse_1_1''" for m
    by (rule tells_info) (use that in \<open>auto simp: callback_of_def\<close>)
  then show ?thesis
    unfolding setSimCardPowerResponse_def tells_def
    by (auto simp: bnd_def gets_def whenever_def ret_def all_up_def split: if_splits)
qed

lemma each_tells:
  "list_all (\<lambda>(f, g). tells (callback_of f) slot serial responseType e (g slot responseType serial e r n)) response_functions"
  unfolding response_functions_def list.pred_inject prod.case
  by (intro conjI TrueI; (intro tells_power; fail)?; (unfold plain_responses converted_responses)?;
    (unfold converters Let_def)?; (intro tells_intros tells_rest TrueI; simp add: callback_of_def; fail)?; simp)

section \<open>Errors\<close>

text \<open>An error comes with no data: NULL and length 0. No function reads through it.\<close>

lemma returns_tell [returns_rules]: "returns (tell b slot method args)"
  unfolding tell_def checkReturnStatus_svc_def unlocked_def Let_def by (intro returns_rules)

lemma returns_with [returns_rules]:
  "returns m \<Longrightarrow> returns (with_response slot m)" "returns m \<Longrightarrow> returns (with_responseV1_1 slot m)"
  "returns m \<Longrightarrow> returns (with_oem_response slot m)"
  "returns r \<Longrightarrow> returns (tell_result method slot arg r)"
  "returns (tell_info method slot responseType serial e response n)"
  unfolding with_response_def with_responseV1_1_def with_oem_response_def tell_result_def tell_info_def
  by (intro returns_rules; assumption)+

lemma no_data [simp]:
  "checked True e info def m = ret (invalid e info, def)"
  "checked False e info def m = bnd m (\<lambda>x. ret (info, x))"
  "elements f None 0 = ret []"
  "response_string None = ret ''''"
  by (simp_all add: checked_def bad_list_def elements_def response_string_def)

lemmas shared_results = makeSendSmsResult_def responseIccIo_def responseLceStatusInfo_def responseRadioCapability_def
  responseInt_def responseIntOrEmpty_def tell_string_def tell_strings_def tell_ints_def tell_flag_def tell_pointers_def

lemma each_returns:
  "list_all (\<lambda>(f, g). returns (g slot responseType serial e None 0)) response_functions"
  unfolding response_functions_def list.pred_inject prod.case
  by (intro conjI TrueI; (unfold plain_responses converted_responses)?;
    (simp add: shared_results converters Let_def bad_list_def)?; (intro returns_rules; fail)?)

section \<open>What the client hears\<close>

lemma tells_of: "(f, g) \<in> set response_functions \<Longrightarrow> tells (callback_of f) slot serial responseType e (g slot responseType serial e r n)"
  using each_tells [of slot serial responseType e r n] by (auto simp: list_all_iff)

lemma returns_of: "(f, g) \<in> set response_functions \<Longrightarrow> returns (g slot responseType serial e None 0)"
  using each_returns [of slot responseType serial e] by (auto simp: list_all_iff)

lemma head_serial: "head_ok serial responseType e info \<Longrightarrow> rs_serial info = serial"
  by (auto simp: head_ok_def populateResponseInfo_def invalid_def)

lemma head_error:
  "head_ok serial responseType e info \<Longrightarrow> rs_error info = e \<or> e = RIL_E_SUCCESS \<and> rs_error info = RIL_E_INVALID_RESPONSE"
  by (auto simp: head_ok_def populateResponseInfo_def invalid_def split: if_splits)

text \<open>
  C19: whichever of the 135 response functions of the service runs, with whatever data from the vendor
  library, if it returns then the client, if it can be reached, has got exactly one callback: that of the
  request, but that the function for \<^verbatim>\<open>HANGUP_FOREGROUND_RESUME_BACKGROUND\<close> calls the one of
  \<^verbatim>\<open>HANGUP_WAITING_OR_BACKGROUND\<close>. The callback has the serial number of the request and the vendor
  library's error, or, in place of success, that the response is invalid. Nothing else has changed.
\<close>

theorem response_told_once:
  assumes "(f, g) \<in> set response_functions" and "client_ok s = []" and "all_up slot s"
    and "g slot responseType serial e response responseLen s = Done () t"
  shows "\<exists>method info args. callback_of f method \<and> rs_serial info = serial
      \<and> (rs_error info = e \<or> e = RIL_E_SUCCESS \<and> rs_error info = RIL_E_INVALID_RESPONSE)
      \<and> t = s\<lparr>heard := heard s @ [(slot, method, HInfo info # args)]\<rparr>"
proof -
  have "told_one (callback_of f) slot serial responseType e s t"
    using tells_of [OF assms(1), of slot serial responseType e response responseLen] assms(2-4)
    unfolding tells_def by blast
  then obtain c info args where told: "callback_of f c" "head_ok serial responseType e info"
      "t = s\<lparr>heard := heard s @ [(slot, c, HInfo info # args)]\<rparr>"
    unfolding told_one_def by blast
  then show ?thesis using head_serial [OF told(2)] head_error [OF told(2)] by blast
qed

text \<open>
  C20: an error, which comes with no data, reaches the client for each of the 135 response functions: none
  of them reads through the missing data, and the client hears of the error once, with the serial number of
  its request.
\<close>

theorem error_reaches_client:
  assumes "(f, g) \<in> set response_functions" and "client_ok s = []" and "all_up slot s" and "e \<noteq> RIL_E_SUCCESS"
  shows "\<exists>method info args. callback_of f method \<and> rs_serial info = serial \<and> rs_error info = e
      \<and> g slot responseType serial e None 0 s = Done () (s\<lparr>heard := heard s @ [(slot, method, HInfo info # args)]\<rparr>)"
proof -
  obtain t where t: "g slot responseType serial e None 0 s = Done () t"
    using returns_of [OF assms(1)] unfolding returns_def by fastforce
  have "told_one (callback_of f) slot serial responseType e s t"
    using tells_of [OF assms(1), of slot serial responseType e None 0] assms(2,3) t unfolding tells_def by blast
  then obtain c info args where told: "callback_of f c" "head_ok serial responseType e info"
      "t = s\<lparr>heard := heard s @ [(slot, c, HInfo info # args)]\<rparr>"
    unfolding told_one_def by blast
  then show ?thesis using head_serial [OF told(2)] head_error [OF told(2)] t assms(4) by blast
qed

section \<open>Every row of the command table\<close>

lemma table_functions_list:
  "List.map_filter responseFunction s_commands =
     map fst (take 128 response_functions) @ [''sendDeviceStateResponse''] @ map fst (drop 128 response_functions)"
  by (simp add: s_commands_def command_rows_def command_row_def response_functions_def map_filter_simps)

lemma table_functions:
  assumes "row \<in> set s_commands" and "responseFunction row = Some f"
  shows "\<exists>g. (f, g) \<in> set response_functions"
proof -
  have "f \<in> set (List.map_filter responseFunction s_commands)"
    using assms by (force simp: List.map_filter_def)
  then consider p where "p \<in> set response_functions" "f = fst p" | "f = ''sendDeviceStateResponse''"
    unfolding table_functions_list by (auto dest: in_set_takeD in_set_dropD)
  then show ?thesis
  proof cases
    case 1
    then show ?thesis by (metis surjective_pairing)
  next
    case 2
    then show ?thesis by (simp add: response_functions_def)
  qed
qed

text \<open>A client that has set both versions of its callbacks, and the OEM service, on every slot.\<close>

definition svc_init :: "int \<Rightarrow> nat \<Rightarrow> svc" where
  "svc_init version p = \<lparr>radio_version = version, onStateRequest = (\<lambda>_. 10), kOemHookEnabled = True, sizeof_pointer = p,
     sizeof_KeepaliveStatus = 8, mRadioResponse = (\<lambda>_. True), mRadioIndication = (\<lambda>_. True),
     mRadioResponseV1_1 = (\<lambda>_. True), mRadioIndicationV1_1 = (\<lambda>_. True), mOemHookResponse = (\<lambda>_. True),
     mOemHookIndication = (\<lambda>_. True), mCounterRadio = (\<lambda>_. 0), mCounterOemHook = (\<lambda>_. 0),
     nitzTimeReceived = (\<lambda>_. 0), can_malloc = [], client_ok = [], reconnects = [], heard = []\<rparr>"

lemma svc_init_up: "client_ok (svc_init version p) = []" "all_up slot (svc_init version p)" "heard (svc_init version p) = []"
  by (simp_all add: svc_init_def all_up_def)

theorem response_told_once_witness:
  "\<exists>method info args. callback_of ''getClirResponse'' method \<and> rs_serial info = 77
      \<and> (rs_error info = RIL_E_SUCCESS \<or> RIL_E_SUCCESS = RIL_E_SUCCESS \<and> rs_error info = RIL_E_INVALID_RESPONSE)
      \<and> (svc_init 12 8)\<lparr>heard := [(0, ''getClirResponse'',
            [HInfo (populateResponseInfo 77 0 RIL_E_SUCCESS), HInt 1, HInt 4])]\<rparr>
          = (svc_init 12 8)\<lparr>heard := heard (svc_init 12 8) @ [(0, method, HInfo info # args)]\<rparr>"
proof -
  have f: "(''getClirResponse'', getClirResponse) \<in> set response_functions"
    by (simp add: response_functions_def)
  have run: "getClirResponse 0 0 77 RIL_E_SUCCESS (Some (ObjInts [1, 4])) 8 (svc_init 12 8) = Done ()
      ((svc_init 12 8)\<lparr>heard := [(0, ''getClirResponse'', [HInfo (populateResponseInfo 77 0 RIL_E_SUCCESS), HInt 1, HInt 4])]\<rparr>)"
    by (simp add: getClirResponse_def tell_ints_def with_response_def checked_def elements_def cast_def first_n_def
        bnd_def gets_def ret_def whenever_def tell_run svc_init_up numeral_2_eq_2)
      (simp add: svc_init_def)
  show ?thesis by (rule response_told_once [OF f svc_init_up(1,2) run])
qed

theorem error_reaches_client_witness:
  "\<exists>method info args. callback_of ''getIccCardStatusResponse'' method \<and> rs_serial info = 77 \<and> rs_error info = RIL_E_NO_MEMORY
      \<and> getIccCardStatusResponse 0 0 77 RIL_E_NO_MEMORY None 0 (svc_init 12 8)
        = Done () ((svc_init 12 8)\<lparr>heard := heard (svc_init 12 8) @ [(0, method, HInfo info # args)]\<rparr>)"
proof -
  have "(''getIccCardStatusResponse'', getIccCardStatusResponse) \<in> set response_functions"
    by (simp add: response_functions_def)
  then show ?thesis by (rule error_reaches_client [OF _ svc_init_up(1,2)]) simp
qed

end
