(* ===== verification/SvcNotices.thy ===== *)
theory SvcNotices
  imports SvcReports SvcAnswers
begin

text \<open>
  The indication functions by the names that the table of unsolicited responses points to, with the
  callback each calls and the data it takes. What a client hears of an indication: one callback for
  data of the right type, one at most for any data.
\<close>

section \<open>The data that each function takes\<close>

text \<open>A predicate on the data and their length; the state has the sizes of pointers and structures.\<close>

type_synonym data_type = "svc \<Rightarrow> obj option \<Rightarrow> nat \<Rightarrow> bool"

definition anything :: data_type where "anything s response len \<longleftrightarrow> True"

definition some_data :: data_type where "some_data s response len \<longleftrightarrow> response \<noteq> None \<and> len \<noteq> 0"

definition an_int :: data_type where
  "an_int s response len \<longleftrightarrow> len = 4 \<and> (case response of Some (ObjInts (x # xs)) \<Rightarrow> True | _ \<Rightarrow> False)"

definition a_text :: data_type where
  "a_text s response len \<longleftrightarrow> len \<noteq> 0 \<and> (case response of Some (ObjStr x) \<Rightarrow> True | _ \<Rightarrow> False)"

definition hex_digit :: "int \<Rightarrow> bool" where
  "hex_digit c \<longleftrightarrow> hexCharToInt c \<noteq> INVALID_HEX_CHAR"

text \<open>An even number of hex digits.\<close>

definition a_pdu :: data_type where
  "a_pdu s response len \<longleftrightarrow> len \<noteq> 0 \<and> even len \<and>
     (case response of Some ob \<Rightarrow>
        (case bytes_of ob of Some bs \<Rightarrow> len \<le> length bs \<and> list_all hex_digit (take len bs) | None \<Rightarrow> False)
      | None \<Rightarrow> False)"

definition some_bytes :: data_type where
  "some_bytes s response len \<longleftrightarrow> len \<noteq> 0 \<and>
     (case response of Some ob \<Rightarrow> (case bytes_of ob of Some bs \<Rightarrow> len \<le> length bs | None \<Rightarrow> False) | None \<Rightarrow> False)"

definition two_texts :: data_type where
  "two_texts s response len \<longleftrightarrow> len = 2 * sizeof_pointer s \<and>
     (case response of Some (ObjStrs (Some mode # msg # xs)) \<Rightarrow> True | _ \<Rightarrow> False)"

definition one :: "ctype \<Rightarrow> (obj \<Rightarrow> 'a option) \<Rightarrow> ('a \<Rightarrow> bool) \<Rightarrow> data_type" where
  "one type pick ok s response len \<longleftrightarrow> len = size_of (sizeof_pointer s) type \<and>
     (case response of Some ob \<Rightarrow> (case pick ob of Some x \<Rightarrow> ok x | None \<Rightarrow> False) | None \<Rightarrow> False)"

definition many :: "ctype \<Rightarrow> (obj \<Rightarrow> 'a list option) \<Rightarrow> ('a \<Rightarrow> bool) \<Rightarrow> data_type" where
  "many type pick ok s response len \<longleftrightarrow>
     (case response of Some ob \<Rightarrow>
        (case pick ob of Some xs \<Rightarrow> len = length xs * size_of (sizeof_pointer s) type \<and> list_all ok xs | None \<Rightarrow> False)
      | None \<Rightarrow> len = 0)"

definition hardware_ok :: "RIL_HardwareConfig \<Rightarrow> bool" where
  "hardware_ok h \<longleftrightarrow> (case hw_cfg h of HwModem a b c d e \<Rightarrow> hw_type h \<noteq> 1 | HwSim u \<Rightarrow> hw_type h \<noteq> 0
     | HwOther \<Rightarrow> hw_type h \<noteq> 0 \<and> hw_type h \<noteq> 1)"

definition cdma_sms_ok :: "RIL_CDMA_SMS_Message \<Rightarrow> bool" where
  "cdma_sms_ok m \<longleftrightarrow> length (address_digits (sAddress m)) = RIL_CDMA_SMS_ADDRESS_MAX \<and> number_of_digits (sAddress m) \<ge> 0
     \<and> length (sub_digits (sSubAddress m)) = RIL_CDMA_SMS_SUBADDRESS_MAX \<and> sub_number_of_digits (sSubAddress m) \<ge> 0
     \<and> length (aBearerData m) = RIL_CDMA_SMS_BEARER_DATA_MAX \<and> uBearerDataLen m \<ge> 0"

definition text_ok :: "nat \<Rightarrow> int \<Rightarrow> string \<Rightarrow> bool" where
  "text_ok limit len buf \<longleftrightarrow> 0 \<le> len \<and> len \<le> int limit \<and> length buf = limit"

definition info_ok :: "RIL_CDMA_InformationRecord \<Rightarrow> bool" where
  "info_ok record \<longleftrightarrow> (case record of
     DisplayRec name len buf \<Rightarrow> (name = 0 \<or> name = 7) \<and> text_ok CDMA_ALPHA_INFO_BUFFER_LENGTH len buf
   | NumberRec name n \<Rightarrow> 1 \<le> name \<and> name \<le> 3 \<and> text_ok CDMA_NUMBER_INFO_BUFFER_LENGTH (ni_len n) (ni_buf n)
   | RedirRec n reason \<Rightarrow> text_ok CDMA_NUMBER_INFO_BUFFER_LENGTH (ni_len n) (ni_buf n)
   | OtherRec name \<Rightarrow> False
   | _ \<Rightarrow> True)"

definition info_recs_ok :: "RIL_CDMA_InformationRecords \<Rightarrow> bool" where
  "info_recs_ok r \<longleftrightarrow> 0 \<le> numberOfInfoRecs r \<and> length (infoRec r) = RIL_CDMA_MAX_NUMBER_OF_INFO_RECS
     \<and> list_all info_ok (take (nat (numberOfInfoRecs r)) (infoRec r))"

definition ss_ok :: "RIL_StkCcUnsolSsResponse \<Rightarrow> bool" where
  "ss_ok r \<longleftrightarrow> (case ss_data r of
     CfData d \<Rightarrow> isServiceTypeCfQuery (ss_serviceType r) (ss_requestType r)
       \<and> 0 \<le> cfd_numValidIndexes d \<and> length (cfd_cfInfo d) = NUM_SERVICE_CLASSES
   | SsInfo xs \<Rightarrow> \<not> isServiceTypeCfQuery (ss_serviceType r) (ss_requestType r) \<and> length xs = SS_INFO_MAX)"

definition pco_ok :: "RIL_PCO_Data \<Rightarrow> bool" where
  "pco_ok d \<longleftrightarrow> 0 \<le> pco_contents_length d \<and> pco_contents_length d \<le> int (length (pco_contents d))"

definition a_scan :: data_type where
  "a_scan s response len \<longleftrightarrow> len \<noteq> 0 \<and> (case response of
     Some (ObjScan r) \<Rightarrow> 0 \<le> sc_network_infos_length r \<and> sc_network_infos_length r \<le> int (length (sc_network_infos r))
   | _ \<Rightarrow> False)"

definition a_keepalive :: data_type where
  "a_keepalive s response len \<longleftrightarrow> len = sizeof_KeepaliveStatus s
     \<and> (case response of Some (ObjKeepalive k) \<Rightarrow> True | _ \<Rightarrow> False)"

section \<open>The functions by name\<close>

text \<open>The function, the callback it calls, the data it takes.\<close>

definition indication_functions :: "(string \<times> string \<times> data_type \<times> indication_fn) list" where
  "indication_functions =
   [(''radioStateChangedInd'', ''radioStateChanged'', anything, radioStateChangedInd),
    (''callStateChangedInd'', ''callStateChanged'', anything, callStateChangedInd),
    (''networkStateChangedInd'', ''networkStateChanged'', anything, networkStateChangedInd),
    (''newSmsInd'', ''newSms'', a_pdu, newSmsInd),
    (''newSmsStatusReportInd'', ''newSmsStatusReport'', a_pdu, newSmsStatusReportInd),
    (''newSmsOnSimInd'', ''newSmsOnSim'', an_int, newSmsOnSimInd),
    (''onUssdInd'', ''onUssd'', two_texts, onUssdInd),
    (''nitzTimeReceivedInd'', ''nitzTimeReceived'', a_text, nitzTimeReceivedInd),
    (''currentSignalStrengthInd'', ''currentSignalStrength'', one RIL_SignalStrength_v10_type signal_of (\<lambda>_. True), currentSignalStrengthInd),
    (''dataCallListChangedInd'', ''dataCallListChanged'', many RIL_Data_Call_Response_v11_type data_calls_of (\<lambda>_. True), dataCallListChangedInd),
    (''suppSvcNotifyInd'', ''suppSvcNotify'', one RIL_SuppSvcNotification_type supp_svc_of (\<lambda>_. True), suppSvcNotifyInd),
    (''stkSessionEndInd'', ''stkSessionEnd'', anything, stkSessionEndInd),
    (''stkProactiveCommandInd'', ''stkProactiveCommand'', a_text, stkProactiveCommandInd),
    (''stkEventNotifyInd'', ''stkEventNotify'', a_text, stkEventNotifyInd),
    (''stkCallSetupInd'', ''stkCallSetup'', an_int, stkCallSetupInd),
    (''simSmsStorageFullInd'', ''simSmsStorageFull'', anything, simSmsStorageFullInd),
    (''simRefreshInd'', ''simRefresh'', one RIL_SimRefreshResponse_v7_type refresh_of (\<lambda>_. True), simRefreshInd),
    (''callRingInd'', ''callRing'', one RIL_CDMA_SignalInfoRecord_type signal_info_of (\<lambda>_. True), callRingInd),
    (''simStatusChangedInd'', ''simStatusChanged'', anything, simStatusChangedInd),
    (''cdmaNewSmsInd'', ''cdmaNewSms'', one RIL_CDMA_SMS_Message_type cdma_sms_of cdma_sms_ok, cdmaNewSmsInd),
    (''newBroadcastSmsInd'', ''newBroadcastSms'', some_bytes, newBroadcastSmsInd),
    (''cdmaRuimSmsStorageFullInd'', ''cdmaRuimSmsStorageFull'', anything, cdmaRuimSmsStorageFullInd),
    (''restrictedStateChangedInd'', ''restrictedStateChanged'', an_int, restrictedStateChangedInd),
    (''enterEmergencyCallbackModeInd'', ''enterEmergencyCallbackMode'', anything, enterEmergencyCallbackModeInd),
    (''cdmaCallWaitingInd'', ''cdmaCallWaiting'', one RIL_CDMA_CallWaiting_v6_type call_waiting_of (\<lambda>_. True), cdmaCallWaitingInd),
    (''cdmaOtaProvisionStatusInd'', ''cdmaOtaProvisionStatus'', an_int, cdmaOtaProvisionStatusInd),
    (''cdmaInfoRecInd'', ''cdmaInfoRec'', one RIL_CDMA_InformationRecords_type info_recs_of info_recs_ok, cdmaInfoRecInd),
    (''oemHookRawInd'', ''oemHookRaw'', some_bytes, oemHookRawInd),
    (''indicateRingbackToneInd'', ''indicateRingbackTone'', an_int, indicateRingbackToneInd),
    (''resendIncallMuteInd'', ''resendIncallMute'', anything, resendIncallMuteInd),
    (''cdmaSubscriptionSourceChangedInd'', ''cdmaSubscriptionSourceChanged'', an_int, cdmaSubscriptionSourceChangedInd),
    (''cdmaPrlChangedInd'', ''cdmaPrlChanged'', an_int, cdmaPrlChangedInd),
    (''exitEmergencyCallbackModeInd'', ''exitEmergencyCallbackMode'', anything, exitEmergencyCallbackModeInd),
    (''rilConnectedInd'', ''rilConnected'', anything, rilConnectedInd),
    (''voiceRadioTechChangedInd'', ''voiceRadioTechChanged'', an_int, voiceRadioTechChangedInd),
    (''cellInfoListInd'', ''cellInfoList'', many RIL_CellInfo_v12_type cells_of (\<lambda>_. True), cellInfoListInd),
    (''imsNetworkStateChangedInd'', ''imsNetworkStateChanged'', anything, imsNetworkStateChangedInd),
    (''subscriptionStatusChangedInd'', ''subscriptionStatusChanged'', an_int, subscriptionStatusChangedInd),
    (''srvccStateNotifyInd'', ''srvccStateNotify'', an_int, srvccStateNotifyInd),
    (''hardwareConfigChangedInd'', ''hardwareConfigChanged'', many RIL_HardwareConfig_type hardware_of hardware_ok, hardwareConfigChangedInd),
    (''radioCapabilityIndicationInd'', ''radioCapabilityIndication'', one RIL_RadioCapability_type capability_of (\<lambda>_. True), radioCapabilityIndicationInd),
    (''onSupplementaryServiceIndicationInd'', ''onSupplementaryServiceIndication'', one RIL_StkCcUnsolSsResponse_type ss_of ss_ok, onSupplementaryServiceIndicationInd),
    (''stkCallControlAlphaNotifyInd'', ''stkCallControlAlphaNotify'', a_text, stkCallControlAlphaNotifyInd),
    (''lceDataInd'', ''lceData'', one RIL_LceDataInfo_type lce_data_of (\<lambda>_. True), lceDataInd),
    (''pcoDataInd'', ''pcoData'', one RIL_PCO_Data_type pco_of pco_ok, pcoDataInd),
    (''modemResetInd'', ''modemReset'', a_text, modemResetInd),
    (''carrierInfoForImsiEncryption'', ''carrierInfoForImsiEncryption'', some_data, carrierInfoForImsiEncryption),
    (''networkScanResultInd'', ''networkScanResult'', a_scan, networkScanResultInd),
    (''keepaliveStatusInd'', ''keepaliveStatus'', a_keepalive, keepaliveStatusInd)]"

text \<open>Every function of the table of unsolicited responses is in the list.\<close>

lemma unsol_functions_list:
  "List.map_filter unsolFunction s_unsolResponses =
     map fst (take 7 indication_functions) @ [''onUssdInd''] @ map fst (drop 7 indication_functions)"
  by (simp add: s_unsolResponses_def unsol_rows_def unsol_row_def indication_functions_def map_filter_simps)

lemma unsol_functions:
  assumes "row \<in> set s_unsolResponses" and "unsolFunction row = Some f"
  shows "\<exists>m d g. (f, m, d, g) \<in> set indication_functions"
proof -
  have "f \<in> set (List.map_filter unsolFunction s_unsolResponses)"
    using assms by (force simp: List.map_filter_def)
  then consider p where "p \<in> set indication_functions" "f = fst p" | "f = ''onUssdInd''"
    unfolding unsol_functions_list by (auto dest: in_set_takeD in_set_dropD)
  then show ?thesis
  proof cases
    case 1
    then show ?thesis by (metis surjective_pairing)
  next
    case 2
    have "(''onUssdInd'', ''onUssd'', two_texts, onUssdInd) \<in> set indication_functions"
      unfolding indication_functions_def by (intro list.set_intros)
    with 2 show ?thesis by blast
  qed
qed

section \<open>At most one callback\<close>

text \<open>A program during which the client hears nothing.\<close>

definition silent :: "'a sprog \<Rightarrow> bool" where
  "silent m \<longleftrightarrow> (\<forall>s x t. m s = Done x t \<longrightarrow> heard t = heard s)"

text \<open>A program that returns \<open>0\<close>, and during which the client hears the callback \<open>method\<close> once or nothing.\<close>

definition reports :: "string \<Rightarrow> nat \<Rightarrow> int \<Rightarrow> int sprog \<Rightarrow> bool" where
  "reports method slot ty m \<longleftrightarrow> (\<forall>s r t. m s = Done r t \<longrightarrow> r = 0 \<and>
     (heard t = heard s \<or> (\<exists>args. heard t = heard s @ [(slot, method, HInd (convertIntToRadioIndicationType ty) # args)])))"

named_theorems reports_intros "programs that call the client once at most"

lemma reads_silent: "reads (\<lambda>_. True) m \<Longrightarrow> silent m"
  by (auto simp: reads_def silent_def)

lemma silent_basic [reports_intros]:
  "silent (ret x)" "silent (crash fault)" "silent (gets f)"
  "(\<And>s. heard (g s) = heard s) \<Longrightarrow> silent (modify g)"
  by (simp_all add: silent_def run_simps)

lemma silent_bnd [reports_intros]: "silent m \<Longrightarrow> (\<And>x. silent (f x)) \<Longrightarrow> silent (bnd m f)"
  unfolding silent_def bnd_Done by metis

lemma silent_andthen [reports_intros]: "silent m \<Longrightarrow> silent k \<Longrightarrow> silent (andthen m k)"
  unfolding andthen_def by (rule silent_bnd)

lemma silent_cases [reports_intros]:
  "silent a \<Longrightarrow> silent b \<Longrightarrow> silent (if c then a else b)"
  "silent a \<Longrightarrow> (\<And>x. silent (g x)) \<Longrightarrow> silent (case v of None \<Rightarrow> a | Some x \<Rightarrow> g x)"
  by (simp_all split: option.split)

lemma heard_callbacks [simp]:
  "heard (set_radio slot a b s) = heard s" "heard (set_oem slot a s) = heard s" "heard (set_callbacks r slot a s) = heard s"
  by (simp_all add: set_radio_def set_oem_def set_callbacks_def)

lemma silent_check [reports_intros]: "silent (checkReturnStatus_svc slot ok r)"
  unfolding checkReturnStatus_svc_def unlocked_def
  by (intro reports_intros) (auto split: list.split)

lemma reports_basic [reports_intros]: "reports method slot ty (ret 0)" "reports method slot ty (crash fault)"
  by (simp_all add: reports_def run_simps)

lemma reports_bnd [reports_intros]:
  assumes "silent m" and "\<And>x. reports method slot ty (f x)"
  shows "reports method slot ty (bnd m f)"
  unfolding reports_def
proof (intro allI impI)
  fix s r t assume "bnd m f s = Done r t"
  then obtain y u where "m s = Done y u" "f y u = Done r t" by (auto simp: bnd_Done)
  moreover from this have "heard u = heard s" using assms(1) unfolding silent_def by blast
  ultimately show "r = 0 \<and> (heard t = heard s \<or>
      (\<exists>args. heard t = heard s @ [(slot, method, HInd (convertIntToRadioIndicationType ty) # args)]))"
    using assms(2) [of y] unfolding reports_def by metis
qed

lemma reports_andthen [reports_intros]: "silent m \<Longrightarrow> reports method slot ty k \<Longrightarrow> reports method slot ty (andthen m k)"
  unfolding andthen_def by (rule reports_bnd)

lemma reports_cases [reports_intros]:
  "reports method slot ty a \<Longrightarrow> reports method slot ty b \<Longrightarrow> reports method slot ty (if c then a else b)"
  "reports method slot ty a \<Longrightarrow> (\<And>x. reports method slot ty (g x)) \<Longrightarrow> reports method slot ty (case v of None \<Rightarrow> a | Some x \<Rightarrow> g x)"
  by (simp_all split: option.split)

lemma reports_indicate [reports_intros]: "reports method slot ty (indicate r slot method ty args)"
  unfolding reports_def
proof (intro allI impI)
  fix s x t assume run: "indicate r slot method ty args s = Done x t"
  define ok where "ok = (case client_ok s of [] \<Rightarrow> True | ok # _ \<Rightarrow> ok)"
  let ?call = "(slot, method, HInd (convertIntToRadioIndicationType ty) # args)"
  let ?u = "s\<lparr>client_ok := tl (client_ok s), heard := if ok then heard s @ [?call] else heard s\<rparr>"
  obtain y u where "checkReturnStatus_svc slot ok r ?u = Done y u" and "t = u" and "x = 0"
    using run by (auto simp: indicate_def tell_def Let_def ok_def bnd_Done andthen_Done gets_def modify_def ret_def)
  then have "heard t = heard ?u" using silent_check unfolding silent_def by blast
  then show "x = 0 \<and> (heard t = heard s \<or> (\<exists>args. heard t = heard s @ [(slot, method, HInd (convertIntToRadioIndicationType ty) # args)]))"
    using \<open>x = 0\<close> by (auto split: if_splits)
qed

lemma reports_shapes [reports_intros]:
  "reports method slot ty m \<Longrightarrow> reports method slot ty (with_indication slot m)"
  "reports method slot ty m \<Longrightarrow> reports method slot ty (with_indicationV1_1 slot m)"
  "reports method slot ty m \<Longrightarrow> reports method slot ty (unless_bad bad m)"
  "reports method slot ty (ind_plain method slot ty token e response n)"
  unfolding with_indication_def with_indicationV1_1_def unless_bad_def ind_plain_def
  by (intro reports_intros; assumption?)+

lemma silent_cast [reports_intros]: "silent (cast f r)"
  by (intro reads_silent tells_intros)

lemma silent_arrays [reports_intros]:
  "silent (first_n n xs)" "silent (first_int k xs)" "silent (set_external xs k)"
  "silent (int_at n is)" "silent (elements f r n)" "silent (pointed ps)" "silent (convert_hardwares hs)"
  "silent (response_string r)"
  unfolding set_external_def response_string_def
  by (intro reads_silent tells_intros TrueI)+

lemma silent_converters [reports_intros]:
  "silent (convertRilCellInfoListToHal p r n)" "silent (convertRilDataCallListToHal p r n)"
  "silent (convertRilHardwareConfigListToHal p r n)" "silent (convertRilRadioCapabilityToHal r)"
  "silent (convertRilLceDataInfoToHal r)" "silent (convertRilKeepaliveStatusToHal r)"
  unfolding convertRilCellInfoListToHal_def convertRilDataCallListToHal_def convertRilHardwareConfigListToHal_def
    convertRilRadioCapabilityToHal_def convertRilLceDataInfoToHal_def convertRilKeepaliveStatusToHal_def
  by (intro reports_intros)+

lemma reports_plain_shapes [reports_intros]:
  "reports method slot ty (ind_int method arg slot ty token e response n)"
  "reports method slot ty (ind_string method slot ty token e response n)"
  unfolding ind_int_def ind_string_def by (intro reports_intros)+

lemma reports_struct_shapes [reports_intros]:
  "(\<And>r. silent (conv r)) \<Longrightarrow> reports method slot ty (ind_struct method type conv slot ty token e response n)"
  "(\<And>p r n. silent (convs p r n)) \<Longrightarrow> reports method slot ty (ind_list method type convs arg slot ty token e response n)"
  unfolding ind_struct_def ind_list_def by (intro reports_intros; assumption?)+

lemma silent_allocate [reports_intros]: "silent allocate"
  unfolding allocate_def by (intro reports_intros) simp

lemma silent_hex_loop [reports_intros]: "silent (hex_loop n bs)"
  by (induction n bs rule: hex_loop.induct) (auto simp: Let_def intro!: reports_intros)

lemma reports_pdu [reports_intros]: "reports method slot ty (ind_pdu method slot ty token e response n)"
  unfolding ind_pdu_def convertHexStringToBytes_def by (intro reports_intros)

lemma silent_copied_text [reports_intros]: "silent (copied_text k n buf)" "silent (convert_number x)"
  unfolding convert_number_def copied_text_def by (intro reports_intros)+

lemma silent_infos [reports_intros]: "silent (convert_infos rs)"
proof (induction rs)
  case (Cons r rs)
  have "silent (convert_info r)"
    unfolding convert_info_def by (cases r) (auto intro!: reports_intros)
  with Cons show ?case by (auto intro!: reports_intros)
qed (simp add: silent_basic)

lemma silent_ss [reports_intros]: "silent (convert_ss_data r)"
  unfolding convert_ss_data_def by (auto intro!: reports_intros split: ss_union.split)

lemma silent_cdma_sms [reports_intros]: "silent (convert_cdma_sms m)"
  unfolding convert_cdma_sms_def by (intro reports_intros)

lemmas simple_indications =
  callStateChangedInd_def networkStateChangedInd_def stkSessionEndInd_def simSmsStorageFullInd_def
  simStatusChangedInd_def cdmaRuimSmsStorageFullInd_def enterEmergencyCallbackModeInd_def resendIncallMuteInd_def
  exitEmergencyCallbackModeInd_def rilConnectedInd_def imsNetworkStateChangedInd_def
  newSmsOnSimInd_def stkCallSetupInd_def restrictedStateChangedInd_def cdmaOtaProvisionStatusInd_def
  cdmaSubscriptionSourceChangedInd_def cdmaPrlChangedInd_def voiceRadioTechChangedInd_def srvccStateNotifyInd_def
  indicateRingbackToneInd_def subscriptionStatusChangedInd_def stkProactiveCommandInd_def stkEventNotifyInd_def
  stkCallControlAlphaNotifyInd_def modemResetInd_def newSmsInd_def newSmsStatusReportInd_def
  dataCallListChangedInd_def cellInfoListInd_def hardwareConfigChangedInd_def

lemmas struct_indications =
  currentSignalStrengthInd_def radioCapabilityIndicationInd_def lceDataInd_def suppSvcNotifyInd_def simRefreshInd_def
  cdmaCallWaitingInd_def cdmaNewSmsInd_def onSupplementaryServiceIndicationInd_def pcoDataInd_def

lemmas other_indications =
  radioStateChangedInd_def onUssdInd_def newBroadcastSmsInd_def oemHookRawInd_def callRingInd_def
  cdmaInfoRecInd_def networkScanResultInd_def carrierInfoForImsiEncryption_def keepaliveStatusInd_def

lemma each_reports:
  "list_all (\<lambda>(f, m, d, g). f = ''nitzTimeReceivedInd'' \<or> reports m slot ty (g slot ty token e r n)) indication_functions"
  unfolding indication_functions_def list.pred_inject prod.case
  by (intro conjI TrueI, ((rule disjI1, rule refl)
      | (rule disjI2, (unfold simple_indications struct_indications other_indications)?, (intro reports_intros; simp; fail)?))+, simp)

lemma nitz_entry:
  "list_all (\<lambda>(f, m, d, g). f = ''nitzTimeReceivedInd'' \<longrightarrow> m = ''nitzTimeReceived'' \<and> g = nitzTimeReceivedInd) indication_functions"
  unfolding indication_functions_def by simp

lemma nitz_reports:
  assumes "nitzTimeReceivedInd slot ty token e response n s = Done r t"
  shows "(\<not> mRadioIndication s slot \<longrightarrow> r = -1 \<and> t = s)
    \<and> (mRadioIndication s slot \<longrightarrow> r = 0 \<and> (heard t = heard s
        \<or> (\<exists>args. heard t = heard s @ [(slot, ''nitzTimeReceived'', HInd (convertIntToRadioIndicationType ty) # args)])))"
proof -
  let ?go = "unless_bad (response = None \<or> n = 0)
           (bnd (response_string response) (\<lambda>nitzTime. bnd (gets (\<lambda>s. nitzTimeReceived s slot)) (\<lambda>received.
             indicate True slot ''nitzTimeReceived'' ty [HStr nitzTime, HInt received])))"
  have "reports ''nitzTimeReceived'' slot ty ?go" by (intro reports_intros)
  then show ?thesis
    using assms unfolding reports_def nitzTimeReceivedInd_def
    by (auto simp: bnd_def gets_def ret_def split: if_splits)
qed



end
