(* ===== verification/SvcDelivery.thy ===== *)
theory SvcDelivery
  imports SvcNotices
begin

text \<open>
  Data of the type that an indication takes reach the client: no function reads past them, and each
  calls its callback once.
\<close>

section \<open>Runs that succeed\<close>

text \<open>A program that returns \<open>x\<close> and leaves the state.\<close>

definition gives :: "'a sprog \<Rightarrow> svc \<Rightarrow> 'a \<Rightarrow> bool" where
  "gives m s x \<longleftrightarrow> m s = Done x s"

text \<open>A program that calls the client once.\<close>

definition lands :: "string \<Rightarrow> nat \<Rightarrow> int \<Rightarrow> int sprog \<Rightarrow> svc \<Rightarrow> bool" where
  "lands method slot ty m s \<longleftrightarrow> (\<exists>args.
     m s = Done 0 (s\<lparr>heard := heard s @ [(slot, method, HInd (convertIntToRadioIndicationType ty) # args)]\<rparr>))"

text \<open>A slot whose clients have set all their callbacks and can be reached, on a machine of 32 or 64 bits.\<close>

definition attended :: "nat \<Rightarrow> svc \<Rightarrow> bool" where
  "attended slot s \<longleftrightarrow> mRadioIndication s slot \<and> mRadioIndicationV1_1 s slot \<and> kOemHookEnabled s
     \<and> mOemHookIndication s slot \<and> client_ok s = [] \<and> can_malloc s = [] \<and> sizeof_pointer s \<in> {4, 8}"

named_theorems lands_intros "programs that call the client once"

lemma gives_basic [lands_intros]:
  "gives (ret x) s x" "gives (gets f) s (f s)"
  "n \<le> length xs \<Longrightarrow> gives (first_n n xs) s (take n xs)"
  "0 \<le> k \<Longrightarrow> k \<le> int (length xs) \<Longrightarrow> gives (first_int k xs) s (take (nat k) xs)"
  "i < length ys \<Longrightarrow> gives (int_at i ys) s (ys ! i)"
  by (auto simp: gives_def run_simps first_n_def first_int_def int_at_def)

lemma gives_cast [lands_intros]: "f ob = Some x \<Longrightarrow> gives (cast f (Some ob)) s x"
  by (simp add: gives_def cast_def run_simps)

lemma gives_elements [lands_intros]:
  "f ob = Some xs \<Longrightarrow> n \<le> length xs \<Longrightarrow> gives (elements f (Some ob) n) s (take n xs)"
  by (cases n) (simp_all add: gives_def elements_def cast_def first_n_def run_simps)

lemma gives_bnd [lands_intros]: "gives m s x \<Longrightarrow> gives (f x) s y \<Longrightarrow> gives (bnd m f) s y"
  by (simp add: gives_def run_simps)

lemma same_malloc: "can_malloc s = [] \<Longrightarrow> s\<lparr>can_malloc := []\<rparr> = s"
  by (cases s) simp

lemma gives_allocate [lands_intros]: "can_malloc s = [] \<Longrightarrow> gives allocate s True"
  by (simp add: gives_def allocate_def run_simps same_malloc)

lemma lands_bnd [lands_intros]: "gives m s x \<Longrightarrow> lands method slot ty (f x) s \<Longrightarrow> lands method slot ty (bnd m f) s"
  by (simp add: gives_def lands_def run_simps)

lemma lands_indicate [lands_intros]:
  "attended slot s \<Longrightarrow> lands method slot ty (indicate r slot method ty args) s"
  by (auto simp: lands_def attended_def indicate_def andthen_def bnd_def ret_def tell_run)

lemma lands_up [lands_intros]:
  "attended slot s \<Longrightarrow> lands method slot ty m s \<Longrightarrow> lands method slot ty (with_indication slot m) s"
  "attended slot s \<Longrightarrow> lands method slot ty m s \<Longrightarrow> lands method slot ty (with_indicationV1_1 slot m) s"
  by (simp_all add: lands_def attended_def with_indication_def with_indicationV1_1_def run_simps)

lemma lands_good [lands_intros]:
  "\<not> bad \<Longrightarrow> lands method slot ty m s \<Longrightarrow> lands method slot ty (unless_bad bad m) s"
  by (simp add: unless_bad_def)

section \<open>Each shape\<close>

lemma lands_plain: "attended slot s \<Longrightarrow> lands method slot ty (ind_plain method slot ty token e response n) s"
  unfolding ind_plain_def by (intro lands_intros)

lemma lands_int:
  assumes "attended slot s" and "an_int s response n"
  shows "lands method slot ty (ind_int method arg slot ty token e response n) s"
proof -
  obtain x xs where "response = Some (ObjInts (x # xs))" "n = 4"
    using assms(2) by (auto simp: an_int_def split: option.splits obj.splits list.splits)
  note data = this
  show ?thesis
    unfolding ind_int_def data
    by (rule lands_up [OF assms(1)], rule lands_good, simp, rule lands_bnd [OF gives_cast], simp,
        rule lands_bnd [OF gives_basic(5)], simp, rule lands_indicate [OF assms(1)])
qed

lemma lands_text:
  assumes "attended slot s" and "a_text s response n"
  shows "lands method slot ty (ind_string method slot ty token e response n) s"
proof -
  obtain x where "response = Some (ObjStr x)" "n \<noteq> 0"
    using assms(2) by (auto simp: a_text_def split: option.splits obj.splits)
  note data = this
  have "gives (response_string (Some (ObjStr x))) s x" by (simp add: response_string_def gives_cast)
  note str = this
  show ?thesis
    unfolding ind_string_def data
    by (rule lands_up [OF assms(1)], rule lands_good, simp add: \<open>n \<noteq> 0\<close>, rule lands_bnd [OF str],
        rule lands_indicate [OF assms(1)])
qed

lemma lands_struct:
  assumes "attended slot s" and "one type pick ok s response n"
    and "\<And>ob x. pick ob = Some x \<Longrightarrow> ok x \<Longrightarrow> \<exists>y. gives (conv (Some ob)) s y"
  shows "lands method slot ty (ind_struct method type conv slot ty token e response n) s"
proof -
  obtain ob x where "response = Some ob" "pick ob = Some x" "ok x" "n = size_of (sizeof_pointer s) type"
    using assms(2) by (auto simp: one_def split: option.splits)
  note data = this
  then obtain y where y: "gives (conv (Some ob)) s y" using assms(3) by blast
  show ?thesis
    unfolding ind_struct_def data
    by (rule lands_up [OF assms(1)], rule lands_bnd [OF gives_basic(2)], rule lands_good, simp,
        rule lands_bnd [OF y], rule lands_indicate [OF assms(1)])
qed

lemma lands_list:
  assumes "attended slot s" and "many type pick ok s response n" and "size_of (sizeof_pointer s) type > 0"
    and "\<And>r k xs. (if k = 0 then xs = [] else \<exists>ob. r = Some ob \<and> pick ob = Some xs)
        \<Longrightarrow> k = length xs * size_of (sizeof_pointer s) type \<Longrightarrow> list_all ok xs \<Longrightarrow> \<exists>y. gives (conv (sizeof_pointer s) r k) s y"
  shows "lands method slot ty (ind_list method type conv arg slot ty token e response n) s"
proof -
  obtain xs where xs: "if n = 0 then xs = [] else \<exists>ob. response = Some ob \<and> pick ob = Some xs"
      "n = length xs * size_of (sizeof_pointer s) type" "list_all ok xs"
  proof (cases response)
    case None
    with assms(2) that [of "[]"] show ?thesis by (auto simp: many_def)
  next
    case (Some ob)
    with assms(2) obtain ys where "pick ob = Some ys" "n = length ys * size_of (sizeof_pointer s) type" "list_all ok ys"
      by (auto simp: many_def split: option.splits)
    with Some assms(3) that [of ys] show ?thesis by (cases ys) auto
  qed
  then obtain y where y: "gives (conv (sizeof_pointer s) response n) s y" using assms(4) by blast
  have "\<not> bad_list response n (size_of (sizeof_pointer s) type)"
    using xs(1,2) by (auto simp: bad_list_def split: if_splits)
  note good = this
  show ?thesis
    unfolding ind_list_def
    by (rule lands_up [OF assms(1)], rule lands_bnd [OF gives_basic(2)], rule lands_good [OF good],
        rule lands_bnd [OF y], rule lands_indicate [OF assms(1)])
qed

section \<open>The conversions\<close>

lemma gives_lists:
  assumes "p = 4 \<or> p = 8" and "k = length xs * size_of p type"
    and "if k = 0 then xs = [] else \<exists>ob. r = Some ob \<and> pick ob = Some xs" and "0 < size_of p type"
  shows "gives (elements pick r (k div size_of p type)) s xs"
proof (cases "xs = []")
  case True
  with assms show ?thesis by (simp add: gives_def elements_def run_simps)
next
  case False
  with assms obtain ob where "r = Some ob" "pick ob = Some xs" by (auto split: if_splits)
  moreover have "k div size_of p type = length xs" using assms by simp
  ultimately show ?thesis using gives_elements [of pick ob xs "length xs" s] by simp
qed

lemma list_sizes_32:
  "0 < size_of 4 RIL_Data_Call_Response_v11_type" "0 < size_of 4 RIL_CellInfo_v12_type" "0 < size_of 4 RIL_HardwareConfig_type"
  by code_simp+

lemma list_sizes_64:
  "0 < size_of 8 RIL_Data_Call_Response_v11_type" "0 < size_of 8 RIL_CellInfo_v12_type" "0 < size_of 8 RIL_HardwareConfig_type"
  by code_simp+

lemma list_sizes:
  assumes "p = 4 \<or> p = 8"
  shows "0 < size_of p RIL_Data_Call_Response_v11_type" "0 < size_of p RIL_CellInfo_v12_type"
    "0 < size_of p RIL_HardwareConfig_type"
  using assms list_sizes_32 list_sizes_64 by blast+

lemma gives_hardwares: "list_all hardware_ok hs \<Longrightarrow> \<exists>y. gives (convert_hardwares hs) s y"
proof (induction hs)
  case (Cons h hs)
  have "\<exists>x. gives (convert_hardware h) s x"
    using Cons.prems
    by (cases "hw_cfg h") (auto simp: convert_hardware_def hardware_ok_def Let_def intro!: exI gives_basic(1))
  then obtain x where "gives (convert_hardware h) s x" by blast
  moreover obtain y where "gives (convert_hardwares hs) s y" using Cons by auto
  ultimately show ?case by (auto simp: gives_def run_simps)
qed (auto intro: gives_basic)

lemma gives_converted:
  assumes "p = 4 \<or> p = 8" and "k = length xs * size_of p type"
    and "if k = 0 then xs = [] else \<exists>ob. r = Some ob \<and> pick ob = Some xs" and "0 < size_of p type"
    and "\<exists>y. gives (f xs) s y"
  shows "\<exists>y. gives (bnd (elements pick r (k div size_of p type)) f) s y"
proof -
  obtain y where "gives (f xs) s y" using assms(5) by blast
  then show ?thesis by (intro exI) (rule gives_bnd [OF gives_lists [OF assms(1-4)]])
qed

lemma gives_hex_loop:
  assumes "2 * n \<le> length bs" and "list_all hex_digit (take (2 * n) bs)"
  shows "\<exists>ys. gives (hex_loop n bs) s (Some ys)"
  using assms
proof (induction n bs rule: hex_loop.induct)
  case (2 n a b hexString)
  have ok: "hexCharToInt a \<noteq> INVALID_HEX_CHAR" "hexCharToInt b \<noteq> INVALID_HEX_CHAR"
    using 2(3) by (simp_all add: hex_digit_def)
  obtain ys where "gives (hex_loop n hexString) s (Some ys)" using 2 ok by auto
  with ok show ?case by (auto simp: gives_def run_simps)
qed (auto simp: gives_def run_simps)

lemma gives_pdu:
  assumes "attended slot s" and "a_pdu s response n"
  shows "\<exists>ys. gives (convertHexStringToBytes response n) s (Some ys)"
proof -
  obtain ob bs where data: "response = Some ob" "bytes_of ob = Some bs" "n \<le> length bs" "list_all hex_digit (take n bs)" "even n"
    using assms(2) by (auto simp: a_pdu_def split: option.splits)
  then have half: "2 * (n div 2) = n" by simp
  obtain ys where "gives (hex_loop (n div 2) bs) s (Some ys)"
    using gives_hex_loop [of "n div 2" bs s] data(3,4) half by auto
  moreover have "gives allocate s True" using assms(1) by (intro gives_allocate) (simp add: attended_def)
  ultimately show ?thesis
    using data by (auto simp: convertHexStringToBytes_def gives_def run_simps cast_def)
qed

lemma gives_text:
  assumes "can_malloc s = []" and "text_ok limit len buf"
  shows "\<exists>str. gives (copied_text limit len buf) s (Some str)"
  using assms gives_allocate [OF assms(1)]
  by (auto simp: copied_text_def text_ok_def gives_def run_simps first_n_def)

lemma gives_number:
  assumes "can_malloc s = []" and "text_ok CDMA_NUMBER_INFO_BUFFER_LENGTH (ni_len n) (ni_buf n)"
  shows "\<exists>y. gives (convert_number n) s (Some y)"
  using gives_text [OF assms] by (auto simp: convert_number_def gives_def run_simps)

lemma gives_info:
  assumes "can_malloc s = []" and "info_ok r"
  shows "\<exists>y. gives (convert_info r) s (Some y)"
proof (cases r)
  case (DisplayRec name len buf)
  then show ?thesis
    using assms gives_text [OF assms(1), of CDMA_ALPHA_INFO_BUFFER_LENGTH len buf]
    by (auto simp: convert_info_def info_ok_def gives_def run_simps)
next
  case (NumberRec name n)
  then show ?thesis
    using assms gives_number [OF assms(1), of n] by (auto simp: convert_info_def info_ok_def gives_def run_simps)
next
  case (RedirRec n reason)
  then show ?thesis
    using assms gives_number [OF assms(1), of n] by (auto simp: convert_info_def info_ok_def gives_def run_simps)
qed (use assms(2) in \<open>simp_all add: convert_info_def info_ok_def gives_def ret_def\<close>)

lemma gives_infos:
  assumes "can_malloc s = []" and "list_all info_ok rs"
  shows "\<exists>ys. gives (convert_infos rs) s (Some ys)"
  using assms(2)
proof (induction rs)
  case (Cons r rs)
  obtain y where "gives (convert_info r) s (Some y)" using gives_info [OF assms(1)] Cons.prems by auto
  moreover obtain ys where "gives (convert_infos rs) s (Some ys)" using Cons by auto
  ultimately show ?case by (auto simp: gives_def run_simps)
qed (simp add: gives_def ret_def)

lemma gives_cdma_sms: "cdma_sms_ok m \<Longrightarrow> \<exists>y. gives (convert_cdma_sms m) s y"
  by (auto simp: cdma_sms_ok_def convert_cdma_sms_def set_external_def gives_def run_simps first_int_def first_n_def)

lemma gives_ss: "ss_ok r \<Longrightarrow> \<exists>y. gives (convert_ss_data r) s y"
  by (auto simp: ss_ok_def convert_ss_data_def gives_def run_simps first_int_def first_n_def split: ss_union.splits)

section \<open>Every function\<close>

text \<open>What a function of the list does with data of its type.\<close>

definition delivers :: "string \<Rightarrow> data_type \<Rightarrow> indication_fn \<Rightarrow> bool" where
  "delivers method d g \<longleftrightarrow> (\<forall>slot ty token e response n s. attended slot s \<longrightarrow> d s response n \<longrightarrow>
     lands method slot ty (g slot ty token e response n) s)"

named_theorems delivers_rules "functions that deliver data of their type"

lemma delivers_shapes [delivers_rules]:
  "delivers method anything (ind_plain method)"
  "delivers method an_int (ind_int method arg)"
  "delivers method a_text (ind_string method)"
  by (simp_all add: delivers_def lands_plain lands_int lands_text)

lemma delivers_struct:
  assumes "\<And>s ob x. can_malloc s = [] \<Longrightarrow> pick ob = Some x \<Longrightarrow> ok x \<Longrightarrow> \<exists>y. gives (conv (Some ob)) s y"
  shows "delivers method (one type pick ok) (ind_struct method type conv)"
  unfolding delivers_def
proof (intro allI impI)
  fix slot ty token e response n s assume up: "attended slot s" "one type pick ok s response n"
  then have "can_malloc s = []" by (simp add: attended_def)
  with assms show "lands method slot ty (ind_struct method type conv slot ty token e response n) s"
    by (intro lands_struct [OF up]) blast
qed

lemma delivers_list:
  assumes "\<And>p. p = 4 \<or> p = 8 \<Longrightarrow> 0 < size_of p type"
    and "\<And>p r k. conv p r k = bnd (elements pick r (k div size_of p type)) f"
    and "\<And>s xs. list_all ok xs \<Longrightarrow> \<exists>y. gives (f xs) s y"
  shows "delivers method (many type pick ok) (ind_list method type conv arg)"
  unfolding delivers_def
proof (intro allI impI)
  fix slot ty token e response n s assume up: "attended slot s" "many type pick ok s response n"
  then have p: "sizeof_pointer s = 4 \<or> sizeof_pointer s = 8" by (simp add: attended_def)
  show "lands method slot ty (ind_list method type conv arg slot ty token e response n) s"
  proof (rule lands_list [OF up assms(1) [OF p]])
    fix r k xs
    assume "if k = 0 then xs = [] else \<exists>ob. r = Some ob \<and> pick ob = Some xs"
      "k = length xs * size_of (sizeof_pointer s) type" "list_all ok xs"
    then show "\<exists>y. gives (conv (sizeof_pointer s) r k) s y"
      unfolding assms(2) by (intro gives_converted [OF p _ _ assms(1) [OF p] assms(3)])
  qed
qed

lemma delivers_data_calls [delivers_rules]:
  "delivers method (many RIL_Data_Call_Response_v11_type data_calls_of (\<lambda>_. True))
     (ind_list method RIL_Data_Call_Response_v11_type convertRilDataCallListToHal arg)"
  by (rule delivers_list [OF list_sizes(1) convertRilDataCallListToHal_def]) (auto intro: gives_basic(1))

lemma delivers_cells [delivers_rules]:
  "delivers method (many RIL_CellInfo_v12_type cells_of (\<lambda>_. True))
     (ind_list method RIL_CellInfo_v12_type convertRilCellInfoListToHal arg)"
  by (rule delivers_list [OF list_sizes(2) convertRilCellInfoListToHal_def]) (auto intro: gives_basic(1))

lemma delivers_hardware [delivers_rules]:
  "delivers method (many RIL_HardwareConfig_type hardware_of hardware_ok)
     (ind_list method RIL_HardwareConfig_type convertRilHardwareConfigListToHal arg)"
  by (rule delivers_list [OF list_sizes(3) convertRilHardwareConfigListToHal_def gives_hardwares])

lemma delivers_pdu [delivers_rules]: "delivers method a_pdu (ind_pdu method)"
  unfolding delivers_def
proof (intro allI impI)
  fix slot ty token e response n s assume up: "attended slot s" "a_pdu s response n"
  then obtain ys where ys: "gives (convertHexStringToBytes response n) s (Some ys)" using gives_pdu by blast
  have "\<not> (response = None \<or> n = 0)" using up(2) by (auto simp: a_pdu_def split: option.splits)
  note good = this
  have go: "lands method slot ty (case Some ys of None \<Rightarrow> ret 0 | Some bytes \<Rightarrow> indicate True slot method ty [HInts bytes]) s"
    by (simp add: lands_indicate [OF up(1)])
  show "lands method slot ty (ind_pdu method slot ty token e response n) s"
    unfolding ind_pdu_def by (rule lands_up [OF up(1)], rule lands_good [OF good], rule lands_bnd [OF ys], rule go)
qed

lemma bytes_of_some:
  assumes "some_bytes s response n"
  obtains bs where "gives (elements bytes_of response n) s bs" "\<not> (response = None \<or> n = 0)"
  using assms gives_elements [of bytes_of _ _ n s] by (auto simp: some_bytes_def split: option.splits)

lemma delivers_bytes [delivers_rules]:
  "delivers ''newBroadcastSms'' some_bytes newBroadcastSmsInd" "delivers ''oemHookRaw'' some_bytes oemHookRawInd"
  unfolding delivers_def
proof (intro allI impI)
  fix slot ty token e response n s assume up: "attended slot s" "some_bytes s response n"
  obtain bs where bs: "gives (elements bytes_of response n) s bs" and good: "\<not> (response = None \<or> n = 0)"
    using bytes_of_some [OF up(2)] by blast
  show "lands ''newBroadcastSms'' slot ty (newBroadcastSmsInd slot ty token e response n) s"
    unfolding newBroadcastSmsInd_def
    by (rule lands_up [OF up(1)], rule lands_good [OF good], rule lands_bnd [OF bs], rule lands_indicate [OF up(1)])
next
  show "\<forall>slot ty token e response n s. attended slot s \<longrightarrow> some_bytes s response n \<longrightarrow>
     lands ''oemHookRaw'' slot ty (oemHookRawInd slot ty token e response n) s"
  proof (intro allI impI)
    fix slot ty token e response n s assume up: "attended slot s" "some_bytes s response n"
    obtain bs where bs: "gives (elements bytes_of response n) s bs" and good: "\<not> (response = None \<or> n = 0)"
      using bytes_of_some [OF up(2)] by blast
    have "lands ''oemHookRaw'' slot ty (unless_bad (response = None \<or> n = 0)
        (bnd (elements bytes_of response n) (\<lambda>data. indicate False slot ''oemHookRaw'' ty [HInts data]))) s"
      by (rule lands_good [OF good], rule lands_bnd [OF bs], rule lands_indicate [OF up(1)])
    then show "lands ''oemHookRaw'' slot ty (oemHookRawInd slot ty token e response n) s"
      using up(1) by (simp add: oemHookRawInd_def attended_def bnd_def gets_def lands_def)
  qed
qed

lemma delivers_state [delivers_rules]: "delivers ''radioStateChanged'' anything radioStateChangedInd"
  unfolding delivers_def radioStateChangedInd_def
  by (intro allI impI lands_up lands_bnd [OF gives_basic(2)] lands_indicate)

lemma delivers_nitz [delivers_rules]: "delivers ''nitzTimeReceived'' a_text nitzTimeReceivedInd"
  unfolding delivers_def
proof (intro allI impI)
  fix slot ty token e response n s assume up: "attended slot s" "a_text s response n"
  obtain x where data: "response = Some (ObjStr x)" "n \<noteq> 0"
    using up(2) by (auto simp: a_text_def split: option.splits obj.splits)
  have str: "gives (response_string response) s x" by (simp add: data response_string_def gives_cast)
  have "lands ''nitzTimeReceived'' slot ty (unless_bad (response = None \<or> n = 0)
      (bnd (response_string response) (\<lambda>nitzTime. bnd (gets (\<lambda>s. nitzTimeReceived s slot)) (\<lambda>received.
             indicate True slot ''nitzTimeReceived'' ty [HStr nitzTime, HInt received])))) s"
    by (rule lands_good, simp add: data, rule lands_bnd [OF str], rule lands_bnd [OF gives_basic(2)],
        rule lands_indicate [OF up(1)])
  then show "lands ''nitzTimeReceived'' slot ty (nitzTimeReceivedInd slot ty token e response n) s"
    using up(1) by (simp add: nitzTimeReceivedInd_def attended_def bnd_def gets_def lands_def)
qed

lemma delivers_ussd [delivers_rules]: "delivers ''onUssd'' two_texts onUssdInd"
  unfolding delivers_def
proof (intro allI impI)
  fix slot ty token e response n s assume up: "attended slot s" "two_texts s response n"
  obtain mode msg xs where data: "response = Some (ObjStrs (Some mode # msg # xs))" "n = 2 * sizeof_pointer s"
    using up(2) by (auto simp: two_texts_def split: option.splits obj.splits list.splits)
  have strings: "gives (elements strs_of response 2) s [Some mode, msg]"
    using gives_elements [of strs_of "ObjStrs (Some mode # msg # xs)" "Some mode # msg # xs" 2 s] by (simp add: data)
  have go: "lands ''onUssd'' slot ty (case [Some mode, msg] ! 0 of None \<Rightarrow> crash NullDeref
      | Some mode \<Rightarrow> indicate True slot ''onUssd'' ty [HInt (c_atoi mode), HStr (convertCharPtrToHidlString ([Some mode, msg] ! 1))]) s"
    by (simp add: lands_indicate [OF up(1)])
  show "lands ''onUssd'' slot ty (onUssdInd slot ty token e response n) s"
    unfolding onUssdInd_def
    by (rule lands_up [OF up(1)], rule lands_bnd [OF gives_basic(2)], rule lands_good, simp add: data,
        rule lands_bnd [OF strings], use go in simp)
qed

lemma delivers_ring [delivers_rules]:
  "delivers ''callRing'' (one RIL_CDMA_SignalInfoRecord_type signal_info_of (\<lambda>_. True)) callRingInd"
  unfolding delivers_def
proof (intro allI impI)
  fix slot ty token e response n s
  assume up: "attended slot s" "one RIL_CDMA_SignalInfoRecord_type signal_info_of (\<lambda>_. True) s response n"
  obtain ob r where data: "response = Some ob" "signal_info_of ob = Some r"
      "n = size_of (sizeof_pointer s) RIL_CDMA_SignalInfoRecord_type"
    using up(2) by (auto simp: one_def split: option.splits)
  have "size_of (sizeof_pointer s) RIL_CDMA_SignalInfoRecord_type = 4"
    by (simp add: RIL_CDMA_SignalInfoRecord_type_def round_up_def)
  note size = this
  have "lands ''callRing'' slot ty (unless_bad (n \<noteq> size_of (sizeof_pointer s) RIL_CDMA_SignalInfoRecord_type)
      (bnd (cast signal_info_of response) (\<lambda>r.
        indicate True slot ''callRing'' ty [HRing False (convertRilCdmaSignalInfoRecordToHal r)]))) s"
    unfolding data(1)
    by (rule lands_good, simp add: data, rule lands_bnd [OF gives_cast], rule data(2), rule lands_indicate [OF up(1)])
  then show "lands ''callRing'' slot ty (callRingInd slot ty token e response n) s"
    unfolding callRingInd_def
    by (intro lands_up [OF up(1)] lands_bnd [OF gives_basic(2)]) (simp add: data size)
qed

lemma delivers_infos [delivers_rules]:
  "delivers ''cdmaInfoRec'' (one RIL_CDMA_InformationRecords_type info_recs_of info_recs_ok) cdmaInfoRecInd"
  unfolding delivers_def
proof (intro allI impI)
  fix slot ty token e response n s
  assume up: "attended slot s" "one RIL_CDMA_InformationRecords_type info_recs_of info_recs_ok s response n"
  obtain ob r where data: "response = Some ob" "info_recs_of ob = Some r" "info_recs_ok r"
      "n = size_of (sizeof_pointer s) RIL_CDMA_InformationRecords_type"
    using up(2) by (auto simp: one_def split: option.splits)
  define rs where "rs = take (nat (min (numberOfInfoRecs r) (int RIL_CDMA_MAX_NUMBER_OF_INFO_RECS))) (infoRec r)"
  have recs: "gives (first_int (min (numberOfInfoRecs r) (int RIL_CDMA_MAX_NUMBER_OF_INFO_RECS)) (infoRec r)) s rs"
    unfolding rs_def using data(3) by (intro gives_basic) (auto simp: info_recs_ok_def)
  have "list_all info_ok rs"
    using data(3) set_take_subset_set_take [of _ "nat (numberOfInfoRecs r)" "infoRec r"]
    unfolding rs_def info_recs_ok_def list_all_iff by (meson min.cobounded1 nat_mono subsetD)
  then obtain ys where ys: "gives (convert_infos rs) s (Some ys)"
    using gives_infos up(1) by (auto simp: attended_def)
  have go: "lands ''cdmaInfoRec'' slot ty (case Some ys of None \<Rightarrow> ret 0
      | Some converted \<Rightarrow> indicate True slot ''cdmaInfoRec'' ty [HInfoRecs converted]) s"
    by (simp add: lands_indicate [OF up(1)])
  show "lands ''cdmaInfoRec'' slot ty (cdmaInfoRecInd slot ty token e response n) s"
    unfolding cdmaInfoRecInd_def data(1)
    by (rule lands_up [OF up(1)], rule lands_bnd [OF gives_basic(2)], rule lands_good, simp add: data,
        rule lands_bnd [OF gives_cast], rule data(2), rule lands_bnd [OF recs], rule lands_bnd [OF ys], rule go)
qed

lemma delivers_scan [delivers_rules]: "delivers ''networkScanResult'' a_scan networkScanResultInd"
  unfolding delivers_def
proof (intro allI impI)
  fix slot ty token e response n s assume up: "attended slot s" "a_scan s response n"
  obtain r where data: "response = Some (ObjScan r)" "n \<noteq> 0" "0 \<le> sc_network_infos_length r"
      "sc_network_infos_length r \<le> int (length (sc_network_infos r))"
    using up(2) by (auto simp: a_scan_def split: option.splits obj.splits)
  let ?xs = "take (nat (sc_network_infos_length r)) (sc_network_infos r)"
  have "sizeof_pointer s = 4 \<or> sizeof_pointer s = 8" using up(1) by (auto simp: attended_def)
  then have "0 < size_of (sizeof_pointer s) RIL_CellInfo_v12_type" by (rule list_sizes)
  then have "gives (elements cells_of (Some (ObjCells (sc_network_infos r)))
      (nat (sc_network_infos_length r) * size_of (sizeof_pointer s) RIL_CellInfo_v12_type
        div size_of (sizeof_pointer s) RIL_CellInfo_v12_type)) s ?xs"
    using gives_elements [of cells_of "ObjCells (sc_network_infos r)" "sc_network_infos r" "nat (sc_network_infos_length r)" s] data(4)
    by simp
  then have cells: "gives (convertRilCellInfoListToHal (sizeof_pointer s) (Some (ObjCells (sc_network_infos r)))
      (nat (sc_network_infos_length r) * size_of (sizeof_pointer s) RIL_CellInfo_v12_type)) s (map convert_cell_info ?xs)"
    unfolding convertRilCellInfoListToHal_def by (rule gives_bnd) (rule gives_basic)
  show "lands ''networkScanResult'' slot ty (networkScanResultInd slot ty token e response n) s"
    unfolding networkScanResultInd_def data(1)
    by (rule lands_up [OF up(1)], rule lands_good, simp add: data(2), rule lands_bnd [OF gives_basic(2)],
        rule lands_bnd [OF gives_cast], simp, rule lands_bnd [OF cells], rule lands_indicate [OF up(1)])
qed

lemma delivers_carrier [delivers_rules]: "delivers ''carrierInfoForImsiEncryption'' some_data carrierInfoForImsiEncryption"
  unfolding delivers_def carrierInfoForImsiEncryption_def
  by (intro allI impI lands_up lands_good lands_indicate) (auto simp: some_data_def)

lemma same_client: "client_ok s = [] \<Longrightarrow> s\<lparr>client_ok := []\<rparr> = s"
  by (cases s) simp

lemma delivers_keepalive [delivers_rules]: "delivers ''keepaliveStatus'' a_keepalive keepaliveStatusInd"
  unfolding delivers_def
proof (intro allI impI)
  fix slot ty token e response n s assume up: "attended slot s" "a_keepalive s response n"
  obtain k where data: "response = Some (ObjKeepalive k)" "n = sizeof_KeepaliveStatus s"
    using up(2) by (auto simp: a_keepalive_def split: option.splits obj.splits)
  have ks: "gives (convertRilKeepaliveStatusToHal response) s (HKeepalive (ks_sessionHandle k) (ks_code k))"
    unfolding convertRilKeepaliveStatusToHal_def data(1)
    by (rule gives_bnd [OF gives_cast], simp, rule gives_basic)
  have up2: "client_ok s = []" "mRadioIndicationV1_1 s slot" using up(1) by (simp_all add: attended_def)
  have go: "lands ''keepaliveStatus'' slot ty (bnd (gets sizeof_KeepaliveStatus) (\<lambda>width. unless_bad (response = None \<or> n \<noteq> width)
      (bnd (convertRilKeepaliveStatusToHal response) (\<lambda>ks.
        if True then indicate True slot ''keepaliveStatus'' ty [ks] else crash NullDeref)))) s"
    by (rule lands_bnd [OF gives_basic(2)], rule lands_good, simp add: data, rule lands_bnd [OF ks],
        simp add: lands_indicate [OF up(1)])
  have "lands ''keepaliveStatus'' slot ty (andthen (modify (\<lambda>s. s\<lparr>client_ok := tl []\<rparr>))
      (bnd (gets sizeof_KeepaliveStatus) (\<lambda>width. unless_bad (response = None \<or> n \<noteq> width)
      (bnd (convertRilKeepaliveStatusToHal response) (\<lambda>ks.
        if True then indicate True slot ''keepaliveStatus'' ty [ks] else crash NullDeref))))) s"
    unfolding andthen_def
    by (rule lands_bnd [where x = "()"], simp add: gives_def modify_def same_client [OF up2(1)], rule go)
  then show "lands ''keepaliveStatus'' slot ty (keepaliveStatusInd slot ty token e response n) s"
    unfolding keepaliveStatusInd_def
    by (intro lands_up [OF up(1)] lands_bnd [OF gives_basic(2)]) (simp add: up2)
qed

lemma conversions_give:
  "pick ob = Some x \<Longrightarrow> \<exists>y. gives (bnd (cast pick (Some ob)) (\<lambda>r. ret (h r))) s y"
  by (intro exI, rule gives_bnd, erule gives_cast, rule gives_basic)

lemma conversions_give_more:
  assumes "pick ob = Some x" and "\<exists>y. gives (f x) s y"
  shows "\<exists>y. gives (bnd (cast pick (Some ob)) (\<lambda>r. bnd (f r) (\<lambda>z. ret (h r z)))) s y"
proof -
  obtain y where y: "gives (f x) s y" using assms(2) by blast
  show ?thesis
    by (intro exI, rule gives_bnd, rule gives_cast, rule assms(1), rule gives_bnd, rule y, rule gives_basic)
qed

lemma delivers_structs [delivers_rules]:
  "delivers ''currentSignalStrength'' (one RIL_SignalStrength_v10_type signal_of (\<lambda>_. True)) currentSignalStrengthInd"
  "delivers ''lceData'' (one RIL_LceDataInfo_type lce_data_of (\<lambda>_. True)) lceDataInd"
  "delivers ''suppSvcNotify'' (one RIL_SuppSvcNotification_type supp_svc_of (\<lambda>_. True)) suppSvcNotifyInd"
  "delivers ''simRefresh'' (one RIL_SimRefreshResponse_v7_type refresh_of (\<lambda>_. True)) simRefreshInd"
  "delivers ''cdmaCallWaiting'' (one RIL_CDMA_CallWaiting_v6_type call_waiting_of (\<lambda>_. True)) cdmaCallWaitingInd"
  unfolding currentSignalStrengthInd_def lceDataInd_def suppSvcNotifyInd_def simRefreshInd_def cdmaCallWaitingInd_def
    convertRilLceDataInfoToHal_def
  by (rule delivers_struct, erule conversions_give)+

lemma delivers_capability [delivers_rules]:
  "delivers ''radioCapabilityIndication'' (one RIL_RadioCapability_type capability_of (\<lambda>_. True)) radioCapabilityIndicationInd"
  unfolding radioCapabilityIndicationInd_def
proof (rule delivers_struct)
  fix s ob x assume "capability_of ob = Some x"
  then have "\<exists>y. gives (convertRilRadioCapabilityToHal (Some ob)) s y"
    unfolding convertRilRadioCapabilityToHal_def by (rule conversions_give)
  then obtain y where "gives (convertRilRadioCapabilityToHal (Some ob)) s y" by blast
  then show "\<exists>y. gives (bnd (convertRilRadioCapabilityToHal (Some ob)) (\<lambda>rc. ret (HCapability rc))) s y"
    by (auto simp: gives_def run_simps)
qed

lemma gives_pco: "pco_ok d \<Longrightarrow> \<exists>y. gives (set_external (pco_contents d) (pco_contents_length d)) s y"
  unfolding set_external_def pco_ok_def by (intro exI, rule gives_basic(4)) auto

lemma delivers_arrays [delivers_rules]:
  "delivers ''cdmaNewSms'' (one RIL_CDMA_SMS_Message_type cdma_sms_of cdma_sms_ok) cdmaNewSmsInd"
  "delivers ''onSupplementaryServiceIndication'' (one RIL_StkCcUnsolSsResponse_type ss_of ss_ok) onSupplementaryServiceIndicationInd"
  "delivers ''pcoData'' (one RIL_PCO_Data_type pco_of pco_ok) pcoDataInd"
  unfolding cdmaNewSmsInd_def onSupplementaryServiceIndicationInd_def pcoDataInd_def
  by (rule delivers_struct, erule conversions_give_more, erule gives_cdma_sms gives_ss gives_pco)+

lemma each_delivers: "list_all (\<lambda>(f, m, d, g). delivers m d g) indication_functions"
  unfolding indication_functions_def list.pred_inject prod.case simple_indications
  by (intro conjI TrueI delivers_rules) simp

text \<open>
  C21: data of the type that an indication takes reach the client. For each of the 49 indication
  functions with its type of data, on a machine of 32 or 64 bits, with a client that has set its callbacks
  and can be reached, the function does not read past the data, calls the callback of the indication
  once, changes nothing else and returns 0.
\<close>

theorem indication_delivered:
  assumes "(f, m, d, g) \<in> set indication_functions" and "attended slot s" and "d s response len"
  shows "\<exists>args. g slot ty token e response len s
    = Done 0 (s\<lparr>heard := heard s @ [(slot, m, HInd (convertIntToRadioIndicationType ty) # args)]\<rparr>)"
proof -
  have "delivers m d g" using assms(1) each_delivers by (auto simp: list_all_iff)
  with assms(2,3) show ?thesis unfolding delivers_def lands_def by blast
qed

lemma svc_init_attended: "p = 4 \<or> p = 8 \<Longrightarrow> attended slot (svc_init version p)"
  by (auto simp: attended_def svc_init_def)

theorem indication_delivered_witness:
  "\<exists>args. onUssdInd 0 RESPONSE_UNSOLICITED 0 RIL_E_SUCCESS (Some (ObjStrs [Some ''1'', None])) 16 (svc_init 12 8)
    = Done 0 ((svc_init 12 8)\<lparr>heard := heard (svc_init 12 8) @ [(0, ''onUssd'', HInd (convertIntToRadioIndicationType RESPONSE_UNSOLICITED) # args)]\<rparr>)"
proof -
  have f: "(''onUssdInd'', ''onUssd'', two_texts, onUssdInd) \<in> set indication_functions"
    unfolding indication_functions_def by (intro list.set_intros)
  have d: "two_texts (svc_init 12 8) (Some (ObjStrs [Some ''1'', None])) 16"
    by (simp add: two_texts_def svc_init_def)
  show ?thesis by (rule indication_delivered [OF f svc_init_attended d]) simp
qed

end
