(* ===== verification/SvcOperator.thy ===== *)
theory SvcOperator
  imports SvcConvert
begin

text \<open>
  The codes of countries and networks, \<^verbatim>\<open>telephony/ril_mcc.h\<close> and \<^verbatim>\<open>telephony/ril_mnc.h\<close>: a network code
  travels as an integer whose top four bits are the number of its digits.
\<close>

section \<open>The bits as arithmetic\<close>

text \<open>What the shifts of the decoder compute, written with division.\<close>

definition mnc_decode_arith :: "int \<Rightarrow> string" where
  "mnc_decode_arith mnc =
     (if mnc = INT_MAX \<or> mnc < 0 then ''''
      else
        let mncNumDigits = nat mnc div 2 ^ 28; rest = nat mnc mod 2 ^ 28
        in if rest > 999 then ''''
           else if mncNumDigits = 0 then fmt_d (int rest)
           else if mncNumDigits = 2 then tl (three_digits rest)
           else if mncNumDigits = 3 then three_digits rest
           else '''')"

lemma unat_32: "0 \<le> x \<Longrightarrow> x \<le> INT_MAX \<Longrightarrow> unat (word_of_int x :: 32 word) = nat x"
  by (simp add: unat_eq_nat_uint uint_word_of_int_eq take_bit_int_eq_self int32_defs)

lemma unat_top: "unat (drop_bit 28 (w :: 32 word) AND 0xF) = unat w div 2 ^ 28"
proof -
  have small: "unat w < 2 ^ 32" using unsigned_less [of w, where 'a = nat] by simp
  then have "unat w div 2 ^ 28 < 2 ^ 4" by (simp add: less_mult_imp_div_less)
  then have top: "take_bit 4 (unat w div 2 ^ 28) = unat w div 2 ^ 28" by (rule take_bit_nat_eq_self)
  have "unat (drop_bit 28 w) = drop_bit 28 (take_bit 32 (unat w))" by (simp add: unsigned_drop_bit_eq)
  then have "unat (drop_bit 28 w) = unat w div 2 ^ 28"
    by (simp only: take_bit_nat_eq_self [OF small] drop_bit_eq_div)
  moreover have "(0xF :: 32 word) = mask 4" by (simp add: mask_eq_exp_minus_1)
  ultimately show ?thesis by (simp only: take_bit_eq_mask [symmetric] unsigned_take_bit_eq top)
qed

lemma unat_low: "unat (drop_bit 4 (push_bit 4 (w :: 32 word))) = unat w mod 2 ^ 28"
proof -
  have "(unat w * 16) mod (268435456 * 16) div 16 = unat w mod 268435456" by (simp only: mult_mod_left [symmetric])
  moreover have "unat (drop_bit 4 (push_bit 4 w)) = drop_bit 4 (take_bit 32 (push_bit 4 (unat w)))"
    by (simp add: unsigned_push_bit_eq unsigned_drop_bit_eq)
  ultimately show ?thesis by (simp only: drop_bit_eq_div push_bit_eq_mult take_bit_eq_mod) simp
qed

lemma decode_divides: "is_int32 mnc \<Longrightarrow> mnc_decode mnc = mnc_decode_arith mnc"
  using unat_32 [of mnc]
  by (simp add: mnc_decode_def mnc_decode_arith_def Let_def unat_top unat_low int32_defs)

text \<open>
  C26: the decoder of network codes, which takes the 32 bits apart with shifts and a mask, computes for
  each value of an int what division and remainder by \<open>2 ^ 28\<close> give: the digits are the quotient, the code
  the remainder.
\<close>

theorem mnc_decode_is_division:
  assumes "is_int32 mnc"
  shows "mnc_decode mnc = mnc_decode_arith mnc"
  using assms by (rule decode_divides)

theorem mnc_decode_is_division_witness:
  "is_int32 805306369 \<and> mnc_decode 805306369 = mnc_decode_arith 805306369 \<and> mnc_decode_arith 805306369 = ''001''"
proof -
  have int: "is_int32 805306369" by (simp add: int32_defs)
  have "digit_char 0 = CHR ''0''" "digit_char 1 = CHR ''1''" by code_simp+
  then have "mnc_decode_arith 805306369 = ''001''" by (simp add: mnc_decode_arith_def Let_def three_digits_def int32_defs)
  with int mnc_decode_is_division [OF int] show ?thesis by simp
qed

section \<open>Encoding and decoding\<close>

lemma or_high:
  assumes "v < 2 ^ n"
  shows "push_bit n (of_nat k :: 'a::len word) OR of_nat v = of_nat (k * 2 ^ n + v)"
proof -
  have "push_bit n (of_nat k :: 'a word) AND of_nat v = 0"
  proof (rule bit_word_eqI)
    fix i assume i: "i < LENGTH('a)"
    have "\<not> bit v i" if "n \<le> i"
      using assms that by (metis bit_nat_iff bit_take_bit_iff nat_le_linear not_le take_bit_nat_eq_self)
    then show "bit (push_bit n (of_nat k :: 'a word) AND of_nat v) i = bit (0 :: 'a word) i"
      by (auto simp: bit_simps)
  qed
  then show ?thesis by (simp add: disjunctive_add_eq_or [symmetric] push_bit_eq_mult mult.commute)
qed

lemma mnc_encode_value:
  assumes "0 \<le> v" and "v \<le> 999" and "k = 0 \<or> k = 2 \<or> k = 3"
  shows "mnc_encode_int v k = int k * 2 ^ 28 + v"
proof -
  have "push_bit 28 (of_nat k :: 32 word) OR word_of_int v = of_nat (k * 2 ^ 28 + nat v)"
  proof -
    have "nat v < 2 ^ 28" using assms(2) by simp
    from or_high [OF this, of k] show ?thesis using assms(1) by simp
  qed
  moreover have "sint (of_nat n :: 32 word) = int n" if "n < 2 ^ 31" for n
    using that by (simp add: signed_of_nat signed_take_bit_int_eq_self)
  moreover have "k * 2 ^ 28 + nat v < 2 ^ 31" using assms(2,3) by auto
  ultimately have "sint (push_bit 28 (of_nat k :: 32 word) OR word_of_int v) = int k * 2 ^ 28 + v"
    using assms(1) by (simp only:) simp
  then show ?thesis using assms by (simp only: mnc_encode_int_def) simp
qed

section \<open>Strings of digits\<close>

definition is_code :: "string \<Rightarrow> bool" where
  "is_code m \<longleftrightarrow> m \<noteq> '''' \<and> list_all (is_base_digit 10) m"

lemma digit_back: "is_base_digit 10 c \<Longrightarrow> digit_char (the (digit_val c)) = c"
  by (auto simp: is_base_digit_def digit_val_def digit_char_def Let_def split: if_splits option.splits)

lemma digit_small: "is_base_digit 10 c \<Longrightarrow> the (digit_val c) < 10"
  by (auto simp: is_base_digit_def split: option.splits)

lemma digits_value_bound: "list_all (is_base_digit 10) ds \<Longrightarrow> digits_value 10 ds < 10 ^ length ds"
proof (induction ds rule: rev_induct)
  case (snoc c ds)
  then have "digits_value 10 ds < 10 ^ length ds" "the (digit_val c) < 10" by (simp_all add: digit_small)
  then show ?case by (simp add: digits_value_snoc)
qed (simp add: digits_value_def)

lemma strtol_code:
  assumes "is_code m" and "length m \<le> 9"
  shows "c_strtol 10 m = Some (int (digits_value 10 m))" and "is_int32 (int (digits_value 10 m))"
proof -
  have ds: "\<forall>c\<in>set m. is_base_digit 10 c" using assms(1) by (simp add: is_code_def list_all_iff)
  have "digits_value 10 m < 10 ^ length m" using assms(1) by (simp add: is_code_def digits_value_bound)
  also have "(10 :: nat) ^ length m \<le> 10 ^ 9" using assms(2) by (intro power_increasing) simp_all
  finally have small: "digits_value 10 m < 1000000000" by simp
  have "scan_number 10 m = Some (False, digits_value 10 m)"
    using assms(1) by (simp add: scan_number_def dropWhile_space_digits [OF ds] skip_sign_digits [OF ds]
        skip_0x_digits [OF ds] takeWhile_all [OF ds] is_code_def)
  with small show "c_strtol 10 m = Some (int (digits_value 10 m))" by (simp add: c_strtol_def LONG_MAX_def)
  from small show "is_int32 (int (digits_value 10 m))" by (simp add: int32_defs)
qed

lemma decimal_digits:
  assumes "x < 10" and "y < 10" and "z < (10 :: nat)"
  shows "(100 * x + 10 * y + z) div 100 mod 10 = x" "(100 * x + 10 * y + z) div 10 mod 10 = y"
    "(100 * x + 10 * y + z) mod 10 = z"
proof -
  have "(100 * x + 10 * y + z) div 100 = x" using assms by (intro div_nat_eqI) simp_all
  then show "(100 * x + 10 * y + z) div 100 mod 10 = x" using assms(1) by simp
  have "(100 * x + 10 * y + z) div 10 = 10 * x + y" using assms by (intro div_nat_eqI) simp_all
  then show "(100 * x + 10 * y + z) div 10 mod 10 = y" using assms(2) by simp
  have "100 * x + 10 * y + z = z + 10 * (10 * x + y)" by simp
  then show "(100 * x + 10 * y + z) mod 10 = z" using assms(3) by (simp only: mod_mult_self2 mod_less)
qed

lemma three_digits_value:
  assumes "is_base_digit 10 a" and "is_base_digit 10 b" and "is_base_digit 10 c"
  shows "three_digits (digits_value 10 [a, b, c]) = [a, b, c]"
    and "three_digits (digits_value 10 [b, c]) = [CHR ''0'', b, c]"
proof -
  define x y z where digit: "x = the (digit_val a)" and digit2: "y = the (digit_val b)" and digit3: "z = the (digit_val c)"
  have small: "x < 10" "y < 10" "z < 10" unfolding digit digit2 digit3 using assms digit_small by blast+
  have same: "digit_char x = a" "digit_char y = b" "digit_char z = c" unfolding digit digit2 digit3 using assms by (simp_all add: digit_back)
  have zero: "digit_char 0 = CHR ''0''" by code_simp
  have "digits_value 10 [a, b, c] = 100 * x + 10 * y + z" "digits_value 10 [b, c] = 10 * y + z"
    by (simp_all add: digits_value_def digit digit2 digit3)
  moreover have "(100 * x + 10 * y + z) div 100 mod 10 = x" "(100 * x + 10 * y + z) div 10 mod 10 = y"
      "(100 * x + 10 * y + z) mod 10 = z"
    using decimal_digits [OF small] by blast+
  moreover have "(10 * y + z) div 100 mod 10 = 0" "(10 * y + z) div 10 mod 10 = y" "(10 * y + z) mod 10 = z"
    using decimal_digits [of 0 y z] small by simp_all
  ultimately show "three_digits (digits_value 10 [a, b, c]) = [a, b, c]"
    and "three_digits (digits_value 10 [b, c]) = [CHR ''0'', b, c]"
    using same zero by (simp_all only: three_digits_def)
qed

lemma decode_value:
  assumes "v \<le> 999" and "k = 2 \<or> k = 3"
  shows "mnc_decode (int k * 2 ^ 28 + int v) = (if k = 2 then tl (three_digits v) else three_digits v)"
proof -
  have "is_int32 (int k * 2 ^ 28 + int v)" using assms by (auto simp: int32_defs)
  moreover have "nat (int k * 2 ^ 28 + int v) = k * 2 ^ 28 + v" by (simp add: nat_add_distrib nat_mult_distrib)
  moreover have "(k * 2 ^ 28 + v) div 2 ^ 28 = k" "(k * 2 ^ 28 + v) mod 2 ^ 28 = v" using assms(1) by simp_all
  moreover have "int k * 2 ^ 28 + int v \<noteq> INT_MAX" "\<not> int k * 2 ^ 28 + int v < 0" using assms by (auto simp: int32_defs)
  ultimately have "mnc_decode (int k * 2 ^ 28 + int v) = (if v > 999 then '''' else if k = 0 then fmt_d (int v)
      else if k = 2 then tl (three_digits v) else if k = 3 then three_digits v else '''')"
    by (simp only: decode_divides mnc_decode_arith_def Let_def if_False simp_thms)
  then show ?thesis using assms by auto
qed

text \<open>
  C25: a network code of two or three digits survives encoding and decoding, leading zeros included; a
  string of another number of digits, of one or of four to nine, is no network code and comes back empty.
\<close>

theorem mnc_roundtrip:
  assumes "is_code m" and "length m \<le> 9"
  shows "\<exists>v. mnc_encode m = Some v \<and> mnc_decode v = (if length m = 2 \<or> length m = 3 then m else '''')"
proof -
  let ?v = "digits_value 10 m"
  have enc: "mnc_encode m = Some (mnc_encode_int (int ?v) (length m))"
    using strtol_code [OF assms] by (simp add: mnc_encode_def)
  have digits: "list_all (is_base_digit 10) m" using assms(1) by (simp add: is_code_def)
  consider (two) a b where "m = [a, b]" | (three) a b c where "m = [a, b, c]" | (other) "length m \<noteq> 2" "length m \<noteq> 3"
    by (metis length_0_conv length_Suc_conv numeral_2_eq_2 numeral_3_eq_3)
  then show ?thesis
  proof cases
    case two
    have small: "?v \<le> 999" using digits_value_bound [OF digits] two by simp
    then have "mnc_encode_int (int ?v) 2 = int 2 * 2 ^ 28 + int ?v" by (intro mnc_encode_value) simp_all
    moreover have "mnc_decode (int 2 * 2 ^ 28 + int ?v) = m"
      using decode_value [OF small, of 2] three_digits_value(2) [of a a b] digits two by simp
    moreover have "mnc_encode m = Some (mnc_encode_int (int ?v) 2)" using enc two by (simp add: numeral_2_eq_2)
    ultimately show ?thesis using two by auto
  next
    case three
    have small: "?v \<le> 999" using digits_value_bound [OF digits] three by simp
    then have "mnc_encode_int (int ?v) 3 = int 3 * 2 ^ 28 + int ?v" by (intro mnc_encode_value) simp_all
    moreover have "mnc_decode (int 3 * 2 ^ 28 + int ?v) = m"
      using decode_value [OF small, of 3] three_digits_value(1) [of a b c] digits three by simp
    moreover have "mnc_encode m = Some (mnc_encode_int (int ?v) 3)" using enc three by (simp add: numeral_3_eq_3)
    ultimately show ?thesis using three by auto
  next
    case other
    have "length m \<noteq> 0" using assms(1) by (simp add: is_code_def)
    then have "mnc_encode_int (int ?v) (length m) = INT_MAX" using other by (simp add: mnc_encode_int_def)
    then show ?thesis using enc other by (simp add: mnc_decode_def)
  qed
qed

theorem mnc_roundtrip_witness:
  "\<exists>v. mnc_encode ''007'' = Some v \<and> mnc_decode v = (if length ''007'' = 2 \<or> length ''007'' = 3 then ''007'' else '''')"
  by (rule mnc_roundtrip) (simp_all add: is_code_def is_base_digit_def digit_val_def)

end
