(* ===== verification/SvcLink.thy ===== *)
theory SvcLink
  imports SvcDelivery SvcOperator LibComplete
begin

text \<open>
  The service between its neighbours: clients that die and come back, the library that calls the
  indication functions and looks at their result, the text of a short message on its way to the client.
\<close>

section \<open>A client that is gone\<close>

lemma set_radio_counter: "mCounterRadio (set_radio slot a b s) slot = mCounterRadio s slot + 1"
  by (simp add: set_radio_def)

lemma check_dead:
  "checkReturnStatus_svc slot False True s = Done () (case reconnects s of
       [] \<Rightarrow> set_radio slot False False s
     | again # later \<Rightarrow> set_radio slot again again (s\<lparr>reconnects := later\<rparr>))"
proof (cases "reconnects s")
  case Nil
  then show ?thesis
    by (simp add: checkReturnStatus_svc_def unlocked_def counter_def set_callbacks_def bnd_def andthen_def gets_def modify_def)
next
  case (Cons again later)
  then show ?thesis
    by (cases again) (simp_all add: checkReturnStatus_svc_def unlocked_def counter_def set_callbacks_def bnd_def andthen_def
        gets_def modify_def ret_def set_radio_counter)
qed

lemma same_heard: "s\<lparr>client_ok := oks, heard := heard s\<rparr> = s\<lparr>client_ok := oks\<rparr>"
  by (cases s) simp

lemma tell_dead:
  assumes "client_ok s = False # oks"
  shows "tell True slot method args s = checkReturnStatus_svc slot False True (s\<lparr>client_ok := oks\<rparr>)"
  by (simp add: tell_def bnd_def andthen_def gets_def modify_def assms same_heard)



section \<open>The result that the library sees\<close>

text \<open>
  C24: the library's view of an indication function agrees with the service. For each of the 49
  functions that the table of unsolicited responses points to, with whatever data, if the function returns
  then the library's call returns the same number: 0, or -1 for the network time of a slot that has no
  client, on which the library keeps the time for the next client.
\<close>

theorem indication_result_agrees:
  assumes "(f, m, d, g) \<in> set indication_functions" and "connected u slot = mRadioIndication s slot"
    and "g slot ty token e response len s = Done r t"
  shows "\<exists>v. call_indication f slot ty n ev u = Done r v"
proof (cases "f = ''nitzTimeReceivedInd''")
  case False
  then have "reports m slot ty (g slot ty token e response len)"
    using assms(1) each_reports [of slot ty token e response len] by (auto simp: list_all_iff)
  then have "r = 0" using assms(3) unfolding reports_def by blast
  with False show ?thesis by (simp add: call_indication_def run_simps send_msg_def)
next
  case True
  then have "g = nitzTimeReceivedInd" using assms(1) nitz_entry by (auto simp: list_all_iff)
  then have "if mRadioIndication s slot then r = 0 else r = -1"
    using nitz_reports [of slot ty token e response len s r t] assms(3) by auto
  with True assms(2) show ?thesis by (auto simp: call_indication_def run_simps send_msg_def split: if_splits)
qed

theorem indication_result_agrees_witness:
  "\<exists>v. call_indication ''nitzTimeReceivedInd'' 0 RESPONSE_UNSOLICITED 1008 PNone
      ((lib_init 1 15 [])\<lparr>connected := (\<lambda>_. False)\<rparr>) = Done (-1) v"
proof -
  let ?s = "set_radio 0 False False (svc_init 12 8)"
  have f: "(''nitzTimeReceivedInd'', ''nitzTimeReceived'', a_text, nitzTimeReceivedInd) \<in> set indication_functions"
    unfolding indication_functions_def by (intro list.set_intros)
  have run: "nitzTimeReceivedInd 0 RESPONSE_UNSOLICITED 0 RIL_E_SUCCESS None 0 ?s = Done (-1) ?s"
    by (simp add: nitzTimeReceivedInd_def bnd_def gets_def ret_def set_radio_def)
  show ?thesis by (rule indication_result_agrees [OF f _ run]) (simp add: set_radio_def)
qed

section \<open>The text of a message\<close>

text \<open>The text of a message as the vendor library hands it over: two hex digits of either case for each byte.\<close>

definition is_byte :: "int \<Rightarrow> bool" where
  "is_byte b \<longleftrightarrow> 0 \<le> b \<and> b < 256"

definition digit_of :: "bool \<Rightarrow> nat \<Rightarrow> char" where
  "digit_of upper d = char_of (if d < 10 then 48 + d else if upper then 55 + d else 87 + d)"

fun spells :: "string \<Rightarrow> int list \<Rightarrow> bool" where
  "spells [] [] \<longleftrightarrow> True"
| "spells (c # d # cs) (b # bytes) \<longleftrightarrow> is_byte b \<and> c \<in> {digit_of True (nat b div 16), digit_of False (nat b div 16)}
     \<and> d \<in> {digit_of True (nat b mod 16), digit_of False (nat b mod 16)} \<and> spells cs bytes"
| "spells _ _ \<longleftrightarrow> False"

lemma digit_values:
  "list_all (\<lambda>d. hexCharToInt (of_char (digit_of True d)) = int d \<and> hexCharToInt (of_char (digit_of False d)) = int d) [0..<16]"
  by code_simp

lemma digit_value: "d < 16 \<Longrightarrow> c \<in> {digit_of True d, digit_of False d} \<Longrightarrow> hexCharToInt (of_char c) = int d"
  using digit_values by (auto simp: list_all_iff)

lemma nibbles:
  assumes "a < 16" and "b < 16"
  shows "uint (push_bit 4 (word_of_int (int a)) OR word_of_int (int b) :: 8 word) = int (16 * a + b)"
proof -
  have "push_bit 4 (of_nat a) OR of_nat b = (of_nat (a * 2 ^ 4 + b) :: 8 word)"
    using assms(2) by (intro or_high) simp
  moreover have "uint (of_nat n :: 8 word) = int n" if "n < 256" for n
    using that by (simp add: unsigned_of_nat take_bit_nat_eq_self)
  moreover have "a * 2 ^ 4 + b < 256" using assms by simp
  ultimately have "uint (push_bit 4 (of_nat a) OR of_nat b :: 8 word) = int (a * 2 ^ 4 + b)" by metis
  moreover have "int (16 * a + b) = int (a * 2 ^ 4 + b)" by simp
  ultimately show ?thesis by (simp only: of_int_of_nat_eq)
qed

lemma hex_loop_text: "spells cs bytes \<Longrightarrow> gives (hex_loop (length bytes) (map of_char cs @ rest)) s (Some bytes)"
proof (induction cs bytes rule: spells.induct)
  case (2 c d cs b bytes)
  let ?hi = "nat b div 16" and ?lo = "nat b mod 16"
  have b: "nat b < 256" "int (nat b) = b" using 2 by (auto simp: is_byte_def)
  then have hex: "hexCharToInt (of_char c) = int ?hi" "hexCharToInt (of_char d) = int ?lo"
    using 2 by (auto intro!: digit_value)
  have ok: "int ?hi \<noteq> INVALID_HEX_CHAR" "int ?lo \<noteq> INVALID_HEX_CHAR" using b(1) by (auto simp: INVALID_HEX_CHAR_def)
  have "16 * ?hi + ?lo = nat b" by simp
  then have byte: "uint (push_bit 4 (of_nat ?hi) OR of_nat ?lo :: 8 word) = b"
    using nibbles [of ?hi ?lo] b by simp
  have "gives (hex_loop (length bytes) (map of_char cs @ rest)) s (Some bytes)" using 2 by simp
  then have "bnd (hex_loop (length bytes) (map of_char cs @ rest))
      (\<lambda>bs. ret (map_option (\<lambda>bs. b # bs) bs)) s = Done (Some (b # bytes)) s"
    by (simp add: gives_def bnd_def ret_def)
  then show ?case
    by (simp add: gives_def Let_def hex ok byte)
qed (simp_all add: gives_def ret_def)

lemma spells_length: "spells cs bytes \<Longrightarrow> length cs = 2 * length bytes"
  by (induction cs bytes rule: spells.induct) simp_all

text \<open>
  A short message reaches the client as the bytes that it is made of: the vendor library writes
  each byte as two hex digits, the indication decodes the text, and the client is told of the new message
  with the same bytes, once.
\<close>

theorem message_bytes_delivered:
  assumes "attended slot s" and "spells cs bytes" and "bytes \<noteq> []"
  shows "newSmsInd slot ty token e (Some (ObjStr cs)) (length cs) s
    = Done 0 (s\<lparr>heard := heard s @ [(slot, ''newSms'', [HInd (convertIntToRadioIndicationType ty), HInts bytes])]\<rparr>)"
proof -
  have loop: "gives (hex_loop (length bytes) (map of_char cs @ [0])) s (Some bytes)"
    using hex_loop_text [OF assms(2)] .
  have up: "mRadioIndication s slot" "client_ok s = []" and alloc: "gives allocate s True"
    using assms(1) by (auto simp: attended_def intro: gives_allocate)
  have len: "length cs = 2 * length bytes" using spells_length [OF assms(2)] .
  have "convertHexStringToBytes (Some (ObjStr cs)) (length cs) s = Done (Some bytes) s"
    using loop alloc by (simp add: convertHexStringToBytes_def len bnd_def gives_def cast_def ret_def)
  then show ?thesis
    using assms(3) up
    by (simp add: newSmsInd_def ind_pdu_def with_indication_def unless_bad_def len bnd_def gets_def
        indicate_def andthen_def tell_run ret_def)
qed

theorem message_bytes_delivered_witness:
  "newSmsInd 0 RESPONSE_UNSOLICITED 0 RIL_E_SUCCESS (Some (ObjStr ''07Ab'')) (length ''07Ab'') (svc_init 12 8)
    = Done 0 ((svc_init 12 8)\<lparr>heard := heard (svc_init 12 8)
        @ [(0, ''newSms'', [HInd (convertIntToRadioIndicationType RESPONSE_UNSOLICITED), HInts [7, 171]])]\<rparr>)"
  by (rule message_bytes_delivered [OF svc_init_attended]) (simp, code_simp, simp)

end
