(* ===== verification/Stack.thy ===== *)
theory Stack
  imports RilSystem SvcCalls SvcLink
begin

text \<open>
  The whole stack: the service of \<^verbatim>\<open>libril/ril_service.cpp\<close> over the library \<^verbatim>\<open>libril/ril.cpp\<close> over the
  reference vendor library \<^verbatim>\<open>reference-ril/reference-ril.c\<close>, and what a client of the service hears.
\<close>

section \<open>The vendor library under the library\<close>

text \<open>The numbers of \<^verbatim>\<open>ril.h\<close> for the indications that the reference vendor library sends.\<close>

fun unsol_number :: "RIL_Unsol \<Rightarrow> int" where
  "unsol_number RIL_UNSOL_RESPONSE_RADIO_STATE_CHANGED = 1000"
| "unsol_number RIL_UNSOL_RESPONSE_CALL_STATE_CHANGED = 1001"
| "unsol_number RIL_UNSOL_RESPONSE_VOICE_NETWORK_STATE_CHANGED = 1002"
| "unsol_number RIL_UNSOL_RESPONSE_NEW_SMS = 1003"
| "unsol_number RIL_UNSOL_RESPONSE_NEW_SMS_STATUS_REPORT = 1004"
| "unsol_number RIL_UNSOL_NITZ_TIME_RECEIVED = 1008"
| "unsol_number RIL_UNSOL_DATA_CALL_LIST_CHANGED = 1010"
| "unsol_number RIL_UNSOL_RESPONSE_SIM_STATUS_CHANGED = 1019"
| "unsol_number RIL_UNSOL_ENTER_EMERGENCY_CALLBACK_MODE = 1024"
| "unsol_number RIL_UNSOL_EXIT_EMERGENCY_CALLBACK_MODE = 1033"
| "unsol_number RIL_UNSOL_CDMA_SUBSCRIPTION_SOURCE_CHANGED = 1031"
| "unsol_number RIL_UNSOL_CDMA_PRL_CHANGED = 1032"
| "unsol_number RIL_UNSOL_VOICE_RADIO_TECH_CHANGED = 1035"
| "unsol_number RIL_UNSOL_RESPONSE_IMS_NETWORK_STATE_CHANGED = 1037"
| "unsol_number RIL_UNSOL_HARDWARE_CONFIG_CHANGED = 1040"

text \<open>The addresses of the functions that the reference vendor library has called back.\<close>

fun callback_address :: "timed_callback \<Rightarrow> nat" where
  "callback_address CB_initializeCallback = 0"
| "callback_address CB_pollSIMState = 1"
| "callback_address CB_sendCallStateChanged = 2"
| "callback_address CB_onDataCallListChanged = 3"

text \<open>
  The table \<^verbatim>\<open>s_rilEnv\<close> that \<^verbatim>\<open>rild\<close> gives to the vendor library: each of its calls runs the library's
  function. An indication without a slot is for the first one.
\<close>

fun s_rilEnv :: "act \<Rightarrow> unit lprog" where
  "s_rilEnv (Complete t e p) = RIL_onRequestComplete_impl (Some t) e p"
| "s_rilEnv (Unsol u p) = RIL_onUnsolicitedResponse_impl (unsol_number u) p 0"
| "s_rilEnv (Timed c delay) =
     RIL_requestTimedCallback_impl (VendorCallback (callback_address c)) 0 (Some (delay div 1000000, delay mod 1000000))"

text \<open>
  The reference vendor library in the state \<open>q\<close> as the one that the service calls: its calls into the
  library, which give it nothing back, run in the order it makes them. \<open>view\<close> is how it reads the data of
  a request that the service hands over in memory; the theorems hold for every \<open>view\<close>.
\<close>

definition reference_vendor :: "(ril_data \<Rightarrow> req_data) \<Rightarrow> ril \<Rightarrow> vendor" where
  "reference_vendor view q request data t slot =
     (case onRequest request (view data) t q of
        Done _ q' \<Rightarrow> seqs (map s_rilEnv (drop (length (acts q)) (acts q')))
      | Crash e \<Rightarrow> crash e
      | Hang \<Rightarrow> hang)"

section \<open>What the library does for it\<close>

text \<open>An entered request is answered by the first completion with its token.\<close>

lemma entered_completes:
  assumes "entered s ts ps L serial slot n a t"
  shows "\<exists>u ts'. RIL_onRequestComplete_impl (Some a) e p t = Done () u
    \<and> sent u = sent t @ [MResponse slot serial RESPONSE_SOLICITED e p] \<and> requests u a = None
    \<and> lib_ok u ts' ps L \<and> SIM_COUNT u = SIM_COUNT t"
proof -
  let ?k = "pendingRequestsHook (SIM_COUNT s) slot"
  from assms obtain r where
    t: "lib_ok t ts ps (L(?k := a # L ?k))" "requests t a = Some r" "ri_token r = serial" "ri_socket r = slot"
      "answerable r" "ri_wasAckSent r = 0"
    unfolding entered_def Let_def by blast
  have "response_type t r = RESPONSE_SOLICITED" using t(6) by (simp add: response_type_def)
  moreover have "(L(?k := a # L ?k))(?k := remove1 a ((L(?k := a # L ?k)) ?k)) = L" by simp
  moreover have "a \<in> set ((L(?k := a # L ?k)) ?k)" by simp
  ultimately show ?thesis using complete_answers [OF t(1) _ t(2,5), of ?k e p] t(3,4) by auto
qed

fun is_response :: "lib_msg \<Rightarrow> bool" where
  "is_response (MResponse slot serial ty e p) = True"
| "is_response m = False"

definition responses :: "lib \<Rightarrow> lib_msg list" where
  "responses s = filter is_response (sent s)"

lemma sent_client: "steps (\<lambda>s t. client t = client s) m \<Longrightarrow> steps (\<lambda>s t. sent t = sent s) m"
  by (simp add: steps_def client_def)

lemma sent_state: "(\<And>s. sent (f s) = sent s) \<Longrightarrow> steps (\<lambda>s t. sent t = sent s) (modify f)"
  by (simp add: steps_def modify_def)

lemma sent_release: "steps (\<lambda>s t. sent t = sent s) releaseWakeLock"
  unfolding releaseWakeLock_def release_wake_lock_def cancel_last_def set_info_def info_at_def
  by (intro obs_frame.frame_rules obs_frame.steps_seqs)
    (auto intro!: obs_frame.frame_rules sent_state split: option.split)

text \<open>What \<^verbatim>\<open>RIL_onUnsolicitedResponse\<close> does after the indication function has run sends nothing.\<close>

lemma sent_finish:
  "steps (\<lambda>s t. sent t = sent s) (bnd (schedule_timeout b) (\<lambda>scheduled.
     if \<not> scheduled then whenever c releaseWakeLock
     else bnd (keep_nitz d ev) (\<lambda>kept_it. if \<not> kept_it then whenever c releaseWakeLock else ret ())))"
proof -
  have memory: "steps (\<lambda>s t. sent t = sent s) (calloc used)" for used
    by (auto simp: steps_def calloc_def split: list.splits option.splits)
  have last: "steps (\<lambda>s t. sent t = sent s) (set_last a)" for a
    by (rule sent_client [OF client_undisturbed [OF set_last_client]])
  show ?thesis
    unfolding schedule_timeout_def keep_nitz_def
    by (intro obs_frame.frame_rules sent_release sent_client [OF timed_sent] sent_state memory last) simp_all
qed

lemma responses_sent: "steps (\<lambda>s t. sent t = sent s) m \<Longrightarrow> steps (\<lambda>s t. responses t = responses s) m"
  by (simp add: steps_def responses_def)

lemma responses_indication: "steps (\<lambda>s t. responses t = responses s) (call_indication f k ty n ev)"
  by (auto simp: steps_def call_indication_def send_msg_def run_simps responses_def split: if_splits)

lemma responses_timed: "steps (\<lambda>s t. responses t = responses s) (RIL_requestTimedCallback_impl f u rel)"
  unfolding RIL_requestTimedCallback_impl_def
  by (intro obs_frame.frame_rules responses_sent [OF sent_client [OF timed_sent]])

lemma responses_unsol: "steps (\<lambda>s t. responses t = responses s) (RIL_onUnsolicitedResponse_impl n ev k)"
  unfolding RIL_onUnsolicitedResponse_impl_def Let_def
  by (intro obs_frame.steps_bnd obs_frame.steps_andthen obs_frame.steps_if obs_frame.steps_option obs_frame.steps_whenever
      obs_frame.steps_ret obs_frame.steps_gets responses_indication responses_sent [OF sent_finish]
      responses_sent [OF sent_client [OF grab_client]])

text \<open>An indication of the table goes to the slot's client once, the network time apart.\<close>

lemma indication_sent:
  assumes "lib_ok s ts ps L" and "s_registerCalled s \<noteq> 0"
    and "unsolFunction (s_unsolResponses ! nat (n - RIL_UNSOL_RESPONSE_BASE)) = Some f" and "f \<noteq> ''nitzTimeReceivedInd''"
    and "0 \<le> n - RIL_UNSOL_RESPONSE_BASE" and "n - RIL_UNSOL_RESPONSE_BASE < int (length s_unsolResponses)"
  shows "\<exists>t ts'. RIL_onUnsolicitedResponse_impl n ev k s = Done () t \<and> lib_ok t ts' ps L
    \<and> sent t = sent s @ [MIndication k (if callbacks_version s \<ge> 13
          \<and> wakeType (s_unsolResponses ! nat (n - RIL_UNSOL_RESPONSE_BASE)) = WAKE_PARTIAL
        then RESPONSE_UNSOLICITED_ACK_EXP else RESPONSE_UNSOLICITED) n ev]"
proof -
  let ?row = "s_unsolResponses ! nat (n - RIL_UNSOL_RESPONSE_BASE)"
  let ?wake = "wakeType ?row = WAKE_PARTIAL"
  let ?ty = "\<lambda>v. if v \<ge> 13 \<and> ?wake then RESPONSE_UNSOLICITED_ACK_EXP else RESPONSE_UNSOLICITED"
  let ?rest = "\<lambda>res. bnd (schedule_timeout ?wake) (\<lambda>scheduled. if \<not> scheduled then whenever ?wake releaseWakeLock
     else bnd (keep_nitz (res \<noteq> 0 \<and> n = RIL_UNSOL_NITZ_TIME_RECEIVED_code) ev) (\<lambda>kept_it.
       if \<not> kept_it then whenever ?wake releaseWakeLock else ret ()))"
  define rest :: "int \<Rightarrow> unit lprog" where "rest = ?rest"
  from api_lib_ok [OF assms(1) unsolicited_api [of _ n ev k]] obtain t ts' where
    t: "RIL_onUnsolicitedResponse_impl n ev k s = Done () t" "lib_ok t ts' ps L" by auto
  have "RIL_onUnsolicitedResponse_impl n ev k s = andthen (whenever ?wake grabPartialWakeLock)
      (bnd (gets callbacks_version) (\<lambda>v. bnd (call_indication f k (?ty v) n ev) rest)) s"
    using assms(2,3,5,6) by (simp add: rest_def RIL_onUnsolicitedResponse_impl_def bnd_def [of "\<lambda>s. Done (s_registerCalled s) s"] gets_def Let_def
        cong: if_cong)
  with t(1) obtain u where u: "whenever ?wake grabPartialWakeLock s = Done () u"
    and v: "bnd (gets callbacks_version) (\<lambda>v. bnd (call_indication f k (?ty v) n ev) rest) u = Done () t"
    by (auto simp: andthen_Done)
  have same: "client u = client s"
    using stepsD [OF obs_frame.steps_whenever [OF grab_client] u] .
  have "rest 0 (u\<lparr>sent := sent u @ [MIndication k (?ty (callbacks_version u)) n ev]\<rparr>) = Done () t"
    using v assms(4) by (simp add: call_indication_def run_simps send_msg_def)
  then have "?rest (0::int) (u\<lparr>sent := sent u @ [MIndication k (?ty (callbacks_version u)) n ev]\<rparr>) = Done () t"
    by (simp only: rest_def)
  from stepsD [OF sent_finish this] same t show ?thesis by (auto simp: client_def)
qed

text \<open>While a request is entered, indications and timed callbacks leave it so.\<close>

lemma entered_api:
  assumes "entered s ts ps L serial slot n a t" and "api (callbacks_version t) True (\<lambda>_. True) m"
  shows "\<exists>x u ts'. m t = Done x u \<and> entered s ts' ps L serial slot n a u \<and> callbacks_version u = callbacks_version t"
proof -
  let ?k = "pendingRequestsHook (SIM_COUNT s) slot"
  from assms(1) have "lib_ok t ts ps (L(?k := a # L ?k))" by (simp add: entered_def Let_def)
  from api_lib_ok [OF this assms(2)] obtain x u ts' where
    u: "m t = Done x u" "lib_ok u ts' ps (L(?k := a # L ?k))" "requests u = requests t" "SIM_COUNT u = SIM_COUNT t" by blast
  have "callbacks_version u = callbacks_version t"
    using assms(2) u(1) \<open>lib_ok t ts ps _\<close> unfolding api_def lib_ok_def
    by (metis Un_empty_left inf_bot_left outcome.inject(1))
  with u assms(1) show ?thesis by (auto simp: entered_def Let_def)
qed

text \<open>The calls of the vendor library that complete nothing.\<close>

definition notice :: "act \<Rightarrow> bool" where
  "notice x \<longleftrightarrow> (\<forall>t. \<not> completes t x)"

lemma notice_call:
  assumes "notice x"
  shows "api v True (\<lambda>_. True) (s_rilEnv x)" and "steps (\<lambda>s t. responses t = responses s) (s_rilEnv x)"
  using assms by (cases x; simp add: notice_def completes_def requestTimedCallback_api unsolicited_api responses_timed responses_unsol)+

lemma notices_entered:
  assumes "list_all notice xs" and "entered s ts ps L serial slot n a t"
  shows "\<exists>u ts'. seqs (map s_rilEnv xs) t = Done () u \<and> entered s ts' ps L serial slot n a u \<and> responses u = responses t"
  using assms
proof (induction xs arbitrary: t ts)
  case Nil
  then show ?case by (auto simp: ret_def)
next
  case (Cons x xs)
  from Cons.prems(1) have "notice x" by simp
  from entered_api [OF Cons.prems(2) notice_call(1) [OF this]] obtain u ts' where
    u: "s_rilEnv x t = Done () u" "entered s ts' ps L serial slot n a u" by auto
  from Cons.IH [OF _ u(2)] Cons.prems(1) obtain v ts'' where
    "seqs (map s_rilEnv xs) u = Done () v" "entered s ts'' ps L serial slot n a v" "responses v = responses u" by auto
  then show ?case
    using u stepsD [OF notice_call(2) [OF \<open>notice x\<close>] u(1)] by (auto simp: andthen_def bnd_def)
qed

lemma notices_ok:
  assumes "list_all notice xs" and "lib_ok t ts ps L"
  shows "\<exists>u ts'. seqs (map s_rilEnv xs) t = Done () u \<and> lib_ok u ts' ps L \<and> responses u = responses t
    \<and> requests u = requests t \<and> SIM_COUNT u = SIM_COUNT t"
  using assms
proof (induction xs arbitrary: t ts)
  case Nil
  then show ?case by (auto simp: ret_def)
next
  case (Cons x xs)
  from Cons.prems(1) have "notice x" by simp
  from api_lib_ok [OF Cons.prems(2) notice_call(1) [OF this]] obtain u ts' where
    u: "s_rilEnv x t = Done () u" "lib_ok u ts' ps L" "requests u = requests t" "SIM_COUNT u = SIM_COUNT t" by auto
  from Cons.IH [OF _ u(2)] Cons.prems(1) obtain v ts'' where
    "seqs (map s_rilEnv xs) u = Done () v" "lib_ok v ts'' ps L" "responses v = responses u"
    "requests v = requests u" "SIM_COUNT v = SIM_COUNT u" by auto
  then show ?case
    using u stepsD [OF notice_call(2) [OF \<open>notice x\<close>] u(1)] by (auto simp: andthen_def bnd_def)
qed

lemma seqs_calls: "seqs (map s_rilEnv (xs @ x # ys)) t
    = andthen (seqs (map s_rilEnv xs)) (andthen (s_rilEnv x) (seqs (map s_rilEnv ys))) t"
  by (simp add: seqs_append)

text \<open>One completion among notices: the client gets one response.\<close>

lemma one_completion_answers:
  assumes "entered s ts ps L serial slot n a t" and "list_all notice xs" and "list_all notice ys"
  shows "\<exists>u ts'. seqs (map s_rilEnv (xs @ Complete a e p # ys)) t = Done () u
    \<and> responses u = responses t @ [MResponse slot serial RESPONSE_SOLICITED e p] \<and> requests u a = None \<and> lib_ok u ts' ps L"
proof -
  from notices_entered [OF assms(2,1)] obtain v ts' where
    v: "seqs (map s_rilEnv xs) t = Done () v" "entered s ts' ps L serial slot n a v" "responses v = responses t" by blast
  from entered_completes [OF v(2), of e p] obtain w ts' where
    w: "RIL_onRequestComplete_impl (Some a) e p v = Done () w"
      "sent w = sent v @ [MResponse slot serial RESPONSE_SOLICITED e p]" "requests w a = None" "lib_ok w ts' ps L" by blast
  from notices_ok [OF assms(3) w(4)] obtain u ts' where
    u: "seqs (map s_rilEnv ys) w = Done () u" "lib_ok u ts' ps L" "responses u = responses w" "requests u = requests w" by blast
  have "responses w = responses v @ [MResponse slot serial RESPONSE_SOLICITED e p]" by (simp add: responses_def w(2))
  with v u w(3) show ?thesis
    by (intro exI [of _ u] exI [of _ ts']) (simp add: seqs_append andthen_def bnd_def w(1))
qed

section \<open>The log of the vendor library\<close>

text \<open>The log only grows.\<close>

definition grows :: "ril \<Rightarrow> ril \<Rightarrow> bool" where
  "grows s t \<longleftrightarrow> (\<exists>xs. acts t = acts s @ xs)"

interpretation grow: frame grows
  by unfold_locales (auto simp: grows_def)

lemma grows_same: "acts t = acts s \<Longrightarrow> grows s t"
  by (simp add: grows_def)

lemma grows_quiet_modify: "(\<And>s. acts (f s) = acts s) \<Longrightarrow> steps grows (modify f)"
  by (rule grow.steps_modify) (rule grows_same)

lemma grows_lib:
  "steps grows (RIL_onRequestComplete tok e p)" "steps grows (RIL_onUnsolicitedResponse u p)"
  "steps grows (RIL_requestTimedCallback c d)"
  by (simp_all add: act_defs modify_def steps_def grows_def)

lemma grows_setRadioState: "steps grows h \<Longrightarrow> steps grows (setRadioState_with h n)"
  unfolding setRadioState_with_def
  by (intro grow.frame_rules grows_quiet_modify grow.steps_seqs) (auto intro!: grow.frame_rules grows_lib)

lemma grows_tech: "steps grows (setRadioTechnology n)"
  unfolding setRadioTechnology_def techFromModemType_def shl1_def TECH_def
  by (intro grows_lib grow.frame_rules grows_quiet_modify) simp_all

lemma grows_onUnsolicited: "steps grows (onUnsolicited l p)"
  unfolding onUnsolicited_def deref_def shl1_def
  by (intro grows_lib grows_tech grows_setRadioState grow.frame_rules grows_quiet_modify) simp_all

lemma grows_closed: "steps grows onATReaderClosed" "steps grows onATTimeout"
  unfolding onATReaderClosed_def onATTimeout_def at_close_def
  by (intro grow.frame_rules grow.steps_seqs; auto intro!: grow.frame_rules grows_quiet_modify grows_setRadioState)+

interpretation grow_client: client_frame grows ril_handlers
  by unfold_locales
    (use grows_onUnsolicited grows_closed in \<open>auto simp: ril_handlers_def intro: grows_same dest: acts_more\<close>)

interpretation grow_frame: ril_frame grows tok for tok
  by unfold_locales
    (rule grows_lib grow_client.send_full_R grow_client.handshake_R grows_setRadioState
      | assumption | simp add: grows_same soft_more)+

lemma counted_log:
  assumes "request \<notin> set miscounted" and "onRequest request data a q = Done () q'"
  shows "\<exists>xs e p ys. drop (length (acts q)) (acts q') = xs @ Complete a e p # ys \<and> list_all notice xs \<and> list_all notice ys"
proof -
  from stepsD [OF grow_frame.R_onRequest assms(2)] obtain more where more: "acts q' = acts q @ more" by (auto simp: grows_def)
  have "length (filter (completes a) more) = 1" and rest: "\<And>b. b \<noteq> a \<Longrightarrow> filter (completes b) more = []"
    using request_counts [OF assms] by (simp_all add: completions_def more)
  then obtain x where "filter (completes a) more = [x]" by (auto simp: length_Suc_conv)
  then obtain xs ys where "more = xs @ x # ys" "\<forall>y\<in>set xs. \<not> completes a y" "completes a x" "filter (completes a) ys = []"
    by (auto simp: filter_eq_Cons_iff)
  then have s: "more = xs @ x # ys" "\<forall>y\<in>set xs \<union> set ys. \<not> completes a y" "completes a x"
    by (auto simp: filter_empty_conv)
  then obtain e p where "x = Complete a e p" by (cases x) (auto simp: completes_def)
  moreover have "notice y" if "y \<in> set xs \<union> set ys" for y
    unfolding notice_def
  proof
    fix b show "\<not> completes b y"
      using that s(2) rest [of b] by (cases "b = a") (auto simp: filter_empty_conv s(1) split: if_splits)
  qed
  ultimately show ?thesis
    using s(1) more by (intro exI [of _ xs] exI [of _ e] exI [of _ p] exI [of _ ys]) (simp add: list_all_iff)
qed

section \<open>The properties of the stack\<close>

lemma vendor_runs:
  assumes "onRequest request (view data) t q = Done () q'"
  shows "reference_vendor view q request data t slot = seqs (map s_rilEnv (drop (length (acts q)) (acts q')))"
  using assms by (simp add: reference_vendor_def)

lemma imsi_run:
  assumes "sState q = RADIO_STATE_ON" and "gets_reply [imsi] ''OK'' later q" and "ordinary imsi" and "starts_with_digit imsi"
  shows "\<exists>q'. onRequest RIL_REQUEST_GET_IMSI data tok q = Done () q'
    \<and> acts q' = acts q @ [Complete tok RIL_E_SUCCESS (PStr (Some imsi))]"
proof -
  have "at_send_command_numeric ril_handlers ''AT+CIMI'' (Some Null) q
      = Done (0, Resp (final_resp ''OK'' [imsi])) (asked ''AT+CIMI'' NUMERIC later q)"
    by (rule reply_numeric [OF assms(2) _ assms(3,4)])
      (simp add: isFinalResponse_def isFinalResponseSuccess_def s_finalResponsesSuccess_def)
  then show ?thesis
    using assms(1)
    by (simp add: onRequest_def dispatch_def bnd_def gets_def complete_with_line_def failed_def ret_def
        first_line_of_def act_defs modify_def)
qed

text \<open>
  What the service asks of a vendor library: a request that is entered and handed over is answered once
  by the time \<^verbatim>\<open>onRequest\<close> returns. \<open>handles\<close> are the requests for which it does.
\<close>

locale answering_vendor =
  fixes vendor :: vendor and handles :: "int \<Rightarrow> bool"
  assumes answers: "handles n \<Longrightarrow> entered s ts ps L serial slot n a t \<Longrightarrow>
    \<exists>u e p. vendor n d a slot t = Done () u \<and> responses u = responses t @ [MResponse slot serial RESPONSE_SOLICITED e p]"
begin

lemma call_answered:
  assumes "radio_call (callbacks_version s) slot serial n m" and "lib_ok s ts ps L"
    and "allocs s = Some a # later" and "requests s a = None" and "handles n"
  shows "\<exists>u e p. m vendor s = Done () u \<and> responses u = responses s @ [MResponse slot serial RESPONSE_SOLICITED e p]"
proof -
  from call_served [OF assms(1), unfolded served_once_def, rule_format, OF refl assms(2-4)] obtain t where
    t: "entered s ts ps L serial slot n a t"
    and c: "sent t = sent s \<and> (\<exists>d. \<forall>vendor. m vendor s = vendor n d a slot t)
     \<or> (\<exists>e. sent t = sent s @ [MResponse slot serial RESPONSE_SOLICITED e PNone] \<and> (\<forall>vendor. m vendor s = Done () t))" by blast
  from c show ?thesis
  proof
    assume "\<exists>e. sent t = sent s @ [MResponse slot serial RESPONSE_SOLICITED e PNone] \<and> (\<forall>vendor. m vendor s = Done () t)"
    then show ?thesis by (auto simp: responses_def)
  next
    assume "sent t = sent s \<and> (\<exists>d. \<forall>vendor. m vendor s = vendor n d a slot t)"
    then obtain d where "m vendor s = vendor n d a slot t" "responses t = responses s" by (auto simp: responses_def)
    then show ?thesis using answers [OF assms(5) t, of d] by simp
  qed
qed

end

text \<open>The requests that the reference vendor library handles without a fault, and counts rightly.\<close>

definition returns_on :: "(ril_data \<Rightarrow> req_data) \<Rightarrow> ril \<Rightarrow> int \<Rightarrow> bool" where
  "returns_on view q n \<longleftrightarrow> n \<notin> set miscounted \<and> (\<forall>d a. \<exists>q'. onRequest n (view d) a q = Done () q')"

interpretation reference: answering_vendor "reference_vendor view q" "returns_on view q" for view q
proof
  fix n s ts ps L serial slot a t d
  assume n: "returns_on view q n" and t: "entered s ts ps L serial slot n a t"
  from n obtain q' where q': "onRequest n (view d) a q = Done () q'" unfolding returns_on_def by blast
  from n have "n \<notin> set miscounted" by (simp add: returns_on_def)
  from counted_log [OF this q'] obtain xs e p ys where
    x: "drop (length (acts q)) (acts q') = xs @ Complete a e p # ys" "list_all notice xs" "list_all notice ys" by blast
  from one_completion_answers [OF t x(2,3), of e p] show "\<exists>u e p. reference_vendor view q n d a slot t = Done () u
      \<and> responses u = responses t @ [MResponse slot serial RESPONSE_SOLICITED e p]"
    unfolding vendor_runs [of n view d a q q' slot, OF q'] x(1) by blast
qed

text \<open>
  C1: whatever method of the service a client calls, when there is memory for the record of the request and
  the reference vendor library handles the request without a fault: the call returns and exactly one
  response with the serial number of the client has gone out, whatever the modem has answered meanwhile,
  whatever else the vendor library has told the library, and whatever requests of others are pending. The three requests that the reference vendor library counts wrongly are left out.
\<close>

theorem call_answered_once:
  assumes "radio_call (callbacks_version s) slot serial n m" and "lib_ok s ts ps L"
    and "allocs s = Some a # later" and "requests s a = None"
    and "n \<notin> set miscounted" and "\<And>d b. \<exists>q'. onRequest n (view d) b q = Done () q'"
  shows "\<exists>u e p. m (reference_vendor view q) s = Done () u
    \<and> responses u = responses s @ [MResponse slot serial RESPONSE_SOLICITED e p]"
  by (rule reference.call_answered [OF assms(1-4)]) (use assms(5,6) in \<open>simp add: returns_on_def\<close>)

text \<open>A modem that has the identity ready, and a call for it.\<close>

definition imsi_ril :: ril where
  "imsi_ril = sample_ril RADIO_STATE_ON [([], False), (map Some ([''310260''] @ [''OK'']), False)]"

lemma imsi_ril_ok: "sState imsi_ril = RADIO_STATE_ON" "gets_reply [''310260''] ''OK'' [] imsi_ril"
    "ordinary ''310260''" "starts_with_digit ''310260''"
  unfolding imsi_ril_def
  by (rule sample_reply | simp add: ordinary_def isFinalResponse_def isFinalResponseSuccess_def
        isFinalResponseError_def s_finalResponsesError_def s_finalResponsesSuccess_def isSMSUnsolicited_def
        s_smsUnsoliciteds_def starts_with_digit_def ch_isdigit_def sample_ril_def boot_def)+

theorem call_answered_once_witness:
  "\<exists>u e p. getImsiForApp (reference_vendor (\<lambda>_. DNone) imsi_ril) 0 77 (hstr ''a'') (lib_init 1 12 [Some 500]) = Done () u
    \<and> responses u = [MResponse 0 77 RESPONSE_SOLICITED e p]"
proof -
  have call: "radio_call (callbacks_version (lib_init 1 12 [Some 500])) 0 77 RIL_REQUEST_GET_IMSI
      (\<lambda>vendor. getImsiForApp vendor 0 77 (hstr ''a''))"
    by (rule radio_call.intros)
  have run: "\<exists>q'. onRequest RIL_REQUEST_GET_IMSI DNone b imsi_ril = Done () q'" for d :: ril_data and b
    using imsi_run [OF imsi_ril_ok] by blast
  have "RIL_REQUEST_GET_IMSI \<notin> set miscounted" by (simp add: miscounted_def)
  from call_answered_once [OF call lib_init_ok lib_init_fields(2) _ this run] show ?thesis
    by (simp add: responses_def)
qed

text \<open>An answer that comes with no data is told to the client whichever request it answers.\<close>

lemma told_without_data:
  assumes "(f, g) \<in> set response_functions" and "client_ok w = []" and "all_up slot w"
  shows "\<exists>method info args. callback_of f method \<and> rs_serial info = serial
      \<and> (rs_error info = e \<or> e = RIL_E_SUCCESS \<and> rs_error info = RIL_E_INVALID_RESPONSE)
      \<and> g slot ty serial e None 0 w = Done () (w\<lparr>heard := heard w @ [(slot, method, HInfo info # args)]\<rparr>)"
proof -
  obtain t where t: "g slot ty serial e None 0 w = Done () t"
    using returns_of [OF assms(1)] unfolding returns_def by fastforce
  have "told_one (callback_of f) slot serial ty e w t"
    using tells_of [OF assms(1), of slot serial ty e None 0] assms(2,3) t unfolding tells_def by blast
  then obtain c info args where told: "callback_of f c" "head_ok serial ty e info"
      "t = w\<lparr>heard := heard w @ [(slot, c, HInfo info # args)]\<rparr>"
    unfolding told_one_def by blast
  then show ?thesis using head_serial [OF told(2)] head_error [OF told(2)] t by blast
qed

text \<open>
  C11: a call that a client makes while the radio is unavailable, whichever of the requests it makes but the
  one for the card's status, comes back to the client: the service enters it, the vendor library refuses it, the library
  looks up the row of the request, and the function of that row calls the client once, with the serial
  number and with \<^verbatim>\<open>RIL_E_RADIO_NOT_AVAILABLE\<close>, unless the service itself has refused the call before.
\<close>

theorem refusal_reaches_client:
  assumes "radio_call (callbacks_version s) slot serial n m" and "lib_ok s ts ps L"
    and "allocs s = Some a # later" and "requests s a = None"
    and "sState q = RADIO_STATE_UNAVAILABLE" and "n \<noteq> RIL_REQUEST_GET_SIM_STATUS"
    and "responseFunction (s_commands ! nat n) = Some f" and "(f, g) \<in> set response_functions"
    and "client_ok w = []" and "all_up slot w"
  shows "\<exists>u e method info args. m (reference_vendor view q) s = Done () u
    \<and> sent u = sent s @ [MResponse slot serial RESPONSE_SOLICITED e PNone]
    \<and> (e = RIL_E_RADIO_NOT_AVAILABLE \<or> (\<forall>vendor. m vendor s = Done () u))
    \<and> callback_of f method \<and> rs_serial info = serial
    \<and> (rs_error info = e \<or> e = RIL_E_SUCCESS \<and> rs_error info = RIL_E_INVALID_RESPONSE)
    \<and> g slot RESPONSE_SOLICITED serial e None 0 w = Done () (w\<lparr>heard := heard w @ [(slot, method, HInfo info # args)]\<rparr>)"
proof -
  from call_served [OF assms(1), unfolded served_once_def, rule_format, OF refl assms(2-4)] obtain t where
    t: "entered s ts ps L serial slot n a t"
    and c: "sent t = sent s \<and> (\<exists>d. \<forall>vendor. m vendor s = vendor n d a slot t)
     \<or> (\<exists>e. sent t = sent s @ [MResponse slot serial RESPONSE_SOLICITED e PNone] \<and> (\<forall>vendor. m vendor s = Done () t))" by blast
  have "\<exists>u e. m (reference_vendor view q) s = Done () u
    \<and> sent u = sent s @ [MResponse slot serial RESPONSE_SOLICITED e PNone]
    \<and> (e = RIL_E_RADIO_NOT_AVAILABLE \<or> (\<forall>vendor. m vendor s = Done () u))"
    using c
  proof
    assume l: "sent t = sent s \<and> (\<exists>d. \<forall>vendor. m vendor s = vendor n d a slot t)"
    then obtain d where d: "m (reference_vendor view q) s = reference_vendor view q n d a slot t" by blast
    have "onRequest n (view d) a q = Done () (q\<lparr>acts := acts q @ [Complete a RIL_E_RADIO_NOT_AVAILABLE PNone]\<rparr>)"
      using assms(5,6) by (rule refused_run)
    from vendor_runs [where view = view and data = d, OF this, of slot]
    have "reference_vendor view q n d a slot = andthen (RIL_onRequestComplete_impl (Some a) RIL_E_RADIO_NOT_AVAILABLE PNone) (ret ())"
      by simp
    moreover obtain u where "RIL_onRequestComplete_impl (Some a) RIL_E_RADIO_NOT_AVAILABLE PNone t = Done () u"
        "sent u = sent t @ [MResponse slot serial RESPONSE_SOLICITED RIL_E_RADIO_NOT_AVAILABLE PNone]"
      using entered_completes [OF t] by blast
    ultimately show ?thesis using d l by (auto simp: andthen_def bnd_def ret_def)
  qed blast
  then obtain u e where u: "m (reference_vendor view q) s = Done () u"
    "sent u = sent s @ [MResponse slot serial RESPONSE_SOLICITED e PNone]"
    "e = RIL_E_RADIO_NOT_AVAILABLE \<or> (\<forall>vendor. m vendor s = Done () u)" by blast
  from told_without_data [OF assms(8-10), of serial e RESPONSE_SOLICITED] u show ?thesis by blast
qed

theorem refusal_reaches_client_witness:
  "\<exists>u e method info args. getCurrentCalls (reference_vendor (\<lambda>_. DNone) (sample_ril RADIO_STATE_UNAVAILABLE [])) 0 77
        (lib_init 1 12 [Some 500]) = Done () u
    \<and> sent u = [MResponse 0 77 RESPONSE_SOLICITED e PNone] \<and> rs_serial info = 77
    \<and> getCurrentCallsResponse 0 RESPONSE_SOLICITED 77 e None 0 (svc_init 12 8)
        = Done () ((svc_init 12 8)\<lparr>heard := heard (svc_init 12 8) @ [(0, method, HInfo info # args)]\<rparr>)"
proof -
  have call: "radio_call (callbacks_version (lib_init 1 12 [Some 500])) 0 77 RIL_REQUEST_GET_CURRENT_CALLS
      (\<lambda>vendor. getCurrentCalls vendor 0 77)"
    by (rule radio_call.intros)
  have row: "responseFunction (s_commands ! nat RIL_REQUEST_GET_CURRENT_CALLS) = Some ''getCurrentCallsResponse''"
    by (simp add: row_9)
  have f: "(''getCurrentCallsResponse'', getCurrentCallsResponse) \<in> set response_functions"
    by (simp add: response_functions_def)
  have q: "sState (sample_ril RADIO_STATE_UNAVAILABLE []) = RADIO_STATE_UNAVAILABLE" by (simp add: sample_ril_def boot_def)
  from refusal_reaches_client [OF call lib_init_ok lib_init_fields(2) _ q _ row f svc_init_up(1,2), of "\<lambda>_. DNone"]
  show ?thesis by simp blast
qed

text \<open>
  C10: a short message goes through all the layers: the two lines that the modem sends, the second with the
  message in hex digits, become one indication of the vendor library, the library sends it to the client
  of the first slot once, and the function of the indication hands the client the bytes of the message.
\<close>

theorem message_reaches_client:
  assumes "r_alive q" and "r_line1 q = None" and "s_unsolHandler q" and "sState q \<noteq> RADIO_STATE_UNAVAILABLE"
    and "spells pdu bytes" and "bytes \<noteq> []"
    and "lib_ok s ts ps L" and "s_registerCalled s \<noteq> 0" and "attended 0 w"
  shows "\<exists>x q' t ts' ty. run_reader ril_handlers [Some (''+CMT:'' @ rest), Some pdu] q = Done () q'
    \<and> acts q' = acts q @ [x] \<and> s_rilEnv x s = Done () t \<and> lib_ok t ts' ps L
    \<and> sent t = sent s @ [MIndication 0 ty 1003 (PStr (Some pdu))]
    \<and> unsolFunction (s_unsolResponses ! 3) = Some ''newSmsInd''
    \<and> newSmsInd 0 ty 0 RIL_E_SUCCESS (Some (ObjStr pdu)) (length pdu) w
        = Done 0 (w\<lparr>heard := heard w @ [(0, ''newSms'', [HInd (convertIntToRadioIndicationType ty), HInts bytes])]\<rparr>)"
proof -
  let ?x = "Unsol RIL_UNSOL_RESPONSE_NEW_SMS (PStr (Some pdu))"
  have row: "unsolFunction (s_unsolResponses ! 3) = Some ''newSmsInd''"
    by (simp add: s_unsolResponses_def unsol_rows_def unsol_row_def)
  have "\<exists>t ts'. RIL_onUnsolicitedResponse_impl 1003 (PStr (Some pdu)) 0 s = Done () t \<and> lib_ok t ts' ps L
    \<and> (\<exists>ty. sent t = sent s @ [MIndication 0 ty 1003 (PStr (Some pdu))])"
    using indication_sent [OF assms(7,8), of 1003 "''newSmsInd''"] row by (fastforce simp: RIL_UNSOL_RESPONSE_BASE_def)
  then obtain t ts' ty where t: "s_rilEnv ?x s = Done () t" "lib_ok t ts' ps L"
    "sent t = sent s @ [MIndication 0 ty 1003 (PStr (Some pdu))]" by auto
  from sms_delivered [OF assms(1-4), of "''+CMT:'' @ rest" "''+CMT:''" rest "pdu"] obtain q' where
    "run_reader ril_handlers [Some (''+CMT:'' @ rest), Some pdu] q = Done () q'" "acts q' = acts q @ [?x]"
    by simp
  with t row message_bytes_delivered [OF assms(9,5,6)] show ?thesis by blast
qed

theorem message_reaches_client_witness:
  "\<exists>x q' t ty. run_reader ril_handlers [Some ''+CMT: ,4'', Some ''07Ab''] (sample_ril RADIO_STATE_ON []) = Done () q'
    \<and> acts q' = [x] \<and> s_rilEnv x (lib_init 1 12 []) = Done () t
    \<and> sent t = [MIndication 0 ty 1003 (PStr (Some ''07Ab''))]
    \<and> newSmsInd 0 ty 0 RIL_E_SUCCESS (Some (ObjStr ''07Ab'')) (length ''07Ab'') (svc_init 12 8)
        = Done 0 ((svc_init 12 8)\<lparr>heard := heard (svc_init 12 8)
            @ [(0, ''newSms'', [HInd (convertIntToRadioIndicationType ty), HInts [7, 171]])]\<rparr>)"
proof -
  let ?q = "sample_ril RADIO_STATE_ON []"
  have q: "r_alive ?q" "r_line1 ?q = None" "s_unsolHandler ?q" "sState ?q \<noteq> RADIO_STATE_UNAVAILABLE" "acts ?q = []"
    by (simp_all add: sample_ril_def boot_def)
  have bytes: "spells ''07Ab'' [7, 171]" "[7, 171 :: int] \<noteq> []" by code_simp simp
  have w: "attended 0 (svc_init 12 8)" by (rule svc_init_attended) simp
  have reg: "s_registerCalled (lib_init 1 12 []) \<noteq> 0" by simp
  from message_reaches_client [OF q(1-4) bytes lib_init_ok reg w, where rest = "'' ,4''"] obtain x q' t ty where
    "run_reader ril_handlers [Some (''+CMT:'' @ '' ,4''), Some ''07Ab''] ?q = Done () q'"
    "acts q' = acts ?q @ [x]" "s_rilEnv x (lib_init 1 12 []) = Done () t"
    "sent t = sent (lib_init 1 12 []) @ [MIndication 0 ty 1003 (PStr (Some ''07Ab''))]"
    "newSmsInd 0 ty 0 RIL_E_SUCCESS (Some (ObjStr ''07Ab'')) (length ''07Ab'') (svc_init 12 8)
        = Done 0 ((svc_init 12 8)\<lparr>heard := heard (svc_init 12 8)
            @ [(0, ''newSms'', [HInd (convertIntToRadioIndicationType ty), HInts [7, 171]])]\<rparr>)"
    by blast
  then show ?thesis by (intro exI conjI) (simp_all add: q(5))
qed

lemma add_request_allocs:
  "steps (\<lambda>s t. allocs t = tl (allocs s)) (addRequestToList serial slot n)"
  unfolding addRequestToList_def calloc_def
  by (auto simp: steps_def bnd_Done andthen_Done gets_def modify_def ret_def crash_def split: list.splits option.splits if_splits)

lemma imsi_handed:
  assumes "lib_ok s ts ps L" and "allocs s = Some a # Some b # Some c # later" and "requests s a = None"
  shows "\<exists>d t. \<forall>vendor. getImsiForApp vendor slot serial aid s = vendor RIL_REQUEST_GET_IMSI d a slot t"
proof -
  from add_request_ok [OF assms, of 11 _ slot serial] obtain t where t: "addRequestToList serial slot 11 s = Done (Some a) t"
    by auto
  from stepsD [OF add_request_allocs t] assms(2) have "allocs t = Some b # Some c # later" by simp
  with t show ?thesis
    by (cases "hs_chars aid = []")
      (auto simp: getImsiForApp_def dispatchStrings_def with_request_def with_block_def block_def copied_def
        copyHidlStringToRil_def hstr_def calloc_def bnd_def ret_def)
qed

lemma row_imsi: "responseFunction (s_commands ! 11) = Some ''getIMSIForAppResponse''"
  by (simp add: s_commands_def command_rows_def command_row_def)

text \<open>
  C8: the subscriber's identity goes through all the layers: the client's call is entered, the reference
  vendor library asks the modem for it, and when the modem answers with a line of digits, the
  library sends one response with that line and the client's serial number, no request is left pending, and the
  function of the request's row hands the line to the client.
\<close>

theorem identity_reaches_client:
  assumes "lib_ok s ts ps L" and "allocs s = Some a # Some b # Some c # later" and "requests s a = None"
    and "sState q = RADIO_STATE_ON" and "gets_reply [imsi] ''OK'' later' q" and "ordinary imsi" and "starts_with_digit imsi"
    and "client_ok w = []" and "all_up slot w"
  shows "\<exists>u ts'. getImsiForApp (reference_vendor view q) slot serial aid s = Done () u
    \<and> sent u = sent s @ [MResponse slot serial RESPONSE_SOLICITED RIL_E_SUCCESS (PStr (Some imsi))]
    \<and> requests u a = None \<and> lib_ok u ts' ps L
    \<and> responseFunction (s_commands ! 11) = Some ''getIMSIForAppResponse''
    \<and> getIMSIForAppResponse slot RESPONSE_SOLICITED serial RIL_E_SUCCESS (Some (ObjStr imsi)) len w
        = Done () (w\<lparr>heard := heard w @ [(slot, ''getIMSIForAppResponse'',
            [HInfo (populateResponseInfo serial RESPONSE_SOLICITED RIL_E_SUCCESS), HStr imsi])]\<rparr>)"
proof -
  have call: "radio_call (callbacks_version s) slot serial RIL_REQUEST_GET_IMSI (\<lambda>vendor. getImsiForApp vendor slot serial aid)"
    by (rule radio_call.intros)
  have handed: "\<not> (\<forall>vendor. getImsiForApp vendor slot serial aid s = Done () t)" for t
    using imsi_handed [OF assms(1-3), of slot serial aid]
    by (auto intro!: exI [of _ "\<lambda>_ _ _ _. crash AssertFail"] simp: crash_def)
  from call_served [OF call, unfolded served_once_def, rule_format, OF refl assms(1,2,3)] handed obtain t d where
    t: "entered s ts ps L serial slot RIL_REQUEST_GET_IMSI a t" "sent t = sent s"
    and d: "getImsiForApp (reference_vendor view q) slot serial aid s = reference_vendor view q RIL_REQUEST_GET_IMSI d a slot t" by blast
  obtain q' where q': "onRequest RIL_REQUEST_GET_IMSI (view d) a q = Done () q'"
    "acts q' = acts q @ [Complete a RIL_E_SUCCESS (PStr (Some imsi))]"
    using imsi_run [OF assms(4-7)] by blast
  from one_completion_answers [OF t(1), of "[]" "[]"] entered_completes [OF t(1), of RIL_E_SUCCESS "PStr (Some imsi)"] obtain u ts' where
    u: "RIL_onRequestComplete_impl (Some a) RIL_E_SUCCESS (PStr (Some imsi)) t = Done () u"
      "sent u = sent t @ [MResponse slot serial RESPONSE_SOLICITED RIL_E_SUCCESS (PStr (Some imsi))]"
      "requests u a = None" "lib_ok u ts' ps L" by blast
  have "getImsiForApp (reference_vendor view q) slot serial aid s = Done () u"
    using vendor_runs [of RIL_REQUEST_GET_IMSI view d a q q' slot] q' u(1) d by (simp add: andthen_def bnd_def ret_def)
  moreover have "getIMSIForAppResponse slot RESPONSE_SOLICITED serial RIL_E_SUCCESS (Some (ObjStr imsi)) len w
      = Done () (w\<lparr>heard := heard w @ [(slot, ''getIMSIForAppResponse'',
          [HInfo (populateResponseInfo serial RESPONSE_SOLICITED RIL_E_SUCCESS), HStr imsi])]\<rparr>)"
    using assms(8,9)
    by (simp add: getIMSIForAppResponse_def tell_string_def with_response_def response_string_def all_up_def cast_def
        bnd_def gets_def ret_def whenever_def tell_run)
  ultimately show ?thesis using u t(2) row_imsi by auto
qed

theorem identity_reaches_client_witness:
  "\<exists>u. getImsiForApp (reference_vendor (\<lambda>_. DNone) imsi_ril) 0 77 (hstr ''a'') (lib_init 1 12 [Some 500, Some 600, Some 700]) = Done () u
    \<and> sent u = [MResponse 0 77 RESPONSE_SOLICITED RIL_E_SUCCESS (PStr (Some ''310260''))] \<and> requests u 500 = None"
  using identity_reaches_client [OF lib_init_ok lib_init_fields(2) _ imsi_ril_ok svc_init_up(1,2)] by simp blast


section \<open>The calls\<close>

text \<open>A call as the vendor library leaves it in memory: it sets all to zero that it does not know.\<close>

definition in_memory :: "RIL_Call \<Rightarrow> RIL_Call_full" where
  "in_memory c = RIL_Call.extend c \<lparr>als = 0, isVoicePrivacy = 0, numberPresentation = 0, call_name = None,
     namePresentation = 0, uusInfo = None\<rparr>"

text \<open>The call that the client hears of.\<close>

definition client_call :: "RIL_Call \<Rightarrow> Call" where
  "client_call c = \<lparr>hl_state = call_state c, hl_index = call_index c, hl_toa = toa c, hl_isMpty = (isMpty c \<noteq> 0),
     hl_isMT = (isMT c \<noteq> 0), hl_als = 0, hl_isVoice = isVoice c, hl_isVoicePrivacy = False,
     hl_number = (case number c of None \<Rightarrow> [] | Some n \<Rightarrow> n), hl_numberPresentation = 0, hl_name = [],
     hl_namePresentation = 0, hl_uusInfo = None\<rparr>"

lemma convert_in_memory: "convert_call (in_memory c) = client_call c"
  by (cases c) (simp add: convert_call_def in_memory_def client_call_def RIL_Call.defs RIL_Call_full.defs
      convertCharPtrToHidlString_def convert_uus_def)

lemma pointed_all: "pointed (map (Some \<circ> f) xs) = ret (map f xs)"
  by (induction xs) (simp_all add: bnd_def ret_def)

lemma calls_told:
  assumes "client_ok w = []" and "all_up slot w" and "sizeof_pointer w > 0"
  shows "getCurrentCallsResponse slot ty serial RIL_E_SUCCESS (Some (ObjCalls (map (Some \<circ> in_memory) cs)))
      (length cs * sizeof_pointer w) w
    = Done () (w\<lparr>heard := heard w @ [(slot, ''getCurrentCallsResponse'',
        [HInfo (populateResponseInfo serial ty RIL_E_SUCCESS), HCalls (map client_call cs)])]\<rparr>)"
proof -
  have "map convert_call (map in_memory cs) = map client_call cs" by (simp add: convert_in_memory)
  moreover have "first_n (length cs) (map (Some \<circ> in_memory) cs) = ret (map (Some \<circ> in_memory) cs)"
    by (simp add: first_n_def)
  ultimately show ?thesis
    using assms
    by (simp add: getCurrentCallsResponse_def tell_pointers_def with_response_def all_up_def tell_result_def checked_def
        bad_list_def elements_def cast_def pointed_all bnd_def gets_def ret_def whenever_def tell_run convert_in_memory)
qed

lemma calls_run:
  assumes "sState q = RADIO_STATE_ON" and "gets_reply (map clcc_line cs) f later q" and "isFinalResponseSuccess f"
    and "\<forall>c\<in>set cs. call_ok c" and "\<not> USE_TI_COMMANDS (env q)" and "\<not> POLL_CALL_STATE (env q)"
  shows "\<exists>q' ys. onRequest RIL_REQUEST_GET_CURRENT_CALLS data tok q = Done () q'
    \<and> acts q' = acts q @ [] @ Complete tok RIL_E_SUCCESS (PCalls cs) # ys \<and> list_all notice ys"
proof -
  have "onRequest RIL_REQUEST_GET_CURRENT_CALLS data tok q = requestGetCurrentCalls tok q"
    using assms(1) by (simp add: onRequest_def dispatch_def bnd_def gets_def)
  with call_list_read [OF assms(2-6), of tok] show ?thesis by (auto simp: notice_def completes_def)
qed

text \<open>
  C9: the calls go through all the layers: the client asks for them, the reference vendor library has the
  modem list them, one \<^verbatim>\<open>+CLCC\<close> line each, and completes the request; the library sends one response with them
  and the client's serial number, and the function of the request's row hands the client exactly these calls, every
  field and the order kept.
\<close>

theorem calls_reach_client:
  assumes "lib_ok s ts ps L" and "allocs s = Some a # later" and "requests s a = None"
    and "sState q = RADIO_STATE_ON" and "gets_reply (map clcc_line cs) f later' q" and "isFinalResponseSuccess f"
    and "\<forall>c\<in>set cs. call_ok c" and "\<not> USE_TI_COMMANDS (env q)" and "\<not> POLL_CALL_STATE (env q)"
    and "client_ok w = []" and "all_up slot w" and "sizeof_pointer w > 0"
  shows "\<exists>u ts'. getCurrentCalls (reference_vendor view q) slot serial s = Done () u
    \<and> responses u = responses s @ [MResponse slot serial RESPONSE_SOLICITED RIL_E_SUCCESS (PCalls cs)]
    \<and> requests u a = None \<and> lib_ok u ts' ps L
    \<and> responseFunction (s_commands ! 9) = Some ''getCurrentCallsResponse''
    \<and> getCurrentCallsResponse slot RESPONSE_SOLICITED serial RIL_E_SUCCESS (Some (ObjCalls (map (Some \<circ> in_memory) cs)))
          (length cs * sizeof_pointer w) w
        = Done () (w\<lparr>heard := heard w @ [(slot, ''getCurrentCallsResponse'',
            [HInfo (populateResponseInfo serial RESPONSE_SOLICITED RIL_E_SUCCESS), HCalls (map client_call cs)])]\<rparr>)"
proof -
  have call: "radio_call (callbacks_version s) slot serial RIL_REQUEST_GET_CURRENT_CALLS (\<lambda>vendor. getCurrentCalls vendor slot serial)"
    by (rule radio_call.intros)
  obtain t' where "addRequestToList serial slot 9 s = Done (Some a) t'"
    using add_request_ok [OF assms(1-3), of 9 _ slot serial] by auto
  then have "\<not> (\<forall>vendor. getCurrentCalls vendor slot serial s = Done () t)" for t
    by (auto intro!: exI [of _ "\<lambda>_ _ _ _. crash AssertFail"]
        simp: getCurrentCalls_def dispatchVoid_def with_request_def bnd_def crash_def)
  with call_served [OF call, unfolded served_once_def, rule_format, OF refl assms(1,2,3)] obtain t d where
    t: "entered s ts ps L serial slot RIL_REQUEST_GET_CURRENT_CALLS a t" "sent t = sent s"
    and d: "getCurrentCalls (reference_vendor view q) slot serial s
      = reference_vendor view q RIL_REQUEST_GET_CURRENT_CALLS d a slot t" by blast
  obtain q' ys where q': "onRequest RIL_REQUEST_GET_CURRENT_CALLS (view d) a q = Done () q'"
    "acts q' = acts q @ [] @ Complete a RIL_E_SUCCESS (PCalls cs) # ys" "list_all notice ys"
    using calls_run [OF assms(4-9), of "view d" a] by blast
  from one_completion_answers [OF t(1) list.pred_inject(1) q'(3), of RIL_E_SUCCESS "PCalls cs"] obtain u ts' where
    u: "seqs (map s_rilEnv ([] @ Complete a RIL_E_SUCCESS (PCalls cs) # ys)) t = Done () u"
      "responses u = responses t @ [MResponse slot serial RESPONSE_SOLICITED RIL_E_SUCCESS (PCalls cs)]"
      "requests u a = None" "lib_ok u ts' ps L" by blast
  have "getCurrentCalls (reference_vendor view q) slot serial s = Done () u"
    using u(1) by (simp add: d vendor_runs [where view = view and data = d, OF q'(1)] q'(2))
  then show ?thesis
    using u(2-4) t(2) row_9 calls_told [OF assms(10-12)] by (auto simp: responses_def)
qed

text \<open>A modem with one incoming call.\<close>

definition calls_ril :: ril where
  "calls_ril = sample_ril RADIO_STATE_ON [([], False), (map Some ([clcc_line sample_call] @ [''OK'']), False)]"

theorem calls_reach_client_witness:
  "\<exists>u. getCurrentCalls (reference_vendor (\<lambda>_. DNone) calls_ril) 0 77 (lib_init 1 12 [Some 500]) = Done () u
    \<and> responses u = [MResponse 0 77 RESPONSE_SOLICITED RIL_E_SUCCESS (PCalls [sample_call])]
    \<and> getCurrentCallsResponse 0 RESPONSE_SOLICITED 77 RIL_E_SUCCESS (Some (ObjCalls [Some (in_memory sample_call)])) 8 (svc_init 12 8)
        = Done () ((svc_init 12 8)\<lparr>heard := [(0, ''getCurrentCallsResponse'',
            [HInfo (populateResponseInfo 77 RESPONSE_SOLICITED RIL_E_SUCCESS), HCalls [client_call sample_call]])]\<rparr>)"
proof -
  have q: "sState calls_ril = RADIO_STATE_ON" "gets_reply (map clcc_line [sample_call]) ''OK'' [] calls_ril"
    "\<not> USE_TI_COMMANDS (env calls_ril)" "\<not> POLL_CALL_STATE (env calls_ril)"
    unfolding calls_ril_def by simp_all
  have c: "\<forall>c\<in>set [sample_call]. call_ok c" using sample_call_ok by simp
  have p: "sizeof_pointer (svc_init 12 8) > 0" by (simp add: svc_init_def)
  let ?l = "lib_init 1 12 [Some 500]"
  have l: "allocs ?l = Some 500 # []" "requests ?l 500 = None" by simp_all
  have up: "all_up 0 (svc_init 12 8)" by (rule svc_init_up)
  from calls_reach_client [OF lib_init_ok l q(1,2) OK_success c q(3,4) svc_init_up(1) up p, of "\<lambda>_. DNone" 77]
  obtain u where u: "getCurrentCalls (reference_vendor (\<lambda>_. DNone) calls_ril) 0 77 ?l = Done () u"
    "responses u = responses ?l @ [MResponse 0 77 RESPONSE_SOLICITED RIL_E_SUCCESS (PCalls [sample_call])]"
    "getCurrentCallsResponse 0 RESPONSE_SOLICITED 77 RIL_E_SUCCESS (Some (ObjCalls (map (Some \<circ> in_memory) [sample_call])))
        (length [sample_call] * sizeof_pointer (svc_init 12 8)) (svc_init 12 8)
      = Done () ((svc_init 12 8)\<lparr>heard := heard (svc_init 12 8) @ [(0, ''getCurrentCallsResponse'',
          [HInfo (populateResponseInfo 77 RESPONSE_SOLICITED RIL_E_SUCCESS), HCalls (map client_call [sample_call])])]\<rparr>)"
    by blast
  have "sizeof_pointer (svc_init 12 8) = 8" by (simp add: svc_init_def)
  with u show ?thesis by (auto simp: responses_def svc_init_up)
qed

end
