(* ===== verification/Spec2Isabelle.thy ===== *)
theory Spec2Isabelle
  imports RecordStream AtReadline Rild LibLock LibNames SapQueue Stack
begin

text \<open>
  The radio interface layer of Android: \<^verbatim>\<open>rild\<close>, the library \<^verbatim>\<open>libril\<close> between the telephony
  framework and a vendor library, and the reference vendor library, which drives a modem over AT
  commands.

  \<^bold>\<open>How the program works.\<close> \<^verbatim>\<open>rild/rild.c\<close> loads the vendor library and gives it its arguments and a table
  of the library's functions. A client, the telephony framework, calls a method of the radio service
  (\<^verbatim>\<open>libril/ril_service.cpp\<close>). The service enters a request into the list of pending ones
  (\<^verbatim>\<open>libril/ril.cpp\<close>), copies the arguments into the structures of \<^verbatim>\<open>telephony/ril.h\<close> and calls the vendor
  library's \<^verbatim>\<open>onRequest\<close>. The vendor library (\<^verbatim>\<open>reference-ril/reference-ril.c\<close>) sends AT commands through
  the channel (\<^verbatim>\<open>reference-ril/atchannel.c\<close>), takes the answers apart with the tokenizer
  (\<^verbatim>\<open>reference-ril/at_tok.c\<close>) and completes the request through \<^verbatim>\<open>RIL_onRequestComplete\<close>, which takes it
  off the list and calls the function that the command table names for it; that function converts the
  data back and calls the client. What the modem sends unasked goes the same way through
  \<^verbatim>\<open>RIL_onUnsolicitedResponse\<close>. Timed callbacks and the wake lock's time-out run on the library's event
  loop (\<^verbatim>\<open>libril/ril_event.cpp\<close>). The SIM access profile has a service, a socket and a queue of its own
  (\<^verbatim>\<open>libril/sap_service.cpp\<close>, \<^verbatim>\<open>RilSapSocket.cpp\<close>, \<^verbatim>\<open>rilSocketQueue.h\<close>).

  \<^bold>\<open>Theories, shared.\<close>
  \<^item> Prelude: outcomes of programs (a value and a state, a fault, waiting for ever), their
    composition, the locale \<^verbatim>\<open>frame\<close> of relations that programs keep, 32-bit integers.
  \<^item> CLib: the functions of the C library and \<^verbatim>\<open>reference-ril/misc.c\<close>. CLoop: C loops as programs.

  \<^bold>\<open>Theories, the reference vendor library.\<close>
  \<^item> AtTok: \<^verbatim>\<open>at_tok.c\<close>. AtReadline: \<^verbatim>\<open>readline\<close> over its static buffer. AtChannel: the rest of
    \<^verbatim>\<open>atchannel.c\<close>; the state is the record \<^verbatim>\<open>at_chan\<close> of its static variables. The commands of
    other threads meet the reader in an explicit schedule (\<^verbatim>\<open>sched\<close>): for each point where
    \<^verbatim>\<open>s_commandmutex\<close> is free, the lines the reader handles there and whether the wait times out.
    Every division of the lines among these points is covered, since the schedule is arbitrary.
    The locale \<^verbatim>\<open>channel_client\<close> states what the channel asks of its handlers; the reference RIL's
    interpret it in RilState.
  \<^item> RilTypes, RilState: the data of \<^verbatim>\<open>reference-ril.c\<close>, the radio state, unsolicited lines. The
    state \<^verbatim>\<open>ril\<close> extends \<^verbatim>\<open>at_chan\<close> by the static variables, the surroundings and the log \<^verbatim>\<open>acts\<close> of
    calls into the library.
  \<^item> RilSim, RilCalls, RilSms, RilNetwork, RilData, RilCdma: the request handlers, one definition
    for each C function, inlined cases of \<^verbatim>\<open>onRequest\<close> under names of their own.
  \<^item> RilDispatch: \<^verbatim>\<open>onRequest\<close>, the initialisation, the main loop, \<^verbatim>\<open>RIL_Init\<close>.
  \<^item> RilComplete counts completions; RilInvariant proves what every program of the RIL keeps (locale
    \<^verbatim>\<open>ril_frame\<close>); RilSystem has the system as a step relation (\<^verbatim>\<open>ril_step\<close>, \<^verbatim>\<open>reachable\<close>).

  \<^bold>\<open>Theories, the library.\<close>
  \<^item> EventList, RilEvent, EventLoop, EventRound: the circular lists of \<^verbatim>\<open>ril_event.cpp\<close> in an explicit
    store, the operations and a round of the loop, their invariant; what a callback may do is the locale
    \<^verbatim>\<open>event_handlers\<close>, which LibLoop interprets on the library's callbacks.
  \<^item> RilTables: the two command tables. LibState: the state \<^verbatim>\<open>lib\<close> extends the loop's; requests and timed
    callbacks live in a heap whose addresses an allocator that may fail gives out. LibRequests, LibWake,
    LibApi: the functions of \<^verbatim>\<open>ril.cpp\<close>. LibComplete, LibLoop, LibSystem, LibLock: what they guarantee
    alone and over all reachable states. LibNames: the names for the log.
  \<^item> SapState, SapReply, SapSocket, SapService, SapQueue: the SIM access profile; the encoding of its
    messages is a parameter.

  \<^bold>\<open>Theories, the radio service.\<close>
  \<^item> SvcTypes, SvcDispatch, SvcSimple, SvcRequests: the structures that the service fills in and its methods,
    each a program over a vendor library that is a parameter. SvcServed, SvcCalls: what becomes of a call
    (the relation \<^verbatim>\<open>radio_call\<close> lists them).
  \<^item> SvcMemory, SvcClient: the data a vendor library hands back, as typed objects of which a read of the wrong
    type or past the end is a fault, and the client: what it has heard, its callbacks, whether it is alive.
    SvcConvert, SvcResponses, SvcLists, SvcPlain, SvcIndications, SvcReports: the conversions and the 135
    response and 49 indication functions.
  \<^item> SvcAnswers, SvcNotices, SvcDelivery: a small calculus for what such a function tells the client, and the
    properties of all of them at once. SvcOperator: the network codes of \<^verbatim>\<open>ril_mcc.h\<close> and \<^verbatim>\<open>ril_mnc.h\<close>.
    SvcLink: the service with dying clients and with the library.

  \<^bold>\<open>The composition.\<close> Stack puts the service over the library over the reference vendor library: the table
  \<^verbatim>\<open>s_rilEnv\<close> turns the vendor library's calls into the library's functions. Rild: \<^verbatim>\<open>rild/rild.c\<close>.

  \<^bold>\<open>What is shown.\<close> Through the whole stack, every call of a client is answered once with its serial number,
  a refusal reaches the client, the subscriber's identity and the bytes of a short message arrive as the modem
  sent them. Layer by layer: the tokenizer reads back what a modem prints; \<^verbatim>\<open>readline\<close> yields the lines of the
  byte stream and the record stream its records, for every chunking. A command exchange returns
  the lines that answer it, in order, and leaves the rest to the unsolicited handler; whatever
  happens, no command stays pending. The reference vendor library completes a request exactly once, with
  three listed exceptions. Every reachable state keeps the invariant that a
  closed channel means an unavailable radio. The event loop calls what is due and no more and never
  faults; every reachable state of the library keeps its lists, its heap and a time-out for a held wake
  lock. A method of the service hands its request on once or answers it with an error once. A response
  function that returns has told the client once; an indication with data of its type is told once, with
  any data at most once. Faults (a read through NULL, freed memory or out of bounds, a failed
  assertion) are outcomes, and theorems say when they occur: where the code has such a
  defect, a theorem exhibits it.

  \<^bold>\<open>Bounds and fuel.\<close> Loops over lists, lines and buffers are total functions; the loops of the event
  loop are \<^verbatim>\<open>while\<close> loops whose end is proved under the invariant. Waiting for a modem
  that never answers is the outcome \<^verbatim>\<open>Hang\<close>: the schedule has run out. Only \<^verbatim>\<open>rx_lines\<close> and
  \<^verbatim>\<open>rs_drain\<close>, which call \<^verbatim>\<open>readline\<close> and \<^verbatim>\<open>record_stream_get_next\<close> until they end, take a number of
  calls; the theorems give one that is enough. Pointers are of 4 or 8 bytes; the sizes of structures are
  computed from that.

  \<^bold>\<open>Not modelled.\<close> Registration of the HIDL services and their threads, creation of threads, signals, sleeps
  and logging have no counterpart; the types that the build generates from the HIDL interfaces have the
  numbers of \<^verbatim>\<open>ril.h\<close> where the code casts between the two. A client has the callbacks of one version of the
  interface, for answers and for indications alike. Of the C structures the fields that the code
  reads or writes are kept. Freed memory is tracked where
  the code shares it: requests, timed callbacks, SAP headers, a variable that was never assigned.
  \<^verbatim>\<open>ril_service.h\<close> declares the functions of \<^verbatim>\<open>ril_service.cpp\<close>; \<^verbatim>\<open>ril_cdma_sms.h\<close> has, beside the
  structures of a CDMA message, those of a decoder that no code here uses. The encoding of the SAP messages
  (nanopb) is a parameter.
\<close>

end
